(* ===== verification/Prelude.thy ===== *)
theory Prelude
  imports Main
begin

text \<open>
  What every component shares.

  \<^item> The result of a request: \<open>app_error + 'a\<close>. The constructors of \<open>app_error\<close> are the
    exception classes of \<^verbatim>\<open>backend/app/core/exceptions.py\<close>; the text of a message is not kept,
    its class is (it is what the handlers of \<^verbatim>\<open>backend/app/main.py\<close> turn into an HTTP status).
    \<open>IntegrityError\<close> is SQLAlchemy's error for a violated constraint, \<open>RequestValidationError\<close> the
    framework's for a payload its schema rejects.
  \<^item> The combinators a service method is written with: \<open>require\<close> (an \<open>if not ...: raise\<close>),
    \<open>fetch\<close> (a query whose \<open>None\<close> raises) and \<open>and_then\<close> (the call of a helper that may raise).
    Their inversion rules are the collection \<open>res_simps\<close>: they turn "the handler returned this"
    into the list of the guards it passed.
  \<^item> A table: a list of rows in storage order. \<open>scalar\<close> is \<open>db.scalar(select ...)\<close> (the first
    match), \<open>put\<close> writes a changed row back under its primary key, \<open>latest_by\<close> is
    \<open>ORDER BY ... DESC LIMIT 1\<close>.
  \<^item> Python's \<open>str.strip\<close> and \<open>str.lower\<close> and SQL's \<open>trim\<close>.
\<close>

section \<open>Collections\<close>

named_theorems res_simps \<open>inversion of the result combinators\<close>
named_theorems table_simps \<open>facts on rows of a table\<close>
named_theorems handler_defs \<open>the definitions of the service methods of a component\<close>
named_theorems helper_defs \<open>the definitions of the checks and queries the methods call\<close>

section \<open>Basic types\<close>

text \<open>
  Identifiers are \<open>uuid.uuid4()\<close> values; times are microseconds since the epoch in UTC;
  money is a whole number of paise (every amount has two decimals: \<open>Numeric(12, 2)\<close> columns,
  \<open>decimal_places=2\<close> in the request schemas, so Python's \<open>Decimal\<close> sums are exact); a date is
  its ordinal.
\<close>

type_synonym uuid = nat
type_synonym time = int
type_synonym money = int
type_synonym date = int

definition hours :: "int \<Rightarrow> time" where
  "hours n = n * 3600000000"

definition days :: "int \<Rightarrow> time" where
  "days n = n * 86400000000"

section \<open>Errors\<close>

datatype app_error =
    BadRequestError
  | UnauthorizedError
  | InvalidCredentialsError
  | TokenExpiredError
  | InvalidTokenError
  | EmailNotVerifiedError
  | AccountLockedError
  | AccountInactiveError
  | ForbiddenError
  | InsufficientRoleError
  | ResourceOwnershipError
  | WorkflowStateError
  | NotFoundError
  | ConflictError
  | EmailAlreadyExistsError
  | HallConflictError
  | OptimisticLockError
  | DuplicateSubmissionError
  | BusinessRuleError
  | InvalidWorkflowTransitionError
  | AdvanceBookingViolationError
  | BudgetCapExceededError
  | SettlementStaleDataError
  | RateLimitExceededError
  | InternalError
  | IntegrityError
  | RequestValidationError

text \<open>
  The HTTP status of an exception, by the handler that Starlette selects along the class
  hierarchy: the exact class first, then its bases.
\<close>

fun http_status :: "app_error \<Rightarrow> nat" where
  "http_status RateLimitExceededError = 429"
| "http_status InvalidCredentialsError = 401"
| "http_status TokenExpiredError = 401"
| "http_status InvalidTokenError = 401"
| "http_status EmailNotVerifiedError = 401"
| "http_status AccountLockedError = 401"
| "http_status AccountInactiveError = 401"
| "http_status UnauthorizedError = 401"
| "http_status InsufficientRoleError = 403"
| "http_status ResourceOwnershipError = 403"
| "http_status WorkflowStateError = 403"
| "http_status ForbiddenError = 403"
| "http_status NotFoundError = 404"
| "http_status InvalidWorkflowTransitionError = 409"
| "http_status HallConflictError = 409"
| "http_status OptimisticLockError = 409"
| "http_status SettlementStaleDataError = 409"
| "http_status ConflictError = 409"
| "http_status EmailAlreadyExistsError = 409"
| "http_status DuplicateSubmissionError = 409"
| "http_status AdvanceBookingViolationError = 422"
| "http_status BudgetCapExceededError = 422"
| "http_status BusinessRuleError = 422"
| "http_status BadRequestError = 400"
| "http_status InternalError = 500"
| "http_status IntegrityError = 500"
| "http_status RequestValidationError = 422"

text \<open>The \<open>status_code\<close> class attribute of the exception classes (inherited where not set).\<close>

fun class_status_code :: "app_error \<Rightarrow> nat" where
  "class_status_code BadRequestError = 400"
| "class_status_code UnauthorizedError = 401"
| "class_status_code InvalidCredentialsError = 401"
| "class_status_code TokenExpiredError = 401"
| "class_status_code InvalidTokenError = 401"
| "class_status_code EmailNotVerifiedError = 401"
| "class_status_code AccountLockedError = 401"
| "class_status_code AccountInactiveError = 401"
| "class_status_code ForbiddenError = 403"
| "class_status_code InsufficientRoleError = 403"
| "class_status_code ResourceOwnershipError = 403"
| "class_status_code WorkflowStateError = 403"
| "class_status_code NotFoundError = 404"
| "class_status_code ConflictError = 409"
| "class_status_code EmailAlreadyExistsError = 409"
| "class_status_code HallConflictError = 409"
| "class_status_code OptimisticLockError = 409"
| "class_status_code DuplicateSubmissionError = 409"
| "class_status_code BusinessRuleError = 422"
| "class_status_code InvalidWorkflowTransitionError = 422"
| "class_status_code AdvanceBookingViolationError = 422"
| "class_status_code BudgetCapExceededError = 422"
| "class_status_code SettlementStaleDataError = 422"
| "class_status_code RateLimitExceededError = 429"
| "class_status_code InternalError = 500"
| "class_status_code IntegrityError = 500"
| "class_status_code RequestValidationError = 422"

section \<open>Result combinators\<close>

type_synonym 'a res = "app_error + 'a"

definition require :: "bool \<Rightarrow> app_error \<Rightarrow> 'a res \<Rightarrow> 'a res" where
  "require c e k = (if c then k else Inl e)"

definition fetch :: "'a option \<Rightarrow> app_error \<Rightarrow> ('a \<Rightarrow> 'b res) \<Rightarrow> 'b res" where
  "fetch q e k = (case q of None \<Rightarrow> Inl e | Some x \<Rightarrow> k x)"

definition and_then :: "'a res \<Rightarrow> ('a \<Rightarrow> 'b res) \<Rightarrow> 'b res" where
  "and_then r k = (case r of Inl e \<Rightarrow> Inl e | Inr x \<Rightarrow> k x)"

lemma require_Inr [res_simps]: "require c e k = Inr y \<longleftrightarrow> c \<and> k = Inr y"
  by (simp add: require_def)

lemma fetch_Inr [res_simps]: "fetch q e k = Inr y \<longleftrightarrow> (\<exists>x. q = Some x \<and> k x = Inr y)"
  by (simp add: fetch_def split: option.splits)

lemma and_then_Inr [res_simps]: "and_then r k = Inr y \<longleftrightarrow> (\<exists>x. r = Inr x \<and> k x = Inr y)"
  by (simp add: and_then_def split: sum.splits)

lemma if_Inr [res_simps]: "(if c then Inl e else k) = Inr y \<longleftrightarrow> \<not> c \<and> k = Inr y"
  by simp

lemma require_True [simp]: "require True e k = k"
  by (simp add: require_def)

lemma require_False [simp]: "require False e k = Inl e"
  by (simp add: require_def)

lemma fetch_Some [simp]: "fetch (Some x) e k = k x"
  by (simp add: fetch_def)

lemma fetch_None [simp]: "fetch None e k = Inl e"
  by (simp add: fetch_def)

lemma and_then_simps [simp]:
  "and_then (Inr x) k = k x"
  "and_then (Inl e) k = Inl e"
  by (simp_all add: and_then_def)

text \<open>A result that is no error.\<close>

lemma Inr_projr: "\<not> isl r \<Longrightarrow> r = Inr (projr r)"
  by (cases r) auto

section \<open>Tables\<close>

definition scalar :: "('r \<Rightarrow> bool) \<Rightarrow> 'r list \<Rightarrow> 'r option" where
  "scalar p t = find p t"

definition put :: "('r \<Rightarrow> uuid) \<Rightarrow> 'r \<Rightarrow> 'r list \<Rightarrow> 'r list" where
  "put key r t = map (\<lambda>x. if key x = key r then r else x) t"

definition remove_row :: "('r \<Rightarrow> uuid) \<Rightarrow> 'r \<Rightarrow> 'r list \<Rightarrow> 'r list" where
  "remove_row key r t = filter (\<lambda>x. key x \<noteq> key r) t"

fun latest_by :: "('r \<Rightarrow> int) \<Rightarrow> 'r list \<Rightarrow> 'r option" where
  "latest_by f [] = None"
| "latest_by f (x # xs) =
     (case latest_by f xs of
        None \<Rightarrow> Some x
      | Some y \<Rightarrow> if f x > f y then Some x else Some y)"

lemma scalar_Some [table_simps]: "scalar p t = Some r \<Longrightarrow> r \<in> set t \<and> p r"
  by (auto simp: scalar_def find_Some_iff)

lemma scalar_None [table_simps]: "scalar p t = None \<longleftrightarrow> (\<forall>r\<in>set t. \<not> p r)"
  by (auto simp: scalar_def find_None_iff)

lemma scalar_simps [simp]:
  "scalar p [] = None"
  "scalar p (x # xs) = (if p x then Some x else scalar p xs)"
  by (simp_all add: scalar_def)

lemma latest_by_in: "latest_by f t = Some r \<Longrightarrow> r \<in> set t"
  by (induction t arbitrary: r) (auto split: option.splits if_splits)

lemma latest_by_max: "latest_by f t = Some r \<Longrightarrow> x \<in> set t \<Longrightarrow> f x \<le> f r"
proof (induction t arbitrary: r x)
  case Nil
  then show ?case by simp
next
  case (Cons y ys)
  show ?case
  proof (cases "latest_by f ys")
    case None
    then have "ys = []" by (cases ys) (auto split: option.splits if_splits)
    with Cons.prems show ?thesis by simp
  next
    case (Some z)
    with Cons.prems Cons.IH [OF Some] show ?thesis
      by (force split: if_splits)
  qed
qed

lemma in_put [table_simps]:
  "x \<in> set (put key r t) \<longleftrightarrow>
     (x \<in> set t \<and> key x \<noteq> key r) \<or> (x = r \<and> (\<exists>y\<in>set t. key y = key r))"
  by (auto simp: put_def)

lemma map_key_put [simp]: "map key (put key r t) = map key t"
  by (simp add: put_def)

lemma put_keys [simp]: "key ` set (put key r t) = key ` set t"
  by (metis map_key_put set_map)

text \<open>A column that the written row agrees on is the column it was.\<close>

lemma map_put:
  "distinct (map key t) \<Longrightarrow> x \<in> set t \<Longrightarrow> key r = key x \<Longrightarrow> f r = f x \<Longrightarrow> map f (put key r t) = map f t"
  by (auto simp: put_def distinct_map inj_on_def)

lemma put_rows: "x \<in> set (put key r t) \<Longrightarrow> x \<in> set t \<or> x = r"
  by (auto simp: put_def)

text \<open>Writing a changed row leaves every other row of the table in place.\<close>

lemma put_keeps:
  "distinct (map key t) \<Longrightarrow> e \<in> set t \<Longrightarrow> key r = key e \<Longrightarrow> x \<in> set t \<Longrightarrow> x \<noteq> e \<Longrightarrow>
     x \<in> set (put key r t)"
  by (auto simp: in_put distinct_map inj_on_def)

lemma put_written: "e \<in> set t \<Longrightarrow> key r = key e \<Longrightarrow> r \<in> set (put key r t)"
  by (auto simp: in_put)

lemma length_put [simp]: "length (put key r t) = length t"
  by (simp add: put_def)

lemma put_simps:
  "put key r [] = []"
  "put key r (x # xs) = (if key x = key r then r else x) # put key r xs"
  by (simp_all add: put_def)

lemma in_remove_row [table_simps]: "x \<in> set (remove_row key r t) \<longleftrightarrow> x \<in> set t \<and> key x \<noteq> key r"
  by (auto simp: remove_row_def)

text \<open>A property of all rows survives the write of a row that has it, a new row that has it, and a deletion.\<close>

lemma put_put [simp]: "key r = key r' \<Longrightarrow> put key r (put key r' t) = put key r t"
  by (induction t) (auto simp: put_simps)

lemma put_self: "distinct (map key t) \<Longrightarrow> r \<in> set t \<Longrightarrow> put key r t = t"
  by (auto simp: put_def distinct_map inj_on_def intro!: map_idI)

lemma ball_put: "(\<forall>x\<in>set t. P x) \<Longrightarrow> P r \<Longrightarrow> (\<forall>x\<in>set (put key r t). P x)"
  by (auto simp: put_def)

lemma ball_snoc: "(\<forall>x\<in>set t. P x) \<Longrightarrow> P r \<Longrightarrow> (\<forall>x\<in>set (t @ [r]). P x)"
  by auto

lemma ball_remove: "(\<forall>x\<in>set t. P x) \<Longrightarrow> (\<forall>x\<in>set (remove_row key r t). P x)"
  by (auto simp: remove_row_def)

definition row :: "('r \<Rightarrow> uuid) \<Rightarrow> uuid \<Rightarrow> 'r list \<Rightarrow> 'r option" where
  "row key i t = scalar (\<lambda>r. key r = i) t"

lemma row_Nil [simp]: "row key i [] = None"
  by (simp add: row_def)

lemma row_Cons [simp]: "row key i (x # xs) = (if key x = i then Some x else row key i xs)"
  by (simp add: row_def)

lemma row_key: "row key i t = Some r \<Longrightarrow> key r = i \<and> r \<in> set t"
  by (auto simp: row_def dest: scalar_Some)

lemma row_put: "row key i (put key r t) =
   (if i = key r then (if row key i t = None then None else Some r) else row key i t)"
  by (induction t) (auto simp: put_simps put_def)

lemma row_snoc: "row key i (t @ [r]) =
   (case row key i t of Some x \<Rightarrow> Some x | None \<Rightarrow> (if key r = i then Some r else None))"
  by (induction t) auto

lemma row_remove: "row key i (remove_row key r t) = (if i = key r then None else row key i t)"
  by (induction t) (auto simp: remove_row_def)

lemma row_unique:
  "distinct (map key t) \<Longrightarrow> r \<in> set t \<Longrightarrow> row key (key r) t = Some r"
  by (induction t) (auto simp: image_iff)

text \<open>A row found by any query is the row stored under its key.\<close>

lemma scalar_row:
  "distinct (map key t) \<Longrightarrow> scalar p t = Some r \<Longrightarrow> row key (key r) t = Some r"
  by (auto dest: scalar_Some intro: row_unique)

text \<open>
  How a request may change a table: every row of the new table is a row of the old one, a new row, or the
  result of one step of the row with its key.
\<close>

definition evolves ::
    "('r \<Rightarrow> uuid) \<Rightarrow> ('r \<Rightarrow> bool) \<Rightarrow> ('r \<Rightarrow> 'r \<Rightarrow> bool) \<Rightarrow> 'r list \<Rightarrow> 'r list \<Rightarrow> bool" where
  "evolves key new step t t' \<longleftrightarrow>
     (\<forall>y\<in>set t'. y \<in> set t \<or> new y \<or> (\<exists>x\<in>set t. key x = key y \<and> step x y))"

lemma evolves_refl [simp, intro]: "evolves key new step t t"
  by (simp add: evolves_def)

lemma evolves_put:
  "x \<in> set t \<Longrightarrow> key y = key x \<Longrightarrow> step x y \<Longrightarrow> evolves key new step t (put key y t)"
  unfolding evolves_def using put_rows by metis

lemma evolves_snoc: "new y \<Longrightarrow> evolves key new step t (t @ [y])"
  by (auto simp: evolves_def)

lemma evolves_remove: "evolves key new step t (remove_row key x t)"
  by (auto simp: evolves_def remove_row_def)

lemma evolvesI:
  "(\<And>y. y \<in> set t' \<Longrightarrow> y \<in> set t \<or> new y \<or> (\<exists>x\<in>set t. key x = key y \<and> step x y)) \<Longrightarrow>
     evolves key new step t t'"
  by (auto simp: evolves_def)

text \<open>A row in a state of its own survives the write or the deletion of a row that is in another one.\<close>

lemma final_put:
  assumes "distinct (map key t)" and "x \<in> set t" and "e \<in> set t" and "P x" and "\<not> P e" and "key r = key e"
  shows "x \<in> set (put key r t)"
proof -
  from assms(4,5) have "x \<noteq> e" by blast
  with put_keeps [OF assms(1,3,6,2)] show ?thesis .
qed

lemma final_remove:
  assumes "distinct (map key t)" and "x \<in> set t" and "e \<in> set t" and "P x" and "\<not> P e"
  shows "x \<in> set (remove_row key e t)"
proof -
  from assms(4,5) have "x \<noteq> e" by blast
  with assms(1-3) show ?thesis by (auto simp: in_remove_row distinct_map inj_on_def)
qed

section \<open>Strings\<close>

definition is_space :: "char \<Rightarrow> bool" where
  "is_space c = (let n = (of_char c :: nat) in (9 \<le> n \<and> n \<le> 13) \<or> (28 \<le> n \<and> n \<le> 32))"

definition lower_char :: "char \<Rightarrow> char" where
  "lower_char c =
     (let n = (of_char c :: nat) in if 65 \<le> n \<and> n \<le> 90 then char_of (n + 32) else c)"

definition strip_by :: "(char \<Rightarrow> bool) \<Rightarrow> string \<Rightarrow> string" where
  "strip_by p s = rev (dropWhile p (rev (dropWhile p s)))"

definition strip :: "string \<Rightarrow> string" where
  "strip s = strip_by is_space s"

definition sql_trim :: "string \<Rightarrow> string" where
  "sql_trim s = strip_by (\<lambda>c. c = CHR '' '') s"

definition lower :: "string \<Rightarrow> string" where
  "lower s = map lower_char s"

definition upper_char :: "char \<Rightarrow> char" where
  "upper_char c =
     (let n = (of_char c :: nat) in if 97 \<le> n \<and> n \<le> 122 then char_of (n - 32) else c)"

definition upper :: "string \<Rightarrow> string" where
  "upper s = map upper_char s"

text \<open>\<open>not s or not s.strip()\<close> on an optional string, and \<open>s.strip() if s else None\<close>.\<close>

definition blank :: "string option \<Rightarrow> bool" where
  "blank s = (case s of None \<Rightarrow> True | Some x \<Rightarrow> x = [] \<or> strip x = [])"

definition strip_opt :: "string option \<Rightarrow> string option" where
  "strip_opt s = (case s of None \<Rightarrow> None | Some x \<Rightarrow> if x = [] then None else Some (strip x))"

definition truthy :: "string option \<Rightarrow> bool" where
  "truthy s = (case s of None \<Rightarrow> False | Some x \<Rightarrow> x \<noteq> [])"

lemma dropWhile_hd_not: "(xs = [] \<or> \<not> p (hd xs)) \<Longrightarrow> dropWhile p xs = xs"
  by (cases xs) auto

lemma hd_dropWhile_not: "dropWhile p xs \<noteq> [] \<Longrightarrow> \<not> p (hd (dropWhile p xs))"
  by (rule hd_dropWhile)

text \<open>The ends of a stripped string are not stripped characters.\<close>

lemma strip_by_ends:
  assumes "strip_by p s \<noteq> []"
  shows "\<not> p (hd (strip_by p s)) \<and> \<not> p (last (strip_by p s))"
proof -
  let ?u = "dropWhile p s"
  let ?v = "dropWhile p (rev ?u)"
  have ne: "?v \<noteq> []" using assms by (simp add: strip_by_def)
  then have last: "\<not> p (last (rev ?v))" by (simp add: last_rev hd_dropWhile)
  obtain ys where ys: "rev ?u = ys @ ?v" by (metis takeWhile_dropWhile_id)
  then have "?u = rev ?v @ rev ys" by (metis rev_append rev_rev_ident)
  with ne have u: "hd ?u = hd (rev ?v)" and "?u \<noteq> []"
    by (metis hd_append2 rev_is_Nil_conv, metis append_is_Nil_conv rev_is_Nil_conv)
  then have "\<not> p (hd (rev ?v))" by (metis hd_dropWhile)
  with last show ?thesis by (simp add: strip_by_def)
qed

lemma strip_by_id: "s = [] \<or> \<not> p (hd s) \<and> \<not> p (last s) \<Longrightarrow> strip_by p s = s"
  by (cases "s = []") (auto simp: strip_by_def dropWhile_hd_not hd_rev)

lemma strip_by_idem [simp]: "strip_by p (strip_by p s) = strip_by p s"
  by (metis strip_by_ends strip_by_id)

lemma strip_idem [simp]: "strip (strip s) = strip s"
  by (simp add: strip_def)

text \<open>SQL's \<open>trim\<close> removes spaces only, a subset of what Python's \<open>strip\<close> removes, so it leaves a stripped string alone.\<close>

lemma is_space_space: "is_space (CHR '' '')"
  by (simp add: is_space_def)

lemma sql_trim_strip [simp]: "sql_trim (strip s) = strip s"
proof (cases "strip s = []")
  case True
  then show ?thesis by (simp add: sql_trim_def strip_by_def)
next
  case False
  then have "\<not> is_space (hd (strip s))" "\<not> is_space (last (strip s))"
    using strip_by_ends [of is_space s] by (auto simp: strip_def)
  then have "hd (strip s) \<noteq> CHR '' ''" "last (strip s) \<noteq> CHR '' ''"
    using is_space_space by metis+
  then show ?thesis by (simp add: sql_trim_def strip_by_id)
qed

lemma length_lower [simp]: "length (lower s) = length s"
  by (simp add: lower_def)

lemma lower_Nil_iff [simp]: "lower s = [] \<longleftrightarrow> s = []"
  by (simp add: lower_def)

text \<open>Strings are compared until they differ: evaluating an equation looks at no more of them.\<close>

lemma equal_list_until [code]:
  "HOL.equal [] [] \<longleftrightarrow> True"
  "HOL.equal (x # xs) [] \<longleftrightarrow> False"
  "HOL.equal [] (y # ys) \<longleftrightarrow> False"
  "HOL.equal (x # xs) (y # ys) = (if HOL.equal x y then HOL.equal xs ys else False)"
  by (simp_all add: equal_eq)

lemma equal_char_until [code]:
  "HOL.equal (Char a0 a1 a2 a3 a4 a5 a6 a7) (Char b0 b1 b2 b3 b4 b5 b6 b7) =
     (if a0 = b0 then if a1 = b1 then if a2 = b2 then if a3 = b3 then if a4 = b4 then if a5 = b5 then if a6 = b6
      then a7 = b7 else False else False else False else False else False else False else False)"
  by (simp add: equal_eq)

end
