(* ===== verification/Enums.thy ===== *)
theory Enums
  imports Prelude
begin

text \<open>
  The enumerations of \<^verbatim>\<open>backend/app/models/enums.py\<close>, one datatype each, with the source's members.
  Members of different enumerations share names in Python (\<open>DRAFT\<close>, \<open>APPROVED\<close>, ...), so each
  datatype's constructors carry a prefix. In the database a member is stored as its value, which
  equals its name; comparisons of a stored string with a member are comparisons of members here.
  \<open>EventStatus.ACTIVE\<close> is Python's alias for \<open>IN_PROGRESS\<close> (the same member).
\<close>

datatype user_role =
    SYSTEM_ADMIN
  | CLUB_SECRETARY
  | FACULTY_ADVISOR
  | HALL_INCHARGE
  | ADVISOR_STUDENTS_UNION
  | DEAN_STUDENT_AFFAIRS
  | PRINCIPAL
  | FINANCE_OFFICER

datatype club_member_role =
    MR_SECRETARY
  | MR_TREASURER
  | MR_MEMBER

datatype event_type =
    ET_CULTURAL
  | ET_TECHNICAL
  | ET_SPORTS
  | ET_WORKSHOP
  | ET_SEMINAR
  | ET_GUEST_LECTURE
  | ET_COMPETITION
  | ET_OUTREACH
  | ET_OTHER

datatype event_request_status =
    RQ_DRAFT
  | RQ_SUBMITTED
  | RQ_IN_REVIEW
  | RQ_REVISION_REQUIRED
  | RQ_APPROVED
  | RQ_REJECTED
  | RQ_CANCELLED

datatype event_status =
    EV_SCHEDULED
  | EV_IN_PROGRESS
  | EV_COMPLETED
  | EV_CLOSURE_REQUESTED
  | EV_CLOSED
  | EV_CANCELLED
  | EV_ARCHIVED

datatype post_event_report_status =
    RP_DRAFT
  | RP_SUBMITTED
  | RP_REVISION_REQUIRED
  | RP_CERTIFIED

datatype actual_expense_status =
    EX_DRAFT
  | EX_SUBMITTED
  | EX_VERIFIED
  | EX_PARTIALLY_VERIFIED
  | EX_QUERIED
  | EX_DISALLOWED

datatype workflow_instance_status =
    WI_IN_PROGRESS
  | WI_COMPLETED
  | WI_REJECTED
  | WI_CANCELLED
  | WI_SUPERSEDED

datatype workflow_step_status =
    WS_PENDING
  | WS_APPROVED
  | WS_REJECTED
  | WS_REVISION_REQUESTED
  | WS_SKIPPED

datatype venue_request_status =
    VR_PENDING
  | VR_APPROVED
  | VR_REJECTED

datatype resource_request_status =
    RR_PENDING
  | RR_CONFIRMED
  | RR_UNAVAILABLE

datatype budget_line_item_category =
    BC_VENUE
  | BC_CATERING
  | BC_MATERIALS
  | BC_PRINTING
  | BC_TRANSPORT
  | BC_HONORARIUM
  | BC_DECORATION
  | BC_TECHNOLOGY
  | BC_OTHER

datatype resource_type =
    RT_CHAIRS
  | RT_TABLES
  | RT_PODIUM
  | RT_LAPTOP
  | RT_PROJECTOR
  | RT_CAMERA
  | RT_GENERATOR
  | RT_MICROPHONE
  | RT_BANNER_STANDEE
  | RT_OTHER

datatype document_type =
    DT_EVENT_PLAN
  | DT_BUDGET_DETAILS
  | DT_AUTHORITY_LETTER
  | DT_CHIEF_GUEST_PROFILE
  | DT_VENUE_LAYOUT
  | DT_SUPPORTING
  | DT_POST_EVENT_PHOTO
  | DT_EXPENSE_INVOICE
  | DT_INCOME_EVIDENCE
  | DT_SETTLEMENT_PAYMENT_PROOF
  | DT_OTHER

datatype (plugins only: code size) notification_type =
    N_PROPOSAL_SUBMITTED
  | N_APPROVAL_REQUIRED
  | N_ACTION_REQUIRED
  | N_STEP_APPROVED
  | N_PROPOSAL_APPROVED
  | N_PROPOSAL_REJECTED
  | N_REVISION_REQUESTED
  | N_REVISION_REQUIRED
  | N_HALL_CONFLICT
  | N_FINANCE_VERIFICATION_REQUIRED
  | N_BUDGET_VERIFIED
  | N_BUDGET_QUERIED
  | N_POST_EVENT_REPORT_SUBMITTED
  | N_POST_EVENT_REPORT_CERTIFIED
  | N_POST_EVENT_REPORT_REVISION_REQUESTED
  | N_EXPENSE_SUBMITTED
  | N_EXPENSE_QUERIED
  | N_EXPENSE_VERIFIED
  | N_EXPENSE_PARTIALLY_VERIFIED
  | N_EXPENSE_DISALLOWED
  | N_ADVANCE_REQUESTED
  | N_ADVANCE_APPROVED
  | N_ADVANCE_DISBURSED
  | N_ADVANCE_REJECTED
  | N_INCOME_RECORDED
  | N_INCOME_VERIFIED
  | N_INCOME_REJECTED
  | N_SETTLEMENT_SUBMITTED
  | N_SETTLEMENT_QUERIED
  | N_SETTLEMENT_APPROVED
  | N_SETTLEMENT_REIMBURSEMENT_PENDING
  | N_SETTLEMENT_REFUND_PENDING
  | N_SETTLEMENT_SETTLED
  | N_SETTLEMENT_REOPENED
  | N_EVENT_CLOSURE_REQUESTED
  | N_EVENT_CLOSED
  | N_EVENT_CLOSURE_REJECTED
  | N_EVENT_REOPENED
  | N_SYSTEM

datatype (plugins only: code size) audit_action =
    A_LOGIN
  | A_LOGOUT
  | A_FAILED_LOGIN
  | A_ACCOUNT_LOCKED
  | A_PASSWORD_RESET_REQUESTED
  | A_PASSWORD_RESET_COMPLETED
  | A_EMAIL_VERIFIED
  | A_USER_CREATED
  | A_USER_UPDATED
  | A_USER_DEACTIVATED
  | A_USER_ACTIVATED
  | A_ROLE_CHANGED
  | A_CLUB_CREATED
  | A_CLUB_UPDATED
  | A_CLUB_DEACTIVATED
  | A_MEMBER_ADDED
  | A_MEMBER_REMOVED
  | A_ADVISOR_ASSIGNED
  | A_PROPOSAL_CREATED
  | A_PROPOSAL_UPDATED
  | A_PROPOSAL_SUBMITTED
  | A_PROPOSAL_APPROVED
  | A_PROPOSAL_REJECTED
  | A_REVISION_REQUESTED
  | A_PROPOSAL_CANCELLED
  | A_REVISION_RESUBMITTED
  | A_HALL_CREATED
  | A_HALL_UPDATED
  | A_HALL_BOOKED
  | A_HALL_RELEASED
  | A_FILE_UPLOADED
  | A_FILE_DELETED
  | A_FILE_DOWNLOADED
  | A_BUDGET_VERIFIED
  | A_BUDGET_QUERIED
  | A_WORKFLOW_TEMPLATE_CREATED
  | A_WORKFLOW_TEMPLATE_UPDATED
  | A_EVENT_CREATED
  | A_EVENT_STATUS_CHANGED
  | A_EVENT_STARTED
  | A_EVENT_COMPLETED
  | A_ADMIN_EVENT_STARTED
  | A_POST_EVENT_REPORT_SUBMITTED
  | A_POST_EVENT_REPORT_CERTIFIED
  | A_POST_EVENT_REPORT_REVISION_REQUESTED
  | A_POST_EVENT_EVIDENCE_UPLOADED
  | A_EXPENSE_CREATED
  | A_EXPENSE_UPDATED
  | A_EXPENSE_SUBMITTED
  | A_EXPENSE_QUERIED
  | A_EXPENSE_RESUBMITTED
  | A_EXPENSE_VERIFIED
  | A_EXPENSE_PARTIALLY_VERIFIED
  | A_EXPENSE_DISALLOWED
  | A_EXPENSE_DOCUMENT_ATTACHED
  | A_EXPENSE_DOCUMENT_REPLACED
  | A_DUPLICATE_EXPENSE_DETECTED
  | A_ADVANCE_REQUESTED
  | A_ADVANCE_APPROVED
  | A_ADVANCE_DISBURSED
  | A_ADVANCE_REJECTED
  | A_INCOME_RECORDED
  | A_INCOME_VERIFIED
  | A_INCOME_REJECTED
  | A_SETTLEMENT_PREPARED
  | A_SETTLEMENT_SUBMITTED
  | A_SETTLEMENT_QUERIED
  | A_SETTLEMENT_APPROVED
  | A_SETTLEMENT_PAYMENT_RECORDED
  | A_SETTLEMENT_SETTLED
  | A_SETTLEMENT_REOPENED
  | A_CLOSURE_REQUESTED
  | A_CLOSURE_REJECTED
  | A_EVENT_CLOSED
  | A_EVENT_REOPEN_REQUESTED
  | A_EVENT_REOPENED
  | A_EVENT_ARCHIVED

text \<open>
  The audit actions are many, so their executable equality compares positions in the enumeration
  instead of one equation per pair of members.
\<close>

fun audit_action_index :: "audit_action \<Rightarrow> nat" where
  "audit_action_index A_LOGIN = 0"
| "audit_action_index A_LOGOUT = 1"
| "audit_action_index A_FAILED_LOGIN = 2"
| "audit_action_index A_ACCOUNT_LOCKED = 3"
| "audit_action_index A_PASSWORD_RESET_REQUESTED = 4"
| "audit_action_index A_PASSWORD_RESET_COMPLETED = 5"
| "audit_action_index A_EMAIL_VERIFIED = 6"
| "audit_action_index A_USER_CREATED = 7"
| "audit_action_index A_USER_UPDATED = 8"
| "audit_action_index A_USER_DEACTIVATED = 9"
| "audit_action_index A_USER_ACTIVATED = 10"
| "audit_action_index A_ROLE_CHANGED = 11"
| "audit_action_index A_CLUB_CREATED = 12"
| "audit_action_index A_CLUB_UPDATED = 13"
| "audit_action_index A_CLUB_DEACTIVATED = 14"
| "audit_action_index A_MEMBER_ADDED = 15"
| "audit_action_index A_MEMBER_REMOVED = 16"
| "audit_action_index A_ADVISOR_ASSIGNED = 17"
| "audit_action_index A_PROPOSAL_CREATED = 18"
| "audit_action_index A_PROPOSAL_UPDATED = 19"
| "audit_action_index A_PROPOSAL_SUBMITTED = 20"
| "audit_action_index A_PROPOSAL_APPROVED = 21"
| "audit_action_index A_PROPOSAL_REJECTED = 22"
| "audit_action_index A_REVISION_REQUESTED = 23"
| "audit_action_index A_PROPOSAL_CANCELLED = 24"
| "audit_action_index A_REVISION_RESUBMITTED = 25"
| "audit_action_index A_HALL_CREATED = 26"
| "audit_action_index A_HALL_UPDATED = 27"
| "audit_action_index A_HALL_BOOKED = 28"
| "audit_action_index A_HALL_RELEASED = 29"
| "audit_action_index A_FILE_UPLOADED = 30"
| "audit_action_index A_FILE_DELETED = 31"
| "audit_action_index A_FILE_DOWNLOADED = 32"
| "audit_action_index A_BUDGET_VERIFIED = 33"
| "audit_action_index A_BUDGET_QUERIED = 34"
| "audit_action_index A_WORKFLOW_TEMPLATE_CREATED = 35"
| "audit_action_index A_WORKFLOW_TEMPLATE_UPDATED = 36"
| "audit_action_index A_EVENT_CREATED = 37"
| "audit_action_index A_EVENT_STATUS_CHANGED = 38"
| "audit_action_index A_EVENT_STARTED = 39"
| "audit_action_index A_EVENT_COMPLETED = 40"
| "audit_action_index A_ADMIN_EVENT_STARTED = 41"
| "audit_action_index A_POST_EVENT_REPORT_SUBMITTED = 42"
| "audit_action_index A_POST_EVENT_REPORT_CERTIFIED = 43"
| "audit_action_index A_POST_EVENT_REPORT_REVISION_REQUESTED = 44"
| "audit_action_index A_POST_EVENT_EVIDENCE_UPLOADED = 45"
| "audit_action_index A_EXPENSE_CREATED = 46"
| "audit_action_index A_EXPENSE_UPDATED = 47"
| "audit_action_index A_EXPENSE_SUBMITTED = 48"
| "audit_action_index A_EXPENSE_QUERIED = 49"
| "audit_action_index A_EXPENSE_RESUBMITTED = 50"
| "audit_action_index A_EXPENSE_VERIFIED = 51"
| "audit_action_index A_EXPENSE_PARTIALLY_VERIFIED = 52"
| "audit_action_index A_EXPENSE_DISALLOWED = 53"
| "audit_action_index A_EXPENSE_DOCUMENT_ATTACHED = 54"
| "audit_action_index A_EXPENSE_DOCUMENT_REPLACED = 55"
| "audit_action_index A_DUPLICATE_EXPENSE_DETECTED = 56"
| "audit_action_index A_ADVANCE_REQUESTED = 57"
| "audit_action_index A_ADVANCE_APPROVED = 58"
| "audit_action_index A_ADVANCE_DISBURSED = 59"
| "audit_action_index A_ADVANCE_REJECTED = 60"
| "audit_action_index A_INCOME_RECORDED = 61"
| "audit_action_index A_INCOME_VERIFIED = 62"
| "audit_action_index A_INCOME_REJECTED = 63"
| "audit_action_index A_SETTLEMENT_PREPARED = 64"
| "audit_action_index A_SETTLEMENT_SUBMITTED = 65"
| "audit_action_index A_SETTLEMENT_QUERIED = 66"
| "audit_action_index A_SETTLEMENT_APPROVED = 67"
| "audit_action_index A_SETTLEMENT_PAYMENT_RECORDED = 68"
| "audit_action_index A_SETTLEMENT_SETTLED = 69"
| "audit_action_index A_SETTLEMENT_REOPENED = 70"
| "audit_action_index A_CLOSURE_REQUESTED = 71"
| "audit_action_index A_CLOSURE_REJECTED = 72"
| "audit_action_index A_EVENT_CLOSED = 73"
| "audit_action_index A_EVENT_REOPEN_REQUESTED = 74"
| "audit_action_index A_EVENT_REOPENED = 75"
| "audit_action_index A_EVENT_ARCHIVED = 76"

definition audit_actions :: "audit_action list" where
  "audit_actions = [A_LOGIN, A_LOGOUT, A_FAILED_LOGIN, A_ACCOUNT_LOCKED,
     A_PASSWORD_RESET_REQUESTED, A_PASSWORD_RESET_COMPLETED, A_EMAIL_VERIFIED, A_USER_CREATED,
     A_USER_UPDATED, A_USER_DEACTIVATED, A_USER_ACTIVATED, A_ROLE_CHANGED,
     A_CLUB_CREATED, A_CLUB_UPDATED, A_CLUB_DEACTIVATED, A_MEMBER_ADDED,
     A_MEMBER_REMOVED, A_ADVISOR_ASSIGNED, A_PROPOSAL_CREATED, A_PROPOSAL_UPDATED,
     A_PROPOSAL_SUBMITTED, A_PROPOSAL_APPROVED, A_PROPOSAL_REJECTED, A_REVISION_REQUESTED,
     A_PROPOSAL_CANCELLED, A_REVISION_RESUBMITTED, A_HALL_CREATED, A_HALL_UPDATED,
     A_HALL_BOOKED, A_HALL_RELEASED, A_FILE_UPLOADED, A_FILE_DELETED,
     A_FILE_DOWNLOADED, A_BUDGET_VERIFIED, A_BUDGET_QUERIED, A_WORKFLOW_TEMPLATE_CREATED,
     A_WORKFLOW_TEMPLATE_UPDATED, A_EVENT_CREATED, A_EVENT_STATUS_CHANGED, A_EVENT_STARTED,
     A_EVENT_COMPLETED, A_ADMIN_EVENT_STARTED, A_POST_EVENT_REPORT_SUBMITTED, A_POST_EVENT_REPORT_CERTIFIED,
     A_POST_EVENT_REPORT_REVISION_REQUESTED, A_POST_EVENT_EVIDENCE_UPLOADED, A_EXPENSE_CREATED, A_EXPENSE_UPDATED,
     A_EXPENSE_SUBMITTED, A_EXPENSE_QUERIED, A_EXPENSE_RESUBMITTED, A_EXPENSE_VERIFIED,
     A_EXPENSE_PARTIALLY_VERIFIED, A_EXPENSE_DISALLOWED, A_EXPENSE_DOCUMENT_ATTACHED, A_EXPENSE_DOCUMENT_REPLACED,
     A_DUPLICATE_EXPENSE_DETECTED, A_ADVANCE_REQUESTED, A_ADVANCE_APPROVED, A_ADVANCE_DISBURSED,
     A_ADVANCE_REJECTED, A_INCOME_RECORDED, A_INCOME_VERIFIED, A_INCOME_REJECTED,
     A_SETTLEMENT_PREPARED, A_SETTLEMENT_SUBMITTED, A_SETTLEMENT_QUERIED, A_SETTLEMENT_APPROVED,
     A_SETTLEMENT_PAYMENT_RECORDED, A_SETTLEMENT_SETTLED, A_SETTLEMENT_REOPENED, A_CLOSURE_REQUESTED,
     A_CLOSURE_REJECTED, A_EVENT_CLOSED, A_EVENT_REOPEN_REQUESTED, A_EVENT_REOPENED,
     A_EVENT_ARCHIVED]"

lemma audit_actions_nth: "audit_actions ! audit_action_index a = a"
  by (cases a) (simp_all add: audit_actions_def)

lemma audit_action_index_inject: "audit_action_index a = audit_action_index b \<longleftrightarrow> a = b"
  by (metis audit_actions_nth)

lemma equal_audit_action_code [code]:
  "HOL.equal a b = (audit_action_index a = audit_action_index b)"
  by (simp add: equal_eq audit_action_index_inject)

datatype finance_verification_status =
    FV_PENDING
  | FV_VERIFIED
  | FV_QUERIED

datatype cash_advance_status =
    CA_REQUESTED
  | CA_APPROVED
  | CA_DISBURSED
  | CA_REJECTED

datatype actual_income_status =
    IN_RECORDED
  | IN_VERIFIED
  | IN_REJECTED

datatype income_source_type =
    IS_REGISTRATION_FEE
  | IS_SPONSORSHIP
  | IS_STALL_RENTAL
  | IS_TICKET_SALES
  | IS_DONATION
  | IS_OTHER

datatype settlement_status =
    ST_DRAFT
  | ST_UNDER_AUDIT
  | ST_APPROVED
  | ST_QUERIED
  | ST_PENDING_REIMBURSEMENT
  | ST_PENDING_REFUND
  | ST_SETTLED
  | ST_REOPENED

datatype settlement_type =
    SY_REIMBURSEMENT_DUE
  | SY_REFUND_DUE
  | SY_BALANCED

datatype settlement_payment_type =
    PT_REIMBURSEMENT_DISBURSEMENT
  | PT_ADVANCE_REFUND_RECEIPT

datatype payment_method =
    PM_BANK_TRANSFER_NEFT
  | PM_CHEQUE
  | PM_CASH_VOUCHER
  | PM_INSTITUTIONAL_TRANSFER

abbreviation EV_ACTIVE :: event_status where
  "EV_ACTIVE \<equiv> EV_IN_PROGRESS"

end
