(* ===== verification/Models.thy ===== *)
theory Models
  imports Enums
begin

text \<open>
  The data model: one record per table of \<^verbatim>\<open>backend/app/models/domain.py\<close>, with the columns of the
  class (the \<open>id\<close> and \<open>created_at\<close> of its mixins and \<open>deleted_at\<close> where it is soft-deletable;
  \<open>updated_at\<close> is written by the database only and read by no method modelled here). A relationship is
  the query for the rows that hold the foreign key. \<open>db\<close> is the whole database: a list of rows per
  table, and \<open>next_uuid\<close>, from which \<open>uuid.uuid4()\<close> takes identifiers that were never used.

  \<open>db_ok\<close> collects the constraints PostgreSQL enforces when a transaction is flushed (unique keys,
  \<open>CHECK\<close>s and the exclusion constraint on hall bookings). A method that ends with \<open>commit\<close> returns the
  new database only when \<open>db_ok\<close> holds of it; otherwise the transaction is rolled back and the
  error is returned, as \<^verbatim>\<open>get_db\<close> of \<^verbatim>\<open>backend/app/core/database.py\<close> does.

  The two free-text columns of a notification (\<open>title\<close>, \<open>message\<close>) are not kept: who is notified, of
  what and about which proposal is. Foreign keys and column widths are not checked.
\<close>

section \<open>JSON values\<close>

text \<open>
  The JSON the code writes into audit logs and snapshots. \<open>str()\<close> of an identifier, an amount, a time or
  a date keeps what was printed in the constructor; a member of an enumeration is kept as the member.
\<close>

datatype json_enum =
    J_user_role user_role
  | J_event_type event_type
  | J_request_status event_request_status
  | J_event_status event_status
  | J_report_status post_event_report_status
  | J_expense_status actual_expense_status
  | J_advance_status cash_advance_status
  | J_income_status actual_income_status
  | J_source_type income_source_type
  | J_settlement_status settlement_status
  | J_settlement_type settlement_type
  | J_payment_type settlement_payment_type
  | J_payment_method payment_method
  | J_step_status workflow_step_status
  | J_category budget_line_item_category
  | J_venue_status venue_request_status
  | J_member_role club_member_role
  | J_finance_status finance_verification_status
  | J_document_type document_type

datatype json =
    JNull
  | JBool bool
  | JInt int
  | JText string
  | JUuid uuid
  | JMoney money
  | JTime time
  | JDate date
  | JEnum json_enum
  | JList "json list"
  | JObj "(string \<times> json) list"

definition j_opt :: "('a \<Rightarrow> json) \<Rightarrow> 'a option \<Rightarrow> json" where
  "j_opt f x = (case x of None \<Rightarrow> JNull | Some y \<Rightarrow> f y)"

text \<open>\<open>d.get(k)\<close> of a dictionary; \<open>JNull\<close> for a missing key (Python's \<open>None\<close>) and for a value that is no dictionary.\<close>

definition j_get :: "string \<Rightarrow> json \<Rightarrow> json" where
  "j_get k j = (case j of JObj kvs \<Rightarrow> (case map_of kvs k of None \<Rightarrow> JNull | Some v \<Rightarrow> v) | _ \<Rightarrow> JNull)"

text \<open>Python's truth value, and \<open>a or b\<close>. A printed identifier, amount, time, date or member is a non-empty string.\<close>

fun j_truthy :: "json \<Rightarrow> bool" where
  "j_truthy JNull = False"
| "j_truthy (JBool b) = b"
| "j_truthy (JInt n) = (n \<noteq> 0)"
| "j_truthy (JText s) = (s \<noteq> [])"
| "j_truthy (JUuid _) = True"
| "j_truthy (JMoney _) = True"
| "j_truthy (JTime _) = True"
| "j_truthy (JDate _) = True"
| "j_truthy (JEnum _) = True"
| "j_truthy (JList xs) = (xs \<noteq> [])"
| "j_truthy (JObj kvs) = (kvs \<noteq> [])"

definition j_or :: "json \<Rightarrow> json \<Rightarrow> json" where
  "j_or a b = (if j_truthy a then a else b)"

section \<open>Tables\<close>

record user =
  us_id :: uuid
  us_email :: string
  us_email_verified :: bool
  us_password_hash :: string
  us_full_name :: string
  us_role :: user_role
  us_is_active :: bool
  us_failed_login_attempts :: int
  us_locked_until :: "time option"
  us_last_login_at :: "time option"
  us_department :: "string option"
  us_designation :: "string option"
  us_phone :: "string option"
  us_deleted_at :: "time option"
  us_created_at :: time

record refresh_token =
  rt_id :: uuid
  rt_user_id :: uuid
  rt_token_hash :: string
  rt_expires_at :: time
  rt_revoked_at :: "time option"
  rt_created_at :: time
  rt_ip_address :: "string option"
  rt_user_agent :: "string option"

record club =
  cl_id :: uuid
  cl_name :: string
  cl_slug :: string
  cl_description :: "string option"
  cl_faculty_advisor_id :: "uuid option"
  cl_academic_year :: string
  cl_is_active :: bool
  cl_logo_url :: "string option"
  cl_created_by :: uuid
  cl_deleted_at :: "time option"
  cl_created_at :: time

record club_member =
  cm_id :: uuid
  cm_club_id :: uuid
  cm_user_id :: uuid
  cm_member_role :: club_member_role
  cm_is_active :: bool
  cm_joined_at :: time
  cm_created_at :: time

record hall =
  hl_id :: uuid
  hl_name :: string
  hl_location :: "string option"
  hl_capacity :: int
  hl_available_facilities :: json
  hl_is_active :: bool
  hl_notes :: "string option"
  hl_created_at :: time

record hall_booking =
  bk_id :: uuid
  bk_hall_id :: uuid
  bk_event_request_id :: uuid
  bk_venue_request_id :: uuid
  bk_booking_date :: time
  bk_start_time :: time
  bk_end_time :: time
  bk_is_active :: bool
  bk_created_at :: time

record event_request =
  rq_id :: uuid
  rq_club_id :: uuid
  rq_submitted_by :: uuid
  rq_title :: string
  rq_description :: "string option"
  rq_event_type :: event_type
  rq_expected_attendees :: "int option"
  rq_event_date :: "time option"
  rq_chief_guest_name :: "string option"
  rq_chief_guest_designation :: "string option"
  rq_chief_guest_institution :: "string option"
  rq_status :: event_request_status
  rq_current_version :: int
  rq_version_lock :: int
  rq_academic_year :: string
  rq_idempotency_key :: "string option"
  rq_workflow_instance_id :: "uuid option"
  rq_deleted_at :: "time option"
  rq_created_at :: time

record event_request_version =
  ver_id :: uuid
  ver_event_request_id :: uuid
  ver_version_number :: int
  ver_snapshot :: json
  ver_submitted_by :: uuid
  ver_submitted_at :: time
  ver_change_summary :: "string option"
  ver_created_at :: time

record venue_request =
  vr_id :: uuid
  vr_event_request_id :: uuid
  vr_hall_id :: uuid
  vr_requested_date :: time
  vr_start_time :: time
  vr_end_time :: time
  vr_expected_audience :: "int option"
  vr_requires_stage :: bool
  vr_requires_audio :: bool
  vr_requires_lcd :: bool
  vr_requires_ac :: bool
  vr_requires_projector :: bool
  vr_additional_requirements :: "string option"
  vr_status :: venue_request_status
  vr_reviewed_by :: "uuid option"
  vr_reviewed_at :: "time option"
  vr_rejection_reason :: "string option"
  vr_created_at :: time

record budget_proposal =
  bp_id :: uuid
  bp_event_request_id :: uuid
  bp_expected_income :: money
  bp_institute_contribution :: money
  bp_total_expected_expenditure :: money
  bp_notes :: "string option"
  bp_finance_status :: finance_verification_status
  bp_finance_verified_by :: "uuid option"
  bp_finance_verified_at :: "time option"
  bp_finance_notes :: "string option"
  bp_created_at :: time

record budget_line_item =
  li_id :: uuid
  li_budget_proposal_id :: uuid
  li_description :: string
  li_category :: budget_line_item_category
  li_estimated_amount :: money
  li_notes :: "string option"
  li_created_at :: time

record resource_request =
  rr_id :: uuid
  rr_event_request_id :: uuid
  rr_resource_type :: resource_type
  rr_quantity :: int
  rr_notes :: "string option"
  rr_status :: resource_request_status
  rr_managed_by :: "uuid option"
  rr_created_at :: time

record document =
  dc_id :: uuid
  dc_event_request_id :: uuid
  dc_uploaded_by :: uuid
  dc_document_type :: document_type
  dc_original_filename :: string
  dc_stored_filename :: string
  dc_file_size_bytes :: int
  dc_mime_type :: string
  dc_storage_path :: string
  dc_is_active :: bool
  dc_event_id :: "uuid option"
  dc_geo_latitude :: "int option"
  dc_geo_longitude :: "int option"
  dc_geo_source :: "string option"
  dc_file_hash :: "string option"
  dc_created_at :: time

record workflow_template =
  tp_id :: uuid
  tp_name :: string
  tp_description :: "string option"
  tp_event_type :: "event_type option"
  tp_is_active :: bool
  tp_is_default :: bool
  tp_created_by :: uuid
  tp_deleted_at :: "time option"
  tp_created_at :: time

record workflow_template_step =
  ts_id :: uuid
  ts_template_id :: uuid
  ts_step_order :: int
  ts_step_name :: string
  ts_required_role :: user_role
  ts_assigned_user_id :: "uuid option"
  ts_is_optional :: bool
  ts_description :: "string option"
  ts_created_at :: time

record workflow_instance =
  wi_id :: uuid
  wi_template_id :: uuid
  wi_event_request_id :: uuid
  wi_current_step_order :: int
  wi_status :: workflow_instance_status
  wi_version_number :: int
  wi_created_at :: time

record workflow_instance_step =
  ws_id :: uuid
  ws_instance_id :: uuid
  ws_template_step_id :: uuid
  ws_step_order :: int
  ws_step_name :: string
  ws_assigned_to :: uuid
  ws_status :: workflow_step_status
  ws_action_taken_at :: "time option"
  ws_comments :: "string option"
  ws_version_reviewed :: "int option"
  ws_step_version_lock :: int
  ws_created_at :: time

record event =
  ev_id :: uuid
  ev_event_request_id :: uuid
  ev_approved_version_id :: uuid
  ev_club_id :: uuid
  ev_hall_id :: "uuid option"
  ev_title :: string
  ev_description :: "string option"
  ev_event_type :: event_type
  ev_event_date :: time
  ev_start_time :: time
  ev_end_time :: time
  ev_expected_attendees :: "int option"
  ev_status :: event_status
  ev_academic_year :: string
  ev_cancelled_at :: "time option"
  ev_cancellation_reason :: "string option"
  ev_cancelled_by :: "uuid option"
  ev_deleted_at :: "time option"
  ev_created_at :: time

record notification =
  nt_id :: uuid
  nt_recipient_id :: uuid
  nt_event_request_id :: "uuid option"
  nt_notification_type :: notification_type
  nt_is_read :: bool
  nt_read_at :: "time option"
  nt_created_at :: time

record audit_log =
  al_id :: uuid
  al_actor_id :: "uuid option"
  al_actor_email :: "string option"
  al_actor_role :: "user_role option"
  al_action :: audit_action
  al_entity_type :: string
  al_entity_id :: "uuid option"
  al_previous_state :: json
  al_new_state :: json
  al_reason :: "string option"
  al_ip_address :: "string option"
  al_user_agent :: "string option"
  al_created_at :: time

record post_event_report =
  rp_id :: uuid
  rp_event_id :: uuid
  rp_revision_number :: int
  rp_actual_attendance :: int
  rp_summary :: string
  rp_objectives_achieved :: string
  rp_outcomes :: "string option"
  rp_challenges :: "string option"
  rp_status :: post_event_report_status
  rp_submitted_by :: uuid
  rp_submitted_at :: time
  rp_certified_by :: "uuid option"
  rp_certified_at :: "time option"
  rp_certification_remarks :: "string option"
  rp_created_at :: time

record actual_expense =
  ex_id :: uuid
  ex_event_id :: uuid
  ex_budget_line_item_id :: "uuid option"
  ex_category :: budget_line_item_category
  ex_description :: string
  ex_vendor_name :: string
  ex_vendor_gstin :: "string option"
  ex_invoice_number :: "string option"
  ex_invoice_date :: date
  ex_claimed_amount :: money
  ex_verified_amount :: "money option"
  ex_status :: actual_expense_status
  ex_bill_document_id :: uuid
  ex_submitted_by :: uuid
  ex_submitted_at :: "time option"
  ex_verified_by :: "uuid option"
  ex_verified_at :: "time option"
  ex_finance_remarks :: "string option"
  ex_query_reason :: "string option"
  ex_is_flagged_for_review :: bool
  ex_review_notes :: "string option"
  ex_created_at :: time

record cash_advance =
  ca_id :: uuid
  ca_event_id :: uuid
  ca_amount_requested :: money
  ca_amount_approved :: "money option"
  ca_amount_disbursed :: money
  ca_status :: cash_advance_status
  ca_recipient_id :: uuid
  ca_approved_by :: "uuid option"
  ca_disbursed_by :: "uuid option"
  ca_disbursement_date :: "time option"
  ca_payment_reference :: "string option"
  ca_notes :: "string option"
  ca_rejection_reason :: "string option"
  ca_created_at :: time

record actual_income =
  inc_id :: uuid
  inc_event_id :: uuid
  inc_source_type :: income_source_type
  inc_description :: string
  inc_payer_name :: string
  inc_amount :: money
  inc_received_date :: date
  inc_reference_number :: "string option"
  inc_evidence_document_id :: uuid
  inc_status :: actual_income_status
  inc_recorded_by :: uuid
  inc_verified_by :: "uuid option"
  inc_verified_at :: "time option"
  inc_finance_remarks :: "string option"
  inc_created_at :: time

record financial_settlement =
  fs_id :: uuid
  fs_event_id :: uuid
  fs_approved_version_id :: uuid
  fs_sanctioned_grant :: money
  fs_sanctioned_expenditure :: money
  fs_expected_income :: money
  fs_total_claimed_expenditure :: money
  fs_total_verified_expenditure :: money
  fs_total_disallowed_expenditure :: money
  fs_total_verified_income :: money
  fs_net_deficit :: money
  fs_institutional_payout :: money
  fs_cash_advance_disbursed :: money
  fs_settlement_balance :: money
  fs_reimbursement_due :: money
  fs_refund_due :: money
  fs_settlement_type :: settlement_type
  fs_status :: settlement_status
  fs_prepared_by :: uuid
  fs_submitted_at :: "time option"
  fs_audited_by :: "uuid option"
  fs_audited_at :: "time option"
  fs_finance_remarks :: "string option"
  fs_query_reason :: "string option"
  fs_created_at :: time

record settlement_payment =
  sp_id :: uuid
  sp_settlement_id :: uuid
  sp_payment_type :: settlement_payment_type
  sp_amount :: money
  sp_payment_method :: payment_method
  sp_transaction_reference :: string
  sp_transaction_date :: time
  sp_proof_document_id :: uuid
  sp_recorded_by :: uuid
  sp_notes :: "string option"
  sp_created_at :: time

record settlement_revision =
  sr_id :: uuid
  sr_settlement_id :: uuid
  sr_revision_number :: int
  sr_snapshot_data :: json
  sr_reopened_by :: uuid
  sr_reopening_reason :: string
  sr_created_at :: time

record event_closure =
  ec_id :: uuid
  ec_event_id :: uuid
  ec_settlement_id :: uuid
  ec_post_event_report_id :: uuid
  ec_requested_by :: "uuid option"
  ec_requested_at :: "time option"
  ec_certified_by :: uuid
  ec_certified_at :: time
  ec_closure_notes :: "string option"
  ec_venue_cleared :: bool
  ec_certificate_manifest_hash :: string
  ec_created_at :: time

record event_closure_revision =
  er_id :: uuid
  er_event_id :: uuid
  er_closure_id :: uuid
  er_revision_number :: int
  er_reopened_by :: uuid
  er_reopened_at :: time
  er_reopening_reason :: string
  er_snapshot_data :: json
  er_created_at :: time

section \<open>The database\<close>

record db =
  users :: "user list"
  clubs :: "club list"
  club_members :: "club_member list"
  halls :: "hall list"
  hall_bookings :: "hall_booking list"
  event_requests :: "event_request list"
  versions :: "event_request_version list"
  venue_requests :: "venue_request list"
  budgets :: "budget_proposal list"
  line_items :: "budget_line_item list"
  documents :: "document list"
  templates :: "workflow_template list"
  template_steps :: "workflow_template_step list"
  instances :: "workflow_instance list"
  steps :: "workflow_instance_step list"
  events :: "event list"
  notifications :: "notification list"
  audit_logs :: "audit_log list"
  reports :: "post_event_report list"
  expenses :: "actual_expense list"
  advances :: "cash_advance list"
  incomes :: "actual_income list"
  settlements :: "financial_settlement list"
  payments :: "settlement_payment list"
  settlement_revisions :: "settlement_revision list"
  closures :: "event_closure list"
  closure_revisions :: "event_closure_revision list"
  refresh_tokens :: "refresh_token list"
  resource_requests :: "resource_request list"
  next_uuid :: uuid

definition empty_db :: db where
  "empty_db = \<lparr>users = [],
     clubs = [],
     club_members = [],
     halls = [],
     hall_bookings = [],
     event_requests = [],
     versions = [],
     venue_requests = [],
     budgets = [],
     line_items = [],
     documents = [],
     templates = [],
     template_steps = [],
     instances = [],
     steps = [],
     events = [],
     notifications = [],
     audit_logs = [],
     reports = [],
     expenses = [],
     advances = [],
     incomes = [],
     settlements = [],
     payments = [],
     settlement_revisions = [],
     closures = [],
     closure_revisions = [],
     refresh_tokens = [],
     resource_requests = [],
     next_uuid = 0\<rparr>"

section \<open>Constraints of the database\<close>

text \<open>
  \<open>EXCLUDE USING gist (hall_id WITH =, tstzrange(start_time, end_time, '[)') WITH &&) WHERE (is_active)\<close>
  of \<^verbatim>\<open>backend/migrations/versions/0001_initial_schema.py\<close>: no two active bookings of a hall share an instant.
\<close>

definition slots_overlap :: "time \<Rightarrow> time \<Rightarrow> time \<Rightarrow> time \<Rightarrow> bool" where
  "slots_overlap s1 e1 s2 e2 \<longleftrightarrow> s1 < e2 \<and> e1 > s2"

definition bookings_clash :: "hall_booking \<Rightarrow> hall_booking \<Rightarrow> bool" where
  "bookings_clash b c \<longleftrightarrow>
     bk_is_active b \<and> bk_is_active c \<and> bk_hall_id b = bk_hall_id c \<and>
     slots_overlap (bk_start_time b) (bk_end_time b) (bk_start_time c) (bk_end_time c)"

fun excl_hall_bookings_no_overlap :: "hall_booking list \<Rightarrow> bool" where
  "excl_hall_bookings_no_overlap [] = True"
| "excl_hall_bookings_no_overlap (b # bs) =
     (list_all (\<lambda>c. \<not> bookings_clash b c) bs \<and> excl_hall_bookings_no_overlap bs)"

definition hall_bookings_ok :: "hall_booking list \<Rightarrow> bool" where
  "hall_bookings_ok t \<longleftrightarrow>
     distinct (map bk_id t) \<and> distinct (map bk_event_request_id t) \<and>
     list_all (\<lambda>b. bk_end_time b > bk_start_time b) t \<and>
     excl_hall_bookings_no_overlap t"

definition requests_ok :: "event_request list \<Rightarrow> bool" where
  "requests_ok t \<longleftrightarrow>
     distinct (map rq_id t) \<and>
     distinct (List.map_filter rq_idempotency_key t) \<and>
     list_all (\<lambda>r. case rq_expected_attendees r of None \<Rightarrow> True | Some n \<Rightarrow> n > 0) t"

definition versions_ok :: "event_request_version list \<Rightarrow> bool" where
  "versions_ok t \<longleftrightarrow>
     distinct (map ver_id t) \<and>
     distinct (map (\<lambda>v. (ver_event_request_id v, ver_version_number v)) t)"

definition venue_requests_ok :: "venue_request list \<Rightarrow> bool" where
  "venue_requests_ok t \<longleftrightarrow>
     distinct (map vr_id t) \<and> distinct (map vr_event_request_id t) \<and>
     list_all (\<lambda>v. vr_end_time v > vr_start_time v) t"

definition budgets_ok :: "budget_proposal list \<Rightarrow> bool" where
  "budgets_ok t \<longleftrightarrow>
     distinct (map bp_id t) \<and> distinct (map bp_event_request_id t) \<and>
     list_all (\<lambda>b. bp_expected_income b \<ge> 0 \<and> bp_institute_contribution b \<ge> 0 \<and>
       bp_total_expected_expenditure b \<ge> 0) t"

definition line_items_ok :: "budget_line_item list \<Rightarrow> bool" where
  "line_items_ok t \<longleftrightarrow>
     distinct (map li_id t) \<and> list_all (\<lambda>i. li_estimated_amount i \<ge> 0) t"

definition template_steps_ok :: "workflow_template_step list \<Rightarrow> bool" where
  "template_steps_ok t \<longleftrightarrow>
     distinct (map ts_id t) \<and>
     distinct (map (\<lambda>s. (ts_template_id s, ts_step_order s)) t) \<and>
     list_all (\<lambda>s. ts_step_order s > 0) t"

definition steps_ok :: "workflow_instance_step list \<Rightarrow> bool" where
  "steps_ok t \<longleftrightarrow>
     distinct (map ws_id t) \<and>
     distinct (map (\<lambda>s. (ws_instance_id s, ws_step_order s)) t)"

definition events_ok :: "event list \<Rightarrow> bool" where
  "events_ok t \<longleftrightarrow> distinct (map ev_id t) \<and> distinct (map ev_event_request_id t)"

definition reports_ok :: "post_event_report list \<Rightarrow> bool" where
  "reports_ok t \<longleftrightarrow>
     distinct (map rp_id t) \<and> distinct (map rp_event_id t) \<and>
     list_all (\<lambda>r. rp_actual_attendance r > 0 \<and> rp_revision_number r \<ge> 1) t"

definition expense_row_ok :: "actual_expense \<Rightarrow> bool" where
  "expense_row_ok e \<longleftrightarrow>
     ex_claimed_amount e > 0 \<and>
     (case ex_verified_amount e of None \<Rightarrow> True | Some v \<Rightarrow> v \<ge> 0 \<and> v \<le> ex_claimed_amount e)"

definition expenses_ok :: "actual_expense list \<Rightarrow> bool" where
  "expenses_ok t \<longleftrightarrow> distinct (map ex_id t) \<and> list_all expense_row_ok t"

definition advance_row_ok :: "cash_advance \<Rightarrow> bool" where
  "advance_row_ok a \<longleftrightarrow>
     ca_amount_requested a > 0 \<and> ca_amount_disbursed a \<ge> 0 \<and>
     (case ca_amount_approved a of None \<Rightarrow> True
      | Some m \<Rightarrow> m \<ge> 0 \<and> ca_amount_disbursed a \<le> m)"

definition advances_ok :: "cash_advance list \<Rightarrow> bool" where
  "advances_ok t \<longleftrightarrow>
     distinct (map ca_id t) \<and> distinct (map ca_event_id t) \<and> list_all advance_row_ok t"

definition incomes_ok :: "actual_income list \<Rightarrow> bool" where
  "incomes_ok t \<longleftrightarrow> distinct (map inc_id t) \<and> list_all (\<lambda>i. inc_amount i > 0) t"

definition settlement_row_ok :: "financial_settlement \<Rightarrow> bool" where
  "settlement_row_ok s \<longleftrightarrow>
     fs_sanctioned_grant s \<ge> 0 \<and> fs_sanctioned_expenditure s \<ge> 0 \<and>
     fs_total_claimed_expenditure s \<ge> 0 \<and> fs_total_verified_expenditure s \<ge> 0 \<and>
     fs_total_disallowed_expenditure s \<ge> 0 \<and> fs_total_verified_income s \<ge> 0 \<and>
     fs_net_deficit s \<ge> 0 \<and> fs_institutional_payout s \<ge> 0 \<and>
     fs_cash_advance_disbursed s \<ge> 0 \<and> fs_reimbursement_due s \<ge> 0 \<and> fs_refund_due s \<ge> 0"

definition settlements_ok :: "financial_settlement list \<Rightarrow> bool" where
  "settlements_ok t \<longleftrightarrow>
     distinct (map fs_id t) \<and> distinct (map fs_event_id t) \<and> list_all settlement_row_ok t"

definition payments_ok :: "settlement_payment list \<Rightarrow> bool" where
  "payments_ok t \<longleftrightarrow> distinct (map sp_id t) \<and> list_all (\<lambda>p. sp_amount p > 0) t"

definition settlement_revisions_ok :: "settlement_revision list \<Rightarrow> bool" where
  "settlement_revisions_ok t \<longleftrightarrow>
     distinct (map sr_id t) \<and>
     distinct (map (\<lambda>r. (sr_settlement_id r, sr_revision_number r)) t) \<and>
     list_all (\<lambda>r. sr_revision_number r \<ge> 1) t"

definition closures_ok :: "event_closure list \<Rightarrow> bool" where
  "closures_ok t \<longleftrightarrow>
     distinct (map ec_id t) \<and> distinct (map ec_event_id t) \<and> distinct (map ec_settlement_id t)"

definition closure_revisions_ok :: "event_closure_revision list \<Rightarrow> bool" where
  "closure_revisions_ok t \<longleftrightarrow>
     distinct (map er_id t) \<and>
     distinct (map (\<lambda>r. (er_event_id r, er_revision_number r)) t) \<and>
     list_all (\<lambda>r. er_revision_number r \<ge> 1) t"

definition club_members_ok :: "club_member list \<Rightarrow> bool" where
  "club_members_ok t \<longleftrightarrow>
     distinct (map cm_id t) \<and> distinct (map (\<lambda>m. (cm_club_id m, cm_user_id m)) t)"

definition halls_ok :: "hall list \<Rightarrow> bool" where
  "halls_ok t \<longleftrightarrow>
     distinct (map hl_id t) \<and> distinct (map hl_name t) \<and> list_all (\<lambda>h. hl_capacity h > 0) t"

definition clubs_ok :: "club list \<Rightarrow> bool" where
  "clubs_ok t \<longleftrightarrow> distinct (map cl_id t) \<and> distinct (map cl_name t) \<and> distinct (map cl_slug t)"

definition users_ok :: "user list \<Rightarrow> bool" where
  "users_ok t \<longleftrightarrow> distinct (map us_id t) \<and> distinct (map us_email t) \<and>
     list_all (\<lambda>u. us_email u \<noteq> [] \<and> us_full_name u \<noteq> []) t"

definition refresh_tokens_ok :: "refresh_token list \<Rightarrow> bool" where
  "refresh_tokens_ok t \<longleftrightarrow> distinct (map rt_id t) \<and> distinct (map rt_token_hash t)"

definition documents_ok :: "document list \<Rightarrow> bool" where
  "documents_ok t \<longleftrightarrow>
     distinct (map dc_id t) \<and> distinct (map dc_stored_filename t) \<and> list_all (\<lambda>x. dc_file_size_bytes x > 0) t"

definition resource_requests_ok :: "resource_request list \<Rightarrow> bool" where
  "resource_requests_ok t \<longleftrightarrow> distinct (map rr_id t) \<and> list_all (\<lambda>r. rr_quantity r > 0) t"

text \<open>The foreign key of a booking, which forbids deleting the venue request it was made for.\<close>

definition booking_refs_ok :: "hall_booking list \<Rightarrow> venue_request list \<Rightarrow> bool" where
  "booking_refs_ok bs vs \<longleftrightarrow> list_all (\<lambda>b. list_ex (\<lambda>v. vr_id v = bk_venue_request_id b) vs) bs"

text \<open>The tables whose rows the modelled methods change, and the primary keys of the others they add to.\<close>

definition db_ok :: "db \<Rightarrow> bool" where
  "db_ok d \<longleftrightarrow>
     hall_bookings_ok (hall_bookings d) \<and>
     requests_ok (event_requests d) \<and>
     versions_ok (versions d) \<and>
     venue_requests_ok (venue_requests d) \<and>
     budgets_ok (budgets d) \<and>
     line_items_ok (line_items d) \<and>
     template_steps_ok (template_steps d) \<and>
     distinct (map tp_id (templates d)) \<and>
     distinct (map wi_id (instances d)) \<and>
     steps_ok (steps d) \<and>
     events_ok (events d) \<and>
     reports_ok (reports d) \<and>
     expenses_ok (expenses d) \<and>
     advances_ok (advances d) \<and>
     incomes_ok (incomes d) \<and>
     settlements_ok (settlements d) \<and>
     payments_ok (payments d) \<and>
     settlement_revisions_ok (settlement_revisions d) \<and>
     closures_ok (closures d) \<and>
     closure_revisions_ok (closure_revisions d) \<and>
     club_members_ok (club_members d) \<and>
     halls_ok (halls d) \<and>
     clubs_ok (clubs d) \<and>
     users_ok (users d) \<and>
     refresh_tokens_ok (refresh_tokens d) \<and>
     documents_ok (documents d) \<and>
     resource_requests_ok (resource_requests d) \<and>
     booking_refs_ok (hall_bookings d) (venue_requests d)"

text \<open>\<open>await db.commit()\<close>: the new database with the method's result, or the error of a violated constraint.\<close>

definition commit :: "app_error \<Rightarrow> 'a \<Rightarrow> db \<Rightarrow> ('a \<times> db) res" where
  "commit e r d = require (db_ok d) e (Inr (r, d))"

lemma commit_Inr [res_simps]:
  "commit e r d = Inr (r', d') \<longleftrightarrow> r' = r \<and> d' = d \<and> db_ok d"
  by (auto simp: commit_def require_Inr)

section \<open>The context of a request\<close>

text \<open>
  What a method receives besides its payload: the authenticated user, one reading of the clock, the client's
  address and agent, the deployment's settings, and SHA-256 of the canonical JSON of a value
  (\<^verbatim>\<open>hashlib.sha256(json.dumps(payload, sort_keys=True).encode()).hexdigest()\<close>), which is a
  parameter of the model.
\<close>

record request =
  actor :: user
  now :: time
  ip_address :: "string option"
  user_agent :: "string option"
  ALLOW_ADVISOR_EVENT_CLOSEOUT :: bool
  HALL_BOOKING_MIN_ADVANCE_DAYS :: int
  BUDGET_INSTITUTE_CONTRIBUTION_CAP :: money
  sha256_json :: "json \<Rightarrow> string"

abbreviation actor_id :: "request \<Rightarrow> uuid" where
  "actor_id q \<equiv> us_id (actor q)"

abbreviation actor_role :: "request \<Rightarrow> user_role" where
  "actor_role q \<equiv> us_role (actor q)"

section \<open>Audit entries and notifications\<close>

text \<open>
  \<open>db.add(AuditLog(...))\<close> for the acting user, with a reason where the code passes one.
\<close>

definition audit_entry ::
    "request \<Rightarrow> audit_action \<Rightarrow> string \<Rightarrow> uuid \<Rightarrow> json \<Rightarrow> json \<Rightarrow> string option \<Rightarrow> uuid \<Rightarrow> audit_log" where
  "audit_entry q action entity_type entity_id previous_state new_state reason i =
     \<lparr>al_id = i, al_actor_id = Some (actor_id q), al_actor_email = Some (us_email (actor q)),
      al_actor_role = Some (actor_role q), al_action = action, al_entity_type = entity_type,
      al_entity_id = Some entity_id, al_previous_state = previous_state, al_new_state = new_state,
      al_reason = reason, al_ip_address = ip_address q, al_user_agent = user_agent q,
      al_created_at = now q\<rparr>"

definition add_audit ::
    "request \<Rightarrow> audit_action \<Rightarrow> string \<Rightarrow> uuid \<Rightarrow> json \<Rightarrow> json \<Rightarrow> string option \<Rightarrow> db \<Rightarrow> db" where
  "add_audit q action entity_type entity_id previous_state new_state reason d =
     d\<lparr>audit_logs := audit_logs d @
         [audit_entry q action entity_type entity_id previous_state new_state reason (next_uuid d)],
       next_uuid := Suc (next_uuid d)\<rparr>"

text \<open>\<open>NotificationService.create_notification\<close>: an unread notification in the caller's transaction.\<close>

definition create_notification ::
    "request \<Rightarrow> uuid \<Rightarrow> notification_type \<Rightarrow> uuid option \<Rightarrow> db \<Rightarrow> db" where
  "create_notification q recipient_id notification_type event_request_id d =
     d\<lparr>notifications := notifications d @
         [\<lparr>nt_id = next_uuid d, nt_recipient_id = recipient_id,
           nt_event_request_id = event_request_id, nt_notification_type = notification_type,
           nt_is_read = False, nt_read_at = None, nt_created_at = now q\<rparr>],
       next_uuid := Suc (next_uuid d)\<rparr>"

text \<open>A loop over recipients.\<close>

definition notify_all ::
    "request \<Rightarrow> uuid list \<Rightarrow> notification_type \<Rightarrow> uuid option \<Rightarrow> db \<Rightarrow> db" where
  "notify_all q rs notification_type event_request_id d =
     fold (\<lambda>r. create_notification q r notification_type event_request_id) rs d"

text \<open>An entry in the name of the acting user, at the time of the request; a request that only adds such entries.\<close>

definition by_actor :: "request \<Rightarrow> audit_log \<Rightarrow> bool" where
  "by_actor q a \<longleftrightarrow> al_actor_id a = Some (actor_id q) \<and> al_actor_role a = Some (actor_role q) \<and> al_created_at a = now q"

lemma by_actor_entry [simp]:
  "by_actor q (audit_entry q' a t i p n r k) \<longleftrightarrow>
     actor_id q' = actor_id q \<and> actor_role q' = actor_role q \<and> now q' = now q"
  by (auto simp: by_actor_def audit_entry_def)

abbreviation signed :: "request \<Rightarrow> db \<Rightarrow> db \<Rightarrow> bool" where
  "signed q d d' \<equiv> \<exists>es. audit_logs d' = audit_logs d @ es \<and> (\<forall>a\<in>set es. by_actor q a)"

lemma signed_silent: "audit_logs d' = audit_logs d \<Longrightarrow> signed q d d'"
  by simp

lemma signed_trans: "signed q d e \<Longrightarrow> signed q e f \<Longrightarrow> signed q d f"
  by (elim exE conjE) (auto simp: ball_Un)

section \<open>Frame facts\<close>

text \<open>An audit entry changes the audit log only, a notification the notifications only.\<close>

lemma add_audit_frame [simp]:
  "users (add_audit q a t i p n r d) = users d"
  "clubs (add_audit q a t i p n r d) = clubs d"
  "club_members (add_audit q a t i p n r d) = club_members d"
  "halls (add_audit q a t i p n r d) = halls d"
  "hall_bookings (add_audit q a t i p n r d) = hall_bookings d"
  "event_requests (add_audit q a t i p n r d) = event_requests d"
  "versions (add_audit q a t i p n r d) = versions d"
  "venue_requests (add_audit q a t i p n r d) = venue_requests d"
  "budgets (add_audit q a t i p n r d) = budgets d"
  "line_items (add_audit q a t i p n r d) = line_items d"
  "documents (add_audit q a t i p n r d) = documents d"
  "templates (add_audit q a t i p n r d) = templates d"
  "template_steps (add_audit q a t i p n r d) = template_steps d"
  "instances (add_audit q a t i p n r d) = instances d"
  "steps (add_audit q a t i p n r d) = steps d"
  "events (add_audit q a t i p n r d) = events d"
  "notifications (add_audit q a t i p n r d) = notifications d"
  "reports (add_audit q a t i p n r d) = reports d"
  "expenses (add_audit q a t i p n r d) = expenses d"
  "advances (add_audit q a t i p n r d) = advances d"
  "incomes (add_audit q a t i p n r d) = incomes d"
  "settlements (add_audit q a t i p n r d) = settlements d"
  "payments (add_audit q a t i p n r d) = payments d"
  "settlement_revisions (add_audit q a t i p n r d) = settlement_revisions d"
  "closures (add_audit q a t i p n r d) = closures d"
  "closure_revisions (add_audit q a t i p n r d) = closure_revisions d"
  "refresh_tokens (add_audit q a t i p n r d) = refresh_tokens d"
  "resource_requests (add_audit q a t i p n r d) = resource_requests d"
  by (simp_all add: add_audit_def)

lemma add_audit_logs [simp]:
  "audit_logs (add_audit q a t i p n r d) = audit_logs d @ [audit_entry q a t i p n r (next_uuid d)]"
  by (simp add: add_audit_def)

lemma create_notification_frame [simp]:
  "users (create_notification q r t e d) = users d"
  "clubs (create_notification q r t e d) = clubs d"
  "club_members (create_notification q r t e d) = club_members d"
  "halls (create_notification q r t e d) = halls d"
  "hall_bookings (create_notification q r t e d) = hall_bookings d"
  "event_requests (create_notification q r t e d) = event_requests d"
  "versions (create_notification q r t e d) = versions d"
  "venue_requests (create_notification q r t e d) = venue_requests d"
  "budgets (create_notification q r t e d) = budgets d"
  "line_items (create_notification q r t e d) = line_items d"
  "documents (create_notification q r t e d) = documents d"
  "templates (create_notification q r t e d) = templates d"
  "template_steps (create_notification q r t e d) = template_steps d"
  "instances (create_notification q r t e d) = instances d"
  "steps (create_notification q r t e d) = steps d"
  "events (create_notification q r t e d) = events d"
  "audit_logs (create_notification q r t e d) = audit_logs d"
  "reports (create_notification q r t e d) = reports d"
  "expenses (create_notification q r t e d) = expenses d"
  "advances (create_notification q r t e d) = advances d"
  "incomes (create_notification q r t e d) = incomes d"
  "settlements (create_notification q r t e d) = settlements d"
  "payments (create_notification q r t e d) = payments d"
  "settlement_revisions (create_notification q r t e d) = settlement_revisions d"
  "closures (create_notification q r t e d) = closures d"
  "closure_revisions (create_notification q r t e d) = closure_revisions d"
  "refresh_tokens (create_notification q r t e d) = refresh_tokens d"
  "resource_requests (create_notification q r t e d) = resource_requests d"
  by (simp_all add: create_notification_def)

lemma notify_all_Nil [simp]: "notify_all q [] t e d = d"
  by (simp add: notify_all_def)

lemma notify_all_Cons [simp]:
  "notify_all q (r # rs) t e d = notify_all q rs t e (create_notification q r t e d)"
  by (simp add: notify_all_def)

lemma notify_all_frame [simp]:
  "users (notify_all q rs t e d) = users d"
  "clubs (notify_all q rs t e d) = clubs d"
  "club_members (notify_all q rs t e d) = club_members d"
  "halls (notify_all q rs t e d) = halls d"
  "hall_bookings (notify_all q rs t e d) = hall_bookings d"
  "event_requests (notify_all q rs t e d) = event_requests d"
  "versions (notify_all q rs t e d) = versions d"
  "venue_requests (notify_all q rs t e d) = venue_requests d"
  "budgets (notify_all q rs t e d) = budgets d"
  "line_items (notify_all q rs t e d) = line_items d"
  "documents (notify_all q rs t e d) = documents d"
  "templates (notify_all q rs t e d) = templates d"
  "template_steps (notify_all q rs t e d) = template_steps d"
  "instances (notify_all q rs t e d) = instances d"
  "steps (notify_all q rs t e d) = steps d"
  "events (notify_all q rs t e d) = events d"
  "audit_logs (notify_all q rs t e d) = audit_logs d"
  "reports (notify_all q rs t e d) = reports d"
  "expenses (notify_all q rs t e d) = expenses d"
  "advances (notify_all q rs t e d) = advances d"
  "incomes (notify_all q rs t e d) = incomes d"
  "settlements (notify_all q rs t e d) = settlements d"
  "payments (notify_all q rs t e d) = payments d"
  "settlement_revisions (notify_all q rs t e d) = settlement_revisions d"
  "closures (notify_all q rs t e d) = closures d"
  "closure_revisions (notify_all q rs t e d) = closure_revisions d"
  "refresh_tokens (notify_all q rs t e d) = refresh_tokens d"
  "resource_requests (notify_all q rs t e d) = resource_requests d"
  by (induction rs arbitrary: d) simp_all

text \<open>Identifiers only grow, so a fresh one was never used.\<close>

lemma next_uuid_add_audit [simp]: "next_uuid (add_audit q a t i p n r d) = Suc (next_uuid d)"
  by (simp add: add_audit_def)

lemma next_uuid_create_notification [simp]:
  "next_uuid (create_notification q r t e d) = Suc (next_uuid d)"
  by (simp add: create_notification_def)

lemma notifications_create_notification [simp]:
  "notifications (create_notification q r t e d) = notifications d @
     [\<lparr>nt_id = next_uuid d, nt_recipient_id = r, nt_event_request_id = e,
       nt_notification_type = t, nt_is_read = False, nt_read_at = None, nt_created_at = now q\<rparr>]"
  by (simp add: create_notification_def)

lemma next_uuid_notify_all [simp]: "next_uuid (notify_all q rs t e d) = next_uuid d + length rs"
  by (induction rs arbitrary: d) simp_all

text \<open>The exclusion constraint, pairwise.\<close>

lemma bookings_clash_sym: "bookings_clash b c \<longleftrightarrow> bookings_clash c b"
  by (auto simp: bookings_clash_def slots_overlap_def)

lemma excl_hall_bookings_pairwise:
  "excl_hall_bookings_no_overlap t \<Longrightarrow> b \<in> set t \<Longrightarrow> c \<in> set t \<Longrightarrow> b \<noteq> c \<Longrightarrow> \<not> bookings_clash b c"
  by (induction t) (auto simp: list_all_iff bookings_clash_sym)

lemmas keys_distinct =
  hall_bookings_ok_def requests_ok_def versions_ok_def venue_requests_ok_def budgets_ok_def
  template_steps_ok_def steps_ok_def events_ok_def reports_ok_def expenses_ok_def advances_ok_def
  incomes_ok_def settlements_ok_def payments_ok_def settlement_revisions_ok_def closures_ok_def
  closure_revisions_ok_def club_members_ok_def

lemma db_ok_keys:
  assumes "db_ok d"
  shows "distinct (map bk_id (hall_bookings d))"
    and "distinct (map rq_id (event_requests d))"
    and "distinct (map ver_id (versions d))"
    and "distinct (map wi_id (instances d))"
    and "distinct (map ws_id (steps d))"
    and "distinct (map ev_id (events d))"
    and "distinct (map rp_id (reports d))"
    and "distinct (map ex_id (expenses d))"
    and "distinct (map ca_id (advances d))"
    and "distinct (map inc_id (incomes d))"
    and "distinct (map fs_id (settlements d))"
    and "distinct (map sp_id (payments d))"
    and "distinct (map ec_id (closures d))"
  using assms by (simp_all add: db_ok_def keys_distinct)

text \<open>The tables of the business, without the audit log, the notifications and the source of identifiers.\<close>

definition business :: "db \<Rightarrow> db" where
  "business d = d\<lparr>audit_logs := [], notifications := [], next_uuid := 0\<rparr>"

lemma business_log [simp]:
  "business (add_audit q a t i p n r d) = business d"
  "business (create_notification q u nt e d) = business d"
  by (simp_all add: business_def add_audit_def create_notification_def)

lemma business_notify_all [simp]: "business (notify_all q rs t e d) = business d"
  by (induction rs arbitrary: d) simp_all

lemma business_events [simp]: "business (d\<lparr>events := t\<rparr>) = (business d)\<lparr>events := t\<rparr>"
  by (simp add: business_def)

lemma business_tables [simp]:
  "events (business d) = events d" "settlements (business d) = settlements d" "closures (business d) = closures d"
  by (simp_all add: business_def)

end
