(* ===== verification/Interfaces.thy ===== *)
theory Interfaces
  imports Models
begin

text \<open>
  The contracts the components are held to. A component is seen through one function
  \<open>exec q r d\<close>: the request \<open>r\<close> made in context \<open>q\<close> on the database \<open>d\<close> gives the new database
  or an error. \<open>run\<close> serves a list of requests one after the other; a request that fails leaves the
  database as it was (the transaction is rolled back).

  \<^item> \<open>service\<close>: the constraints of the database survive every request.
  \<^item> \<open>audited_service\<close>: the audit log is append-only, and every new entry names the acting user and the time.
  \<^item> \<open>state_invariant\<close>: a property of the database survives every request.
  \<^item> \<open>row_machine\<close>: every change of a row of a table is a step of its state machine; so a row of a later
    state has a history of such steps, and what they keep is an invariant.
  \<^item> \<open>final_rows\<close>: a row in a final state is never changed or deleted again.
  \<^item> \<open>immutable_rows\<close>: no row of the table is ever changed or deleted (every row is final).

  Each is interpreted on the model of every component that promises it; the lemmas about whole runs
  are proved once, here.
\<close>

fun run :: "(request \<Rightarrow> 'r \<Rightarrow> db \<Rightarrow> db res) \<Rightarrow> (request \<times> 'r) list \<Rightarrow> db \<Rightarrow> db" where
  "run exec [] d = d"
| "run exec ((q, r) # xs) d =
     run exec xs (case exec q r d of Inl _ \<Rightarrow> d | Inr d' \<Rightarrow> d')"

text \<open>The new database of a method's result.\<close>

definition db_of :: "('a \<times> db) res \<Rightarrow> db res" where
  "db_of r = (case r of Inl e \<Rightarrow> Inl e | Inr (_, d) \<Rightarrow> Inr d)"

lemma db_of_Inr [res_simps]: "db_of r = Inr d \<longleftrightarrow> (\<exists>x. r = Inr (x, d))"
  by (auto simp: db_of_def split: sum.splits)

lemma db_of_simps [simp]: "db_of (Inl e) = Inl e" "db_of (Inr (x, d)) = Inr d"
  by (simp_all add: db_of_def)

locale service =
  fixes exec :: "request \<Rightarrow> 'r \<Rightarrow> db \<Rightarrow> db res"
  assumes exec_ok: "db_ok d \<Longrightarrow> exec q r d = Inr d' \<Longrightarrow> db_ok d'"
begin

lemma run_ok: "db_ok d \<Longrightarrow> db_ok (run exec xs d)"
proof (induction xs arbitrary: d)
  case Nil
  then show ?case by simp
next
  case (Cons x xs)
  obtain q r where x: "x = (q, r)" by (cases x)
  show ?case
    by (cases "exec q r d") (use x Cons.prems in \<open>auto intro: Cons.IH exec_ok\<close>)
qed

lemma run_append: "run exec (xs @ ys) d = run exec ys (run exec xs d)"
  by (induction xs arbitrary: d) auto

text \<open>Any property kept by every request, given the constraints, is kept by a run.\<close>

lemma run_induct:
  assumes "db_ok d" and "P d"
    and step: "\<And>d q r d'. db_ok d \<Longrightarrow> P d \<Longrightarrow> exec q r d = Inr d' \<Longrightarrow> P d'"
  shows "P (run exec xs d)"
  using assms(1,2)
proof (induction xs arbitrary: d)
  case Nil
  then show ?case by simp
next
  case (Cons x xs)
  obtain q r where x: "x = (q, r)" by (cases x)
  show ?case
    by (cases "exec q r d")
      (use x Cons.prems in \<open>auto intro: Cons.IH exec_ok step\<close>)
qed

end

locale audited_service = service +
  assumes exec_audit: "exec q r d = Inr d' \<Longrightarrow> signed q d d'"
begin

lemma run_audit: "\<exists>es. audit_logs (run exec xs d) = audit_logs d @ es"
proof (induction xs arbitrary: d)
  case Nil
  then show ?case by simp
next
  case (Cons x xs)
  obtain q r where x: "x = (q, r)" by (cases x)
  show ?case
  proof (cases "exec q r d")
    case (Inl e)
    with x Cons.IH [of d] show ?thesis by simp
  next
    case (Inr d')
    then obtain es where "audit_logs d' = audit_logs d @ es" using exec_audit by blast
    with x Inr Cons.IH [of d'] show ?thesis by auto
  qed
qed

text \<open>An entry once written is there in every later state.\<close>

lemma run_audit_mono: "a \<in> set (audit_logs d) \<Longrightarrow> a \<in> set (audit_logs (run exec xs d))"
  using run_audit [of xs d] by auto

text \<open>Whoever is named by an entry that was not there at the start sent one of the requests, at that time.\<close>

lemma run_signed: "a \<in> set (audit_logs (run exec xs d)) \<Longrightarrow> a \<in> set (audit_logs d) \<or> (\<exists>(q, r)\<in>set xs. by_actor q a)"
proof (induction xs arbitrary: d)
  case Nil
  then show ?case by simp
next
  case (Cons x xs)
  obtain q r where x: "x = (q, r)" by (cases x)
  show ?case
  proof (cases "exec q r d")
    case (Inl e)
    with x Cons show ?thesis by auto
  next
    case (Inr d')
    then obtain es where "audit_logs d' = audit_logs d @ es" "\<forall>a\<in>set es. by_actor q a" using exec_audit by blast
    with x Inr Cons show ?thesis by fastforce
  qed
qed

end

locale state_invariant = service +
  fixes good :: "db \<Rightarrow> bool"
  assumes exec_good: "db_ok d \<Longrightarrow> good d \<Longrightarrow> exec q r d = Inr d' \<Longrightarrow> good d'"
begin

lemma run_good: "db_ok d \<Longrightarrow> good d \<Longrightarrow> good (run exec xs d)"
  by (rule run_induct [where P = good]) (auto intro: exec_good)

end

locale row_machine = service +
  fixes rows :: "db \<Rightarrow> 'x list" and key :: "'x \<Rightarrow> uuid"
    and new :: "request \<Rightarrow> 'x \<Rightarrow> bool" and step :: "request \<Rightarrow> 'x \<Rightarrow> 'x \<Rightarrow> bool"
  assumes exec_evolves:
    "db_ok d \<Longrightarrow> exec q r d = Inr d' \<Longrightarrow> evolves key (new q) (step q) (rows d) (rows d')"
begin

lemma run_history:
  assumes "db_ok d"
  shows "\<forall>y\<in>set (rows (run exec xs d)).
    \<exists>x. (x \<in> set (rows d) \<or> (\<exists>q. new q x)) \<and> key x = key y \<and> (\<lambda>x y. \<exists>q. step q x y)\<^sup>*\<^sup>* x y"
    (is "?H (run exec xs d)")
proof (rule run_induct [OF assms, where P = ?H])
  show "?H d" by blast
next
  fix e q r e'
  assume ok: "db_ok e" and H: "?H e" and ex: "exec q r e = Inr e'"
  show "?H e'"
  proof
    fix y
    assume "y \<in> set (rows e')"
    with exec_evolves [OF ok ex]
    consider "y \<in> set (rows e)" | "new q y" | x where "x \<in> set (rows e)" "key x = key y" "step q x y"
      by (auto simp: evolves_def)
    then show "\<exists>x. (x \<in> set (rows d) \<or> (\<exists>q. new q x)) \<and> key x = key y \<and>
        (\<lambda>x y. \<exists>q. step q x y)\<^sup>*\<^sup>* x y"
    proof cases
      case 1
      with H show ?thesis by blast
    next
      case 2
      then show ?thesis by blast
    next
      case 3
      with H obtain z where "z \<in> set (rows d) \<or> (\<exists>q. new q z)" "key z = key x"
        "(\<lambda>x y. \<exists>q. step q x y)\<^sup>*\<^sup>* z x" by blast
      with 3(2,3) show ?thesis by (metis (mono_tags, lifting) rtranclp.rtrancl_into_rtrancl)
    qed
  qed
qed

lemma run_rows:
  assumes "db_ok d" and "\<forall>x\<in>set (rows d). P x"
    and new: "\<And>q x. new q x \<Longrightarrow> P x" and step: "\<And>q x y. step q x y \<Longrightarrow> P x \<Longrightarrow> P y"
  shows "\<forall>x\<in>set (rows (run exec xs d)). P x"
proof (rule run_induct [where P = "\<lambda>d. \<forall>x\<in>set (rows d). P x", OF assms(1,2)])
  fix e q r e'
  assume "db_ok e" "\<forall>x\<in>set (rows e). P x" "exec q r e = Inr e'"
  then show "\<forall>x\<in>set (rows e'). P x"
    using exec_evolves [of e q r e'] new step by (fastforce simp: evolves_def)
qed

end

locale final_rows = service +
  fixes rows :: "db \<Rightarrow> 'x list" and final :: "'x \<Rightarrow> bool"
  assumes exec_final:
    "db_ok d \<Longrightarrow> exec q r d = Inr d' \<Longrightarrow> x \<in> set (rows d) \<Longrightarrow> final x \<Longrightarrow> x \<in> set (rows d')"
begin

lemma run_final:
  "db_ok d \<Longrightarrow> x \<in> set (rows d) \<Longrightarrow> final x \<Longrightarrow> x \<in> set (rows (run exec xs d))"
  by (rule run_induct [where P = "\<lambda>d. x \<in> set (rows d)"]) (auto dest: exec_final)

end

locale immutable_rows = service +
  fixes rows :: "db \<Rightarrow> 'x list"
  assumes exec_rows: "exec q r d = Inr d' \<Longrightarrow> \<exists>xs. rows d' = rows d @ xs"
begin

sublocale final_rows exec rows "\<lambda>_. True"
proof unfold_locales
  fix d q r d' x
  assume "exec q r d = Inr d'" and "x \<in> set (rows d)"
  then show "x \<in> set (rows d')" using exec_rows [of q r d d'] by auto
qed

end

end
