(* ===== verification/Access.thy ===== *)
theory Access
  imports Interfaces
begin

text \<open>
  Who may act: the club ownership check of \<^verbatim>\<open>club_service.py\<close> and the membership query that the
  execution, expense, settlement and closeout services repeat. A check that passes returns a value, one
  that fails the exception it raises.
\<close>

section \<open>Club ownership\<close>

text \<open>The active \<open>SECRETARY\<close> membership of a user in a club.\<close>

definition secretary_membership :: "db \<Rightarrow> uuid \<Rightarrow> uuid \<Rightarrow> club_member option" where
  "secretary_membership d club_id user_id =
     scalar (\<lambda>m. cm_club_id m = club_id \<and> cm_user_id m = user_id \<and>
                 cm_member_role m = MR_SECRETARY \<and> cm_is_active m) (club_members d)"

definition club_membership :: "db \<Rightarrow> uuid \<Rightarrow> uuid \<Rightarrow> club_member option" where
  "club_membership d club_id user_id =
     scalar (\<lambda>m. cm_club_id m = club_id \<and> cm_user_id m = user_id \<and> cm_is_active m)
       (club_members d)"

definition club_by_id :: "db \<Rightarrow> uuid \<Rightarrow> club option" where
  "club_by_id d club_id = scalar (\<lambda>c. cl_id c = club_id) (clubs d)"

definition verify_club_ownership :: "request \<Rightarrow> uuid \<Rightarrow> db \<Rightarrow> club res" where
  "verify_club_ownership q club_id d =
     fetch (scalar (\<lambda>c. cl_id c = club_id \<and> cl_deleted_at c = None) (clubs d)) NotFoundError (\<lambda>club.
     if actor_role q = SYSTEM_ADMIN then Inr club
     else if actor_role q = CLUB_SECRETARY then
       fetch (secretary_membership d club_id (actor_id q)) ResourceOwnershipError (\<lambda>_. Inr club)
     else Inl ForbiddenError)"

definition active_secretaries :: "db \<Rightarrow> uuid \<Rightarrow> club_member list" where
  "active_secretaries d club_id =
     filter (\<lambda>m. cm_club_id m = club_id \<and> cm_member_role m = MR_SECRETARY \<and> cm_is_active m)
       (club_members d)"

definition active_users_with_roles :: "db \<Rightarrow> user_role list \<Rightarrow> user list" where
  "active_users_with_roles d roles =
     filter (\<lambda>u. us_role u \<in> set roles \<and> us_is_active u) (users d)"

section \<open>Documents\<close>

definition active_document :: "db \<Rightarrow> uuid \<Rightarrow> document option" where
  "active_document d i = scalar (\<lambda>x. dc_id x = i \<and> dc_is_active x) (documents d)"

text \<open>A document belongs to an event when it is attached to it or to its proposal.\<close>

definition document_of_event :: "document \<Rightarrow> event \<Rightarrow> bool" where
  "document_of_event doc ev \<longleftrightarrow>
     \<not> (dc_event_id doc \<noteq> Some (ev_id ev) \<and> dc_event_request_id doc \<noteq> ev_event_request_id ev)"

text \<open>The proposal's venue request, confirmed booking and budget (at most one of each, by unique keys).\<close>

definition venue_request_of :: "db \<Rightarrow> uuid \<Rightarrow> venue_request option" where
  "venue_request_of d event_request_id =
     scalar (\<lambda>v. vr_event_request_id v = event_request_id) (venue_requests d)"

definition booking_of :: "db \<Rightarrow> uuid \<Rightarrow> hall_booking option" where
  "booking_of d event_request_id = scalar (\<lambda>b. bk_event_request_id b = event_request_id) (hall_bookings d)"

definition active_booking_of :: "db \<Rightarrow> uuid \<Rightarrow> hall_booking option" where
  "active_booking_of d event_request_id =
     scalar (\<lambda>b. bk_event_request_id b = event_request_id \<and> bk_is_active b) (hall_bookings d)"

definition budget_of :: "db \<Rightarrow> uuid \<Rightarrow> budget_proposal option" where
  "budget_of d event_request_id = scalar (\<lambda>b. bp_event_request_id b = event_request_id) (budgets d)"

lemma secretary_membership_in:
  "secretary_membership d c u = Some m \<Longrightarrow>
     m \<in> set (club_members d) \<and> cm_club_id m = c \<and> cm_user_id m = u \<and>
     cm_member_role m = MR_SECRETARY \<and> cm_is_active m"
  by (auto simp: secretary_membership_def dest: scalar_Some)

text \<open>
  A club is managed only by a system administrator or by an active secretary of that very club, and
  never when it has been deleted.
\<close>

theorem verify_club_ownership_sound:
  assumes "verify_club_ownership q club_id d = Inr club"
  shows "club \<in> set (clubs d) \<and> cl_id club = club_id \<and> cl_deleted_at club = None \<and>
    (actor_role q = SYSTEM_ADMIN \<or>
     actor_role q = CLUB_SECRETARY \<and>
       (\<exists>m\<in>set (club_members d). cm_club_id m = club_id \<and> cm_user_id m = actor_id q \<and>
          cm_member_role m = MR_SECRETARY \<and> cm_is_active m))"
  using assms
  by (auto simp: verify_club_ownership_def res_simps split: if_splits
      dest!: scalar_Some secretary_membership_in)

end
