(* ===== verification/Scenario.thy ===== *)
theory Scenario
  imports Access
begin

text \<open>
  A small concrete institution on which the theorems with hypotheses are applied: one user of every
  role, a club with its secretary and advisor, a hall, and one event whose proposal was approved. The
  components' witnesses start from \<open>campus\<close> (the event is over and its report certified) or
  from a variation of it.
\<close>

definition person :: "uuid \<Rightarrow> user_role \<Rightarrow> user" where
  "person i r =
     \<lparr>us_id = i, us_email = ''u'' @ replicate i CHR ''x'' @ ''@college.edu'', us_email_verified = True, us_password_hash = [],
      us_full_name = ''A. User'', us_role = r, us_is_active = True, us_failed_login_attempts = 0,
      us_locked_until = None, us_last_login_at = None, us_department = None, us_designation = None,
      us_phone = None, us_deleted_at = None, us_created_at = 0\<rparr>"

definition the_admin :: user where "the_admin = person 1 SYSTEM_ADMIN"
definition the_secretary :: user where "the_secretary = person 2 CLUB_SECRETARY"
definition the_advisor :: user where "the_advisor = person 3 FACULTY_ADVISOR"
definition the_incharge :: user where "the_incharge = person 4 HALL_INCHARGE"
definition the_union_advisor :: user where "the_union_advisor = person 5 ADVISOR_STUDENTS_UNION"
definition the_dean :: user where "the_dean = person 6 DEAN_STUDENT_AFFAIRS"
definition the_principal :: user where "the_principal = person 7 PRINCIPAL"
definition the_finance :: user where "the_finance = person 8 FINANCE_OFFICER"

definition ctx :: "user \<Rightarrow> time \<Rightarrow> request" where
  "ctx u t =
     \<lparr>actor = u, now = t, ip_address = None, user_agent = None, ALLOW_ADVISOR_EVENT_CLOSEOUT = False,
      HALL_BOOKING_MIN_ADVANCE_DAYS = 3, BUDGET_INSTITUTE_CONTRIBUTION_CAP = 5000000,
      sha256_json = (\<lambda>_. ''digest'')\<rparr>"

definition chess_club :: club where
  "chess_club =
     \<lparr>cl_id = 10, cl_name = ''Chess'', cl_slug = ''chess'', cl_description = None,
      cl_faculty_advisor_id = Some 3, cl_academic_year = ''2025-26'', cl_is_active = True,
      cl_logo_url = None, cl_created_by = 1, cl_deleted_at = None, cl_created_at = 0\<rparr>"

definition secretary_seat :: club_member where
  "secretary_seat =
     \<lparr>cm_id = 11, cm_club_id = 10, cm_user_id = 2, cm_member_role = MR_SECRETARY,
      cm_is_active = True, cm_joined_at = 0, cm_created_at = 0\<rparr>"

definition main_hall :: hall where
  "main_hall =
     \<lparr>hl_id = 12, hl_name = ''Main'', hl_location = None, hl_capacity = 200,
      hl_available_facilities = JList [], hl_is_active = True, hl_notes = None, hl_created_at = 0\<rparr>"

definition the_proposal :: "event_request_status \<Rightarrow> event_request" where
  "the_proposal st =
     \<lparr>rq_id = 20, rq_club_id = 10, rq_submitted_by = 2, rq_title = ''Open'', rq_description = Some ''A tournament'',
      rq_event_type = ET_COMPETITION, rq_expected_attendees = Some 50, rq_event_date = Some (days 30),
      rq_chief_guest_name = None, rq_chief_guest_designation = None, rq_chief_guest_institution = None,
      rq_status = st, rq_current_version = 1, rq_version_lock = 1, rq_academic_year = ''2025-26'',
      rq_idempotency_key = None, rq_workflow_instance_id = None, rq_deleted_at = None, rq_created_at = 0\<rparr>"

definition venue_wish :: "venue_request_status \<Rightarrow> venue_request" where
  "venue_wish st =
     \<lparr>vr_id = 22, vr_event_request_id = 20, vr_hall_id = 12, vr_requested_date = days 30,
      vr_start_time = days 30 + hours 9, vr_end_time = days 30 + hours 12, vr_expected_audience = Some 50,
      vr_requires_stage = False, vr_requires_audio = False, vr_requires_lcd = False, vr_requires_ac = False,
      vr_requires_projector = False, vr_additional_requirements = None, vr_status = st,
      vr_reviewed_by = None, vr_reviewed_at = None, vr_rejection_reason = None, vr_created_at = 0\<rparr>"

definition the_budget :: budget_proposal where
  "the_budget =
     \<lparr>bp_id = 23, bp_event_request_id = 20, bp_expected_income = 100000, bp_institute_contribution = 500000,
      bp_total_expected_expenditure = 600000, bp_notes = None, bp_finance_status = FV_VERIFIED,
      bp_finance_verified_by = Some 8, bp_finance_verified_at = Some 0, bp_finance_notes = None,
      bp_created_at = 0\<rparr>"

definition the_line_item :: budget_line_item where
  "the_line_item =
     \<lparr>li_id = 24, li_budget_proposal_id = 23, li_description = ''Boards'', li_category = BC_MATERIALS,
      li_estimated_amount = 600000, li_notes = None, li_created_at = 0\<rparr>"

definition the_version :: event_request_version where
  "the_version =
     \<lparr>ver_id = 21, ver_event_request_id = 20, ver_version_number = 1,
      ver_snapshot = JObj [(''budget'', JObj [(''expected_income'', JMoney 100000),
        (''institute_contribution'', JMoney 500000), (''total_expected_expenditure'', JMoney 600000)])],
      ver_submitted_by = 2, ver_submitted_at = 0, ver_change_summary = None, ver_created_at = 0\<rparr>"

definition the_event :: "event_status \<Rightarrow> event" where
  "the_event st =
     \<lparr>ev_id = 25, ev_event_request_id = 20, ev_approved_version_id = 21, ev_club_id = 10,
      ev_hall_id = Some 12, ev_title = ''Open'', ev_description = Some ''A tournament'',
      ev_event_type = ET_COMPETITION, ev_event_date = days 30, ev_start_time = days 30 + hours 9,
      ev_end_time = days 30 + hours 12, ev_expected_attendees = Some 50, ev_status = st,
      ev_academic_year = ''2025-26'', ev_cancelled_at = None, ev_cancellation_reason = None,
      ev_cancelled_by = None, ev_deleted_at = None, ev_created_at = 0\<rparr>"

definition the_report :: "post_event_report_status \<Rightarrow> post_event_report" where
  "the_report st =
     \<lparr>rp_id = 26, rp_event_id = 25, rp_revision_number = 1, rp_actual_attendance = 45,
      rp_summary = ''Held'', rp_objectives_achieved = ''All'', rp_outcomes = None, rp_challenges = None,
      rp_status = st, rp_submitted_by = 2, rp_submitted_at = days 31, rp_certified_by = Some 3,
      rp_certified_at = Some (days 31), rp_certification_remarks = None, rp_created_at = days 31\<rparr>"

definition an_upload :: "uuid \<Rightarrow> document_type \<Rightarrow> document" where
  "an_upload i ty =
     \<lparr>dc_id = i, dc_event_request_id = 20, dc_uploaded_by = 2, dc_document_type = ty,
      dc_original_filename = ''a.pdf'', dc_stored_filename = replicate i CHR ''a'' @ ''.pdf'', dc_file_size_bytes = 1000,
      dc_mime_type = ''application/pdf'', dc_storage_path = ''/a.pdf'', dc_is_active = True,
      dc_event_id = Some 25, dc_geo_latitude = None, dc_geo_longitude = None, dc_geo_source = None,
      dc_file_hash = None, dc_created_at = days 31\<rparr>"

definition the_booking :: hall_booking where
  "the_booking =
     \<lparr>bk_id = 29, bk_hall_id = 12, bk_event_request_id = 20, bk_venue_request_id = 22,
      bk_booking_date = days 30, bk_start_time = days 30 + hours 9, bk_end_time = days 30 + hours 12,
      bk_is_active = True, bk_created_at = 0\<rparr>"

definition institution :: db where
  "institution = empty_db\<lparr>
     users := [the_admin, the_secretary, the_advisor, the_incharge, the_union_advisor, the_dean, the_principal, the_finance],
     clubs := [chess_club], club_members := [secretary_seat], halls := [main_hall],
     next_uuid := 100\<rparr>"

definition campus_at :: "event_status \<Rightarrow> db" where
  "campus_at st = institution\<lparr>
     event_requests := [the_proposal RQ_APPROVED], versions := [the_version],
     venue_requests := [venue_wish VR_APPROVED], hall_bookings := [the_booking], budgets := [the_budget],
     line_items := [the_line_item], events := [the_event st]\<rparr>"

definition campus :: db where
  "campus = (campus_at EV_COMPLETED)\<lparr>
     reports := [the_report RP_CERTIFIED],
     documents := [an_upload 27 DT_EXPENSE_INVOICE, an_upload 28 DT_INCOME_EVIDENCE,
                   an_upload 40 DT_SETTLEMENT_PAYMENT_PROOF]\<rparr>"

lemmas people_defs =
  person_def the_admin_def the_secretary_def the_advisor_def the_incharge_def the_union_advisor_def the_dean_def
  the_principal_def the_finance_def ctx_def

lemmas campus_defs =
  institution_def campus_at_def campus_def chess_club_def secretary_seat_def main_hall_def
  the_proposal_def venue_wish_def the_budget_def the_line_item_def the_version_def the_event_def
  the_report_def an_upload_def the_booking_def empty_db_def

lemma campus_ok: "db_ok campus"
  by code_simp

lemma verify_club_ownership_sound_witness:
  "\<exists>c. verify_club_ownership (ctx the_secretary (days 1)) 10 campus = Inr c \<and> c \<in> set (clubs campus) \<and>
     (\<exists>m\<in>set (club_members campus). cm_user_id m = 2 \<and> cm_member_role m = MR_SECRETARY)"
proof -
  let ?r = "verify_club_ownership (ctx the_secretary (days 1)) 10 campus"
  have r: "?r = Inr (projr ?r)" by (rule Inr_projr) code_simp
  have "actor_role (ctx the_secretary (days 1)) \<noteq> SYSTEM_ADMIN" "actor_id (ctx the_secretary (days 1)) = 2"
    by code_simp+
  with verify_club_ownership_sound [OF r] r show ?thesis by auto
qed

end
