(* ===== verification/Texts.thy ===== *)
theory Texts
  imports Prelude
begin

text \<open>
  The texts of request payloads: the length bounds of Pydantic's \<open>Field(min_length, max_length)\<close> and the
  normalisation \<open>" ".join(v.strip().split())\<close> that the schemas of \<^verbatim>\<open>backend/app/schemas\<close> apply to titles and
  remarks.
\<close>

definition len_between :: "nat \<Rightarrow> nat \<Rightarrow> string \<Rightarrow> bool" where
  "len_between lo hi s \<longleftrightarrow> lo \<le> length s \<and> length s \<le> hi"

definition opt_len_between :: "nat \<Rightarrow> nat \<Rightarrow> string option \<Rightarrow> bool" where
  "opt_len_between lo hi v = (case v of None \<Rightarrow> True | Some s \<Rightarrow> len_between lo hi s)"

text \<open>\<open>if p is not None: v = p\<close>, for a column that is always there and for one that may be empty.\<close>

definition set_if :: "'a option \<Rightarrow> 'a \<Rightarrow> 'a" where
  "set_if p v = (case p of None \<Rightarrow> v | Some x \<Rightarrow> x)"

definition set_opt :: "'a option \<Rightarrow> 'a option \<Rightarrow> 'a option" where
  "set_opt p v = (case p of None \<Rightarrow> v | Some x \<Rightarrow> Some x)"

text \<open>Python's \<open>str.split()\<close> and \<open>" ".join(v.strip().split())\<close>.\<close>

fun split_ws :: "string \<Rightarrow> string \<Rightarrow> string list" where
  "split_ws w [] = (if w = [] then [] else [w])"
| "split_ws w (c # cs) =
     (if is_space c then (if w = [] then split_ws [] cs else w # split_ws [] cs)
      else split_ws (w @ [c]) cs)"

fun join_sp :: "string list \<Rightarrow> string" where
  "join_sp [] = []"
| "join_sp [w] = w"
| "join_sp (w # ws) = w @ '' '' @ join_sp ws"

definition squeeze :: "string \<Rightarrow> string" where
  "squeeze v = join_sp (split_ws [] (strip v))"

text \<open>Splitting what was joined gives the words back, so normalising twice is normalising once.\<close>

definition words :: "string list \<Rightarrow> bool" where
  "words ws \<longleftrightarrow> (\<forall>w\<in>set ws. w \<noteq> [] \<and> (\<forall>c\<in>set w. \<not> is_space c))"

lemma split_ws_words:
  "\<forall>c\<in>set w. \<not> is_space c \<Longrightarrow> words (split_ws w s)"
proof (induction s arbitrary: w)
  case Nil
  then show ?case by (simp add: words_def)
next
  case (Cons c s)
  show ?case
  proof (cases "is_space c")
    case True
    with Cons.prems Cons.IH [of "[]"] show ?thesis by (simp add: words_def)
  next
    case False
    with Cons.prems have "\<forall>c\<in>set (w @ [c]). \<not> is_space c" by simp
    from Cons.IH [OF this] False show ?thesis by simp
  qed
qed

lemma split_ws_word: "\<forall>c\<in>set v. \<not> is_space c \<Longrightarrow> split_ws w (v @ s) = split_ws (w @ v) s"
  by (induction v arbitrary: w) auto

lemma split_join: "words ws \<Longrightarrow> split_ws [] (join_sp ws) = ws"
proof (induction ws rule: join_sp.induct)
  case (2 w)
  then show ?case using split_ws_word [of w "[]" "[]"] by (auto simp: words_def)
next
  case (3 w v vs)
  then have "split_ws [] (w @ '' '' @ join_sp (v # vs)) = w # split_ws [] (join_sp (v # vs))"
    using split_ws_word [of w "[]" "'' '' @ join_sp (v # vs)"] by (simp add: words_def is_space_space)
  with 3 show ?case by (simp add: words_def)
qed simp

lemma join_sp_ends:
  "words ws \<Longrightarrow> ws \<noteq> [] \<Longrightarrow>
     join_sp ws \<noteq> [] \<and> \<not> is_space (hd (join_sp ws)) \<and> \<not> is_space (last (join_sp ws))"
proof (induction ws rule: join_sp.induct)
  case (3 w v vs)
  then have "words (v # vs)" by (simp add: words_def)
  with 3 show ?case by (auto simp: words_def)
qed (auto simp: words_def)

lemma squeeze_idem [simp]: "squeeze (squeeze s) = squeeze s"
proof -
  let ?ws = "split_ws [] (strip s)"
  have w: "words ?ws" by (rule split_ws_words) simp
  have "strip_by is_space (join_sp ?ws) = join_sp ?ws"
    by (rule strip_by_id) (use join_sp_ends [OF w] in \<open>cases "?ws = []"; auto\<close>)
  then have "strip (join_sp ?ws) = join_sp ?ws" by (simp only: strip_def [of "join_sp ?ws"])
  then show ?thesis by (simp add: squeeze_def split_join [OF w])
qed

lemma length_join_split: "length (join_sp (split_ws w s)) \<le> length w + length s"
proof (induction w s rule: split_ws.induct)
  case (2 w c cs)
  have "length (join_sp (w # ws)) \<le> Suc (length w + length (join_sp ws))" for ws
    by (cases ws) auto
  from this [of "split_ws [] cs"] 2 show ?case
    by (cases "is_space c"; cases "w = []") (auto simp del: join_sp.simps intro: order_trans)
qed simp

lemma length_strip: "length (strip s) \<le> length s"
proof -
  have "length (strip s) \<le> length (dropWhile is_space s)"
    unfolding strip_def strip_by_def by (metis length_dropWhile_le length_rev)
  also have "\<dots> \<le> length s" by (rule length_dropWhile_le)
  finally show ?thesis .
qed

lemma length_squeeze: "length (squeeze s) \<le> length s"
  using length_join_split [of "[]" "strip s"] length_strip [of s] by (simp add: squeeze_def)

end
