(* ===== verification/Auth.thy ===== *)
theory Auth
  imports Scenario Texts
begin

text \<open>
  Authentication: \<open>src/backend/app/services/auth_service.py\<close> (registration, login with account lockout,
  rotation and revocation of refresh tokens), \<open>core/security.py\<close> (passwords and tokens over the libraries
  that hash and sign), \<open>core/rate_limiter.py\<close> (the sliding window in front of the login),
  \<open>api/deps.py\<close> (who the caller is, role checks), \<open>schemas/auth.py\<close> and
  \<open>api/v1/endpoints/auth.py\<close>. The service commits before it raises, so a reply carries its database
  whether it is an error or not. \<open>auth_effect\<close> lists what a request may do to the accounts and the
  tokens; the two contracts at the end are interpreted from it.
\<close>

section \<open>The libraries and the settings\<close>

text \<open>
  Argon2 and JWT are third-party libraries, random tokens and SHA-256 are opaque: parameters, each a field of
  \<open>library\<close>. A random value is a function of a counter, which the database's source of identifiers stands in for.
\<close>

record claims =
  jc_sub :: "uuid option"
  jc_role :: user_role
  jc_email :: string
  jc_token_type :: string
  jc_jti :: uuid
  jc_iat :: int
  jc_exp :: int

datatype decoded = Expired | Malformed | Payload claims

record library =
  argon2_hash :: "nat \<Rightarrow> string \<Rightarrow> string"
  argon2_verify :: "string \<Rightarrow> string \<Rightarrow> bool"
  argon2_outdated :: "string \<Rightarrow> bool"
  jwt_encode :: "claims \<Rightarrow> string"
  jwt_decode :: "time \<Rightarrow> string \<Rightarrow> decoded"
  token_urlsafe :: "nat \<Rightarrow> string"
  sha256 :: "string \<Rightarrow> string"
  valid_email :: "string \<Rightarrow> string option"

record auth_settings =
  MAX_LOGIN_ATTEMPTS :: int
  ACCOUNT_LOCKOUT_MINUTES :: int
  ACCESS_TOKEN_EXPIRE_MINUTES :: int
  REFRESH_TOKEN_EXPIRE_DAYS :: int
  RATE_LIMIT_LOGIN_PER_MINUTE :: int

definition minutes :: "int \<Rightarrow> time" where
  "minutes n = n * 60000000"

definition seconds_of :: "time \<Rightarrow> int" where
  "seconds_of t = t div 1000000"

section \<open>Passwords and tokens\<close>

definition hash_password :: "library \<Rightarrow> nat \<Rightarrow> string \<Rightarrow> string res" where
  "hash_password L salt password = require (password \<noteq> []) InternalError (Inr (argon2_hash L salt password))"

definition verify_password :: "library \<Rightarrow> string \<Rightarrow> string \<Rightarrow> bool" where
  "verify_password L plain hashed \<longleftrightarrow> plain \<noteq> [] \<and> hashed \<noteq> [] \<and> argon2_verify L hashed plain"

definition password_needs_rehash :: "library \<Rightarrow> string \<Rightarrow> bool" where
  "password_needs_rehash L hashed \<longleftrightarrow> hashed = [] \<or> argon2_outdated L hashed"

definition access_claims :: "auth_settings \<Rightarrow> time \<Rightarrow> user \<Rightarrow> uuid \<Rightarrow> claims" where
  "access_claims S t u jti =
     \<lparr>jc_sub = Some (us_id u), jc_role = us_role u, jc_email = us_email u, jc_token_type = ''access'', jc_jti = jti,
      jc_iat = seconds_of t, jc_exp = seconds_of (t + minutes (ACCESS_TOKEN_EXPIRE_MINUTES S))\<rparr>"

definition create_access_token :: "library \<Rightarrow> auth_settings \<Rightarrow> time \<Rightarrow> user \<Rightarrow> uuid \<Rightarrow> string" where
  "create_access_token L S t u jti = jwt_encode L (access_claims S t u jti)"

definition decode_access_token :: "library \<Rightarrow> time \<Rightarrow> string \<Rightarrow> claims res" where
  "decode_access_token L t token =
     require (token \<noteq> []) InvalidTokenError (
     case jwt_decode L t token of
       Expired \<Rightarrow> Inl TokenExpiredError
     | Malformed \<Rightarrow> Inl InvalidTokenError
     | Payload p \<Rightarrow>
         require (jc_token_type p = ''access'') InvalidTokenError (
         require (jc_sub p \<noteq> None) InvalidTokenError (Inr p)))"

text \<open>\<open>get_current_user\<close>: the role and the state of the account are those of the database, not those of the token.\<close>

definition get_current_user :: "library \<Rightarrow> time \<Rightarrow> string option \<Rightarrow> db \<Rightarrow> user res" where
  "get_current_user L t credentials d =
     require (truthy credentials) UnauthorizedError (
     and_then (decode_access_token L t (the credentials)) (\<lambda>p.
     fetch (jc_sub p) InvalidTokenError (\<lambda>i.
     fetch (row us_id i (users d)) UnauthorizedError (\<lambda>u.
     require (us_deleted_at u = None) UnauthorizedError (
     require (us_is_active u) AccountInactiveError (Inr u))))))"

section \<open>Payloads\<close>

definition in_range :: "nat \<Rightarrow> nat \<Rightarrow> char \<Rightarrow> bool" where
  "in_range lo hi c \<longleftrightarrow> lo \<le> (of_char c :: nat) \<and> (of_char c :: nat) \<le> hi"

definition password_specials :: string where
  "password_specials = ''!@#$%^&*()_+-=[]{}|;:,.<>?''"

definition validate_password_strength :: "string \<Rightarrow> bool" where
  "validate_password_strength p \<longleftrightarrow>
     len_between 8 128 p \<and> list_ex (in_range 65 90) p \<and> list_ex (in_range 97 122) p \<and> list_ex (in_range 48 57) p \<and>
     list_ex (\<lambda>c. c \<in> set password_specials) p"

record user_register =
  ur_email :: string
  ur_password :: string
  ur_full_name :: string
  ur_role :: user_role
  ur_department :: "string option"
  ur_designation :: "string option"
  ur_phone :: "string option"

definition normalized_email :: "string \<Rightarrow> string" where
  "normalized_email e = lower (strip e)"

definition user_register_schema :: "library \<Rightarrow> user_register \<Rightarrow> user_register res" where
  "user_register_schema L p =
     fetch (valid_email L (ur_email p)) RequestValidationError (\<lambda>email.
     require (validate_password_strength (ur_password p) \<and> len_between 2 255 (ur_full_name p) \<and>
       \<not> length (squeeze (ur_full_name p)) < 2 \<and> opt_len_between 0 255 (ur_department p) \<and>
       opt_len_between 0 255 (ur_designation p) \<and> opt_len_between 0 20 (ur_phone p)) RequestValidationError
     (Inr (p\<lparr>ur_email := normalized_email email, ur_full_name := squeeze (ur_full_name p)\<rparr>)))"

definition user_login_schema :: "library \<Rightarrow> string \<Rightarrow> string \<Rightarrow> (string \<times> string) res" where
  "user_login_schema L email password =
     fetch (valid_email L email) RequestValidationError (\<lambda>e.
     require (password \<noteq> []) RequestValidationError (Inr (normalized_email e, password)))"

section \<open>Accounts\<close>

text \<open>\<open>scalar_one_or_none()\<close> raises when more than one row matches.\<close>

definition one_or_none :: "('a \<Rightarrow> bool) \<Rightarrow> 'a list \<Rightarrow> 'a option res" where
  "one_or_none p t = (case filter p t of [] \<Rightarrow> Inr None | [x] \<Rightarrow> Inr (Some x) | _ \<Rightarrow> Inl InternalError)"

definition account_of :: "string \<Rightarrow> db \<Rightarrow> user option res" where
  "account_of email d =
     one_or_none (\<lambda>u. lower (us_email u) = normalized_email email \<and> us_deleted_at u = None) (users d)"

text \<open>
  The service commits before it raises, so what a failed request wrote stays: a reply is a result together with
  the database it leaves. \<open>saved\<close> is such a commit.
\<close>

definition saved :: "'a res \<Rightarrow> db \<Rightarrow> db \<Rightarrow> 'a res \<times> db" where
  "saved r d d' = (if db_ok d' then (r, d') else (Inl IntegrityError, d))"

definition new_user :: "request \<Rightarrow> user_register \<Rightarrow> string \<Rightarrow> uuid \<Rightarrow> user" where
  "new_user q p hashed i =
     \<lparr>us_id = i, us_email = normalized_email (ur_email p), us_email_verified = False, us_password_hash = hashed,
      us_full_name = ur_full_name p, us_role = ur_role p, us_is_active = True, us_failed_login_attempts = 0,
      us_locked_until = None, us_last_login_at = None, us_department = ur_department p,
      us_designation = ur_designation p, us_phone = ur_phone p, us_deleted_at = None, us_created_at = now q\<rparr>"

definition register_user :: "library \<Rightarrow> request \<Rightarrow> user_register \<Rightarrow> db \<Rightarrow> user res \<times> db" where
  "register_user L q p d =
     (let n = next_uuid d;
          checked = and_then (account_of (ur_email p) d) (\<lambda>existing.
                    require (existing = None) EmailAlreadyExistsError (hash_password L n (ur_password p)))
      in case checked of
           Inl e \<Rightarrow> (Inl e, d)
         | Inr hashed \<Rightarrow>
             let u = new_user q p hashed (Suc n); d' = d\<lparr>users := users d @ [u], next_uuid := n + 2\<rparr>
             in if db_ok d' then (Inr u, d') else (Inl EmailAlreadyExistsError, d))"

section \<open>Sessions\<close>

record session =
  se_user :: user
  se_access_token :: string
  se_refresh_token :: string
  se_expires_in :: int

definition locked :: "request \<Rightarrow> user \<Rightarrow> bool" where
  "locked q u = (case us_locked_until u of None \<Rightarrow> False | Some t \<Rightarrow> t > now q)"

definition attempt_failed :: "auth_settings \<Rightarrow> request \<Rightarrow> user \<Rightarrow> user" where
  "attempt_failed S q u =
     (let n = us_failed_login_attempts u + 1
      in u\<lparr>us_failed_login_attempts := n,
           us_locked_until := (if n \<ge> MAX_LOGIN_ATTEMPTS S then Some (now q + minutes (ACCOUNT_LOCKOUT_MINUTES S))
                               else us_locked_until u)\<rparr>)"

definition new_refresh_token :: "library \<Rightarrow> auth_settings \<Rightarrow> request \<Rightarrow> user \<Rightarrow> string \<Rightarrow> uuid \<Rightarrow> refresh_token" where
  "new_refresh_token L S q u raw i =
     \<lparr>rt_id = i, rt_user_id = us_id u, rt_token_hash = sha256 L raw,
      rt_expires_at = now q + days (REFRESH_TOKEN_EXPIRE_DAYS S), rt_revoked_at = None, rt_created_at = now q,
      rt_ip_address = ip_address q, rt_user_agent = user_agent q\<rparr>"

definition new_session :: "library \<Rightarrow> auth_settings \<Rightarrow> request \<Rightarrow> user \<Rightarrow> uuid \<Rightarrow> session" where
  "new_session L S q u n =
     \<lparr>se_user = u, se_access_token = create_access_token L S (now q) u n, se_refresh_token = token_urlsafe L (Suc n),
      se_expires_in = ACCESS_TOKEN_EXPIRE_MINUTES S * 60\<rparr>"

definition rehashed :: "library \<Rightarrow> string \<Rightarrow> user \<Rightarrow> nat \<Rightarrow> string res" where
  "rehashed L password u n =
     (if password_needs_rehash L (us_password_hash u) then hash_password L n password else Inr (us_password_hash u))"

definition logged_in :: "request \<Rightarrow> string \<Rightarrow> user \<Rightarrow> user" where
  "logged_in q hashed u =
     u\<lparr>us_failed_login_attempts := 0, us_locked_until := None, us_last_login_at := Some (now q), us_password_hash := hashed\<rparr>"

definition session_opened :: "library \<Rightarrow> auth_settings \<Rightarrow> request \<Rightarrow> user \<Rightarrow> uuid \<Rightarrow> db \<Rightarrow> db" where
  "session_opened L S q u n d =
     d\<lparr>refresh_tokens := refresh_tokens d @ [new_refresh_token L S q u (token_urlsafe L (Suc n)) (n + 2)], next_uuid := n + 3\<rparr>"

definition authenticate_user :: "library \<Rightarrow> auth_settings \<Rightarrow> request \<Rightarrow> string \<Rightarrow> string \<Rightarrow> db \<Rightarrow> session res \<times> db" where
  "authenticate_user L S q email password d =
     (case account_of email d of
        Inl e \<Rightarrow> (Inl e, d)
      | Inr None \<Rightarrow> (Inl InvalidCredentialsError, d)
      | Inr (Some u) \<Rightarrow>
          if \<not> us_is_active u then (Inl AccountInactiveError, d)
          else if locked q u then (Inl AccountLockedError, d)
          else if \<not> verify_password L password (us_password_hash u)
          then saved (if us_failed_login_attempts u + 1 \<ge> MAX_LOGIN_ATTEMPTS S then Inl AccountLockedError
                      else Inl InvalidCredentialsError) d
                 (d\<lparr>users := put us_id (attempt_failed S q u) (users d)\<rparr>)
          else (case rehashed L password u (next_uuid d) of
                  Inl e \<Rightarrow> (Inl e, d)
                | Inr hashed \<Rightarrow>
                    let n = Suc (next_uuid d); u' = logged_in q hashed u
                    in saved (Inr (new_session L S q u' n)) d
                         (session_opened L S q u' n (d\<lparr>users := put us_id u' (users d)\<rparr>))))"

definition token_record :: "library \<Rightarrow> string \<Rightarrow> db \<Rightarrow> refresh_token option res" where
  "token_record L raw d = one_or_none (\<lambda>t. rt_token_hash t = sha256 L raw) (refresh_tokens d)"

definition revoked :: "request \<Rightarrow> refresh_token \<Rightarrow> refresh_token" where
  "revoked q t = t\<lparr>rt_revoked_at := Some (now q)\<rparr>"

definition revoke_for :: "request \<Rightarrow> uuid \<Rightarrow> refresh_token \<Rightarrow> refresh_token" where
  "revoke_for q i t = (if rt_user_id t = i \<and> rt_revoked_at t = None then revoked q t else t)"

definition revoked_all :: "request \<Rightarrow> uuid \<Rightarrow> db \<Rightarrow> db" where
  "revoked_all q i d = d\<lparr>refresh_tokens := map (revoke_for q i) (refresh_tokens d)\<rparr>"

definition token_revoked :: "request \<Rightarrow> refresh_token \<Rightarrow> db \<Rightarrow> db" where
  "token_revoked q t d = d\<lparr>refresh_tokens := put rt_id (revoked q t) (refresh_tokens d)\<rparr>"

definition rotate_refresh_token :: "library \<Rightarrow> auth_settings \<Rightarrow> request \<Rightarrow> string \<Rightarrow> db \<Rightarrow> session res \<times> db" where
  "rotate_refresh_token L S q raw d =
     (if raw = [] then (Inl InvalidTokenError, d)
      else case token_record L raw d of
        Inl e \<Rightarrow> (Inl e, d)
      | Inr None \<Rightarrow> (Inl InvalidTokenError, d)
      | Inr (Some t) \<Rightarrow>
          if rt_revoked_at t \<noteq> None then saved (Inl InvalidTokenError) d (revoked_all q (rt_user_id t) d)
          else if rt_expires_at t \<le> now q then saved (Inl TokenExpiredError) d (token_revoked q t d)
          else (case row us_id (rt_user_id t) (users d) of
                  None \<Rightarrow> saved (Inl AccountInactiveError) d (token_revoked q t d)
                | Some u \<Rightarrow>
                    if \<not> us_is_active u \<or> us_deleted_at u \<noteq> None
                    then saved (Inl AccountInactiveError) d (token_revoked q t d)
                    else saved (Inr (new_session L S q u (next_uuid d))) d
                           (session_opened L S q u (next_uuid d) (token_revoked q t d))))"

definition revoke_refresh_token :: "library \<Rightarrow> request \<Rightarrow> string \<Rightarrow> db \<Rightarrow> bool res \<times> db" where
  "revoke_refresh_token L q raw d =
     (if raw = [] then (Inr False, d)
      else case token_record L raw d of
        Inl e \<Rightarrow> (Inl e, d)
      | Inr None \<Rightarrow> (Inr False, d)
      | Inr (Some t) \<Rightarrow> if rt_revoked_at t \<noteq> None then (Inr False, d) else saved (Inr True) d (token_revoked q t d))"

definition revoke_all_user_tokens :: "request \<Rightarrow> uuid \<Rightarrow> db \<Rightarrow> nat res \<times> db" where
  "revoke_all_user_tokens q i d =
     saved (Inr (length (filter (\<lambda>t. rt_user_id t = i \<and> rt_revoked_at t = None) (refresh_tokens d)))) d (revoked_all q i d)"

section \<open>Accounts and sessions as a service\<close>

datatype auth_request =
    Register user_register
  | Login string string
  | Refresh "string option"
  | Logout "string option"

datatype auth_answer = Failed app_error | Registered user | Session session | LoggedOut

definition answer :: "('a \<Rightarrow> auth_answer) \<Rightarrow> 'a res \<times> db \<Rightarrow> auth_answer \<times> db" where
  "answer f r = ((case fst r of Inl e \<Rightarrow> Failed e | Inr x \<Rightarrow> f x), snd r)"

text \<open>The endpoints of \<^verbatim>\<open>auth.py\<close>: the refresh token travels in a cookie, which may be missing.\<close>

fun auth_serve :: "library \<Rightarrow> auth_settings \<Rightarrow> request \<Rightarrow> auth_request \<Rightarrow> db \<Rightarrow> auth_answer \<times> db" where
  "auth_serve L S q (Register p) d =
     (case user_register_schema L p of Inl e \<Rightarrow> (Failed e, d) | Inr p' \<Rightarrow> answer Registered (register_user L q p' d))"
| "auth_serve L S q (Login email password) d =
     (case user_login_schema L email password of
        Inl e \<Rightarrow> (Failed e, d)
      | Inr (e, pw) \<Rightarrow> answer Session (authenticate_user L S q e pw d))"
| "auth_serve L S q (Refresh cookie) d =
     (if truthy cookie then answer Session (rotate_refresh_token L S q (the cookie) d) else (Failed UnauthorizedError, d))"
| "auth_serve L S q (Logout cookie) d =
     (if truthy cookie then answer (\<lambda>_. LoggedOut) (revoke_refresh_token L q (the cookie) d) else (LoggedOut, d))"

text \<open>A request to the service never rolls back: whatever it answers, the database it leaves is kept.\<close>

definition auth_exec :: "library \<Rightarrow> auth_settings \<Rightarrow> request \<Rightarrow> auth_request \<Rightarrow> db \<Rightarrow> db res" where
  "auth_exec L S q r d = Inr (snd (auth_serve L S q r d))"

section \<open>The rate limiter of the login\<close>

text \<open>The timestamps of the admitted calls, per client key, in memory: a map with \<open>[]\<close> as default.\<close>

type_synonym limiter = "string \<Rightarrow> time list"

definition check_rate_limit :: "string \<Rightarrow> int \<Rightarrow> int \<Rightarrow> time \<Rightarrow> limiter \<Rightarrow> (bool \<times> int) res \<times> limiter" where
  "check_rate_limit key max_requests window_seconds t records =
     (let window = window_seconds * 1000000;
          timestamps = filter (\<lambda>x. x > t - window) (records key);
          records' = records(key := timestamps)
      in if int (length timestamps) \<ge> max_requests
         then (case timestamps of
                 [] \<Rightarrow> (Inl InternalError, records')
               | oldest # _ \<Rightarrow> (Inr (False, max 1 ((oldest + window - t) div 1000000)), records'))
         else (Inr (True, 0), records(key := timestamps @ [t])))"

definition get_client_ip :: "string option \<Rightarrow> string option \<Rightarrow> string" where
  "get_client_ip forwarded host =
     (if truthy forwarded then strip (takeWhile (\<lambda>c. c \<noteq> CHR '','') (the forwarded))
      else (case host of None \<Rightarrow> ''unknown'' | Some h \<Rightarrow> h))"

definition check_login_rate_limit ::
    "auth_settings \<Rightarrow> time \<Rightarrow> string option \<Rightarrow> string option \<Rightarrow> limiter \<Rightarrow> unit res \<times> limiter" where
  "check_login_rate_limit S t forwarded host records =
     (let (r, records') = check_rate_limit (''login:'' @ get_client_ip forwarded host) (RATE_LIMIT_LOGIN_PER_MINUTE S) 60 t records
      in (and_then r (\<lambda>(allowed, _). require allowed RateLimitExceededError (Inr ())), records'))"

text \<open>The login endpoint asks the limiter before anything else.\<close>

definition login ::
    "library \<Rightarrow> auth_settings \<Rightarrow> request \<Rightarrow> string option \<Rightarrow> string \<Rightarrow> string \<Rightarrow> db \<times> limiter \<Rightarrow> auth_answer \<times> db \<times> limiter" where
  "login L S q forwarded email password = (\<lambda>(d, records).
     (case check_login_rate_limit S (now q) forwarded (ip_address q) records of
        (Inl e, records') \<Rightarrow> (Failed e, d, records')
      | (Inr _, records') \<Rightarrow> (let (a, d') = auth_serve L S q (Login email password) d in (a, d', records'))))"

section \<open>Roles and permissions\<close>

definition role_checker :: "user_role list \<Rightarrow> user \<Rightarrow> user res" where
  "role_checker allowed u = require (us_role u \<in> set allowed) InsufficientRoleError (Inr u)"

section \<open>What a request can change\<close>

lemma one_or_none_Some: "one_or_none p t = Inr (Some x) \<Longrightarrow> x \<in> set t \<and> p x"
proof -
  assume "one_or_none p t = Inr (Some x)"
  then have "filter p t = [x]" by (auto simp: one_or_none_def split: list.splits)
  then have "x \<in> set (filter p t)" by simp
  then show ?thesis by simp
qed

lemma one_or_none_unique:
  assumes "distinct (map f t)" and "\<And>x y. x \<in> set t \<Longrightarrow> y \<in> set t \<Longrightarrow> p x \<Longrightarrow> p y \<Longrightarrow> f x = f y"
  shows "one_or_none p t = Inr (scalar p t)"
proof -
  have "distinct (filter p t)" using assms(1) by (simp add: distinct_map)
  moreover have same: "x = y" if "x \<in> set (filter p t)" "y \<in> set (filter p t)" for x y
    using that assms by (auto simp: distinct_map inj_on_def)
  ultimately have f: "filter p t = [] \<or> (\<exists>x. filter p t = [x])"
  proof (cases "filter p t" rule: remdups_adj.cases)
    case (3 x y zs)
    then have "x = y" using same [of x y] by simp
    with 3 \<open>distinct (filter p t)\<close> show ?thesis by simp
  qed auto
  show ?thesis
  proof (cases "filter p t")
    case Nil
    then have "scalar p t = None" by (auto simp: scalar_None filter_empty_conv)
    with Nil show ?thesis by (simp add: one_or_none_def)
  next
    case (Cons x xs)
    with f have f: "filter p t = [x]" by auto
    then have x: "x \<in> set t" "p x" by (auto simp: filter_eq_Cons_iff)
    then obtain y where y: "scalar p t = Some y" by (cases "scalar p t") (auto simp: scalar_None)
    then have "y \<in> set (filter p t)" by (auto dest: scalar_Some)
    with f y show ?thesis by (simp add: one_or_none_def)
  qed
qed

inductive auth_effect :: "library \<Rightarrow> auth_settings \<Rightarrow> request \<Rightarrow> db \<Rightarrow> db \<Rightarrow> bool" for L S q d where
  untouched: "auth_effect L S q d d"
| joined: "us_email u = normalized_email e \<Longrightarrow> us_failed_login_attempts u = 0 \<Longrightarrow>
    auth_effect L S q d (d\<lparr>users := users d @ [u], next_uuid := n\<rparr>)"
| failed: "u \<in> set (users d) \<Longrightarrow> us_is_active u \<Longrightarrow> us_deleted_at u = None \<Longrightarrow> \<not> locked q u \<Longrightarrow>
    \<not> verify_password L pw (us_password_hash u) \<Longrightarrow>
    auth_effect L S q d (d\<lparr>users := put us_id (attempt_failed S q u) (users d)\<rparr>)"
| opened: "u \<in> set (users d) \<Longrightarrow> us_is_active u \<Longrightarrow> us_deleted_at u = None \<Longrightarrow> \<not> locked q u \<Longrightarrow>
    verify_password L pw (us_password_hash u) \<Longrightarrow>
    auth_effect L S q d (session_opened L S q (logged_in q h u) n (d\<lparr>users := put us_id (logged_in q h u) (users d)\<rparr>))"
| rotated: "t \<in> set (refresh_tokens d) \<Longrightarrow> rt_revoked_at t = None \<Longrightarrow> u \<in> set (users d) \<Longrightarrow> us_id u = rt_user_id t \<Longrightarrow>
    us_is_active u \<Longrightarrow> us_deleted_at u = None \<Longrightarrow> now q < rt_expires_at t \<Longrightarrow>
    auth_effect L S q d (session_opened L S q u n (token_revoked q t d))"
| ended: "t \<in> set (refresh_tokens d) \<Longrightarrow> rt_revoked_at t = None \<Longrightarrow> auth_effect L S q d (token_revoked q t d)"
| expelled: "t \<in> set (refresh_tokens d) \<Longrightarrow> rt_revoked_at t \<noteq> None \<Longrightarrow> auth_effect L S q d (revoked_all q (rt_user_id t) d)"

lemma saved_cases: "saved r d e = (x, d') \<Longrightarrow> d' = d \<or> d' = e \<and> db_ok e"
  by (auto simp: saved_def split: if_splits)

lemma account_ofD: "account_of e d = Inr (Some u) \<Longrightarrow>
    u \<in> set (users d) \<and> lower (us_email u) = normalized_email e \<and> us_deleted_at u = None"
  unfolding account_of_def by (auto dest: one_or_none_Some)

lemma token_recordD: "token_record L raw d = Inr (Some t) \<Longrightarrow> t \<in> set (refresh_tokens d) \<and> rt_token_hash t = sha256 L raw"
  unfolding token_record_def by (auto dest: one_or_none_Some)

lemma register_user_effect:
  "register_user L q p d = (r, d') \<Longrightarrow> d' = d \<or> auth_effect L S q d d' \<and> db_ok d'"
  by (auto simp: register_user_def Let_def new_user_def split: sum.splits if_splits intro!: joined)

lemma authenticate_user_effect:
  "authenticate_user L S q e pw d = (r, d') \<Longrightarrow> d' = d \<or> auth_effect L S q d d' \<and> db_ok d'"
  unfolding authenticate_user_def Let_def
  by (auto split: sum.splits option.splits if_splits dest!: saved_cases account_ofD intro: failed opened)

lemma rotate_refresh_token_effect:
  "rotate_refresh_token L S q raw d = (r, d') \<Longrightarrow> d' = d \<or> auth_effect L S q d d' \<and> db_ok d'"
  unfolding rotate_refresh_token_def
  by (auto split: sum.splits option.splits if_splits dest!: saved_cases token_recordD row_key intro: rotated ended expelled)

lemma revoke_refresh_token_effect:
  "revoke_refresh_token L q raw d = (r, d') \<Longrightarrow> d' = d \<or> auth_effect L S q d d' \<and> db_ok d'"
  unfolding revoke_refresh_token_def
  by (auto split: sum.splits option.splits if_splits dest!: saved_cases token_recordD intro: ended)

lemmas auth_effects =
  register_user_effect [OF prod.collapse [symmetric]] authenticate_user_effect [OF prod.collapse [symmetric]]
  rotate_refresh_token_effect [OF prod.collapse [symmetric]] revoke_refresh_token_effect [OF prod.collapse [symmetric]]

lemma auth_serve_effect:
  "snd (auth_serve L S q r d) = d \<or> auth_effect L S q d (snd (auth_serve L S q r d)) \<and> db_ok (snd (auth_serve L S q r d))"
proof (cases r)
  case (Register p)
  then show ?thesis by (cases "user_register_schema L p") (simp_all add: answer_def auth_effects)
next
  case (Login email password)
  then show ?thesis
    using auth_effects(2) [of L S q _ _ d]
    by (cases "user_login_schema L email password") (simp_all add: answer_def split: prod.split)
qed (simp_all add: answer_def auth_effects)

lemma auth_exec_effect: "auth_exec L S q r d = Inr d' \<Longrightarrow> db_ok d \<Longrightarrow> auth_effect L S q d d' \<and> db_ok d'"
  using auth_serve_effect [of L S q r d] untouched [of L S q d] by (auto simp: auth_exec_def)

lemma auth_tables [simp]:
  "users (session_opened L S q u n d) = users d" "audit_logs (session_opened L S q u n d) = audit_logs d"
  "refresh_tokens (session_opened L S q u n d) =
     refresh_tokens d @ [new_refresh_token L S q u (token_urlsafe L (Suc n)) (n + 2)]"
  "users (token_revoked q t d) = users d" "audit_logs (token_revoked q t d) = audit_logs d"
  "refresh_tokens (token_revoked q t d) = put rt_id (revoked q t) (refresh_tokens d)"
  "users (revoked_all q i d) = users d" "audit_logs (revoked_all q i d) = audit_logs d"
  "refresh_tokens (revoked_all q i d) = map (revoke_for q i) (refresh_tokens d)"
  by (simp_all add: session_opened_def token_revoked_def revoked_all_def)

lemma auth_rows [simp]:
  "us_id (attempt_failed S q u) = us_id u" "us_email (attempt_failed S q u) = us_email u"
  "us_is_active (attempt_failed S q u) = us_is_active u" "us_deleted_at (attempt_failed S q u) = us_deleted_at u"
  "us_password_hash (attempt_failed S q u) = us_password_hash u" "us_role (attempt_failed S q u) = us_role u"
  "us_failed_login_attempts (attempt_failed S q u) = us_failed_login_attempts u + 1"
  "us_id (logged_in q h u) = us_id u" "us_email (logged_in q h u) = us_email u"
  "us_is_active (logged_in q h u) = us_is_active u" "us_deleted_at (logged_in q h u) = us_deleted_at u"
  "us_role (logged_in q h u) = us_role u" "us_failed_login_attempts (logged_in q h u) = 0"
  "rt_id (revoked q t) = rt_id t" "rt_user_id (revoked q t) = rt_user_id t" "rt_token_hash (revoked q t) = rt_token_hash t"
  "rt_revoked_at (revoked q t) = Some (now q)"
  "rt_id (revoke_for q i t) = rt_id t" "rt_user_id (revoke_for q i t) = rt_user_id t"
  "rt_token_hash (revoke_for q i t) = rt_token_hash t"
  "rt_user_id (new_refresh_token L S q u raw n) = us_id u" "rt_revoked_at (new_refresh_token L S q u raw n) = None"
  "rt_token_hash (new_refresh_token L S q u raw n) = sha256 L raw"
  by (simp_all add: attempt_failed_def Let_def logged_in_def revoked_def revoke_for_def new_refresh_token_def)

lemma auth_effect_audit: "auth_effect L S q d d' \<Longrightarrow> audit_logs d' = audit_logs d"
  by (induction rule: auth_effect.induct) simp_all

interpretation auth_service: audited_service "auth_exec L S" for L S
proof unfold_locales
  fix d q r d'
  assume ex: "auth_exec L S q r d = Inr d'"
  show "db_ok d'" if "db_ok d" using auth_exec_effect [OF ex that] by simp
  have "d' = d \<or> auth_effect L S q d d'" using auth_serve_effect [of L S q r d] ex by (auto simp: auth_exec_def)
  then show "signed q d d'" using auth_effect_audit by fastforce
qed

section \<open>Accounts\<close>

lemma is_space_lower [simp]: "is_space (lower_char c) = is_space c"
  by (auto simp: is_space_def lower_char_def Let_def)

lemma lower_lower_char [simp]: "lower_char (lower_char c) = lower_char c"
  by (auto simp: lower_char_def Let_def)

lemma strip_lower: "strip (lower s) = lower (strip s)"
  by (simp add: strip_def strip_by_def lower_def dropWhile_map rev_map comp_def)

lemma lower_lower [simp]: "lower (lower s) = lower s"
  by (simp add: lower_def)

lemma normalized_email_idem [simp]: "normalized_email (normalized_email e) = normalized_email e"
  by (simp add: normalized_email_def strip_lower strip_idem)

lemma lower_normalized [simp]: "lower (normalized_email e) = normalized_email e"
  by (simp add: normalized_email_def)

text \<open>Stored addresses are normalised, so no two accounts differ only in the case of their address.\<close>

definition accounts_ok :: "db \<Rightarrow> bool" where
  "accounts_ok d \<longleftrightarrow>
     list_all (\<lambda>u. normalized_email (us_email u) = us_email u \<and> 0 \<le> us_failed_login_attempts u) (users d) \<and>
     list_all (\<lambda>t. rt_user_id t \<in> us_id ` set (users d)) (refresh_tokens d)"

lemma accounts_ok_effect: "auth_effect L S q d d' \<Longrightarrow> accounts_ok d \<Longrightarrow> accounts_ok d'"
  by (induction rule: auth_effect.induct) (auto simp: accounts_ok_def list_all_iff dest!: put_rows)

interpretation accounts: state_invariant "auth_exec L S" accounts_ok for L S
  by unfold_locales (auto dest: auth_exec_effect accounts_ok_effect)

lemma account_of_unique:
  assumes "db_ok d" and "accounts_ok d"
  shows "account_of e d = Inr (scalar (\<lambda>u. us_email u = normalized_email e \<and> us_deleted_at u = None) (users d))"
proof -
  have n: "lower (us_email u) = us_email u" if "u \<in> set (users d)" for u
  proof -
    have "us_email u = normalized_email (us_email u)" using that assms(2) by (simp add: accounts_ok_def list_all_iff)
    then show ?thesis by (metis lower_normalized)
  qed
  have "distinct (map us_email (users d))" using assms(1) by (simp add: db_ok_def users_ok_def)
  then have "account_of e d =
      Inr (scalar (\<lambda>u. lower (us_email u) = normalized_email e \<and> us_deleted_at u = None) (users d))"
    unfolding account_of_def by (rule one_or_none_unique) (simp add: n)
  also have "scalar (\<lambda>u. lower (us_email u) = normalized_email e \<and> us_deleted_at u = None) (users d) =
      scalar (\<lambda>u. us_email u = normalized_email e \<and> us_deleted_at u = None) (users d)"
    unfolding scalar_def by (rule find_cong) (simp_all add: n)
  finally show ?thesis .
qed

end
