(* ===== verification/Guards.thy ===== *)
theory Guards
  imports Auth
begin

text \<open>
  The guards of the endpoints: \<^verbatim>\<open>core/permissions.py\<close> and the dependencies of \<^verbatim>\<open>api/deps.py\<close>. An endpoint runs for the
  user its bearer token names, as the database knows the account now: \<open>authenticated\<close>, \<open>with_role\<close> and
  \<open>with_permission\<close> resolve that user before the payload is looked at and continue with the request in the user's
  name. What the caller of a model function passes as the acting user is overwritten.
\<close>

section \<open>Permissions\<close>

datatype permission =
    CLUB_CREATE | CLUB_UPDATE | CLUB_MANAGE_MEMBERS | CLUB_VIEW_ANY
  | EVENT_PROPOSE | EVENT_EDIT_DRAFT | EVENT_CANCEL | EVENT_VIEW_ALL
  | APPROVAL_FACULTY_REVIEW | APPROVAL_HALL_REVIEW | APPROVAL_UNION_REVIEW | APPROVAL_DEAN_REVIEW
  | APPROVAL_PRINCIPAL_REVIEW | APPROVAL_FINANCE_REVIEW
  | HALL_CREATE | HALL_UPDATE | HALL_OVERRIDE_BOOKING
  | BUDGET_APPROVE | FINANCIAL_SETTLEMENT
  | SYSTEM_CONFIG | USER_MANAGE | AUDIT_LOG_VIEW

definition every_role :: "user_role list" where
  "every_role =
     [SYSTEM_ADMIN, CLUB_SECRETARY, FACULTY_ADVISOR, HALL_INCHARGE, ADVISOR_STUDENTS_UNION, DEAN_STUDENT_AFFAIRS,
      PRINCIPAL, FINANCE_OFFICER]"

fun ROLE_PERMISSIONS :: "permission \<Rightarrow> user_role list" where
  "ROLE_PERMISSIONS CLUB_CREATE = [SYSTEM_ADMIN]"
| "ROLE_PERMISSIONS CLUB_UPDATE = [CLUB_SECRETARY, SYSTEM_ADMIN]"
| "ROLE_PERMISSIONS CLUB_MANAGE_MEMBERS = [CLUB_SECRETARY, SYSTEM_ADMIN]"
| "ROLE_PERMISSIONS CLUB_VIEW_ANY = every_role"
| "ROLE_PERMISSIONS EVENT_PROPOSE = [CLUB_SECRETARY]"
| "ROLE_PERMISSIONS EVENT_EDIT_DRAFT = [CLUB_SECRETARY]"
| "ROLE_PERMISSIONS EVENT_CANCEL = [CLUB_SECRETARY, PRINCIPAL, DEAN_STUDENT_AFFAIRS, SYSTEM_ADMIN]"
| "ROLE_PERMISSIONS EVENT_VIEW_ALL = every_role"
| "ROLE_PERMISSIONS APPROVAL_FACULTY_REVIEW = [FACULTY_ADVISOR]"
| "ROLE_PERMISSIONS APPROVAL_HALL_REVIEW = [HALL_INCHARGE]"
| "ROLE_PERMISSIONS APPROVAL_UNION_REVIEW = [ADVISOR_STUDENTS_UNION]"
| "ROLE_PERMISSIONS APPROVAL_DEAN_REVIEW = [DEAN_STUDENT_AFFAIRS]"
| "ROLE_PERMISSIONS APPROVAL_PRINCIPAL_REVIEW = [PRINCIPAL]"
| "ROLE_PERMISSIONS APPROVAL_FINANCE_REVIEW = [FINANCE_OFFICER]"
| "ROLE_PERMISSIONS HALL_CREATE = [SYSTEM_ADMIN]"
| "ROLE_PERMISSIONS HALL_UPDATE = [HALL_INCHARGE, SYSTEM_ADMIN]"
| "ROLE_PERMISSIONS HALL_OVERRIDE_BOOKING = [HALL_INCHARGE, PRINCIPAL]"
| "ROLE_PERMISSIONS BUDGET_APPROVE = [FINANCE_OFFICER, PRINCIPAL]"
| "ROLE_PERMISSIONS FINANCIAL_SETTLEMENT = [FINANCE_OFFICER]"
| "ROLE_PERMISSIONS SYSTEM_CONFIG = [SYSTEM_ADMIN]"
| "ROLE_PERMISSIONS USER_MANAGE = [SYSTEM_ADMIN]"
| "ROLE_PERMISSIONS AUDIT_LOG_VIEW = [SYSTEM_ADMIN, PRINCIPAL, DEAN_STUDENT_AFFAIRS]"

lemma every_role_complete [simp]: "r \<in> set every_role"
  by (cases r) (simp_all add: every_role_def)

section \<open>Dependencies\<close>

definition authenticated ::
    "library \<Rightarrow> string option \<Rightarrow> request \<Rightarrow> db \<Rightarrow> (request \<Rightarrow> 'a res) \<Rightarrow> 'a res" where
  "authenticated L t q d k = and_then (get_current_user L (now q) t d) (\<lambda>u. k (q\<lparr>actor := u\<rparr>))"

definition with_role ::
    "library \<Rightarrow> string option \<Rightarrow> request \<Rightarrow> db \<Rightarrow> user_role list \<Rightarrow> (request \<Rightarrow> 'a res) \<Rightarrow> 'a res" where
  "with_role L t q d roles k =
     and_then (get_current_user L (now q) t d) (\<lambda>u.
     and_then (role_checker roles u) (\<lambda>u. k (q\<lparr>actor := u\<rparr>)))"

definition with_permission ::
    "library \<Rightarrow> string option \<Rightarrow> request \<Rightarrow> db \<Rightarrow> permission \<Rightarrow> (request \<Rightarrow> 'a res) \<Rightarrow> 'a res" where
  "with_permission L t q d p k = with_role L t q d (ROLE_PERMISSIONS p) k"

text \<open>The user a request is served for.\<close>

definition sender :: "library \<Rightarrow> string option \<Rightarrow> request \<Rightarrow> db \<Rightarrow> user \<Rightarrow> bool" where
  "sender L t q d u \<longleftrightarrow> get_current_user L (now q) t d = Inr u"

lemma authenticated_Inr [res_simps]:
  "authenticated L t q d k = Inr x \<longleftrightarrow> (\<exists>u. sender L t q d u \<and> k (q\<lparr>actor := u\<rparr>) = Inr x)"
  by (simp add: authenticated_def sender_def res_simps)

lemma with_role_Inr [res_simps]:
  "with_role L t q d rs k = Inr x \<longleftrightarrow> (\<exists>u. sender L t q d u \<and> us_role u \<in> set rs \<and> k (q\<lparr>actor := u\<rparr>) = Inr x)"
  by (auto simp: with_role_def role_checker_def sender_def res_simps)

lemma with_permission_Inr [res_simps]:
  "with_permission L t q d p k = Inr x \<longleftrightarrow>
     (\<exists>u. sender L t q d u \<and> us_role u \<in> set (ROLE_PERMISSIONS p) \<and> k (q\<lparr>actor := u\<rparr>) = Inr x)"
  by (simp add: with_permission_def res_simps)

lemma sender_account: "sender L t q d u \<Longrightarrow> u \<in> set (users d) \<and> us_is_active u \<and> us_deleted_at u = None"
  by (auto simp: sender_def get_current_user_def res_simps dest: row_key)

lemma sender_unique: "sender L t q d u \<Longrightarrow> sender L t q d v \<Longrightarrow> u = v"
  by (simp add: sender_def)

end
