(* ===== verification/Workflow.thy ===== *)
theory Workflow
  imports Scenario Texts
begin

text \<open>
  The approval chain: \<^verbatim>\<open>WorkflowService\<close> of \<^verbatim>\<open>backend/app/services/workflow_service.py\<close>, with
  \<^verbatim>\<open>EventService.create_confirmed_event\<close> of \<^verbatim>\<open>event_service.py\<close>, which its last step calls, and the payload
  schemas of \<^verbatim>\<open>backend/app/schemas/workflow.py\<close>. Submitting a proposal instantiates the default template of
  six statutory steps; the assigned approvers decide them in order; the second step books the hall, the third
  verifies the budget, and the last one turns the proposal into a confirmed event.
\<close>

section \<open>The confirmed event\<close>

text \<open>
  A text read back from the stored snapshot, or the fallback when it is absent or empty (Python's \<open>or\<close>). A
  value of another type would only fail when it is written to its column.
\<close>

definition text_or :: "json \<Rightarrow> string option \<Rightarrow> string option res" where
  "text_or j dflt =
     (if j_truthy j then (case j of JText s \<Rightarrow> Inr (Some s) | _ \<Rightarrow> Inl InternalError) else Inr dflt)"

definition event_type_or :: "json \<Rightarrow> event_type \<Rightarrow> event_type res" where
  "event_type_or j dflt =
     (if j_truthy j then (case j of JEnum (J_event_type t) \<Rightarrow> Inr t | _ \<Rightarrow> Inl InternalError) else Inr dflt)"

definition int_or :: "json \<Rightarrow> int option \<Rightarrow> int option res" where
  "int_or j dflt = (case j of JNull \<Rightarrow> Inr dflt | JInt n \<Rightarrow> Inr (Some n) | _ \<Rightarrow> Inl InternalError)"

definition latest_version :: "db \<Rightarrow> uuid \<Rightarrow> event_request_version option" where
  "latest_version d event_request_id =
     latest_by ver_version_number (filter (\<lambda>v. ver_event_request_id v = event_request_id) (versions d))"

definition confirmed_event ::
    "request \<Rightarrow> event_request \<Rightarrow> hall_booking option \<Rightarrow> venue_request option \<Rightarrow> event_request_version option \<Rightarrow>
       uuid \<Rightarrow> event res" where
  "confirmed_event q rq booking vr version i =
     (let default_dt = (case rq_event_date rq of Some t \<Rightarrow> t | None \<Rightarrow> rq_created_at rq);
          snapshot = (case version of None \<Rightarrow> JObj [] | Some v \<Rightarrow> if j_truthy (ver_snapshot v) then ver_snapshot v else JObj [])
      in and_then (text_or (j_get ''title'' snapshot)
           (if rq_title rq = [] then Some ''Confirmed Event'' else Some (rq_title rq))) (\<lambda>title.
         and_then (text_or (j_get ''description'' snapshot) (rq_description rq)) (\<lambda>description.
         and_then (event_type_or (j_get ''event_type'' snapshot) (rq_event_type rq)) (\<lambda>event_type.
         and_then (int_or (j_get ''expected_attendees'' snapshot) (rq_expected_attendees rq)) (\<lambda>expected_attendees.
         Inr \<lparr>ev_id = i, ev_event_request_id = rq_id rq,
              ev_approved_version_id = (case version of None \<Rightarrow> rq_id rq | Some v \<Rightarrow> ver_id v),
              ev_club_id = rq_club_id rq,
              ev_hall_id = (case booking of Some b \<Rightarrow> Some (bk_hall_id b) | None \<Rightarrow> map_option vr_hall_id vr),
              ev_title = (case title of None \<Rightarrow> [] | Some t \<Rightarrow> t), ev_description = description,
              ev_event_type = event_type,
              ev_event_date = (case booking of Some b \<Rightarrow> bk_booking_date b
                | None \<Rightarrow> (case vr of Some v \<Rightarrow> vr_requested_date v | None \<Rightarrow> default_dt)),
              ev_start_time = (case booking of Some b \<Rightarrow> bk_start_time b
                | None \<Rightarrow> (case vr of Some v \<Rightarrow> vr_start_time v | None \<Rightarrow> default_dt)),
              ev_end_time = (case booking of Some b \<Rightarrow> bk_end_time b
                | None \<Rightarrow> (case vr of Some v \<Rightarrow> vr_end_time v | None \<Rightarrow> default_dt)),
              ev_expected_attendees = expected_attendees, ev_status = EV_SCHEDULED,
              ev_academic_year = rq_academic_year rq, ev_cancelled_at = None,
              ev_cancellation_reason = None, ev_cancelled_by = None, ev_deleted_at = None,
              ev_created_at = now q\<rparr>)))))"

text \<open>
  The booking is looked up in the database, where the session has not yet written what the same request
  changed (\<open>autoflush=False\<close>): \<open>flushed\<close> is the table as it was stored before the request.
\<close>

definition create_confirmed_event ::
    "request \<Rightarrow> event_request \<Rightarrow> hall_booking list \<Rightarrow> db \<Rightarrow> (event \<times> db) res" where
  "create_confirmed_event q rq flushed d =
     (case scalar (\<lambda>e. ev_event_request_id e = rq_id rq) (events d) of
        Some e \<Rightarrow> Inr (e, d)
      | None \<Rightarrow>
          let booking = scalar (\<lambda>b. bk_event_request_id b = rq_id rq \<and> bk_is_active b) flushed;
              vr = venue_request_of d (rq_id rq);
              i = next_uuid d
          in and_then (confirmed_event q rq booking vr (latest_version d (rq_id rq)) i) (\<lambda>ev.
             Inr (ev, add_audit (q\<lparr>ip_address := None, user_agent := None\<rparr>) A_EVENT_CREATED ''event'' i JNull
               (JObj [(''event_request_id'', JUuid (rq_id rq)), (''title'', JText (ev_title ev)),
                      (''status'', JEnum (J_event_status EV_SCHEDULED)),
                      (''hall_id'', j_opt JUuid (ev_hall_id ev))]) None
               (d\<lparr>events := events d @ [ev], next_uuid := Suc i\<rparr>))))"

section \<open>Templates\<close>

definition standard_steps :: "(int \<times> string \<times> user_role \<times> string) list" where
  "standard_steps =
     [(1, ''Faculty Advisor Review'', FACULTY_ADVISOR, ''Academic and departmental endorsement''),
      (2, ''Hall In-Charge Review'', HALL_INCHARGE, ''Venue availability and physical space clearance''),
      (3, ''Finance Officer Pre-Audit'', FINANCE_OFFICER, ''Budget compliance, cap verification, and expense audit''),
      (4, ''Advisor Students Union Review'', ADVISOR_STUDENTS_UNION, ''Student body calendar harmony''),
      (5, ''Dean of Student Affairs Review'', DEAN_STUDENT_AFFAIRS, ''Institutional administration clearance''),
      (6, ''Principal Executive Sanction'', PRINCIPAL, ''Final statutory authority event sanction'')]"

definition standard_template :: "request \<Rightarrow> uuid \<Rightarrow> workflow_template" where
  "standard_template q i =
     \<lparr>tp_id = i, tp_name = ''Standard Institutional Event Approval'',
      tp_description = Some ''Default 6-stage collegiate governance approval chain'', tp_event_type = None,
      tp_is_active = True, tp_is_default = True, tp_created_by = actor_id q, tp_deleted_at = None,
      tp_created_at = now q\<rparr>"

definition standard_step :: "request \<Rightarrow> uuid \<Rightarrow> nat \<times> (int \<times> string \<times> user_role \<times> string) \<Rightarrow> workflow_template_step" where
  "standard_step q template = (\<lambda>(i, order, name, role, desc).
     \<lparr>ts_id = i, ts_template_id = template, ts_step_order = order, ts_step_name = name,
      ts_required_role = role, ts_assigned_user_id = None, ts_is_optional = False,
      ts_description = Some desc, ts_created_at = now q\<rparr>)"

definition ensure_default_template :: "request \<Rightarrow> db \<Rightarrow> workflow_template \<times> db" where
  "ensure_default_template q d =
     (case scalar (\<lambda>t. tp_is_default t \<and> tp_deleted_at t = None) (templates d) of
        Some t \<Rightarrow> (t, d)
      | None \<Rightarrow>
          let i = next_uuid d; t = standard_template q i
          in (t, d\<lparr>templates := templates d @ [t],
                   template_steps := template_steps d @ map (standard_step q i) (enumerate (Suc i) standard_steps),
                   next_uuid := Suc i + length standard_steps\<rparr>))"

section \<open>Instantiation\<close>

definition steps_of_template :: "db \<Rightarrow> workflow_template \<Rightarrow> workflow_template_step list" where
  "steps_of_template d t = sort_key ts_step_order (filter (\<lambda>s. ts_template_id s = tp_id t) (template_steps d))"

definition first_user :: "db \<Rightarrow> user_role \<Rightarrow> user option" where
  "first_user d r = scalar (\<lambda>u. us_is_active u \<and> us_deleted_at u = None \<and> us_role u = r) (users d)"

text \<open>Who decides a step: the template's user, the club's advisor, the first active holder of the role, an administrator, or the submitter.\<close>

definition assignee_of :: "request \<Rightarrow> event_request \<Rightarrow> db \<Rightarrow> workflow_template_step \<Rightarrow> uuid" where
  "assignee_of q rq d t =
     (case ts_assigned_user_id t of
        Some u \<Rightarrow> u
      | None \<Rightarrow>
          let fallback = (case first_user d (ts_required_role t) of
                            Some u \<Rightarrow> us_id u
                          | None \<Rightarrow> (case first_user d SYSTEM_ADMIN of Some a \<Rightarrow> us_id a | None \<Rightarrow> actor_id q))
          in if ts_required_role t = FACULTY_ADVISOR
             then (case Option.bind (club_by_id d (rq_club_id rq)) cl_faculty_advisor_id of Some a \<Rightarrow> a | None \<Rightarrow> fallback)
             else fallback)"

definition instance_step ::
    "request \<Rightarrow> event_request \<Rightarrow> db \<Rightarrow> uuid \<Rightarrow> nat \<times> workflow_template_step \<Rightarrow> workflow_instance_step" where
  "instance_step q rq d inst = (\<lambda>(i, t).
     \<lparr>ws_id = i, ws_instance_id = inst, ws_template_step_id = ts_id t, ws_step_order = ts_step_order t,
      ws_step_name = ts_step_name t, ws_assigned_to = assignee_of q rq d t, ws_status = WS_PENDING,
      ws_action_taken_at = None, ws_comments = None, ws_version_reviewed = Some (rq_current_version rq),
      ws_step_version_lock = 0, ws_created_at = now q\<rparr>)"

definition supersede :: "event_request \<Rightarrow> db \<Rightarrow> db" where
  "supersede rq d =
     (case Option.bind (rq_workflow_instance_id rq) (\<lambda>i. row wi_id i (instances d)) of
        None \<Rightarrow> d
      | Some p \<Rightarrow>
          if wi_status p = WI_IN_PROGRESS
          then d\<lparr>instances := put wi_id (p\<lparr>wi_status := WI_SUPERSEDED\<rparr>) (instances d)\<rparr> else d)"

definition new_instance :: "request \<Rightarrow> event_request \<Rightarrow> workflow_template \<Rightarrow> uuid \<Rightarrow> workflow_instance" where
  "new_instance q rq t i =
     \<lparr>wi_id = i, wi_template_id = tp_id t, wi_event_request_id = rq_id rq, wi_current_step_order = 1,
      wi_status = WI_IN_PROGRESS, wi_version_number = rq_current_version rq, wi_created_at = now q\<rparr>"

definition step_at :: "db \<Rightarrow> uuid \<Rightarrow> int \<Rightarrow> workflow_instance_step option" where
  "step_at d inst order = scalar (\<lambda>s. ws_instance_id s = inst \<and> ws_step_order s = order) (steps d)"

definition instantiate_workflow :: "request \<Rightarrow> event_request \<Rightarrow> db \<Rightarrow> workflow_instance \<times> db" where
  "instantiate_workflow q rq d =
     (let (t, d1) = ensure_default_template q (supersede rq d);
          i = next_uuid d1;
          inst = new_instance q rq t i;
          ss = map (instance_step q rq d1 i) (enumerate (Suc i) (steps_of_template d1 t));
          d2 = d1\<lparr>instances := instances d1 @ [inst], steps := steps d1 @ ss,
                  event_requests := put rq_id (rq\<lparr>rq_workflow_instance_id := Some i\<rparr>) (event_requests d1),
                  next_uuid := Suc i + length ss\<rparr>
      in (inst,
          case step_at d2 i 1 of
            None \<Rightarrow> d2
          | Some s \<Rightarrow> create_notification q (ws_assigned_to s) N_ACTION_REQUIRED (Some (rq_id rq)) d2))"

section \<open>Deciding a step\<close>

text \<open>The guards that the three decisions share.\<close>

definition may_act :: "request \<Rightarrow> db \<Rightarrow> workflow_instance_step \<Rightarrow> bool" where
  "may_act q d s =
     (let is_assigned = (ws_assigned_to s = actor_id q);
          is_role_match = (case row ts_id (ws_template_step_id s) (template_steps d) of
                             None \<Rightarrow> False | Some t \<Rightarrow> ts_required_role t = actor_role q)
      in if ws_step_order s = 1 then is_assigned \<or> actor_role q = SYSTEM_ADMIN
         else is_assigned \<or> is_role_match)"

definition decidable_step ::
    "request \<Rightarrow> uuid \<Rightarrow> db \<Rightarrow> (workflow_instance_step \<times> workflow_instance \<times> event_request) res" where
  "decidable_step q step_id d =
     fetch (row ws_id step_id (steps d)) NotFoundError (\<lambda>s.
     fetch (row wi_id (ws_instance_id s) (instances d)) InternalError (\<lambda>inst.
     fetch (row rq_id (wi_event_request_id inst) (event_requests d)) InternalError (\<lambda>rq.
     require (ws_status s = WS_PENDING) WorkflowStateError (
     require (wi_status inst = WI_IN_PROGRESS) WorkflowStateError (
     require (ws_step_order s = wi_current_step_order inst) WorkflowStateError (
     require (rq_submitted_by rq \<noteq> actor_id q) ForbiddenError (
     require (may_act q d s) ForbiddenError (Inr (s, inst, rq)))))))))"

definition decided ::
    "request \<Rightarrow> workflow_step_status \<Rightarrow> string option \<Rightarrow> workflow_instance \<Rightarrow> workflow_instance_step \<Rightarrow>
       workflow_instance_step" where
  "decided q st comments inst s =
     s\<lparr>ws_status := st, ws_action_taken_at := Some (now q), ws_comments := comments,
       ws_version_reviewed := Some (wi_version_number inst), ws_step_version_lock := ws_step_version_lock s + 1\<rparr>"

definition store_decision ::
    "request \<Rightarrow> workflow_step_status \<Rightarrow> string option \<Rightarrow> workflow_instance \<Rightarrow> workflow_instance_step \<Rightarrow> db \<Rightarrow> db" where
  "store_decision q st comments inst s d =
     d\<lparr>steps := put ws_id (decided q st comments inst s) (steps d)\<rparr>"

definition decision_entry ::
    "request \<Rightarrow> audit_action \<Rightarrow> workflow_instance_step \<Rightarrow> json \<Rightarrow> db \<Rightarrow> db" where
  "decision_entry q a s new_state d =
     add_audit q a ''workflow_step'' (ws_id s)
       (JObj [(''step_order'', JInt (ws_step_order s)), (''status'', JEnum (J_step_status WS_PENDING))]) new_state None d"

text \<open>The second step confirms the hall.\<close>

definition conflicting_booking :: "db \<Rightarrow> event_request \<Rightarrow> venue_request \<Rightarrow> hall_booking option" where
  "conflicting_booking d rq vr =
     scalar (\<lambda>b. bk_hall_id b = vr_hall_id vr \<and> bk_booking_date b = vr_requested_date vr \<and> bk_is_active b \<and>
                 bk_event_request_id b \<noteq> rq_id rq \<and> bk_start_time b < vr_end_time vr \<and>
                 bk_end_time b > vr_start_time vr) (hall_bookings d)"

definition new_booking :: "request \<Rightarrow> event_request \<Rightarrow> venue_request \<Rightarrow> uuid \<Rightarrow> hall_booking" where
  "new_booking q rq vr i =
     \<lparr>bk_id = i, bk_hall_id = vr_hall_id vr, bk_event_request_id = rq_id rq, bk_venue_request_id = vr_id vr,
      bk_booking_date = vr_requested_date vr, bk_start_time = vr_start_time vr, bk_end_time = vr_end_time vr,
      bk_is_active = True, bk_created_at = now q\<rparr>"

definition confirm_venue :: "request \<Rightarrow> event_request \<Rightarrow> db \<Rightarrow> db res" where
  "confirm_venue q rq d =
     (case venue_request_of d (rq_id rq) of
        None \<Rightarrow> Inr d
      | Some vr \<Rightarrow>
          require (conflicting_booking d rq vr = None) ConflictError (
          let vr' = vr\<lparr>vr_status := VR_APPROVED, vr_reviewed_by := Some (actor_id q), vr_reviewed_at := Some (now q)\<rparr>;
              d1 = d\<lparr>venue_requests := put vr_id vr' (venue_requests d)\<rparr>
          in Inr (case booking_of d (rq_id rq) of
                    None \<Rightarrow> d1\<lparr>hall_bookings := hall_bookings d @ [new_booking q rq vr (next_uuid d)],
                               next_uuid := Suc (next_uuid d)\<rparr>
                  | Some b \<Rightarrow> d1\<lparr>hall_bookings := put bk_id (b\<lparr>bk_is_active := True\<rparr>) (hall_bookings d)\<rparr>)))"

text \<open>The third step verifies the budget.\<close>

definition pass_budget :: "request \<Rightarrow> event_request \<Rightarrow> string option \<Rightarrow> db \<Rightarrow> db" where
  "pass_budget q rq comments d =
     (case budget_of d (rq_id rq) of
        None \<Rightarrow> d
      | Some b \<Rightarrow>
          d\<lparr>budgets := put bp_id (b\<lparr>bp_finance_status := FV_VERIFIED, bp_finance_verified_by := Some (actor_id q),
              bp_finance_verified_at := Some (now q), bp_finance_notes := comments\<rparr>) (budgets d)\<rparr>)"

definition interlocks ::
    "request \<Rightarrow> workflow_instance_step \<Rightarrow> event_request \<Rightarrow> string option \<Rightarrow> db \<Rightarrow> db res" where
  "interlocks q s rq comments d =
     and_then (if ws_step_order s = 2 then confirm_venue q rq d else Inr d) (\<lambda>d1.
     Inr (if ws_step_order s = 3 then pass_budget q rq comments d1 else d1))"

definition advance_chain ::
    "request \<Rightarrow> workflow_instance_step \<Rightarrow> workflow_instance \<Rightarrow> event_request \<Rightarrow> workflow_instance_step \<Rightarrow> db \<Rightarrow> db" where
  "advance_chain q s inst rq nxt d =
     (let inst' = inst\<lparr>wi_current_step_order := ws_step_order nxt\<rparr>;
          rq' = (if rq_status rq = RQ_SUBMITTED then rq\<lparr>rq_status := RQ_IN_REVIEW\<rparr> else rq);
          d1 = d\<lparr>instances := put wi_id inst' (instances d), event_requests := put rq_id rq' (event_requests d)\<rparr>;
          d2 = create_notification q (ws_assigned_to nxt) N_ACTION_REQUIRED (Some (rq_id rq)) d1;
          d3 = create_notification q (rq_submitted_by rq) N_STEP_APPROVED (Some (rq_id rq)) d2
      in decision_entry q A_PROPOSAL_APPROVED s
           (JObj [(''step_order'', JInt (ws_step_order s)), (''status'', JEnum (J_step_status WS_APPROVED)),
                  (''next_step_order'', JInt (ws_step_order nxt)),
                  (''event_status'', JEnum (J_request_status (rq_status rq')))]) d3)"

definition complete_chain ::
    "request \<Rightarrow> workflow_instance_step \<Rightarrow> workflow_instance \<Rightarrow> event_request \<Rightarrow> hall_booking list \<Rightarrow> db \<Rightarrow> db res" where
  "complete_chain q s inst rq flushed d =
     (let rq' = rq\<lparr>rq_status := RQ_APPROVED\<rparr>;
          d1 = d\<lparr>instances := put wi_id (inst\<lparr>wi_status := WI_COMPLETED\<rparr>) (instances d),
                 event_requests := put rq_id rq' (event_requests d)\<rparr>
      in and_then (create_confirmed_event q rq' flushed d1) (\<lambda>(_, d2).
         Inr (decision_entry q A_PROPOSAL_APPROVED s
           (JObj [(''step_order'', JInt (ws_step_order s)), (''status'', JEnum (J_step_status WS_APPROVED)),
                  (''next_step_order'', JInt (wi_current_step_order inst)),
                  (''event_status'', JEnum (J_request_status RQ_APPROVED))])
           (create_notification q (rq_submitted_by rq) N_PROPOSAL_APPROVED (Some (rq_id rq)) d2))))"

definition approve_step ::
    "request \<Rightarrow> uuid \<Rightarrow> string option \<Rightarrow> db \<Rightarrow> (workflow_instance_step \<times> db) res" where
  "approve_step q step_id comments d =
     and_then (decidable_step q step_id d) (\<lambda>(s, inst, rq).
     and_then (interlocks q s rq comments (store_decision q WS_APPROVED comments inst s d)) (\<lambda>d1.
     and_then (case step_at d (wi_id inst) (ws_step_order s + 1) of
                 Some nxt \<Rightarrow> Inr (advance_chain q s inst rq nxt d1)
               | None \<Rightarrow> complete_chain q s inst rq (hall_bookings d) d1) (\<lambda>d2.
     commit IntegrityError (decided q WS_APPROVED comments inst s) d2)))"

definition release_booking :: "uuid \<Rightarrow> db \<Rightarrow> db" where
  "release_booking event_request_id d =
     (case booking_of d event_request_id of
        None \<Rightarrow> d
      | Some b \<Rightarrow> d\<lparr>hall_bookings := put bk_id (b\<lparr>bk_is_active := False\<rparr>) (hall_bookings d)\<rparr>)"

definition refuse_venue :: "uuid \<Rightarrow> string \<Rightarrow> db \<Rightarrow> db" where
  "refuse_venue event_request_id comments d =
     (case venue_request_of d event_request_id of
        None \<Rightarrow> d
      | Some vr \<Rightarrow>
          d\<lparr>venue_requests := put vr_id (vr\<lparr>vr_status := VR_REJECTED, vr_rejection_reason := Some comments\<rparr>)
              (venue_requests d)\<rparr>)"

definition chain_rejected ::
    "request \<Rightarrow> workflow_instance_step \<Rightarrow> workflow_instance \<Rightarrow> event_request \<Rightarrow> string \<Rightarrow> db \<Rightarrow> db" where
  "chain_rejected q s inst rq comments d =
     (let d1 = store_decision q WS_REJECTED (Some comments) inst s d;
          d2 = d1\<lparr>instances := put wi_id (inst\<lparr>wi_status := WI_REJECTED\<rparr>) (instances d1),
                  event_requests := put rq_id (rq\<lparr>rq_status := RQ_REJECTED\<rparr>) (event_requests d1)\<rparr>;
          d3 = release_booking (rq_id rq) (refuse_venue (rq_id rq) comments d2);
          d4 = create_notification q (rq_submitted_by rq) N_PROPOSAL_REJECTED (Some (rq_id rq)) d3
      in decision_entry q A_PROPOSAL_REJECTED s
           (JObj [(''step_order'', JInt (ws_step_order s)), (''status'', JEnum (J_step_status WS_REJECTED)),
                  (''comments'', JText comments), (''event_status'', JEnum (J_request_status RQ_REJECTED))]) d4)"

definition reject_step :: "request \<Rightarrow> uuid \<Rightarrow> string \<Rightarrow> db \<Rightarrow> (workflow_instance_step \<times> db) res" where
  "reject_step q step_id comments d =
     require (\<not> (comments = [] \<or> length (strip comments) < 5)) BadRequestError (
     and_then (decidable_step q step_id d) (\<lambda>(s, inst, rq).
     commit IntegrityError (decided q WS_REJECTED (Some comments) inst s) (chain_rejected q s inst rq comments d)))"

definition chain_returned ::
    "request \<Rightarrow> workflow_instance_step \<Rightarrow> workflow_instance \<Rightarrow> event_request \<Rightarrow> string \<Rightarrow> db \<Rightarrow> db" where
  "chain_returned q s inst rq comments d =
     (let d1 = store_decision q WS_REVISION_REQUESTED (Some comments) inst s d;
          d2 = d1\<lparr>event_requests := put rq_id (rq\<lparr>rq_status := RQ_REVISION_REQUIRED\<rparr>) (event_requests d1)\<rparr>;
          d3 = create_notification q (rq_submitted_by rq) N_REVISION_REQUIRED (Some (rq_id rq)) d2
      in decision_entry q A_REVISION_REQUESTED s
           (JObj [(''step_order'', JInt (ws_step_order s)), (''status'', JEnum (J_step_status WS_REVISION_REQUESTED)),
                  (''comments'', JText comments), (''event_status'', JEnum (J_request_status RQ_REVISION_REQUIRED))]) d3)"

definition request_step_revision :: "request \<Rightarrow> uuid \<Rightarrow> string \<Rightarrow> db \<Rightarrow> (workflow_instance_step \<times> db) res" where
  "request_step_revision q step_id comments d =
     require (\<not> (comments = [] \<or> length (strip comments) < 5)) BadRequestError (
     and_then (decidable_step q step_id d) (\<lambda>(s, inst, rq).
     commit IntegrityError (decided q WS_REVISION_REQUESTED (Some comments) inst s)
       (chain_returned q s inst rq comments d)))"

section \<open>Queries\<close>

definition pending_for :: "request \<Rightarrow> db \<Rightarrow> workflow_instance_step \<Rightarrow> bool" where
  "pending_for q d s =
     (case (row wi_id (ws_instance_id s) (instances d), row ts_id (ws_template_step_id s) (template_steps d)) of
        (Some inst, Some t) \<Rightarrow>
          (case row rq_id (wi_event_request_id inst) (event_requests d) of
             None \<Rightarrow> False
           | Some rq \<Rightarrow>
               row cl_id (rq_club_id rq) (clubs d) \<noteq> None \<and>
               ws_status s = WS_PENDING \<and> ws_step_order s = wi_current_step_order inst \<and>
               wi_status inst = WI_IN_PROGRESS \<and> rq_deleted_at rq = None \<and> rq_submitted_by rq \<noteq> actor_id q \<and>
               (actor_role q = SYSTEM_ADMIN \<or> ws_assigned_to s = actor_id q \<or>
                actor_role q \<noteq> FACULTY_ADVISOR \<and> ts_required_role t = actor_role q))
      | _ \<Rightarrow> False)"

definition get_pending_queue :: "request \<Rightarrow> nat \<Rightarrow> nat \<Rightarrow> db \<Rightarrow> workflow_instance_step list" where
  "get_pending_queue q skip limit d =
     take limit (drop skip (sort_key ws_created_at (filter (pending_for q d) (steps d))))"

record workflow_view =
  wv_instance :: workflow_instance
  wv_template_name :: "string option"
  wv_steps :: "workflow_instance_step list"

definition to_instance_response :: "db \<Rightarrow> workflow_instance \<Rightarrow> workflow_view" where
  "to_instance_response d inst =
     \<lparr>wv_instance = inst,
      wv_template_name = map_option tp_name (row tp_id (wi_template_id inst) (templates d)),
      wv_steps = sort_key ws_step_order (filter (\<lambda>s. ws_instance_id s = wi_id inst) (steps d))\<rparr>"

definition get_event_workflow :: "uuid \<Rightarrow> db \<Rightarrow> workflow_view res" where
  "get_event_workflow event_id d =
     (let is = filter (\<lambda>i. wi_event_request_id i = event_id) (instances d);
          newest = filter (\<lambda>i. list_all (\<lambda>j. wi_version_number j \<le> wi_version_number i) is) is
      in fetch (latest_by wi_created_at newest) NotFoundError (\<lambda>i. Inr (to_instance_response d i)))"

definition get_workflow_instance :: "uuid \<Rightarrow> db \<Rightarrow> workflow_view res" where
  "get_workflow_instance instance_id d =
     fetch (row wi_id instance_id (instances d)) NotFoundError (\<lambda>i. Inr (to_instance_response d i))"

section \<open>The approval chain as a service\<close>

datatype workflow_request =
    ApproveStep uuid "string option"
  | RejectStep uuid string
  | ReviseStep uuid string

definition comments_schema :: "string \<Rightarrow> string res" where
  "comments_schema v =
     require (len_between 5 2000 v \<and> \<not> length (strip v) < 5) RequestValidationError (Inr (strip v))"

fun workflow_exec :: "request \<Rightarrow> workflow_request \<Rightarrow> db \<Rightarrow> db res" where
  "workflow_exec q (ApproveStep i c) d =
     require (opt_len_between 0 2000 c) RequestValidationError (db_of (approve_step q i c d))"
| "workflow_exec q (RejectStep i c) d = and_then (comments_schema c) (\<lambda>c. db_of (reject_step q i c d))"
| "workflow_exec q (ReviseStep i c) d = and_then (comments_schema c) (\<lambda>c. db_of (request_step_revision q i c d))"


section \<open>What the decisions change\<close>

lemma store_decision_frame [simp]:
  "steps (store_decision q st c inst s d) = put ws_id (decided q st c inst s) (steps d)"
  "instances (store_decision q st c inst s d) = instances d"
  "event_requests (store_decision q st c inst s d) = event_requests d"
  "events (store_decision q st c inst s d) = events d"
  "hall_bookings (store_decision q st c inst s d) = hall_bookings d"
  "venue_requests (store_decision q st c inst s d) = venue_requests d"
  "audit_logs (store_decision q st c inst s d) = audit_logs d"
  "next_uuid (store_decision q st c inst s d) = next_uuid d"
  by (simp_all add: store_decision_def)

lemma decided_simps [simp]:
  "ws_id (decided q st c inst s) = ws_id s" "ws_instance_id (decided q st c inst s) = ws_instance_id s"
  "ws_step_order (decided q st c inst s) = ws_step_order s" "ws_status (decided q st c inst s) = st"
  "ws_assigned_to (decided q st c inst s) = ws_assigned_to s"
  by (simp_all add: decided_def)

lemma decision_entry_frame [simp]:
  "steps (decision_entry q a s j d) = steps d" "instances (decision_entry q a s j d) = instances d"
  "event_requests (decision_entry q a s j d) = event_requests d" "events (decision_entry q a s j d) = events d"
  "hall_bookings (decision_entry q a s j d) = hall_bookings d"
  "signed q d (decision_entry q a s j d)"
  by (simp_all add: decision_entry_def)

lemma confirm_venue_frame:
  assumes "confirm_venue q rq d = Inr d'"
  shows "steps d' = steps d" "instances d' = instances d" "event_requests d' = event_requests d"
    "events d' = events d" "audit_logs d' = audit_logs d"
  using assms by (auto simp: confirm_venue_def res_simps Let_def split: option.splits)

lemma pass_budget_frame [simp]:
  "steps (pass_budget q rq c d) = steps d" "instances (pass_budget q rq c d) = instances d"
  "event_requests (pass_budget q rq c d) = event_requests d" "events (pass_budget q rq c d) = events d"
  "hall_bookings (pass_budget q rq c d) = hall_bookings d" "audit_logs (pass_budget q rq c d) = audit_logs d"
  by (simp_all add: pass_budget_def split: option.split)

lemma interlocks_frame:
  assumes "interlocks q s rq c d = Inr d'"
  shows "steps d' = steps d" "instances d' = instances d" "event_requests d' = event_requests d"
    "events d' = events d" "audit_logs d' = audit_logs d"
  using assms by (auto simp: interlocks_def res_simps dest: confirm_venue_frame split: if_splits)

lemma advance_chain_frame [simp]:
  "steps (advance_chain q s inst rq nxt d) = steps d"
  "instances (advance_chain q s inst rq nxt d) = put wi_id (inst\<lparr>wi_current_step_order := ws_step_order nxt\<rparr>) (instances d)"
  "event_requests (advance_chain q s inst rq nxt d) =
     put rq_id (if rq_status rq = RQ_SUBMITTED then rq\<lparr>rq_status := RQ_IN_REVIEW\<rparr> else rq) (event_requests d)"
  "events (advance_chain q s inst rq nxt d) = events d"
  "signed q d (advance_chain q s inst rq nxt d)"
  by (simp_all add: advance_chain_def Let_def decision_entry_def)

lemma confirmed_event_fields:
  assumes "confirmed_event q rq b vr v i = Inr e"
  shows "ev_id e = i" "ev_event_request_id e = rq_id rq" "ev_status e = EV_SCHEDULED" "ev_cancelled_at e = None"
proof -
  from assms have "ev_id e = i \<and> ev_event_request_id e = rq_id rq \<and> ev_status e = EV_SCHEDULED \<and> ev_cancelled_at e = None"
    unfolding confirmed_event_def Let_def and_then_Inr
    by (elim exE conjE) (drule sum.inject(2) [THEN iffD1], hypsubst, simp)
  then show "ev_id e = i" "ev_event_request_id e = rq_id rq" "ev_status e = EV_SCHEDULED" "ev_cancelled_at e = None"
    by simp_all
qed

lemma create_confirmed_event_frame:
  assumes "create_confirmed_event q rq bs d = Inr (e, d')"
  shows "steps d' = steps d" "instances d' = instances d" "event_requests d' = event_requests d"
    "\<exists>es. events d' = events d @ es" "signed q d d'"
    "e \<in> set (events d')" "ev_event_request_id e = rq_id rq"
  using assms
  by (auto simp: create_confirmed_event_def res_simps Let_def confirmed_event_fields dest: scalar_Some split: option.splits)

lemma complete_chain_frame:
  assumes "complete_chain q s inst rq bs d = Inr d'"
  shows "steps d' = steps d"
    "instances d' = put wi_id (inst\<lparr>wi_status := WI_COMPLETED\<rparr>) (instances d)"
    "event_requests d' = put rq_id (rq\<lparr>rq_status := RQ_APPROVED\<rparr>) (event_requests d)"
    "\<exists>es. events d' = events d @ es" "signed q d d'"
    "\<exists>e\<in>set (events d'). ev_event_request_id e = rq_id rq"
proof -
  let ?d = "d\<lparr>instances := put wi_id (inst\<lparr>wi_status := WI_COMPLETED\<rparr>) (instances d),
         event_requests := put rq_id (rq\<lparr>rq_status := RQ_APPROVED\<rparr>) (event_requests d)\<rparr>"
  from assms obtain x j where x: "create_confirmed_event q (rq\<lparr>rq_status := RQ_APPROVED\<rparr>) bs ?d = Inr x"
    and d': "d' = decision_entry q A_PROPOSAL_APPROVED s j
        (create_notification q (rq_submitted_by rq) N_PROPOSAL_APPROVED (Some (rq_id rq)) (snd x))"
    unfolding complete_chain_def Let_def and_then_Inr by (auto simp: split_beta)
  from x have c: "create_confirmed_event q (rq\<lparr>rq_status := RQ_APPROVED\<rparr>) bs ?d = Inr (fst x, snd x)" by simp
  note f = create_confirmed_event_frame [OF c]
  show "steps d' = steps d" "instances d' = put wi_id (inst\<lparr>wi_status := WI_COMPLETED\<rparr>) (instances d)"
    "event_requests d' = put rq_id (rq\<lparr>rq_status := RQ_APPROVED\<rparr>) (event_requests d)"
    "\<exists>es. events d' = events d @ es" "signed q d d'"
    "\<exists>e\<in>set (events d'). ev_event_request_id e = rq_id rq"
    using d' f by (auto simp: decision_entry_def intro!: bexI [of _ "fst x"])
qed

lemma venue_release_frame [simp]:
  "steps (release_booking i d) = steps d" "instances (release_booking i d) = instances d"
  "event_requests (release_booking i d) = event_requests d" "events (release_booking i d) = events d"
  "audit_logs (release_booking i d) = audit_logs d"
  "steps (refuse_venue i c d) = steps d" "instances (refuse_venue i c d) = instances d"
  "event_requests (refuse_venue i c d) = event_requests d" "events (refuse_venue i c d) = events d"
  "hall_bookings (refuse_venue i c d) = hall_bookings d" "audit_logs (refuse_venue i c d) = audit_logs d"
  by (simp_all add: release_booking_def refuse_venue_def split: option.split)

lemma chain_rejected_frame:
  "steps (chain_rejected q s inst rq c d) = put ws_id (decided q WS_REJECTED (Some c) inst s) (steps d)"
  "instances (chain_rejected q s inst rq c d) = put wi_id (inst\<lparr>wi_status := WI_REJECTED\<rparr>) (instances d)"
  "event_requests (chain_rejected q s inst rq c d) = put rq_id (rq\<lparr>rq_status := RQ_REJECTED\<rparr>) (event_requests d)"
  "events (chain_rejected q s inst rq c d) = events d"
  "signed q d (chain_rejected q s inst rq c d)"
  by (simp_all add: chain_rejected_def Let_def decision_entry_def)

lemma chain_returned_frame:
  "steps (chain_returned q s inst rq c d) = put ws_id (decided q WS_REVISION_REQUESTED (Some c) inst s) (steps d)"
  "instances (chain_returned q s inst rq c d) = instances d"
  "event_requests (chain_returned q s inst rq c d) = put rq_id (rq\<lparr>rq_status := RQ_REVISION_REQUIRED\<rparr>) (event_requests d)"
  "events (chain_returned q s inst rq c d) = events d"
  "signed q d (chain_returned q s inst rq c d)"
  by (simp_all add: chain_returned_def Let_def decision_entry_def)

text \<open>The step a decision is about, and what was decided.\<close>

definition awaiting ::
    "request \<Rightarrow> db \<Rightarrow> workflow_instance_step \<Rightarrow> workflow_instance \<Rightarrow> event_request \<Rightarrow> bool" where
  "awaiting q d s inst rq \<longleftrightarrow>
     s \<in> set (steps d) \<and> inst \<in> set (instances d) \<and> rq \<in> set (event_requests d) \<and>
     ws_instance_id s = wi_id inst \<and> wi_event_request_id inst = rq_id rq \<and>
     ws_status s = WS_PENDING \<and> wi_status inst = WI_IN_PROGRESS \<and>
     ws_step_order s = wi_current_step_order inst \<and> rq_submitted_by rq \<noteq> actor_id q \<and> may_act q d s"

lemma decidable_stepD: "decidable_step q i d = Inr (s, inst, rq) \<Longrightarrow> awaiting q d s inst rq"
  unfolding decidable_step_def awaiting_def by (auto simp: res_simps dest!: row_key)

inductive workflow_effect :: "request \<Rightarrow> db \<Rightarrow> db \<Rightarrow> bool" for q d where
  advanced: "awaiting q d s inst rq \<Longrightarrow> interlocks q s rq c (store_decision q WS_APPROVED c inst s d) = Inr d1 \<Longrightarrow>
     step_at d (wi_id inst) (ws_step_order s + 1) = Some nxt \<Longrightarrow>
     workflow_effect q d (advance_chain q s inst rq nxt d1)"
| completed: "awaiting q d s inst rq \<Longrightarrow> interlocks q s rq c (store_decision q WS_APPROVED c inst s d) = Inr d1 \<Longrightarrow>
     step_at d (wi_id inst) (ws_step_order s + 1) = None \<Longrightarrow>
     complete_chain q s inst rq (hall_bookings d) d1 = Inr d' \<Longrightarrow> workflow_effect q d d'"
| rejected: "awaiting q d s inst rq \<Longrightarrow> workflow_effect q d (chain_rejected q s inst rq m d)"
| returned: "awaiting q d s inst rq \<Longrightarrow> workflow_effect q d (chain_returned q s inst rq m d)"

lemma approve_step_effect:
  assumes "approve_step q i c d = Inr (x, d')"
  shows "workflow_effect q d d' \<and> db_ok d'"
proof -
  from assms obtain s inst rq d1 where s: "decidable_step q i d = Inr (s, inst, rq)"
    and i: "interlocks q s rq c (store_decision q WS_APPROVED c inst s d) = Inr d1"
    and n: "(case step_at d (wi_id inst) (ws_step_order s + 1) of
               Some nxt \<Rightarrow> Inr (advance_chain q s inst rq nxt d1)
             | None \<Rightarrow> complete_chain q s inst rq (hall_bookings d) d1) = Inr d'" and ok: "db_ok d'"
    unfolding approve_step_def by (auto simp: res_simps)
  show ?thesis
  proof (cases "step_at d (wi_id inst) (ws_step_order s + 1)")
    case None
    with n ok completed [OF decidable_stepD [OF s] i None] show ?thesis by simp
  next
    case (Some nxt)
    with n ok advanced [OF decidable_stepD [OF s] i Some] show ?thesis by auto
  qed
qed

lemma reject_step_effect: "reject_step q i c d = Inr (x, d') \<Longrightarrow> workflow_effect q d d' \<and> db_ok d'"
  unfolding reject_step_def by (auto simp: res_simps intro: rejected dest!: decidable_stepD)

lemma revise_step_effect: "request_step_revision q i c d = Inr (x, d') \<Longrightarrow> workflow_effect q d d' \<and> db_ok d'"
  unfolding request_step_revision_def by (auto simp: res_simps intro: returned dest!: decidable_stepD)

lemma workflow_exec_effect: "workflow_exec q r d = Inr d' \<Longrightarrow> workflow_effect q d d' \<and> db_ok d'"
  by (cases r) (auto simp: res_simps dest: approve_step_effect reject_step_effect revise_step_effect)

lemma workflow_effect_audit: "workflow_effect q d d' \<Longrightarrow> signed q d d'"
proof (induction rule: workflow_effect.induct)
  case (advanced s inst rq c d1 nxt)
  with interlocks_frame(5) [OF advanced(2)] advance_chain_frame(5) [of q s inst rq nxt d1] show ?case by auto
next
  case (completed s inst rq c d1 d')
  with interlocks_frame(5) [OF completed(2)] complete_chain_frame(5) [OF completed(4)] show ?case by auto
qed (use chain_rejected_frame(5) chain_returned_frame(5) in blast)+

interpretation workflow_service: audited_service workflow_exec
  by unfold_locales (auto dest: workflow_exec_effect workflow_effect_audit)

end
