(* ===== verification/FinanceBase.thy ===== *)
theory FinanceBase
  imports Scenario
begin

text \<open>
  What the financial services share: the authorization checks and the resolution of the sanctioned
  figures of \<^verbatim>\<open>SettlementService\<close> (\<^verbatim>\<open>backend/app/services/settlement_service.py\<close>).
\<close>

section \<open>Authorization\<close>

definition stl_verify_finance_officer :: "request \<Rightarrow> unit res" where
  "stl_verify_finance_officer q =
     (if actor_role q = SYSTEM_ADMIN then Inl ForbiddenError
      else if actor_role q \<noteq> FINANCE_OFFICER then Inl ForbiddenError
      else Inr ())"

definition stl_verify_reopen_authority :: "request \<Rightarrow> unit res" where
  "stl_verify_reopen_authority q =
     (if actor_role q = SYSTEM_ADMIN then Inl ForbiddenError
      else if actor_role q \<notin> {FINANCE_OFFICER, PRINCIPAL, DEAN_STUDENT_AFFAIRS} then Inl ForbiddenError
      else Inr ())"

definition stl_verify_club_secretary :: "request \<Rightarrow> db \<Rightarrow> event \<Rightarrow> unit res" where
  "stl_verify_club_secretary q d ev =
     (if actor_role q = SYSTEM_ADMIN then Inl ForbiddenError
      else fetch (secretary_membership d (ev_club_id ev) (actor_id q)) ForbiddenError (\<lambda>_. Inr ()))"

definition stl_ensure_event_mutable :: "event \<Rightarrow> unit res" where
  "stl_ensure_event_mutable ev =
     (if ev_status ev \<in> {EV_CLOSED, EV_ARCHIVED} then Inl ConflictError else Inr ())"

definition stl_verify_event_viewer :: "request \<Rightarrow> db \<Rightarrow> event \<Rightarrow> unit res" where
  "stl_verify_event_viewer q d ev =
     (if actor_role q \<in> {FINANCE_OFFICER, SYSTEM_ADMIN, PRINCIPAL, DEAN_STUDENT_AFFAIRS, ADVISOR_STUDENTS_UNION}
      then Inr ()
      else if (case club_by_id d (ev_club_id ev) of None \<Rightarrow> False
               | Some c \<Rightarrow> cl_faculty_advisor_id c = Some (actor_id q))
      then Inr ()
      else fetch (club_membership d (ev_club_id ev) (actor_id q)) ForbiddenError (\<lambda>_. Inr ()))"

definition stl_get_confirmed_event :: "db \<Rightarrow> uuid \<Rightarrow> bool \<Rightarrow> event res" where
  "stl_get_confirmed_event d event_id ensure_mutable =
     fetch (row ev_id event_id (events d)) NotFoundError (\<lambda>ev.
     if ensure_mutable then and_then (stl_ensure_event_mutable ev) (\<lambda>_. Inr ev) else Inr ev)"

definition settlement_of :: "db \<Rightarrow> uuid \<Rightarrow> financial_settlement option" where
  "settlement_of d event_id = scalar (\<lambda>s. fs_event_id s = event_id) (settlements d)"

definition advance_of :: "db \<Rightarrow> uuid \<Rightarrow> cash_advance option" where
  "advance_of d event_id = scalar (\<lambda>a. ca_event_id a = event_id) (advances d)"

section \<open>Sanctioned figures\<close>

text \<open>
  \<open>Decimal(str(v))\<close> of a value read from JSON: a printed amount, or a number; anything else is an
  \<open>InvalidOperation\<close>, which no handler catches.
\<close>

definition as_decimal :: "json \<Rightarrow> money res" where
  "as_decimal j = (case j of JMoney m \<Rightarrow> Inr m | JInt n \<Rightarrow> Inr (n * 100) | _ \<Rightarrow> Inl InternalError)"

text \<open>The approved version of an event, or the latest version of its proposal.\<close>

definition approved_version_of :: "db \<Rightarrow> event \<Rightarrow> event_request_version option" where
  "approved_version_of d ev =
     (case row ver_id (ev_approved_version_id ev) (versions d) of
        Some v \<Rightarrow> Some v
      | None \<Rightarrow> latest_by ver_version_number
                  (filter (\<lambda>v. ver_event_request_id v = ev_event_request_id ev) (versions d)))"

definition resolve_sanctioned_snapshot :: "db \<Rightarrow> event \<Rightarrow> (uuid \<times> money \<times> money \<times> money) res" where
  "resolve_sanctioned_snapshot d ev =
     (let approved = approved_version_of d ev;
          from_budget = (\<lambda>i. fetch (budget_of d (ev_event_request_id ev)) BusinessRuleError (\<lambda>bp.
            Inr (i, bp_institute_contribution bp, bp_total_expected_expenditure bp, bp_expected_income bp)))
      in case approved of
           None \<Rightarrow> from_budget (ev_id ev)
         | Some v \<Rightarrow>
             if \<not> j_truthy (ver_snapshot v) then from_budget (ver_id v)
             else
               let snapshot = ver_snapshot v;
                   bud = j_get ''budget'' snapshot;
                   grant_val = j_or (j_get ''institute_contribution'' bud)
                     (j_or (j_get ''institute_contribution'' snapshot) (j_get ''sanctioned_grant'' snapshot));
                   exp_val = j_or (j_get ''total_expected_expenditure'' bud)
                     (j_or (j_get ''total_expected_expenditure'' snapshot) (j_get ''sanctioned_expenditure'' snapshot));
                   inc_val = j_or (j_get ''expected_income'' bud)
                     (j_or (j_get ''expected_income'' snapshot) (JMoney 0))
               in if grant_val = JNull \<or> exp_val = JNull then from_budget (ver_id v)
                  else and_then (as_decimal grant_val) (\<lambda>g.
                       and_then (as_decimal exp_val) (\<lambda>e.
                       and_then (as_decimal inc_val) (\<lambda>i. Inr (ver_id v, g, e, i)))))"

text \<open>The sanctioned grant of an event, as approvals see it.\<close>

definition sanctioned_grant :: "db \<Rightarrow> event \<Rightarrow> money option" where
  "sanctioned_grant d ev =
     (case resolve_sanctioned_snapshot d ev of Inl _ \<Rightarrow> None | Inr (_, g, _, _) \<Rightarrow> Some g)"

text \<open>It depends on the versions and the budgets only.\<close>

lemma resolve_sanctioned_snapshot_cong:
  "versions d = versions d' \<Longrightarrow> budgets d = budgets d' \<Longrightarrow>
     resolve_sanctioned_snapshot d ev = resolve_sanctioned_snapshot d' ev"
  unfolding resolve_sanctioned_snapshot_def approved_version_of_def budget_of_def by (simp only:)

lemma stl_get_confirmed_eventD:
  "stl_get_confirmed_event d i m = Inr ev \<Longrightarrow>
     ev \<in> set (events d) \<and> ev_id ev = i \<and> (m \<longrightarrow> ev_status ev \<noteq> EV_CLOSED \<and> ev_status ev \<noteq> EV_ARCHIVED)"
  by (auto simp: stl_get_confirmed_event_def stl_ensure_event_mutable_def res_simps
      split: if_splits dest!: row_key)

lemma stl_verify_finance_officer_Inr [res_simps]:
  "stl_verify_finance_officer q = Inr u \<longleftrightarrow> actor_role q = FINANCE_OFFICER"
  by (auto simp: stl_verify_finance_officer_def)

lemma stl_verify_club_secretaryD:
  "stl_verify_club_secretary q d ev = Inr u \<Longrightarrow>
     actor_role q \<noteq> SYSTEM_ADMIN \<and> secretary_membership d (ev_club_id ev) (actor_id q) \<noteq> None"
  by (auto simp: stl_verify_club_secretary_def res_simps split: if_splits)

end
