(* ===== verification/Proposals.thy ===== *)
theory Proposals
  imports Workflow FinanceBase
begin

text \<open>
  Event proposals: \<^verbatim>\<open>EventService\<close> of \<^verbatim>\<open>backend/app/services/event_service.py\<close> with the payload schemas of
  \<^verbatim>\<open>backend/app/schemas/event.py\<close>. A club secretary drafts a proposal, edits it under an optimistic lock, and
  submits it: an immutable numbered snapshot is stored and the approval chain of theory Workflow starts. A
  proposal or its confirmed event may be cancelled, which releases the hall and a cash advance not yet paid.
  The flush inside the instantiation writes a submission, so a violated constraint there is not turned into
  a conflict; the cancellations commit without a handler.
\<close>

section \<open>Payloads\<close>

record proposal_create =
  qc_club_id :: uuid
  qc_title :: string
  qc_description :: "string option"
  qc_event_type :: event_type
  qc_expected_attendees :: "int option"
  qc_event_date :: "time option"
  qc_chief_guest_name :: "string option"
  qc_chief_guest_designation :: "string option"
  qc_chief_guest_institution :: "string option"
  qc_academic_year :: string

definition attendees_ok :: "int option \<Rightarrow> bool" where
  "attendees_ok n = (case n of None \<Rightarrow> True | Some k \<Rightarrow> 1 \<le> k \<and> k \<le> 100000)"

definition proposal_create_schema :: "proposal_create \<Rightarrow> proposal_create res" where
  "proposal_create_schema p =
     require (len_between 3 500 (qc_title p) \<and> \<not> length (squeeze (qc_title p)) < 3 \<and>
       opt_len_between 0 5000 (qc_description p) \<and> attendees_ok (qc_expected_attendees p) \<and>
       opt_len_between 0 255 (qc_chief_guest_name p) \<and> opt_len_between 0 255 (qc_chief_guest_designation p) \<and>
       opt_len_between 0 255 (qc_chief_guest_institution p) \<and>
       len_between 4 10 (qc_academic_year p) \<and> strip (qc_academic_year p) \<noteq> []) RequestValidationError
     (Inr (p\<lparr>qc_title := squeeze (qc_title p), qc_academic_year := strip (qc_academic_year p)\<rparr>))"

record proposal_update =
  qu_title :: "string option"
  qu_description :: "string option"
  qu_event_type :: "event_type option"
  qu_expected_attendees :: "int option"
  qu_event_date :: "time option"
  qu_chief_guest_name :: "string option"
  qu_chief_guest_designation :: "string option"
  qu_chief_guest_institution :: "string option"
  qu_academic_year :: "string option"
  qu_expected_version :: "int option"

definition proposal_update_schema :: "proposal_update \<Rightarrow> proposal_update res" where
  "proposal_update_schema p =
     require (opt_len_between 3 500 (qu_title p) \<and>
       (case qu_title p of None \<Rightarrow> True | Some t \<Rightarrow> \<not> length (squeeze t) < 3) \<and>
       opt_len_between 0 5000 (qu_description p) \<and> attendees_ok (qu_expected_attendees p) \<and>
       opt_len_between 0 255 (qu_chief_guest_name p) \<and> opt_len_between 0 255 (qu_chief_guest_designation p) \<and>
       opt_len_between 0 255 (qu_chief_guest_institution p) \<and> opt_len_between 4 10 (qu_academic_year p) \<and>
       (case qu_expected_version p of None \<Rightarrow> True | Some v \<Rightarrow> v \<ge> 0)) RequestValidationError
     (Inr (p\<lparr>qu_title := map_option squeeze (qu_title p)\<rparr>))"

definition reason_schema :: "string \<Rightarrow> string res" where
  "reason_schema v =
     require (len_between 3 1000 v \<and> \<not> length (squeeze v) < 3) RequestValidationError (Inr (squeeze v))"

section \<open>Drafts\<close>

definition new_proposal :: "request \<Rightarrow> proposal_create \<Rightarrow> uuid \<Rightarrow> event_request" where
  "new_proposal q p i =
     \<lparr>rq_id = i, rq_club_id = qc_club_id p, rq_submitted_by = actor_id q, rq_title = qc_title p,
      rq_description = qc_description p, rq_event_type = qc_event_type p,
      rq_expected_attendees = qc_expected_attendees p, rq_event_date = qc_event_date p,
      rq_chief_guest_name = qc_chief_guest_name p, rq_chief_guest_designation = qc_chief_guest_designation p,
      rq_chief_guest_institution = qc_chief_guest_institution p, rq_status = RQ_DRAFT, rq_current_version = 0,
      rq_version_lock = 0, rq_academic_year = qc_academic_year p, rq_idempotency_key = None,
      rq_workflow_instance_id = None, rq_deleted_at = None, rq_created_at = now q\<rparr>"

definition draft_created :: "request \<Rightarrow> proposal_create \<Rightarrow> db \<Rightarrow> db" where
  "draft_created q p d =
     (let rq = new_proposal q p (next_uuid d)
      in add_audit q A_PROPOSAL_CREATED ''event_request'' (rq_id rq) JNull
           (JObj [(''title'', JText (rq_title rq)), (''club_id'', JUuid (rq_club_id rq)),
                  (''event_type'', JEnum (J_event_type (qc_event_type p))),
                  (''status'', JEnum (J_request_status RQ_DRAFT)),
                  (''academic_year'', JText (rq_academic_year rq)),
                  (''expected_attendees'', j_opt JInt (rq_expected_attendees rq))]) None
           (d\<lparr>event_requests := event_requests d @ [rq], next_uuid := Suc (next_uuid d)\<rparr>))"

definition create_draft :: "request \<Rightarrow> proposal_create \<Rightarrow> db \<Rightarrow> (event_request \<times> db) res" where
  "create_draft q p d =
     and_then (verify_club_ownership q (qc_club_id p) d) (\<lambda>club.
     require (cl_is_active club) BadRequestError (
     commit ConflictError (new_proposal q p (next_uuid d)) (draft_created q p d)))"

definition get_event :: "uuid \<Rightarrow> db \<Rightarrow> event_request res" where
  "get_event event_id d =
     fetch (scalar (\<lambda>r. rq_id r = event_id \<and> rq_deleted_at r = None) (event_requests d)) NotFoundError Inr"

definition list_events ::
    "uuid option \<Rightarrow> event_request_status option \<Rightarrow> nat \<Rightarrow> nat \<Rightarrow> db \<Rightarrow> event_request list" where
  "list_events club_id status skip limit d =
     take limit (drop skip (sort_key (\<lambda>r. - rq_created_at r) (filter (\<lambda>r.
       rq_deleted_at r = None \<and>
       (case club_id of None \<Rightarrow> True | Some c \<Rightarrow> rq_club_id r = c) \<and>
       (case status of None \<Rightarrow> True | Some s \<Rightarrow> rq_status r = s)) (event_requests d))))"

text \<open>Drafts and returned proposals are the only ones their planners may touch.\<close>

definition editable :: "event_request \<Rightarrow> bool" where
  "editable rq \<longleftrightarrow> rq_status rq \<in> {RQ_DRAFT, RQ_REVISION_REQUIRED}"

definition draft_state :: "event_request \<Rightarrow> json" where
  "draft_state rq =
     JObj [(''title'', JText (rq_title rq)), (''description'', j_opt JText (rq_description rq)),
           (''event_type'', JEnum (J_event_type (rq_event_type rq))),
           (''expected_attendees'', j_opt JInt (rq_expected_attendees rq)),
           (''event_date'', j_opt JTime (rq_event_date rq)),
           (''status'', JEnum (J_request_status (rq_status rq))),
           (''academic_year'', JText (rq_academic_year rq)), (''version_lock'', JInt (rq_version_lock rq))]"

definition edited :: "proposal_update \<Rightarrow> event_request \<Rightarrow> event_request" where
  "edited p rq =
     rq\<lparr>rq_title := set_if (qu_title p) (rq_title rq),
        rq_description := set_opt (qu_description p) (rq_description rq),
        rq_event_type := set_if (qu_event_type p) (rq_event_type rq),
        rq_expected_attendees := set_opt (qu_expected_attendees p) (rq_expected_attendees rq),
        rq_event_date := set_opt (qu_event_date p) (rq_event_date rq),
        rq_chief_guest_name := set_opt (qu_chief_guest_name p) (rq_chief_guest_name rq),
        rq_chief_guest_designation := set_opt (qu_chief_guest_designation p) (rq_chief_guest_designation rq),
        rq_chief_guest_institution := set_opt (qu_chief_guest_institution p) (rq_chief_guest_institution rq),
        rq_academic_year := set_if (qu_academic_year p) (rq_academic_year rq),
        rq_version_lock := rq_version_lock rq + 1\<rparr>"

definition draft_edited :: "request \<Rightarrow> proposal_update \<Rightarrow> event_request \<Rightarrow> db \<Rightarrow> db" where
  "draft_edited q p rq d =
     add_audit q A_PROPOSAL_UPDATED ''event_request'' (rq_id rq) (draft_state rq) (draft_state (edited p rq)) None
       (d\<lparr>event_requests := put rq_id (edited p rq) (event_requests d)\<rparr>)"

definition update_draft :: "request \<Rightarrow> uuid \<Rightarrow> proposal_update \<Rightarrow> db \<Rightarrow> (event_request \<times> db) res" where
  "update_draft q event_id p d =
     and_then (get_event event_id d) (\<lambda>rq.
     require (case qu_expected_version p of None \<Rightarrow> True | Some v \<Rightarrow> rq_version_lock rq = v) OptimisticLockError (
     require (editable rq) WorkflowStateError (
     and_then (verify_club_ownership q (rq_club_id rq) d) (\<lambda>club.
     require (cl_is_active club) BadRequestError (
     commit ConflictError (edited p rq) (draft_edited q p rq d))))))"

section \<open>Submission\<close>

definition venue_snapshot :: "db \<Rightarrow> venue_request \<Rightarrow> json" where
  "venue_snapshot d vr =
     JObj [(''hall_id'', JUuid (vr_hall_id vr)),
           (''hall_name'', j_opt JText (map_option hl_name (row hl_id (vr_hall_id vr) (halls d)))),
           (''requested_date'', JTime (vr_requested_date vr)), (''start_time'', JTime (vr_start_time vr)),
           (''end_time'', JTime (vr_end_time vr)), (''expected_audience'', j_opt JInt (vr_expected_audience vr))]"

definition line_items_of :: "db \<Rightarrow> budget_proposal \<Rightarrow> budget_line_item list" where
  "line_items_of d bp = filter (\<lambda>i. li_budget_proposal_id i = bp_id bp) (line_items d)"

definition budget_snapshot :: "db \<Rightarrow> budget_proposal \<Rightarrow> json" where
  "budget_snapshot d bp =
     JObj [(''expected_income'', JMoney (bp_expected_income bp)),
           (''institute_contribution'', JMoney (bp_institute_contribution bp)),
           (''total_expected_expenditure'', JMoney (bp_total_expected_expenditure bp)),
           (''line_items'', JList (map (\<lambda>i.
              JObj [(''description'', JText (li_description i)), (''category'', JEnum (J_category (li_category i))),
                    (''estimated_amount'', JMoney (li_estimated_amount i)), (''notes'', j_opt JText (li_notes i))])
              (line_items_of d bp)))]"

definition submission_snapshot :: "request \<Rightarrow> db \<Rightarrow> event_request \<Rightarrow> json" where
  "submission_snapshot q d rq =
     JObj ([(''id'', JUuid (rq_id rq)), (''club_id'', JUuid (rq_club_id rq)),
            (''club_name'', j_opt JText (map_option cl_name (club_by_id d (rq_club_id rq)))),
            (''title'', JText (rq_title rq)), (''description'', j_opt JText (rq_description rq)),
            (''event_type'', JEnum (J_event_type (rq_event_type rq))),
            (''expected_attendees'', j_opt JInt (rq_expected_attendees rq)),
            (''event_date'', j_opt JTime (rq_event_date rq)),
            (''chief_guest_name'', j_opt JText (rq_chief_guest_name rq)),
            (''chief_guest_designation'', j_opt JText (rq_chief_guest_designation rq)),
            (''chief_guest_institution'', j_opt JText (rq_chief_guest_institution rq)),
            (''academic_year'', JText (rq_academic_year rq)), (''version_number'', JInt (rq_current_version rq)),
            (''submitted_by'', JUuid (actor_id q)), (''submitted_by_email'', JText (us_email (actor q)))]
           @ (case venue_request_of d (rq_id rq) of None \<Rightarrow> [] | Some vr \<Rightarrow> [(''venue'', venue_snapshot d vr)])
           @ (case budget_of d (rq_id rq) of None \<Rightarrow> [] | Some bp \<Rightarrow> [(''budget'', budget_snapshot d bp)]))"

definition submitted_row :: "string option \<Rightarrow> event_request \<Rightarrow> event_request" where
  "submitted_row idempotency_key rq =
     rq\<lparr>rq_idempotency_key := (if truthy idempotency_key then idempotency_key else rq_idempotency_key rq),
        rq_status := RQ_SUBMITTED, rq_current_version := rq_current_version rq + 1,
        rq_version_lock := rq_version_lock rq + 1\<rparr>"

definition new_version :: "request \<Rightarrow> db \<Rightarrow> event_request \<Rightarrow> string option \<Rightarrow> uuid \<Rightarrow> event_request_version" where
  "new_version q d rq change_summary i =
     \<lparr>ver_id = i, ver_event_request_id = rq_id rq, ver_version_number = rq_current_version rq,
      ver_snapshot = submission_snapshot q d rq, ver_submitted_by = actor_id q, ver_submitted_at = now q,
      ver_change_summary = change_summary, ver_created_at = now q\<rparr>"

text \<open>\<open>rq\<close> is the proposal as it was loaded, \<open>rq'\<close> as it is submitted.\<close>

definition version_stored :: "request \<Rightarrow> event_request \<Rightarrow> event_request \<Rightarrow> string option \<Rightarrow> db \<Rightarrow> db" where
  "version_stored q rq rq' change_summary d =
     (let i = next_uuid d
      in add_audit q A_PROPOSAL_SUBMITTED ''event_request'' (rq_id rq)
           (JObj [(''status'', JEnum (J_request_status (rq_status rq))), (''version'', JInt (rq_current_version rq' - 1))])
           (JObj [(''status'', JEnum (J_request_status RQ_SUBMITTED)), (''version'', JInt (rq_current_version rq')),
                  (''version_id'', JUuid i)]) None
           (d\<lparr>event_requests := put rq_id rq' (event_requests d),
              versions := versions d @ [new_version q d rq' change_summary i], next_uuid := Suc i\<rparr>))"

definition submit_proposal ::
    "request \<Rightarrow> uuid \<Rightarrow> string option \<Rightarrow> string option \<Rightarrow> db \<Rightarrow> (event_request \<times> db) res" where
  "submit_proposal q event_id change_summary idempotency_key d =
     and_then (get_event event_id d) (\<lambda>rq.
     if truthy idempotency_key \<and> rq_idempotency_key rq = idempotency_key \<and> rq_status rq = RQ_SUBMITTED
     then Inr (rq, d)
     else
     require (editable rq) WorkflowStateError (
     and_then (verify_club_ownership q (rq_club_id rq) d) (\<lambda>club.
     require (cl_is_active club) BadRequestError (
     require (truthy idempotency_key \<longrightarrow>
       scalar (\<lambda>r. rq_idempotency_key r = idempotency_key \<and> rq_id r \<noteq> rq_id rq) (event_requests d) = None)
       ConflictError (
     let rq' = submitted_row idempotency_key rq;
         (wi, d') = instantiate_workflow q rq' (version_stored q rq rq' change_summary d)
     in commit IntegrityError (rq'\<lparr>rq_workflow_instance_id := Some (wi_id wi)\<rparr>) d')))))"

section \<open>Cancellation\<close>

record cancellation =
  cn_id :: uuid
  cn_entity_type :: string
  cn_title :: string
  cn_status :: string
  cn_cancelled_at :: time
  cn_cancelled_by :: uuid
  cn_cancellation_reason :: string
  cn_hall_released :: bool
  cn_workflow_cancelled :: bool
  cn_advance_status :: "string option"

definition chain_of_proposal :: "db \<Rightarrow> event_request \<Rightarrow> workflow_instance option" where
  "chain_of_proposal d rq = Option.bind (rq_workflow_instance_id rq) (\<lambda>i. row wi_id i (instances d))"

definition skipped :: "uuid \<Rightarrow> workflow_instance_step \<Rightarrow> workflow_instance_step" where
  "skipped inst s = (if ws_instance_id s = inst \<and> ws_status s = WS_PENDING then s\<lparr>ws_status := WS_SKIPPED\<rparr> else s)"

definition running :: "workflow_instance option \<Rightarrow> bool" where
  "running inst = (case inst of None \<Rightarrow> False | Some i \<Rightarrow> wi_status i = WI_IN_PROGRESS)"

definition cancel_chain :: "workflow_instance option \<Rightarrow> db \<Rightarrow> db" where
  "cancel_chain inst d =
     (case inst of
        None \<Rightarrow> d
      | Some i \<Rightarrow>
          if wi_status i = WI_IN_PROGRESS
          then d\<lparr>instances := put wi_id (i\<lparr>wi_status := WI_CANCELLED\<rparr>) (instances d),
                 steps := map (skipped (wi_id i)) (steps d)\<rparr>
          else d)"

definition release_hall :: "request \<Rightarrow> uuid \<Rightarrow> string \<times> json \<Rightarrow> string \<Rightarrow> db \<Rightarrow> db" where
  "release_hall q event_request_id owner note d =
     (case active_booking_of d event_request_id of
        None \<Rightarrow> d
      | Some b \<Rightarrow>
          add_audit q A_HALL_RELEASED ''hall_booking_confirmed'' (bk_id b)
            (JObj [(''is_active'', JBool True), owner])
            (JObj [(''is_active'', JBool False), (''reason'', JText note)]) None
            (d\<lparr>hall_bookings := put bk_id (b\<lparr>bk_is_active := False\<rparr>) (hall_bookings d)\<rparr>))"

definition withdraw_venue :: "event_request \<Rightarrow> db \<Rightarrow> db" where
  "withdraw_venue rq d =
     (case venue_request_of d (rq_id rq) of
        None \<Rightarrow> d
      | Some vr \<Rightarrow>
          if vr_status vr = VR_APPROVED
          then d\<lparr>venue_requests := put vr_id (vr\<lparr>vr_status := VR_REJECTED\<rparr>) (venue_requests d)\<rparr> else d)"

definition tell_withdrawal :: "request \<Rightarrow> event_request \<Rightarrow> workflow_instance option \<Rightarrow> db \<Rightarrow> db" where
  "tell_withdrawal q rq inst d =
     (if actor_id q \<noteq> rq_submitted_by rq then create_notification q (rq_submitted_by rq) N_SYSTEM (Some (rq_id rq)) d
      else case inst of
        None \<Rightarrow> d
      | Some i \<Rightarrow>
          if wi_current_step_order i = 0 then d
          else (case step_at d (wi_id i) (wi_current_step_order i) of
                  None \<Rightarrow> d
                | Some s \<Rightarrow> create_notification q (ws_assigned_to s) N_SYSTEM (Some (rq_id rq)) d))"

definition cancelled_row :: "event_request \<Rightarrow> event_request" where
  "cancelled_row rq = rq\<lparr>rq_status := RQ_CANCELLED, rq_version_lock := rq_version_lock rq + 1\<rparr>"

definition proposal_cancelled :: "request \<Rightarrow> event_request \<Rightarrow> string \<Rightarrow> db \<Rightarrow> db" where
  "proposal_cancelled q rq reason d =
     (let inst = chain_of_proposal d rq;
          d1 = cancel_chain inst d;
          d2 = release_hall q (rq_id rq) (''event_request_id'', JUuid (rq_id rq)) (''Proposal cancelled: '' @ reason) d1;
          d3 = withdraw_venue rq d2;
          d4 = add_audit q A_PROPOSAL_CANCELLED ''event_request'' (rq_id rq)
                 (JObj [(''status'', JEnum (J_request_status (rq_status rq)))])
                 (JObj [(''status'', JEnum (J_request_status RQ_CANCELLED)), (''cancellation_reason'', JText reason)]) None
                 (d3\<lparr>event_requests := put rq_id (cancelled_row rq) (event_requests d3)\<rparr>)
      in tell_withdrawal q rq inst d4)"

definition cancellable :: "event_request \<Rightarrow> bool" where
  "cancellable rq \<longleftrightarrow> rq_status rq \<in> {RQ_DRAFT, RQ_SUBMITTED, RQ_IN_REVIEW, RQ_REVISION_REQUIRED}"

definition cancel_proposal :: "request \<Rightarrow> uuid \<Rightarrow> string \<Rightarrow> db \<Rightarrow> (cancellation \<times> db) res" where
  "cancel_proposal q proposal_id reason d =
     and_then (get_event proposal_id d) (\<lambda>rq.
     and_then (if actor_role q \<noteq> SYSTEM_ADMIN
               then and_then (verify_club_ownership q (rq_club_id rq) d) (\<lambda>_. Inr ()) else Inr ()) (\<lambda>_.
     require (cancellable rq) WorkflowStateError (
     commit IntegrityError
       \<lparr>cn_id = rq_id rq, cn_entity_type = ''PROPOSAL'', cn_title = rq_title rq, cn_status = ''CANCELLED'',
        cn_cancelled_at = now q, cn_cancelled_by = actor_id q, cn_cancellation_reason = reason,
        cn_hall_released = (active_booking_of d (rq_id rq) \<noteq> None),
        cn_workflow_cancelled = running (chain_of_proposal d rq), cn_advance_status = None\<rparr>
       (proposal_cancelled q rq reason d))))"

definition refuse_advance :: "request \<Rightarrow> event \<Rightarrow> string \<Rightarrow> db \<Rightarrow> db" where
  "refuse_advance q ev reason d =
     (case advance_of d (ev_id ev) of
        None \<Rightarrow> d
      | Some a \<Rightarrow>
          if ca_status a \<in> {CA_REQUESTED, CA_APPROVED}
          then add_audit q A_ADVANCE_REJECTED ''cash_advance'' (ca_id a)
                 (JObj [(''status'', JEnum (J_advance_status (ca_status a)))])
                 (JObj [(''status'', JEnum (J_advance_status CA_REJECTED)),
                        (''rejection_reason'', JText (''Event cancelled: '' @ reason))]) None
                 (d\<lparr>advances := put ca_id (a\<lparr>ca_status := CA_REJECTED,
                     ca_rejection_reason := Some (''Event cancelled: '' @ reason)\<rparr>) (advances d)\<rparr>)
          else d)"

definition advance_note :: "db \<Rightarrow> event \<Rightarrow> string option" where
  "advance_note d ev =
     (case map_option ca_status (advance_of d (ev_id ev)) of
        Some CA_REQUESTED \<Rightarrow> Some ''REJECTED_ON_CANCELLATION''
      | Some CA_APPROVED \<Rightarrow> Some ''REJECTED_ON_CANCELLATION''
      | Some CA_DISBURSED \<Rightarrow> Some ''DISBURSED_REFUND_REQUIRED''
      | _ \<Rightarrow> None)"

definition tell_cancellation :: "request \<Rightarrow> event \<Rightarrow> db \<Rightarrow> db" where
  "tell_cancellation q ev d =
     (let advisor = Option.bind (club_by_id d (ev_club_id ev)) cl_faculty_advisor_id;
          d1 = (case advisor of
                  None \<Rightarrow> d
                | Some a \<Rightarrow> if a \<noteq> actor_id q then create_notification q a N_SYSTEM (Some (ev_event_request_id ev)) d else d)
      in if map_option ca_status (advance_of d (ev_id ev)) = Some CA_DISBURSED
         then notify_all q (map us_id (active_users_with_roles d [FINANCE_OFFICER])) N_SYSTEM
                (Some (ev_event_request_id ev)) d1
         else d1)"

definition event_cancelled_row :: "request \<Rightarrow> string \<Rightarrow> event \<Rightarrow> event" where
  "event_cancelled_row q reason ev =
     ev\<lparr>ev_status := EV_CANCELLED, ev_cancelled_at := Some (now q), ev_cancelled_by := Some (actor_id q),
        ev_cancellation_reason := Some reason\<rparr>"

definition event_cancelled :: "request \<Rightarrow> event \<Rightarrow> string \<Rightarrow> db \<Rightarrow> db" where
  "event_cancelled q ev reason d =
     (let d1 = release_hall q (ev_event_request_id ev) (''event_id'', JUuid (ev_id ev)) (''Event cancelled: '' @ reason) d;
          d2 = refuse_advance q ev reason d1;
          d3 = add_audit q A_EVENT_STATUS_CHANGED ''event'' (ev_id ev)
                 (JObj [(''status'', JEnum (J_event_status (ev_status ev)))])
                 (JObj [(''status'', JEnum (J_event_status EV_CANCELLED)), (''cancellation_reason'', JText reason),
                        (''cancelled_by'', JUuid (actor_id q)), (''cancelled_at'', JTime (now q)),
                        (''advance_status'', j_opt JText (advance_note d ev))]) None
                 (d2\<lparr>events := put ev_id (event_cancelled_row q reason ev) (events d2)\<rparr>)
      in tell_cancellation q ev d3)"

text \<open>An identifier names a confirmed event by its own key or by its proposal's.\<close>

definition event_named :: "db \<Rightarrow> uuid \<Rightarrow> event option" where
  "event_named d i = scalar (\<lambda>e. ev_id e = i \<or> ev_event_request_id e = i) (events d)"

definition cancel_confirmed_event :: "request \<Rightarrow> uuid \<Rightarrow> string \<Rightarrow> db \<Rightarrow> (cancellation \<times> db) res" where
  "cancel_confirmed_event q event_id reason d =
     fetch (event_named d event_id) NotFoundError (\<lambda>ev.
     and_then (if actor_role q \<notin> {PRINCIPAL, DEAN_STUDENT_AFFAIRS, SYSTEM_ADMIN}
               then and_then (verify_club_ownership q (ev_club_id ev) d) (\<lambda>_. Inr ()) else Inr ()) (\<lambda>_.
     require (ev_status ev \<notin> {EV_CLOSED, EV_ARCHIVED}) ConflictError (
     require (ev_status ev \<in> {EV_SCHEDULED, EV_IN_PROGRESS}) WorkflowStateError (
     commit IntegrityError
       \<lparr>cn_id = ev_id ev, cn_entity_type = ''CONFIRMED_EVENT'', cn_title = ev_title ev, cn_status = ''CANCELLED'',
        cn_cancelled_at = now q, cn_cancelled_by = actor_id q, cn_cancellation_reason = reason,
        cn_hall_released = (active_booking_of d (ev_event_request_id ev) \<noteq> None),
        cn_workflow_cancelled = False, cn_advance_status = advance_note d ev\<rparr>
       (event_cancelled q ev reason d)))))"

definition cancel_any_event :: "request \<Rightarrow> uuid \<Rightarrow> string \<Rightarrow> db \<Rightarrow> (cancellation \<times> db) res" where
  "cancel_any_event q identifier reason d =
     (case event_named d identifier of
        Some ev \<Rightarrow> cancel_confirmed_event q (ev_id ev) reason d
      | None \<Rightarrow> and_then (get_event identifier d) (\<lambda>rq. cancel_proposal q (rq_id rq) reason d))"

section \<open>The proposals as a service\<close>

datatype proposal_request =
    CreateDraft proposal_create
  | UpdateDraft uuid proposal_update
  | SubmitProposal uuid "string option" "string option"
  | CancelEvent uuid string

fun proposal_exec :: "request \<Rightarrow> proposal_request \<Rightarrow> db \<Rightarrow> db res" where
  "proposal_exec q (CreateDraft p) d = and_then (proposal_create_schema p) (\<lambda>p. db_of (create_draft q p d))"
| "proposal_exec q (UpdateDraft i p) d = and_then (proposal_update_schema p) (\<lambda>p. db_of (update_draft q i p d))"
| "proposal_exec q (SubmitProposal i s k) d =
     require (opt_len_between 0 2000 s) RequestValidationError (db_of (submit_proposal q i s k d))"
| "proposal_exec q (CancelEvent i r) d = and_then (reason_schema r) (\<lambda>r. db_of (cancel_any_event q i r d))"

section \<open>What the requests change\<close>

lemma supersede_frame [simp]:
  "event_requests (supersede rq d) = event_requests d" "versions (supersede rq d) = versions d"
  "hall_bookings (supersede rq d) = hall_bookings d" "venue_requests (supersede rq d) = venue_requests d"
  "budgets (supersede rq d) = budgets d" "events (supersede rq d) = events d" "advances (supersede rq d) = advances d"
  "audit_logs (supersede rq d) = audit_logs d" "steps (supersede rq d) = steps d"
  "templates (supersede rq d) = templates d" "template_steps (supersede rq d) = template_steps d"
  "next_uuid (supersede rq d) = next_uuid d"
  by (simp_all add: supersede_def split: option.splits)

lemma ensure_default_template_frame [simp]:
  "event_requests (snd (ensure_default_template q d)) = event_requests d"
  "versions (snd (ensure_default_template q d)) = versions d"
  "hall_bookings (snd (ensure_default_template q d)) = hall_bookings d"
  "venue_requests (snd (ensure_default_template q d)) = venue_requests d"
  "budgets (snd (ensure_default_template q d)) = budgets d"
  "events (snd (ensure_default_template q d)) = events d"
  "advances (snd (ensure_default_template q d)) = advances d"
  "audit_logs (snd (ensure_default_template q d)) = audit_logs d"
  "steps (snd (ensure_default_template q d)) = steps d"
  "instances (snd (ensure_default_template q d)) = instances d"
  by (simp_all add: ensure_default_template_def Let_def split: option.splits)

text \<open>The instance and the steps that a submission adds.\<close>

definition started_chain :: "request \<Rightarrow> event_request \<Rightarrow> db \<Rightarrow> workflow_instance \<times> workflow_instance_step list" where
  "started_chain q rq d =
     (let (t, d1) = ensure_default_template q (supersede rq d); i = next_uuid d1
      in (new_instance q rq t i, map (instance_step q rq d1 i) (enumerate (Suc i) (steps_of_template d1 t))))"

lemma instantiate_workflow_frame:
  "fst (instantiate_workflow q rq d) = fst (started_chain q rq d)"
  "event_requests (snd (instantiate_workflow q rq d)) =
     put rq_id (rq\<lparr>rq_workflow_instance_id := Some (wi_id (fst (started_chain q rq d)))\<rparr>) (event_requests d)"
  "instances (snd (instantiate_workflow q rq d)) = instances (supersede rq d) @ [fst (started_chain q rq d)]"
  "steps (snd (instantiate_workflow q rq d)) = steps d @ snd (started_chain q rq d)"
  "template_steps (snd (instantiate_workflow q rq d)) = template_steps (snd (ensure_default_template q (supersede rq d)))"
  "versions (snd (instantiate_workflow q rq d)) = versions d"
  "hall_bookings (snd (instantiate_workflow q rq d)) = hall_bookings d"
  "venue_requests (snd (instantiate_workflow q rq d)) = venue_requests d"
  "budgets (snd (instantiate_workflow q rq d)) = budgets d"
  "events (snd (instantiate_workflow q rq d)) = events d"
  "advances (snd (instantiate_workflow q rq d)) = advances d"
  "audit_logs (snd (instantiate_workflow q rq d)) = audit_logs d"
proof -
  obtain t d1 where e: "ensure_default_template q (supersede rq d) = (t, d1)" by (cases "ensure_default_template q (supersede rq d)")
  note f = ensure_default_template_frame [of q "supersede rq d", unfolded e, simplified]
  show "fst (instantiate_workflow q rq d) = fst (started_chain q rq d)"
    "event_requests (snd (instantiate_workflow q rq d)) =
       put rq_id (rq\<lparr>rq_workflow_instance_id := Some (wi_id (fst (started_chain q rq d)))\<rparr>) (event_requests d)"
    "instances (snd (instantiate_workflow q rq d)) = instances (supersede rq d) @ [fst (started_chain q rq d)]"
    "steps (snd (instantiate_workflow q rq d)) = steps d @ snd (started_chain q rq d)"
    "template_steps (snd (instantiate_workflow q rq d)) = template_steps (snd (ensure_default_template q (supersede rq d)))"
    "versions (snd (instantiate_workflow q rq d)) = versions d"
    "hall_bookings (snd (instantiate_workflow q rq d)) = hall_bookings d"
    "venue_requests (snd (instantiate_workflow q rq d)) = venue_requests d"
    "budgets (snd (instantiate_workflow q rq d)) = budgets d"
    "events (snd (instantiate_workflow q rq d)) = events d"
    "advances (snd (instantiate_workflow q rq d)) = advances d"
    "audit_logs (snd (instantiate_workflow q rq d)) = audit_logs d"
    unfolding instantiate_workflow_def started_chain_def e
    by (simp_all add: Let_def f new_instance_def split: option.splits)
qed

lemma cancel_chain_frame [simp]:
  "event_requests (cancel_chain i d) = event_requests d" "versions (cancel_chain i d) = versions d"
  "hall_bookings (cancel_chain i d) = hall_bookings d" "venue_requests (cancel_chain i d) = venue_requests d"
  "budgets (cancel_chain i d) = budgets d" "events (cancel_chain i d) = events d"
  "advances (cancel_chain i d) = advances d" "audit_logs (cancel_chain i d) = audit_logs d"
  "template_steps (cancel_chain i d) = template_steps d"
  by (simp_all add: cancel_chain_def split: option.splits)

lemma release_hall_frame [simp]:
  "event_requests (release_hall q i w n d) = event_requests d" "versions (release_hall q i w n d) = versions d"
  "venue_requests (release_hall q i w n d) = venue_requests d" "budgets (release_hall q i w n d) = budgets d"
  "events (release_hall q i w n d) = events d" "advances (release_hall q i w n d) = advances d"
  "instances (release_hall q i w n d) = instances d" "steps (release_hall q i w n d) = steps d"
  "template_steps (release_hall q i w n d) = template_steps d"
  "signed q d (release_hall q i w n d)"
  by (simp_all add: release_hall_def split: option.splits)

lemma withdraw_venue_frame [simp]:
  "event_requests (withdraw_venue rq d) = event_requests d" "versions (withdraw_venue rq d) = versions d"
  "hall_bookings (withdraw_venue rq d) = hall_bookings d" "budgets (withdraw_venue rq d) = budgets d"
  "events (withdraw_venue rq d) = events d" "advances (withdraw_venue rq d) = advances d"
  "instances (withdraw_venue rq d) = instances d" "steps (withdraw_venue rq d) = steps d"
  "template_steps (withdraw_venue rq d) = template_steps d" "audit_logs (withdraw_venue rq d) = audit_logs d"
  by (simp_all add: withdraw_venue_def split: option.splits)

lemma tell_withdrawal_frame [simp]:
  "event_requests (tell_withdrawal q rq i d) = event_requests d" "versions (tell_withdrawal q rq i d) = versions d"
  "hall_bookings (tell_withdrawal q rq i d) = hall_bookings d" "budgets (tell_withdrawal q rq i d) = budgets d"
  "venue_requests (tell_withdrawal q rq i d) = venue_requests d"
  "events (tell_withdrawal q rq i d) = events d" "advances (tell_withdrawal q rq i d) = advances d"
  "instances (tell_withdrawal q rq i d) = instances d" "steps (tell_withdrawal q rq i d) = steps d"
  "template_steps (tell_withdrawal q rq i d) = template_steps d" "audit_logs (tell_withdrawal q rq i d) = audit_logs d"
  by (simp_all add: tell_withdrawal_def split: option.splits)

lemma refuse_advance_frame [simp]:
  "event_requests (refuse_advance q ev r d) = event_requests d" "versions (refuse_advance q ev r d) = versions d"
  "hall_bookings (refuse_advance q ev r d) = hall_bookings d" "budgets (refuse_advance q ev r d) = budgets d"
  "venue_requests (refuse_advance q ev r d) = venue_requests d" "events (refuse_advance q ev r d) = events d"
  "instances (refuse_advance q ev r d) = instances d" "steps (refuse_advance q ev r d) = steps d"
  "template_steps (refuse_advance q ev r d) = template_steps d"
  "signed q d (refuse_advance q ev r d)"
  by (simp_all add: refuse_advance_def split: option.splits)

lemma tell_cancellation_frame [simp]:
  "event_requests (tell_cancellation q ev d) = event_requests d" "versions (tell_cancellation q ev d) = versions d"
  "hall_bookings (tell_cancellation q ev d) = hall_bookings d" "budgets (tell_cancellation q ev d) = budgets d"
  "venue_requests (tell_cancellation q ev d) = venue_requests d" "events (tell_cancellation q ev d) = events d"
  "advances (tell_cancellation q ev d) = advances d"
  "instances (tell_cancellation q ev d) = instances d" "steps (tell_cancellation q ev d) = steps d"
  "template_steps (tell_cancellation q ev d) = template_steps d" "audit_logs (tell_cancellation q ev d) = audit_logs d"
  by (simp_all add: tell_cancellation_def Let_def split: option.splits)

lemma draft_frame [simp]:
  "event_requests (draft_created q p d) = event_requests d @ [new_proposal q p (next_uuid d)]"
  "event_requests (draft_edited q u rq d) = put rq_id (edited u rq) (event_requests d)"
  "versions (draft_created q p d) = versions d" "versions (draft_edited q u rq d) = versions d"
  "hall_bookings (draft_created q p d) = hall_bookings d" "hall_bookings (draft_edited q u rq d) = hall_bookings d"
  "events (draft_created q p d) = events d" "events (draft_edited q u rq d) = events d"
  "advances (draft_created q p d) = advances d" "advances (draft_edited q u rq d) = advances d"
  "instances (draft_created q p d) = instances d" "instances (draft_edited q u rq d) = instances d"
  "steps (draft_created q p d) = steps d" "steps (draft_edited q u rq d) = steps d"
  "template_steps (draft_created q p d) = template_steps d" "template_steps (draft_edited q u rq d) = template_steps d"
  by (simp_all add: draft_created_def draft_edited_def Let_def)

lemma version_stored_frame [simp]:
  "event_requests (version_stored q rq rq' c d) = put rq_id rq' (event_requests d)"
  "versions (version_stored q rq rq' c d) = versions d @ [new_version q d rq' c (next_uuid d)]"
  "hall_bookings (version_stored q rq rq' c d) = hall_bookings d"
  "events (version_stored q rq rq' c d) = events d" "advances (version_stored q rq rq' c d) = advances d"
  "instances (version_stored q rq rq' c d) = instances d" "steps (version_stored q rq rq' c d) = steps d"
  "template_steps (version_stored q rq rq' c d) = template_steps d"
  "budgets (version_stored q rq rq' c d) = budgets d"
  "signed q d (version_stored q rq rq' c d)"
  by (simp_all add: version_stored_def Let_def)

lemma proposal_cancelled_frame [simp]:
  "event_requests (proposal_cancelled q rq r d) = put rq_id (cancelled_row rq) (event_requests d)"
  "versions (proposal_cancelled q rq r d) = versions d"
  "events (proposal_cancelled q rq r d) = events d" "advances (proposal_cancelled q rq r d) = advances d"
  "hall_bookings (proposal_cancelled q rq r d) = hall_bookings (release_hall q (rq_id rq) (''event_request_id'', JUuid (rq_id rq)) (''Proposal cancelled: '' @ r) d)"
  "instances (proposal_cancelled q rq r d) = instances (cancel_chain (chain_of_proposal d rq) d)"
  "steps (proposal_cancelled q rq r d) = steps (cancel_chain (chain_of_proposal d rq) d)"
  "template_steps (proposal_cancelled q rq r d) = template_steps d"
  by (simp_all add: proposal_cancelled_def Let_def release_hall_def active_booking_of_def split: option.splits)

lemma refuse_advance_cong: "advances d = advances d' \<Longrightarrow> advances (refuse_advance q ev r d) = advances (refuse_advance q ev r d')"
  by (simp add: refuse_advance_def advance_of_def split: option.splits)

lemma refuse_after_release [simp]:
  "advances (refuse_advance q ev r (release_hall q i w n d)) = advances (refuse_advance q ev r d)"
  by (rule refuse_advance_cong) simp

lemma event_cancelled_frame [simp]:
  "event_requests (event_cancelled q ev r d) = event_requests d"
  "versions (event_cancelled q ev r d) = versions d"
  "events (event_cancelled q ev r d) = put ev_id (event_cancelled_row q r ev) (events d)"
  "advances (event_cancelled q ev r d) = advances (refuse_advance q ev r d)"
  "hall_bookings (event_cancelled q ev r d) = hall_bookings (release_hall q (ev_event_request_id ev) (''event_id'', JUuid (ev_id ev)) (''Event cancelled: '' @ r) d)"
  "instances (event_cancelled q ev r d) = instances d" "steps (event_cancelled q ev r d) = steps d"
  "template_steps (event_cancelled q ev r d) = template_steps d"
  by (simp_all add: event_cancelled_def Let_def)

lemma proposal_audit:
  "signed q d (proposal_cancelled q rq r d)"
  "signed q d (event_cancelled q ev r d)"
  "signed q d (draft_created q p d)"
  "signed q d (draft_edited q u rq d)"
  by (simp_all add: proposal_cancelled_def event_cancelled_def draft_created_def draft_edited_def Let_def
      release_hall_def refuse_advance_def split: option.splits)

inductive proposal_effect :: "request \<Rightarrow> db \<Rightarrow> db \<Rightarrow> bool" for q d where
  drafted: "proposal_effect q d (draft_created q p d)"
| edited: "rq \<in> set (event_requests d) \<Longrightarrow> editable rq \<Longrightarrow> proposal_effect q d (draft_edited q u rq d)"
| submitted: "rq \<in> set (event_requests d) \<Longrightarrow> editable rq \<Longrightarrow>
    proposal_effect q d (snd (instantiate_workflow q (submitted_row k rq) (version_stored q rq (submitted_row k rq) c d)))"
| repeated: "proposal_effect q d d"
| withdrawn: "rq \<in> set (event_requests d) \<Longrightarrow> cancellable rq \<Longrightarrow> proposal_effect q d (proposal_cancelled q rq r d)"
| called_off: "ev \<in> set (events d) \<Longrightarrow> ev_status ev \<in> {EV_SCHEDULED, EV_IN_PROGRESS} \<Longrightarrow>
    proposal_effect q d (event_cancelled q ev r d)"

lemma get_eventD: "get_event i d = Inr rq \<Longrightarrow> rq \<in> set (event_requests d) \<and> rq_id rq = i \<and> rq_deleted_at rq = None"
  by (auto simp: get_event_def res_simps dest: scalar_Some)

lemma submittedI:
  "instantiate_workflow q (submitted_row k rq) (version_stored q rq (submitted_row k rq) c d) = (x, d') \<Longrightarrow>
     rq \<in> set (event_requests d) \<Longrightarrow> editable rq \<Longrightarrow> proposal_effect q d d'"
  by (metis submitted snd_conv)

lemma submit_proposal_effect:
  "submit_proposal q i c k d = Inr (x, d') \<Longrightarrow> proposal_effect q d d' \<and> (db_ok d \<longrightarrow> db_ok d')"
  unfolding submit_proposal_def
  by (auto simp: res_simps Let_def split: if_splits prod.splits dest!: get_eventD intro: repeated submittedI)

lemma create_draft_effect: "create_draft q p d = Inr (x, d') \<Longrightarrow> proposal_effect q d d' \<and> db_ok d'"
  unfolding create_draft_def by (auto simp: res_simps intro: drafted)

lemma update_draft_effect: "update_draft q i p d = Inr (x, d') \<Longrightarrow> proposal_effect q d d' \<and> db_ok d'"
  unfolding update_draft_def by (auto simp: res_simps intro: edited dest!: get_eventD)

lemma cancel_proposal_effect: "cancel_proposal q i r d = Inr (x, d') \<Longrightarrow> proposal_effect q d d' \<and> db_ok d'"
  unfolding cancel_proposal_def by (auto simp: res_simps intro: withdrawn dest!: get_eventD split: if_splits)

lemma cancel_confirmed_event_effect:
  "cancel_confirmed_event q i r d = Inr (x, d') \<Longrightarrow> proposal_effect q d d' \<and> db_ok d'"
  unfolding cancel_confirmed_event_def event_named_def
  by (auto simp: res_simps intro: called_off split: if_splits dest!: scalar_Some)

lemma cancel_any_event_effect: "cancel_any_event q i r d = Inr (x, d') \<Longrightarrow> proposal_effect q d d' \<and> db_ok d'"
  unfolding cancel_any_event_def
  by (auto simp: res_simps split: option.splits dest: cancel_proposal_effect cancel_confirmed_event_effect)

lemma proposal_exec_moves: "proposal_exec q r d = Inr d' \<Longrightarrow> proposal_effect q d d' \<and> (db_ok d \<longrightarrow> db_ok d')"
  by (cases r) (auto simp: res_simps dest: create_draft_effect update_draft_effect submit_proposal_effect cancel_any_event_effect)

lemma proposal_exec_effect: "proposal_exec q r d = Inr d' \<Longrightarrow> db_ok d \<Longrightarrow> proposal_effect q d d' \<and> db_ok d'"
  using proposal_exec_moves by blast

lemma proposal_effect_audit: "proposal_effect q d d' \<Longrightarrow> signed q d d'"
  by (induction rule: proposal_effect.induct) (simp_all add: proposal_audit instantiate_workflow_frame)

interpretation proposal_service: audited_service proposal_exec
  by unfold_locales (auto dest: proposal_exec_moves proposal_effect_audit)

section \<open>Versions\<close>

text \<open>The rows of the proposals, as a request moves them.\<close>

inductive proposal_step :: "request \<Rightarrow> event_request \<Rightarrow> event_request \<Rightarrow> bool" for q where
  edit: "editable x \<Longrightarrow> proposal_step q x (edited u x)"
| submit: "editable x \<Longrightarrow> proposal_step q x ((submitted_row k x)\<lparr>rq_workflow_instance_id := Some i\<rparr>)"
| withdraw: "cancellable x \<Longrightarrow> proposal_step q x (cancelled_row x)"

definition proposal_new :: "request \<Rightarrow> event_request \<Rightarrow> bool" where
  "proposal_new q x \<longleftrightarrow> (\<exists>p i. x = new_proposal q p i)"

lemma submitted_row_simps [simp]:
  "rq_id (submitted_row k rq) = rq_id rq" "rq_status (submitted_row k rq) = RQ_SUBMITTED"
  "rq_current_version (submitted_row k rq) = rq_current_version rq + 1"
  "rq_version_lock (submitted_row k rq) = rq_version_lock rq + 1"
  "rq_workflow_instance_id (submitted_row k rq) = rq_workflow_instance_id rq"
  "rq_club_id (submitted_row k rq) = rq_club_id rq"
  by (simp_all add: submitted_row_def)

lemma edited_simps [simp]:
  "rq_id (edited u rq) = rq_id rq" "rq_status (edited u rq) = rq_status rq"
  "rq_current_version (edited u rq) = rq_current_version rq" "rq_version_lock (edited u rq) = rq_version_lock rq + 1"
  by (simp_all add: edited_def)

lemma cancelled_row_simps [simp]:
  "rq_id (cancelled_row rq) = rq_id rq" "rq_status (cancelled_row rq) = RQ_CANCELLED"
  "rq_current_version (cancelled_row rq) = rq_current_version rq"
  "rq_version_lock (cancelled_row rq) = rq_version_lock rq + 1"
  by (simp_all add: cancelled_row_def)

lemma new_proposal_simps [simp]:
  "rq_id (new_proposal q p i) = i" "rq_status (new_proposal q p i) = RQ_DRAFT"
  "rq_current_version (new_proposal q p i) = 0" "rq_version_lock (new_proposal q p i) = 0"
  by (simp_all add: new_proposal_def)

lemma proposal_newI [simp]: "proposal_new q (new_proposal q p i)"
  by (auto simp: proposal_new_def)

lemma proposal_effect_evolves:
  assumes "proposal_effect q d d'"
  shows "evolves rq_id (proposal_new q) (proposal_step q) (event_requests d) (event_requests d')"
  using assms
proof cases
  case (drafted p)
  then show ?thesis by (simp add: evolves_snoc)
next
  case (edited rq u)
  then show ?thesis by (auto intro!: evolves_put [of rq] edit)
next
  case (submitted rq k c)
  then show ?thesis by (auto simp: instantiate_workflow_frame intro!: evolves_put [of rq] submit)
next
  case repeated
  then show ?thesis by (simp add: evolves_refl)
next
  case (withdrawn rq r)
  then show ?thesis by (auto intro!: evolves_put [of rq] withdraw)
next
  case (called_off ev r)
  then show ?thesis by (simp add: evolves_refl)
qed

interpretation proposals: row_machine proposal_exec event_requests rq_id proposal_new proposal_step
  by unfold_locales (auto dest: proposal_exec_effect proposal_effect_evolves)

lemma proposal_effect_versions: "proposal_effect q d d' \<Longrightarrow> \<exists>vs. versions d' = versions d @ vs"
  by (induction rule: proposal_effect.induct) (simp_all add: instantiate_workflow_frame)

text \<open>The versions of a proposal are numbered 1, 2, ... up to its current version, and none is ever changed.\<close>

definition numbered_for :: "event_request_version list \<Rightarrow> event_request \<Rightarrow> bool" where
  "numbered_for vs rq \<longleftrightarrow>
     map ver_version_number (filter (\<lambda>v. ver_event_request_id v = rq_id rq) vs) = [1..rq_current_version rq] \<and>
     rq_current_version rq \<ge> 0"

definition versions_numbered :: "db \<Rightarrow> bool" where
  "versions_numbered d \<longleftrightarrow> (\<forall>rq\<in>set (event_requests d). numbered_for (versions d) rq) \<and>
     ver_event_request_id ` set (versions d) \<subseteq> rq_id ` set (event_requests d)"

lemma versions_numbered_put:
  assumes "versions_numbered d" and "rq \<in> set (event_requests d)" and "rq_id rq' = rq_id rq"
    and "rq_current_version rq' = rq_current_version rq"
    and "event_requests d' = put rq_id rq' (event_requests d)" and "versions d' = versions d"
  shows "versions_numbered d'"
proof -
  have "numbered_for (versions d) rq'" using assms(1-4) by (simp add: versions_numbered_def numbered_for_def)
  then show ?thesis
    using assms(1) by (auto simp: versions_numbered_def assms(5,6) dest!: put_rows)
qed

lemma versions_numbered_submit:
  assumes ok: "versions_numbered d" and rq: "rq \<in> set (event_requests d)"
    and rq': "rq_id rq' = rq_id rq" "rq_current_version rq' = rq_current_version rq + 1"
    and v: "ver_event_request_id v = rq_id rq" "ver_version_number v = rq_current_version rq + 1"
    and d': "event_requests d' = put rq_id rq' (event_requests d)" "versions d' = versions d @ [v]"
  shows "versions_numbered d'"
  unfolding versions_numbered_def
proof
  show "ver_event_request_id ` set (versions d') \<subseteq> rq_id ` set (event_requests d')"
    using ok rq v(1) by (auto simp: versions_numbered_def d')
  show "\<forall>x\<in>set (event_requests d'). numbered_for (versions d') x"
  proof
    fix x assume "x \<in> set (event_requests d')"
    then consider "x = rq'" | "x \<in> set (event_requests d)" "rq_id x \<noteq> rq_id rq" using rq' by (auto simp: d' in_put)
    then show "numbered_for (versions d') x"
    proof cases
      case 1
      have "numbered_for (versions d) rq" using ok rq by (simp add: versions_numbered_def)
      then show ?thesis using upto_rec2 [of 1 "rq_current_version rq + 1"]
        by (simp add: 1 numbered_for_def d' rq' v)
    next
      case 2
      then have "numbered_for (versions d) x" using ok by (simp add: versions_numbered_def)
      with 2(2) show ?thesis by (simp add: numbered_for_def d' v)
    qed
  qed
qed

lemma new_version_simps [simp]:
  "ver_event_request_id (new_version q d rq c i) = rq_id rq" "ver_version_number (new_version q d rq c i) = rq_current_version rq"
  "ver_id (new_version q d rq c i) = i" "ver_snapshot (new_version q d rq c i) = submission_snapshot q d rq"
  by (simp_all add: new_version_def)

lemma versions_numbered_effect:
  assumes "proposal_effect q d d'" and "db_ok d'" and ok: "versions_numbered d"
  shows "versions_numbered d'"
  using assms(1)
proof cases
  case (drafted p)
  have "distinct (map rq_id (event_requests d'))" using assms(2) by (simp add: db_ok_keys)
  then have new: "next_uuid d \<notin> rq_id ` set (event_requests d)" by (simp add: drafted)
  then have "ver_event_request_id v \<noteq> next_uuid d" if "v \<in> set (versions d)" for v
    using ok that new unfolding versions_numbered_def by (metis imageI subsetD)
  then have "numbered_for (versions d) (new_proposal q p (next_uuid d))" by (simp add: numbered_for_def filter_empty_conv)
  with ok show ?thesis by (auto simp: versions_numbered_def drafted)
next
  case (edited rq u)
  then show ?thesis by (intro versions_numbered_put [OF ok, of rq "edited u rq"]) simp_all
next
  case (submitted rq k c)
  show ?thesis
    by (rule versions_numbered_submit [OF ok submitted(2)])
      (simp_all add: submitted instantiate_workflow_frame)
next
  case repeated
  with ok show ?thesis by simp
next
  case (withdrawn rq r)
  then show ?thesis by (intro versions_numbered_put [OF ok, of rq "cancelled_row rq"]) simp_all
next
  case (called_off ev r)
  with ok show ?thesis by (simp add: versions_numbered_def)
qed

interpretation version_numbers: state_invariant proposal_exec versions_numbered
  by unfold_locales (auto dest: proposal_exec_effect versions_numbered_effect)

section \<open>Finality and locks\<close>

definition request_final :: "event_request \<Rightarrow> bool" where
  "request_final rq \<longleftrightarrow> rq_status rq \<in> {RQ_APPROVED, RQ_REJECTED, RQ_CANCELLED}"

lemma proposal_effect_final:
  assumes "proposal_effect q d d'" and "db_ok d" and "x \<in> set (event_requests d)" and "request_final x"
  shows "x \<in> set (event_requests d')"
  using assms(1)
proof cases
  case (edited rq u)
  then show ?thesis using assms(2-4)
    by (auto intro!: final_put [where P = request_final, OF db_ok_keys(2)] simp: request_final_def editable_def)
next
  case (submitted rq k c)
  then show ?thesis using assms(2-4)
    by (auto intro!: final_put [where P = request_final, OF db_ok_keys(2)] simp: request_final_def editable_def instantiate_workflow_frame)
next
  case (withdrawn rq r)
  then show ?thesis using assms(2-4)
    by (auto intro!: final_put [where P = request_final, OF db_ok_keys(2)] simp: request_final_def cancellable_def)
qed (use assms(3) in simp_all)

interpretation decided_proposals: final_rows proposal_exec event_requests request_final
  by unfold_locales (blast dest: proposal_exec_effect proposal_effect_final)

text \<open>The lock of a proposal only grows.\<close>

definition locked_past :: "uuid \<Rightarrow> int \<Rightarrow> db \<Rightarrow> bool" where
  "locked_past i v d \<longleftrightarrow>
     (\<exists>rq\<in>set (event_requests d). rq_id rq = i \<and> rq_version_lock rq > v \<and> rq_deleted_at rq = None)"

lemma locked_past_put:
  assumes "db_ok d" and "locked_past i v d" and "rq \<in> set (event_requests d)" and "rq_id rq' = rq_id rq"
    and "rq_version_lock rq' \<ge> rq_version_lock rq" and "rq_deleted_at rq' = rq_deleted_at rq"
    and "event_requests d' = put rq_id rq' (event_requests d)"
  shows "locked_past i v d'"
proof -
  obtain x where x: "x \<in> set (event_requests d)" "rq_id x = i" "rq_version_lock x > v" "rq_deleted_at x = None"
    using assms(2) by (auto simp: locked_past_def)
  show ?thesis
  proof (cases "x = rq")
    case True
    then show ?thesis using x assms(3-7) put_written [of rq "event_requests d" rq_id rq'] by (auto simp: locked_past_def)
  next
    case False
    have "x \<in> set (event_requests d')"
      unfolding assms(7) by (rule put_keeps [OF db_ok_keys(2) [OF assms(1)] assms(3,4) x(1) False])
    with x show ?thesis by (auto simp: locked_past_def)
  qed
qed

lemma deleted_simps [simp]:
  "rq_deleted_at (submitted_row k rq) = rq_deleted_at rq" "rq_deleted_at (edited u rq) = rq_deleted_at rq"
  "rq_deleted_at (cancelled_row rq) = rq_deleted_at rq"
  by (simp_all add: submitted_row_def edited_def cancelled_row_def)

lemma locked_past_effect:
  assumes "proposal_effect q d d'" and "db_ok d" and "locked_past i v d"
  shows "locked_past i v d'"
  using assms(1)
proof cases
  case (edited rq u)
  then show ?thesis by (intro locked_past_put [OF assms(2,3), of rq "edited u rq"]) simp_all
next
  case (submitted rq k c)
  then show ?thesis
    by (intro locked_past_put [OF assms(2,3) submitted(2)]) (simp_all add: instantiate_workflow_frame)
next
  case (withdrawn rq r)
  then show ?thesis by (intro locked_past_put [OF assms(2,3), of rq "cancelled_row rq"]) simp_all
qed (use assms(3) in \<open>auto simp: locked_past_def\<close>)

lemma locked_past_stale:
  assumes "db_ok d" and "locked_past i v d" and "qu_expected_version u = Some v"
  shows "update_draft q i u d = Inl OptimisticLockError"
proof -
  obtain x where x: "x \<in> set (event_requests d)" "rq_id x = i" "rq_version_lock x > v" "rq_deleted_at x = None"
    using assms(2) by (auto simp: locked_past_def)
  have "get_event i d = Inr x"
  proof -
    have "scalar (\<lambda>r. rq_id r = i \<and> rq_deleted_at r = None) (event_requests d) = Some x"
      using db_ok_keys(2) [OF assms(1)] x
      by (cases "scalar (\<lambda>r. rq_id r = i \<and> rq_deleted_at r = None) (event_requests d)")
        (auto simp: scalar_None distinct_map inj_on_def dest!: scalar_Some)
    then show ?thesis by (simp add: get_event_def)
  qed
  with x(3) assms(3) show ?thesis by (simp add: update_draft_def)
qed

section \<open>Properties\<close>

definition drafting_campus :: db where
  "drafting_campus = institution\<lparr>
     event_requests := [(the_proposal RQ_REVISION_REQUIRED)\<lparr>rq_version_lock := 4\<rparr>], versions := [the_version],
     venue_requests := [venue_wish VR_APPROVED], hall_bookings := [the_booking], budgets := [the_budget\<lparr>bp_institute_contribution := 450000\<rparr>],
     line_items := [the_line_item]\<rparr>"

lemma drafting_campus_ok: "db_ok drafting_campus" "versions_numbered drafting_campus"
  subgoal by code_simp
  subgoal by code_simp
  done

text \<open>What an editable proposal's submission stores.\<close>

lemma submission_budget:
  "budget_of d (rq_id rq) = Some bp \<Longrightarrow> j_get ''budget'' (submission_snapshot q d rq) = budget_snapshot d bp"
  by (simp add: submission_snapshot_def j_get_def split: option.split)

lemma submission_truthy [simp]: "j_truthy (submission_snapshot q d rq)"
  by (simp add: submission_snapshot_def)

lemma budget_figures [simp]:
  "j_get ''institute_contribution'' (budget_snapshot d bp) = JMoney (bp_institute_contribution bp)"
  "j_get ''total_expected_expenditure'' (budget_snapshot d bp) = JMoney (bp_total_expected_expenditure bp)"
  "j_get ''expected_income'' (budget_snapshot d bp) = JMoney (bp_expected_income bp)"
  by (simp_all add: budget_snapshot_def j_get_def)

lemma submission_versions:
  assumes "submit_proposal q i c k d = Inr (x, d')" and "get_event i d = Inr rq" and "editable rq"
  shows "versions d' = versions d @ [new_version q d (submitted_row k rq) c (next_uuid d)]"
proof -
  have "rq_status rq \<noteq> RQ_SUBMITTED" using assms(3) by (auto simp: editable_def)
  with assms obtain w where "instantiate_workflow q (submitted_row k rq) (version_stored q rq (submitted_row k rq) c d) = (w, d')"
    unfolding submit_proposal_def by (auto simp: res_simps Let_def split: prod.splits)
  then have "d' = snd (instantiate_workflow q (submitted_row k rq) (version_stored q rq (submitted_row k rq) c d))" by simp
  then show ?thesis by (simp add: instantiate_workflow_frame)
qed

text \<open>
  C17. Submitting freezes the budget: the figures the settlement later resolves for an event sanctioned on the stored
  version are the proposal's contribution, expenditure and income at the moment of submission, whatever becomes
  of the budget afterwards.
\<close>

theorem submission_freezes_budget:
  assumes sub: "submit_proposal q i c k d = Inr (x, d')" and rq: "get_event i d = Inr rq" "editable rq"
    and bp: "budget_of d i = Some bp"
    and later: "db_ok e" "versions e = versions d' @ vs"
  shows "\<exists>v. v \<in> set (versions d') \<and> v \<notin> set (versions d) \<and> ver_event_request_id v = i \<and>
    ver_version_number v = rq_current_version rq + 1 \<and>
    (\<forall>ev. ev_approved_version_id ev = ver_id v \<longrightarrow>
       resolve_sanctioned_snapshot e ev =
         Inr (ver_id v, bp_institute_contribution bp, bp_total_expected_expenditure bp, bp_expected_income bp))"
proof -
  let ?v = "new_version q d (submitted_row k rq) c (next_uuid d)"
  have i: "rq_id rq = i" using get_eventD [OF rq(1)] by simp
  have vs: "versions e = versions d @ ?v # vs" using submission_versions [OF sub rq] later(2) by simp
  have dist: "distinct (map ver_id (versions e))" using later(1) by (simp add: db_ok_keys)
  have "row ver_id (next_uuid d) (versions e) = Some ?v"
    using row_unique [OF dist, of ?v] vs by simp
  then have "resolve_sanctioned_snapshot e ev =
      Inr (ver_id ?v, bp_institute_contribution bp, bp_total_expected_expenditure bp, bp_expected_income bp)"
    if "ev_approved_version_id ev = ver_id ?v" for ev
    using that bp i
    by (simp add: resolve_sanctioned_snapshot_def approved_version_of_def submission_budget Let_def as_decimal_def j_or_def)
  moreover have "ver_id ?v \<notin> ver_id ` set (versions d)" using dist vs by simp
  then have "?v \<notin> set (versions d)" by blast
  ultimately show ?thesis
    using submission_versions [OF sub rq] i by (intro exI [of _ ?v] conjI allI impI) simp_all
qed

lemma submission_freezes_budget_witness:
  "\<exists>(v::event_request_version) d'. submit_proposal (ctx the_secretary (days 1)) 20 None None drafting_campus = Inr (fst (projr
       (submit_proposal (ctx the_secretary (days 1)) 20 None None drafting_campus)), d') \<and>
     resolve_sanctioned_snapshot (d'\<lparr>budgets := []\<rparr>) ((the_event EV_SCHEDULED)\<lparr>ev_approved_version_id := ver_id v\<rparr>) =
       Inr (ver_id v, 450000, 600000, 100000)"
proof -
  let ?r = "submit_proposal (ctx the_secretary (days 1)) 20 None None drafting_campus"
  let ?d = "snd (projr ?r)"
  have r: "?r = Inr (fst (projr ?r), ?d)" unfolding prod.collapse by (rule Inr_projr) code_simp
  have b: "map_option (\<lambda>bp. (bp_institute_contribution bp, bp_total_expected_expenditure bp, bp_expected_income bp))
      (budget_of drafting_campus 20) = Some (450000, 600000, 100000)" by code_simp
  then obtain bp where bp: "budget_of drafting_campus 20 = Some bp" "bp_institute_contribution bp = 450000"
    "bp_total_expected_expenditure bp = 600000" "bp_expected_income bp = 100000" by auto
  have "map_sum id editable (get_event 20 drafting_campus) = Inr True" by code_simp
  then obtain rq where rq: "get_event 20 drafting_campus = Inr rq" "editable rq"
    by (cases "get_event 20 drafting_campus") auto
  have ok: "db_ok (?d\<lparr>budgets := []\<rparr>)" by code_simp
  have vs: "versions (?d\<lparr>budgets := []\<rparr>) = versions ?d @ []" by simp
  from submission_freezes_budget [OF r rq bp(1) ok vs, unfolded bp(2-4)]
  obtain v :: event_request_version where "\<forall>ev::event. ev_approved_version_id ev = ver_id v \<longrightarrow>
      resolve_sanctioned_snapshot (?d\<lparr>budgets := []\<rparr>) ev = Inr (ver_id v, 450000, 600000, 100000)" by blast
  then have "resolve_sanctioned_snapshot (?d\<lparr>budgets := []\<rparr>) ((the_event EV_SCHEDULED)\<lparr>ev_approved_version_id := ver_id v\<rparr>) =
      Inr (ver_id v, 450000, 600000, 100000)" by simp
  with r show ?thesis by blast
qed


definition an_edit :: "string \<Rightarrow> int option \<Rightarrow> proposal_update" where
  "an_edit t v =
     \<lparr>qu_title = Some t, qu_description = None, qu_event_type = None, qu_expected_attendees = None, qu_event_date = None,
      qu_chief_guest_name = None, qu_chief_guest_designation = None, qu_chief_guest_institution = None,
      qu_academic_year = None, qu_expected_version = v\<rparr>"




lemma active_booking_released:
  assumes "db_ok d" and "hall_bookings d' = hall_bookings (release_hall q i w n d)"
  shows "active_booking_of d' i = None"
proof -
  have k: "distinct (map bk_event_request_id (hall_bookings d))" using assms(1) by (simp add: db_ok_def hall_bookings_ok_def)
  show ?thesis
  proof (cases "active_booking_of d i")
    case None
    then show ?thesis using assms(2) by (simp add: release_hall_def active_booking_of_def)
  next
    case (Some b)
    then have b: "b \<in> set (hall_bookings d)" "bk_event_request_id b = i" by (auto simp: active_booking_of_def dest: scalar_Some)
    have "x = b" if "x \<in> set (hall_bookings d)" "bk_event_request_id x = i" for x
      using k b that by (auto simp: distinct_map inj_on_def)
    then show ?thesis
      using Some assms(2) by (auto simp: release_hall_def active_booking_of_def scalar_None in_put)
  qed
qed

lemma refuse_advance_advances:
  "advances (refuse_advance q ev r d) =
     (case advance_of d (ev_id ev) of
        None \<Rightarrow> advances d
      | Some a \<Rightarrow>
          if ca_status a \<in> {CA_REQUESTED, CA_APPROVED}
          then put ca_id (a\<lparr>ca_status := CA_REJECTED, ca_rejection_reason := Some (''Event cancelled: '' @ r)\<rparr>) (advances d)
          else advances d)"
  by (simp add: refuse_advance_def split: option.split)

lemma advance_refused:
  assumes "db_ok d" and "a \<in> set (advances (refuse_advance q ev r d))" and "ca_event_id a = ev_id ev"
  shows "ca_status a \<notin> {CA_REQUESTED, CA_APPROVED}"
proof -
  have k: "distinct (map ca_event_id (advances d))" using assms(1) by (simp add: db_ok_def advances_ok_def)
  show ?thesis
  proof (cases "advance_of d (ev_id ev)")
    case None
    then have "advances (refuse_advance q ev r d) = advances d" by (simp add: refuse_advance_advances)
    moreover have "\<forall>a\<in>set (advances d). ca_event_id a \<noteq> ev_id ev" using None by (simp add: advance_of_def scalar_None)
    ultimately show ?thesis using assms(2,3) by simp
  next
    case (Some b)
    then have b: "b \<in> set (advances d)" "ca_event_id b = ev_id ev" by (auto simp: advance_of_def dest: scalar_Some)
    have "x = b" if "x \<in> set (advances d)" "ca_event_id x = ev_id ev" for x
      using k b that by (auto simp: distinct_map inj_on_def)
    then show ?thesis using Some assms(2,3) by (auto simp: refuse_advance_advances in_put split: if_splits)
  qed
qed

lemma event_cancellation_releases:
  assumes ok: "db_ok d" and c: "cancel_confirmed_event q i r d = Inr (c, d')"
  shows "(\<exists>ev\<in>set (events d'). ev_id ev = cn_id c \<and> (ev_id ev = i \<or> ev_event_request_id ev = i) \<and> ev_status ev = EV_CANCELLED \<and>
         active_booking_of d' (ev_event_request_id ev) = None \<and>
         (\<forall>a\<in>set (advances d'). ca_event_id a = ev_id ev \<longrightarrow> ca_status a \<notin> {CA_REQUESTED, CA_APPROVED})) \<and>
      {a \<in> set (advances d). ca_status a = CA_DISBURSED} \<subseteq> set (advances d')"
proof
  from c obtain ev where ev: "event_named d i = Some ev" "cn_id c = ev_id ev" and d': "d' = event_cancelled q ev r d"
    unfolding cancel_confirmed_event_def by (auto simp: res_simps split: if_splits)
  have e: "ev \<in> set (events d)" "ev_id ev = i \<or> ev_event_request_id ev = i"
    using ev(1) by (auto simp: event_named_def dest: scalar_Some)
  show "\<exists>ev\<in>set (events d'). ev_id ev = cn_id c \<and> (ev_id ev = i \<or> ev_event_request_id ev = i) \<and> ev_status ev = EV_CANCELLED \<and>
         active_booking_of d' (ev_event_request_id ev) = None \<and>
         (\<forall>a\<in>set (advances d'). ca_event_id a = ev_id ev \<longrightarrow> ca_status a \<notin> {CA_REQUESTED, CA_APPROVED})"
  proof (rule bexI [of _ "event_cancelled_row q r ev"])
    show "event_cancelled_row q r ev \<in> set (events d')"
      using e(1) put_written [of ev "events d" ev_id] by (simp add: d' event_cancelled_row_def)
    have f: "ev_id (event_cancelled_row q r ev) = ev_id ev" "ev_event_request_id (event_cancelled_row q r ev) = ev_event_request_id ev"
      "ev_status (event_cancelled_row q r ev) = EV_CANCELLED" by (simp_all add: event_cancelled_row_def)
    have b: "active_booking_of d' (ev_event_request_id ev) = None"
      unfolding d' by (rule active_booking_released [OF ok event_cancelled_frame(5)])
    have a: "\<forall>a\<in>set (advances d'). ca_event_id a = ev_id ev \<longrightarrow> ca_status a \<notin> {CA_REQUESTED, CA_APPROVED}"
      using advance_refused [OF ok, of _ q ev r] by (simp add: d')
    show "ev_id (event_cancelled_row q r ev) = cn_id c \<and>
        (ev_id (event_cancelled_row q r ev) = i \<or> ev_event_request_id (event_cancelled_row q r ev) = i) \<and>
        ev_status (event_cancelled_row q r ev) = EV_CANCELLED \<and>
        active_booking_of d' (ev_event_request_id (event_cancelled_row q r ev)) = None \<and>
        (\<forall>a\<in>set (advances d'). ca_event_id a = ev_id (event_cancelled_row q r ev) \<longrightarrow> ca_status a \<notin> {CA_REQUESTED, CA_APPROVED})"
      unfolding f using a b e(2) ev(2) by simp
  qed
  show "{a \<in> set (advances d). ca_status a = CA_DISBURSED} \<subseteq> set (advances d')"
    using db_ok_keys(9) [OF ok]
    by (auto simp: d' refuse_advance_advances advance_of_def split: option.splits dest!: scalar_Some intro!: put_keeps)
qed

lemma proposal_cancellation_releases:
  assumes ok: "db_ok d" and c: "cancel_proposal q i r d = Inr (c, d')"
  shows "\<exists>rq\<in>set (event_requests (run proposal_exec xs d')). rq_id rq = i \<and> rq_status rq = RQ_CANCELLED \<and>
         active_booking_of d' i = None \<and>
         (\<forall>inst\<in>set (instances d'). rq_workflow_instance_id rq = Some (wi_id inst) \<longrightarrow> wi_status inst \<noteq> WI_IN_PROGRESS)"
proof -
  from c obtain rq where rq: "get_event i d = Inr rq" and d': "d' = proposal_cancelled q rq r d" and ok': "db_ok d'"
    unfolding cancel_proposal_def by (auto simp: res_simps split: if_splits)
  note g = get_eventD [OF rq]
  have m: "cancelled_row rq \<in> set (event_requests d')"
    using g put_written [of rq "event_requests d" rq_id "cancelled_row rq"] by (simp add: d')
  show "\<exists>rq\<in>set (event_requests (run proposal_exec xs d')). rq_id rq = i \<and> rq_status rq = RQ_CANCELLED \<and>
         active_booking_of d' i = None \<and>
         (\<forall>inst\<in>set (instances d'). rq_workflow_instance_id rq = Some (wi_id inst) \<longrightarrow> wi_status inst \<noteq> WI_IN_PROGRESS)"
  proof (rule bexI [of _ "cancelled_row rq"])
    show "cancelled_row rq \<in> set (event_requests (run proposal_exec xs d'))"
      by (rule decided_proposals.run_final [OF ok' m]) (simp add: request_final_def)
    have b: "active_booking_of d' i = None"
      using active_booking_released [OF ok proposal_cancelled_frame(5), of q rq r] g by (simp add: d')
    have w: "wi_status j \<noteq> WI_IN_PROGRESS" if "j \<in> set (instances d')" "rq_workflow_instance_id rq = Some (wi_id j)" for j
    proof -
      have k: "distinct (map wi_id (instances d))" by (rule db_ok_keys(4) [OF ok])
      show ?thesis
      proof (cases "chain_of_proposal d rq")
        case None
        then have "\<forall>i\<in>set (instances d). rq_workflow_instance_id rq \<noteq> Some (wi_id i)"
          by (auto simp: chain_of_proposal_def row_def scalar_None)
        with that None show ?thesis by (auto simp: d' cancel_chain_def)
      next
        case (Some w)
        then have w: "w \<in> set (instances d)" "rq_workflow_instance_id rq = Some (wi_id w)"
          by (auto simp: chain_of_proposal_def bind_eq_Some_conv dest!: row_key)
        have "x = w" if "x \<in> set (instances d)" "wi_id x = wi_id w" for x
          using k w(1) that by (auto simp: distinct_map inj_on_def)
        then have j: "x = w" if "x \<in> set (instances d)" "wi_id x = wi_id j" for x
          using that w(2) \<open>rq_workflow_instance_id rq = Some (wi_id j)\<close> by simp
        show ?thesis
        proof (cases "wi_status w = WI_IN_PROGRESS")
          case True
          then have "instances d' = put wi_id (w\<lparr>wi_status := WI_CANCELLED\<rparr>) (instances d)"
            by (simp add: d' Some cancel_chain_def)
          with that w(2) show ?thesis by (auto simp: in_put)
        next
          case False
          then have "instances d' = instances d" by (simp add: d' Some cancel_chain_def)
          with that False j [of j] show ?thesis by auto
        qed
      qed
    qed
    show "rq_id (cancelled_row rq) = i \<and> rq_status (cancelled_row rq) = RQ_CANCELLED \<and> active_booking_of d' i = None \<and>
        (\<forall>inst\<in>set (instances d'). rq_workflow_instance_id (cancelled_row rq) = Some (wi_id inst) \<longrightarrow> wi_status inst \<noteq> WI_IN_PROGRESS)"
      using b w g by (simp add: cancelled_row_def)
  qed
qed



end
