(* ===== verification/Venues.thy ===== *)
theory Venues
  imports Proposals
begin

text \<open>
  Halls and venue requests: \<^verbatim>\<open>VenueService\<close> of \<^verbatim>\<open>backend/app/services/venue_service.py\<close> with the payload schemas of
  \<^verbatim>\<open>backend/app/schemas/venue.py\<close>. A proposal that is still open names the hall and the slot it wants; the hall
  must be active and seat the audience, the slot must be free, and the request must come early enough. The
  booking itself is made by the second step of the approval chain (theory Workflow).
\<close>

section \<open>Payloads\<close>

record hall_create =
  hc_name :: string
  hc_location :: "string option"
  hc_capacity :: int
  hc_available_facilities :: json
  hc_notes :: "string option"

definition hall_create_schema :: "hall_create \<Rightarrow> hall_create res" where
  "hall_create_schema p =
     require (len_between 2 255 (hc_name p) \<and> strip (hc_name p) \<noteq> [] \<and> opt_len_between 0 500 (hc_location p) \<and>
       1 \<le> hc_capacity p \<and> hc_capacity p \<le> 50000 \<and> opt_len_between 0 2000 (hc_notes p)) RequestValidationError
     (Inr (p\<lparr>hc_name := strip (hc_name p)\<rparr>))"

record venue_create =
  vc_hall_id :: uuid
  vc_requested_date :: time
  vc_start_time :: time
  vc_end_time :: time
  vc_expected_audience :: "int option"
  vc_requires_stage :: bool
  vc_requires_audio :: bool
  vc_requires_lcd :: bool
  vc_requires_ac :: bool
  vc_requires_projector :: bool
  vc_additional_requirements :: "string option"

definition audience_ok :: "int option \<Rightarrow> bool" where
  "audience_ok n = (case n of None \<Rightarrow> True | Some k \<Rightarrow> 1 \<le> k)"

definition venue_create_schema :: "venue_create \<Rightarrow> venue_create res" where
  "venue_create_schema p =
     require (audience_ok (vc_expected_audience p) \<and> opt_len_between 0 2000 (vc_additional_requirements p) \<and>
       \<not> vc_end_time p \<le> vc_start_time p) RequestValidationError (Inr p)"

record venue_update =
  vu_hall_id :: "uuid option"
  vu_requested_date :: "time option"
  vu_start_time :: "time option"
  vu_end_time :: "time option"
  vu_expected_audience :: "int option"
  vu_requires_stage :: "bool option"
  vu_requires_audio :: "bool option"
  vu_requires_lcd :: "bool option"
  vu_requires_ac :: "bool option"
  vu_requires_projector :: "bool option"
  vu_additional_requirements :: "string option"

definition venue_update_schema :: "venue_update \<Rightarrow> venue_update res" where
  "venue_update_schema p =
     require (audience_ok (vu_expected_audience p) \<and> opt_len_between 0 2000 (vu_additional_requirements p) \<and>
       (case (vu_start_time p, vu_end_time p) of (Some s, Some e) \<Rightarrow> \<not> e \<le> s | _ \<Rightarrow> True)) RequestValidationError (Inr p)"

section \<open>Halls\<close>

definition create_hall :: "request \<Rightarrow> hall_create \<Rightarrow> db \<Rightarrow> (hall \<times> db) res" where
  "create_hall q p d =
     require (scalar (\<lambda>h. hl_name h = hc_name p) (halls d) = None) ConflictError (
     let i = next_uuid d;
         hall = \<lparr>hl_id = i, hl_name = hc_name p, hl_location = hc_location p, hl_capacity = hc_capacity p,
                 hl_available_facilities = hc_available_facilities p, hl_is_active = True, hl_notes = hc_notes p,
                 hl_created_at = now q\<rparr>
     in commit ConflictError hall
          (add_audit q A_HALL_CREATED ''hall'' i JNull
            (JObj [(''name'', JText (hl_name hall)), (''capacity'', JInt (hl_capacity hall)),
                   (''location'', j_opt JText (hl_location hall))]) None
            (d\<lparr>halls := halls d @ [hall], next_uuid := Suc i\<rparr>)))"

definition get_hall :: "uuid \<Rightarrow> db \<Rightarrow> hall res" where
  "get_hall hall_id d = fetch (row hl_id hall_id (halls d)) NotFoundError Inr"

text \<open>The order of names is the collation of the database, a parameter.\<close>

definition list_halls :: "(string \<Rightarrow> nat) \<Rightarrow> nat \<Rightarrow> nat \<Rightarrow> bool option \<Rightarrow> db \<Rightarrow> hall list" where
  "list_halls collate skip limit is_active d =
     take limit (drop skip (sort_key (\<lambda>h. collate (hl_name h))
       (filter (\<lambda>h. case is_active of None \<Rightarrow> True | Some a \<Rightarrow> hl_is_active h = a) (halls d))))"

record hall_availability =
  ha_hall_id :: uuid
  ha_hall_name :: string
  ha_date :: time
  ha_is_available :: bool
  ha_booked_slots :: "(time \<times> time) list"

definition active_bookings :: "db \<Rightarrow> uuid \<Rightarrow> hall_booking list" where
  "active_bookings d hall_id = filter (\<lambda>b. bk_hall_id b = hall_id \<and> bk_is_active b) (hall_bookings d)"

text \<open>The loop that stops at the first overlap.\<close>

fun slot_free :: "hall_booking list \<Rightarrow> time \<Rightarrow> time \<Rightarrow> bool" where
  "slot_free [] s e = True"
| "slot_free (b # bs) s e = (if bk_start_time b < e \<and> bk_end_time b > s then False else slot_free bs s e)"

definition check_hall_availability ::
    "uuid \<Rightarrow> time \<Rightarrow> time option \<Rightarrow> time option \<Rightarrow> db \<Rightarrow> hall_availability res" where
  "check_hall_availability hall_id target_date start_time end_time d =
     and_then (get_hall hall_id d) (\<lambda>hall.
     let bookings = active_bookings d hall_id
     in Inr \<lparr>ha_hall_id = hl_id hall, ha_hall_name = hl_name hall, ha_date = target_date,
             ha_is_available = (case (start_time, end_time) of (Some s, Some e) \<Rightarrow> slot_free bookings s e | _ \<Rightarrow> True),
             ha_booked_slots = map (\<lambda>b. (bk_start_time b, bk_end_time b)) bookings\<rparr>)"

section \<open>Venue requests\<close>

text \<open>The guards every operation on the venue or the budget of a proposal starts with.\<close>

definition open_proposal :: "request \<Rightarrow> uuid \<Rightarrow> db \<Rightarrow> event_request res" where
  "open_proposal q event_id d =
     and_then (get_event event_id d) (\<lambda>rq.
     require (editable rq) WorkflowStateError (
     and_then (verify_club_ownership q (rq_club_id rq) d) (\<lambda>club.
     require (cl_is_active club) BadRequestError (Inr rq))))"

text \<open>Python's \<open>a or b\<close> on optional counts, and the capacity check.\<close>

definition count_or :: "int option \<Rightarrow> int option \<Rightarrow> int option" where
  "count_or a b = (case a of None \<Rightarrow> b | Some n \<Rightarrow> if n = 0 then b else Some n)"

definition fits :: "int option \<Rightarrow> hall \<Rightarrow> bool" where
  "fits audience hall = (case audience of None \<Rightarrow> True | Some n \<Rightarrow> \<not> (n \<noteq> 0 \<and> n > hl_capacity hall))"

definition overlapping_booking :: "db \<Rightarrow> uuid \<Rightarrow> time \<Rightarrow> time \<Rightarrow> hall_booking option" where
  "overlapping_booking d hall_id s e =
     scalar (\<lambda>b. bk_hall_id b = hall_id \<and> bk_is_active b \<and> bk_start_time b < e \<and> bk_end_time b > s) (hall_bookings d)"

definition new_venue_request :: "request \<Rightarrow> uuid \<Rightarrow> venue_create \<Rightarrow> uuid \<Rightarrow> venue_request" where
  "new_venue_request q event_id p i =
     \<lparr>vr_id = i, vr_event_request_id = event_id, vr_hall_id = vc_hall_id p, vr_requested_date = vc_requested_date p,
      vr_start_time = vc_start_time p, vr_end_time = vc_end_time p, vr_expected_audience = vc_expected_audience p,
      vr_requires_stage = vc_requires_stage p, vr_requires_audio = vc_requires_audio p,
      vr_requires_lcd = vc_requires_lcd p, vr_requires_ac = vc_requires_ac p,
      vr_requires_projector = vc_requires_projector p,
      vr_additional_requirements = vc_additional_requirements p, vr_status = VR_PENDING, vr_reviewed_by = None,
      vr_reviewed_at = None, vr_rejection_reason = None, vr_created_at = now q\<rparr>"

definition venue_requested :: "request \<Rightarrow> hall \<Rightarrow> venue_request \<Rightarrow> db \<Rightarrow> db" where
  "venue_requested q hall vr d =
     add_audit q A_HALL_BOOKED ''venue_request'' (vr_id vr) JNull
       (JObj [(''event_id'', JUuid (vr_event_request_id vr)), (''hall_id'', JUuid (hl_id hall)),
              (''hall_name'', JText (hl_name hall)), (''start_time'', JTime (vr_start_time vr)),
              (''end_time'', JTime (vr_end_time vr)), (''status'', JEnum (J_venue_status VR_PENDING))]) None
       (d\<lparr>venue_requests := venue_requests d @ [vr], next_uuid := Suc (next_uuid d)\<rparr>)"

definition create_venue_request :: "request \<Rightarrow> uuid \<Rightarrow> venue_create \<Rightarrow> db \<Rightarrow> (venue_request \<times> db) res" where
  "create_venue_request q event_id p d =
     and_then (open_proposal q event_id d) (\<lambda>rq.
     and_then (get_hall (vc_hall_id p) d) (\<lambda>hall.
     require (hl_is_active hall) BadRequestError (
     require (fits (count_or (vc_expected_audience p) (rq_expected_attendees rq)) hall) BadRequestError (
     require (\<not> vc_start_time p - now q < 0) BadRequestError (
     require (actor_role q = SYSTEM_ADMIN \<or> \<not> vc_start_time p - now q < days (HALL_BOOKING_MIN_ADVANCE_DAYS q))
       AdvanceBookingViolationError (
     require (venue_request_of d event_id = None) ConflictError (
     require (overlapping_booking d (vc_hall_id p) (vc_start_time p) (vc_end_time p) = None) HallConflictError (
     let vr = new_venue_request q event_id p (next_uuid d)
     in commit ConflictError vr (venue_requested q hall vr d)))))))))"

definition get_venue_request :: "uuid \<Rightarrow> db \<Rightarrow> venue_request res" where
  "get_venue_request event_id d = fetch (venue_request_of d event_id) NotFoundError Inr"

definition venue_slot :: "venue_request \<Rightarrow> json" where
  "venue_slot vr =
     JObj [(''hall_id'', JUuid (vr_hall_id vr)), (''start_time'', JTime (vr_start_time vr)),
           (''end_time'', JTime (vr_end_time vr))]"

definition venue_edited :: "venue_update \<Rightarrow> venue_request \<Rightarrow> venue_request" where
  "venue_edited p vr =
     vr\<lparr>vr_hall_id := set_if (vu_hall_id p) (vr_hall_id vr),
        vr_requested_date := set_if (vu_requested_date p) (vr_requested_date vr),
        vr_start_time := set_if (vu_start_time p) (vr_start_time vr),
        vr_end_time := set_if (vu_end_time p) (vr_end_time vr),
        vr_expected_audience := set_opt (vu_expected_audience p) (vr_expected_audience vr),
        vr_requires_stage := set_if (vu_requires_stage p) (vr_requires_stage vr),
        vr_requires_audio := set_if (vu_requires_audio p) (vr_requires_audio vr),
        vr_requires_lcd := set_if (vu_requires_lcd p) (vr_requires_lcd vr),
        vr_requires_ac := set_if (vu_requires_ac p) (vr_requires_ac vr),
        vr_requires_projector := set_if (vu_requires_projector p) (vr_requires_projector vr),
        vr_additional_requirements := set_opt (vu_additional_requirements p) (vr_additional_requirements vr)\<rparr>"

definition venue_changed :: "request \<Rightarrow> venue_update \<Rightarrow> venue_request \<Rightarrow> db \<Rightarrow> db" where
  "venue_changed q p vr d =
     add_audit q A_PROPOSAL_UPDATED ''venue_request'' (vr_id vr) (venue_slot vr) (venue_slot (venue_edited p vr)) None
       (d\<lparr>venue_requests := put vr_id (venue_edited p vr) (venue_requests d)\<rparr>)"

definition update_venue_request :: "request \<Rightarrow> uuid \<Rightarrow> venue_update \<Rightarrow> db \<Rightarrow> (venue_request \<times> db) res" where
  "update_venue_request q event_id p d =
     and_then (open_proposal q event_id d) (\<lambda>rq.
     and_then (get_venue_request event_id d) (\<lambda>vr.
     let target_hall_id = set_if (vu_hall_id p) (vr_hall_id vr);
         target_start = set_if (vu_start_time p) (vr_start_time vr);
         target_end = set_if (vu_end_time p) (vr_end_time vr)
     in require (\<not> target_end \<le> target_start) BadRequestError (
     and_then (get_hall target_hall_id d) (\<lambda>hall.
     require (hl_is_active hall) BadRequestError (
     require (fits (count_or (vu_expected_audience p) (count_or (vr_expected_audience vr) (rq_expected_attendees rq))) hall)
       BadRequestError (
     require ((vu_hall_id p = None \<and> vu_start_time p = None \<and> vu_end_time p = None) \<or>
       overlapping_booking d target_hall_id target_start target_end = None) HallConflictError (
     commit ConflictError (venue_edited p vr) (venue_changed q p vr d))))))))"

definition venue_removed :: "request \<Rightarrow> venue_request \<Rightarrow> db \<Rightarrow> db" where
  "venue_removed q vr d =
     add_audit q A_HALL_RELEASED ''venue_request'' (vr_id vr)
       (JObj [(''hall_id'', JUuid (vr_hall_id vr)), (''event_id'', JUuid (vr_event_request_id vr))]) JNull None
       (d\<lparr>venue_requests := remove_row vr_id vr (venue_requests d)\<rparr>)"

definition delete_venue_request :: "request \<Rightarrow> uuid \<Rightarrow> db \<Rightarrow> (unit \<times> db) res" where
  "delete_venue_request q event_id d =
     and_then (open_proposal q event_id d) (\<lambda>rq.
     and_then (get_venue_request event_id d) (\<lambda>vr.
     commit IntegrityError () (venue_removed q vr d)))"

section \<open>Halls and venues as a service\<close>

datatype venue_service_request =
    CreateHall hall_create
  | RequestVenue uuid venue_create
  | ChangeVenue uuid venue_update
  | DropVenue uuid

fun venue_exec :: "request \<Rightarrow> venue_service_request \<Rightarrow> db \<Rightarrow> db res" where
  "venue_exec q (CreateHall p) d = and_then (hall_create_schema p) (\<lambda>p. db_of (create_hall q p d))"
| "venue_exec q (RequestVenue i p) d = and_then (venue_create_schema p) (\<lambda>p. db_of (create_venue_request q i p d))"
| "venue_exec q (ChangeVenue i p) d = and_then (venue_update_schema p) (\<lambda>p. db_of (update_venue_request q i p d))"
| "venue_exec q (DropVenue i) d = db_of (delete_venue_request q i d)"

lemma open_proposalD:
  "open_proposal q i d = Inr rq \<Longrightarrow>
     rq \<in> set (event_requests d) \<and> rq_id rq = i \<and> rq_deleted_at rq = None \<and> editable rq"
  unfolding open_proposal_def by (auto simp: res_simps dest!: get_eventD)

lemma venue_request_ofD:
  "venue_request_of d i = Some vr \<Longrightarrow> vr \<in> set (venue_requests d) \<and> vr_event_request_id vr = i"
  by (auto simp: venue_request_of_def dest: scalar_Some)

inductive venue_effect :: "request \<Rightarrow> db \<Rightarrow> db \<Rightarrow> bool" for q d where
  built: "hl_capacity h > 0 \<Longrightarrow> venue_effect q d (add_audit q A_HALL_CREATED ''hall'' i JNull j None
    (d\<lparr>halls := halls d @ [h], next_uuid := k\<rparr>))"
| requested: "rq \<in> set (event_requests d) \<Longrightarrow> editable rq \<Longrightarrow> hall \<in> set (halls d) \<Longrightarrow> hl_id hall = vc_hall_id p \<Longrightarrow>
    fits (count_or (vc_expected_audience p) (rq_expected_attendees rq)) hall \<Longrightarrow>
    venue_effect q d (venue_requested q hall (new_venue_request q (rq_id rq) p (next_uuid d)) d)"
| changed: "rq \<in> set (event_requests d) \<Longrightarrow> editable rq \<Longrightarrow> vr \<in> set (venue_requests d) \<Longrightarrow>
    vr_event_request_id vr = rq_id rq \<Longrightarrow>
    hall \<in> set (halls d) \<Longrightarrow> hl_id hall = set_if (vu_hall_id p) (vr_hall_id vr) \<Longrightarrow>
    fits (count_or (vu_expected_audience p) (count_or (vr_expected_audience vr) (rq_expected_attendees rq))) hall \<Longrightarrow>
    venue_effect q d (venue_changed q p vr d)"
| removed: "rq \<in> set (event_requests d) \<Longrightarrow> editable rq \<Longrightarrow> vr \<in> set (venue_requests d) \<Longrightarrow>
    vr_event_request_id vr = rq_id rq \<Longrightarrow> venue_effect q d (venue_removed q vr d)"

lemma create_hall_effect:
  "create_hall q p d = Inr (x, d') \<Longrightarrow> hc_capacity p > 0 \<Longrightarrow> venue_effect q d d' \<and> db_ok d'"
  unfolding create_hall_def by (auto simp: res_simps Let_def intro!: built)

lemma create_venue_effect: "create_venue_request q i p d = Inr (x, d') \<Longrightarrow> venue_effect q d d' \<and> db_ok d'"
  unfolding create_venue_request_def get_hall_def
  by (auto simp: res_simps Let_def intro!: requested dest!: open_proposalD row_key)

lemma update_venue_effect: "update_venue_request q i p d = Inr (x, d') \<Longrightarrow> venue_effect q d d' \<and> db_ok d'"
  unfolding update_venue_request_def get_venue_request_def get_hall_def
  by (auto simp: res_simps Let_def intro!: changed dest!: open_proposalD venue_request_ofD row_key)

lemma delete_venue_effect: "delete_venue_request q i d = Inr (x, d') \<Longrightarrow> venue_effect q d d' \<and> db_ok d'"
  unfolding delete_venue_request_def get_venue_request_def
  by (auto simp: res_simps intro: removed dest!: open_proposalD venue_request_ofD)

lemma venue_exec_effect: "venue_exec q r d = Inr d' \<Longrightarrow> venue_effect q d d' \<and> db_ok d'"
  by (cases r) (auto simp: res_simps hall_create_schema_def
      dest: create_hall_effect create_venue_effect update_venue_effect delete_venue_effect)

lemma venue_effect_audit: "venue_effect q d d' \<Longrightarrow> signed q d d'"
  by (induction rule: venue_effect.induct) (simp_all add: venue_requested_def venue_changed_def venue_removed_def)

interpretation venue_service: audited_service venue_exec
  by unfold_locales (auto dest: venue_exec_effect venue_effect_audit)

section \<open>Capacity\<close>

text \<open>Every venue request names a hall that seats the audience it announces.\<close>

definition seated :: "hall list \<Rightarrow> venue_request \<Rightarrow> bool" where
  "seated hs vr \<longleftrightarrow> (\<exists>h\<in>set hs. hl_id h = vr_hall_id vr \<and> fits (vr_expected_audience vr) h)"

definition venues_fit :: "db \<Rightarrow> bool" where
  "venues_fit d \<longleftrightarrow> (\<forall>vr\<in>set (venue_requests d). seated (halls d) vr)"

lemma fits_count_or: "fits (count_or a b) h \<Longrightarrow> fits a h"
  by (auto simp: fits_def count_or_def split: option.splits if_splits)

lemma seated_more: "seated hs vr \<Longrightarrow> seated (hs @ [h]) vr"
  by (auto simp: seated_def)

lemma venue_tables [simp]:
  "halls (venue_requested q h vr d) = halls d" "venue_requests (venue_requested q h vr d) = venue_requests d @ [vr]"
  "halls (venue_changed q p vr d) = halls d" "venue_requests (venue_changed q p vr d) = put vr_id (venue_edited p vr) (venue_requests d)"
  "halls (venue_removed q vr d) = halls d" "venue_requests (venue_removed q vr d) = remove_row vr_id vr (venue_requests d)"
  by (simp_all add: venue_requested_def venue_changed_def venue_removed_def)

lemma fits_edited:
  "fits (count_or a (count_or b c)) h \<Longrightarrow> fits (set_opt a b) h"
  by (cases a) (auto simp: set_opt_def count_or_def fits_def split: if_splits option.splits)

lemma venues_fit_effect:
  assumes "venue_effect q d d'" and "venues_fit d"
  shows "venues_fit d'"
  using assms(1)
proof cases
  case (built h i j k)
  with assms(2) show ?thesis by (auto simp: venues_fit_def seated_more)
next
  case (requested rq hall p)
  have "seated (halls d) (new_venue_request q (rq_id rq) p (next_uuid d))"
    using requested(4-6) fits_count_or by (auto simp: seated_def new_venue_request_def)
  with assms(2) show ?thesis by (simp add: requested(1) venues_fit_def)
next
  case (changed rq vr hall p)
  have "seated (halls d) (venue_edited p vr)"
    using changed(6-8) fits_edited by (auto simp: seated_def venue_edited_def)
  with assms(2) show ?thesis by (auto simp: changed(1) venues_fit_def dest!: put_rows)
next
  case (removed rq vr)
  with assms(2) show ?thesis by (auto simp: venues_fit_def in_remove_row)
qed

interpretation capacity: state_invariant venue_exec venues_fit
  by unfold_locales (auto dest: venue_exec_effect venues_fit_effect)

section \<open>Properties\<close>

definition open_campus :: db where
  "open_campus = institution\<lparr>event_requests := [the_proposal RQ_DRAFT]\<rparr>"

definition a_venue :: "time \<Rightarrow> int option \<Rightarrow> venue_create" where
  "a_venue t n =
     \<lparr>vc_hall_id = 12, vc_requested_date = t, vc_start_time = t, vc_end_time = t + hours 2, vc_expected_audience = n,
      vc_requires_stage = False, vc_requires_audio = False, vc_requires_lcd = False, vc_requires_ac = False,
      vc_requires_projector = False, vc_additional_requirements = None\<rparr>"

lemma open_campus_ok: "db_ok open_campus" "venues_fit open_campus"
  subgoal by code_simp
  subgoal by code_simp
  done

lemma slot_free_iff: "slot_free bs s e \<longleftrightarrow> (\<forall>b\<in>set bs. \<not> slots_overlap (bk_start_time b) (bk_end_time b) s e)"
  by (induction bs) (auto simp: slots_overlap_def)

lemma excl_snoc:
  "excl_hall_bookings_no_overlap (bs @ [b]) \<longleftrightarrow>
     excl_hall_bookings_no_overlap bs \<and> (\<forall>c\<in>set bs. \<not> bookings_clash c b)"
  by (induction bs) (auto simp: list_all_iff)



text \<open>
  Along any requests about halls and venues, every venue request names a hall that seats the announced audience;
  and a request that somebody other than an administrator made starts at least the notice period after it was made.
\<close>

theorem venues_seat_their_audience:
  assumes "db_ok d" and "venues_fit d"
  shows "(\<forall>vr\<in>set (venue_requests (run venue_exec xs d)).
       \<exists>h\<in>set (halls (run venue_exec xs d)). hl_id h = vr_hall_id vr \<and> fits (vr_expected_audience vr) h) \<and>
    (create_venue_request q i p d = Inr (vr, d') \<longrightarrow> actor_role q \<noteq> SYSTEM_ADMIN \<longrightarrow>
       vr_start_time vr \<ge> now q + days (HALL_BOOKING_MIN_ADVANCE_DAYS q))"
proof
  show "\<forall>vr\<in>set (venue_requests (run venue_exec xs d)).
       \<exists>h\<in>set (halls (run venue_exec xs d)). hl_id h = vr_hall_id vr \<and> fits (vr_expected_audience vr) h"
    using capacity.run_good [OF assms, of xs] by (simp add: venues_fit_def seated_def)
  show "create_venue_request q i p d = Inr (vr, d') \<longrightarrow> actor_role q \<noteq> SYSTEM_ADMIN \<longrightarrow>
       vr_start_time vr \<ge> now q + days (HALL_BOOKING_MIN_ADVANCE_DAYS q)"
    by (auto simp: create_venue_request_def res_simps Let_def new_venue_request_def)
qed

lemma venues_seat_their_audience_witness:
  "\<exists>h\<in>set (halls (run venue_exec [(ctx the_secretary (days 1), RequestVenue 20 (a_venue (days 9) (Some 150)))] open_campus)).
     hl_id h = 12 \<and> fits (Some 150) h"
proof -
  let ?d = "run venue_exec [(ctx the_secretary (days 1), RequestVenue 20 (a_venue (days 9) (Some 150)))] open_campus"
  have m: "map (\<lambda>vr. (vr_hall_id vr, vr_expected_audience vr)) (venue_requests ?d) = [(12, Some 150)]" by code_simp
  then obtain vr where vr: "venue_requests ?d = [vr]" "vr_hall_id vr = 12" "vr_expected_audience vr = Some 150"
    unfolding map_eq_Cons_conv by blast
  have "vr \<in> set (venue_requests ?d)" by (simp only: vr(1) list.set) blast
  from venues_seat_their_audience [OF open_campus_ok, THEN conjunct1, THEN bspec, OF this] show ?thesis unfolding vr(2,3) .
qed

text \<open>
  The notice period is not a property of the stored venue requests: a change of a venue request is not checked against it, so a
  secretary can move an accepted request to a slot that already began.
\<close>

theorem notice_period_bypassed:
  "\<exists>d q r d' vr. db_ok d \<and> actor_role q = CLUB_SECRETARY \<and> venue_exec q r d = Inr d' \<and> vr \<in> set (venue_requests d') \<and>
     vr \<notin> set (venue_requests d) \<and> vr_start_time vr < now q \<and> HALL_BOOKING_MIN_ADVANCE_DAYS q = 3"
proof -
  let ?d = "open_campus\<lparr>venue_requests := [venue_wish VR_PENDING]\<rparr>" and ?q = "ctx the_secretary (days 30 + hours 10)"
  let ?p = "\<lparr>vu_hall_id = None, vu_requested_date = None, vu_start_time = None, vu_end_time = Some (days 30 + hours 13),
      vu_expected_audience = None, vu_requires_stage = None, vu_requires_audio = None, vu_requires_lcd = None,
      vu_requires_ac = None, vu_requires_projector = None, vu_additional_requirements = None\<rparr>"
  let ?r = "venue_exec ?q (ChangeVenue 20 ?p) ?d"
  have r: "?r = Inr (projr ?r)" by (rule Inr_projr) code_simp
  have v: "map (\<lambda>v. (vr_start_time v < now ?q, vr_end_time v)) (venue_requests (projr ?r)) = [(True, days 30 + hours 13)]" by code_simp
  then obtain vr where vr: "venue_requests (projr ?r) = [vr]" "vr_start_time vr < now ?q" "vr_end_time vr = days 30 + hours 13"
    unfolding map_eq_Cons_conv by blast
  have "db_ok ?d" by code_simp
  moreover have "vr \<notin> set (venue_requests ?d)" using vr(3) by (auto simp: venue_wish_def hours_def)
  ultimately show ?thesis
    using r vr by (intro exI [of _ ?d] exI [of _ ?q] exI [of _ "ChangeVenue 20 ?p"] exI [of _ "projr ?r"] exI [of _ vr])
      (simp add: ctx_def the_secretary_def person_def)
qed

end
