(* ===== verification/Budgets.thy ===== *)
theory Budgets
  imports Venues
begin

text \<open>
  Budget proposals and their line items: \<^verbatim>\<open>BudgetService\<close> of \<^verbatim>\<open>backend/app/services/budget_service.py\<close> with the
  payload schemas of \<^verbatim>\<open>backend/app/schemas/budget.py\<close>. The server recalculates the total from the items after
  every change of an item, holds the requested contribution under the institution's ceiling, and lets the
  finance office verify or query the budget.
\<close>

section \<open>Payloads\<close>

text \<open>Amounts are in paise; a decimal with at most twelve digits, two of them fractional, is below \<open>10 ^ 12\<close> paise.\<close>

definition decimal_ok :: "money \<Rightarrow> bool" where
  "decimal_ok m \<longleftrightarrow> \<bar>m\<bar> < 10 ^ 12"

record item_create =
  ic_description :: string
  ic_category :: budget_line_item_category
  ic_estimated_amount :: money
  ic_notes :: "string option"

definition item_create_schema :: "item_create \<Rightarrow> item_create res" where
  "item_create_schema p =
     require (len_between 2 500 (ic_description p) \<and> strip (ic_description p) \<noteq> [] \<and>
       ic_estimated_amount p > 0 \<and> decimal_ok (ic_estimated_amount p) \<and> opt_len_between 0 500 (ic_notes p))
       RequestValidationError (Inr (p\<lparr>ic_description := strip (ic_description p)\<rparr>))"

record item_update =
  iu_description :: "string option"
  iu_category :: "budget_line_item_category option"
  iu_estimated_amount :: "money option"
  iu_notes :: "string option"

definition item_update_schema :: "item_update \<Rightarrow> item_update res" where
  "item_update_schema p =
     require (opt_len_between 2 500 (iu_description p) \<and>
       (case iu_description p of None \<Rightarrow> True | Some v \<Rightarrow> strip v \<noteq> []) \<and>
       (case iu_estimated_amount p of None \<Rightarrow> True | Some m \<Rightarrow> m > 0 \<and> decimal_ok m) \<and>
       opt_len_between 0 500 (iu_notes p)) RequestValidationError
     (Inr (p\<lparr>iu_description := map_option strip (iu_description p)\<rparr>))"

record budget_create =
  bc_expected_income :: money
  bc_institute_contribution :: money
  bc_notes :: "string option"
  bc_line_items :: "item_create list"

fun each :: "('a \<Rightarrow> 'b res) \<Rightarrow> 'a list \<Rightarrow> 'b list res" where
  "each f [] = Inr []"
| "each f (x # xs) = and_then (f x) (\<lambda>y. and_then (each f xs) (\<lambda>ys. Inr (y # ys)))"

definition budget_create_schema :: "budget_create \<Rightarrow> budget_create res" where
  "budget_create_schema p =
     require (bc_expected_income p \<ge> 0 \<and> decimal_ok (bc_expected_income p) \<and>
       bc_institute_contribution p \<ge> 0 \<and> decimal_ok (bc_institute_contribution p) \<and>
       opt_len_between 0 2000 (bc_notes p)) RequestValidationError (
     and_then (each item_create_schema (bc_line_items p)) (\<lambda>is. Inr (p\<lparr>bc_line_items := is\<rparr>)))"

record budget_update =
  bu_expected_income :: "money option"
  bu_institute_contribution :: "money option"
  bu_notes :: "string option"

definition amount_given_ok :: "money option \<Rightarrow> bool" where
  "amount_given_ok m = (case m of None \<Rightarrow> True | Some v \<Rightarrow> v \<ge> 0 \<and> decimal_ok v)"

definition budget_update_schema :: "budget_update \<Rightarrow> budget_update res" where
  "budget_update_schema p =
     require (amount_given_ok (bu_expected_income p) \<and> amount_given_ok (bu_institute_contribution p) \<and>
       opt_len_between 0 2000 (bu_notes p)) RequestValidationError (Inr p)"

definition verification_schema :: "finance_verification_status \<Rightarrow> string option \<Rightarrow> unit res" where
  "verification_schema st notes =
     require (opt_len_between 0 2000 notes \<and> st \<noteq> FV_PENDING) RequestValidationError (Inr ())"

section \<open>The budget\<close>

definition new_line_item :: "request \<Rightarrow> uuid \<Rightarrow> nat \<times> item_create \<Rightarrow> budget_line_item" where
  "new_line_item q budget = (\<lambda>(i, p).
     \<lparr>li_id = i, li_budget_proposal_id = budget, li_description = ic_description p, li_category = ic_category p,
      li_estimated_amount = ic_estimated_amount p, li_notes = ic_notes p, li_created_at = now q\<rparr>)"

definition total_of :: "budget_line_item list \<Rightarrow> money" where
  "total_of is = sum_list (map li_estimated_amount is)"

definition new_budget :: "request \<Rightarrow> uuid \<Rightarrow> budget_create \<Rightarrow> money \<Rightarrow> uuid \<Rightarrow> budget_proposal" where
  "new_budget q event_id p amount i =
     \<lparr>bp_id = i, bp_event_request_id = event_id, bp_expected_income = bc_expected_income p,
      bp_institute_contribution = bc_institute_contribution p, bp_total_expected_expenditure = amount,
      bp_notes = bc_notes p, bp_finance_status = FV_PENDING, bp_finance_verified_by = None,
      bp_finance_verified_at = None, bp_finance_notes = None, bp_created_at = now q\<rparr>"

definition budget_stored :: "request \<Rightarrow> budget_proposal \<Rightarrow> budget_line_item list \<Rightarrow> db \<Rightarrow> db" where
  "budget_stored q bp is d =
     add_audit q A_PROPOSAL_UPDATED ''budget_proposal'' (bp_id bp) JNull
       (JObj [(''event_id'', JUuid (bp_event_request_id bp)),
              (''total_expenditure'', JMoney (bp_total_expected_expenditure bp)),
              (''institute_contribution'', JMoney (bp_institute_contribution bp)),
              (''line_items_count'', JInt (int (length is)))]) None
       (d\<lparr>budgets := budgets d @ [bp], line_items := line_items d @ is, next_uuid := Suc (bp_id bp) + length is\<rparr>)"

definition create_budget_proposal :: "request \<Rightarrow> uuid \<Rightarrow> budget_create \<Rightarrow> db \<Rightarrow> (budget_proposal \<times> db) res" where
  "create_budget_proposal q event_id p d =
     and_then (open_proposal q event_id d) (\<lambda>rq.
     require (budget_of d event_id = None) ConflictError (
     let i = next_uuid d;
         is = map (new_line_item q i) (enumerate (Suc i) (bc_line_items p));
         amount = total_of is
     in require (list_all (\<lambda>x. \<not> ic_estimated_amount x \<le> 0) (bc_line_items p)) BadRequestError (
     require (\<not> bc_institute_contribution p > BUDGET_INSTITUTE_CONTRIBUTION_CAP q) BudgetCapExceededError (
     require (is = [] \<or> \<not> bc_expected_income p + bc_institute_contribution p > amount) BadRequestError (
     let bp = new_budget q event_id p amount i
     in commit ConflictError bp (budget_stored q bp is d))))))"

definition get_budget_proposal :: "uuid \<Rightarrow> db \<Rightarrow> budget_proposal res" where
  "get_budget_proposal event_id d = fetch (budget_of d event_id) NotFoundError Inr"

definition header_edited :: "budget_update \<Rightarrow> budget_proposal \<Rightarrow> budget_proposal" where
  "header_edited p bp =
     bp\<lparr>bp_expected_income := set_if (bu_expected_income p) (bp_expected_income bp),
        bp_institute_contribution := set_if (bu_institute_contribution p) (bp_institute_contribution bp),
        bp_notes := set_opt (bu_notes p) (bp_notes bp)\<rparr>"

definition header_state :: "budget_proposal \<Rightarrow> json" where
  "header_state bp =
     JObj [(''expected_income'', JMoney (bp_expected_income bp)),
           (''institute_contribution'', JMoney (bp_institute_contribution bp))]"

definition header_stored :: "request \<Rightarrow> budget_update \<Rightarrow> budget_proposal \<Rightarrow> db \<Rightarrow> db" where
  "header_stored q p bp d =
     add_audit q A_PROPOSAL_UPDATED ''budget_proposal'' (bp_id bp) (header_state bp) (header_state (header_edited p bp)) None
       (d\<lparr>budgets := put bp_id (header_edited p bp) (budgets d)\<rparr>)"

definition update_budget_proposal :: "request \<Rightarrow> uuid \<Rightarrow> budget_update \<Rightarrow> db \<Rightarrow> (budget_proposal \<times> db) res" where
  "update_budget_proposal q event_id p d =
     and_then (open_proposal q event_id d) (\<lambda>rq.
     and_then (get_budget_proposal event_id d) (\<lambda>bp.
     let target_income = set_if (bu_expected_income p) (bp_expected_income bp);
         target_contribution = set_if (bu_institute_contribution p) (bp_institute_contribution bp)
     in require (\<not> target_contribution > BUDGET_INSTITUTE_CONTRIBUTION_CAP q) BudgetCapExceededError (
     require (\<not> (bp_total_expected_expenditure bp > 0 \<and>
       target_income + target_contribution > bp_total_expected_expenditure bp)) BadRequestError (
     commit ConflictError (header_edited p bp) (header_stored q p bp d)))))"

definition budget_removed :: "request \<Rightarrow> budget_proposal \<Rightarrow> db \<Rightarrow> db" where
  "budget_removed q bp d =
     add_audit q A_PROPOSAL_UPDATED ''budget_proposal'' (bp_id bp)
       (JObj [(''event_id'', JUuid (bp_event_request_id bp)), (''total'', JMoney (bp_total_expected_expenditure bp))])
       JNull None
       (d\<lparr>budgets := remove_row bp_id bp (budgets d),
          line_items := filter (\<lambda>i. li_budget_proposal_id i \<noteq> bp_id bp) (line_items d)\<rparr>)"

definition delete_budget_proposal :: "request \<Rightarrow> uuid \<Rightarrow> db \<Rightarrow> (unit \<times> db) res" where
  "delete_budget_proposal q event_id d =
     and_then (open_proposal q event_id d) (\<lambda>rq.
     and_then (get_budget_proposal event_id d) (\<lambda>bp.
     commit IntegrityError () (budget_removed q bp d)))"

section \<open>Line items\<close>

text \<open>After the items changed, the total is read back from them.\<close>

definition recalculated :: "budget_proposal \<Rightarrow> db \<Rightarrow> db" where
  "recalculated bp d =
     d\<lparr>budgets := put bp_id (bp\<lparr>bp_total_expected_expenditure := total_of (line_items_of d bp)\<rparr>) (budgets d)\<rparr>"

definition item_added :: "request \<Rightarrow> budget_proposal \<Rightarrow> item_create \<Rightarrow> db \<Rightarrow> db" where
  "item_added q bp p d =
     (let i = next_uuid d;
          d1 = recalculated bp (d\<lparr>line_items := line_items d @ [new_line_item q (bp_id bp) (i, p)], next_uuid := Suc i\<rparr>)
      in add_audit q A_PROPOSAL_UPDATED ''budget_line_item'' i JNull
           (JObj [(''description'', JText (ic_description p)), (''amount'', JMoney (ic_estimated_amount p)),
                  (''new_total_expenditure'', JMoney (total_of (line_items_of d1 bp)))]) None d1)"

definition add_line_item :: "request \<Rightarrow> uuid \<Rightarrow> item_create \<Rightarrow> db \<Rightarrow> (budget_line_item \<times> db) res" where
  "add_line_item q event_id p d =
     and_then (open_proposal q event_id d) (\<lambda>rq.
     and_then (get_budget_proposal event_id d) (\<lambda>bp.
     commit IntegrityError (new_line_item q (bp_id bp) (next_uuid d, p)) (item_added q bp p d)))"

definition item_of :: "db \<Rightarrow> budget_proposal \<Rightarrow> uuid \<Rightarrow> budget_line_item option" where
  "item_of d bp item_id = scalar (\<lambda>i. li_id i = item_id \<and> li_budget_proposal_id i = bp_id bp) (line_items d)"

definition item_edited :: "item_update \<Rightarrow> budget_line_item \<Rightarrow> budget_line_item" where
  "item_edited p i =
     i\<lparr>li_description := set_if (iu_description p) (li_description i),
       li_category := set_if (iu_category p) (li_category i),
       li_estimated_amount := set_if (iu_estimated_amount p) (li_estimated_amount i),
       li_notes := set_opt (iu_notes p) (li_notes i)\<rparr>"

definition item_state :: "budget_line_item \<Rightarrow> (string \<times> json) list" where
  "item_state i =
     [(''description'', JText (li_description i)), (''category'', JEnum (J_category (li_category i))),
      (''amount'', JMoney (li_estimated_amount i))]"

definition item_stored :: "request \<Rightarrow> budget_proposal \<Rightarrow> item_update \<Rightarrow> budget_line_item \<Rightarrow> db \<Rightarrow> db" where
  "item_stored q bp p i d =
     (let d1 = recalculated bp (d\<lparr>line_items := put li_id (item_edited p i) (line_items d)\<rparr>)
      in add_audit q A_PROPOSAL_UPDATED ''budget_line_item'' (li_id i) (JObj (item_state i))
           (JObj (item_state (item_edited p i) @
             [(''new_total_expenditure'', JMoney (total_of (line_items_of d1 bp)))])) None d1)"

definition update_line_item :: "request \<Rightarrow> uuid \<Rightarrow> uuid \<Rightarrow> item_update \<Rightarrow> db \<Rightarrow> (budget_line_item \<times> db) res" where
  "update_line_item q event_id item_id p d =
     and_then (open_proposal q event_id d) (\<lambda>rq.
     and_then (get_budget_proposal event_id d) (\<lambda>bp.
     fetch (item_of d bp item_id) NotFoundError (\<lambda>i.
     commit IntegrityError (item_edited p i) (item_stored q bp p i d))))"

definition item_removed :: "request \<Rightarrow> budget_proposal \<Rightarrow> budget_line_item \<Rightarrow> db \<Rightarrow> db" where
  "item_removed q bp i d =
     (let d1 = recalculated bp (d\<lparr>line_items := remove_row li_id i (line_items d)\<rparr>)
      in add_audit q A_PROPOSAL_UPDATED ''budget_line_item'' (li_id i)
           (JObj [(''description'', JText (li_description i)), (''amount'', JMoney (li_estimated_amount i))])
           (JObj [(''new_total_expenditure'', JMoney (total_of (line_items_of d1 bp)))]) None d1)"

definition delete_line_item :: "request \<Rightarrow> uuid \<Rightarrow> uuid \<Rightarrow> db \<Rightarrow> (unit \<times> db) res" where
  "delete_line_item q event_id item_id d =
     and_then (open_proposal q event_id d) (\<lambda>rq.
     and_then (get_budget_proposal event_id d) (\<lambda>bp.
     fetch (item_of d bp item_id) NotFoundError (\<lambda>i.
     commit IntegrityError () (item_removed q bp i d))))"

section \<open>Pre-audit\<close>

definition audited_budget :: "request \<Rightarrow> finance_verification_status \<Rightarrow> string option \<Rightarrow> budget_proposal \<Rightarrow> budget_proposal" where
  "audited_budget q st notes bp =
     bp\<lparr>bp_finance_status := st, bp_finance_verified_by := Some (actor_id q), bp_finance_verified_at := Some (now q),
        bp_finance_notes := notes\<rparr>"

definition budget_audited :: "request \<Rightarrow> finance_verification_status \<Rightarrow> string option \<Rightarrow> budget_proposal \<Rightarrow> db \<Rightarrow> db" where
  "budget_audited q st notes bp d =
     add_audit q (if st = FV_VERIFIED then A_BUDGET_VERIFIED else A_BUDGET_QUERIED) ''budget_proposal'' (bp_id bp)
       (JObj [(''finance_status'', JEnum (J_finance_status (bp_finance_status bp)))])
       (JObj [(''finance_status'', JEnum (J_finance_status st)), (''finance_notes'', j_opt JText notes)]) None
       (d\<lparr>budgets := put bp_id (audited_budget q st notes bp) (budgets d)\<rparr>)"

definition verify_budget ::
    "request \<Rightarrow> uuid \<Rightarrow> finance_verification_status \<Rightarrow> string option \<Rightarrow> db \<Rightarrow> (budget_proposal \<times> db) res" where
  "verify_budget q event_id st notes d =
     and_then (get_budget_proposal event_id d) (\<lambda>bp.
     commit IntegrityError (audited_budget q st notes bp) (budget_audited q st notes bp d))"

section \<open>Budgets as a service\<close>

datatype budget_request =
    CreateBudget uuid budget_create
  | UpdateBudget uuid budget_update
  | DeleteBudget uuid
  | AddItem uuid item_create
  | UpdateItem uuid uuid item_update
  | DeleteItem uuid uuid
  | VerifyBudget uuid finance_verification_status "string option"

fun budget_exec :: "request \<Rightarrow> budget_request \<Rightarrow> db \<Rightarrow> db res" where
  "budget_exec q (CreateBudget i p) d = and_then (budget_create_schema p) (\<lambda>p. db_of (create_budget_proposal q i p d))"
| "budget_exec q (UpdateBudget i p) d = and_then (budget_update_schema p) (\<lambda>p. db_of (update_budget_proposal q i p d))"
| "budget_exec q (DeleteBudget i) d = db_of (delete_budget_proposal q i d)"
| "budget_exec q (AddItem i p) d = and_then (item_create_schema p) (\<lambda>p. db_of (add_line_item q i p d))"
| "budget_exec q (UpdateItem i k p) d = and_then (item_update_schema p) (\<lambda>p. db_of (update_line_item q i k p d))"
| "budget_exec q (DeleteItem i k) d = db_of (delete_line_item q i k d)"
| "budget_exec q (VerifyBudget i st n) d = and_then (verification_schema st n) (\<lambda>_. db_of (verify_budget q i st n d))"

section \<open>What the requests change\<close>

definition budget_for :: "db \<Rightarrow> event_request \<Rightarrow> budget_proposal \<Rightarrow> bool" where
  "budget_for d rq bp \<longleftrightarrow>
     rq \<in> set (event_requests d) \<and> editable rq \<and> bp \<in> set (budgets d) \<and> bp_event_request_id bp = rq_id rq"

inductive budget_effect :: "request \<Rightarrow> db \<Rightarrow> db \<Rightarrow> bool" for q d where
  created: "rq \<in> set (event_requests d) \<Longrightarrow> editable rq \<Longrightarrow>
    bc_institute_contribution p \<le> BUDGET_INSTITUTE_CONTRIBUTION_CAP q \<Longrightarrow>
    is = map (new_line_item q (next_uuid d)) (enumerate (Suc (next_uuid d)) (bc_line_items p)) \<Longrightarrow>
    budget_effect q d (budget_stored q (new_budget q (rq_id rq) p (total_of is) (next_uuid d)) is d)"
| header: "budget_for d rq bp \<Longrightarrow>
    set_if (bu_institute_contribution p) (bp_institute_contribution bp) \<le> BUDGET_INSTITUTE_CONTRIBUTION_CAP q \<Longrightarrow>
    budget_effect q d (header_stored q p bp d)"
| dropped: "budget_for d rq bp \<Longrightarrow> budget_effect q d (budget_removed q bp d)"
| item_new: "budget_for d rq bp \<Longrightarrow> budget_effect q d (item_added q bp x d)"
| item_changed: "budget_for d rq bp \<Longrightarrow> i \<in> set (line_items d) \<Longrightarrow> li_budget_proposal_id i = bp_id bp \<Longrightarrow>
    budget_effect q d (item_stored q bp u i d)"
| item_dropped: "budget_for d rq bp \<Longrightarrow> i \<in> set (line_items d) \<Longrightarrow> li_budget_proposal_id i = bp_id bp \<Longrightarrow>
    budget_effect q d (item_removed q bp i d)"
| audited: "bp \<in> set (budgets d) \<Longrightarrow> budget_effect q d (budget_audited q st n bp d)"

lemma get_budget_proposalD:
  "get_budget_proposal i d = Inr bp \<Longrightarrow> bp \<in> set (budgets d) \<and> bp_event_request_id bp = i"
  by (auto simp: get_budget_proposal_def budget_of_def res_simps dest: scalar_Some)

lemma budget_forI:
  "open_proposal q i d = Inr rq \<Longrightarrow> get_budget_proposal i d = Inr bp \<Longrightarrow> budget_for d rq bp"
  by (auto simp: budget_for_def dest!: open_proposalD get_budget_proposalD)

lemma item_ofD:
  "item_of d bp k = Some i \<Longrightarrow> i \<in> set (line_items d) \<and> li_budget_proposal_id i = bp_id bp"
  by (auto simp: item_of_def dest: scalar_Some)

lemma create_budget_effect: "create_budget_proposal q i p d = Inr (x, d') \<Longrightarrow> budget_effect q d d' \<and> db_ok d'"
  unfolding create_budget_proposal_def by (auto simp: res_simps Let_def intro!: created dest!: open_proposalD)

lemma update_budget_effect: "update_budget_proposal q i p d = Inr (x, d') \<Longrightarrow> budget_effect q d d' \<and> db_ok d'"
  unfolding update_budget_proposal_def by (auto simp: res_simps Let_def not_less intro: header dest: budget_forI)

lemma item_effects:
  "delete_budget_proposal q i d = Inr (x, d') \<Longrightarrow> budget_effect q d d' \<and> db_ok d'"
  "add_line_item q i a d = Inr (y, d') \<Longrightarrow> budget_effect q d d' \<and> db_ok d'"
  "update_line_item q i k u d = Inr (y, d') \<Longrightarrow> budget_effect q d d' \<and> db_ok d'"
  "delete_line_item q i k d = Inr (x, d') \<Longrightarrow> budget_effect q d d' \<and> db_ok d'"
  unfolding delete_budget_proposal_def add_line_item_def update_line_item_def delete_line_item_def
  by (auto simp: res_simps intro: dropped item_new item_changed item_dropped dest!: budget_forI item_ofD)

lemma verify_budget_effect: "verify_budget q i st n d = Inr (z, d') \<Longrightarrow> budget_effect q d d' \<and> db_ok d'"
  unfolding verify_budget_def by (auto simp: res_simps intro: audited dest!: get_budget_proposalD)

lemma budget_exec_effect: "budget_exec q r d = Inr d' \<Longrightarrow> budget_effect q d d' \<and> db_ok d'"
  by (cases r) (auto simp: res_simps dest: create_budget_effect update_budget_effect item_effects verify_budget_effect)

lemma budget_tables [simp]:
  "budgets (budget_stored q bp is d) = budgets d @ [bp]" "line_items (budget_stored q bp is d) = line_items d @ is"
  "budgets (header_stored q p bp d) = put bp_id (header_edited p bp) (budgets d)" "line_items (header_stored q p bp d) = line_items d"
  "budgets (budget_removed q bp d) = remove_row bp_id bp (budgets d)"
  "line_items (budget_removed q bp d) = filter (\<lambda>i. li_budget_proposal_id i \<noteq> bp_id bp) (line_items d)"
  "budgets (budget_audited q st n bp d) = put bp_id (audited_budget q st n bp) (budgets d)"
  "line_items (budget_audited q st n bp d) = line_items d"
  by (simp_all add: budget_stored_def header_stored_def budget_removed_def budget_audited_def)

lemma budget_effect_audit: "budget_effect q d d' \<Longrightarrow> signed q d d'"
  by (induction rule: budget_effect.induct)
    (simp_all add: budget_stored_def header_stored_def budget_removed_def budget_audited_def item_added_def item_stored_def
      item_removed_def recalculated_def Let_def)

interpretation budget_service: audited_service budget_exec
  by unfold_locales (auto dest: budget_exec_effect budget_effect_audit)

section \<open>Totals\<close>

text \<open>The stored total of a budget is the sum of its items, and every item belongs to a stored budget.\<close>

definition totals_exact :: "db \<Rightarrow> bool" where
  "totals_exact d \<longleftrightarrow>
     (\<forall>bp\<in>set (budgets d). bp_total_expected_expenditure bp = total_of (line_items_of d bp)) \<and>
     li_budget_proposal_id ` set (line_items d) \<subseteq> bp_id ` set (budgets d)"

lemma totals_exact_put:
  assumes ok: "totals_exact d" and bp: "bp \<in> set (budgets d)"
    and b': "bp_id bp' = bp_id bp" "bp_total_expected_expenditure bp' = total_of (line_items_of d' bp)"
    and d': "budgets d' = put bp_id bp' (budgets d)"
    and items: "li_budget_proposal_id ` set (line_items d') \<subseteq> insert (bp_id bp) (li_budget_proposal_id ` set (line_items d))"
    and same: "\<And>b. bp_id b \<noteq> bp_id bp \<Longrightarrow> line_items_of d' b = line_items_of d b"
  shows "totals_exact d'"
  unfolding totals_exact_def
proof
  show "\<forall>b\<in>set (budgets d'). bp_total_expected_expenditure b = total_of (line_items_of d' b)"
  proof
    fix b assume "b \<in> set (budgets d')"
    then consider "b = bp'" | "b \<in> set (budgets d)" "bp_id b \<noteq> bp_id bp" using b'(1) by (auto simp: d' in_put)
    then show "bp_total_expected_expenditure b = total_of (line_items_of d' b)"
    proof cases
      case 1
      have "line_items_of d' bp' = line_items_of d' bp" using b'(1) by (simp add: line_items_of_def)
      with 1 b'(2) show ?thesis by simp
    next
      case 2
      with ok same show ?thesis by (simp add: totals_exact_def)
    qed
  qed
  show "li_budget_proposal_id ` set (line_items d') \<subseteq> bp_id ` set (budgets d')"
  proof -
    have "li_budget_proposal_id ` set (line_items d) \<subseteq> bp_id ` set (budgets d)" using ok by (simp add: totals_exact_def)
    then have "insert (bp_id bp) (li_budget_proposal_id ` set (line_items d)) \<subseteq> bp_id ` set (budgets d)"
      using imageI [OF bp, of bp_id] by simp
    with items show ?thesis unfolding d' put_keys by (rule order_trans)
  qed
qed

lemma filter_put_other:
  assumes "distinct (map key t)" and "x \<in> set t" and "key r = key x" and "\<not> P x" and "\<not> P r"
  shows "filter P (put key r t) = filter P t"
  using assms
proof (induction t)
  case (Cons y ys)
  show ?case
  proof (cases "y = x")
    case True
    then have "map (\<lambda>z. if key z = key r then r else z) ys = ys"
      using Cons.prems by (intro map_idI) (auto simp: image_iff)
    with True Cons.prems show ?thesis by (simp add: put_def)
  next
    case False
    then have "key y \<noteq> key r" using Cons.prems by auto
    with False Cons show ?thesis by (simp add: put_simps)
  qed
qed simp

lemma line_items_key: "db_ok d \<Longrightarrow> distinct (map li_id (line_items d))"
  by (simp add: db_ok_def line_items_ok_def)

lemma totals_exact_effect:
  assumes "budget_effect q d d'" and ok: "db_ok d" "db_ok d'" and good: "totals_exact d"
  shows "totals_exact d'"
  using assms(1)
proof cases
  case (created rq p "is")
  let ?bp = "new_budget q (rq_id rq) p (total_of is) (next_uuid d)"
  have id: "bp_id ?bp = next_uuid d" "bp_total_expected_expenditure ?bp = total_of is" by (simp_all add: new_budget_def)
  have "distinct (map bp_id (budgets d'))" using ok(2) by (simp add: db_ok_def budgets_ok_def)
  then have fresh: "next_uuid d \<notin> bp_id ` set (budgets d)" by (simp add: created(1) id)
  have mine: "li_budget_proposal_id i = next_uuid d" if "i \<in> set is" for i
    using that by (auto simp: created(5) new_line_item_def)
  have old: "li_budget_proposal_id i \<noteq> next_uuid d" if "i \<in> set (line_items d)" for i
    using good that fresh unfolding totals_exact_def by (metis imageI subsetD)
  have f: "filter (\<lambda>i. li_budget_proposal_id i = bp_id b) is = []" if "bp_id b \<noteq> next_uuid d" for b
    using mine that by (auto simp: filter_empty_conv)
  have "line_items_of d' ?bp = is" using mine old by (auto simp: line_items_of_def created(1) id filter_empty_conv)
  moreover have "line_items_of d' b = line_items_of d b" if "b \<in> set (budgets d)" for b
  proof -
    have "bp_id b \<noteq> next_uuid d" using fresh that by (metis imageI)
    from f [OF this] show ?thesis by (simp add: line_items_of_def created(1))
  qed
  ultimately show ?thesis
    using good mine id by (auto simp: totals_exact_def created(1))
next
  case (header rq bp p)
  then show ?thesis
    using good by (intro totals_exact_put [OF good, of bp "header_edited p bp"])
      (auto simp: budget_for_def header_edited_def line_items_of_def totals_exact_def)
next
  case (dropped rq bp)
  have "line_items_of d' b = line_items_of d b" if "bp_id b \<noteq> bp_id bp" for b
    using that by (auto simp: line_items_of_def dropped(1) intro: filter_cong)
  moreover have "li_budget_proposal_id ` set (line_items d') \<subseteq> bp_id ` set (budgets d')"
  proof
    fix k assume "k \<in> li_budget_proposal_id ` set (line_items d')"
    then obtain i where i: "i \<in> set (line_items d)" "k = li_budget_proposal_id i" "k \<noteq> bp_id bp" by (auto simp: dropped(1))
    have "li_budget_proposal_id ` set (line_items d) \<subseteq> bp_id ` set (budgets d)" using good by (simp add: totals_exact_def)
    with i have "k \<in> bp_id ` set (budgets d)" by blast
    then obtain b where "b \<in> set (budgets d)" "k = bp_id b" by blast
    with i(3) show "k \<in> bp_id ` set (budgets d')" by (simp add: dropped(1) remove_row_def)
  qed
  ultimately show ?thesis using good by (simp add: totals_exact_def dropped(1) in_remove_row)
next
  case (item_new rq bp x)
  then show ?thesis
    by (intro totals_exact_put [OF good, of bp "bp\<lparr>bp_total_expected_expenditure := total_of (line_items_of d' bp)\<rparr>"])
      (auto simp: budget_for_def item_added_def recalculated_def Let_def line_items_of_def new_line_item_def)
next
  case (item_changed rq bp i u)
  have e: "li_id (item_edited u i) = li_id i" "li_budget_proposal_id (item_edited u i) = bp_id bp"
    using item_changed(4) by (simp_all add: item_edited_def)
  have i: "line_items d' = put li_id (item_edited u i) (line_items d)"
    and b: "budgets d' = put bp_id (bp\<lparr>bp_total_expected_expenditure := total_of (line_items_of d' bp)\<rparr>) (budgets d)"
    by (simp_all add: item_changed(1) item_stored_def recalculated_def Let_def line_items_of_def)
  show ?thesis
  proof (rule totals_exact_put [OF good _ _ _ b])
    show "line_items_of d' c = line_items_of d c" if "bp_id c \<noteq> bp_id bp" for c
      unfolding line_items_of_def i
      by (rule filter_put_other [OF line_items_key [OF ok(1)] item_changed(3)]) (use e that item_changed(4) in auto)
  qed (use item_changed(2) e in \<open>auto simp: budget_for_def i dest!: put_rows\<close>)
next
  case (item_dropped rq bp i)
  have i: "line_items d' = remove_row li_id i (line_items d)"
    and b: "budgets d' = put bp_id (bp\<lparr>bp_total_expected_expenditure := total_of (line_items_of d' bp)\<rparr>) (budgets d)"
    by (simp_all add: item_dropped(1) item_removed_def recalculated_def Let_def line_items_of_def)
  show ?thesis
  proof (rule totals_exact_put [OF good _ _ _ b])
    show "line_items_of d' c = line_items_of d c" if "bp_id c \<noteq> bp_id bp" for c
    proof -
      have "x = i" if "x \<in> set (line_items d)" "li_id x = li_id i" for x
        using line_items_key [OF ok(1)] item_dropped(3) that by (auto simp: distinct_map inj_on_def)
      then have "li_id x \<noteq> li_id i" if "x \<in> set (line_items d)" "li_budget_proposal_id x = bp_id c" for x
        using that \<open>bp_id c \<noteq> bp_id bp\<close> item_dropped(4) by metis
      then show ?thesis
        unfolding line_items_of_def i remove_row_def filter_filter by (intro filter_cong) auto
    qed
  qed (use item_dropped(2) in \<open>auto simp: budget_for_def i in_remove_row\<close>)
next
  case (audited bp st n)
  then show ?thesis
    using good by (intro totals_exact_put [OF good, of bp "audited_budget q st n bp"])
      (auto simp: audited_budget_def line_items_of_def totals_exact_def)
qed

interpretation totals: state_invariant budget_exec totals_exact
  by unfold_locales (auto dest: budget_exec_effect totals_exact_effect)

section \<open>Properties\<close>

definition budget_campus :: db where
  "budget_campus = institution\<lparr>event_requests := [the_proposal RQ_DRAFT], budgets := [the_budget], line_items := [the_line_item]\<rparr>"

definition an_item :: "string \<Rightarrow> money \<Rightarrow> item_create" where
  "an_item s m = \<lparr>ic_description = s, ic_category = BC_MATERIALS, ic_estimated_amount = m, ic_notes = None\<rparr>"

lemma budget_campus_ok: "db_ok budget_campus" "totals_exact budget_campus"
  subgoal by code_simp
  subgoal by code_simp
  done

text \<open>
  C31. The recalculated totals are exact: along any requests, the expenditure stored with a budget is the sum of its
  line items, and no item is left behind without its budget.
\<close>

theorem budget_totals_exact:
  assumes "db_ok d" and "totals_exact d"
  shows "(\<forall>bp\<in>set (budgets (run budget_exec xs d)).
    bp_total_expected_expenditure bp =
      sum_list (map li_estimated_amount
        (filter (\<lambda>i. li_budget_proposal_id i = bp_id bp) (line_items (run budget_exec xs d))))) \<and>
    li_budget_proposal_id ` set (line_items (run budget_exec xs d)) \<subseteq> bp_id ` set (budgets (run budget_exec xs d))"
  using totals.run_good [OF assms, of xs] by (simp add: totals_exact_def total_of_def line_items_of_def)

definition budget_run :: "(request \<times> budget_request) list" where
  "budget_run =
     [(ctx the_secretary (days 1), AddItem 20 (an_item ''Clocks'' 30000)),
      (ctx the_secretary (days 1), DeleteItem 20 24),
      (ctx the_finance (days 2), VerifyBudget 20 FV_QUERIED None)]"

lemma budget_totals_exact_witness:
  "\<exists>bp. budgets (run budget_exec budget_run budget_campus) = [bp] \<and> bp_total_expected_expenditure bp = 30000 \<and>
     sum_list (map li_estimated_amount
       (filter (\<lambda>i. li_budget_proposal_id i = bp_id bp) (line_items (run budget_exec budget_run budget_campus)))) = 30000"
proof -
  let ?d = "run budget_exec budget_run budget_campus"
  have m: "map bp_total_expected_expenditure (budgets ?d) = [30000]" by code_simp
  then obtain bp where bp: "budgets ?d = [bp]" "bp_total_expected_expenditure bp = 30000" unfolding map_eq_Cons_conv by blast
  have "bp \<in> set (budgets ?d)" by (simp only: bp(1) list.set) blast
  from budget_totals_exact [OF budget_campus_ok, THEN conjunct1, THEN bspec, OF this] bp show ?thesis by metis
qed

text \<open>
  C32. What is submitted is frozen and what is asked is capped: a request changes the figures of a budget only while its
  proposal is a draft or was returned for revision; a contribution that is new or changed is within the
  institution's ceiling; in every other state only the verdict of the finance office may change.
\<close>

theorem budget_frozen_and_capped:
  assumes "budget_exec q r d = Inr d'" and "bp' \<in> set (budgets d')"
  shows "((\<exists>bp\<in>set (budgets d). bp_id bp = bp_id bp' \<and> bp_institute_contribution bp = bp_institute_contribution bp') \<or>
      bp_institute_contribution bp' \<le> BUDGET_INSTITUTE_CONTRIBUTION_CAP q) \<and>
    ((\<exists>bp\<in>set (budgets d). bp_id bp = bp_id bp' \<and> bp_event_request_id bp = bp_event_request_id bp' \<and>
        bp_expected_income bp = bp_expected_income bp' \<and> bp_institute_contribution bp = bp_institute_contribution bp' \<and>
        bp_total_expected_expenditure bp = bp_total_expected_expenditure bp') \<or>
      (\<exists>rq\<in>set (event_requests d). rq_id rq = bp_event_request_id bp' \<and> editable rq))"
proof -
  have "budget_effect q d d'" using budget_exec_effect [OF assms(1)] by blast
  then show ?thesis
    by cases
      (use assms(2) in \<open>auto simp: budget_for_def new_budget_def header_edited_def audited_budget_def item_added_def item_stored_def
        item_removed_def recalculated_def Let_def in_remove_row dest!: put_rows\<close>)
qed

lemma budget_frozen_and_capped_witness:
  "\<exists>d' bp. budget_exec (ctx the_finance (days 2)) (VerifyBudget 20 FV_QUERIED None) (campus_at EV_SCHEDULED) = Inr d' \<and>
     budgets d' = [bp] \<and> bp_finance_status bp = FV_QUERIED \<and> bp_institute_contribution bp = 500000 \<and>
     (\<exists>b\<in>set (budgets (campus_at EV_SCHEDULED)). bp_total_expected_expenditure b = bp_total_expected_expenditure bp)"
proof -
  let ?r = "budget_exec (ctx the_finance (days 2)) (VerifyBudget 20 FV_QUERIED None) (campus_at EV_SCHEDULED)"
  have r: "?r = Inr (projr ?r)" by (rule Inr_projr) code_simp
  have m: "map (\<lambda>b. (bp_finance_status b, bp_institute_contribution b)) (budgets (projr ?r)) = [(FV_QUERIED, 500000)]" by code_simp
  then obtain bp where bp: "budgets (projr ?r) = [bp]" "bp_finance_status bp = FV_QUERIED" "bp_institute_contribution bp = 500000"
    unfolding map_eq_Cons_conv by blast
  have mem: "bp \<in> set (budgets (projr ?r))" by (simp only: bp(1) list.set) blast
  have "\<not> editable rq" if "rq \<in> set (event_requests (campus_at EV_SCHEDULED))" for rq
    using that by (auto simp: campus_at_def the_proposal_def editable_def)
  with budget_frozen_and_capped [OF r mem] have "\<exists>b\<in>set (budgets (campus_at EV_SCHEDULED)).
      bp_total_expected_expenditure b = bp_total_expected_expenditure bp" by blast
  with r bp show ?thesis by blast
qed

text \<open>
  The balance is checked only when the header is written: after an item is removed, or when a budget was created
  without items, what a club expects and asks for may exceed what it plans to spend.
\<close>

theorem balance_bypassed:
  "\<exists>bp\<in>set (budgets (run budget_exec budget_run budget_campus)).
     bp_expected_income bp + bp_institute_contribution bp > bp_total_expected_expenditure bp"
proof -
  have "map (\<lambda>bp. bp_expected_income bp + bp_institute_contribution bp > bp_total_expected_expenditure bp)
      (budgets (run budget_exec budget_run budget_campus)) = [True]" by code_simp
  then show ?thesis unfolding map_eq_Cons_conv by (metis list.set_intros(1))
qed

end
