(* ===== verification/Clubs.thy ===== *)
theory Clubs
  imports Scenario Texts
begin

text \<open>
  Clubs and their members: \<^verbatim>\<open>ClubService\<close> of \<^verbatim>\<open>backend/app/services/club_service.py\<close> with the payload
  schemas of \<^verbatim>\<open>backend/app/schemas/club.py\<close>. A club has a slug, which the service searches for with a loop
  that has no bound of its own; the loop is a partial function, and the first group of lemmas shows that it
  ends. Names are unique up to case among the clubs that were not deleted; members are deactivated, never
  deleted.
\<close>

section \<open>Slugs\<close>

text \<open>
  The texts of the model are ASCII, where \<open>unicodedata.normalize("NFKD", text)\<close> is the identity; what is not
  ASCII is dropped by \<open>encode("ascii", "ignore")\<close>.
\<close>

definition ascii :: "char \<Rightarrow> bool" where
  "ascii c \<longleftrightarrow> (of_char c :: nat) < 128"

definition word_char :: "char \<Rightarrow> bool" where
  "word_char c \<longleftrightarrow>
     (let n = (of_char c :: nat) in 48 \<le> n \<and> n \<le> 57 \<or> 65 \<le> n \<and> n \<le> 90 \<or> n = 95 \<or> 97 \<le> n \<and> n \<le> 122)"

definition hyphen_like :: "char \<Rightarrow> bool" where
  "hyphen_like c \<longleftrightarrow> c = CHR ''-'' \<or> is_space c"

text \<open>\<open>re.sub(r"[-\\s]+", "-", text)\<close>: a run of hyphens and blanks becomes one hyphen.\<close>

fun hyphenate :: "string \<Rightarrow> string" where
  "hyphenate [] = []"
| "hyphenate (c # cs) =
     (if hyphen_like c then (case hyphenate cs of
          [] \<Rightarrow> [CHR ''-'']
        | h # hs \<Rightarrow> if h = CHR ''-'' then h # hs else CHR ''-'' # h # hs)
      else c # hyphenate cs)"

definition slugify :: "string \<Rightarrow> string" where
  "slugify t =
     (let t1 = strip (lower (filter ascii t));
          t2 = filter (\<lambda>c. word_char c \<or> hyphen_like c) t1;
          slug = take 80 (strip_by (\<lambda>c. c = CHR ''-'') (hyphenate t2))
      in if slug = [] then ''club'' else slug)"

text \<open>Decimal numerals, as \<open>f"{base_slug}-{counter}"\<close> prints them.\<close>

definition digit :: "nat \<Rightarrow> char" where
  "digit n = char_of (48 + n)"

fun show_nat :: "nat \<Rightarrow> string" where
  "show_nat n = (if n < 10 then [digit n] else show_nat (n div 10) @ [digit (n mod 10)])"

declare show_nat.simps [simp del]

definition candidate :: "string \<Rightarrow> nat \<Rightarrow> string" where
  "candidate base counter = (if counter = 1 then base else base @ ''-'' @ show_nat counter)"

text \<open>The loop \<open>while True\<close>; \<open>None\<close> would be a search that never ends.\<close>

partial_function (option) slug_search :: "(string \<Rightarrow> bool) \<Rightarrow> string \<Rightarrow> nat \<Rightarrow> string option" where
  "slug_search used base counter =
     (if \<not> used (candidate base counter) then Some (candidate base counter)
      else slug_search used base (Suc counter))"

declare slug_search.simps [code]

definition slug_used :: "db \<Rightarrow> uuid option \<Rightarrow> string \<Rightarrow> bool" where
  "slug_used d exclude_club_id s =
     (scalar (\<lambda>c. cl_slug c = s \<and> (case exclude_club_id of None \<Rightarrow> True | Some i \<Rightarrow> cl_id c \<noteq> i)) (clubs d) \<noteq> None)"

definition generate_unique_slug :: "string \<Rightarrow> uuid option \<Rightarrow> db \<Rightarrow> string option" where
  "generate_unique_slug base_name exclude_club_id d = slug_search (slug_used d exclude_club_id) (slugify base_name) 1"

text \<open>The search ends: the candidates are all different, and only finitely many are used.\<close>

lemma digit_inject: "m < 10 \<Longrightarrow> n < 10 \<Longrightarrow> digit m = digit n \<Longrightarrow> m = n"
proof -
  assume "m < 10" "n < 10" "digit m = digit n"
  then have "(of_char (char_of (48 + m) :: char) :: nat) = of_char (char_of (48 + n) :: char)" by (simp add: digit_def)
  then show "m = n" using \<open>m < 10\<close> \<open>n < 10\<close> by simp
qed

lemma show_nat_Nil [simp]: "show_nat n \<noteq> []"
  by (simp add: show_nat.simps [of n])

lemma show_nat_single: "show_nat n = [c] \<Longrightarrow> n < 10"
  by (cases "n < 10") (simp_all add: show_nat.simps [of n])

lemma show_nat_inject: "show_nat m = show_nat n \<Longrightarrow> m = n"
proof (induction m arbitrary: n rule: less_induct)
  case (less m)
  show ?case
  proof (cases "m < 10")
    case True
    then have "show_nat n = [digit m]" using less.prems by (simp add: show_nat.simps [of m])
    with True show_nat_single [OF this] show ?thesis by (auto simp: show_nat.simps [of n] intro: digit_inject)
  next
    case False
    have n: "\<not> n < 10"
    proof
      assume "n < 10"
      then have "show_nat m = [digit n]" using less.prems by (simp add: show_nat.simps [of n])
      with False show_nat_single show False by blast
    qed
    have e: "show_nat (m div 10) = show_nat (n div 10)" "digit (m mod 10) = digit (n mod 10)"
      using less.prems False n by (simp_all add: show_nat.simps [of m] show_nat.simps [of n])
    have "m div 10 = n div 10" by (rule less.IH [OF _ e(1)]) (use False in simp)
    moreover have "m mod 10 = n mod 10" by (rule digit_inject [OF _ _ e(2)]) simp_all
    ultimately show ?thesis by (metis div_mult_mod_eq)
  qed
qed

lemma candidate_inject: "candidate b m = candidate b n \<Longrightarrow> m = n"
  by (auto simp: candidate_def split: if_splits dest: show_nat_inject)

lemma slug_search_least:
  assumes "\<not> used (candidate base n)" and "n \<ge> k" and "\<forall>m. k \<le> m \<and> m < n \<longrightarrow> used (candidate base m)"
  shows "slug_search used base k = Some (candidate base n)"
  using assms
proof (induction "n - k" arbitrary: k)
  case 0
  then have "n = k" by simp
  with 0 show ?case by (simp add: slug_search.simps [of used base k])
next
  case (Suc j)
  then have "k < n" by simp
  then have "used (candidate base k)" using Suc.prems(3) by simp
  moreover have "slug_search used base (Suc k) = Some (candidate base n)"
    by (rule Suc.hyps(1)) (use Suc.hyps(2) Suc.prems \<open>k < n\<close> in auto)
  ultimately show ?case by (simp add: slug_search.simps [of used base k])
qed

lemma free_candidate:
  assumes "{s. used s} \<subseteq> set ss"
  shows "\<exists>n. 1 \<le> n \<and> n \<le> length ss + 1 \<and> \<not> used (candidate base n)"
proof (rule ccontr)
  assume "\<not> ?thesis"
  then have "candidate base ` {1..length ss + 1} \<subseteq> set ss" using assms by auto
  then have "card (candidate base ` {1..length ss + 1}) \<le> card (set ss)" by (rule card_mono [rotated]) simp
  moreover have "card (candidate base ` {1..length ss + 1}) = length ss + 1"
    by (subst card_image) (auto intro: inj_onI candidate_inject)
  ultimately show False using card_length [of ss] by simp
qed

lemma slug_used_clubs: "{s. slug_used d x s} \<subseteq> set (map cl_slug (clubs d))"
  by (auto simp: slug_used_def scalar_None)

lemma generate_unique_slug_least:
  "\<exists>n. 1 \<le> n \<and> n \<le> length (clubs d) + 1 \<and> generate_unique_slug b x d = Some (candidate (slugify b) n) \<and>
     \<not> slug_used d x (candidate (slugify b) n) \<and> (\<forall>m. 1 \<le> m \<and> m < n \<longrightarrow> slug_used d x (candidate (slugify b) m))"
proof -
  let ?free = "\<lambda>n. 1 \<le> n \<and> n \<le> length (clubs d) + 1 \<and> \<not> slug_used d x (candidate (slugify b) n)"
  have "\<exists>n. ?free n" using free_candidate [OF slug_used_clubs, of d x "slugify b"] by simp
  then obtain n where n: "?free n" "\<forall>m<n. \<not> ?free m" using exists_least_iff [of ?free] by blast
  then have l: "\<forall>m. 1 \<le> m \<and> m < n \<longrightarrow> slug_used d x (candidate (slugify b) m)" by auto
  from n(1) have "slug_search (slug_used d x) (slugify b) 1 = Some (candidate (slugify b) n)"
    using slug_search_least [of "slug_used d x" "slugify b" n 1] l by blast
  with n(1) l show ?thesis unfolding generate_unique_slug_def by blast
qed

section \<open>Payloads\<close>

record club_create =
  kc_name :: string
  kc_description :: "string option"
  kc_faculty_advisor_id :: "uuid option"
  kc_academic_year :: string
  kc_logo_url :: "string option"

definition club_create_schema :: "club_create \<Rightarrow> club_create res" where
  "club_create_schema p =
     require (len_between 2 255 (kc_name p) \<and> \<not> length (squeeze (kc_name p)) < 2 \<and> opt_len_between 0 2000 (kc_description p) \<and>
       len_between 4 10 (kc_academic_year p) \<and> strip (kc_academic_year p) \<noteq> [] \<and> opt_len_between 0 500 (kc_logo_url p))
       RequestValidationError
     (Inr (p\<lparr>kc_name := squeeze (kc_name p), kc_academic_year := strip (kc_academic_year p)\<rparr>))"

record club_update =
  ku_name :: "string option"
  ku_description :: "string option"
  ku_logo_url :: "string option"
  ku_is_active :: "bool option"
  ku_faculty_advisor_id :: "uuid option"
  ku_academic_year :: "string option"

definition club_update_schema :: "club_update \<Rightarrow> club_update res" where
  "club_update_schema p =
     require (opt_len_between 2 255 (ku_name p) \<and>
       (case ku_name p of None \<Rightarrow> True | Some v \<Rightarrow> \<not> length (squeeze v) < 2) \<and>
       opt_len_between 0 2000 (ku_description p) \<and> opt_len_between 0 500 (ku_logo_url p) \<and>
       opt_len_between 4 10 (ku_academic_year p)) RequestValidationError
     (Inr (p\<lparr>ku_name := map_option squeeze (ku_name p)\<rparr>))"

section \<open>Clubs\<close>

definition validate_faculty_advisor :: "uuid \<Rightarrow> db \<Rightarrow> user res" where
  "validate_faculty_advisor advisor_id d =
     fetch (row us_id advisor_id (users d)) BadRequestError (\<lambda>u.
     require (us_deleted_at u = None) BadRequestError (
     require (us_is_active u) BadRequestError (
     require (us_role u = FACULTY_ADVISOR) BadRequestError (Inr u))))"

definition club_named :: "db \<Rightarrow> uuid option \<Rightarrow> string \<Rightarrow> club option" where
  "club_named d exclude_club_id name =
     scalar (\<lambda>c. lower (cl_name c) = lower name \<and> (case exclude_club_id of None \<Rightarrow> True | Some i \<Rightarrow> cl_id c \<noteq> i) \<and>
                 cl_deleted_at c = None) (clubs d)"

definition club_state :: "club \<Rightarrow> json" where
  "club_state c =
     JObj [(''name'', JText (cl_name c)), (''slug'', JText (cl_slug c)), (''description'', j_opt JText (cl_description c)),
           (''faculty_advisor_id'', j_opt JUuid (cl_faculty_advisor_id c)), (''academic_year'', JText (cl_academic_year c)),
           (''is_active'', JBool (cl_is_active c)), (''logo_url'', j_opt JText (cl_logo_url c))]"

definition advisor_entry :: "request \<Rightarrow> uuid \<Rightarrow> json \<Rightarrow> user \<Rightarrow> db \<Rightarrow> db" where
  "advisor_entry q club_id prev a d =
     add_audit q A_ADVISOR_ASSIGNED ''club'' club_id prev
       (JObj [(''faculty_advisor_id'', JUuid (us_id a)), (''faculty_advisor_email'', JText (us_email a))]) None d"

definition new_club :: "request \<Rightarrow> club_create \<Rightarrow> string \<Rightarrow> string \<Rightarrow> uuid \<Rightarrow> club" where
  "new_club q p name slug i =
     \<lparr>cl_id = i, cl_name = name, cl_slug = slug, cl_description = kc_description p,
      cl_faculty_advisor_id = kc_faculty_advisor_id p, cl_academic_year = kc_academic_year p, cl_is_active = True,
      cl_logo_url = kc_logo_url p, cl_created_by = actor_id q, cl_deleted_at = None, cl_created_at = now q\<rparr>"

definition club_founded :: "request \<Rightarrow> club \<Rightarrow> user option \<Rightarrow> db \<Rightarrow> db" where
  "club_founded q c advisor d =
     (let d1 = add_audit q A_CLUB_CREATED ''club'' (cl_id c) JNull (club_state c) None
                 (d\<lparr>clubs := clubs d @ [c], next_uuid := Suc (cl_id c)\<rparr>)
      in case advisor of None \<Rightarrow> d1 | Some a \<Rightarrow> advisor_entry q (cl_id c) JNull a d1)"

text \<open>The search for a slug always ends (lemma \<open>generate_unique_slug_least\<close>), so the error it is given here is never met.\<close>

definition create_club :: "request \<Rightarrow> club_create \<Rightarrow> db \<Rightarrow> (club \<times> db) res" where
  "create_club q p d =
     (let name = squeeze (kc_name p)
      in require (club_named d None name = None) ConflictError (
         and_then (case kc_faculty_advisor_id p of None \<Rightarrow> Inr None
                   | Some i \<Rightarrow> and_then (validate_faculty_advisor i d) (\<lambda>a. Inr (Some a))) (\<lambda>advisor.
         fetch (generate_unique_slug name None d) InternalError (\<lambda>slug.
         let c = new_club q p name slug (next_uuid d)
         in commit ConflictError c (club_founded q c advisor d)))))"

definition get_club :: "uuid \<Rightarrow> db \<Rightarrow> club res" where
  "get_club club_id d =
     fetch (scalar (\<lambda>c. cl_id c = club_id \<and> cl_deleted_at c = None) (clubs d)) NotFoundError Inr"

definition list_clubs :: "(string \<Rightarrow> nat) \<Rightarrow> nat \<Rightarrow> nat \<Rightarrow> bool option \<Rightarrow> db \<Rightarrow> club list" where
  "list_clubs collate skip limit is_active d =
     take limit (drop skip (sort_key (\<lambda>c. collate (cl_name c)) (filter (\<lambda>c. cl_deleted_at c = None \<and>
       (case is_active of None \<Rightarrow> True | Some a \<Rightarrow> cl_is_active c = a)) (clubs d))))"

definition renamed :: "string option \<Rightarrow> club \<Rightarrow> db \<Rightarrow> (string \<times> string) res" where
  "renamed given c d =
     (case given of
        None \<Rightarrow> Inr (cl_name c, cl_slug c)
      | Some n \<Rightarrow>
          if n = cl_name c then Inr (cl_name c, cl_slug c)
          else let cleaned = squeeze n
               in require (club_named d (Some (cl_id c)) cleaned = None) ConflictError (
                  fetch (generate_unique_slug cleaned (Some (cl_id c)) d) InternalError (\<lambda>slug. Inr (cleaned, slug))))"

definition new_advisor :: "club_update \<Rightarrow> club \<Rightarrow> db \<Rightarrow> user option res" where
  "new_advisor p c d =
     (case ku_faculty_advisor_id p of
        None \<Rightarrow> Inr None
      | Some i \<Rightarrow>
          if cl_faculty_advisor_id c = Some i then Inr None
          else and_then (validate_faculty_advisor i d) (\<lambda>a. Inr (Some a)))"

definition club_edited :: "club_update \<Rightarrow> user option \<Rightarrow> string \<times> string \<Rightarrow> club \<Rightarrow> club" where
  "club_edited p advisor = (\<lambda>(name, slug) c.
     c\<lparr>cl_faculty_advisor_id := (case advisor of None \<Rightarrow> cl_faculty_advisor_id c | Some a \<Rightarrow> Some (us_id a)),
       cl_name := name, cl_slug := slug, cl_description := set_opt (ku_description p) (cl_description c),
       cl_academic_year := set_if (ku_academic_year p) (cl_academic_year c),
       cl_is_active := set_if (ku_is_active p) (cl_is_active c),
       cl_logo_url := set_opt (ku_logo_url p) (cl_logo_url c)\<rparr>)"

definition club_stored :: "request \<Rightarrow> club \<Rightarrow> club \<Rightarrow> user option \<Rightarrow> db \<Rightarrow> db" where
  "club_stored q c c' advisor d =
     (let d1 = add_audit q A_CLUB_UPDATED ''club'' (cl_id c) (club_state c) (club_state c') None
                 (d\<lparr>clubs := put cl_id c' (clubs d)\<rparr>)
      in case advisor of
           None \<Rightarrow> d1
         | Some a \<Rightarrow> advisor_entry q (cl_id c)
             (JObj [(''faculty_advisor_id'', j_opt JUuid (cl_faculty_advisor_id c))]) a d1)"

definition update_club :: "request \<Rightarrow> uuid \<Rightarrow> club_update \<Rightarrow> db \<Rightarrow> (club \<times> db) res" where
  "update_club q club_id p d =
     and_then (verify_club_ownership q club_id d) (\<lambda>c.
     and_then (new_advisor p c d) (\<lambda>advisor.
     and_then (renamed (ku_name p) c d) (\<lambda>ns.
     commit ConflictError (club_edited p advisor ns c) (club_stored q c (club_edited p advisor ns c) advisor d))))"

section \<open>Members\<close>

definition membership_of :: "db \<Rightarrow> uuid \<Rightarrow> uuid \<Rightarrow> club_member option" where
  "membership_of d club_id user_id = scalar (\<lambda>m. cm_club_id m = club_id \<and> cm_user_id m = user_id) (club_members d)"

definition new_member :: "request \<Rightarrow> uuid \<Rightarrow> uuid \<Rightarrow> club_member_role \<Rightarrow> uuid \<Rightarrow> club_member" where
  "new_member q club_id user_id r i =
     \<lparr>cm_id = i, cm_club_id = club_id, cm_user_id = user_id, cm_member_role = r, cm_is_active = True,
      cm_joined_at = now q, cm_created_at = now q\<rparr>"

definition enrolled :: "request \<Rightarrow> uuid \<Rightarrow> user \<Rightarrow> club_member_role \<Rightarrow> db \<Rightarrow> club_member \<times> db" where
  "enrolled q club_id u r d =
     (case membership_of d club_id (us_id u) of
        Some m \<Rightarrow> let m' = m\<lparr>cm_is_active := True, cm_member_role := r\<rparr> in (m', d\<lparr>club_members := put cm_id m' (club_members d)\<rparr>)
      | None \<Rightarrow> let m = new_member q club_id (us_id u) r (next_uuid d)
                in (m, d\<lparr>club_members := club_members d @ [m], next_uuid := Suc (next_uuid d)\<rparr>))"

definition member_added :: "request \<Rightarrow> uuid \<Rightarrow> user \<Rightarrow> club_member_role \<Rightarrow> db \<Rightarrow> db" where
  "member_added q club_id u r d =
     (let (m, d1) = enrolled q club_id u r d
      in add_audit q A_MEMBER_ADDED ''club_member'' (cm_id m) JNull
           (JObj [(''club_id'', JUuid club_id), (''user_id'', JUuid (us_id u)), (''user_email'', JText (us_email u)),
                  (''member_role'', JEnum (J_member_role r)), (''is_active'', JBool True)]) None d1)"

definition add_member :: "request \<Rightarrow> uuid \<Rightarrow> uuid \<Rightarrow> club_member_role \<Rightarrow> db \<Rightarrow> (club_member \<times> db) res" where
  "add_member q club_id user_id r d =
     and_then (verify_club_ownership q club_id d) (\<lambda>c.
     fetch (row us_id user_id (users d)) NotFoundError (\<lambda>u.
     require (us_deleted_at u = None) NotFoundError (
     require (us_is_active u) BadRequestError (
     require (case membership_of d club_id user_id of None \<Rightarrow> True | Some m \<Rightarrow> \<not> cm_is_active m) ConflictError (
     commit ConflictError (fst (enrolled q club_id u r d)) (member_added q club_id u r d))))))"

definition member_state :: "club_member \<Rightarrow> json" where
  "member_state m = JObj [(''member_role'', JEnum (J_member_role (cm_member_role m))), (''is_active'', JBool (cm_is_active m))]"

definition member_edited :: "club_member_role option \<Rightarrow> bool option \<Rightarrow> club_member \<Rightarrow> club_member" where
  "member_edited r a m = m\<lparr>cm_member_role := set_if r (cm_member_role m), cm_is_active := set_if a (cm_is_active m)\<rparr>"

definition member_stored :: "request \<Rightarrow> club_member_role option \<Rightarrow> bool option \<Rightarrow> club_member \<Rightarrow> db \<Rightarrow> db" where
  "member_stored q r a m d =
     add_audit q (if a = Some False \<and> cm_is_active m then A_MEMBER_REMOVED else A_CLUB_UPDATED) ''club_member'' (cm_id m)
       (member_state m) (member_state (member_edited r a m)) None
       (d\<lparr>club_members := put cm_id (member_edited r a m) (club_members d)\<rparr>)"

definition update_member ::
    "request \<Rightarrow> uuid \<Rightarrow> uuid \<Rightarrow> club_member_role option \<Rightarrow> bool option \<Rightarrow> db \<Rightarrow> (club_member \<times> db) res" where
  "update_member q club_id user_id r a d =
     and_then (verify_club_ownership q club_id d) (\<lambda>c.
     fetch (membership_of d club_id user_id) NotFoundError (\<lambda>m.
     commit IntegrityError (member_edited r a m) (member_stored q r a m d)))"

definition member_removed :: "request \<Rightarrow> club_member \<Rightarrow> db \<Rightarrow> db" where
  "member_removed q m d =
     add_audit q A_MEMBER_REMOVED ''club_member'' (cm_id m) (JObj [(''is_active'', JBool True)])
       (JObj [(''is_active'', JBool False)]) (Some ''Member removed by club governance'')
       (d\<lparr>club_members := put cm_id (m\<lparr>cm_is_active := False\<rparr>) (club_members d)\<rparr>)"

definition remove_member :: "request \<Rightarrow> uuid \<Rightarrow> uuid \<Rightarrow> db \<Rightarrow> (unit \<times> db) res" where
  "remove_member q club_id user_id d =
     and_then (verify_club_ownership q club_id d) (\<lambda>c.
     fetch (membership_of d club_id user_id) NotFoundError (\<lambda>m.
     if \<not> cm_is_active m then Inr ((), d) else commit IntegrityError () (member_removed q m d)))"

definition list_members :: "uuid \<Rightarrow> bool \<Rightarrow> db \<Rightarrow> club_member list res" where
  "list_members club_id include_inactive d =
     and_then (get_club club_id d) (\<lambda>c.
     Inr (sort_key cm_joined_at
       (filter (\<lambda>m. cm_club_id m = club_id \<and> (include_inactive \<or> cm_is_active m)) (club_members d))))"

section \<open>Clubs as a service\<close>

datatype club_request =
    CreateClub club_create
  | UpdateClub uuid club_update
  | AddMember uuid uuid club_member_role
  | UpdateMember uuid uuid "club_member_role option" "bool option"
  | RemoveMember uuid uuid

fun club_exec :: "request \<Rightarrow> club_request \<Rightarrow> db \<Rightarrow> db res" where
  "club_exec q (CreateClub p) d = and_then (club_create_schema p) (\<lambda>p. db_of (create_club q p d))"
| "club_exec q (UpdateClub i p) d = and_then (club_update_schema p) (\<lambda>p. db_of (update_club q i p d))"
| "club_exec q (AddMember i u r) d = db_of (add_member q i u r d)"
| "club_exec q (UpdateMember i u r a) d = db_of (update_member q i u r a d)"
| "club_exec q (RemoveMember i u) d = db_of (remove_member q i u d)"

section \<open>What the requests change\<close>

definition governs :: "request \<Rightarrow> db \<Rightarrow> uuid \<Rightarrow> bool" where
  "governs q d club_id \<longleftrightarrow>
     (\<exists>c\<in>set (clubs d). cl_id c = club_id \<and> cl_deleted_at c = None) \<and>
     (actor_role q = SYSTEM_ADMIN \<or>
      actor_role q = CLUB_SECRETARY \<and>
        (\<exists>m\<in>set (club_members d). cm_club_id m = club_id \<and> cm_user_id m = actor_id q \<and>
           cm_member_role m = MR_SECRETARY \<and> cm_is_active m))"

lemma ownershipD:
  assumes "verify_club_ownership q i d = Inr c"
  shows "c \<in> set (clubs d) \<and> cl_id c = i \<and> cl_deleted_at c = None \<and> governs q d i"
  using assms
  by (auto simp: governs_def verify_club_ownership_def res_simps split: if_splits
      dest!: scalar_Some secretary_membership_in)

inductive club_effect :: "request \<Rightarrow> db \<Rightarrow> db \<Rightarrow> bool" for q d where
  founded: "club_named d None (cl_name c) = None \<Longrightarrow> cl_id c = next_uuid d \<Longrightarrow> cl_deleted_at c = None \<Longrightarrow>
    club_effect q d (club_founded q c advisor d)"
| club_edit: "c \<in> set (clubs d) \<Longrightarrow> governs q d (cl_id c) \<Longrightarrow> cl_deleted_at c = None \<Longrightarrow> cl_id c' = cl_id c \<Longrightarrow>
    cl_deleted_at c' = None \<Longrightarrow> cl_name c' = cl_name c \<or> club_named d (Some (cl_id c)) (cl_name c') = None \<Longrightarrow>
    club_effect q d (club_stored q c c' advisor d)"
| added: "governs q d i \<Longrightarrow> u \<in> set (users d) \<Longrightarrow> us_is_active u \<Longrightarrow> club_effect q d (member_added q i u r d)"
| member_edit: "governs q d (cm_club_id m) \<Longrightarrow> m \<in> set (club_members d) \<Longrightarrow> club_effect q d (member_stored q r a m d)"
| removed: "governs q d (cm_club_id m) \<Longrightarrow> m \<in> set (club_members d) \<Longrightarrow> club_effect q d (member_removed q m d)"
| kept: "club_effect q d d"

lemma membership_ofD:
  "membership_of d i u = Some m \<Longrightarrow> m \<in> set (club_members d) \<and> cm_club_id m = i \<and> cm_user_id m = u"
  by (auto simp: membership_of_def dest: scalar_Some)

lemma create_club_effect: "create_club q p d = Inr (x, d') \<Longrightarrow> club_effect q d d' \<and> db_ok d'"
  unfolding create_club_def by (auto simp: res_simps Let_def new_club_def intro!: founded)

lemma renamed_Inr:
  "renamed n c d = Inr (name, slug) \<Longrightarrow> name = cl_name c \<or> club_named d (Some (cl_id c)) name = None"
  by (auto simp: renamed_def res_simps Let_def split: option.splits if_splits)

lemma club_edited_simps [simp]:
  "cl_id (club_edited p a ns c) = cl_id c" "cl_deleted_at (club_edited p a ns c) = cl_deleted_at c"
  "cl_name (club_edited p a ns c) = fst ns" "cl_slug (club_edited p a ns c) = snd ns"
  by (simp_all add: club_edited_def split: prod.split)

lemma update_club_effect: "update_club q i p d = Inr (x, d') \<Longrightarrow> club_effect q d d' \<and> db_ok d'"
  unfolding update_club_def by (auto simp: res_simps intro!: club_edit dest!: ownershipD renamed_Inr)

lemma member_effects:
  "add_member q i u r d = Inr (m, d') \<Longrightarrow> club_effect q d d' \<and> db_ok d'"
  "update_member q i u r' a d = Inr (m, d') \<Longrightarrow> club_effect q d d' \<and> db_ok d'"
  "remove_member q i u d = Inr (x, d') \<Longrightarrow> club_effect q d d' \<and> (db_ok d \<longrightarrow> db_ok d')"
  unfolding add_member_def update_member_def remove_member_def
  by (auto simp: res_simps intro: added member_edit removed kept split: if_splits dest!: ownershipD membership_ofD row_key)

lemma club_exec_moves: "club_exec q r d = Inr d' \<Longrightarrow> club_effect q d d' \<and> (db_ok d \<longrightarrow> db_ok d')"
  by (cases r) (auto simp: res_simps dest: create_club_effect update_club_effect member_effects)

lemma club_exec_effect: "club_exec q r d = Inr d' \<Longrightarrow> db_ok d \<Longrightarrow> club_effect q d d' \<and> db_ok d'"
  using club_exec_moves by blast

lemma club_tables [simp]:
  "clubs (club_founded q c a d) = clubs d @ [c]" "club_members (club_founded q c a d) = club_members d"
  "clubs (club_stored q c c' a d) = put cl_id c' (clubs d)" "club_members (club_stored q c c' a d) = club_members d"
  "clubs (member_added q i u r d) = clubs d"
  "clubs (member_stored q r' x m d) = clubs d"
  "club_members (member_stored q r' x m d) = put cm_id (member_edited r' x m) (club_members d)"
  "clubs (member_removed q m d) = clubs d"
  "club_members (member_removed q m d) = put cm_id (m\<lparr>cm_is_active := False\<rparr>) (club_members d)"
  by (simp_all add: club_founded_def club_stored_def advisor_entry_def member_added_def enrolled_def member_stored_def
      member_removed_def Let_def split: option.split)

lemma member_added_members:
  "club_members (member_added q i u r d) =
     (case membership_of d i (us_id u) of
        Some m \<Rightarrow> put cm_id (m\<lparr>cm_is_active := True, cm_member_role := r\<rparr>) (club_members d)
      | None \<Rightarrow> club_members d @ [new_member q i (us_id u) r (next_uuid d)])"
  by (simp add: member_added_def enrolled_def Let_def split: option.split)

lemma club_effect_audit: "club_effect q d d' \<Longrightarrow> signed q d d'"
  by (induction rule: club_effect.induct)
    (simp_all add: club_founded_def club_stored_def advisor_entry_def member_added_def enrolled_def member_stored_def
      member_removed_def Let_def split: option.split)

interpretation club_service: audited_service club_exec
  by unfold_locales (auto dest: club_exec_moves club_effect_audit)

section \<open>Names\<close>

text \<open>No two clubs that were not deleted share a name, up to case.\<close>

definition names_apart :: "db \<Rightarrow> bool" where
  "names_apart d \<longleftrightarrow>
     (\<forall>c\<in>set (clubs d). \<forall>c'\<in>set (clubs d). cl_deleted_at c = None \<and> cl_deleted_at c' = None \<and>
        lower (cl_name c) = lower (cl_name c') \<longrightarrow> cl_id c = cl_id c')"

lemma names_apartD:
  assumes "names_apart d" and "c \<in> set (clubs d)" and "c' \<in> set (clubs d)"
    and "cl_deleted_at c = None" and "cl_deleted_at c' = None" and "lower (cl_name c) = lower (cl_name c')"
  shows "cl_id c = cl_id c'"
  using assms(1) [unfolded names_apart_def, rule_format, of c c'] assms(2-) by simp

lemma names_apart_same: "clubs d' = clubs d \<Longrightarrow> names_apart d \<Longrightarrow> names_apart d'"
  unfolding names_apart_def by (simp only:)

lemma club_named_None:
  "club_named d x n = None \<longleftrightarrow>
     (\<forall>c\<in>set (clubs d). cl_deleted_at c = None \<and> (case x of None \<Rightarrow> True | Some i \<Rightarrow> cl_id c \<noteq> i) \<longrightarrow>
        lower (cl_name c) \<noteq> lower n)"
  by (auto simp: club_named_def scalar_None)

lemma names_apart_effect:
  assumes "club_effect q d d'" and ok: "db_ok d" and good: "names_apart d"
  shows "names_apart d'"
  using assms(1)
proof cases
  case (founded c a)
  have f: "lower (cl_name x) \<noteq> lower (cl_name c)" if "x \<in> set (clubs d)" "cl_deleted_at x = None" for x
    using founded(2) that unfolding club_named_None by simp
  show ?thesis
    unfolding names_apart_def founded(1) club_tables
  proof (intro ballI impI)
    fix x y
    assume "x \<in> set (clubs d @ [c])" "y \<in> set (clubs d @ [c])"
      and e: "cl_deleted_at x = None \<and> cl_deleted_at y = None \<and> lower (cl_name x) = lower (cl_name y)"
    then consider "x = c" "y = c" | "x \<in> set (clubs d)" "y = c" | "x = c" "y \<in> set (clubs d)"
      | "x \<in> set (clubs d)" "y \<in> set (clubs d)" by auto
    then show "cl_id x = cl_id y"
    proof cases
      case 2
      with f [of x] e show ?thesis by simp
    next
      case 3
      with f [of y] e show ?thesis by simp
    next
      case 4
      with names_apartD [OF good, of x y] e show ?thesis by simp
    qed simp
  qed
next
  case (club_edit c c' a)
  have k: "distinct (map cl_id (clubs d))" using ok by (simp add: db_ok_def clubs_ok_def)
  have apart: "lower (cl_name c') \<noteq> lower (cl_name x)"
    if x: "x \<in> set (clubs d)" "cl_id x \<noteq> cl_id c" "cl_deleted_at x = None" for x
    using club_edit(7)
  proof
    assume e: "cl_name c' = cl_name c"
    show ?thesis
    proof
      assume "lower (cl_name c') = lower (cl_name x)"
      then have "lower (cl_name c) = lower (cl_name x)" by (simp only: e)
      with names_apartD [OF good club_edit(2) x(1) club_edit(4) x(3)] x(2) show False by simp
    qed
  next
    assume "club_named d (Some (cl_id c)) (cl_name c') = None"
    with x show ?thesis unfolding club_named_None by fastforce
  qed
  show ?thesis
    unfolding names_apart_def club_edit(1) club_tables
  proof (intro ballI impI)
    fix x y
    assume x: "x \<in> set (put cl_id c' (clubs d))" and y: "y \<in> set (put cl_id c' (clubs d))"
      and e: "cl_deleted_at x = None \<and> cl_deleted_at y = None \<and> lower (cl_name x) = lower (cl_name y)"
    from x y club_edit(5) consider "x = c'" "y = c'" | "x = c'" "y \<in> set (clubs d)" "cl_id y \<noteq> cl_id c"
      | "y = c'" "x \<in> set (clubs d)" "cl_id x \<noteq> cl_id c" | "x \<in> set (clubs d)" "y \<in> set (clubs d)" by (auto simp: in_put)
    then show "cl_id x = cl_id y"
    proof cases
      case 2
      with apart [of y] e show ?thesis by simp
    next
      case 3
      with apart [of x] e show ?thesis by simp
    next
      case 4
      with names_apartD [OF good, of x y] e show ?thesis by simp
    qed simp
  qed
qed (use good in \<open>simp_all add: names_apart_same [of _ d]\<close>)

interpretation club_names: state_invariant club_exec names_apart
  by unfold_locales (auto dest: club_exec_effect names_apart_effect)

section \<open>Properties\<close>

text \<open>Slugs are made of lower-case letters, digits, underscores and hyphens.\<close>

definition url_safe :: "char \<Rightarrow> bool" where
  "url_safe c \<longleftrightarrow>
     (let n = (of_char c :: nat) in n = 45 \<or> 48 \<le> n \<and> n \<le> 57 \<or> n = 95 \<or> 97 \<le> n \<and> n \<le> 122)"

lemma set_strip_by: "set (strip_by p s) \<subseteq> set s"
proof
  fix x
  assume "x \<in> set (strip_by p s)"
  then have "x \<in> set (dropWhile p (rev (dropWhile p s)))" by (simp add: strip_by_def)
  then have "x \<in> set (rev (dropWhile p s))" using set_dropWhileD by fastforce
  then show "x \<in> set s" using set_dropWhileD by fastforce
qed

lemma set_hyphenate: "c \<in> set (hyphenate s) \<Longrightarrow> c = CHR ''-'' \<or> c \<in> set s \<and> \<not> hyphen_like c"
  by (induction s) (auto split: if_splits list.splits)

lemma word_lower_safe:
  assumes "word_char c" and "c = lower_char b"
  shows "url_safe c"
proof -
  have "\<not> (65 \<le> (of_char c :: nat) \<and> (of_char c :: nat) \<le> 90)"
    unfolding assms(2) lower_char_def by (auto simp: Let_def)
  with assms(1) show ?thesis by (auto simp: word_char_def url_safe_def Let_def)
qed

lemma slugify_safe: "slugify t \<noteq> [] \<and> length (slugify t) \<le> 80 \<and> list_all url_safe (slugify t)"
proof -
  let ?t1 = "strip (lower (filter ascii t))"
  let ?t3 = "strip_by (\<lambda>c. c = CHR ''-'') (hyphenate (filter (\<lambda>c. word_char c \<or> hyphen_like c) ?t1))"
  have "url_safe c" if "c \<in> set (take 80 ?t3)" for c
  proof -
    have "c \<in> set (hyphenate (filter (\<lambda>c. word_char c \<or> hyphen_like c) ?t1))"
      using that set_strip_by in_set_takeD by fast
    then consider "c = CHR ''-''" | "word_char c" "c \<in> set ?t1" by (auto dest!: set_hyphenate)
    then show ?thesis
    proof cases
      case 1
      then show ?thesis by (simp add: url_safe_def Let_def)
    next
      case 2
      then have "c \<in> set (lower (filter ascii t))" using set_strip_by unfolding strip_def by blast
      then obtain b where "c = lower_char b" unfolding lower_def by auto
      with 2(1) show ?thesis by (rule word_lower_safe)
    qed
  qed
  moreover have "list_all url_safe ''club''" by code_simp
  ultimately show ?thesis by (auto simp: slugify_def Let_def list_all_iff)
qed

text \<open>
  C36. Finding a slug always ends: the first of the candidates \<open>base\<close>, \<open>base-2\<close>, \<open>base-3\<close>, ... that no other club uses is
  returned, after at most one more attempt than there are clubs; the base is never empty, short, and safe in a URL.
\<close>

theorem slug_search_terminates:
  "\<exists>n. 1 \<le> n \<and> n \<le> length (clubs d) + 1 \<and>
     generate_unique_slug name x d = Some (candidate (slugify name) n) \<and>
     \<not> slug_used d x (candidate (slugify name) n) \<and> list_all (\<lambda>m. slug_used d x (candidate (slugify name) m)) [1..<n] \<and>
     slugify name \<noteq> [] \<and> length (slugify name) \<le> 80 \<and> list_all url_safe (slugify name)"
  using generate_unique_slug_least [of d name x] slugify_safe [of name] by (auto simp: list_all_iff)

text \<open>
  C37. Clubs are governed by their own: a request that changes a club or a membership was sent by an administrator or an
  active secretary of that very club (founding a club apart); memberships are only ever added, deactivated or
  reactivated, never removed or moved to another club or person; and no two living clubs ever share a name up to case.
\<close>

theorem club_governance:
  assumes "db_ok d" and "names_apart d" and "club_exec q r d = Inr d'"
  shows "names_apart (run club_exec xs d') \<and>
    (\<forall>m\<in>set (club_members d). \<exists>m'\<in>set (club_members d'). cm_id m' = cm_id m \<and> cm_club_id m' = cm_club_id m \<and>
       cm_user_id m' = cm_user_id m) \<and>
    (\<forall>m\<in>set (club_members d'). m \<in> set (club_members d) \<or> governs q d (cm_club_id m)) \<and>
    (\<forall>c\<in>set (clubs d'). c \<in> set (clubs d) \<or> governs q d (cl_id c) \<or> cl_id c = next_uuid d)"
proof (intro conjI)
  have eff: "club_effect q d d'" and ok: "db_ok d'" using club_exec_effect [OF assms(3,1)] by auto
  show "names_apart (run club_exec xs d')"
    by (rule club_names.run_good [OF ok names_apart_effect [OF eff assms(1,2)]])
  have keep: "\<exists>x\<in>set (put cm_id y t). cm_id x = cm_id m \<and> cm_club_id x = cm_club_id m \<and> cm_user_id x = cm_user_id m"
    if "m \<in> set t" "distinct (map cm_id t)" "z \<in> set t" "cm_id y = cm_id z" "cm_club_id y = cm_club_id z" "cm_user_id y = cm_user_id z"
    for m y z t
  proof (cases "m = z")
    case True
    with that put_written [of z t cm_id y] show ?thesis by auto
  next
    case False
    with put_keeps [OF that(2,3,4,1)] show ?thesis by blast
  qed
  have dist: "distinct (map cm_id (club_members d))" using assms(1) by (simp add: db_ok_def club_members_ok_def)
  from eff show "\<forall>m\<in>set (club_members d). \<exists>m'\<in>set (club_members d'). cm_id m' = cm_id m \<and> cm_club_id m' = cm_club_id m \<and>
       cm_user_id m' = cm_user_id m"
  proof cases
    case (added i u r)
    then show ?thesis
      using keep [OF _ dist] by (auto simp: member_added_members split: option.splits dest!: membership_ofD)
  next
    case (member_edit m r a)
    then show ?thesis using keep [OF _ dist, of _ m "member_edited r a m"] by (auto simp: member_edited_def)
  next
    case (removed m)
    then show ?thesis using keep [OF _ dist, of _ m "m\<lparr>cm_is_active := False\<rparr>"] by auto
  qed auto
  from eff show "\<forall>m\<in>set (club_members d'). m \<in> set (club_members d) \<or> governs q d (cm_club_id m)"
  proof cases
    case (added i u r)
    then show ?thesis
      by (auto simp: member_added_members new_member_def split: option.splits dest!: membership_ofD put_rows)
  qed (auto simp: member_edited_def dest!: put_rows)
  from eff show "\<forall>c\<in>set (clubs d'). c \<in> set (clubs d) \<or> governs q d (cl_id c) \<or> cl_id c = next_uuid d"
    by cases (auto dest!: put_rows)
qed

definition a_charter :: "string \<Rightarrow> club_create" where
  "a_charter n = \<lparr>kc_name = n, kc_description = None, kc_faculty_advisor_id = Some 3, kc_academic_year = ''2025-26'', kc_logo_url = None\<rparr>"

lemma club_governance_witness:
  "\<exists>d'. club_exec (ctx the_secretary (days 1)) (UpdateMember 10 2 (Some MR_TREASURER) None) institution = Inr d' \<and>
     names_apart (run club_exec [(ctx the_admin (days 1), CreateClub (a_charter ''chess''))] d') \<and>
     list_all (\<lambda>m. m \<in> set (club_members institution) \<or> governs (ctx the_secretary (days 1)) institution (cm_club_id m)) (club_members d')"
proof -
  let ?r = "club_exec (ctx the_secretary (days 1)) (UpdateMember 10 2 (Some MR_TREASURER) None) institution"
  have r: "?r = Inr (projr ?r)" by (rule Inr_projr) code_simp
  have "db_ok institution" "names_apart institution" by code_simp+
  from club_governance [OF this r] r show ?thesis unfolding list_all_iff by blast
qed

end
