(* ===== verification/Notifications.thy ===== *)
theory Notifications
  imports Scenario
begin

text \<open>
  Notifications: the reading side of \<open>src/backend/app/services/notification_service.py\<close> (lists, counts, marks)
  and the page limits of \<open>api/v1/endpoints/notifications.py\<close>. The writing side, \<open>create_notification\<close>, is in
  Models, since every service calls it. Marking keeps the notifications of everybody else.
\<close>

section \<open>Reading\<close>

definition notifications_of :: "uuid \<Rightarrow> db \<Rightarrow> notification list" where
  "notifications_of i d = filter (\<lambda>n. nt_recipient_id n = i) (notifications d)"

definition get_notifications :: "uuid \<Rightarrow> bool \<Rightarrow> nat \<Rightarrow> nat \<Rightarrow> db \<Rightarrow> notification list" where
  "get_notifications recipient_id unread_only limit offset d =
     take limit (drop offset
       (filter (\<lambda>n. unread_only \<longrightarrow> \<not> nt_is_read n) (sort_key (\<lambda>n. - nt_created_at n) (notifications_of recipient_id d))))"

record notification_counts =
  unread_count :: nat
  total_count :: nat

definition get_notification_counts :: "uuid \<Rightarrow> db \<Rightarrow> notification_counts" where
  "get_notification_counts recipient_id d =
     \<lparr>unread_count = length (filter (\<lambda>n. \<not> nt_is_read n) (notifications_of recipient_id d)),
      total_count = length (notifications_of recipient_id d)\<rparr>"

section \<open>Marking\<close>

definition read_now :: "request \<Rightarrow> notification \<Rightarrow> notification" where
  "read_now q n = n\<lparr>nt_is_read := True, nt_read_at := Some (now q)\<rparr>"

definition mark_as_read :: "request \<Rightarrow> uuid \<Rightarrow> db \<Rightarrow> (notification \<times> db) res" where
  "mark_as_read q notification_id d =
     fetch (scalar (\<lambda>n. nt_id n = notification_id \<and> nt_recipient_id n = actor_id q) (notifications d)) NotFoundError (\<lambda>n.
     if nt_is_read n then Inr (n, d)
     else commit IntegrityError (read_now q n) (d\<lparr>notifications := put nt_id (read_now q n) (notifications d)\<rparr>))"

definition mark_all_as_read :: "request \<Rightarrow> db \<Rightarrow> (nat \<times> db) res" where
  "mark_all_as_read q d =
     (let mine = (\<lambda>n. nt_recipient_id n = actor_id q \<and> \<not> nt_is_read n)
      in commit IntegrityError (length (filter mine (notifications d)))
           (d\<lparr>notifications := map (\<lambda>n. if mine n then read_now q n else n) (notifications d)\<rparr>))"

datatype inbox_request = MarkRead uuid | MarkAllRead

fun inbox_exec :: "request \<Rightarrow> inbox_request \<Rightarrow> db \<Rightarrow> db res" where
  "inbox_exec q (MarkRead i) d = db_of (mark_as_read q i d)"
| "inbox_exec q MarkAllRead d = db_of (mark_all_as_read q d)"

text \<open>The page of the endpoint: its limits are those of the query parameters.\<close>

definition my_notifications :: "request \<Rightarrow> bool \<Rightarrow> int \<Rightarrow> int \<Rightarrow> db \<Rightarrow> notification list res" where
  "my_notifications q unread_only limit offset d =
     require (1 \<le> limit \<and> limit \<le> 100 \<and> 0 \<le> offset) RequestValidationError
       (Inr (get_notifications (actor_id q) unread_only (nat limit) (nat offset) d))"

section \<open>What marking changes\<close>

text \<open>One step of a notification: its recipient reads it.\<close>

definition reads :: "request \<Rightarrow> notification \<Rightarrow> notification \<Rightarrow> bool" where
  "reads q n m \<longleftrightarrow> nt_recipient_id n = actor_id q \<and> \<not> nt_is_read n \<and> m = read_now q n"

lemma read_now_simps [simp]:
  "nt_id (read_now q n) = nt_id n" "nt_recipient_id (read_now q n) = nt_recipient_id n" "nt_is_read (read_now q n)"
  by (simp_all add: read_now_def)

lemma mark_as_read_ok:
  assumes "mark_as_read q i d = Inr (m, d')"
  obtains n where "n \<in> set (notifications d)" "nt_recipient_id n = actor_id q"
    "d' = d \<and> nt_is_read n \<or> \<not> nt_is_read n \<and> db_ok d' \<and> d' = d\<lparr>notifications := put nt_id (read_now q n) (notifications d)\<rparr>"
proof -
  from assms obtain n where n: "scalar (\<lambda>n. nt_id n = i \<and> nt_recipient_id n = actor_id q) (notifications d) = Some n"
    and r: "(if nt_is_read n then Inr (n, d)
        else commit IntegrityError (read_now q n) (d\<lparr>notifications := put nt_id (read_now q n) (notifications d)\<rparr>)) = Inr (m, d')"
    unfolding mark_as_read_def fetch_Inr by blast
  from scalar_Some [OF n] r show ?thesis
    by (intro that [of n]) (simp_all only: commit_Inr sum.inject prod.inject simp_thms split: if_splits)
qed

lemma mark_all_as_read_ok:
  assumes "mark_all_as_read q d = Inr (k, d')"
  shows "db_ok d' \<and> d' = d\<lparr>notifications :=
    map (\<lambda>n. if nt_recipient_id n = actor_id q \<and> \<not> nt_is_read n then read_now q n else n) (notifications d)\<rparr>"
  using assms unfolding mark_all_as_read_def Let_def commit_Inr by (simp only:)

lemma inbox_exec_marks:
  assumes "inbox_exec q r d = Inr d'" and "distinct (map nt_id (notifications d))"
  shows "\<exists>p. notifications d' = map (\<lambda>n. if p n then read_now q n else n) (notifications d) \<and>
    (\<forall>n\<in>set (notifications d). p n \<longrightarrow> nt_recipient_id n = actor_id q \<and> \<not> nt_is_read n)"
proof (cases r)
  case (MarkRead i)
  with assms(1) obtain m where "mark_as_read q i d = Inr (m, d')" by (auto simp: db_of_Inr)
  from mark_as_read_ok [OF this] obtain n where n: "n \<in> set (notifications d)" "nt_recipient_id n = actor_id q"
    and d': "d' = d \<and> nt_is_read n \<or>
      \<not> nt_is_read n \<and> db_ok d' \<and> d' = d\<lparr>notifications := put nt_id (read_now q n) (notifications d)\<rparr>" by blast
  show ?thesis
  proof (cases "nt_is_read n")
    case True
    with d' have "d' = d" by simp
    then show ?thesis by (intro exI [of _ "\<lambda>_. False"]) simp
  next
    case False
    have "x = n" if "x \<in> set (notifications d)" "nt_id x = nt_id n" for x
      using that n(1) assms(2) by (auto simp: distinct_map inj_on_def)
    have "x = n" if "x \<in> set (notifications d)" "nt_id x = nt_id n" for x
      using that n(1) assms(2) by (auto simp: distinct_map inj_on_def)
    then have "put nt_id (read_now q n) (notifications d) = map (\<lambda>x. if x = n then read_now q x else x) (notifications d)"
      by (auto simp: put_def)
    with d' False n show ?thesis by (intro exI [of _ "\<lambda>x. x = n"]) simp
  qed
next
  case MarkAllRead
  with assms(1) obtain k where "mark_all_as_read q d = Inr (k, d')" by (auto simp: db_of_Inr)
  from mark_all_as_read_ok [OF this] show ?thesis
    by (intro exI [of _ "\<lambda>n. nt_recipient_id n = actor_id q \<and> \<not> nt_is_read n"]) simp
qed

lemma inbox_exec_ok:
  assumes "inbox_exec q r d = Inr d'"
  shows "(d' = d \<or> db_ok d') \<and> audit_logs d' = audit_logs d"
proof (cases r)
  case (MarkRead i)
  with assms obtain m where "mark_as_read q i d = Inr (m, d')" by (auto simp: db_of_Inr)
  then show ?thesis by (rule mark_as_read_ok) auto
next
  case MarkAllRead
  with assms obtain k where "mark_all_as_read q d = Inr (k, d')" by (auto simp: db_of_Inr)
  note m = mark_all_as_read_ok [OF this]
  have "db_ok d'" using m by (rule conjunct1)
  moreover have "audit_logs d' = audit_logs d" by (subst conjunct2 [OF m]) simp
  ultimately show ?thesis by (rule conjI [OF disjI2])
qed

interpretation inbox: audited_service inbox_exec
proof unfold_locales
  fix d q r d'
  assume e: "inbox_exec q r d = Inr d'"
  show "signed q d d'" by (rule signed_silent) (use inbox_exec_ok [OF e] in blast)
  show "db_ok d'" if "db_ok d" using inbox_exec_ok [OF e] that by blast
qed

lemma inbox_keys:
  assumes "inbox_exec q r d = Inr d'" and "distinct (map nt_id (notifications d))"
  shows "map nt_id (notifications d') = map nt_id (notifications d)"
proof -
  from inbox_exec_marks [OF assms] obtain p where "notifications d' = map (\<lambda>n. if p n then read_now q n else n) (notifications d)"
    by blast
  then show ?thesis by simp
qed

interpretation inbox_ids: state_invariant inbox_exec "\<lambda>d. distinct (map nt_id (notifications d))"
  by unfold_locales (simp add: inbox_keys)

text \<open>What a request leaves of the notifications of a user: everything, unless the request is the user's own.\<close>

lemma others_keep_inbox:
  assumes "inbox_exec q r d = Inr d'" and "distinct (map nt_id (notifications d))" and "actor_id q \<noteq> i"
  shows "notifications_of i d' = notifications_of i d"
proof -
  from inbox_exec_marks [OF assms(1,2)] obtain p
    where d': "notifications d' = map (\<lambda>n. if p n then read_now q n else n) (notifications d)"
      and p: "\<forall>n\<in>set (notifications d). p n \<longrightarrow> nt_recipient_id n = actor_id q" by blast
  have "filter (\<lambda>n. nt_recipient_id n = i) (map (\<lambda>n. if p n then read_now q n else n) ns) = filter (\<lambda>n. nt_recipient_id n = i) ns"
    if "\<forall>n\<in>set ns. p n \<longrightarrow> nt_recipient_id n = actor_id q" for ns
    using that assms(3) by (induction ns) auto
  with d' p show ?thesis by (simp add: notifications_of_def)
qed

lemma counts_after:
  assumes "inbox_exec q r d = Inr d'" and "distinct (map nt_id (notifications d))"
  shows "total_count (get_notification_counts i d') = total_count (get_notification_counts i d) \<and>
    unread_count (get_notification_counts i d') \<le> unread_count (get_notification_counts i d)"
proof -
  from inbox_exec_marks [OF assms] obtain p
    where d': "notifications d' = map (\<lambda>n. if p n then read_now q n else n) (notifications d)" by blast
  have "length (filter (\<lambda>n. nt_recipient_id n = i) (map (\<lambda>n. if p n then read_now q n else n) ns)) =
      length (filter (\<lambda>n. nt_recipient_id n = i) ns) \<and>
      length (filter (\<lambda>n. \<not> nt_is_read n) (filter (\<lambda>n. nt_recipient_id n = i) (map (\<lambda>n. if p n then read_now q n else n) ns))) \<le>
      length (filter (\<lambda>n. \<not> nt_is_read n) (filter (\<lambda>n. nt_recipient_id n = i) ns))" for ns
    by (induction ns) auto
  with d' show ?thesis by (simp add: notifications_of_def get_notification_counts_def)
qed

lemma marked_all:
  assumes "db_ok d"
  obtains d' where "inbox_exec q MarkAllRead d = Inr d'" "unread_count (get_notification_counts (actor_id q) d') = 0"
proof -
  let ?d = "d\<lparr>notifications := map (\<lambda>n. if nt_recipient_id n = actor_id q \<and> \<not> nt_is_read n then read_now q n else n) (notifications d)\<rparr>"
  have "db_ok ?d" using assms by (simp add: db_ok_def)
  then have "inbox_exec q MarkAllRead d = Inr ?d" by (simp add: mark_all_as_read_def Let_def commit_def)
  moreover have "unread_count (get_notification_counts (actor_id q) ?d) = 0"
    by (simp add: get_notification_counts_def notifications_of_def filter_map comp_def)
  ultimately show ?thesis by (rule that)
qed

lemma others_run:
  assumes "db_ok d" and "distinct (map nt_id (notifications d))" and "\<forall>(q, r)\<in>set xs. actor_id q \<noteq> i"
  shows "notifications_of i (run inbox_exec xs d) = notifications_of i d"
  using assms
proof (induction xs arbitrary: d)
  case (Cons x xs)
  obtain q r where x: "x = (q, r)" by (cases x)
  show ?case
  proof (cases "inbox_exec q r d")
    case (Inl e)
    with Cons x show ?thesis by simp
  next
    case (Inr d')
    have "db_ok d'" "distinct (map nt_id (notifications d'))"
      using inbox.exec_ok [OF Cons.prems(1) Inr] inbox_keys [OF Inr Cons.prems(2)] Cons.prems(2) by simp_all
    from Cons.IH [OF this] Cons.prems(3) others_keep_inbox [OF Inr Cons.prems(2)] show ?thesis
      by (simp add: x Inr)
  qed
qed simp

section \<open>Properties\<close>

text \<open>
  Inboxes are isolated: whatever the other users mark as read, the notifications of a user stay what they
  are; and once the user has marked all of them, none is unread again whatever anybody marks.
\<close>

theorem inboxes_isolated:
  assumes "db_ok d" and "distinct (map nt_id (notifications d))"
    and "\<forall>(q, r)\<in>set xs. actor_id q \<noteq> actor_id q0"
  shows "get_notifications (actor_id q0) unread limit offset (run inbox_exec xs d) =
      get_notifications (actor_id q0) unread limit offset d \<and>
    unread_count (get_notification_counts (actor_id q0) (run inbox_exec (xs @ (q0, MarkAllRead) # ys) d)) = 0 \<and>
    total_count (get_notification_counts (actor_id q0) (run inbox_exec (xs @ (q0, MarkAllRead) # ys) d)) =
      total_count (get_notification_counts (actor_id q0) d)"
proof -
  let ?e = "run inbox_exec xs d" and ?i = "actor_id q0"
  note same = others_run [OF assms]
  have e: "db_ok ?e" "distinct (map nt_id (notifications ?e))"
    using inbox.run_ok [OF assms(1)] inbox_ids.run_good [OF assms(1,2)] by blast+
  obtain d' where d': "inbox_exec q0 MarkAllRead ?e = Inr d'" "unread_count (get_notification_counts ?i d') = 0"
    using marked_all [OF e(1)] by blast
  have ok: "db_ok d'" "distinct (map nt_id (notifications d'))"
    using inbox.exec_ok [OF e(1) d'(1)] inbox_keys [OF d'(1) e(2)] e(2) by simp_all
  let ?P = "\<lambda>f. distinct (map nt_id (notifications f)) \<and> unread_count (get_notification_counts ?i f) = 0 \<and>
    total_count (get_notification_counts ?i f) = total_count (get_notification_counts ?i d')"
  have "?P (run inbox_exec ys d')"
  proof (rule inbox.run_induct [where P = ?P, OF ok(1)])
    fix f q r f'
    assume f: "?P f" "inbox_exec q r f = Inr f'"
    then show "?P f'" using counts_after [OF f(2), of ?i] inbox_keys [OF f(2)] by simp
  qed (use d' ok in simp)
  moreover have "total_count (get_notification_counts ?i d') = total_count (get_notification_counts ?i d)"
    using counts_after [OF d'(1) e(2), of ?i] same by (simp add: get_notification_counts_def)
  moreover have "run inbox_exec (xs @ (q0, MarkAllRead) # ys) d = run inbox_exec ys d'"
    using d'(1) by (simp add: inbox.run_append)
  ultimately show ?thesis using same by (simp add: get_notifications_def)
qed

definition notified_campus :: db where
  "notified_campus =
     create_notification (ctx the_admin 5) 3 N_ACTION_REQUIRED (Some 20)
       (create_notification (ctx the_admin 4) 2 N_STEP_APPROVED (Some 20)
         (create_notification (ctx the_admin 3) 3 N_ACTION_REQUIRED (Some 20) campus))"

lemma inboxes_isolated_witness:
  "total_count (get_notification_counts (actor_id (ctx the_advisor 9))
     (run inbox_exec ([(ctx the_secretary 7, MarkRead 100), (ctx the_dean 8, MarkAllRead)] @ (ctx the_advisor 9, MarkAllRead) # [])
       notified_campus)) = total_count (get_notification_counts (actor_id (ctx the_advisor 9)) notified_campus) \<and>
   total_count (get_notification_counts (actor_id (ctx the_advisor 9)) notified_campus) = 2"
proof
  have ok: "db_ok notified_campus" "distinct (map nt_id (notifications notified_campus))" by code_simp+
  have "\<forall>(q, r)\<in>set [(ctx the_secretary 7, MarkRead 100), (ctx the_dean 8, MarkAllRead)]. actor_id q \<noteq> actor_id (ctx the_advisor 9)"
    by code_simp
  from inboxes_isolated [OF ok this]
  show "total_count (get_notification_counts (actor_id (ctx the_advisor 9))
     (run inbox_exec ([(ctx the_secretary 7, MarkRead 100), (ctx the_dean 8, MarkAllRead)] @ (ctx the_advisor 9, MarkAllRead) # [])
       notified_campus)) = total_count (get_notification_counts (actor_id (ctx the_advisor 9)) notified_campus)"
    by blast
qed code_simp

end
