(* ===== verification/Chain.thy ===== *)
theory Chain
  imports Workflow
begin

text \<open>
  What the approval chain of theory Workflow keeps and promises: the order of the approvals as an invariant of
  the tables, an abstract chain that the decisions refine, and the link between an approved proposal, its
  completed chain and its confirmed event.
\<close>

section \<open>The shape of a chain\<close>

text \<open>
  The steps of an instance are numbered without a gap from 1; while it is in progress the steps before the
  pointer are approved and those behind it pending; when it is completed all of them are approved.
\<close>

definition gapless :: "workflow_instance_step list \<Rightarrow> bool" where
  "gapless t \<longleftrightarrow>
     (\<forall>s\<in>set t. ws_step_order s \<ge> 1 \<and>
        (ws_step_order s > 1 \<longrightarrow>
           (\<exists>r\<in>set t. ws_instance_id r = ws_instance_id s \<and> ws_step_order r = ws_step_order s - 1)))"

definition chain_of :: "db \<Rightarrow> workflow_instance \<Rightarrow> workflow_instance_step list" where
  "chain_of d i = filter (\<lambda>s. ws_instance_id s = wi_id i) (steps d)"

definition in_order :: "db \<Rightarrow> workflow_instance \<Rightarrow> bool" where
  "in_order d i \<longleftrightarrow>
     (\<forall>s\<in>set (chain_of d i).
        (wi_status i = WI_IN_PROGRESS \<longrightarrow>
           (ws_step_order s < wi_current_step_order i \<longrightarrow> ws_status s = WS_APPROVED) \<and>
           (ws_step_order s > wi_current_step_order i \<longrightarrow> ws_status s = WS_PENDING)) \<and>
        (wi_status i = WI_COMPLETED \<longrightarrow> ws_status s = WS_APPROVED))"

definition chain_ok :: "db \<Rightarrow> bool" where
  "chain_ok d \<longleftrightarrow> gapless (steps d) \<and> (\<forall>i\<in>set (instances d). in_order d i)"

lemma gapless_put:
  assumes g: "gapless t" and s: "s \<in> set t" and r: "ws_id r = ws_id s" "ws_instance_id r = ws_instance_id s"
    "ws_step_order r = ws_step_order s" and dist: "distinct (map ws_id t)"
  shows "gapless (put ws_id r t)"
proof -
  have "map (\<lambda>s. (ws_instance_id s, ws_step_order s)) (put ws_id r t) = map (\<lambda>s. (ws_instance_id s, ws_step_order s)) t"
    by (rule map_put [OF dist s]) (use r in auto)
  then have img: "(\<lambda>s. (ws_instance_id s, ws_step_order s)) ` set (put ws_id r t) =
      (\<lambda>s. (ws_instance_id s, ws_step_order s)) ` set t" by (metis set_map)
  have ex: "(\<exists>x\<in>set (put ws_id r t). ws_instance_id x = i \<and> ws_step_order x = k) \<longleftrightarrow>
      (\<exists>x\<in>set t. ws_instance_id x = i \<and> ws_step_order x = k)" for i k
  proof -
    have e: "(\<exists>x\<in>A. ws_instance_id x = i \<and> ws_step_order x = k) \<longleftrightarrow>
        (i, k) \<in> (\<lambda>s. (ws_instance_id s, ws_step_order s)) ` A" for A by (auto simp: image_iff)
    show ?thesis by (simp only: e img)
  qed
  show ?thesis
    using g r(2,3) s unfolding gapless_def ex by (auto dest!: put_rows)
qed

lemma gapless_next:
  assumes "gapless t" and "s \<in> set t" and "ws_step_order s > k" and "k \<ge> 1"
  shows "\<exists>r\<in>set t. ws_instance_id r = ws_instance_id s \<and> ws_step_order r = k + 1"
  using assms(2,3)
proof (induction "nat (ws_step_order s)" arbitrary: s rule: less_induct)
  case less
  show ?case
  proof (cases "ws_step_order s = k + 1")
    case True
    with less.prems show ?thesis by blast
  next
    case False
    obtain r where r: "r \<in> set t" "ws_instance_id r = ws_instance_id s" "ws_step_order r = ws_step_order s - 1"
      using assms(1,4) less.prems by (auto simp: gapless_def)
    have "nat (ws_step_order r) < nat (ws_step_order s)" using r(3) less.prems assms(4) by simp
    moreover have "ws_step_order r > k" using False less.prems r(3) by simp
    ultimately show ?thesis using less.hyps [OF _ r(1)] r(2) by auto
  qed
qed

lemma step_unique:
  assumes "db_ok d" and "s \<in> set (steps d)" and "r \<in> set (steps d)"
    and "ws_instance_id s = ws_instance_id r" and "ws_step_order s = ws_step_order r"
  shows "s = r"
proof -
  have "distinct (map (\<lambda>s. (ws_instance_id s, ws_step_order s)) (steps d))"
    using assms(1) by (simp add: db_ok_def steps_ok_def)
  with assms(2-5) show ?thesis by (auto simp: distinct_map inj_on_def)
qed

lemma in_chain [simp]: "s \<in> set (chain_of d i) \<longleftrightarrow> s \<in> set (steps d) \<and> ws_instance_id s = wi_id i"
  by (auto simp: chain_of_def)

text \<open>A decision changes one step and its instance; the other chains are what they were.\<close>

lemma chain_of_other:
  assumes "steps d' = put ws_id r (steps d)" and "s \<in> set (steps d)" and "ws_id r = ws_id s"
    and "ws_instance_id r = ws_instance_id s" and "wi_id i \<noteq> ws_instance_id s" and "db_ok d"
  shows "set (chain_of d' i) = set (chain_of d i)"
proof -
  have "ws_id x \<noteq> ws_id s" if "x \<in> set (steps d)" "ws_instance_id x = wi_id i" for x
    using that assms(2,5) db_ok_keys(5) [OF assms(6)] by (auto simp: distinct_map inj_on_def)
  then show ?thesis using assms(3-5) by (auto simp: chain_of_def assms(1) in_put)
qed

lemma in_order_cong:
  "set (chain_of d' i) = set (chain_of d i) \<Longrightarrow> in_order d' i = in_order d i"
  by (simp only: in_order_def)

lemma chain_ok_decision:
  assumes ok: "db_ok d" and good: "chain_ok d" and aw: "awaiting q d s inst rq"
    and st: "steps d' = put ws_id (decided q st c inst s) (steps d)"
    and ins: "instances d' = put wi_id inst' (instances d)" and id: "wi_id inst' = wi_id inst"
    and new: "in_order d' inst'"
  shows "chain_ok d'"
proof -
  have s: "s \<in> set (steps d)" "inst \<in> set (instances d)" "ws_instance_id s = wi_id inst"
    using aw by (auto simp: awaiting_def)
  have "gapless (steps d')"
    unfolding st by (rule gapless_put [OF _ s(1)]) (use good db_ok_keys(5) [OF ok] in \<open>auto simp: chain_ok_def\<close>)
  moreover have "in_order d' i" if i: "i \<in> set (instances d')" for i
  proof (cases "i = inst'")
    case True
    with new show ?thesis by simp
  next
    case False
    then have i': "i \<in> set (instances d)" "wi_id i \<noteq> wi_id inst"
      using i id s(2) by (auto simp: ins in_put)
    have "set (chain_of d' i) = set (chain_of d i)"
      by (rule chain_of_other [OF st s(1)]) (use i' s ok in auto)
    then have "in_order d' i = in_order d i" by (rule in_order_cong)
    with good i'(1) show ?thesis by (simp add: chain_ok_def)
  qed
  ultimately show ?thesis by (simp add: chain_ok_def)
qed

lemma chain_after_decision:
  assumes ok: "db_ok d" and good: "chain_ok d" and aw: "awaiting q d s inst rq"
    and st: "steps d' = put ws_id (decided q st c inst s) (steps d)"
    and x: "x \<in> set (steps d')" "ws_instance_id x = wi_id inst"
  shows "x = decided q st c inst s \<or>
    x \<in> set (steps d) \<and> x \<noteq> s \<and>
    (ws_step_order x < wi_current_step_order inst \<and> ws_status x = WS_APPROVED \<or>
     ws_step_order x > wi_current_step_order inst \<and> ws_status x = WS_PENDING)"
proof -
  have s: "s \<in> set (steps d)" "inst \<in> set (instances d)" "ws_instance_id s = wi_id inst"
    "ws_step_order s = wi_current_step_order inst" "wi_status inst = WI_IN_PROGRESS"
    using aw by (auto simp: awaiting_def)
  have o: "in_order d inst" using good s(2) by (simp add: chain_ok_def)
  consider "x = decided q st c inst s" | "x \<in> set (steps d)" "ws_id x \<noteq> ws_id s"
    using x(1) by (auto simp: st in_put)
  then show ?thesis
  proof cases
    case 2
    then have "ws_step_order x \<noteq> wi_current_step_order inst"
      using step_unique [OF ok, of x s] s x(2) by auto
    then have "ws_step_order x < wi_current_step_order inst \<or> ws_step_order x > wi_current_step_order inst" by linarith
    with 2 o s x(2) show ?thesis by (auto simp: in_order_def)
  qed simp
qed

lemma chain_ok_effect:
  assumes "workflow_effect q d d'" and ok: "db_ok d" and good: "chain_ok d"
  shows "chain_ok d'"
  using assms(1)
proof cases
  case (advanced s inst rq c d1 nxt)
  have st: "steps d' = put ws_id (decided q WS_APPROVED c inst s) (steps d)"
    using interlocks_frame(1) [OF advanced(3)] advanced(1) by simp
  have n: "ws_step_order nxt = ws_step_order s + 1" using advanced(4) by (auto simp: step_at_def dest: scalar_Some)
  have s: "ws_step_order s = wi_current_step_order inst" using advanced(2) by (simp add: awaiting_def)
  have "in_order d' (inst\<lparr>wi_current_step_order := ws_step_order nxt\<rparr>)"
    unfolding in_order_def
  proof
    fix x assume "x \<in> set (chain_of d' (inst\<lparr>wi_current_step_order := ws_step_order nxt\<rparr>))"
    then have "x \<in> set (steps d')" "ws_instance_id x = wi_id inst" by simp_all
    from chain_after_decision [OF ok good advanced(2) st this] n s advanced(2)
    show "(wi_status (inst\<lparr>wi_current_step_order := ws_step_order nxt\<rparr>) = WI_IN_PROGRESS \<longrightarrow>
        (ws_step_order x < wi_current_step_order (inst\<lparr>wi_current_step_order := ws_step_order nxt\<rparr>) \<longrightarrow> ws_status x = WS_APPROVED) \<and>
        (ws_step_order x > wi_current_step_order (inst\<lparr>wi_current_step_order := ws_step_order nxt\<rparr>) \<longrightarrow> ws_status x = WS_PENDING)) \<and>
      (wi_status (inst\<lparr>wi_current_step_order := ws_step_order nxt\<rparr>) = WI_COMPLETED \<longrightarrow> ws_status x = WS_APPROVED)"
      by (auto simp: awaiting_def)
  qed
  then show ?thesis
    by (rule chain_ok_decision [OF ok good advanced(2) st, rotated -1])
      (use interlocks_frame(2) [OF advanced(3)] advanced(1) in auto)
next
  case (completed s inst rq c d1)
  have st: "steps d' = put ws_id (decided q WS_APPROVED c inst s) (steps d)"
    using interlocks_frame(1) [OF completed(2)] complete_chain_frame(1) [OF completed(4)] by simp
  have s: "s \<in> set (steps d)" "ws_instance_id s = wi_id inst" "ws_step_order s = wi_current_step_order inst"
    using completed(1) by (auto simp: awaiting_def)
  have g: "gapless (steps d)" using good by (simp add: chain_ok_def)
  have "ws_step_order s \<ge> 1" using g s(1) by (auto simp: gapless_def)
  have last: False if "x \<in> set (steps d)" "ws_instance_id x = wi_id inst" "ws_step_order x > wi_current_step_order inst" for x
    using gapless_next [OF g that(1), of "ws_step_order s"] that s(2,3) completed(3) \<open>ws_step_order s \<ge> 1\<close>
    by (auto simp: step_at_def scalar_None)
  have "in_order d' (inst\<lparr>wi_status := WI_COMPLETED\<rparr>)"
    unfolding in_order_def
  proof
    fix x assume "x \<in> set (chain_of d' (inst\<lparr>wi_status := WI_COMPLETED\<rparr>))"
    then have "x \<in> set (steps d')" "ws_instance_id x = wi_id inst" by simp_all
    from chain_after_decision [OF ok good completed(1) st this] last this(2)
    have "ws_status x = WS_APPROVED" by auto
    then show "(wi_status (inst\<lparr>wi_status := WI_COMPLETED\<rparr>) = WI_IN_PROGRESS \<longrightarrow>
        (ws_step_order x < wi_current_step_order (inst\<lparr>wi_status := WI_COMPLETED\<rparr>) \<longrightarrow> ws_status x = WS_APPROVED) \<and>
        (ws_step_order x > wi_current_step_order (inst\<lparr>wi_status := WI_COMPLETED\<rparr>) \<longrightarrow> ws_status x = WS_PENDING)) \<and>
      (wi_status (inst\<lparr>wi_status := WI_COMPLETED\<rparr>) = WI_COMPLETED \<longrightarrow> ws_status x = WS_APPROVED)" by simp
  qed
  then show ?thesis
    by (rule chain_ok_decision [OF ok good completed(1) st, rotated -1])
      (use interlocks_frame(2) [OF completed(2)] complete_chain_frame(2) [OF completed(4)] in auto)
next
  case (rejected s inst rq m)
  have "in_order d' (inst\<lparr>wi_status := WI_REJECTED\<rparr>)" by (simp add: in_order_def)
  then show ?thesis
    by (rule chain_ok_decision [OF ok good rejected(2) _, rotated -1])
      (use chain_rejected_frame rejected(1) in auto)
next
  case (returned s inst rq m)
  have st: "steps d' = put ws_id (decided q WS_REVISION_REQUESTED (Some m) inst s) (steps d)"
    using chain_returned_frame(1) returned(1) by simp
  have s: "inst \<in> set (instances d)" "ws_step_order s = wi_current_step_order inst" using returned(2) by (auto simp: awaiting_def)
  have "in_order d' inst"
    unfolding in_order_def
  proof
    fix x assume "x \<in> set (chain_of d' inst)"
    then have "x \<in> set (steps d')" "ws_instance_id x = wi_id inst" by simp_all
    from chain_after_decision [OF ok good returned(2) st this] returned(2)
    show "(wi_status inst = WI_IN_PROGRESS \<longrightarrow>
        (ws_step_order x < wi_current_step_order inst \<longrightarrow> ws_status x = WS_APPROVED) \<and>
        (ws_step_order x > wi_current_step_order inst \<longrightarrow> ws_status x = WS_PENDING)) \<and>
      (wi_status inst = WI_COMPLETED \<longrightarrow> ws_status x = WS_APPROVED)"
      by (auto simp: awaiting_def)
  qed
  then show ?thesis
    by (rule chain_ok_decision [OF ok good returned(2) st, rotated -1])
      (use chain_returned_frame(2) returned(1) put_self [OF db_ok_keys(4) [OF ok] s(1)] in auto)
qed

interpretation approval_chain: state_invariant workflow_exec chain_ok
  by unfold_locales (auto dest: workflow_exec_effect chain_ok_effect)


section \<open>An abstract chain\<close>

text \<open>
  What the chain of a proposal promises, without tables: it awaits the steps of a list in order; approving
  takes the head, and the last approval sanctions it; a refusal or a return ends it, wherever it stands.
\<close>

datatype chain = Awaiting "int list" | Sanctioned | Refused | Returned | Withdrawn

inductive chain_moves :: "chain \<Rightarrow> chain \<Rightarrow> bool" where
  pass: "chain_moves (Awaiting (o1 # o2 # os)) (Awaiting (o2 # os))"
| sanction: "chain_moves (Awaiting [o1]) Sanctioned"
| refuse: "chain_moves (Awaiting (o1 # os)) Refused"
| return: "chain_moves (Awaiting (o1 # os)) Returned"

definition pending_orders :: "db \<Rightarrow> workflow_instance \<Rightarrow> int list" where
  "pending_orders d i =
     sorted_list_of_set (ws_step_order ` set (filter (\<lambda>s. ws_status s = WS_PENDING) (chain_of d i)))"

definition abs_chain :: "db \<Rightarrow> workflow_instance \<Rightarrow> chain" where
  "abs_chain d i =
     (case wi_status i of
        WI_IN_PROGRESS \<Rightarrow>
          (if list_ex (\<lambda>s. ws_status s = WS_REVISION_REQUESTED) (chain_of d i) then Returned
           else Awaiting (pending_orders d i))
      | WI_COMPLETED \<Rightarrow> Sanctioned
      | WI_REJECTED \<Rightarrow> Refused
      | WI_CANCELLED \<Rightarrow> Withdrawn
      | WI_SUPERSEDED \<Rightarrow> Withdrawn)"

lemma abs_chain_cong: "set (chain_of d' i) = set (chain_of d i) \<Longrightarrow> abs_chain d' i = abs_chain d i"
  unfolding abs_chain_def pending_orders_def list_ex_iff set_filter by (simp only:)

lemma sorted_list_of_set_least:
  fixes a :: int
  assumes "finite A" and "\<forall>k\<in>A. a < k"
  shows "sorted_list_of_set (insert a A) = a # sorted_list_of_set A"
proof -
  have "a \<notin> A" using assms(2) by blast
  then have "sorted_list_of_set (insert a A) = insort a (sorted_list_of_set A)"
    using assms(1) by (simp add: sorted_list_of_set_insert)
  also have "\<dots> = a # sorted_list_of_set A"
    by (rule insort_is_Cons) (use assms in \<open>auto simp: less_imp_le\<close>)
  finally show ?thesis .
qed

lemma pending_orders_head:
  assumes "db_ok d" and "chain_ok d" and aw: "awaiting q d s inst rq"
  shows "pending_orders d inst = ws_step_order s #
    sorted_list_of_set (ws_step_order ` {x \<in> set (chain_of d inst). ws_step_order x > ws_step_order s})"
    (is "_ = _ # sorted_list_of_set ?later")
proof -
  have s: "s \<in> set (chain_of d inst)" "ws_status s = WS_PENDING" "ws_step_order s = wi_current_step_order inst"
    "wi_status inst = WI_IN_PROGRESS" "inst \<in> set (instances d)"
    using aw by (auto simp: awaiting_def)
  have o: "in_order d inst" using assms(2) s(5) by (simp add: chain_ok_def)
  let ?P = "ws_step_order ` {x \<in> set (chain_of d inst). ws_status x = WS_PENDING}"
  have lo: "ws_step_order x \<ge> ws_step_order s" if "x \<in> set (chain_of d inst)" "ws_status x = WS_PENDING" for x
    using o that s(3,4) by (force simp: in_order_def not_less)
  have "?P = insert (ws_step_order s) ?later"
  proof (intro set_eqI iffI)
    fix k assume "k \<in> ?P"
    then obtain x where "x \<in> set (chain_of d inst)" "ws_status x = WS_PENDING" "k = ws_step_order x" by auto
    with lo [of x] show "k \<in> insert (ws_step_order s) ?later" by (cases "k = ws_step_order s") force+
  next
    fix k assume "k \<in> insert (ws_step_order s) ?later"
    then consider "k = ws_step_order s" | x where "x \<in> set (chain_of d inst)" "ws_step_order x > ws_step_order s" "k = ws_step_order x"
      by auto
    then show "k \<in> ?P"
    proof cases
      case 1
      with s(1,2) show ?thesis by blast
    next
      case 2
      with s(3,4) o have "ws_status x = WS_PENDING" by (auto simp: in_order_def)
      with 2 show ?thesis by blast
    qed
  qed
  moreover have "sorted_list_of_set (insert (ws_step_order s) ?later) = ws_step_order s # sorted_list_of_set ?later"
    by (rule sorted_list_of_set_least) auto
  moreover have "pending_orders d inst = sorted_list_of_set ?P"
    unfolding pending_orders_def set_filter by (simp only: Collect_conj_eq)
  ultimately show ?thesis by (simp only:)
qed

text \<open>After the approval of the current step the later ones are pending.\<close>

lemma pending_orders_tail:
  assumes ok: "db_ok d" and good: "chain_ok d" and aw: "awaiting q d s inst rq"
    and st: "steps d' = put ws_id (decided q WS_APPROVED c inst s) (steps d)" and id: "wi_id inst' = wi_id inst"
  shows "pending_orders d' inst' =
    sorted_list_of_set (ws_step_order ` {x \<in> set (chain_of d inst). ws_step_order x > ws_step_order s})"
    and "\<not> list_ex (\<lambda>s. ws_status s = WS_REVISION_REQUESTED) (chain_of d' inst')"
proof -
  have s: "s \<in> set (steps d)" "ws_instance_id s = wi_id inst" "ws_step_order s = wi_current_step_order inst"
    "wi_status inst = WI_IN_PROGRESS" "inst \<in> set (instances d)"
    using aw by (auto simp: awaiting_def)
  have o: "in_order d inst" using good s(5) by (simp add: chain_ok_def)
  note after = chain_after_decision [OF ok good aw st]
  have "{x \<in> set (chain_of d' inst'). ws_status x = WS_PENDING} =
      {x \<in> set (chain_of d inst). ws_step_order x > ws_step_order s}"
  proof (intro set_eqI iffI)
    fix x assume "x \<in> {x \<in> set (chain_of d' inst'). ws_status x = WS_PENDING}"
    with after [of x] s(3) id show "x \<in> {x \<in> set (chain_of d inst). ws_step_order x > ws_step_order s}" by auto
  next
    fix x assume x: "x \<in> {x \<in> set (chain_of d inst). ws_step_order x > ws_step_order s}"
    then have "ws_id x \<noteq> ws_id s" using db_ok_keys(5) [OF ok] s(1) by (auto simp: distinct_map inj_on_def)
    with x have "x \<in> set (steps d')" by (auto simp: st in_put)
    with x o s(3,4) id show "x \<in> {x \<in> set (chain_of d' inst'). ws_status x = WS_PENDING}" by (auto simp: in_order_def)
  qed
  then show "pending_orders d' inst' =
      sorted_list_of_set (ws_step_order ` {x \<in> set (chain_of d inst). ws_step_order x > ws_step_order s})"
    by (simp add: pending_orders_def)
  have "ws_status x \<noteq> WS_REVISION_REQUESTED" if "x \<in> set (chain_of d' inst')" for x
    using that after [of x] id by auto
  then show "\<not> list_ex (\<lambda>s. ws_status s = WS_REVISION_REQUESTED) (chain_of d' inst')" by (auto simp: list_ex_iff)
qed

lemma abs_chain_awaiting:
  assumes "db_ok d" and "chain_ok d" and aw: "awaiting q d s inst rq"
  shows "abs_chain d inst = Awaiting (pending_orders d inst)"
proof -
  have s: "s \<in> set (steps d)" "ws_instance_id s = wi_id inst" "ws_step_order s = wi_current_step_order inst"
    "wi_status inst = WI_IN_PROGRESS" "inst \<in> set (instances d)" "ws_status s = WS_PENDING"
    using aw by (auto simp: awaiting_def)
  have o: "in_order d inst" using assms(2) s(5) by (simp add: chain_ok_def)
  have "ws_status x \<noteq> WS_REVISION_REQUESTED" if "x \<in> set (chain_of d inst)" for x
  proof (cases "ws_step_order x = ws_step_order s")
    case True
    then have "x = s" using step_unique [OF assms(1), of x s] that s(1,2) by simp
    with s(6) show ?thesis by simp
  next
    case False
    then have "ws_step_order x < ws_step_order s \<or> ws_step_order x > ws_step_order s" by linarith
    with o that s(3,4) show ?thesis by (auto simp: in_order_def)
  qed
  then show ?thesis using s(4) by (auto simp: abs_chain_def list_ex_iff)
qed


text \<open>The instance that a decision moves, and how.\<close>

lemma decision_refines:
  assumes "workflow_effect q d d'" and ok: "db_ok d" and good: "chain_ok d"
  shows "\<exists>i i'. i \<in> set (instances d) \<and> wi_id i' = wi_id i \<and> instances d' = put wi_id i' (instances d) \<and>
    chain_moves (abs_chain d i) (abs_chain d' i') \<and>
    (\<forall>j\<in>set (instances d). wi_id j \<noteq> wi_id i \<longrightarrow> abs_chain d' j = abs_chain d j)"
proof -
  have other: "abs_chain d' j = abs_chain d j"
    if "steps d' = put ws_id (decided q st c inst s) (steps d)" "awaiting q d s inst rq" "wi_id j \<noteq> wi_id inst"
    for st c inst s rq j
    by (rule abs_chain_cong, rule chain_of_other [OF that(1)]) (use that(2,3) ok in \<open>auto simp: awaiting_def\<close>)
  note aw = abs_chain_awaiting [OF ok good] pending_orders_head [OF ok good]
  from assms(1) show ?thesis
  proof cases
    case (advanced s inst rq c d1 nxt)
    have st: "steps d' = put ws_id (decided q WS_APPROVED c inst s) (steps d)"
      using interlocks_frame(1) [OF advanced(3)] advanced(1) by simp
    let ?i = "inst\<lparr>wi_current_step_order := ws_step_order nxt\<rparr>"
    let ?later = "ws_step_order ` {x \<in> set (chain_of d inst). ws_step_order x > ws_step_order s}"
    note tail = pending_orders_tail [OF ok good advanced(2) st, of ?i]
    have "nxt \<in> set (chain_of d inst)" "ws_step_order nxt = ws_step_order s + 1"
      using advanced(4) by (auto simp: step_at_def dest: scalar_Some)
    then have "ws_step_order nxt \<in> ?later" by force
    then have "?later \<noteq> {}" by blast
    then obtain o2 os where l: "sorted_list_of_set ?later = o2 # os" by (cases "sorted_list_of_set ?later") auto
    have "abs_chain d' ?i = Awaiting (o2 # os)"
      using tail l advanced(2) by (simp add: abs_chain_def awaiting_def)
    moreover have "abs_chain d inst = Awaiting (ws_step_order s # o2 # os)"
      using aw [OF advanced(2)] l by simp
    ultimately have "chain_moves (abs_chain d inst) (abs_chain d' ?i)" by (simp add: pass)
    then show ?thesis
      using interlocks_frame(2) [OF advanced(3)] advanced(1,2) other [OF st advanced(2)]
      by (intro exI [of _ inst] exI [of _ ?i]) (auto simp: awaiting_def)
  next
    case (completed s inst rq c d1)
    have st: "steps d' = put ws_id (decided q WS_APPROVED c inst s) (steps d)"
      using interlocks_frame(1) [OF completed(2)] complete_chain_frame(1) [OF completed(4)] by simp
    have s: "s \<in> set (steps d)" "ws_instance_id s = wi_id inst" using completed(1) by (auto simp: awaiting_def)
    have g: "gapless (steps d)" using good by (simp add: chain_ok_def)
    have "ws_step_order s \<ge> 1" using g s(1) by (auto simp: gapless_def)
    then have "False" if "x \<in> set (chain_of d inst)" "ws_step_order x > ws_step_order s" for x
      using gapless_next [OF g, of x "ws_step_order s"] that completed(3) by (auto simp: step_at_def scalar_None)
    then have "{x \<in> set (chain_of d inst). ws_step_order x > ws_step_order s} = {}" by blast
    then have l: "sorted_list_of_set (ws_step_order ` {x \<in> set (chain_of d inst). ws_step_order x > ws_step_order s}) = []"
      by simp
    have "abs_chain d inst = Awaiting [ws_step_order s]" using aw [OF completed(1)] l by simp
    then have "chain_moves (abs_chain d inst) (abs_chain d' (inst\<lparr>wi_status := WI_COMPLETED\<rparr>))"
      by (simp add: abs_chain_def [of d'] sanction)
    then show ?thesis
      using interlocks_frame(2) [OF completed(2)] complete_chain_frame(2) [OF completed(4)] completed(1)
        other [OF st completed(1)]
      by (intro exI [of _ inst] exI [of _ "inst\<lparr>wi_status := WI_COMPLETED\<rparr>"]) (auto simp: awaiting_def)
  next
    case (rejected s inst rq m)
    have st: "steps d' = put ws_id (decided q WS_REJECTED (Some m) inst s) (steps d)"
      using chain_rejected_frame(1) rejected(1) by simp
    have "chain_moves (abs_chain d inst) (abs_chain d' (inst\<lparr>wi_status := WI_REJECTED\<rparr>))"
      using aw [OF rejected(2)] by (simp add: abs_chain_def [of d'] refuse)
    then show ?thesis
      using chain_rejected_frame(2) rejected(1,2) other [OF st rejected(2)]
      by (intro exI [of _ inst] exI [of _ "inst\<lparr>wi_status := WI_REJECTED\<rparr>"]) (auto simp: awaiting_def)
  next
    case (returned s inst rq m)
    have st: "steps d' = put ws_id (decided q WS_REVISION_REQUESTED (Some m) inst s) (steps d)"
      using chain_returned_frame(1) returned(1) by simp
    have s: "s \<in> set (steps d)" "inst \<in> set (instances d)" "ws_instance_id s = wi_id inst" "wi_status inst = WI_IN_PROGRESS"
      using returned(2) by (auto simp: awaiting_def)
    have "decided q WS_REVISION_REQUESTED (Some m) inst s \<in> set (chain_of d' inst)"
      using s by (simp add: st put_written)
    then have "list_ex (\<lambda>s. ws_status s = WS_REVISION_REQUESTED) (chain_of d' inst)"
      unfolding list_ex_iff by (rule bexI [rotated]) simp
    then have "chain_moves (abs_chain d inst) (abs_chain d' inst)"
      using aw [OF returned(2)] s(4) by (simp add: abs_chain_def [of d'] chain_moves.return)
    then show ?thesis
      using chain_returned_frame(2) returned(1) s(2) other [OF st returned(2)]
        put_self [OF db_ok_keys(4) [OF ok] s(2)]
      by (intro exI [of _ inst] exI [of _ inst]) auto
  qed
qed

section \<open>Sanctioned proposals\<close>

definition sanctioned_ok :: "db \<Rightarrow> bool" where
  "sanctioned_ok d \<longleftrightarrow>
     (\<forall>rq\<in>set (event_requests d). rq_status rq = RQ_APPROVED \<longrightarrow>
        (\<exists>i\<in>set (instances d). wi_event_request_id i = rq_id rq \<and> wi_status i = WI_COMPLETED) \<and>
        (\<exists>e\<in>set (events d). ev_event_request_id e = rq_id rq))"

lemma sanctioned_ok_keep:
  assumes good: "sanctioned_ok d"
    and rqs: "\<And>r. r \<in> set (event_requests d') \<Longrightarrow> rq_status r = RQ_APPROVED \<Longrightarrow>
       (\<exists>r0\<in>set (event_requests d). rq_id r0 = rq_id r \<and> rq_status r0 = RQ_APPROVED) \<or>
       (\<exists>i\<in>set (instances d'). wi_event_request_id i = rq_id r \<and> wi_status i = WI_COMPLETED) \<and>
       (\<exists>e\<in>set (events d'). ev_event_request_id e = rq_id r)"
    and ins: "\<And>i. i \<in> set (instances d) \<Longrightarrow> wi_status i = WI_COMPLETED \<Longrightarrow> i \<in> set (instances d')"
    and evs: "\<And>e. e \<in> set (events d) \<Longrightarrow> \<exists>e'\<in>set (events d'). ev_event_request_id e' = ev_event_request_id e"
  shows "sanctioned_ok d'"
  unfolding sanctioned_ok_def
proof (intro ballI impI)
  fix r assume r: "r \<in> set (event_requests d')" "rq_status r = RQ_APPROVED"
  from rqs [OF this] show "(\<exists>i\<in>set (instances d'). wi_event_request_id i = rq_id r \<and> wi_status i = WI_COMPLETED) \<and>
      (\<exists>e\<in>set (events d'). ev_event_request_id e = rq_id r)"
  proof
    assume "\<exists>r0\<in>set (event_requests d). rq_id r0 = rq_id r \<and> rq_status r0 = RQ_APPROVED"
    then obtain i e where "i \<in> set (instances d)" "wi_event_request_id i = rq_id r" "wi_status i = WI_COMPLETED"
      "e \<in> set (events d)" "ev_event_request_id e = rq_id r" using good by (auto simp: sanctioned_ok_def)
    with ins [of i] evs [of e] show ?thesis by auto
  qed
qed

lemma sanctioned_ok_effect:
  assumes "workflow_effect q d d'" and ok: "db_ok d" and good: "sanctioned_ok d"
  shows "sanctioned_ok d'"
proof -
  have keep: "i \<in> set (put wi_id i' (instances d))"
    if "awaiting q d s inst rq" "wi_id i' = wi_id inst" "i \<in> set (instances d)" "wi_status i = WI_COMPLETED"
    for s inst rq i i'
    by (rule final_put [where P = "\<lambda>i. wi_status i = WI_COMPLETED", OF db_ok_keys(4) [OF ok] that(3) _ that(4) _ that(2)])
      (use that(1) in \<open>auto simp: awaiting_def\<close>)
  from assms(1) show ?thesis
  proof cases
    case (advanced s inst rq c d1 nxt)
    note f = interlocks_frame [OF advanced(3)]
    show ?thesis
    proof (rule sanctioned_ok_keep [OF good])
      fix r assume "r \<in> set (event_requests d')" "rq_status r = RQ_APPROVED"
      then show "(\<exists>r0\<in>set (event_requests d). rq_id r0 = rq_id r \<and> rq_status r0 = RQ_APPROVED) \<or>
         (\<exists>i\<in>set (instances d'). wi_event_request_id i = rq_id r \<and> wi_status i = WI_COMPLETED) \<and>
         (\<exists>e\<in>set (events d'). ev_event_request_id e = rq_id r)"
        using f advanced(1,2) by (auto simp: awaiting_def in_put split: if_splits)
    qed (use f advanced(1) keep [OF advanced(2)] in auto)
  next
    case (completed s inst rq c d1)
    note f = interlocks_frame [OF completed(2)] and g = complete_chain_frame [OF completed(4)]
    show ?thesis
    proof (rule sanctioned_ok_keep [OF good])
      fix r assume "r \<in> set (event_requests d')" "rq_status r = RQ_APPROVED"
      then consider "r \<in> set (event_requests d)" | "r = rq\<lparr>rq_status := RQ_APPROVED\<rparr>"
        using f g by (auto simp: in_put)
      then show "(\<exists>r0\<in>set (event_requests d). rq_id r0 = rq_id r \<and> rq_status r0 = RQ_APPROVED) \<or>
         (\<exists>i\<in>set (instances d'). wi_event_request_id i = rq_id r \<and> wi_status i = WI_COMPLETED) \<and>
         (\<exists>e\<in>set (events d'). ev_event_request_id e = rq_id r)"
      proof cases
        case 1
        with \<open>rq_status r = RQ_APPROVED\<close> show ?thesis by blast
      next
        case 2
        have "inst\<lparr>wi_status := WI_COMPLETED\<rparr> \<in> set (instances d')"
          using completed(1) f g by (auto simp: awaiting_def put_written)
        then have "\<exists>i\<in>set (instances d'). wi_event_request_id i = rq_id r \<and> wi_status i = WI_COMPLETED"
          by (rule bexI [rotated]) (use completed(1) 2 in \<open>simp add: awaiting_def\<close>)
        with g(6) 2 show ?thesis by simp
      qed
    qed (use f g keep [OF completed(1)] in auto)
  next
    case (rejected s inst rq m)
    show ?thesis
      by (rule sanctioned_ok_keep [OF good])
        (use chain_rejected_frame rejected(1) keep [OF rejected(2)] in \<open>auto simp: in_put\<close>)
  next
    case (returned s inst rq m)
    show ?thesis
      by (rule sanctioned_ok_keep [OF good]) (use chain_returned_frame returned(1) in \<open>auto simp: in_put\<close>)
  qed
qed

interpretation sanctions: state_invariant workflow_exec sanctioned_ok
  by unfold_locales (auto dest: workflow_exec_effect sanctioned_ok_effect)

section \<open>Properties\<close>

definition proposed_campus :: db where
  "proposed_campus = institution\<lparr>
     event_requests := [the_proposal RQ_SUBMITTED], versions := [the_version],
     venue_requests := [venue_wish VR_PENDING], budgets := [the_budget], line_items := [the_line_item]\<rparr>"

definition submitted_campus :: db where
  "submitted_campus = snd (instantiate_workflow (ctx the_secretary (days 1)) (the_proposal RQ_SUBMITTED) proposed_campus)"

text \<open>The same proposal when only the last approver still has to decide.\<close>

definition last_approval_campus :: db where
  "last_approval_campus = submitted_campus\<lparr>
     instances := map (\<lambda>i. i\<lparr>wi_current_step_order := 6\<rparr>) (instances submitted_campus),
     steps := map (\<lambda>s. if ws_step_order s < 6 then s\<lparr>ws_status := WS_APPROVED\<rparr> else s) (steps submitted_campus)\<rparr>"

definition approvals :: "(request \<times> workflow_request) list" where
  "approvals = [(ctx the_dean (days 6), ApproveStep 113 None), (ctx the_principal (days 7), ApproveStep 113 None)]"

lemma submitted_campus_ok: "db_ok submitted_campus" "chain_ok submitted_campus"
  subgoal by code_simp
  subgoal by code_simp
  done

lemma last_approval_campus_ok:
  "db_ok last_approval_campus" "chain_ok last_approval_campus" "sanctioned_ok last_approval_campus"
  subgoal by code_simp
  subgoal by code_simp
  subgoal by code_simp
  done

lemma approvals_result: "map (\<lambda>rq. (rq_id rq, rq_status rq)) (event_requests (run workflow_exec approvals last_approval_campus)) = [(20, RQ_APPROVED)]"
  by code_simp

text \<open>
  A proposal is approved only through its chain: along any decisions of the approvers, an approved proposal
  has a completed workflow instance all of whose steps are approved, and a confirmed event.
\<close>

theorem approved_only_through_the_chain:
  assumes "db_ok d" and "chain_ok d" and "sanctioned_ok d"
    and "rq \<in> set (event_requests (run workflow_exec xs d))" and "rq_status rq = RQ_APPROVED"
  shows "(\<exists>i\<in>set (instances (run workflow_exec xs d)). wi_event_request_id i = rq_id rq \<and>
       (\<forall>s\<in>set (steps (run workflow_exec xs d)). ws_instance_id s = wi_id i \<longrightarrow> ws_status s = WS_APPROVED)) \<and>
    (\<exists>e\<in>set (events (run workflow_exec xs d)). ev_event_request_id e = rq_id rq)"
proof -
  let ?d = "run workflow_exec xs d"
  have c: "chain_ok ?d" using approval_chain.run_good [OF assms(1,2)] .
  obtain i where i: "i \<in> set (instances ?d)" "wi_event_request_id i = rq_id rq" "wi_status i = WI_COMPLETED"
    and e: "\<exists>e\<in>set (events ?d). ev_event_request_id e = rq_id rq"
    using sanctions.run_good [OF assms(1,3), of xs, unfolded sanctioned_ok_def, rule_format, OF assms(4,5)] by blast
  have "in_order ?d i" using c i(1) by (simp add: chain_ok_def)
  then have "\<forall>s\<in>set (steps ?d). ws_instance_id s = wi_id i \<longrightarrow> ws_status s = WS_APPROVED"
    using i(3) by (simp add: in_order_def)
  with i e show ?thesis by blast
qed

lemma approved_only_through_the_chain_witness:
  "\<exists>i. wi_event_request_id i = 20 \<and> i \<in> set (instances (run workflow_exec approvals last_approval_campus)) \<and>
     list_all (\<lambda>s. ws_instance_id s \<noteq> wi_id i \<or> ws_status s = WS_APPROVED)
       (steps (run workflow_exec approvals last_approval_campus))"
proof -
  let ?d = "run workflow_exec approvals last_approval_campus"
  obtain rq where rq: "event_requests ?d = [rq]" "rq_status rq = RQ_APPROVED"
    and "rq_id rq = 20"
    using approvals_result unfolding map_eq_Cons_conv by blast
  have "rq \<in> set (event_requests ?d)" by (simp only: rq(1) list.set) blast
  from approved_only_through_the_chain [OF last_approval_campus_ok this rq(2)]
  obtain i where "i \<in> set (instances ?d)" "wi_event_request_id i = rq_id rq"
    "\<forall>s\<in>set (steps ?d). ws_instance_id s = wi_id i \<longrightarrow> ws_status s = WS_APPROVED" by blast
  then show ?thesis
    unfolding \<open>rq_id rq = 20\<close> list_all_iff by blast
qed

text \<open>
  C14. Refinement: every decision that is served moves exactly one chain, along the abstract chain (the head of the
  awaited steps is passed, the last one sanctions, a refusal or a return ends it), and every other chain of the
  institution stands where it stood.
\<close>

theorem decisions_refine_the_chain:
  assumes "db_ok d" and "chain_ok d" and "workflow_exec q r d = Inr d'"
  shows "\<exists>i i'. i \<in> set (instances d) \<and> wi_id i' = wi_id i \<and> instances d' = put wi_id i' (instances d) \<and>
    chain_moves (abs_chain d i) (abs_chain d' i') \<and>
    (\<forall>j\<in>set (instances d). wi_id j \<noteq> wi_id i \<longrightarrow> abs_chain d' j = abs_chain d j)"
  using decision_refines workflow_exec_effect [OF assms(3)] assms(1,2) by blast

lemma decisions_refine_the_chain_witness:
  "\<exists>d' i'. workflow_exec (ctx the_advisor (days 2)) (ApproveStep 108 (Some ''Fine'')) submitted_campus = Inr d' \<and>
     instances d' = [i'] \<and> chain_moves (Awaiting [1, 2, 3, 4, 5, 6]) (abs_chain d' i') \<and>
     abs_chain d' i' = Awaiting [2, 3, 4, 5, 6]"
proof -
  let ?r = "workflow_exec (ctx the_advisor (days 2)) (ApproveStep 108 (Some ''Fine'')) submitted_campus"
  have r: "?r = Inr (projr ?r)" by (rule Inr_projr) code_simp
  have a: "map (abs_chain submitted_campus) (instances submitted_campus) = [Awaiting [1, 2, 3, 4, 5, 6]]" by code_simp
  have b: "map (abs_chain (projr ?r)) (instances (projr ?r)) = [Awaiting [2, 3, 4, 5, 6]]" by code_simp
  obtain i where i: "instances submitted_campus = [i]" using a unfolding map_eq_Cons_conv by blast
  obtain k k' where k: "k \<in> set (instances submitted_campus)" "wi_id k' = wi_id k"
    "instances (projr ?r) = put wi_id k' (instances submitted_campus)"
    "chain_moves (abs_chain submitted_campus k) (abs_chain (projr ?r) k')"
    using decisions_refine_the_chain [OF submitted_campus_ok(1,2) r] by blast
  have "k = i" using k(1) by (simp only: i list.set) blast
  then have k': "instances (projr ?r) = [k']" using k(2,3) i by (simp only: put_def list.map \<open>k = i\<close> simp_thms if_True)
  show ?thesis
  proof (intro exI conjI)
    show "?r = Inr (projr ?r)" by (rule r)
    show "instances (projr ?r) = [k']" by (rule k')
    show "abs_chain (projr ?r) k' = Awaiting [2, 3, 4, 5, 6]" using b by (simp only: k' list.map list.inject)
    have "abs_chain submitted_campus i = Awaiting [1, 2, 3, 4, 5, 6]" using a by (simp only: i list.map list.inject)
    then show "chain_moves (Awaiting [1, 2, 3, 4, 5, 6]) (abs_chain (projr ?r) k')" using k(4) \<open>k = i\<close> by (simp only:)
  qed
qed

text \<open>
  C15. Who decides: a step that a request has decided was pending and due in an instance in progress; the request came
  from its assignee, or from a holder of the role its template asks for, or, for the first step only, from an
  administrator; and never from the person who submitted the proposal.
\<close>

theorem decision_authority:
  assumes "workflow_exec q r d = Inr d'" and "s' \<in> set (steps d')" and "s' \<notin> set (steps d)"
  shows "\<exists>s\<in>set (steps d). ws_id s = ws_id s' \<and> ws_status s = WS_PENDING \<and>
    (\<exists>inst\<in>set (instances d). ws_instance_id s = wi_id inst \<and> wi_status inst = WI_IN_PROGRESS \<and>
       ws_step_order s = wi_current_step_order inst \<and>
       (\<exists>rq\<in>set (event_requests d). rq_id rq = wi_event_request_id inst \<and> rq_submitted_by rq \<noteq> actor_id q)) \<and>
    (ws_assigned_to s = actor_id q \<or>
     ws_step_order s = 1 \<and> actor_role q = SYSTEM_ADMIN \<or>
     ws_step_order s \<noteq> 1 \<and> (\<exists>t\<in>set (template_steps d). ts_id t = ws_template_step_id s \<and>
        ts_required_role t = actor_role q))"
proof -
  have auth: ?thesis if aw: "awaiting q d s inst rq" and st: "steps d' = put ws_id (decided q st c inst s) (steps d)" for s inst rq st c
  proof -
    have "s' = decided q st c inst s" using assms(2,3) st by (auto dest!: put_rows)
    then have "ws_id s = ws_id s'" by simp
    moreover have "s \<in> set (steps d)" "may_act q d s" using aw by (auto simp: awaiting_def)
    moreover from this(2) have "ws_assigned_to s = actor_id q \<or> ws_step_order s = 1 \<and> actor_role q = SYSTEM_ADMIN \<or>
        ws_step_order s \<noteq> 1 \<and> (\<exists>t\<in>set (template_steps d). ts_id t = ws_template_step_id s \<and>
          ts_required_role t = actor_role q)"
      unfolding may_act_def Let_def by (auto split: if_splits option.splits dest!: row_key)
    moreover have "\<exists>inst\<in>set (instances d). ws_instance_id s = wi_id inst \<and> wi_status inst = WI_IN_PROGRESS \<and>
       ws_step_order s = wi_current_step_order inst \<and>
       (\<exists>rq\<in>set (event_requests d). rq_id rq = wi_event_request_id inst \<and> rq_submitted_by rq \<noteq> actor_id q)"
      using aw unfolding awaiting_def by (intro bexI [of _ inst] conjI bexI [of _ rq]) simp_all
    moreover have "ws_status s = WS_PENDING" using aw by (simp add: awaiting_def)
    ultimately show ?thesis by blast
  qed
  have "workflow_effect q d d'" using workflow_exec_effect [OF assms(1)] by blast
  then show ?thesis
  proof cases
    case (advanced s inst rq c d1 nxt)
    then show ?thesis using auth [OF advanced(2)] interlocks_frame(1) [OF advanced(3)] by simp
  next
    case (completed s inst rq c d1)
    then show ?thesis
      using auth [OF completed(1)] interlocks_frame(1) [OF completed(2)] complete_chain_frame(1) [OF completed(4)] by simp
  next
    case (rejected s inst rq m)
    then show ?thesis using auth [OF rejected(2)] chain_rejected_frame(1) by simp
  next
    case (returned s inst rq m)
    then show ?thesis using auth [OF returned(2)] chain_returned_frame(1) by simp
  qed
qed

lemma decision_authority_witness:
  "\<exists>d' s' s. workflow_exec (ctx the_advisor (days 2)) (ApproveStep 108 None) submitted_campus = Inr d' \<and>
     s' \<in> set (steps d') \<and> ws_status s' = WS_APPROVED \<and> s \<in> set (steps submitted_campus) \<and> ws_id s = ws_id s' \<and>
     ws_status s = WS_PENDING"
proof -
  let ?r = "workflow_exec (ctx the_advisor (days 2)) (ApproveStep 108 None) submitted_campus"
  have r: "?r = Inr (projr ?r)" by (rule Inr_projr) code_simp
  have a: "map ws_status (steps (projr ?r)) = WS_APPROVED # replicate 5 WS_PENDING" by code_simp
  have b: "map ws_status (steps submitted_campus) = replicate 6 WS_PENDING" by code_simp
  obtain s' ss where s': "steps (projr ?r) = s' # ss" "ws_status s' = WS_APPROVED"
    using a unfolding map_eq_Cons_conv by blast
  have "ws_status x = WS_PENDING" if "x \<in> set (steps submitted_campus)" for x
    using b that by (metis in_set_replicate list.set_map imageI)
  then have new: "s' \<notin> set (steps submitted_campus)" using s'(2) by (metis workflow_step_status.distinct)
  have mem: "s' \<in> set (steps (projr ?r))" by (simp only: s'(1) list.set) blast
  from decision_authority [OF r mem new] obtain s where "s \<in> set (steps submitted_campus)" "ws_id s = ws_id s'"
    "ws_status s = WS_PENDING" by blast
  with r mem s'(2) show ?thesis by blast
qed

text \<open>
  The hall check is complete: when the second step passes the application's own conflict query for a proposal that has
  no booking yet, the new booking cannot violate the database's exclusion constraint, provided bookings of the
  hall that overlap its slot carry the same booking date (which is what the query compares first).
\<close>

theorem venue_check_complete:
  assumes ok: "hall_bookings_ok (hall_bookings d)" and confirm: "confirm_venue q rq d = Inr d'"
    and vr: "venue_request_of d (rq_id rq) = Some vr" "vr_end_time vr > vr_start_time vr"
    and new: "booking_of d (rq_id rq) = None" "\<forall>b\<in>set (hall_bookings d). bk_id b \<noteq> next_uuid d"
    and dates: "\<forall>b\<in>set (hall_bookings d). bk_is_active b \<and> bk_hall_id b = vr_hall_id vr \<and>
       slots_overlap (bk_start_time b) (bk_end_time b) (vr_start_time vr) (vr_end_time vr) \<longrightarrow>
         bk_booking_date b = vr_requested_date vr"
  shows "hall_bookings d' = hall_bookings d @ [new_booking q rq vr (next_uuid d)] \<and> hall_bookings_ok (hall_bookings d')"
proof -
  let ?b = "new_booking q rq vr (next_uuid d)"
  have d': "hall_bookings d' = hall_bookings d @ [?b]" and none: "conflicting_booking d rq vr = None"
    using confirm vr(1) new(1) by (auto simp: confirm_venue_def res_simps Let_def)
  have other: "bk_event_request_id b \<noteq> rq_id rq" if "b \<in> set (hall_bookings d)" for b
    using new(1) that by (auto simp: booking_of_def scalar_None)
  have free: "\<not> bookings_clash b ?b" if "b \<in> set (hall_bookings d)" for b
    using none dates other [OF that] that
    by (auto simp: bookings_clash_def conflicting_booking_def scalar_None slots_overlap_def new_booking_def)
  have "excl_hall_bookings_no_overlap (bs @ [?b])"
    if "excl_hall_bookings_no_overlap bs" "\<forall>b\<in>set bs. \<not> bookings_clash b ?b" for bs
    using that by (induction bs) (auto simp: list_all_iff)
  then have "excl_hall_bookings_no_overlap (hall_bookings d @ [?b])"
    using ok free by (auto simp: hall_bookings_ok_def)
  then have "hall_bookings_ok (hall_bookings d')"
    using ok new(2) vr(2) other by (fastforce simp: d' hall_bookings_ok_def new_booking_def)
  with d' show ?thesis by simp
qed

lemma venue_check_complete_witness:
  "\<exists>d'. confirm_venue (ctx the_incharge (days 3)) (the_proposal RQ_SUBMITTED) submitted_campus = Inr d' \<and>
     length (hall_bookings d') = 1 \<and> hall_bookings_ok (hall_bookings d')"
proof -
  let ?q = "ctx the_incharge (days 3)" and ?rq = "the_proposal RQ_SUBMITTED"
  let ?r = "confirm_venue ?q ?rq submitted_campus"
  have r: "?r = Inr (projr ?r)" by (rule Inr_projr) code_simp
  have e: "hall_bookings submitted_campus = []" by code_simp
  have "\<exists>vr. venue_request_of submitted_campus (rq_id ?rq) = Some vr \<and> vr_end_time vr > vr_start_time vr"
    by (rule exI [of _ "venue_wish VR_PENDING"]) code_simp
  then obtain vr where vr: "venue_request_of submitted_campus (rq_id ?rq) = Some vr" "vr_end_time vr > vr_start_time vr"
    by blast
  have "hall_bookings_ok (hall_bookings submitted_campus)" "booking_of submitted_campus (rq_id ?rq) = None"
    by (simp_all add: e hall_bookings_ok_def booking_of_def)
  from venue_check_complete [OF this(1) r vr this(2)] e r show ?thesis by auto
qed

text \<open>
  Nothing but the hall of the second step stands in the way of an approval: the constraints hold of what the
  decision writes, since it keeps every key.
\<close>

lemma map_filter_map: "List.map_filter f t = List.map_filter id (map f t)"
  by (induction t) (auto simp: List.map_filter_simps split: option.splits)

lemma steps_ok_decided:
  assumes "steps_ok t" and "s \<in> set t"
  shows "steps_ok (put ws_id (decided q st c inst s) t)"
proof -
  have "distinct (map ws_id t)" using assms(1) by (simp add: steps_ok_def)
  from map_put [OF this assms(2), of "decided q st c inst s" "\<lambda>s. (ws_instance_id s, ws_step_order s)"]
  show ?thesis using assms(1) by (simp add: steps_ok_def)
qed

lemma requests_ok_status:
  assumes "requests_ok t" and "rq \<in> set t"
  shows "requests_ok (put rq_id (rq\<lparr>rq_status := st\<rparr>) t)"
proof -
  have d: "distinct (map rq_id t)" using assms(1) by (simp add: requests_ok_def)
  have "map rq_idempotency_key (put rq_id (rq\<lparr>rq_status := st\<rparr>) t) = map rq_idempotency_key t"
    by (rule map_put [OF d assms(2)]) simp_all
  then have "List.map_filter rq_idempotency_key (put rq_id (rq\<lparr>rq_status := st\<rparr>) t) = List.map_filter rq_idempotency_key t"
    by (metis map_filter_map)
  with assms show ?thesis by (auto simp: requests_ok_def list_all_iff dest!: put_rows)
qed

lemma budgets_ok_verdict:
  assumes "budgets_ok t" and "b \<in> set t"
  shows "budgets_ok (put bp_id (b\<lparr>bp_finance_status := st, bp_finance_verified_by := v,
    bp_finance_verified_at := w, bp_finance_notes := n\<rparr>) t)" (is "budgets_ok (put bp_id ?b t)")
proof -
  have "distinct (map bp_id t)" using assms(1) by (simp add: budgets_ok_def)
  from map_put [OF this assms(2), of ?b bp_event_request_id] assms show ?thesis
    by (auto simp: budgets_ok_def list_all_iff dest!: put_rows)
qed

lemma pass_budget_ok: "db_ok d \<Longrightarrow> db_ok (pass_budget q rq c d)"
  by (auto simp: pass_budget_def budget_of_def db_ok_def budgets_ok_verdict dest!: scalar_Some split: option.splits)

lemma pass_budget_more [simp]: "event_requests (pass_budget q rq c d) = event_requests d"
  by (simp add: pass_budget_def split: option.splits)

lemma db_ok_advance:
  assumes "db_ok d" and "inst \<in> set (instances d)" and "rq \<in> set (event_requests d)"
  shows "db_ok (advance_chain q s inst rq nxt d)"
  using assms requests_ok_status [of "event_requests d" rq] put_self [of rq_id "event_requests d" rq]
  by (auto simp: db_ok_def requests_ok_def advance_chain_def Let_def decision_entry_def)

text \<open>
  C16. Liveness of the chain: whoever may decide the pending step at the pointer, and is not the proposal's submitter,
  can approve it; unless it is the hall check of the second step or the last step, the approval is served and
  moves the pointer to the next step, whatever else the tables hold.
\<close>

theorem approver_can_advance:
  assumes ok: "db_ok d"
    and rows: "s \<in> set (steps d)" "inst \<in> set (instances d)" "rq \<in> set (event_requests d)"
      "ws_instance_id s = wi_id inst" "wi_event_request_id inst = rq_id rq"
    and due: "ws_status s = WS_PENDING" "wi_status inst = WI_IN_PROGRESS" "ws_step_order s = wi_current_step_order inst"
    and actor: "rq_submitted_by rq \<noteq> actor_id q" "may_act q d s"
    and plain: "ws_step_order s \<noteq> 2" and nxt: "step_at d (wi_id inst) (ws_step_order s + 1) = Some nxt"
  shows "\<exists>d'. workflow_exec q (ApproveStep (ws_id s) None) d = Inr d' \<and>
    inst\<lparr>wi_current_step_order := wi_current_step_order inst + 1\<rparr> \<in> set (instances d')"
proof -
  have dec: "decidable_step q (ws_id s) d = Inr (s, inst, rq)"
    using row_unique [OF db_ok_keys(5) [OF ok] rows(1)] row_unique [OF db_ok_keys(4) [OF ok] rows(2)]
      row_unique [OF db_ok_keys(2) [OF ok] rows(3)] rows(4,5) due actor
    by (simp add: decidable_step_def res_simps)
  let ?d0 = "store_decision q WS_APPROVED None inst s d"
  have d0: "db_ok ?d0" using ok rows(1) by (simp add: db_ok_def store_decision_def steps_ok_decided)
  define d1 where "d1 = (if ws_step_order s = 3 then pass_budget q rq None ?d0 else ?d0)"
  have i: "interlocks q s rq None ?d0 = Inr d1" using plain by (simp add: interlocks_def d1_def)
  have d1: "db_ok d1" "instances d1 = instances d" "event_requests d1 = event_requests d"
    using d0 pass_budget_ok [OF d0] by (auto simp: d1_def)
  have d2: "db_ok (advance_chain q s inst rq nxt d1)" by (rule db_ok_advance) (use d1 rows in auto)
  have n: "ws_step_order nxt = wi_current_step_order inst + 1"
    using nxt due(3) by (auto simp: step_at_def dest!: scalar_Some)
  have "approve_step q (ws_id s) None d = Inr (decided q WS_APPROVED None inst s, advance_chain q s inst rq nxt d1)"
    using d2 by (simp add: approve_step_def dec i nxt commit_def)
  moreover have "inst\<lparr>wi_current_step_order := ws_step_order nxt\<rparr> \<in> set (instances (advance_chain q s inst rq nxt d1))"
    using rows(2) by (simp add: d1(2) put_written)
  ultimately show ?thesis by (auto simp: n opt_len_between_def)
qed

lemma approver_can_advance_witness:
  "\<exists>d' i. workflow_exec (ctx the_advisor (days 2)) (ApproveStep 108 None) submitted_campus = Inr d' \<and>
     i \<in> set (instances d') \<and> wi_current_step_order i = 2"
proof -
  have "map (\<lambda>s. (ws_id s, ws_instance_id s, ws_status s, ws_step_order s, may_act (ctx the_advisor (days 2)) submitted_campus s))
      (take 1 (steps submitted_campus)) = [(108, 107, WS_PENDING, 1, True)]" by code_simp
  then obtain s where s: "s \<in> set (steps submitted_campus)" "ws_id s = 108" "ws_instance_id s = 107" "ws_status s = WS_PENDING"
      "ws_step_order s = 1" "may_act (ctx the_advisor (days 2)) submitted_campus s"
    using in_set_takeD [of _ 1 "steps submitted_campus"] unfolding map_eq_Cons_conv by fastforce
  have "map (\<lambda>i. (wi_id i, wi_event_request_id i, wi_status i, wi_current_step_order i)) (instances submitted_campus) =
      [(107, 20, WI_IN_PROGRESS, 1)]" by code_simp
  then obtain i where i: "instances submitted_campus = [i]" "wi_id i = 107" "wi_event_request_id i = 20"
      "wi_status i = WI_IN_PROGRESS" "wi_current_step_order i = 1" unfolding map_eq_Cons_conv by auto
  have "map (\<lambda>rq. (rq_id rq, rq_submitted_by rq \<noteq> actor_id (ctx the_advisor (days 2)))) (event_requests submitted_campus) =
      [(20, True)]" by code_simp
  then obtain rq where rq: "event_requests submitted_campus = [rq]" "rq_id rq = 20"
      "rq_submitted_by rq \<noteq> actor_id (ctx the_advisor (days 2))" unfolding map_eq_Cons_conv by auto
  have "map_option ws_step_order (step_at submitted_campus 107 2) = Some 2" by code_simp
  then obtain n where n: "step_at submitted_campus 107 2 = Some n" by auto
  have m: "i \<in> set (instances submitted_campus)" "rq \<in> set (event_requests submitted_campus)" by (simp_all only: i rq list.set) blast+
  obtain d' where "workflow_exec (ctx the_advisor (days 2)) (ApproveStep (ws_id s) None) submitted_campus = Inr d'"
    "i\<lparr>wi_current_step_order := wi_current_step_order i + 1\<rparr> \<in> set (instances d')"
    using approver_can_advance [OF submitted_campus_ok(1) s(1) m _ _ s(4) i(4) _ rq(3) s(6), of n] s(3,5) i(2,3,5) rq(2) n by auto
  then show ?thesis using s(2) i(5) by (intro exI [of _ d'] exI conjI) auto
qed

end
