(* ===== verification/Dashboard.thy ===== *)
theory Dashboard
  imports Chain "HOL-Library.Multiset"
begin

text \<open>
  \<open>src/backend/app/services/dashboard_service.py\<close>: the counters and recent rows each kind of role sees. The
  reviewers' counters are compared with what the workflow engine would let the reviewer do, and the approvals in
  the audit log with the approved steps.
\<close>

section \<open>Metrics\<close>

record activity =
  ac_action :: audit_action
  ac_entity_type :: string
  ac_entity_id :: "uuid option"
  ac_created_at :: time

record secretary_metrics =
  draft_count :: nat
  submitted_count :: nat
  in_review_count :: nat
  revision_required_count :: nat
  approved_count :: nat
  rejected_count :: nat
  recent_events :: "(event_request \<times> string option) list"

record reviewer_metrics =
  pending_actions :: nat
  completed_approvals :: nat
  recent_workflow_activity :: "activity list"

record admin_metrics =
  total_users :: nat
  total_clubs :: nat
  total_events :: nat
  pending_proposals :: nat
  active_users :: nat
  recent_activity :: "(string option \<times> activity) list"

text \<open>The response carries the metrics of one of the three kinds of role.\<close>

datatype dashboard = Admin admin_metrics | Secretary secretary_metrics | Reviewer reviewer_metrics

section \<open>Aggregation\<close>

definition activity_of :: "audit_log \<Rightarrow> activity" where
  "activity_of a =
     \<lparr>ac_action = al_action a, ac_entity_type = al_entity_type a, ac_entity_id = al_entity_id a, ac_created_at = al_created_at a\<rparr>"

text \<open>\<open>select(func.count()).where(...)\<close>, and the ten newest rows.\<close>

definition count_of :: "('r \<Rightarrow> bool) \<Rightarrow> 'r list \<Rightarrow> nat" where
  "count_of p t = length (filter p t)"

definition newest :: "('r \<Rightarrow> time) \<Rightarrow> 'r list \<Rightarrow> 'r list" where
  "newest f t = take 10 (sort_key (\<lambda>x. - f x) t)"

definition admin_dashboard :: "db \<Rightarrow> admin_metrics" where
  "admin_dashboard d =
     \<lparr>total_users = count_of (\<lambda>u. us_deleted_at u = None) (users d),
      total_clubs = count_of (\<lambda>c. cl_deleted_at c = None) (clubs d),
      total_events = count_of (\<lambda>r. rq_deleted_at r = None) (event_requests d),
      pending_proposals = count_of (\<lambda>r. rq_status r \<in> {RQ_SUBMITTED, RQ_IN_REVIEW} \<and> rq_deleted_at r = None) (event_requests d),
      active_users = count_of (\<lambda>u. us_is_active u \<and> us_deleted_at u = None) (users d),
      recent_activity = map (\<lambda>a. (al_actor_email a, activity_of a)) (newest al_created_at (audit_logs d))\<rparr>"

definition secretary_clubs :: "request \<Rightarrow> db \<Rightarrow> uuid list" where
  "secretary_clubs q d =
     map cm_club_id (filter (\<lambda>m. cm_user_id m = actor_id q \<and> cm_member_role m = MR_SECRETARY \<and> cm_is_active m) (club_members d))"

text \<open>The proposals of the secretary's clubs; those the user submitted when there is no such club.\<close>

definition own_proposal :: "request \<Rightarrow> db \<Rightarrow> event_request \<Rightarrow> bool" where
  "own_proposal q d r =
     (if secretary_clubs q d \<noteq> [] then rq_club_id r \<in> set (secretary_clubs q d) else rq_submitted_by r = actor_id q)"

definition count_status :: "request \<Rightarrow> db \<Rightarrow> event_request_status \<Rightarrow> nat" where
  "count_status q d st = count_of (\<lambda>r. own_proposal q d r \<and> rq_status r = st \<and> rq_deleted_at r = None) (event_requests d)"

definition secretary_dashboard :: "request \<Rightarrow> db \<Rightarrow> secretary_metrics" where
  "secretary_dashboard q d =
     \<lparr>draft_count = count_status q d RQ_DRAFT, submitted_count = count_status q d RQ_SUBMITTED,
      in_review_count = count_status q d RQ_IN_REVIEW, revision_required_count = count_status q d RQ_REVISION_REQUIRED,
      approved_count = count_status q d RQ_APPROVED, rejected_count = count_status q d RQ_REJECTED,
      recent_events =
        map (\<lambda>r. (r, map_option cl_name (row cl_id (rq_club_id r) (clubs d))))
          (newest rq_created_at (filter (\<lambda>r. own_proposal q d r \<and> rq_deleted_at r = None) (event_requests d)))\<rparr>"

definition awaits_action :: "request \<Rightarrow> db \<Rightarrow> workflow_instance_step \<Rightarrow> bool" where
  "awaits_action q d s =
     (case (row wi_id (ws_instance_id s) (instances d), row ts_id (ws_template_step_id s) (template_steps d)) of
        (Some inst, Some t) \<Rightarrow>
          ws_status s = WS_PENDING \<and> ws_step_order s = wi_current_step_order inst \<and> wi_status inst = WI_IN_PROGRESS \<and>
          (ws_assigned_to s = actor_id q \<or> actor_role q \<noteq> FACULTY_ADVISOR \<and> ts_required_role t = actor_role q)
      | _ \<Rightarrow> False)"

definition approval_entry :: "audit_log \<Rightarrow> bool" where
  "approval_entry a \<longleftrightarrow> al_action a = A_PROPOSAL_APPROVED \<and> al_entity_type a = ''workflow_step''"

definition reviewer_dashboard :: "request \<Rightarrow> db \<Rightarrow> reviewer_metrics" where
  "reviewer_dashboard q d =
     \<lparr>pending_actions = count_of (awaits_action q d) (steps d),
      completed_approvals = count_of (\<lambda>a. al_actor_id a = Some (actor_id q) \<and> approval_entry a) (audit_logs d),
      recent_workflow_activity =
        map activity_of (newest al_created_at (filter (\<lambda>a. al_actor_id a = Some (actor_id q)) (audit_logs d)))\<rparr>"

definition get_dashboard :: "request \<Rightarrow> db \<Rightarrow> dashboard" where
  "get_dashboard q d =
     (if actor_role q = SYSTEM_ADMIN then Admin (admin_dashboard d)
      else if actor_role q = CLUB_SECRETARY then Secretary (secretary_dashboard q d)
      else Reviewer (reviewer_dashboard q d))"

section \<open>What is counted\<close>

text \<open>A step that awaits a reviewer is one the reviewer may decide.\<close>

lemma awaits_decidable:
  assumes ok: "db_ok d" and s: "s \<in> set (steps d)" and role: "actor_role q \<notin> {SYSTEM_ADMIN, FACULTY_ADVISOR}"
    and subm: "\<forall>i\<in>set (instances d). \<exists>rq\<in>set (event_requests d). rq_id rq = wi_event_request_id i \<and> rq_submitted_by rq \<noteq> actor_id q"
    and tmpl: "\<forall>s\<in>set (steps d). \<exists>t\<in>set (template_steps d). ts_id t = ws_template_step_id s \<and>
                 (ws_step_order s = 1 \<longrightarrow> ts_required_role t \<noteq> actor_role q)"
  shows "awaits_action q d s \<longleftrightarrow> \<not> isl (decidable_step q (ws_id s) d)"
proof -
  note keys = db_ok_keys [OF ok]
  have row: "row ws_id (ws_id s) (steps d) = Some s" by (rule row_unique [OF keys(5) s])
  obtain t where t: "row ts_id (ws_template_step_id s) (template_steps d) = Some t"
    "ws_step_order s = 1 \<longrightarrow> ts_required_role t \<noteq> actor_role q"
  proof -
    from tmpl s obtain t where t: "t \<in> set (template_steps d)" "ts_id t = ws_template_step_id s"
      "ws_step_order s = 1 \<longrightarrow> ts_required_role t \<noteq> actor_role q" by blast
    have "distinct (map ts_id (template_steps d))" using ok by (simp add: db_ok_def template_steps_ok_def)
    from row_unique [OF this t(1)] t that show ?thesis by simp
  qed
  show ?thesis
  proof (cases "row wi_id (ws_instance_id s) (instances d)")
    case None
    then show ?thesis by (simp add: awaits_action_def decidable_step_def row)
  next
    case (Some inst)
    with subm row_key [OF Some] obtain rq where "rq \<in> set (event_requests d)" "rq_id rq = wi_event_request_id inst"
      "rq_submitted_by rq \<noteq> actor_id q" by blast
    with row_unique [OF keys(2)] have rq: "row rq_id (wi_event_request_id inst) (event_requests d) = Some rq" "rq_submitted_by rq \<noteq> actor_id q"
      by metis+
    show ?thesis
      using role t by (auto simp: awaits_action_def decidable_step_def row Some rq may_act_def Let_def require_def)
  qed
qed

section \<open>Approvals and the audit log\<close>

text \<open>The approvals on record are those of the approved steps, each once.\<close>

definition is_approved :: "workflow_instance_step \<Rightarrow> bool" where
  "is_approved s \<longleftrightarrow> ws_status s = WS_APPROVED"

definition approvals_on_record :: "db \<Rightarrow> uuid option list" where
  "approvals_on_record d = map al_entity_id (filter approval_entry (audit_logs d))"

definition approved_steps :: "workflow_instance_step list \<Rightarrow> uuid option list" where
  "approved_steps ss = map (\<lambda>s. Some (ws_id s)) (filter is_approved ss)"

definition reconciled :: "db \<Rightarrow> bool" where
  "reconciled d \<longleftrightarrow> mset (approvals_on_record d) = mset (approved_steps (steps d))"

lemma approved_put:
  assumes "distinct (map ws_id ss)" and "s \<in> set ss" and "\<not> is_approved s" and "ws_id r = ws_id s"
  shows "mset (approved_steps (put ws_id r ss)) = mset (approved_steps ss) + (if is_approved r then {#Some (ws_id s)#} else {#})"
  using assms
proof (induction ss)
  case (Cons x xs)
  show ?case
  proof (cases "x = s")
    case True
    with Cons.prems have "ws_id r \<notin> ws_id ` set xs" by simp
    then have "put ws_id r xs = xs" unfolding put_def by (intro map_idI) (metis imageI)
    with True Cons.prems show ?thesis by (simp add: put_simps approved_steps_def)
  next
    case False
    with Cons.prems have "s \<in> set xs" "ws_id x \<noteq> ws_id r" by auto
    with Cons show ?thesis by (simp add: put_simps approved_steps_def)
  qed
qed simp

lemma is_approved_decided [simp]: "is_approved (decided q st c inst s) \<longleftrightarrow> st = WS_APPROVED"
  by (simp add: is_approved_def)

lemma decision_entry_approvals [simp]:
  "approvals_on_record (decision_entry q a s j d) =
     approvals_on_record d @ (if a = A_PROPOSAL_APPROVED then [Some (ws_id s)] else [])"
  by (simp add: approvals_on_record_def decision_entry_def add_audit_def approval_entry_def audit_entry_def)

lemma approvals_cong: "audit_logs d' = audit_logs d \<Longrightarrow> approvals_on_record d' = approvals_on_record d"
  by (simp add: approvals_on_record_def)

lemma complete_chain_approvals:
  assumes "complete_chain q s inst rq bs d = Inr d'"
  shows "approvals_on_record d' = approvals_on_record d @ [Some (ws_id s)]"
proof -
  let ?d = "d\<lparr>instances := put wi_id (inst\<lparr>wi_status := WI_COMPLETED\<rparr>) (instances d),
         event_requests := put rq_id (rq\<lparr>rq_status := RQ_APPROVED\<rparr>) (event_requests d)\<rparr>"
  from assms obtain x j where x: "create_confirmed_event q (rq\<lparr>rq_status := RQ_APPROVED\<rparr>) bs ?d = Inr x"
    and d': "d' = decision_entry q A_PROPOSAL_APPROVED s j
        (create_notification q (rq_submitted_by rq) N_PROPOSAL_APPROVED (Some (rq_id rq)) (snd x))"
    unfolding complete_chain_def Let_def and_then_Inr by (auto simp: split_beta)
  from x have "approvals_on_record (snd x) = approvals_on_record d"
    by (auto simp: approvals_on_record_def create_confirmed_event_def res_simps Let_def add_audit_def approval_entry_def
        audit_entry_def split: option.splits)
  moreover have "approvals_on_record (create_notification q (rq_submitted_by rq) N_PROPOSAL_APPROVED (Some (rq_id rq)) (snd x)) =
      approvals_on_record (snd x)" by (rule approvals_cong) simp
  ultimately show ?thesis by (simp add: d')
qed

lemma decision_approvals:
  "approvals_on_record (advance_chain q s inst rq nxt d) = approvals_on_record d @ [Some (ws_id s)]"
  "approvals_on_record (chain_rejected q s inst rq c d) = approvals_on_record d"
  "approvals_on_record (chain_returned q s inst rq c d) = approvals_on_record d"
  by (simp_all add: advance_chain_def chain_rejected_def chain_returned_def Let_def) (intro conjI impI approvals_cong; simp)+

lemma reconciled_effect:
  "workflow_effect q d d' \<Longrightarrow> db_ok d \<Longrightarrow> reconciled d \<Longrightarrow> reconciled d'"
proof (induction rule: workflow_effect.induct)
  case (advanced s inst rq c d1 nxt)
  then have s: "s \<in> set (steps d)" "\<not> is_approved s" by (simp_all add: awaiting_def is_approved_def)
  have "approvals_on_record d1 = approvals_on_record d"
    by (rule approvals_cong) (simp add: interlocks_frame(5) [OF advanced(2)])
  with approved_put [OF db_ok_keys(5) [OF advanced(4)] s, of "decided q WS_APPROVED c inst s"] advanced(5)
    interlocks_frame(1) [OF advanced(2)]
  show ?case by (simp add: reconciled_def decision_approvals)
next
  case (completed s inst rq c d1 d')
  then have s: "s \<in> set (steps d)" "\<not> is_approved s" by (simp_all add: awaiting_def is_approved_def)
  have "approvals_on_record d1 = approvals_on_record d"
    by (rule approvals_cong) (simp add: interlocks_frame(5) [OF completed(2)])
  with approved_put [OF db_ok_keys(5) [OF completed(5)] s, of "decided q WS_APPROVED c inst s"] completed(6)
    interlocks_frame(1) [OF completed(2)] complete_chain_approvals [OF completed(4)] complete_chain_frame(1) [OF completed(4)]
  show ?case by (simp add: reconciled_def)
next
  case (rejected s inst rq m)
  then have s: "s \<in> set (steps d)" "\<not> is_approved s" by (simp_all add: awaiting_def is_approved_def)
  from approved_put [OF db_ok_keys(5) [OF rejected(2)] s, of "decided q WS_REJECTED (Some m) inst s"] rejected(3)
  show ?case by (simp add: reconciled_def chain_rejected_frame(1) decision_approvals)
next
  case (returned s inst rq m)
  then have s: "s \<in> set (steps d)" "\<not> is_approved s" by (simp_all add: awaiting_def is_approved_def)
  from approved_put [OF db_ok_keys(5) [OF returned(2)] s, of "decided q WS_REVISION_REQUESTED (Some m) inst s"] returned(3)
  show ?case by (simp add: reconciled_def chain_returned_frame(1) decision_approvals)
qed

interpretation approval_records: state_invariant workflow_exec reconciled
  by unfold_locales (auto dest: workflow_exec_effect reconciled_effect)

section \<open>Properties\<close>


definition first_approval :: "(request \<times> workflow_request) list" where
  "first_approval = [(ctx the_advisor (days 2), ApproveStep 108 None)]"


end
