(* ===== verification/Resources.thy ===== *)
theory Resources
  imports Scenario
begin

text \<open>
  Resource requests of a proposal: \<open>src/backend/app/api/v1/endpoints/resources.py\<close>, whose endpoints hold their
  rules themselves, and \<open>schemas/resource.py\<close>. The requirements can only change while the proposal can.
\<close>

section \<open>Requests\<close>

record resource_create =
  rc_resource_type :: resource_type
  rc_quantity :: int
  rc_notes :: "string option"

definition resource_create_schema :: "resource_create \<Rightarrow> resource_create res" where
  "resource_create_schema p = require (rc_quantity p > 0) RequestValidationError (Inr p)"

definition verify_event_edit_permission :: "request \<Rightarrow> event_request \<Rightarrow> db \<Rightarrow> unit res" where
  "verify_event_edit_permission q ev d =
     require (rq_status ev \<in> {RQ_DRAFT, RQ_REVISION_REQUIRED}) WorkflowStateError (
     if actor_role q = SYSTEM_ADMIN \<or> rq_submitted_by ev = actor_id q then Inr ()
     else fetch (secretary_membership d (rq_club_id ev) (actor_id q)) ForbiddenError (\<lambda>_. Inr ()))"

definition living_request :: "uuid \<Rightarrow> db \<Rightarrow> event_request res" where
  "living_request event_id d =
     fetch (row rq_id event_id (event_requests d)) NotFoundError (\<lambda>ev.
     require (rq_deleted_at ev = None) NotFoundError (Inr ev))"

definition new_resource :: "request \<Rightarrow> uuid \<Rightarrow> resource_create \<Rightarrow> uuid \<Rightarrow> resource_request" where
  "new_resource q event_id p i =
     \<lparr>rr_id = i, rr_event_request_id = event_id, rr_resource_type = rc_resource_type p, rr_quantity = rc_quantity p,
      rr_notes = rc_notes p, rr_status = RR_PENDING, rr_managed_by = None, rr_created_at = now q\<rparr>"

definition create_resource_request :: "request \<Rightarrow> uuid \<Rightarrow> resource_create \<Rightarrow> db \<Rightarrow> (resource_request \<times> db) res" where
  "create_resource_request q event_id p d =
     require (actor_role q \<in> {CLUB_SECRETARY, SYSTEM_ADMIN}) InsufficientRoleError (
     and_then (resource_create_schema p) (\<lambda>p.
     and_then (living_request event_id d) (\<lambda>ev.
     and_then (verify_event_edit_permission q ev d) (\<lambda>_.
     let r = new_resource q event_id p (next_uuid d)
     in commit IntegrityError r (d\<lparr>resource_requests := resource_requests d @ [r], next_uuid := Suc (next_uuid d)\<rparr>)))))"

definition list_resource_requests :: "uuid \<Rightarrow> db \<Rightarrow> resource_request list res" where
  "list_resource_requests event_id d =
     and_then (living_request event_id d) (\<lambda>_.
     Inr (sort_key rr_created_at (filter (\<lambda>r. rr_event_request_id r = event_id) (resource_requests d))))"

definition delete_resource_request :: "request \<Rightarrow> uuid \<Rightarrow> uuid \<Rightarrow> db \<Rightarrow> (unit \<times> db) res" where
  "delete_resource_request q event_id resource_id d =
     require (actor_role q \<in> {CLUB_SECRETARY, SYSTEM_ADMIN}) InsufficientRoleError (
     and_then (living_request event_id d) (\<lambda>ev.
     and_then (verify_event_edit_permission q ev d) (\<lambda>_.
     fetch (scalar (\<lambda>r. rr_id r = resource_id \<and> rr_event_request_id r = event_id) (resource_requests d)) NotFoundError (\<lambda>r.
     commit IntegrityError () (d\<lparr>resource_requests := remove_row rr_id r (resource_requests d)\<rparr>)))))"

datatype resource_op = AddResource uuid resource_create | DropResource uuid uuid

fun resource_exec :: "request \<Rightarrow> resource_op \<Rightarrow> db \<Rightarrow> db res" where
  "resource_exec q (AddResource i p) d = db_of (create_resource_request q i p d)"
| "resource_exec q (DropResource i r) d = db_of (delete_resource_request q i r d)"

section \<open>What the requests change\<close>

text \<open>A proposal whose resources the acting user may change.\<close>

definition open_for :: "request \<Rightarrow> db \<Rightarrow> event_request \<Rightarrow> bool" where
  "open_for q d ev \<longleftrightarrow>
     ev \<in> set (event_requests d) \<and> rq_deleted_at ev = None \<and> rq_status ev \<in> {RQ_DRAFT, RQ_REVISION_REQUIRED} \<and>
     actor_role q \<in> {CLUB_SECRETARY, SYSTEM_ADMIN} \<and>
     (actor_role q = SYSTEM_ADMIN \<or> rq_submitted_by ev = actor_id q \<or>
        (\<exists>m\<in>set (club_members d). cm_club_id m = rq_club_id ev \<and> cm_user_id m = actor_id q \<and>
           cm_member_role m = MR_SECRETARY \<and> cm_is_active m))"

inductive resource_effect :: "request \<Rightarrow> db \<Rightarrow> db \<Rightarrow> bool" for q d where
  added: "open_for q d ev \<Longrightarrow> r = new_resource q (rq_id ev) p n \<Longrightarrow>
     resource_effect q d (d\<lparr>resource_requests := resource_requests d @ [r], next_uuid := Suc n\<rparr>)"
| dropped: "open_for q d ev \<Longrightarrow> r \<in> set (resource_requests d) \<Longrightarrow> rr_event_request_id r = rq_id ev \<Longrightarrow>
     resource_effect q d (d\<lparr>resource_requests := remove_row rr_id r (resource_requests d)\<rparr>)"

lemma edit_permission_open:
  assumes "living_request i d = Inr ev" and "verify_event_edit_permission q ev d = Inr u" and "actor_role q \<in> {CLUB_SECRETARY, SYSTEM_ADMIN}"
  shows "open_for q d ev \<and> rq_id ev = i"
  using assms
  by (auto simp: living_request_def verify_event_edit_permission_def open_for_def secretary_membership_def res_simps
      split: if_splits dest!: row_key scalar_Some)

lemma resource_exec_effect:
  assumes "resource_exec q r d = Inr d'"
  shows "resource_effect q d d' \<and> db_ok d'"
proof (cases r)
  case (AddResource i p)
  with assms obtain ev where e: "living_request i d = Inr ev" "verify_event_edit_permission q ev d = Inr ()"
      "actor_role q \<in> {CLUB_SECRETARY, SYSTEM_ADMIN}"
    and d': "d' = d\<lparr>resource_requests := resource_requests d @ [new_resource q i p (next_uuid d)], next_uuid := Suc (next_uuid d)\<rparr>"
      "db_ok d'"
    by (auto simp: create_resource_request_def resource_create_schema_def res_simps Let_def simp del: insert_iff)
  from edit_permission_open [OF e] added [of q d ev _ p "next_uuid d"] d' show ?thesis by metis
next
  case (DropResource i k)
  with assms obtain ev x where e: "living_request i d = Inr ev" "verify_event_edit_permission q ev d = Inr ()"
      "actor_role q \<in> {CLUB_SECRETARY, SYSTEM_ADMIN}"
    and x: "scalar (\<lambda>r. rr_id r = k \<and> rr_event_request_id r = i) (resource_requests d) = Some x"
    and d': "d' = d\<lparr>resource_requests := remove_row rr_id x (resource_requests d)\<rparr>" "db_ok d'"
    by (auto simp: delete_resource_request_def res_simps simp del: insert_iff)
  from edit_permission_open [OF e] dropped [of q d ev x] scalar_Some [OF x] d' show ?thesis by metis
qed

lemma resource_effect_frame: "resource_effect q d d' \<Longrightarrow> event_requests d' = event_requests d \<and> audit_logs d' = audit_logs d"
  by (induction rule: resource_effect.induct) simp_all

interpretation resource_service: audited_service resource_exec
proof unfold_locales
  fix d q r d'
  assume "resource_exec q r d = Inr d'"
  from resource_exec_effect [OF this] show "db_ok d'" "signed q d d'"
    using resource_effect_frame [of q d d'] by (simp_all add: signed_silent)
qed

text \<open>The resources of a proposal.\<close>

definition resources_of :: "uuid \<Rightarrow> db \<Rightarrow> resource_request list" where
  "resources_of i d = filter (\<lambda>r. rr_event_request_id r = i) (resource_requests d)"

lemma resources_of_effect:
  "resource_effect q d d' \<Longrightarrow> db_ok d \<Longrightarrow> \<forall>ev\<in>set (event_requests d). rq_id ev = i \<longrightarrow> \<not> open_for q d ev \<Longrightarrow>
    resources_of i d' = resources_of i d"
proof (induction rule: resource_effect.induct)
  case (added ev r p n)
  then have "rq_id ev \<noteq> i" by (auto simp: open_for_def)
  with added(2) show ?case by (simp add: resources_of_def new_resource_def)
next
  case (dropped ev r)
  then have i: "rr_event_request_id r \<noteq> i" by (auto simp: open_for_def)
  have "distinct (map rr_id (resource_requests d))" using dropped(4) by (simp add: db_ok_def resource_requests_ok_def)
  then have same: "\<forall>x\<in>set (resource_requests d). rr_id x = rr_id r \<longrightarrow> x = r"
    using dropped(2) by (auto simp: distinct_map inj_on_def)
  have "filter (\<lambda>x. rr_event_request_id x = i) (filter (\<lambda>x. rr_id x \<noteq> rr_id r) (resource_requests d)) =
      filter (\<lambda>x. rr_event_request_id x = i) (resource_requests d)"
    unfolding filter_filter by (rule filter_cong) (use same i in auto)
  then show ?case by (simp add: resources_of_def remove_row_def)
qed

section \<open>Properties\<close>

text \<open>
  C30. Requirements are frozen with the proposal: while a proposal is neither a draft nor returned, no request
  changes its resource requirements; and in every state all quantities are positive.
\<close>

theorem resources_frozen:
  assumes "db_ok d" and "\<forall>ev\<in>set (event_requests d). rq_id ev = i \<longrightarrow> rq_status ev \<notin> {RQ_DRAFT, RQ_REVISION_REQUIRED}"
  shows "resources_of i (run resource_exec xs d) = resources_of i d \<and>
    list_all (\<lambda>r. rr_quantity r > 0) (resource_requests (run resource_exec xs d))"
proof
  let ?P = "\<lambda>e. event_requests e = event_requests d \<and> resources_of i e = resources_of i d"
  have "?P (run resource_exec xs d)"
  proof (rule resource_service.run_induct [where P = ?P, OF assms(1)])
    fix e q r e'
    assume e: "db_ok e" "?P e" "resource_exec q r e = Inr e'"
    from resource_exec_effect [OF e(3)] have f: "resource_effect q e e'" ..
    have "\<forall>ev\<in>set (event_requests e). rq_id ev = i \<longrightarrow> \<not> open_for q e ev"
      using assms(2) e(2) by (simp add: open_for_def)
    from resources_of_effect [OF f e(1) this] resource_effect_frame [OF f] e(2) show "?P e'" by simp
  qed simp
  then show "resources_of i (run resource_exec xs d) = resources_of i d" ..
  have "db_ok (run resource_exec xs d)" by (rule resource_service.run_ok [OF assms(1)])
  then show "list_all (\<lambda>r. rr_quantity r > 0) (resource_requests (run resource_exec xs d))"
    by (simp add: db_ok_def resource_requests_ok_def)
qed

definition chairs :: resource_create where
  "chairs = \<lparr>rc_resource_type = RT_CHAIRS, rc_quantity = 40, rc_notes = None\<rparr>"

definition wishful :: "(request \<times> resource_op) list" where
  "wishful = [(ctx the_secretary 5, AddResource 20 chairs), (ctx the_admin 6, DropResource 20 50)]"

definition equipped_campus :: db where
  "equipped_campus = campus\<lparr>resource_requests := [new_resource (ctx the_secretary 0) 20 chairs 50]\<rparr>"

lemma resources_frozen_witness:
  "resources_of 20 (run resource_exec wishful equipped_campus) = resources_of 20 equipped_campus \<and>
   resources_of 20 equipped_campus \<noteq> []"
proof
  have ok: "db_ok equipped_campus" by code_simp
  have "\<forall>ev\<in>set (event_requests equipped_campus). rq_id ev = 20 \<longrightarrow> rq_status ev \<notin> {RQ_DRAFT, RQ_REVISION_REQUIRED}"
    by code_simp
  from resources_frozen [OF ok this]
  show "resources_of 20 (run resource_exec wishful equipped_campus) = resources_of 20 equipped_campus" by blast
qed code_simp

end
