(* ===== verification/Campus_Api.thy ===== *)
theory Campus_Api
  imports Guards Budgets Clubs Workflow Notifications Dashboard Resources Proposals
begin

text \<open>
  The endpoints of \<^verbatim>\<open>events.py\<close>, \<^verbatim>\<open>halls.py\<close>, \<^verbatim>\<open>clubs.py\<close>, \<^verbatim>\<open>workflows.py\<close>, \<^verbatim>\<open>notifications.py\<close> and
  \<^verbatim>\<open>dashboard.py\<close> (under \<^verbatim>\<open>app/api/v1/endpoints\<close>): who may call them, what of the payload is checked, and the service
  method they call. The response schemas show columns of the row a method returns; the row itself stands for them.
\<close>

definition page_ok :: "int \<Rightarrow> int \<Rightarrow> bool" where
  "page_ok skip limit \<longleftrightarrow> 0 \<le> skip \<and> 1 \<le> limit \<and> limit \<le> 100"

section \<open>Proposals, their venues and their budgets\<close>

definition create_event_draft_endpoint ::
    "library \<Rightarrow> string option \<Rightarrow> request \<Rightarrow> proposal_create \<Rightarrow> db \<Rightarrow> (event_request \<times> db) res" where
  "create_event_draft_endpoint L t q p d =
     with_permission L t q d EVENT_PROPOSE (\<lambda>q. and_then (proposal_create_schema p) (\<lambda>p. create_draft q p d))"

definition list_events_endpoint ::
    "library \<Rightarrow> string option \<Rightarrow> request \<Rightarrow> uuid option \<Rightarrow> event_request_status option \<Rightarrow> int \<Rightarrow> int \<Rightarrow> db \<Rightarrow> event_request list res" where
  "list_events_endpoint L t q club st skip limit d =
     with_permission L t q d EVENT_VIEW_ALL (\<lambda>q. require (page_ok skip limit) RequestValidationError (
     Inr (list_events club st (nat skip) (nat limit) d)))"

definition get_event_endpoint ::
    "library \<Rightarrow> string option \<Rightarrow> request \<Rightarrow> uuid \<Rightarrow> db \<Rightarrow> event_request res" where
  "get_event_endpoint L t q i d =
     with_permission L t q d EVENT_VIEW_ALL (\<lambda>q. get_event i d)"

definition update_event_draft_endpoint ::
    "library \<Rightarrow> string option \<Rightarrow> request \<Rightarrow> uuid \<Rightarrow> proposal_update \<Rightarrow> db \<Rightarrow> (event_request \<times> db) res" where
  "update_event_draft_endpoint L t q i p d =
     with_permission L t q d EVENT_EDIT_DRAFT (\<lambda>q. and_then (proposal_update_schema p) (\<lambda>p. update_draft q i p d))"

definition submit_event_proposal_endpoint ::
    "library \<Rightarrow> string option \<Rightarrow> request \<Rightarrow> uuid \<Rightarrow> string option \<Rightarrow> string option \<Rightarrow> db \<Rightarrow> (event_request \<times> db) res" where
  "submit_event_proposal_endpoint L t q i s k d =
     with_permission L t q d EVENT_PROPOSE (\<lambda>q. require (opt_len_between 0 2000 s) RequestValidationError (
     submit_proposal q i s k d))"

definition create_event_venue_endpoint ::
    "library \<Rightarrow> string option \<Rightarrow> request \<Rightarrow> uuid \<Rightarrow> venue_create \<Rightarrow> db \<Rightarrow> (venue_request \<times> db) res" where
  "create_event_venue_endpoint L t q i p d =
     with_permission L t q d EVENT_PROPOSE (\<lambda>q. and_then (venue_create_schema p) (\<lambda>p. create_venue_request q i p d))"

definition get_event_venue_endpoint ::
    "library \<Rightarrow> string option \<Rightarrow> request \<Rightarrow> uuid \<Rightarrow> db \<Rightarrow> venue_request res" where
  "get_event_venue_endpoint L t q i d =
     with_permission L t q d EVENT_VIEW_ALL (\<lambda>q. get_venue_request i d)"

definition update_event_venue_endpoint ::
    "library \<Rightarrow> string option \<Rightarrow> request \<Rightarrow> uuid \<Rightarrow> venue_update \<Rightarrow> db \<Rightarrow> (venue_request \<times> db) res" where
  "update_event_venue_endpoint L t q i p d =
     with_permission L t q d EVENT_EDIT_DRAFT (\<lambda>q. and_then (venue_update_schema p) (\<lambda>p. update_venue_request q i p d))"

definition delete_event_venue_endpoint ::
    "library \<Rightarrow> string option \<Rightarrow> request \<Rightarrow> uuid \<Rightarrow> db \<Rightarrow> (unit \<times> db) res" where
  "delete_event_venue_endpoint L t q i d =
     with_permission L t q d EVENT_EDIT_DRAFT (\<lambda>q. delete_venue_request q i d)"

definition create_event_budget_endpoint ::
    "library \<Rightarrow> string option \<Rightarrow> request \<Rightarrow> uuid \<Rightarrow> budget_create \<Rightarrow> db \<Rightarrow> (budget_proposal \<times> db) res" where
  "create_event_budget_endpoint L t q i p d =
     with_permission L t q d EVENT_PROPOSE (\<lambda>q. and_then (budget_create_schema p) (\<lambda>p. create_budget_proposal q i p d))"

definition get_event_budget_endpoint ::
    "library \<Rightarrow> string option \<Rightarrow> request \<Rightarrow> uuid \<Rightarrow> db \<Rightarrow> budget_proposal res" where
  "get_event_budget_endpoint L t q i d =
     with_permission L t q d EVENT_VIEW_ALL (\<lambda>q. get_budget_proposal i d)"

definition update_event_budget_endpoint ::
    "library \<Rightarrow> string option \<Rightarrow> request \<Rightarrow> uuid \<Rightarrow> budget_update \<Rightarrow> db \<Rightarrow> (budget_proposal \<times> db) res" where
  "update_event_budget_endpoint L t q i p d =
     with_permission L t q d EVENT_EDIT_DRAFT (\<lambda>q. and_then (budget_update_schema p) (\<lambda>p. update_budget_proposal q i p d))"

definition delete_event_budget_endpoint ::
    "library \<Rightarrow> string option \<Rightarrow> request \<Rightarrow> uuid \<Rightarrow> db \<Rightarrow> (unit \<times> db) res" where
  "delete_event_budget_endpoint L t q i d =
     with_permission L t q d EVENT_EDIT_DRAFT (\<lambda>q. delete_budget_proposal q i d)"

definition add_budget_line_item_endpoint ::
    "library \<Rightarrow> string option \<Rightarrow> request \<Rightarrow> uuid \<Rightarrow> item_create \<Rightarrow> db \<Rightarrow> (budget_line_item \<times> db) res" where
  "add_budget_line_item_endpoint L t q i p d =
     with_permission L t q d EVENT_EDIT_DRAFT (\<lambda>q. and_then (item_create_schema p) (\<lambda>p. add_line_item q i p d))"

definition update_budget_line_item_endpoint ::
    "library \<Rightarrow> string option \<Rightarrow> request \<Rightarrow> uuid \<Rightarrow> uuid \<Rightarrow> item_update \<Rightarrow> db \<Rightarrow> (budget_line_item \<times> db) res" where
  "update_budget_line_item_endpoint L t q i k p d =
     with_permission L t q d EVENT_EDIT_DRAFT (\<lambda>q. and_then (item_update_schema p) (\<lambda>p. update_line_item q i k p d))"

definition delete_budget_line_item_endpoint ::
    "library \<Rightarrow> string option \<Rightarrow> request \<Rightarrow> uuid \<Rightarrow> uuid \<Rightarrow> db \<Rightarrow> (unit \<times> db) res" where
  "delete_budget_line_item_endpoint L t q i k d =
     with_permission L t q d EVENT_EDIT_DRAFT (\<lambda>q. delete_line_item q i k d)"

definition verify_event_budget_endpoint ::
    "library \<Rightarrow> string option \<Rightarrow> request \<Rightarrow> uuid \<Rightarrow> finance_verification_status \<Rightarrow> string option \<Rightarrow> db \<Rightarrow> (budget_proposal \<times> db) res" where
  "verify_event_budget_endpoint L t q i st n d =
     with_permission L t q d BUDGET_APPROVE (\<lambda>q. and_then (verification_schema st n) (\<lambda>_. verify_budget q i st n d))"

definition get_event_workflow_endpoint ::
    "library \<Rightarrow> string option \<Rightarrow> request \<Rightarrow> uuid \<Rightarrow> db \<Rightarrow> workflow_view res" where
  "get_event_workflow_endpoint L t q i d =
     with_permission L t q d EVENT_VIEW_ALL (\<lambda>q. get_event_workflow i d)"

definition cancel_event_endpoint ::
    "library \<Rightarrow> string option \<Rightarrow> request \<Rightarrow> uuid \<Rightarrow> string \<Rightarrow> db \<Rightarrow> (cancellation \<times> db) res" where
  "cancel_event_endpoint L t q i r d =
     with_permission L t q d EVENT_CANCEL (\<lambda>q. and_then (reason_schema r) (\<lambda>r. cancel_any_event q i r d))"

section \<open>Halls\<close>

definition list_halls_endpoint ::
    "library \<Rightarrow> string option \<Rightarrow> request \<Rightarrow> (string \<Rightarrow> nat) \<Rightarrow> int \<Rightarrow> int \<Rightarrow> bool option \<Rightarrow> db \<Rightarrow> hall list res" where
  "list_halls_endpoint L t q collate skip limit active d =
     with_permission L t q d EVENT_VIEW_ALL (\<lambda>q. require (page_ok skip limit) RequestValidationError (
     Inr (list_halls collate (nat skip) (nat limit) active d)))"

definition create_hall_endpoint ::
    "library \<Rightarrow> string option \<Rightarrow> request \<Rightarrow> hall_create \<Rightarrow> db \<Rightarrow> (hall \<times> db) res" where
  "create_hall_endpoint L t q p d =
     with_permission L t q d HALL_CREATE (\<lambda>q. and_then (hall_create_schema p) (\<lambda>p. create_hall q p d))"

definition get_hall_endpoint ::
    "library \<Rightarrow> string option \<Rightarrow> request \<Rightarrow> uuid \<Rightarrow> db \<Rightarrow> hall res" where
  "get_hall_endpoint L t q i d =
     with_permission L t q d EVENT_VIEW_ALL (\<lambda>q. get_hall i d)"

definition check_hall_availability_endpoint ::
    "library \<Rightarrow> string option \<Rightarrow> request \<Rightarrow> uuid \<Rightarrow> time \<Rightarrow> time option \<Rightarrow> time option \<Rightarrow> db \<Rightarrow> hall_availability res" where
  "check_hall_availability_endpoint L t q i date s e d =
     with_permission L t q d EVENT_VIEW_ALL (\<lambda>q. check_hall_availability i date s e d)"

section \<open>Clubs\<close>

definition list_clubs_endpoint ::
    "library \<Rightarrow> string option \<Rightarrow> request \<Rightarrow> (string \<Rightarrow> nat) \<Rightarrow> int \<Rightarrow> int \<Rightarrow> bool option \<Rightarrow> db \<Rightarrow> club list res" where
  "list_clubs_endpoint L t q collate skip limit active d =
     with_permission L t q d CLUB_VIEW_ANY (\<lambda>q. require (page_ok skip limit) RequestValidationError (
     Inr (list_clubs collate (nat skip) (nat limit) active d)))"

definition get_club_endpoint ::
    "library \<Rightarrow> string option \<Rightarrow> request \<Rightarrow> uuid \<Rightarrow> db \<Rightarrow> club res" where
  "get_club_endpoint L t q i d =
     with_permission L t q d CLUB_VIEW_ANY (\<lambda>q. get_club i d)"

definition create_club_endpoint ::
    "library \<Rightarrow> string option \<Rightarrow> request \<Rightarrow> club_create \<Rightarrow> db \<Rightarrow> (club \<times> db) res" where
  "create_club_endpoint L t q p d =
     with_permission L t q d CLUB_CREATE (\<lambda>q. and_then (club_create_schema p) (\<lambda>p. create_club q p d))"

definition update_club_endpoint ::
    "library \<Rightarrow> string option \<Rightarrow> request \<Rightarrow> uuid \<Rightarrow> club_update \<Rightarrow> db \<Rightarrow> (club \<times> db) res" where
  "update_club_endpoint L t q i p d =
     with_permission L t q d CLUB_UPDATE (\<lambda>q. and_then (club_update_schema p) (\<lambda>p. update_club q i p d))"

definition list_members_endpoint ::
    "library \<Rightarrow> string option \<Rightarrow> request \<Rightarrow> uuid \<Rightarrow> bool \<Rightarrow> db \<Rightarrow> club_member list res" where
  "list_members_endpoint L t q i inactive d =
     with_permission L t q d CLUB_VIEW_ANY (\<lambda>q. list_members i inactive d)"

definition add_member_endpoint ::
    "library \<Rightarrow> string option \<Rightarrow> request \<Rightarrow> uuid \<Rightarrow> uuid \<Rightarrow> club_member_role \<Rightarrow> db \<Rightarrow> (club_member \<times> db) res" where
  "add_member_endpoint L t q i u r d =
     with_permission L t q d CLUB_MANAGE_MEMBERS (\<lambda>q. add_member q i u r d)"

definition update_member_endpoint ::
    "library \<Rightarrow> string option \<Rightarrow> request \<Rightarrow> uuid \<Rightarrow> uuid \<Rightarrow> club_member_role option \<Rightarrow> bool option \<Rightarrow> db \<Rightarrow> (club_member \<times> db) res" where
  "update_member_endpoint L t q i u r a d =
     with_permission L t q d CLUB_MANAGE_MEMBERS (\<lambda>q. update_member q i u r a d)"

definition remove_member_endpoint ::
    "library \<Rightarrow> string option \<Rightarrow> request \<Rightarrow> uuid \<Rightarrow> uuid \<Rightarrow> db \<Rightarrow> (unit \<times> db) res" where
  "remove_member_endpoint L t q i u d =
     with_permission L t q d CLUB_MANAGE_MEMBERS (\<lambda>q. remove_member q i u d)"

section \<open>The approval chain\<close>

definition get_pending_queue_endpoint ::
    "library \<Rightarrow> string option \<Rightarrow> request \<Rightarrow> int \<Rightarrow> int \<Rightarrow> db \<Rightarrow> workflow_instance_step list res" where
  "get_pending_queue_endpoint L t q skip limit d =
     authenticated L t q d (\<lambda>q. require (page_ok skip limit) RequestValidationError (
     Inr (get_pending_queue q (nat skip) (nat limit) d)))"

definition get_workflow_instance_endpoint ::
    "library \<Rightarrow> string option \<Rightarrow> request \<Rightarrow> uuid \<Rightarrow> db \<Rightarrow> workflow_view res" where
  "get_workflow_instance_endpoint L t q i d =
     authenticated L t q d (\<lambda>q. get_workflow_instance i d)"

definition approve_workflow_step_endpoint ::
    "library \<Rightarrow> string option \<Rightarrow> request \<Rightarrow> uuid \<Rightarrow> string option \<Rightarrow> db \<Rightarrow> (workflow_instance_step \<times> db) res" where
  "approve_workflow_step_endpoint L t q i c d =
     authenticated L t q d (\<lambda>q. require (opt_len_between 0 2000 c) RequestValidationError (
     approve_step q i c d))"

definition reject_workflow_step_endpoint ::
    "library \<Rightarrow> string option \<Rightarrow> request \<Rightarrow> uuid \<Rightarrow> string \<Rightarrow> db \<Rightarrow> (workflow_instance_step \<times> db) res" where
  "reject_workflow_step_endpoint L t q i c d =
     authenticated L t q d (\<lambda>q. and_then (comments_schema c) (\<lambda>c. reject_step q i c d))"

definition request_workflow_step_revision_endpoint ::
    "library \<Rightarrow> string option \<Rightarrow> request \<Rightarrow> uuid \<Rightarrow> string \<Rightarrow> db \<Rightarrow> (workflow_instance_step \<times> db) res" where
  "request_workflow_step_revision_endpoint L t q i c d =
     authenticated L t q d (\<lambda>q. and_then (comments_schema c) (\<lambda>c. request_step_revision q i c d))"

section \<open>Notifications and the dashboard\<close>

definition mark_notification_read_endpoint ::
    "library \<Rightarrow> string option \<Rightarrow> request \<Rightarrow> uuid \<Rightarrow> db \<Rightarrow> (notification \<times> db) res" where
  "mark_notification_read_endpoint L t q i d =
     authenticated L t q d (\<lambda>q. mark_as_read q i d)"

definition mark_all_notifications_read_endpoint ::
    "library \<Rightarrow> string option \<Rightarrow> request \<Rightarrow> db \<Rightarrow> (nat \<times> db) res" where
  "mark_all_notifications_read_endpoint L t q d =
     authenticated L t q d (\<lambda>q. mark_all_as_read q d)"

definition get_my_notifications_endpoint ::
    "library \<Rightarrow> string option \<Rightarrow> request \<Rightarrow> bool \<Rightarrow> int \<Rightarrow> int \<Rightarrow> db \<Rightarrow> notification list res" where
  "get_my_notifications_endpoint L t q unread limit offset d =
     authenticated L t q d (\<lambda>q. my_notifications q unread limit offset d)"

definition get_my_notification_counts_endpoint ::
    "library \<Rightarrow> string option \<Rightarrow> request \<Rightarrow> db \<Rightarrow> notification_counts res" where
  "get_my_notification_counts_endpoint L t q d =
     authenticated L t q d (\<lambda>q. Inr (get_notification_counts (actor_id q) d))"

definition get_dashboard_endpoint ::
    "library \<Rightarrow> string option \<Rightarrow> request \<Rightarrow> db \<Rightarrow> dashboard res" where
  "get_dashboard_endpoint L t q d =
     authenticated L t q d (\<lambda>q. Inr (get_dashboard q d))"

section \<open>What the endpoints hand to the services\<close>

text \<open>The calls that can change something, by the service they end in.\<close>

fun proposal_api :: "library \<Rightarrow> string option \<Rightarrow> request \<Rightarrow> proposal_request \<Rightarrow> db \<Rightarrow> db res" where
  "proposal_api L t q (CreateDraft p) d = db_of (create_event_draft_endpoint L t q p d)"
| "proposal_api L t q (UpdateDraft i p) d = db_of (update_event_draft_endpoint L t q i p d)"
| "proposal_api L t q (SubmitProposal i s k) d = db_of (submit_event_proposal_endpoint L t q i s k d)"
| "proposal_api L t q (CancelEvent i r) d = db_of (cancel_event_endpoint L t q i r d)"

fun venue_api :: "library \<Rightarrow> string option \<Rightarrow> request \<Rightarrow> venue_service_request \<Rightarrow> db \<Rightarrow> db res" where
  "venue_api L t q (CreateHall p) d = db_of (create_hall_endpoint L t q p d)"
| "venue_api L t q (RequestVenue i p) d = db_of (create_event_venue_endpoint L t q i p d)"
| "venue_api L t q (ChangeVenue i p) d = db_of (update_event_venue_endpoint L t q i p d)"
| "venue_api L t q (DropVenue i) d = db_of (delete_event_venue_endpoint L t q i d)"

fun budget_api :: "library \<Rightarrow> string option \<Rightarrow> request \<Rightarrow> budget_request \<Rightarrow> db \<Rightarrow> db res" where
  "budget_api L t q (CreateBudget i p) d = db_of (create_event_budget_endpoint L t q i p d)"
| "budget_api L t q (UpdateBudget i p) d = db_of (update_event_budget_endpoint L t q i p d)"
| "budget_api L t q (DeleteBudget i) d = db_of (delete_event_budget_endpoint L t q i d)"
| "budget_api L t q (AddItem i p) d = db_of (add_budget_line_item_endpoint L t q i p d)"
| "budget_api L t q (UpdateItem i k p) d = db_of (update_budget_line_item_endpoint L t q i k p d)"
| "budget_api L t q (DeleteItem i k) d = db_of (delete_budget_line_item_endpoint L t q i k d)"
| "budget_api L t q (VerifyBudget i st n) d = db_of (verify_event_budget_endpoint L t q i st n d)"

fun club_api :: "library \<Rightarrow> string option \<Rightarrow> request \<Rightarrow> club_request \<Rightarrow> db \<Rightarrow> db res" where
  "club_api L t q (CreateClub p) d = db_of (create_club_endpoint L t q p d)"
| "club_api L t q (UpdateClub i p) d = db_of (update_club_endpoint L t q i p d)"
| "club_api L t q (AddMember i u r) d = db_of (add_member_endpoint L t q i u r d)"
| "club_api L t q (UpdateMember i u r a) d = db_of (update_member_endpoint L t q i u r a d)"
| "club_api L t q (RemoveMember i u) d = db_of (remove_member_endpoint L t q i u d)"

fun workflow_api :: "library \<Rightarrow> string option \<Rightarrow> request \<Rightarrow> workflow_request \<Rightarrow> db \<Rightarrow> db res" where
  "workflow_api L t q (ApproveStep i c) d = db_of (approve_workflow_step_endpoint L t q i c d)"
| "workflow_api L t q (RejectStep i c) d = db_of (reject_workflow_step_endpoint L t q i c d)"
| "workflow_api L t q (ReviseStep i c) d = db_of (request_workflow_step_revision_endpoint L t q i c d)"

fun inbox_api :: "library \<Rightarrow> string option \<Rightarrow> request \<Rightarrow> inbox_request \<Rightarrow> db \<Rightarrow> db res" where
  "inbox_api L t q (MarkRead i) d = db_of (mark_notification_read_endpoint L t q i d)"
| "inbox_api L t q MarkAllRead d = db_of (mark_all_notifications_read_endpoint L t q d)"

text \<open>The endpoints of \<^verbatim>\<open>resources.py\<close> are whole methods (theory Resources); only the user has to be resolved.\<close>

definition resource_api :: "library \<Rightarrow> string option \<Rightarrow> request \<Rightarrow> resource_op \<Rightarrow> db \<Rightarrow> db res" where
  "resource_api L t q r d = authenticated L t q d (\<lambda>q. resource_exec q r d)"

text \<open>
  Every change an endpoint makes is one its service makes for the sender; the permission of the endpoint comes on top
  of the checks of the service.
\<close>

fun proposal_roles :: "proposal_request \<Rightarrow> user_role list" where
  "proposal_roles (CreateDraft _) = ROLE_PERMISSIONS EVENT_PROPOSE"
| "proposal_roles (UpdateDraft _ _) = ROLE_PERMISSIONS EVENT_EDIT_DRAFT"
| "proposal_roles (SubmitProposal _ _ _) = ROLE_PERMISSIONS EVENT_PROPOSE"
| "proposal_roles (CancelEvent _ _) = ROLE_PERMISSIONS EVENT_CANCEL"

lemma proposal_api_served:
  "proposal_api L t q r d = Inr d' \<Longrightarrow>
     \<exists>u. sender L t q d u \<and> us_role u \<in> set (proposal_roles r) \<and> proposal_exec (q\<lparr>actor := u\<rparr>) r d = Inr d'"
  by (cases r) (auto simp: res_simps create_event_draft_endpoint_def update_event_draft_endpoint_def
      submit_event_proposal_endpoint_def cancel_event_endpoint_def)

lemma venue_api_served:
  "venue_api L t q r d = Inr d' \<Longrightarrow>
     \<exists>u. sender L t q d u \<and> us_role u \<in> {CLUB_SECRETARY, SYSTEM_ADMIN} \<and> venue_exec (q\<lparr>actor := u\<rparr>) r d = Inr d'"
  by (cases r) (auto simp: res_simps create_hall_endpoint_def create_event_venue_endpoint_def
      update_event_venue_endpoint_def delete_event_venue_endpoint_def)

lemma budget_api_served:
  "budget_api L t q r d = Inr d' \<Longrightarrow>
     \<exists>u. sender L t q d u \<and> us_role u \<in> {CLUB_SECRETARY, FINANCE_OFFICER, PRINCIPAL} \<and>
       budget_exec (q\<lparr>actor := u\<rparr>) r d = Inr d'"
  by (cases r) (auto simp: res_simps create_event_budget_endpoint_def update_event_budget_endpoint_def
      delete_event_budget_endpoint_def add_budget_line_item_endpoint_def update_budget_line_item_endpoint_def
      delete_budget_line_item_endpoint_def verify_event_budget_endpoint_def)

lemma club_api_served:
  "club_api L t q r d = Inr d' \<Longrightarrow>
     \<exists>u. sender L t q d u \<and> us_role u \<in> {CLUB_SECRETARY, SYSTEM_ADMIN} \<and> club_exec (q\<lparr>actor := u\<rparr>) r d = Inr d'"
  by (cases r) (auto simp: res_simps create_club_endpoint_def update_club_endpoint_def add_member_endpoint_def
      update_member_endpoint_def remove_member_endpoint_def)

lemma workflow_api_served:
  "workflow_api L t q r d = Inr d' \<Longrightarrow> \<exists>u. sender L t q d u \<and> workflow_exec (q\<lparr>actor := u\<rparr>) r d = Inr d'"
  by (cases r) (auto simp: res_simps approve_workflow_step_endpoint_def reject_workflow_step_endpoint_def
      request_workflow_step_revision_endpoint_def)

lemma inbox_api_served:
  "inbox_api L t q r d = Inr d' \<Longrightarrow> \<exists>u. sender L t q d u \<and> inbox_exec (q\<lparr>actor := u\<rparr>) r d = Inr d'"
  by (cases r) (auto simp: res_simps mark_notification_read_endpoint_def mark_all_notifications_read_endpoint_def)

lemma resource_api_served:
  "resource_api L t q r d = Inr d' \<Longrightarrow> \<exists>u. sender L t q d u \<and> resource_exec (q\<lparr>actor := u\<rparr>) r d = Inr d'"
  by (simp add: resource_api_def res_simps)

end
