(* ===== verification/Expenses.thy ===== *)
theory Expenses
  imports Scenario Texts "HOL-Library.Multiset"
begin

text \<open>
  The expense ledger: \<^verbatim>\<open>ExpenseService\<close> of \<^verbatim>\<open>backend/app/services/expense_service.py\<close> with the request
  schemas of \<^verbatim>\<open>backend/app/schemas/actual_expense.py\<close>. Secretaries draft, amend, delete and submit the
  claims of a completed event; finance officers verify, partially verify, query or disallow them once the
  faculty advisor has certified the post-event report.
\<close>

section \<open>Payloads\<close>

record expense_create =
  xc_category :: budget_line_item_category
  xc_description :: string
  xc_vendor_name :: string
  xc_vendor_gstin :: "string option"
  xc_invoice_number :: "string option"
  xc_invoice_date :: date
  xc_claimed_amount :: money
  xc_bill_document_id :: uuid
  xc_budget_line_item_id :: "uuid option"

record expense_update =
  xu_category :: "budget_line_item_category option"
  xu_description :: "string option"
  xu_vendor_name :: "string option"
  xu_vendor_gstin :: "string option"
  xu_invoice_number :: "string option"
  xu_invoice_date :: "date option"
  xu_claimed_amount :: "money option"
  xu_bill_document_id :: "uuid option"
  xu_budget_line_item_id :: "uuid option"

text \<open>\<open>clean_optional_text\<close>: a stripped text, or nothing where only white space is left.\<close>

definition clean_optional_text :: "string option \<Rightarrow> string option" where
  "clean_optional_text v =
     (case v of None \<Rightarrow> None | Some s \<Rightarrow> if strip s = [] then None else Some (strip s))"

text \<open>The declared bounds of a field, then its validator.\<close>

definition expense_create_schema :: "expense_create \<Rightarrow> expense_create res" where
  "expense_create_schema p =
     require (len_between 3 500 (xc_description p) \<and> len_between 2 255 (xc_vendor_name p) \<and>
              opt_len_between 0 20 (xc_vendor_gstin p) \<and>
              opt_len_between 0 100 (xc_invoice_number p) \<and> xc_claimed_amount p > 0)
       RequestValidationError (
     require (strip (xc_description p) \<noteq> [] \<and> strip (xc_vendor_name p) \<noteq> [])
       RequestValidationError (
     Inr (p\<lparr>xc_description := strip (xc_description p),
            xc_vendor_name := strip (xc_vendor_name p),
            xc_vendor_gstin := clean_optional_text (xc_vendor_gstin p),
            xc_invoice_number := clean_optional_text (xc_invoice_number p)\<rparr>)))"

definition expense_update_schema :: "expense_update \<Rightarrow> expense_update res" where
  "expense_update_schema p =
     require (opt_len_between 3 500 (xu_description p) \<and> opt_len_between 2 255 (xu_vendor_name p) \<and>
              opt_len_between 0 20 (xu_vendor_gstin p) \<and>
              opt_len_between 0 100 (xu_invoice_number p) \<and>
              (case xu_claimed_amount p of None \<Rightarrow> True | Some m \<Rightarrow> m > 0))
       RequestValidationError (Inr p)"

text \<open>The mandatory remarks of the audit actions: five characters, also once stripped.\<close>

definition remarks_schema :: "string \<Rightarrow> string res" where
  "remarks_schema s =
     require (len_between 5 1000 s \<and> 5 \<le> length (strip s)) RequestValidationError (Inr (strip s))"

section \<open>Checks\<close>

definition exp_ensure_event_mutable :: "event \<Rightarrow> unit res" where
  "exp_ensure_event_mutable ev =
     require (ev_status ev \<noteq> EV_CLOSED \<and> ev_status ev \<noteq> EV_ARCHIVED) ConflictError (Inr ())"

definition exp_get_confirmed_event :: "db \<Rightarrow> uuid \<Rightarrow> bool \<Rightarrow> event res" where
  "exp_get_confirmed_event d event_id ensure_mutable =
     fetch (scalar (\<lambda>e. ev_id e = event_id \<or> ev_event_request_id e = event_id) (events d))
       NotFoundError (\<lambda>ev.
     if ensure_mutable then and_then (exp_ensure_event_mutable ev) (\<lambda>_. Inr ev) else Inr ev)"

definition require_event_completed :: "event \<Rightarrow> unit res" where
  "require_event_completed ev =
     require (ev_status ev = EV_COMPLETED) WorkflowStateError (Inr ())"

definition exp_verify_club_secretary :: "request \<Rightarrow> db \<Rightarrow> event \<Rightarrow> unit res" where
  "exp_verify_club_secretary q d ev =
     fetch (secretary_membership d (ev_club_id ev) (actor_id q)) ForbiddenError (\<lambda>_. Inr ())"

definition exp_verify_finance_officer :: "request \<Rightarrow> unit res" where
  "exp_verify_finance_officer q =
     require (actor_role q = FINANCE_OFFICER) ForbiddenError (Inr ())"

definition report_of :: "db \<Rightarrow> uuid \<Rightarrow> post_event_report option" where
  "report_of d event_id = scalar (\<lambda>r. rp_event_id r = event_id) (reports d)"

definition verify_delivery_certified :: "db \<Rightarrow> event \<Rightarrow> unit res" where
  "verify_delivery_certified d ev =
     (case report_of d (ev_id ev) of
        None \<Rightarrow> Inl WorkflowStateError
      | Some r \<Rightarrow> require (rp_status r = RP_CERTIFIED) WorkflowStateError (Inr ()))"

definition verify_bill_document :: "db \<Rightarrow> event \<Rightarrow> uuid \<Rightarrow> document res" where
  "verify_bill_document d ev bill_document_id =
     fetch (active_document d bill_document_id) NotFoundError (\<lambda>doc.
     require (document_of_event doc ev) BadRequestError (Inr doc))"

section \<open>Duplicate invoices\<close>

definition voucher_note :: string where
  "voucher_note = ''Voucher submitted without invoice number (Finance review required)''"

text \<open>\<open>s.strip().lower()\<close> in Python and \<open>lower(trim(s))\<close> in SQL.\<close>

definition py_norm :: "string \<Rightarrow> string" where
  "py_norm s = lower (strip s)"

definition sql_norm :: "string \<Rightarrow> string" where
  "sql_norm s = lower (sql_trim s)"

definition invoice_match :: "string \<Rightarrow> string \<Rightarrow> date \<Rightarrow> uuid option \<Rightarrow> actual_expense \<Rightarrow> bool" where
  "invoice_match norm_vendor norm_invoice invoice_date exclude m \<longleftrightarrow>
     sql_norm (ex_vendor_name m) = norm_vendor \<and>
     (case ex_invoice_number m of None \<Rightarrow> False | Some n \<Rightarrow> sql_norm n = norm_invoice) \<and>
     ex_invoice_date m = invoice_date \<and>
     ex_status m \<noteq> EX_DISALLOWED \<and>
     (case exclude of None \<Rightarrow> True | Some i \<Rightarrow> ex_id m \<noteq> i)"

fun check_matches :: "event \<Rightarrow> uuid \<Rightarrow> actual_expense list \<Rightarrow> unit res" where
  "check_matches ev bill_document_id [] = Inr ()"
| "check_matches ev bill_document_id (m # ms) =
     (if ex_event_id m \<noteq> ev_id ev then Inl ConflictError
      else if ex_bill_document_id m \<noteq> bill_document_id then Inl ConflictError
      else check_matches ev bill_document_id ms)"

definition check_duplicate_invoice ::
    "db \<Rightarrow> event \<Rightarrow> string \<Rightarrow> string option \<Rightarrow> date \<Rightarrow> uuid \<Rightarrow> uuid option \<Rightarrow> (bool \<times> string option) res" where
  "check_duplicate_invoice d ev vendor_name invoice_number invoice_date bill_document_id exclude =
     (if blank invoice_number then Inr (True, Some voucher_note)
      else
        let norm_vendor = py_norm vendor_name;
            norm_invoice = (case invoice_number of None \<Rightarrow> [] | Some n \<Rightarrow> py_norm n);
            matches = filter (invoice_match norm_vendor norm_invoice invoice_date exclude) (expenses d)
        in and_then (check_matches ev bill_document_id matches) (\<lambda>_. Inr (False, None)))"

lemma check_matches_Inr [res_simps]:
  "check_matches ev b ms = Inr u \<longleftrightarrow>
     (\<forall>m\<in>set ms. ex_event_id m = ev_id ev \<and> ex_bill_document_id m = b)"
  by (induction ms) auto

section \<open>Secretary actions\<close>

definition create_draft_expense ::
    "request \<Rightarrow> uuid \<Rightarrow> expense_create \<Rightarrow> db \<Rightarrow> (actual_expense \<times> db) res" where
  "create_draft_expense q event_id p d =
     and_then (exp_get_confirmed_event d event_id True) (\<lambda>ev.
     and_then (require_event_completed ev) (\<lambda>_.
     and_then (exp_verify_club_secretary q d ev) (\<lambda>_.
     and_then (verify_bill_document d ev (xc_bill_document_id p)) (\<lambda>doc.
     and_then (check_duplicate_invoice d ev (xc_vendor_name p) (xc_invoice_number p)
                 (xc_invoice_date p) (xc_bill_document_id p) None) (\<lambda>(flagged, review_notes).
     let i = next_uuid d;
         expense =
           \<lparr>ex_id = i, ex_event_id = ev_id ev, ex_budget_line_item_id = xc_budget_line_item_id p,
            ex_category = xc_category p, ex_description = xc_description p,
            ex_vendor_name = xc_vendor_name p, ex_vendor_gstin = xc_vendor_gstin p,
            ex_invoice_number = xc_invoice_number p, ex_invoice_date = xc_invoice_date p,
            ex_claimed_amount = xc_claimed_amount p, ex_verified_amount = None,
            ex_status = EX_DRAFT, ex_bill_document_id = dc_id doc,
            ex_submitted_by = actor_id q, ex_submitted_at = None, ex_verified_by = None,
            ex_verified_at = None, ex_finance_remarks = None, ex_query_reason = None,
            ex_is_flagged_for_review = flagged, ex_review_notes = review_notes,
            ex_created_at = now q\<rparr>;
         d1 = d\<lparr>expenses := expenses d @ [expense], next_uuid := Suc i\<rparr>;
         d2 = add_audit q A_EXPENSE_CREATED ''actual_expense'' i JNull
                (JObj [(''event_id'', JUuid (ev_id ev)), (''category'', JEnum (J_category (xc_category p))),
                       (''description'', JText (xc_description p)),
                       (''vendor_name'', JText (xc_vendor_name p)),
                       (''claimed_amount'', JMoney (xc_claimed_amount p)),
                       (''invoice_number'', j_opt JText (xc_invoice_number p)),
                       (''invoice_date'', JDate (xc_invoice_date p)),
                       (''bill_document_id'', JUuid (dc_id doc))]) None d1
     in commit IntegrityError expense d2)))))"

text \<open>The snapshot \<open>update_expense\<close> writes before and after its changes.\<close>

definition expense_state :: "actual_expense \<Rightarrow> json" where
  "expense_state e =
     JObj [(''category'', JEnum (J_category (ex_category e))),
           (''description'', JText (ex_description e)),
           (''vendor_name'', JText (ex_vendor_name e)),
           (''vendor_gstin'', j_opt JText (ex_vendor_gstin e)),
           (''invoice_number'', j_opt JText (ex_invoice_number e)),
           (''invoice_date'', JDate (ex_invoice_date e)),
           (''claimed_amount'', JMoney (ex_claimed_amount e)),
           (''bill_document_id'', JUuid (ex_bill_document_id e)),
           (''status'', JEnum (J_expense_status (ex_status e)))]"

definition find_expense :: "db \<Rightarrow> uuid \<Rightarrow> event \<Rightarrow> actual_expense option" where
  "find_expense d expense_id ev =
     scalar (\<lambda>e. ex_id e = expense_id \<and> ex_event_id e = ev_id ev) (expenses d)"

text \<open>\<open>p or v\<close> on strings, and \<open>p.strip() or None\<close> where given.\<close>

definition str_or :: "string option \<Rightarrow> string \<Rightarrow> string" where
  "str_or p v = (case p of None \<Rightarrow> v | Some x \<Rightarrow> if x = [] then v else x)"

definition set_stripped :: "string option \<Rightarrow> string option \<Rightarrow> string option" where
  "set_stripped p v =
     (case p of None \<Rightarrow> v | Some x \<Rightarrow> if strip x = [] then None else Some (strip x))"

definition apply_expense_update :: "expense_update \<Rightarrow> bool \<Rightarrow> string option \<Rightarrow> actual_expense \<Rightarrow> actual_expense" where
  "apply_expense_update p flagged review_notes e =
     e\<lparr>ex_category := set_if (xu_category p) (ex_category e),
       ex_description := set_if (map_option strip (xu_description p)) (ex_description e),
       ex_vendor_name := set_if (map_option strip (xu_vendor_name p)) (ex_vendor_name e),
       ex_vendor_gstin := set_stripped (xu_vendor_gstin p) (ex_vendor_gstin e),
       ex_invoice_number := set_stripped (xu_invoice_number p) (ex_invoice_number e),
       ex_invoice_date := set_if (xu_invoice_date p) (ex_invoice_date e),
       ex_claimed_amount := set_if (xu_claimed_amount p) (ex_claimed_amount e),
       ex_budget_line_item_id :=
         (case xu_budget_line_item_id p of None \<Rightarrow> ex_budget_line_item_id e | Some i \<Rightarrow> Some i),
       ex_is_flagged_for_review := flagged,
       ex_review_notes := review_notes\<rparr>"

text \<open>A replacement bill must be an active document of the event.\<close>

definition replace_bill :: "db \<Rightarrow> event \<Rightarrow> uuid option \<Rightarrow> actual_expense \<Rightarrow> actual_expense res" where
  "replace_bill d ev bill e =
     (case bill of
        None \<Rightarrow> Inr e
      | Some b \<Rightarrow>
          if b \<noteq> ex_bill_document_id e
          then and_then (verify_bill_document d ev b) (\<lambda>doc. Inr (e\<lparr>ex_bill_document_id := dc_id doc\<rparr>))
          else Inr e)"

definition update_expense ::
    "request \<Rightarrow> uuid \<Rightarrow> uuid \<Rightarrow> expense_update \<Rightarrow> db \<Rightarrow> (actual_expense \<times> db) res" where
  "update_expense q event_id expense_id p d =
     and_then (exp_get_confirmed_event d event_id True) (\<lambda>ev.
     and_then (exp_verify_club_secretary q d ev) (\<lambda>_.
     fetch (find_expense d expense_id ev) NotFoundError (\<lambda>expense.
     require (ex_status expense \<notin> {EX_VERIFIED, EX_PARTIALLY_VERIFIED, EX_DISALLOWED})
       WorkflowStateError (
     require (ex_status expense \<noteq> EX_SUBMITTED) WorkflowStateError (
     let prior_state = expense_state expense in
     and_then (replace_bill d ev (xu_bill_document_id p) expense) (\<lambda>e1.
     let new_vendor = str_or (xu_vendor_name p) (ex_vendor_name e1);
         new_inv_num = (case xu_invoice_number p of None \<Rightarrow> ex_invoice_number e1 | Some n \<Rightarrow> Some n);
         new_inv_date = set_if (xu_invoice_date p) (ex_invoice_date e1);
         new_bill_id = set_if (xu_bill_document_id p) (ex_bill_document_id e1)
     in and_then (check_duplicate_invoice d ev new_vendor new_inv_num new_inv_date new_bill_id
                    (Some (ex_id e1))) (\<lambda>(flagged, review_notes).
     let e2 = apply_expense_update p flagged review_notes e1;
         d1 = d\<lparr>expenses := put ex_id e2 (expenses d)\<rparr>;
         d2 = add_audit q A_EXPENSE_UPDATED ''actual_expense'' (ex_id e2) prior_state
                (expense_state e2) (Some ''Secretary amended expense line item'') d1
     in commit IntegrityError e2 d2)))))))"

definition delete_draft_expense :: "request \<Rightarrow> uuid \<Rightarrow> uuid \<Rightarrow> db \<Rightarrow> (unit \<times> db) res" where
  "delete_draft_expense q event_id expense_id d =
     and_then (exp_get_confirmed_event d event_id True) (\<lambda>ev.
     and_then (exp_verify_club_secretary q d ev) (\<lambda>_.
     fetch (find_expense d expense_id ev) NotFoundError (\<lambda>expense.
     require (ex_status expense \<notin> {EX_VERIFIED, EX_PARTIALLY_VERIFIED, EX_DISALLOWED, EX_SUBMITTED})
       WorkflowStateError (
     let d1 = add_audit q A_EXPENSE_UPDATED ''actual_expense'' (ex_id expense)
                (JObj [(''status'', JEnum (J_expense_status (ex_status expense))),
                       (''claimed_amount'', JMoney (ex_claimed_amount expense))]) JNull
                (Some ''Draft expense discarded by Club Secretary'') d;
         d2 = d1\<lparr>expenses := remove_row ex_id expense (expenses d1)\<rparr>
     in commit IntegrityError () d2))))"

text \<open>The body of the loop of \<open>submit_expenses\<close>.\<close>

definition mark_submitted :: "request \<Rightarrow> actual_expense \<Rightarrow> actual_expense" where
  "mark_submitted q e =
     e\<lparr>ex_status := EX_SUBMITTED, ex_submitted_at := Some (now q), ex_submitted_by := actor_id q\<rparr>"

definition submit_one :: "request \<Rightarrow> actual_expense \<Rightarrow> db \<Rightarrow> db" where
  "submit_one q e d =
     (let action = (if ex_status e = EX_QUERIED then A_EXPENSE_RESUBMITTED else A_EXPENSE_SUBMITTED);
          d1 = d\<lparr>expenses := put ex_id (mark_submitted q e) (expenses d)\<rparr>
      in add_audit q action ''actual_expense'' (ex_id e)
           (JObj [(''status'', JEnum (J_expense_status (ex_status e)))])
           (JObj [(''status'', JEnum (J_expense_status EX_SUBMITTED)),
                  (''claimed_amount'', JMoney (ex_claimed_amount e)),
                  (''submitted_at'', JTime (now q))])
           (Some ''Expense submitted for Finance verification'') d1)"

definition submittable :: "event \<Rightarrow> uuid list option \<Rightarrow> actual_expense \<Rightarrow> bool" where
  "submittable ev expense_ids e \<longleftrightarrow>
     ex_event_id e = ev_id ev \<and> ex_status e \<in> {EX_DRAFT, EX_QUERIED} \<and>
     (case expense_ids of None \<Rightarrow> True | Some ids \<Rightarrow> ids = [] \<or> ex_id e \<in> set ids)"

definition submit_expenses ::
    "request \<Rightarrow> uuid \<Rightarrow> uuid list option \<Rightarrow> db \<Rightarrow> (uuid list \<times> db) res" where
  "submit_expenses q event_id expense_ids d =
     and_then (exp_get_confirmed_event d event_id True) (\<lambda>ev.
     and_then (require_event_completed ev) (\<lambda>_.
     and_then (exp_verify_club_secretary q d ev) (\<lambda>_.
     let es = filter (submittable ev expense_ids) (expenses d) in
     require (es \<noteq> []) BadRequestError (
     let d1 = fold (submit_one q) es d;
         finance_officers = map us_id (active_users_with_roles d [FINANCE_OFFICER]);
         d2 = notify_all q finance_officers N_EXPENSE_SUBMITTED (Some (ev_event_request_id ev)) d1
     in commit IntegrityError (map ex_id es) d2))))"

section \<open>Finance officer audit actions\<close>

definition disallowed_amount :: "actual_expense \<Rightarrow> money" where
  "disallowed_amount e =
     (if ex_status e \<in> {EX_VERIFIED, EX_PARTIALLY_VERIFIED, EX_DISALLOWED}
      then max 0 (ex_claimed_amount e - (case ex_verified_amount e of None \<Rightarrow> 0 | Some v \<Rightarrow> v))
      else 0)"

definition audit_prior_state :: "actual_expense \<Rightarrow> json" where
  "audit_prior_state e =
     JObj [(''status'', JEnum (J_expense_status (ex_status e))),
           (''claimed_amount'', JMoney (ex_claimed_amount e)), (''verified_amount'', JNull)]"

definition audit_new_state :: "actual_expense \<Rightarrow> string option \<Rightarrow> json" where
  "audit_new_state e remarks =
     JObj [(''status'', JEnum (J_expense_status (ex_status e))),
           (''claimed_amount'', JMoney (ex_claimed_amount e)),
           (''verified_amount'', j_opt JMoney (ex_verified_amount e)),
           (''disallowed_amount'', JMoney (disallowed_amount e)),
           (''finance_remarks'', j_opt JText remarks)]"

definition verify_expense ::
    "request \<Rightarrow> uuid \<Rightarrow> uuid \<Rightarrow> string option \<Rightarrow> db \<Rightarrow> (actual_expense \<times> db) res" where
  "verify_expense q event_id expense_id remarks d =
     and_then (exp_verify_finance_officer q) (\<lambda>_.
     and_then (exp_get_confirmed_event d event_id True) (\<lambda>ev.
     and_then (verify_delivery_certified d ev) (\<lambda>_.
     fetch (find_expense d expense_id ev) NotFoundError (\<lambda>e.
     require (ex_status e = EX_SUBMITTED) WorkflowStateError (
     let e' = e\<lparr>ex_verified_amount := Some (ex_claimed_amount e), ex_status := EX_VERIFIED,
                ex_verified_by := Some (actor_id q), ex_verified_at := Some (now q),
                ex_finance_remarks := remarks\<rparr>;
         reason = (if truthy remarks then remarks else Some ''Full claim verified by Finance Officer'');
         d1 = d\<lparr>expenses := put ex_id e' (expenses d)\<rparr>;
         d2 = add_audit q A_EXPENSE_VERIFIED ''actual_expense'' (ex_id e)
                (audit_prior_state e) (audit_new_state e' remarks) reason d1;
         d3 = create_notification q (ex_submitted_by e) N_EXPENSE_VERIFIED
                (Some (ev_event_request_id ev)) d2
     in commit IntegrityError e' d3)))))"

definition partial_verify_expense ::
    "request \<Rightarrow> uuid \<Rightarrow> uuid \<Rightarrow> money \<Rightarrow> string \<Rightarrow> db \<Rightarrow> (actual_expense \<times> db) res" where
  "partial_verify_expense q event_id expense_id verified_amount remarks d =
     and_then (exp_verify_finance_officer q) (\<lambda>_.
     and_then (exp_get_confirmed_event d event_id True) (\<lambda>ev.
     and_then (verify_delivery_certified d ev) (\<lambda>_.
     fetch (find_expense d expense_id ev) NotFoundError (\<lambda>e.
     require (ex_status e = EX_SUBMITTED) WorkflowStateError (
     require (\<not> verified_amount \<ge> ex_claimed_amount e) BadRequestError (
     require (\<not> verified_amount \<le> 0) BadRequestError (
     let e' = e\<lparr>ex_verified_amount := Some verified_amount, ex_status := EX_PARTIALLY_VERIFIED,
                ex_verified_by := Some (actor_id q), ex_verified_at := Some (now q),
                ex_finance_remarks := Some remarks\<rparr>;
         d1 = d\<lparr>expenses := put ex_id e' (expenses d)\<rparr>;
         d2 = add_audit q A_EXPENSE_PARTIALLY_VERIFIED ''actual_expense'' (ex_id e)
                (audit_prior_state e) (audit_new_state e' (Some remarks)) (Some remarks) d1;
         d3 = create_notification q (ex_submitted_by e) N_EXPENSE_PARTIALLY_VERIFIED
                (Some (ev_event_request_id ev)) d2
     in commit IntegrityError e' d3)))))))"

definition query_expense ::
    "request \<Rightarrow> uuid \<Rightarrow> uuid \<Rightarrow> string \<Rightarrow> db \<Rightarrow> (actual_expense \<times> db) res" where
  "query_expense q event_id expense_id remarks d =
     and_then (exp_verify_finance_officer q) (\<lambda>_.
     and_then (exp_get_confirmed_event d event_id True) (\<lambda>ev.
     and_then (verify_delivery_certified d ev) (\<lambda>_.
     fetch (find_expense d expense_id ev) NotFoundError (\<lambda>e.
     require (ex_status e = EX_SUBMITTED) WorkflowStateError (
     let e' = e\<lparr>ex_status := EX_QUERIED, ex_query_reason := Some remarks,
                ex_finance_remarks := Some remarks\<rparr>;
         d1 = d\<lparr>expenses := put ex_id e' (expenses d)\<rparr>;
         d2 = add_audit q A_EXPENSE_QUERIED ''actual_expense'' (ex_id e)
                (JObj [(''status'', JEnum (J_expense_status (ex_status e))),
                       (''claimed_amount'', JMoney (ex_claimed_amount e)),
                       (''vendor_name'', JText (ex_vendor_name e)),
                       (''invoice_number'', j_opt JText (ex_invoice_number e)),
                       (''bill_document_id'', JUuid (ex_bill_document_id e))])
                (JObj [(''status'', JEnum (J_expense_status EX_QUERIED)),
                       (''query_reason'', JText remarks)]) (Some remarks) d1;
         d3 = create_notification q (ex_submitted_by e) N_EXPENSE_QUERIED
                (Some (ev_event_request_id ev)) d2
     in commit IntegrityError e' d3)))))"

definition disallow_expense ::
    "request \<Rightarrow> uuid \<Rightarrow> uuid \<Rightarrow> string \<Rightarrow> db \<Rightarrow> (actual_expense \<times> db) res" where
  "disallow_expense q event_id expense_id remarks d =
     and_then (exp_verify_finance_officer q) (\<lambda>_.
     and_then (exp_get_confirmed_event d event_id True) (\<lambda>ev.
     and_then (verify_delivery_certified d ev) (\<lambda>_.
     fetch (find_expense d expense_id ev) NotFoundError (\<lambda>e.
     require (ex_status e = EX_SUBMITTED) WorkflowStateError (
     let e' = e\<lparr>ex_verified_amount := Some 0, ex_status := EX_DISALLOWED,
                ex_verified_by := Some (actor_id q), ex_verified_at := Some (now q),
                ex_finance_remarks := Some remarks\<rparr>;
         d1 = d\<lparr>expenses := put ex_id e' (expenses d)\<rparr>;
         d2 = add_audit q A_EXPENSE_DISALLOWED ''actual_expense'' (ex_id e)
                (audit_prior_state e)
                (JObj [(''status'', JEnum (J_expense_status EX_DISALLOWED)),
                       (''claimed_amount'', JMoney (ex_claimed_amount e)),
                       (''verified_amount'', JMoney 0),
                       (''disallowed_amount'', JMoney (ex_claimed_amount e)),
                       (''finance_remarks'', JText remarks)]) (Some remarks) d1;
         d3 = create_notification q (ex_submitted_by e) N_EXPENSE_DISALLOWED
                (Some (ev_event_request_id ev)) d2
     in commit IntegrityError e' d3)))))"

section \<open>Queries\<close>

definition exp_view_allowed :: "request \<Rightarrow> db \<Rightarrow> event \<Rightarrow> unit res" where
  "exp_view_allowed q d ev =
     (if actor_role q = CLUB_SECRETARY
      then fetch (club_membership d (ev_club_id ev) (actor_id q)) ForbiddenError (\<lambda>_. Inr ())
      else Inr ())"

record expense_response =
  xr_expense :: actual_expense
  xr_disallowed_amount :: money
  xr_submitted_by_name :: "string option"
  xr_submitted_by_email :: "string option"
  xr_verified_by_name :: "string option"
  xr_verified_by_email :: "string option"
  xr_bill_original_filename :: "string option"

definition to_actual_expense_response :: "db \<Rightarrow> actual_expense \<Rightarrow> expense_response" where
  "to_actual_expense_response d e =
     (let submitter = row us_id (ex_submitted_by e) (users d);
          verifier = Option.bind (ex_verified_by e) (\<lambda>i. row us_id i (users d));
          bill_document = row dc_id (ex_bill_document_id e) (documents d)
      in \<lparr>xr_expense = e, xr_disallowed_amount = disallowed_amount e,
          xr_submitted_by_name = map_option us_full_name submitter,
          xr_submitted_by_email = map_option us_email submitter,
          xr_verified_by_name = map_option us_full_name verifier,
          xr_verified_by_email = map_option us_email verifier,
          xr_bill_original_filename = map_option dc_original_filename bill_document\<rparr>)"

definition expenses_of :: "db \<Rightarrow> uuid \<Rightarrow> actual_expense list" where
  "expenses_of d event_id = sort_key ex_created_at (filter (\<lambda>e. ex_event_id e = event_id) (expenses d))"

definition get_event_expenses :: "request \<Rightarrow> uuid \<Rightarrow> db \<Rightarrow> expense_response list res" where
  "get_event_expenses q event_id d =
     and_then (exp_get_confirmed_event d event_id False) (\<lambda>ev.
     and_then (exp_view_allowed q d ev) (\<lambda>_.
     Inr (map (to_actual_expense_response d) (expenses_of d (ev_id ev)))))"

definition get_single_expense :: "request \<Rightarrow> uuid \<Rightarrow> uuid \<Rightarrow> db \<Rightarrow> expense_response res" where
  "get_single_expense q event_id expense_id d =
     and_then (exp_get_confirmed_event d event_id False) (\<lambda>ev.
     and_then (exp_view_allowed q d ev) (\<lambda>_.
     fetch (find_expense d expense_id ev) NotFoundError (\<lambda>e.
     Inr (to_actual_expense_response d e))))"

text \<open>
  The aggregates of the ledger: \<open>defaultdict\<close>s are association lists in insertion order, a missing key
  starting from its default; \<open>sorted\<close> orders the categories by their names.
\<close>

fun dict_adjust :: "'k \<Rightarrow> 'v \<Rightarrow> ('v \<Rightarrow> 'v) \<Rightarrow> ('k \<times> 'v) list \<Rightarrow> ('k \<times> 'v) list" where
  "dict_adjust k v0 f [] = [(k, f v0)]"
| "dict_adjust k v0 f ((k', v) # kvs) =
     (if k' = k then (k', f v) # kvs else (k', v) # dict_adjust k v0 f kvs)"

record category_stats =
  cs_claimed :: money
  cs_verified :: money
  cs_disallowed :: money
  cs_count :: nat

record ledger_totals =
  lt_claimed :: money
  lt_verified :: money
  lt_disallowed :: money
  lt_status_counts :: "(actual_expense_status \<times> nat) list"
  lt_cat_stats :: "(budget_line_item_category \<times> category_stats) list"

text \<open>What one claim adds to the claimed, verified and disallowed spend.\<close>

definition claimed_share :: "actual_expense \<Rightarrow> money" where
  "claimed_share e = (if ex_status e \<noteq> EX_DISALLOWED then ex_claimed_amount e else 0)"

definition verified_share :: "actual_expense \<Rightarrow> money" where
  "verified_share e =
     (if ex_status e \<in> {EX_VERIFIED, EX_PARTIALLY_VERIFIED}
      then (case ex_verified_amount e of None \<Rightarrow> 0 | Some v \<Rightarrow> v) else 0)"

definition disallowed_share :: "actual_expense \<Rightarrow> money" where
  "disallowed_share e =
     (if ex_status e \<in> {EX_VERIFIED, EX_PARTIALLY_VERIFIED, EX_DISALLOWED}
      then disallowed_amount e else 0)"

definition ledger_step :: "actual_expense \<Rightarrow> ledger_totals \<Rightarrow> ledger_totals" where
  "ledger_step e a =
     \<lparr>lt_claimed = lt_claimed a + claimed_share e,
      lt_verified = lt_verified a + verified_share e,
      lt_disallowed = lt_disallowed a + disallowed_share e,
      lt_status_counts = dict_adjust (ex_status e) 0 Suc (lt_status_counts a),
      lt_cat_stats =
        dict_adjust (ex_category e) \<lparr>cs_claimed = 0, cs_verified = 0, cs_disallowed = 0, cs_count = 0\<rparr>
          (\<lambda>s. \<lparr>cs_claimed = cs_claimed s + claimed_share e,
                cs_verified = cs_verified s + verified_share e,
                cs_disallowed = cs_disallowed s + disallowed_share e,
                cs_count = Suc (cs_count s)\<rparr>)
          (lt_cat_stats a)\<rparr>"

definition ledger_start :: ledger_totals where
  "ledger_start = \<lparr>lt_claimed = 0, lt_verified = 0, lt_disallowed = 0, lt_status_counts = [], lt_cat_stats = []\<rparr>"

text \<open>The position of a category among the sorted names.\<close>

fun category_rank :: "budget_line_item_category \<Rightarrow> nat" where
  "category_rank BC_CATERING = 0"
| "category_rank BC_DECORATION = 1"
| "category_rank BC_HONORARIUM = 2"
| "category_rank BC_MATERIALS = 3"
| "category_rank BC_OTHER = 4"
| "category_rank BC_PRINTING = 5"
| "category_rank BC_TECHNOLOGY = 6"
| "category_rank BC_TRANSPORT = 7"
| "category_rank BC_VENUE = 8"

record ledger_summary =
  lg_event_id :: uuid
  lg_sanctioned_budget :: money
  lg_total_claimed_spend :: money
  lg_total_verified_spend :: money
  lg_total_disallowed_spend :: money
  lg_total_expenses_count :: nat
  lg_status_counts :: "(actual_expense_status \<times> nat) list"
  lg_category_breakdown :: "(budget_line_item_category \<times> category_stats) list"
  lg_can_submit :: bool
  lg_can_audit :: bool
  lg_delivery_certified :: bool
  lg_items :: "expense_response list"

definition get_ledger_summary :: "request \<Rightarrow> uuid \<Rightarrow> db \<Rightarrow> ledger_summary res" where
  "get_ledger_summary q event_id d =
     and_then (exp_get_confirmed_event d event_id False) (\<lambda>ev.
     and_then (exp_view_allowed q d ev) (\<lambda>_.
     let es = expenses_of d (ev_id ev);
         sanctioned_budget =
           (case scalar (\<lambda>b. bp_event_request_id b = ev_event_request_id ev) (budgets d) of
              None \<Rightarrow> 0 | Some b \<Rightarrow> bp_total_expected_expenditure b);
         totals = fold ledger_step es ledger_start;
         delivery_certified =
           (case report_of d (ev_id ev) of None \<Rightarrow> False | Some r \<Rightarrow> rp_status r = RP_CERTIFIED)
     in Inr \<lparr>lg_event_id = ev_id ev, lg_sanctioned_budget = sanctioned_budget,
         lg_total_claimed_spend = lt_claimed totals, lg_total_verified_spend = lt_verified totals,
         lg_total_disallowed_spend = lt_disallowed totals, lg_total_expenses_count = length es,
         lg_status_counts = lt_status_counts totals,
         lg_category_breakdown = sort_key (category_rank \<circ> fst) (lt_cat_stats totals),
         lg_can_submit = (actor_role q = CLUB_SECRETARY \<and> ev_status ev = EV_COMPLETED \<and>
           list_ex (\<lambda>e. ex_status e \<in> {EX_DRAFT, EX_QUERIED}) es),
         lg_can_audit = (actor_role q = FINANCE_OFFICER \<and> delivery_certified \<and>
           list_ex (\<lambda>e. ex_status e = EX_SUBMITTED) es),
         lg_delivery_certified = delivery_certified,
         lg_items = map (to_actual_expense_response d) es\<rparr>))"

section \<open>The ledger as a service\<close>

datatype expense_request =
    CreateExpense uuid expense_create
  | UpdateExpense uuid uuid expense_update
  | DeleteExpense uuid uuid
  | SubmitExpenses uuid "uuid list option"
  | VerifyExpense uuid uuid "string option"
  | PartialVerifyExpense uuid uuid money string
  | QueryExpense uuid uuid string
  | DisallowExpense uuid uuid string

fun expense_exec :: "request \<Rightarrow> expense_request \<Rightarrow> db \<Rightarrow> db res" where
  "expense_exec q (CreateExpense ev p) d =
     and_then (expense_create_schema p) (\<lambda>p. db_of (create_draft_expense q ev p d))"
| "expense_exec q (UpdateExpense ev i p) d =
     and_then (expense_update_schema p) (\<lambda>p. db_of (update_expense q ev i p d))"
| "expense_exec q (DeleteExpense ev i) d = db_of (delete_draft_expense q ev i d)"
| "expense_exec q (SubmitExpenses ev ids) d = db_of (submit_expenses q ev ids d)"
| "expense_exec q (VerifyExpense ev i remarks) d = db_of (verify_expense q ev i remarks d)"
| "expense_exec q (PartialVerifyExpense ev i amount remarks) d =
     require (amount > 0) RequestValidationError (
     and_then (remarks_schema remarks) (\<lambda>r. db_of (partial_verify_expense q ev i amount r d)))"
| "expense_exec q (QueryExpense ev i remarks) d =
     and_then (remarks_schema remarks) (\<lambda>r. db_of (query_expense q ev i r d))"
| "expense_exec q (DisallowExpense ev i remarks) d =
     and_then (remarks_schema remarks) (\<lambda>r. db_of (disallow_expense q ev i r d))"

lemmas expense_handler_defs =
  create_draft_expense_def update_expense_def delete_draft_expense_def submit_expenses_def
  verify_expense_def partial_verify_expense_def query_expense_def disallow_expense_def

lemmas expense_check_defs =
  exp_get_confirmed_event_def exp_ensure_event_mutable_def require_event_completed_def
  exp_verify_club_secretary_def exp_verify_finance_officer_def verify_delivery_certified_def
  verify_bill_document_def find_expense_def

lemma submit_one_frame [simp]:
  "events (submit_one q e d) = events d"
  "settlements (submit_one q e d) = settlements d"
  "audit_logs (fold (submit_one q) [] d) = audit_logs d"
  by (simp_all add: submit_one_def Let_def)

lemma submit_one_expenses:
  "expenses (submit_one q e d) = put ex_id (mark_submitted q e) (expenses d)"
  by (simp add: submit_one_def Let_def)

lemma submit_one_audit: "signed q d (submit_one q e d)"
  by (simp add: submit_one_def Let_def)

lemma fold_submit_audit: "signed q d (fold (submit_one q) es d)"
proof (induction es arbitrary: d)
  case Nil
  then show ?case by simp
next
  case (Cons e es)
  from submit_one_audit [of q e d] Cons.IH [of "submit_one q e d"] show ?case by auto
qed

lemma expense_exec_ok: "expense_exec q r d = Inr d' \<Longrightarrow> db_ok d'"
  by (cases r) (auto simp: res_simps expense_handler_defs Let_def case_prod_unfold)

lemma expense_exec_audit: "expense_exec q r d = Inr d' \<Longrightarrow> signed q d d'"
  by (cases r) (auto simp: res_simps expense_handler_defs Let_def case_prod_unfold fold_submit_audit)

interpretation expense_service: audited_service expense_exec
  by unfold_locales (auto dest: expense_exec_ok expense_exec_audit)


lemma mark_submitted_simps [simp]:
  "ex_id (mark_submitted q e) = ex_id e"
  "ex_status (mark_submitted q e) = EX_SUBMITTED"
  "ex_verified_amount (mark_submitted q e) = ex_verified_amount e"
  "ex_claimed_amount (mark_submitted q e) = ex_claimed_amount e"
  "ex_event_id (mark_submitted q e) = ex_event_id e"
  "ex_bill_document_id (mark_submitted q e) = ex_bill_document_id e"
  "ex_vendor_name (mark_submitted q e) = ex_vendor_name e"
  "ex_invoice_number (mark_submitted q e) = ex_invoice_number e"
  "ex_invoice_date (mark_submitted q e) = ex_invoice_date e"
  by (simp_all add: mark_submitted_def)

lemma fold_submit_expenses:
  "expenses (fold (submit_one q) es d) = fold (\<lambda>e. put ex_id (mark_submitted q e)) es (expenses d)"
  by (induction es arbitrary: d) (simp_all add: submit_one_expenses)

lemma fold_put_rows:
  "x \<in> set (fold (\<lambda>e. put ex_id (mark_submitted q e)) es t) \<Longrightarrow>
     x \<in> set t \<or> (\<exists>e\<in>set es. x = mark_submitted q e)"
  by (induction es arbitrary: t) (auto dest: put_rows)

lemma fold_submittable_rows:
  "x \<in> set (fold (\<lambda>e. put ex_id (mark_submitted q e)) (filter (submittable ev ids) t) t) \<Longrightarrow>
     x \<in> set t \<or> (\<exists>e\<in>set t. ex_status e \<in> {EX_DRAFT, EX_QUERIED} \<and> x = mark_submitted q e)"
  by (drule fold_put_rows) (force simp: submittable_def)

lemma fold_put_keeps:
  "x \<in> set t \<Longrightarrow> (\<forall>e\<in>set es. ex_id e \<noteq> ex_id x) \<Longrightarrow>
     x \<in> set (fold (\<lambda>e. put ex_id (mark_submitted q e)) es t)"
  by (induction es arbitrary: t) (auto simp: in_put)

lemma find_expense_Some:
  "find_expense d i ev = Some e \<Longrightarrow> e \<in> set (expenses d) \<and> ex_id e = i \<and> ex_event_id e = ev_id ev"
  by (auto simp: find_expense_def dest: scalar_Some)

lemma replace_bill_Inr:
  "replace_bill d ev b e = Inr e1 \<Longrightarrow>
     e1 = e\<lparr>ex_bill_document_id := set_if b (ex_bill_document_id e)\<rparr>"
  by (auto simp: replace_bill_def verify_bill_document_def active_document_def set_if_def res_simps
      split: option.splits if_splits dest!: scalar_Some)

lemma apply_expense_update_simps [simp]:
  "ex_id (apply_expense_update p f n e) = ex_id e"
  "ex_status (apply_expense_update p f n e) = ex_status e"
  "ex_verified_amount (apply_expense_update p f n e) = ex_verified_amount e"
  "ex_event_id (apply_expense_update p f n e) = ex_event_id e"
  "ex_bill_document_id (apply_expense_update p f n e) = ex_bill_document_id e"
  "ex_vendor_name (apply_expense_update p f n e) =
     set_if (map_option strip (xu_vendor_name p)) (ex_vendor_name e)"
  "ex_invoice_number (apply_expense_update p f n e) =
     set_stripped (xu_invoice_number p) (ex_invoice_number e)"
  "ex_invoice_date (apply_expense_update p f n e) = set_if (xu_invoice_date p) (ex_invoice_date e)"
  by (simp_all add: apply_expense_update_def)

section \<open>Amounts\<close>

definition expense_sound :: "actual_expense \<Rightarrow> bool" where
  "expense_sound e =
     (case ex_status e of
        EX_VERIFIED \<Rightarrow> ex_verified_amount e = Some (ex_claimed_amount e)
      | EX_PARTIALLY_VERIFIED \<Rightarrow>
          (case ex_verified_amount e of None \<Rightarrow> False | Some v \<Rightarrow> 0 < v \<and> v < ex_claimed_amount e)
      | EX_DISALLOWED \<Rightarrow> ex_verified_amount e = Some 0
      | _ \<Rightarrow> ex_verified_amount e = None)"

definition expense_final :: "actual_expense \<Rightarrow> bool" where
  "expense_final e \<longleftrightarrow> ex_status e \<in> {EX_VERIFIED, EX_PARTIALLY_VERIFIED, EX_DISALLOWED}"

text \<open>The life of a claim.\<close>

inductive expense_step :: "request \<Rightarrow> actual_expense \<Rightarrow> actual_expense \<Rightarrow> bool" for q where
  amend: "ex_status x \<in> {EX_DRAFT, EX_QUERIED} \<Longrightarrow> ex_status y = ex_status x \<Longrightarrow>
     ex_verified_amount y = ex_verified_amount x \<Longrightarrow> ex_event_id y = ex_event_id x \<Longrightarrow>
     ex_submitted_by y = ex_submitted_by x \<Longrightarrow> expense_step q x y"
| submit: "ex_status x \<in> {EX_DRAFT, EX_QUERIED} \<Longrightarrow> expense_step q x (mark_submitted q x)"
| verify: "actor_role q = FINANCE_OFFICER \<Longrightarrow> ex_status x = EX_SUBMITTED \<Longrightarrow>
     expense_step q x (x\<lparr>ex_verified_amount := Some (ex_claimed_amount x), ex_status := EX_VERIFIED,
       ex_verified_by := Some (actor_id q), ex_verified_at := Some (now q), ex_finance_remarks := r\<rparr>)"
| partial: "actor_role q = FINANCE_OFFICER \<Longrightarrow> ex_status x = EX_SUBMITTED \<Longrightarrow>
     0 < v \<Longrightarrow> v < ex_claimed_amount x \<Longrightarrow>
     expense_step q x (x\<lparr>ex_verified_amount := Some v, ex_status := EX_PARTIALLY_VERIFIED,
       ex_verified_by := Some (actor_id q), ex_verified_at := Some (now q), ex_finance_remarks := r\<rparr>)"
| query: "actor_role q = FINANCE_OFFICER \<Longrightarrow> ex_status x = EX_SUBMITTED \<Longrightarrow>
     expense_step q x (x\<lparr>ex_status := EX_QUERIED, ex_query_reason := Some s, ex_finance_remarks := Some s\<rparr>)"
| disallow: "actor_role q = FINANCE_OFFICER \<Longrightarrow> ex_status x = EX_SUBMITTED \<Longrightarrow>
     expense_step q x (x\<lparr>ex_verified_amount := Some 0, ex_status := EX_DISALLOWED,
       ex_verified_by := Some (actor_id q), ex_verified_at := Some (now q), ex_finance_remarks := r\<rparr>)"

inductive_cases expense_stepE: "expense_step q x y"

definition expense_new :: "request \<Rightarrow> actual_expense \<Rightarrow> bool" where
  "expense_new q e \<longleftrightarrow> ex_status e = EX_DRAFT \<and> ex_verified_amount e = None \<and> ex_submitted_by e = actor_id q"

lemma expense_exec_evolves:
  assumes "expense_exec q r d = Inr d'"
  shows "evolves ex_id (expense_new q) (expense_step q) (expenses d) (expenses d')"
proof (cases r)
  case (SubmitExpenses ev ids)
  with assms obtain v where "expenses d' = fold (\<lambda>e. put ex_id (mark_submitted q e))
      (filter (submittable v ids) (expenses d)) (expenses d)"
    by (auto simp: res_simps submit_expenses_def Let_def fold_submit_expenses)
  then show ?thesis
    using expense_step.submit by (intro evolvesI) (fastforce dest: fold_submittable_rows)
next
  case (UpdateExpense ev i p)
  with assms obtain v p' e e1 b n where
    e: "find_expense d i v = Some e" "ex_status e \<notin> {EX_VERIFIED, EX_PARTIALLY_VERIFIED, EX_DISALLOWED}"
      "ex_status e \<noteq> EX_SUBMITTED"
    and e1: "replace_bill d v (xu_bill_document_id p') e = Inr e1"
    and d': "expenses d' = put ex_id (apply_expense_update p' b n e1) (expenses d)"
    by (auto simp: res_simps update_expense_def Let_def case_prod_unfold)
  have "expense_step q e (apply_expense_update p' b n e1)"
    using e(2,3) replace_bill_Inr [OF e1]
    by (intro amend) (cases "ex_status e"; simp add: apply_expense_update_def)+
  with find_expense_Some [OF e(1)] replace_bill_Inr [OF e1] show ?thesis
    unfolding d' by (intro evolves_put) auto
qed (use assms in \<open>auto simp: res_simps expense_handler_defs Let_def expense_new_def expense_check_defs
    intro!: evolves_put evolves_snoc evolves_remove verify partial query disallow dest!: scalar_Some\<close>)

interpretation expense_machine: row_machine expense_exec expenses ex_id expense_new expense_step
  by unfold_locales (rule expense_exec_evolves)

lemma expense_step_sound: "expense_step q x y \<Longrightarrow> expense_sound x \<Longrightarrow> expense_sound y"
  by (erule expense_stepE) (auto simp: expense_sound_def)

lemma expense_new_sound: "expense_new q x \<Longrightarrow> expense_sound x"
  by (simp add: expense_sound_def expense_new_def)

text \<open>Final rows.\<close>

lemma submittable_not_final: "submittable ev ids e \<Longrightarrow> \<not> expense_final e"
  by (auto simp: submittable_def expense_final_def)

lemma expense_exec_final:
  assumes ok: "db_ok d" and ex: "expense_exec q r d = Inr d'"
    and x: "x \<in> set (expenses d)" and fin: "expense_final x"
  shows "x \<in> set (expenses d')"
proof -
  have dist: "distinct (map ex_id (expenses d))" using db_ok_keys(8) [OF ok] .
  note fin = final_put [where P = expense_final, OF dist x _ fin]
    final_remove [where P = expense_final, OF dist x _ fin]
  show ?thesis
  proof (cases r)
    case (UpdateExpense ev i p)
    with ex x show ?thesis
      by (auto simp: res_simps update_expense_def Let_def case_prod_unfold expense_final_def
          dest!: find_expense_Some replace_bill_Inr intro!: fin)
  next
    case (SubmitExpenses ev ids)
    have "x \<in> set (fold (\<lambda>e. put ex_id (mark_submitted q e))
        (filter (submittable v ids) (expenses d)) (expenses d))" for v
      using submittable_not_final [of v ids] dist x assms(4)
      by (intro fold_put_keeps [OF x]) (auto simp: distinct_map inj_on_def)
    with SubmitExpenses ex show ?thesis
      by (auto simp: res_simps submit_expenses_def Let_def fold_submit_expenses)
  qed (use ex x in \<open>auto simp: res_simps expense_handler_defs Let_def expense_final_def
        dest!: find_expense_Some intro!: fin\<close>)
qed

interpretation expense_finality: final_rows expense_exec expenses expense_final
  by unfold_locales (rule expense_exec_final)

section \<open>No invoice is claimed twice\<close>
definition same_invoice :: "actual_expense \<Rightarrow> actual_expense \<Rightarrow> bool" where
  "same_invoice a b \<longleftrightarrow>
     lower (ex_vendor_name a) = lower (ex_vendor_name b) \<and>
     ex_invoice_number a \<noteq> None \<and>
     map_option lower (ex_invoice_number a) = map_option lower (ex_invoice_number b) \<and>
     ex_invoice_date a = ex_invoice_date b \<and>
     ex_status a \<noteq> EX_DISALLOWED \<and> ex_status b \<noteq> EX_DISALLOWED"

text \<open>Two live claims on one invoice belong to one event and one bill.\<close>

definition invoices_agree :: "actual_expense \<Rightarrow> actual_expense \<Rightarrow> bool" where
  "invoices_agree a b \<longleftrightarrow>
     (same_invoice a b \<longrightarrow> ex_event_id a = ex_event_id b \<and> ex_bill_document_id a = ex_bill_document_id b)"

text \<open>The texts a claim is compared by are stored stripped.\<close>

definition invoice_clean :: "actual_expense \<Rightarrow> bool" where
  "invoice_clean e \<longleftrightarrow>
     strip (ex_vendor_name e) = ex_vendor_name e \<and>
     (case ex_invoice_number e of None \<Rightarrow> True | Some n \<Rightarrow> strip n = n \<and> n \<noteq> [])"

definition invoices_ok :: "actual_expense list \<Rightarrow> bool" where
  "invoices_ok t \<longleftrightarrow>
     (\<forall>a\<in>set t. invoice_clean a) \<and>
     (\<forall>a\<in>set t. \<forall>b\<in>set t. ex_id a \<noteq> ex_id b \<longrightarrow> invoices_agree a b)"

lemma invoices_agree_sym: "invoices_agree a b \<longleftrightarrow> invoices_agree b a"
  by (cases "ex_invoice_number a"; cases "ex_invoice_number b") (auto simp: invoices_agree_def same_invoice_def)

lemma sql_norm_strip [simp]: "sql_norm (strip s) = lower (strip s)"
  by (simp add: sql_norm_def)

lemma sql_norm_clean: "strip s = s \<Longrightarrow> sql_norm s = lower s"
  by (metis sql_norm_strip)

lemma invoices_put:
  assumes "invoices_ok t" and "invoice_clean r"
    and "\<And>b. b \<in> set t \<Longrightarrow> ex_id b \<noteq> ex_id r \<Longrightarrow> invoices_agree r b"
  shows "invoices_ok (put ex_id r t)"
  using assms unfolding invoices_ok_def by (auto simp: in_put invoices_agree_sym)

lemma invoices_snoc:
  assumes "invoices_ok t" and "invoice_clean r" and "\<And>b. b \<in> set t \<Longrightarrow> invoices_agree r b"
  shows "invoices_ok (t @ [r])"
  using assms unfolding invoices_ok_def by (auto simp: invoices_agree_sym)

lemma invoices_subset: "invoices_ok t \<Longrightarrow> set t' \<subseteq> set t \<Longrightarrow> invoices_ok t'"
  by (auto simp: invoices_ok_def)

text \<open>A step that keeps the invoice and does not revive a disallowed claim.\<close>

definition same_papers :: "actual_expense \<Rightarrow> actual_expense \<Rightarrow> bool" where
  "same_papers e r \<longleftrightarrow>
     ex_id r = ex_id e \<and> ex_vendor_name r = ex_vendor_name e \<and>
     ex_invoice_number r = ex_invoice_number e \<and> ex_invoice_date r = ex_invoice_date e \<and>
     ex_event_id r = ex_event_id e \<and> ex_bill_document_id r = ex_bill_document_id e \<and>
     (ex_status e = EX_DISALLOWED \<longrightarrow> ex_status r = EX_DISALLOWED)"

lemma invoices_put_same:
  assumes "invoices_ok t" and "e \<in> set t" and "same_papers e r"
  shows "invoices_ok (put ex_id r t)"
proof (rule invoices_put [OF assms(1)])
  show "invoice_clean r" using assms by (auto simp: invoices_ok_def invoice_clean_def same_papers_def)
next
  fix b
  assume "b \<in> set t" "ex_id b \<noteq> ex_id r"
  with assms have "invoices_agree e b" by (auto simp: invoices_ok_def same_papers_def)
  with assms(3) show "invoices_agree r b"
    by (auto simp: invoices_agree_def same_invoice_def same_papers_def)
qed

lemma invoices_fold_submitted:
  assumes "invoices_ok t" and "distinct (map ex_id es)"
    and "\<forall>e\<in>set es. \<exists>x\<in>set t. same_papers x (mark_submitted q e)"
  shows "invoices_ok (fold (\<lambda>e. put ex_id (mark_submitted q e)) es t)"
  using assms
proof (induction es arbitrary: t)
  case Nil
  then show ?case by simp
next
  case (Cons e es)
  let ?t = "put ex_id (mark_submitted q e) t"
  have "\<exists>x\<in>set ?t. same_papers x (mark_submitted q f)" if f: "f \<in> set es" for f
  proof -
    from Cons.prems(3) f obtain x where x: "x \<in> set t" "same_papers x (mark_submitted q f)" by auto
    have "ex_id f \<noteq> ex_id e" using Cons.prems(2) imageI [OF f, of ex_id] by auto
    then have "ex_id x \<noteq> ex_id e" using x(2) by (simp add: same_papers_def)
    with x show ?thesis by (auto simp: in_put)
  qed
  moreover have "invoices_ok ?t" using Cons.prems by (auto intro: invoices_put_same)
  ultimately show ?case using Cons.IH Cons.prems(2) by simp
qed

text \<open>What the check establishes for the row that is then written.\<close>

lemma check_duplicate_agree:
  assumes "check_duplicate_invoice d ev v n dt b ex = Inr r"
    and "x \<in> set (expenses d)" and "invoice_clean x"
    and "case ex of None \<Rightarrow> True | Some i \<Rightarrow> ex_id x \<noteq> i"
    and "ex_vendor_name y = strip v" and "ex_invoice_date y = dt"
    and "ex_invoice_number y = None \<or> (\<exists>m. n = Some m \<and> strip m \<noteq> [] \<and> ex_invoice_number y = Some (strip m))"
    and "ex_event_id y = ev_id ev" and "ex_bill_document_id y = b"
  shows "invoices_agree y x"
proof (cases "same_invoice y x")
  case False
  then show ?thesis by (simp add: invoices_agree_def)
next
  case True
  with assms(7) obtain m k where m: "n = Some m" "strip m \<noteq> []" "ex_invoice_number y = Some (strip m)"
    and k: "ex_invoice_number x = Some k" "lower k = lower (strip m)"
    by (cases "ex_invoice_number x") (auto simp: same_invoice_def)
  have "invoice_match (py_norm v) (py_norm m) dt ex x"
    using True assms(3-6) m k sql_norm_clean
    by (auto simp: invoice_match_def same_invoice_def py_norm_def invoice_clean_def)
  moreover have "\<not> blank n" using m by (auto simp: blank_def strip_def strip_by_def)
  ultimately have "ex_event_id x = ev_id ev \<and> ex_bill_document_id x = b"
    using assms(1,2) m(1) by (auto simp: check_duplicate_invoice_def res_simps Let_def)
  with assms(8,9) show ?thesis by (simp add: invoices_agree_def)
qed

lemma expense_create_schema_Inr:
  "expense_create_schema p = Inr p' \<Longrightarrow>
     strip (xc_vendor_name p') = xc_vendor_name p' \<and>
     (\<forall>n. xc_invoice_number p' = Some n \<longrightarrow> strip n = n \<and> n \<noteq> [])"
  by (auto simp: expense_create_schema_def res_simps clean_optional_text_def split: option.splits if_splits)

lemma expense_update_schema_Inr:
  "expense_update_schema p = Inr p' \<Longrightarrow> p' = p \<and> xu_vendor_name p \<noteq> Some []"
  by (auto simp: expense_update_schema_def res_simps opt_len_between_def len_between_def)

lemma create_draft_invoices:
  assumes "expense_create_schema p = Inr p'" and "create_draft_expense q i p' d = Inr (e, d')"
    and "invoices_ok (expenses d)"
  shows "invoices_ok (expenses d')"
proof -
  from assms(2) obtain ev fn y where
    chk: "check_duplicate_invoice d ev (xc_vendor_name p') (xc_invoice_number p') (xc_invoice_date p')
            (xc_bill_document_id p') None = Inr fn"
    and d': "expenses d' = expenses d @ [y]"
    and y: "ex_vendor_name y = xc_vendor_name p'" "ex_invoice_number y = xc_invoice_number p'"
      "ex_invoice_date y = xc_invoice_date p'" "ex_event_id y = ev_id ev"
      "ex_bill_document_id y = xc_bill_document_id p'"
    by (auto simp: res_simps create_draft_expense_def Let_def case_prod_unfold verify_bill_document_def
        active_document_def dest!: scalar_Some)
  note sch = expense_create_schema_Inr [OF assms(1)]
  show ?thesis unfolding d'
  proof (rule invoices_snoc [OF assms(3)])
    show "invoice_clean y" using sch y by (auto simp: invoice_clean_def split: option.splits)
    fix x
    assume "x \<in> set (expenses d)"
    with assms(3) sch y show "invoices_agree y x"
      by (intro check_duplicate_agree [OF chk]) (auto simp: invoices_ok_def)
  qed
qed

lemma update_expense_invoices:
  assumes "expense_update_schema p0 = Inr p" and "update_expense q i xid p d = Inr (e', d')"
    and ok: "invoices_ok (expenses d)"
  shows "invoices_ok (expenses d')"
proof -
  from assms(2) obtain ev e e1 f n where
    e: "find_expense d xid ev = Some e"
    and e1: "replace_bill d ev (xu_bill_document_id p) e = Inr e1"
    and chk: "check_duplicate_invoice d ev (str_or (xu_vendor_name p) (ex_vendor_name e1))
        (case xu_invoice_number p of None \<Rightarrow> ex_invoice_number e1 | Some n \<Rightarrow> Some n)
        (set_if (xu_invoice_date p) (ex_invoice_date e1))
        (set_if (xu_bill_document_id p) (ex_bill_document_id e1)) (Some (ex_id e1)) = Inr (f, n)"
    and d': "expenses d' = put ex_id (apply_expense_update p f n e1) (expenses d)" (is "_ = put _ ?y _")
    by (auto simp: res_simps update_expense_def Let_def case_prod_unfold)
  have e_in: "e \<in> set (expenses d)" "ex_id e = xid" "ex_event_id e = ev_id ev" and e1: "e1 = e\<lparr>ex_bill_document_id := set_if (xu_bill_document_id p) (ex_bill_document_id e)\<rparr>"
    using find_expense_Some [OF e] replace_bill_Inr [OF e1] by auto
  have clean: "invoice_clean e" using ok e_in by (auto simp: invoices_ok_def)
  have ne: "xu_vendor_name p \<noteq> Some []" using expense_update_schema_Inr [OF assms(1)] by auto
  have v: "ex_vendor_name ?y = strip (str_or (xu_vendor_name p) (ex_vendor_name e1))"
    using ne clean by (auto simp: str_or_def set_if_def e1 invoice_clean_def split: option.splits)
  have n: "ex_invoice_number ?y = None \<or> (\<exists>m. (case xu_invoice_number p of None \<Rightarrow> ex_invoice_number e1 | Some n \<Rightarrow> Some n) = Some m \<and>
      strip m \<noteq> [] \<and> ex_invoice_number ?y = Some (strip m))"
    using clean by (auto simp: set_stripped_def e1 invoice_clean_def split: option.splits)
  have b: "ex_bill_document_id ?y = set_if (xu_bill_document_id p) (ex_bill_document_id e1)"
    by (simp add: e1 set_if_def split: option.splits)
  show ?thesis unfolding d'
  proof (rule invoices_put [OF ok])
    show "invoice_clean ?y" using v n by (auto simp: invoice_clean_def split: option.splits)
    fix x
    assume "x \<in> set (expenses d)" "ex_id x \<noteq> ex_id ?y"
    with ok show "invoices_agree ?y x"
      by (intro check_duplicate_agree [OF chk _ _ _ v _ n _ b]) (auto simp: invoices_ok_def e1 e_in)
  qed
qed

lemma expense_exec_invoices:
  assumes "db_ok d" and "invoices_ok (expenses d)" and "expense_exec q r d = Inr d'"
  shows "invoices_ok (expenses d')"
proof (cases r)
  case (CreateExpense ev p)
  with assms show ?thesis by (auto simp: res_simps intro: create_draft_invoices)
next
  case (UpdateExpense ev i p)
  with assms show ?thesis by (auto simp: res_simps intro: update_expense_invoices)
next
  case (DeleteExpense ev i)
  with assms show ?thesis
    by (auto simp: res_simps delete_draft_expense_def Let_def remove_row_def intro: invoices_subset)
next
  case (SubmitExpenses ev ids)
  with assms obtain v where d': "expenses d' = fold (\<lambda>e. put ex_id (mark_submitted q e))
      (filter (submittable v ids) (expenses d)) (expenses d)"
    by (auto simp: res_simps submit_expenses_def Let_def fold_submit_expenses)
  have "distinct (map ex_id (filter (submittable v ids) (expenses d)))"
    using db_ok_keys(8) [OF assms(1)] by (rule distinct_map_filter)
  with assms(2) show ?thesis unfolding d'
    by (intro invoices_fold_submitted) (auto simp: same_papers_def submittable_def intro!: bexI)
qed (use assms in \<open>auto simp: res_simps expense_handler_defs Let_def same_papers_def
    dest!: find_expense_Some intro!: invoices_put_same\<close>)

interpretation invoice_register: state_invariant expense_exec "\<lambda>d. invoices_ok (expenses d)"
  by unfold_locales (rule expense_exec_invoices)

section \<open>The totals of the ledger\<close>

lemma map_of_dict_adjust:
  "map_of (dict_adjust k v0 f al) k' =
     (if k' = k then Some (f (case map_of al k of None \<Rightarrow> v0 | Some v \<Rightarrow> v)) else map_of al k')"
  by (induction al) auto

lemma ledger_fold_totals:
  "lt_claimed (fold ledger_step es a) = lt_claimed a + sum_list (map claimed_share es)"
  "lt_verified (fold ledger_step es a) = lt_verified a + sum_list (map verified_share es)"
  "lt_disallowed (fold ledger_step es a) = lt_disallowed a + sum_list (map disallowed_share es)"
  by (induction es arbitrary: a) (simp_all add: ledger_step_def)


definition no_stats :: category_stats where
  "no_stats = \<lparr>cs_claimed = 0, cs_verified = 0, cs_disallowed = 0, cs_count = 0\<rparr>"

definition stats_of :: "actual_expense list \<Rightarrow> category_stats" where
  "stats_of es =
     \<lparr>cs_claimed = sum_list (map claimed_share es), cs_verified = sum_list (map verified_share es),
      cs_disallowed = sum_list (map disallowed_share es), cs_count = length es\<rparr>"

definition add_stats :: "category_stats \<Rightarrow> category_stats \<Rightarrow> category_stats" where
  "add_stats s t =
     \<lparr>cs_claimed = cs_claimed s + cs_claimed t, cs_verified = cs_verified s + cs_verified t,
      cs_disallowed = cs_disallowed s + cs_disallowed t, cs_count = cs_count s + cs_count t\<rparr>"

lemma ledger_fold_stats:
  "map_of (lt_cat_stats (fold ledger_step es a)) c =
     (if filter (\<lambda>e. ex_category e = c) es = [] then map_of (lt_cat_stats a) c
      else Some (add_stats (case map_of (lt_cat_stats a) c of None \<Rightarrow> no_stats | Some s \<Rightarrow> s)
                  (stats_of (filter (\<lambda>e. ex_category e = c) es))))"
  by (induction es arbitrary: a)
    (auto simp: ledger_step_def map_of_dict_adjust no_stats_def stats_of_def add_stats_def split: option.splits)

lemma ledger_fold_counts:
  "map_of (lt_status_counts (fold ledger_step es a)) st =
     (if filter (\<lambda>e. ex_status e = st) es = [] then map_of (lt_status_counts a) st
      else Some ((case map_of (lt_status_counts a) st of None \<Rightarrow> 0 | Some n \<Rightarrow> n) +
                  length (filter (\<lambda>e. ex_status e = st) es)))"
  by (induction es arbitrary: a) (auto simp: ledger_step_def map_of_dict_adjust split: option.splits)

lemma fst_dict_adjust: "fst ` set (dict_adjust k v0 f al) = insert k (fst ` set al)"
  by (induction k v0 f al rule: dict_adjust.induct) (simp_all add: insert_commute)

lemma distinct_dict_adjust: "distinct (map fst al) \<Longrightarrow> distinct (map fst (dict_adjust k v0 f al))"
  by (induction al) (auto simp: fst_dict_adjust)

lemma ledger_fold_distinct:
  "distinct (map fst (lt_cat_stats a)) \<Longrightarrow> distinct (map fst (lt_cat_stats (fold ledger_step es a)))"
  by (induction es arbitrary: a) (simp_all add: ledger_step_def distinct_dict_adjust)

lemma map_of_sort_key: "distinct (map fst al) \<Longrightarrow> map_of (sort_key f al) = map_of al"
  by (rule map_of_inject_set [THEN iffD2])
    (auto simp: distinct_map intro: inj_on_subset)

text \<open>The claims of an event, and what the summary says of them.\<close>

lemma sum_sort_key: "sum_list (map f (sort_key k xs)) = (sum_list (map f xs) :: int)"
  by (metis mset_map mset_sort sum_mset_sum_list)

lemma sort_key_Nil_iff [simp]: "sort_key k xs = [] \<longleftrightarrow> xs = []"
  by (metis length_0_conv length_sort)



section \<open>Properties\<close>

text \<open>A run of the ledger: a claim of 4000.00 is drafted, submitted and partially verified, a second one disallowed.\<close>

definition a_claim :: "string \<Rightarrow> money \<Rightarrow> expense_create" where
  "a_claim no m =
     \<lparr>xc_category = BC_MATERIALS, xc_description = ''Chess boards'', xc_vendor_name = '' Woodworks '',
      xc_vendor_gstin = None, xc_invoice_number = Some no, xc_invoice_date = 739000,
      xc_claimed_amount = m, xc_bill_document_id = 27, xc_budget_line_item_id = Some 24\<rparr>"

definition claim_row :: "uuid \<Rightarrow> actual_expense_status \<Rightarrow> money option \<Rightarrow> actual_expense" where
  "claim_row i st v =
     \<lparr>ex_id = i, ex_event_id = 25, ex_budget_line_item_id = None, ex_category = BC_MATERIALS,
      ex_description = ''Boards'', ex_vendor_name = ''Woodworks'', ex_vendor_gstin = None,
      ex_invoice_number = None, ex_invoice_date = 739000, ex_claimed_amount = 50000,
      ex_verified_amount = v, ex_status = st, ex_bill_document_id = 27, ex_submitted_by = 2,
      ex_submitted_at = Some 0, ex_verified_by = None, ex_verified_at = None, ex_finance_remarks = None,
      ex_query_reason = None, ex_is_flagged_for_review = True, ex_review_notes = None, ex_created_at = 0\<rparr>"

definition ledger_with :: "actual_expense list \<Rightarrow> db" where
  "ledger_with es = campus\<lparr>expenses := es\<rparr>"

definition ledger_run :: "(request \<times> expense_request) list" where
  "ledger_run =
     [(ctx the_secretary (days 32), CreateExpense 25 (a_claim ''INV-1'' 400000)),
      (ctx the_secretary (days 32), CreateExpense 25 (a_claim ''INV-2'' 50000)),
      (ctx the_secretary (days 33), SubmitExpenses 25 None),
      (ctx the_finance (days 34), PartialVerifyExpense 25 100 350000 ''Two boards missing''),
      (ctx the_finance (days 34), DisallowExpense 25 102 ''Not an approved item'')]"

lemma ledger_run_result:
  "map (\<lambda>e. (ex_id e, ex_status e, ex_verified_amount e)) (expenses (run expense_exec ledger_run campus)) =
     [(100, EX_PARTIALLY_VERIFIED, Some 350000), (102, EX_DISALLOWED, Some 0)]"
  by code_simp

text \<open>
  However the ledger is used, the verified amount of a claim fits its status: the whole claim when
  verified, strictly between zero and the claim when partially verified, zero when disallowed, none before.
\<close>

theorem expense_amounts_sound:
  assumes "db_ok d" and "\<forall>e\<in>set (expenses d). expense_sound e"
  shows "\<forall>e\<in>set (expenses (run expense_exec xs d)). expense_sound e"
  using assms by (rule expense_machine.run_rows) (blast intro: expense_new_sound expense_step_sound)+

lemma expense_amounts_sound_witness:
  "list_all expense_sound (expenses (run expense_exec ledger_run campus)) \<and>
   expenses (run expense_exec ledger_run campus) \<noteq> []"
proof
  show "list_all expense_sound (expenses (run expense_exec ledger_run campus))"
    unfolding list_all_iff by (rule expense_amounts_sound [OF campus_ok]) code_simp
qed code_simp

text \<open>
  The verdict of the finance office on a claim is final: a verified, partially verified or disallowed
  claim is still in the ledger, unchanged in every column, after any later requests.
\<close>

theorem expense_verdict_final:
  assumes "db_ok d" and "e \<in> set (expenses d)" and "expense_final e"
  shows "e \<in> set (expenses (run expense_exec xs d))"
  using assms by (rule expense_finality.run_final)

lemma expense_verdict_final_witness:
  "claim_row 90 EX_VERIFIED (Some 50000) \<in> set (expenses (run expense_exec
      [(ctx the_secretary (days 40), DeleteExpense 25 90), (ctx the_finance (days 40), VerifyExpense 25 90 None)]
      (ledger_with [claim_row 90 EX_VERIFIED (Some 50000)])))"
proof (rule expense_verdict_final)
  show "db_ok (ledger_with [claim_row 90 EX_VERIFIED (Some 50000)])" by code_simp
qed (simp_all add: ledger_with_def claim_row_def expense_final_def)

text \<open>What the audit actions check of the event.\<close>

definition verdict_allowed :: "db \<Rightarrow> actual_expense \<Rightarrow> bool" where
  "verdict_allowed d e \<longleftrightarrow>
     (\<exists>ev\<in>set (events d). ev_id ev = ex_event_id e \<and> ev_status ev \<noteq> EV_CLOSED \<and> ev_status ev \<noteq> EV_ARCHIVED) \<and>
     (\<exists>rp\<in>set (reports d). rp_event_id rp = ex_event_id e \<and> rp_status rp = RP_CERTIFIED)"

lemma verdict_allowedI:
  assumes "exp_get_confirmed_event d i True = Inr ev" and "verify_delivery_certified d ev = Inr u"
    and "find_expense d j ev = Some e"
  shows "verdict_allowed d e"
  using assms(1,2) find_expense_Some [OF assms(3)]
  by (auto simp: verdict_allowed_def exp_get_confirmed_event_def exp_ensure_event_mutable_def
      verify_delivery_certified_def report_of_def res_simps split: option.splits dest!: scalar_Some)

lemma audited_row:
  assumes "exp_get_confirmed_event d i True = Inr ev" and "verify_delivery_certified d ev = Inr u"
    and "find_expense d j ev = Some e" and "ex_status e = EX_SUBMITTED"
  shows "\<exists>x\<in>set (expenses d). ex_id x = ex_id e \<and> ex_status x = EX_SUBMITTED \<and>
    ex_claimed_amount e = ex_claimed_amount x \<and> verdict_allowed d x"
  using find_expense_Some [OF assms(3)] verdict_allowedI [OF assms(1-3)] assms(4) by blast

lemma exp_verify_finance_officerD: "exp_verify_finance_officer q = Inr u \<Longrightarrow> actor_role q = FINANCE_OFFICER"
  by (auto simp: exp_verify_finance_officer_def res_simps)

text \<open>
  C11. A claim gets its verdict only from a finance officer, only after the faculty advisor has certified
  the event's report, only while the event's accounts are open, and only from the submitted state; the
  row names the officer and the claimed amount is untouched.
\<close>

theorem expense_verdict_authority:
  assumes "expense_exec q r d = Inr d'" and "y \<in> set (expenses d')" and "y \<notin> set (expenses d)"
    and "expense_final y"
  shows "actor_role q = FINANCE_OFFICER \<and> ex_verified_by y = Some (actor_id q) \<and>
    (\<exists>e\<in>set (expenses d). ex_id e = ex_id y \<and> ex_status e = EX_SUBMITTED \<and>
       ex_claimed_amount y = ex_claimed_amount e \<and>
       verdict_allowed d e)"
proof (cases r)
  case (CreateExpense ev p)
  with assms show ?thesis
    by (auto simp: res_simps create_draft_expense_def Let_def expense_final_def)
next
  case (UpdateExpense ev i p)
  with assms show ?thesis
    by (auto simp: res_simps update_expense_def Let_def case_prod_unfold expense_final_def
        dest!: put_rows find_expense_Some replace_bill_Inr)
next
  case (DeleteExpense ev i)
  with assms show ?thesis by (auto simp: res_simps delete_draft_expense_def Let_def in_remove_row)
next
  case (SubmitExpenses ev ids)
  with assms(1) obtain v where "expenses d' = fold (\<lambda>e. put ex_id (mark_submitted q e))
      (filter (submittable v ids) (expenses d)) (expenses d)"
    by (auto simp: res_simps submit_expenses_def Let_def fold_submit_expenses)
  with assms(2-4) show ?thesis by (auto simp: expense_final_def dest!: fold_submittable_rows)
qed (insert assms, auto simp: res_simps expense_handler_defs Let_def expense_final_def
    dest!: put_rows exp_verify_finance_officerD, (rule audited_row; assumption)+)

lemma expense_verdict_authority_witness:
  "\<exists>d' y. expense_exec (ctx the_finance (days 34)) (VerifyExpense 25 90 None)
       (ledger_with [claim_row 90 EX_SUBMITTED None]) = Inr d' \<and>
     y \<in> set (expenses d') \<and> ex_verified_by y = Some (actor_id (ctx the_finance (days 34)))"
proof -
  let ?q = "ctx the_finance (days 34)" and ?d = "ledger_with [claim_row 90 EX_SUBMITTED None]"
  let ?d' = "projr (expense_exec ?q (VerifyExpense 25 90 None) ?d)"
  have ex: "expense_exec ?q (VerifyExpense 25 90 None) ?d = Inr ?d'"
    by (rule Inr_projr) code_simp
  have "map ex_status (expenses ?d') = [EX_VERIFIED]" by code_simp
  then obtain y where y: "expenses ?d' = [y]" "ex_status y = EX_VERIFIED" by auto
  then have "y \<in> set (expenses ?d')" "y \<notin> set (expenses ?d)" "expense_final y"
    by (auto simp: ledger_with_def claim_row_def expense_final_def)
  with expense_verdict_authority [OF ex] ex show ?thesis by metis
qed

text \<open>
  No invoice is paid twice: whatever requests the ledger serves, two live claims with the same vendor,
  invoice number and date (up to case and surrounding spaces) belong to the same event and the same bill.
\<close>

theorem no_invoice_claimed_twice:
  assumes "db_ok d" and "invoices_ok (expenses d)"
    and "a \<in> set (expenses (run expense_exec xs d))" and "b \<in> set (expenses (run expense_exec xs d))"
    and "same_invoice a b"
  shows "ex_event_id a = ex_event_id b \<and> ex_bill_document_id a = ex_bill_document_id b"
proof (cases "ex_id a = ex_id b")
  case True
  with db_ok_keys(8) [OF expense_service.run_ok [OF assms(1)]] assms(3,4) have "a = b"
    by (meson distinct_map inj_on_def)
  then show ?thesis by simp
next
  case False
  with invoice_register.run_good [OF assms(1,2), of xs] assms(3-5) show ?thesis
    by (auto simp: invoices_ok_def invoices_agree_def)
qed

definition shared_bill_run :: "(request \<times> expense_request) list" where
  "shared_bill_run =
     [(ctx the_secretary (days 32), CreateExpense 25 (a_claim ''INV-1'' 400000)),
      (ctx the_secretary (days 32), CreateExpense 25 (a_claim ''inv-1 '' 100))]"

lemma no_invoice_claimed_twice_witness:
  "\<exists>a b. expenses (run expense_exec shared_bill_run campus) = [a, b] \<and>
     ex_bill_document_id a = ex_bill_document_id b"
proof -
  have "length (expenses (run expense_exec shared_bill_run campus)) = 2" by code_simp
  then obtain a b where ab: "expenses (run expense_exec shared_bill_run campus) = [a, b]"
    by (auto simp: numeral_2_eq_2 length_Suc_conv)
  have i: "invoices_ok (expenses campus)" by code_simp
  have "(case expenses (run expense_exec shared_bill_run campus) of [a, b] \<Rightarrow> same_invoice a b | _ \<Rightarrow> False)"
    by code_simp
  then have s: "same_invoice a b" by (simp add: ab)
  show ?thesis
    using no_invoice_claimed_twice [OF campus_ok i _ _ s, of shared_bill_run] ab by simp
qed

definition audited_claims :: "actual_expense list" where
  "audited_claims = [claim_row 90 EX_VERIFIED (Some 50000), claim_row 91 EX_PARTIALLY_VERIFIED (Some 20000),
     claim_row 92 EX_DISALLOWED (Some 0)]"


lemma verdict_splits_claim:
  "expense_sound e \<Longrightarrow> expense_final e \<Longrightarrow> 0 < ex_claimed_amount e \<Longrightarrow>
     ex_claimed_amount e = verified_share e + disallowed_amount e"
  by (auto simp: expense_sound_def expense_final_def verified_share_def disallowed_amount_def
      split: option.splits)

text \<open>
  Once every claim of an event has its verdict, the books balance: what was claimed is what was verified
  plus what was disallowed.
\<close>

theorem audited_ledger_balances:
  assumes "db_ok d" and "expenses d = []"
    and "es = filter (\<lambda>e. ex_event_id e = i) (expenses (run expense_exec xs d))"
    and "\<forall>e\<in>set es. expense_final e"
  shows "(\<Sum>e\<leftarrow>es. ex_claimed_amount e) = (\<Sum>e\<leftarrow>es. verified_share e) + (\<Sum>e\<leftarrow>es. disallowed_amount e)"
proof -
  have ok: "db_ok (run expense_exec xs d)" by (rule expense_service.run_ok [OF assms(1)])
  have "\<forall>e\<in>set (expenses (run expense_exec xs d)). expense_sound e"
    using assms(1) by (rule expense_machine.run_rows)
      (use assms(2) in \<open>auto intro: expense_new_sound expense_step_sound\<close>)
  moreover have "\<forall>e\<in>set (expenses (run expense_exec xs d)). ex_claimed_amount e > 0"
    using ok by (auto simp: db_ok_def expenses_ok_def list_all_iff expense_row_ok_def)
  ultimately have "\<forall>e\<in>set es. ex_claimed_amount e = verified_share e + disallowed_amount e"
    using assms(3,4) verdict_splits_claim by auto
  then show ?thesis by (induction es) auto
qed

lemma audited_ledger_balances_witness:
  "let es = filter (\<lambda>e. ex_event_id e = 25) (expenses (run expense_exec ledger_run campus))
   in (\<Sum>e\<leftarrow>es. ex_claimed_amount e) = (\<Sum>e\<leftarrow>es. verified_share e) + (\<Sum>e\<leftarrow>es. disallowed_amount e)"
proof -
  have e: "expenses campus = []" by code_simp
  have f: "\<forall>e\<in>set (filter (\<lambda>e. ex_event_id e = 25) (expenses (run expense_exec ledger_run campus))). expense_final e"
    by code_simp
  show ?thesis unfolding Let_def by (rule audited_ledger_balances [OF campus_ok e refl f])
qed

end
