(* ===== verification/Advances.thy ===== *)
theory Advances
  imports FinanceBase
begin

text \<open>
  Cash advances: \<^verbatim>\<open>request_advance\<close>, \<^verbatim>\<open>approve_advance\<close>, \<^verbatim>\<open>reject_advance\<close> and
  \<^verbatim>\<open>disburse_advance\<close> of \<^verbatim>\<open>SettlementService\<close>
  (\<^verbatim>\<open>backend/app/services/settlement_service.py\<close>). A secretary asks for money before the event, a
  finance officer approves at most the sanctioned grant and pays out exactly what was approved.
\<close>

section \<open>Operations\<close>

definition request_advance ::
    "request \<Rightarrow> uuid \<Rightarrow> money \<Rightarrow> string \<Rightarrow> db \<Rightarrow> (cash_advance \<times> db) res" where
  "request_advance q event_id amount_requested reason d =
     and_then (stl_get_confirmed_event d event_id True) (\<lambda>ev.
     and_then (stl_verify_club_secretary q d ev) (\<lambda>_.
     require (\<not> (ev_cancelled_at ev \<noteq> None \<or> ev_status ev = EV_CANCELLED)) WorkflowStateError (
     require (case settlement_of d (ev_id ev) of None \<Rightarrow> True | Some s \<Rightarrow> fs_status s \<noteq> ST_SETTLED)
       WorkflowStateError (
     require (advance_of d (ev_id ev) = None) ConflictError (
     require (\<not> amount_requested \<le> 0) BadRequestError (
     let i = next_uuid d;
         advance =
           \<lparr>ca_id = i, ca_event_id = ev_id ev, ca_amount_requested = amount_requested,
            ca_amount_approved = None, ca_amount_disbursed = 0, ca_status = CA_REQUESTED,
            ca_recipient_id = actor_id q, ca_approved_by = None, ca_disbursed_by = None,
            ca_disbursement_date = None, ca_payment_reference = None,
            ca_notes = (if reason \<noteq> [] then Some (strip reason) else None),
            ca_rejection_reason = None, ca_created_at = now q\<rparr>;
         d1 = d\<lparr>advances := advances d @ [advance], next_uuid := Suc i\<rparr>;
         d2 = add_audit q A_ADVANCE_REQUESTED ''cash_advance'' i JNull
                (JObj [(''event_id'', JUuid (ev_id ev)), (''amount_requested'', JMoney amount_requested),
                       (''reason'', JText reason), (''status'', JEnum (J_advance_status CA_REQUESTED))])
                None d1
     in commit IntegrityError advance d2))))))"

text \<open>\<open>f"{notes or ''} [<label>: {remarks.strip()}]".strip()\<close>\<close>

definition annotate :: "string \<Rightarrow> string option \<Rightarrow> string option \<Rightarrow> string option" where
  "annotate label remarks notes =
     (if truthy remarks
      then Some (strip ((case notes of None \<Rightarrow> [] | Some n \<Rightarrow> n) @ '' ['' @ label @ '': '' @
                  strip (case remarks of None \<Rightarrow> [] | Some r \<Rightarrow> r) @ '']''))
      else notes)"

definition approve_advance ::
    "request \<Rightarrow> uuid \<Rightarrow> money \<Rightarrow> string option \<Rightarrow> db \<Rightarrow> (cash_advance \<times> db) res" where
  "approve_advance q advance_id amount_approved remarks d =
     and_then (stl_verify_finance_officer q) (\<lambda>_.
     fetch (row ca_id advance_id (advances d)) NotFoundError (\<lambda>a.
     and_then (stl_get_confirmed_event d (ca_event_id a) True) (\<lambda>ev.
     require (ca_status a = CA_REQUESTED) InvalidWorkflowTransitionError (
     require (\<not> amount_approved \<le> 0) BadRequestError (
     and_then (resolve_sanctioned_snapshot d ev) (\<lambda>(_, grant, _, _).
     require (\<not> amount_approved > grant) BusinessRuleError (
     let a' = a\<lparr>ca_amount_approved := Some amount_approved, ca_approved_by := Some (actor_id q),
                ca_status := CA_APPROVED, ca_notes := annotate ''Approval Notes'' remarks (ca_notes a)\<rparr>;
         d1 = d\<lparr>advances := put ca_id a' (advances d)\<rparr>;
         d2 = add_audit q A_ADVANCE_APPROVED ''cash_advance'' (ca_id a)
                (JObj [(''status'', JEnum (J_advance_status (ca_status a))),
                       (''amount_approved'', j_opt JMoney (ca_amount_approved a))])
                (JObj [(''status'', JEnum (J_advance_status CA_APPROVED)),
                       (''amount_approved'', JMoney amount_approved),
                       (''remarks'', j_opt JText remarks)]) None d1;
         d3 = create_notification q (ca_recipient_id a) N_ADVANCE_APPROVED
                (Some (ev_event_request_id ev)) d2
     in commit IntegrityError a' d3)))))))"

definition reject_advance ::
    "request \<Rightarrow> uuid \<Rightarrow> string \<Rightarrow> db \<Rightarrow> (cash_advance \<times> db) res" where
  "reject_advance q advance_id rejection_reason d =
     and_then (stl_verify_finance_officer q) (\<lambda>_.
     fetch (row ca_id advance_id (advances d)) NotFoundError (\<lambda>a.
     require (ca_status a = CA_REQUESTED) InvalidWorkflowTransitionError (
     require (\<not> blank (Some rejection_reason)) BadRequestError (
     let a' = a\<lparr>ca_status := CA_REJECTED, ca_approved_by := Some (actor_id q),
                ca_rejection_reason := Some (strip rejection_reason)\<rparr>;
         d1 = d\<lparr>advances := put ca_id a' (advances d)\<rparr>;
         d2 = add_audit q A_ADVANCE_REJECTED ''cash_advance'' (ca_id a)
                (JObj [(''status'', JEnum (J_advance_status (ca_status a)))])
                (JObj [(''status'', JEnum (J_advance_status CA_REJECTED)),
                       (''rejection_reason'', JText rejection_reason)]) None d1
     in and_then (stl_get_confirmed_event d2 (ca_event_id a) False) (\<lambda>ev.
        let d3 = create_notification q (ca_recipient_id a) N_ADVANCE_REJECTED
                   (Some (ev_event_request_id ev)) d2
        in commit IntegrityError a' d3)))))"

definition disburse_advance ::
    "request \<Rightarrow> uuid \<Rightarrow> money \<Rightarrow> string \<Rightarrow> time option \<Rightarrow> string option \<Rightarrow> db \<Rightarrow> (cash_advance \<times> db) res" where
  "disburse_advance q advance_id amount_disbursed payment_reference disbursement_date notes d =
     and_then (stl_verify_finance_officer q) (\<lambda>_.
     fetch (row ca_id advance_id (advances d)) NotFoundError (\<lambda>a.
     require (ca_status a = CA_APPROVED) InvalidWorkflowTransitionError (
     require (\<not> blank (Some payment_reference)) BadRequestError (
     require (\<not> amount_disbursed \<le> 0) BadRequestError (
     require (ca_amount_approved a = Some amount_disbursed) BusinessRuleError (
     let d_date = (case disbursement_date of None \<Rightarrow> now q | Some t \<Rightarrow> t);
         a' = a\<lparr>ca_amount_disbursed := amount_disbursed, ca_disbursed_by := Some (actor_id q),
                ca_disbursement_date := Some d_date, ca_payment_reference := Some (strip payment_reference),
                ca_status := CA_DISBURSED, ca_notes := annotate ''Disbursement Notes'' notes (ca_notes a)\<rparr>;
         d1 = d\<lparr>advances := put ca_id a' (advances d)\<rparr>;
         d2 = add_audit q A_ADVANCE_DISBURSED ''cash_advance'' (ca_id a)
                (JObj [(''status'', JEnum (J_advance_status (ca_status a))),
                       (''amount_disbursed'', JMoney (ca_amount_disbursed a))])
                (JObj [(''status'', JEnum (J_advance_status CA_DISBURSED)),
                       (''amount_disbursed'', JMoney amount_disbursed),
                       (''payment_reference'', JText payment_reference),
                       (''disbursement_date'', JTime d_date)]) None d1
     in and_then (stl_get_confirmed_event d2 (ca_event_id a) False) (\<lambda>ev.
        let d3 = create_notification q (ca_recipient_id a) N_ADVANCE_DISBURSED
                   (Some (ev_event_request_id ev)) d2
        in commit IntegrityError a' d3)))))))"

definition get_advances_for_event :: "request \<Rightarrow> uuid \<Rightarrow> db \<Rightarrow> cash_advance option res" where
  "get_advances_for_event q event_id d =
     and_then (stl_get_confirmed_event d event_id False) (\<lambda>ev.
     and_then (stl_verify_event_viewer q d ev) (\<lambda>_. Inr (advance_of d event_id)))"

section \<open>The advances as a service\<close>

datatype advance_request =
    RequestAdvance uuid money string
  | ApproveAdvance uuid money "string option"
  | RejectAdvance uuid string
  | DisburseAdvance uuid money string "time option" "string option"

fun advance_exec :: "request \<Rightarrow> advance_request \<Rightarrow> db \<Rightarrow> db res" where
  "advance_exec q (RequestAdvance ev m r) d = db_of (request_advance q ev m r d)"
| "advance_exec q (ApproveAdvance i m r) d = db_of (approve_advance q i m r d)"
| "advance_exec q (RejectAdvance i r) d = db_of (reject_advance q i r d)"
| "advance_exec q (DisburseAdvance i m ref t n) d = db_of (disburse_advance q i m ref t n d)"

lemmas advance_handler_defs =
  request_advance_def approve_advance_def reject_advance_def disburse_advance_def

lemma advance_exec_ok: "advance_exec q r d = Inr d' \<Longrightarrow> db_ok d'"
  by (cases r) (auto simp: res_simps advance_handler_defs Let_def)

lemma advance_exec_audit: "advance_exec q r d = Inr d' \<Longrightarrow> signed q d d'"
  by (cases r) (auto simp: res_simps advance_handler_defs Let_def)

interpretation advance_service: audited_service advance_exec
  by unfold_locales (auto dest: advance_exec_ok advance_exec_audit)

text \<open>The life of an advance.\<close>

inductive advance_step :: "request \<Rightarrow> cash_advance \<Rightarrow> cash_advance \<Rightarrow> bool" for q where
  approve: "actor_role q = FINANCE_OFFICER \<Longrightarrow> ca_status a = CA_REQUESTED \<Longrightarrow> 0 < m \<Longrightarrow>
     advance_step q a (a\<lparr>ca_amount_approved := Some m, ca_approved_by := Some (actor_id q),
       ca_status := CA_APPROVED, ca_notes := n\<rparr>)"
| reject: "actor_role q = FINANCE_OFFICER \<Longrightarrow> ca_status a = CA_REQUESTED \<Longrightarrow>
     advance_step q a (a\<lparr>ca_status := CA_REJECTED, ca_approved_by := Some (actor_id q),
       ca_rejection_reason := Some s\<rparr>)"
| disburse: "actor_role q = FINANCE_OFFICER \<Longrightarrow> ca_status a = CA_APPROVED \<Longrightarrow>
     ca_amount_approved a = Some m \<Longrightarrow> 0 < m \<Longrightarrow>
     advance_step q a (a\<lparr>ca_amount_disbursed := m, ca_disbursed_by := Some (actor_id q),
       ca_disbursement_date := t, ca_payment_reference := r, ca_status := CA_DISBURSED, ca_notes := n\<rparr>)"

inductive_cases advance_stepE: "advance_step q a b"

definition advance_new :: "request \<Rightarrow> cash_advance \<Rightarrow> bool" where
  "advance_new q a \<longleftrightarrow>
     ca_status a = CA_REQUESTED \<and> ca_amount_approved a = None \<and> ca_amount_disbursed a = 0 \<and>
     ca_recipient_id a = actor_id q"

lemma advance_exec_evolves:
  "advance_exec q r d = Inr d' \<Longrightarrow>
     evolves ca_id (advance_new q) (advance_step q) (advances d) (advances d')"
  by (cases r)
    (auto simp: res_simps advance_handler_defs Let_def advance_new_def
      intro!: evolves_put evolves_snoc approve reject disburse dest!: row_key)

interpretation advance_machine: row_machine advance_exec advances ca_id advance_new advance_step
  by unfold_locales (rule advance_exec_evolves)

definition advance_final :: "cash_advance \<Rightarrow> bool" where
  "advance_final a \<longleftrightarrow> ca_status a \<in> {CA_DISBURSED, CA_REJECTED}"

lemma advance_exec_final:
  assumes ok: "db_ok d" and ex: "advance_exec q r d = Inr d'"
    and x: "x \<in> set (advances d)" and fin: "advance_final x"
  shows "x \<in> set (advances d')"
proof -
  note fin = final_put [where P = advance_final, OF db_ok_keys(9) [OF ok] x _ fin]
  show ?thesis
    by (cases r; use ex x in \<open>auto simp: res_simps advance_handler_defs Let_def advance_final_def
        dest!: row_key intro!: fin\<close>)
qed

interpretation advance_finality: final_rows advance_exec advances advance_final
  by unfold_locales (rule advance_exec_final)

text \<open>What the amounts of an advance are in each state.\<close>

definition advance_sound :: "cash_advance \<Rightarrow> bool" where
  "advance_sound a =
     (case ca_status a of
        CA_REQUESTED \<Rightarrow> ca_amount_approved a = None \<and> ca_amount_disbursed a = 0
      | CA_APPROVED \<Rightarrow> (\<exists>m>0. ca_amount_approved a = Some m) \<and> ca_amount_disbursed a = 0
      | CA_DISBURSED \<Rightarrow> ca_amount_disbursed a > 0 \<and> ca_amount_approved a = Some (ca_amount_disbursed a)
      | CA_REJECTED \<Rightarrow> ca_amount_disbursed a = 0)"

lemma advance_new_sound: "advance_new q a \<Longrightarrow> advance_sound a"
  by (simp add: advance_new_def advance_sound_def)

lemma advance_step_sound: "advance_step q a b \<Longrightarrow> advance_sound a \<Longrightarrow> advance_sound b"
  by (erule advance_stepE) (auto simp: advance_sound_def)

text \<open>An approved amount fits the sanctioned grant of the event.\<close>

definition within_grant :: "db \<Rightarrow> cash_advance \<Rightarrow> bool" where
  "within_grant d a =
     (case ca_amount_approved a of
        None \<Rightarrow> True
      | Some m \<Rightarrow> (\<exists>ev\<in>set (events d). ev_id ev = ca_event_id a \<and>
                   (\<exists>g. sanctioned_grant d ev = Some g \<and> m \<le> g)))"

lemma within_grant_simps [simp]:
  "ca_amount_approved a = None \<Longrightarrow> within_grant d a"
  "within_grant d (ca_amount_disbursed_update f a) = within_grant d a"
  "within_grant d (ca_disbursed_by_update f2 a) = within_grant d a"
  "within_grant d (ca_approved_by_update f2 a) = within_grant d a"
  "within_grant d (ca_disbursement_date_update f3 a) = within_grant d a"
  "within_grant d (ca_payment_reference_update f4 a) = within_grant d a"
  "within_grant d (ca_notes_update f4 a) = within_grant d a"
  "within_grant d (ca_rejection_reason_update f4 a) = within_grant d a"
  "within_grant d (ca_status_update f5 a) = within_grant d a"
  by (simp_all add: within_grant_def cong: option.case_cong)

lemma advance_exec_frame:
  "advance_exec q r d = Inr d' \<Longrightarrow> events d' = events d \<and> versions d' = versions d \<and> budgets d' = budgets d"
  by (cases r) (auto simp: res_simps advance_handler_defs Let_def)

lemma within_grant_frame:
  "events d' = events d \<Longrightarrow> versions d' = versions d \<Longrightarrow> budgets d' = budgets d \<Longrightarrow>
     within_grant d' = within_grant d"
  using resolve_sanctioned_snapshot_cong [of d' d]
  by (auto simp: fun_eq_iff within_grant_def sanctioned_grant_def split: option.splits)

lemma advance_exec_within_grant:
  assumes "\<forall>a\<in>set (advances d). within_grant d a" and "advance_exec q r d = Inr d'"
    and "b \<in> set (advances d')"
  shows "within_grant d b"
proof (cases r)
  case (ApproveAdvance i m r')
  with assms(2) obtain a ev v g e inc n where
    a: "row ca_id i (advances d) = Some a" and ev: "stl_get_confirmed_event d (ca_event_id a) True = Inr ev"
    and g: "resolve_sanctioned_snapshot d ev = Inr (v, g, e, inc)" "m \<le> g"
    and d': "advances d' = put ca_id (a\<lparr>ca_amount_approved := Some m, ca_approved_by := Some (actor_id q),
                ca_status := CA_APPROVED, ca_notes := n\<rparr>) (advances d)"
    by (auto simp: res_simps approve_advance_def Let_def)
  from ev have "ev \<in> set (events d) \<and> ev_id ev = ca_event_id a" by (auto dest: stl_get_confirmed_eventD)
  with g have "within_grant d (a\<lparr>ca_amount_approved := Some m, ca_approved_by := Some (actor_id q),
                ca_status := CA_APPROVED, ca_notes := n\<rparr>)"
    by (auto simp: within_grant_def sanctioned_grant_def)
  with assms(1,3) d' show ?thesis by (auto dest!: put_rows)
qed (use assms in \<open>auto simp: res_simps advance_handler_defs Let_def dest!: put_rows row_key\<close>)

interpretation advance_grants: state_invariant advance_exec "\<lambda>d. \<forall>a\<in>set (advances d). within_grant d a"
proof unfold_locales
  fix d q r d'
  assume "\<forall>a\<in>set (advances d). within_grant d a" and ex: "advance_exec q r d = Inr d'"
  then show "\<forall>a\<in>set (advances d'). within_grant d' a"
    using within_grant_frame [of d' d] advance_exec_frame [OF ex] advance_exec_within_grant [OF _ ex] by auto
qed

section \<open>Properties\<close>

definition advance_run :: "(request \<times> advance_request) list" where
  "advance_run =
     [(ctx the_secretary (days 10), RequestAdvance 25 300000 ''Hall deposit''),
      (ctx the_finance (days 11), ApproveAdvance 100 250000 (Some ''Reduced'')),
      (ctx the_finance (days 12), DisburseAdvance 100 250000 ''NEFT-1'' None None)]"



text \<open>
  No approved or disbursed advance exceeds the sanctioned grant of its event, whatever advance
  requests are served.
\<close>

theorem advance_within_grant:
  assumes "db_ok d" and "advances d = []" and "a \<in> set (advances (run advance_exec xs d))"
    and "ca_amount_approved a = Some m"
  shows "\<exists>ev\<in>set (events (run advance_exec xs d)). ev_id ev = ca_event_id a \<and>
    (\<exists>g. sanctioned_grant (run advance_exec xs d) ev = Some g \<and> m \<le> g)"
  using advance_grants.run_good [OF assms(1), of xs] assms(2-4)
  by (auto simp: within_grant_def)

lemma advance_within_grant_witness:
  "\<exists>a m. advances (run advance_exec advance_run campus) = [a] \<and> ca_amount_approved a = Some m \<and>
     m = 250000 \<and> (\<exists>ev\<in>set (events (run advance_exec advance_run campus)). ev_id ev = ca_event_id a)"
proof -
  have "map ca_amount_approved (advances (run advance_exec advance_run campus)) = [Some 250000]" by code_simp
  then obtain a where a: "advances (run advance_exec advance_run campus) = [a]" "ca_amount_approved a = Some 250000"
    by auto
  have "advances campus = []" by (simp add: campus_defs)
  from advance_within_grant [OF campus_ok this _ a(2), of advance_run] a show ?thesis by auto
qed

text \<open>
  An advance that was disbursed or rejected never changes again, and because an event has one advance
  at most, a rejected one cannot be asked for again.
\<close>

theorem advance_closed_for_good:
  assumes "db_ok d" and "a \<in> set (advances d)" and "ca_status a \<in> {CA_DISBURSED, CA_REJECTED}"
  shows "a \<in> set (advances (run advance_exec xs d)) \<and>
    (\<forall>q m s. isl (request_advance q (ca_event_id a) m s (run advance_exec xs d)))"
proof -
  have a: "a \<in> set (advances (run advance_exec xs d))"
    using advance_finality.run_final [OF assms(1,2)] assms(3) by (simp add: advance_final_def)
  then have "advance_of (run advance_exec xs d) (ca_event_id a) \<noteq> None"
    by (auto simp: advance_of_def scalar_None)
  then have "request_advance q (ca_event_id a) m s (run advance_exec xs d) \<noteq> Inr r" for q m s r
    by (auto simp: request_advance_def res_simps Let_def dest: stl_get_confirmed_eventD)
  with a show ?thesis by (metis sum.collapse(2))
qed

definition refused_advance :: cash_advance where
  "refused_advance =
     \<lparr>ca_id = 60, ca_event_id = 25, ca_amount_requested = 100, ca_amount_approved = None,
      ca_amount_disbursed = 0, ca_status = CA_REJECTED, ca_recipient_id = 2, ca_approved_by = Some 8,
      ca_disbursed_by = None, ca_disbursement_date = None, ca_payment_reference = None,
      ca_notes = None, ca_rejection_reason = Some ''No'', ca_created_at = 0\<rparr>"

lemma advance_closed_for_good_witness:
  "refused_advance \<in> set (advances (run advance_exec advance_run (campus\<lparr>advances := [refused_advance]\<rparr>)))"
proof -
  have ok: "db_ok (campus\<lparr>advances := [refused_advance]\<rparr>)" by code_simp
  show ?thesis
    using advance_closed_for_good [OF ok, of refused_advance advance_run] by (simp add: refused_advance_def)
qed

end
