(* ===== verification/Incomes.thy ===== *)
theory Incomes
  imports FinanceBase
begin

text \<open>
  The income ledger: \<^verbatim>\<open>record_income\<close>, \<^verbatim>\<open>verify_income\<close> and \<^verbatim>\<open>reject_income\<close> of
  \<^verbatim>\<open>SettlementService\<close> (\<^verbatim>\<open>backend/app/services/settlement_service.py\<close>). Secretaries record what the
  event earned, with evidence; a finance officer who is not the recorder verifies or rejects it.
\<close>

section \<open>Operations\<close>

record income_create =
  ic_source_type :: income_source_type
  ic_amount :: money
  ic_description :: string
  ic_payer_name :: string
  ic_received_date :: date
  ic_evidence_document_id :: uuid
  ic_reference_number :: "string option"

definition record_income ::
    "request \<Rightarrow> uuid \<Rightarrow> income_create \<Rightarrow> db \<Rightarrow> (actual_income \<times> db) res" where
  "record_income q event_id p d =
     and_then (stl_get_confirmed_event d event_id True) (\<lambda>ev.
     and_then (stl_verify_club_secretary q d ev) (\<lambda>_.
     require (\<not> (ev_cancelled_at ev \<noteq> None \<or> ev_status ev = EV_CANCELLED)) WorkflowStateError (
     require (case settlement_of d (ev_id ev) of None \<Rightarrow> True | Some s \<Rightarrow> fs_status s \<noteq> ST_SETTLED)
       WorkflowStateError (
     require (\<not> ic_amount p \<le> 0) BadRequestError (
     require (\<not> blank (Some (ic_description p))) BadRequestError (
     require (\<not> blank (Some (ic_payer_name p))) BadRequestError (
     fetch (active_document d (ic_evidence_document_id p)) NotFoundError (\<lambda>doc.
     require (dc_document_type doc = DT_INCOME_EVIDENCE) BadRequestError (
     require (document_of_event doc ev) BadRequestError (
     let i = next_uuid d;
         income =
           \<lparr>inc_id = i, inc_event_id = ev_id ev, inc_source_type = ic_source_type p,
            inc_description = strip (ic_description p), inc_payer_name = strip (ic_payer_name p),
            inc_amount = ic_amount p, inc_received_date = ic_received_date p,
            inc_reference_number = strip_opt (ic_reference_number p),
            inc_evidence_document_id = ic_evidence_document_id p, inc_status = IN_RECORDED,
            inc_recorded_by = actor_id q, inc_verified_by = None, inc_verified_at = None,
            inc_finance_remarks = None, inc_created_at = now q\<rparr>;
         d1 = d\<lparr>incomes := incomes d @ [income], next_uuid := Suc i\<rparr>;
         d2 = add_audit q A_INCOME_RECORDED ''actual_income'' i JNull
                (JObj [(''event_id'', JUuid (ev_id ev)),
                       (''source_type'', JEnum (J_source_type (ic_source_type p))),
                       (''amount'', JMoney (ic_amount p)), (''payer_name'', JText (ic_payer_name p)),
                       (''evidence_document_id'', JUuid (ic_evidence_document_id p)),
                       (''status'', JEnum (J_income_status IN_RECORDED))]) None d1
     in commit IntegrityError income d2))))))))))"

definition verify_income ::
    "request \<Rightarrow> uuid \<Rightarrow> string option \<Rightarrow> db \<Rightarrow> (actual_income \<times> db) res" where
  "verify_income q income_id finance_remarks d =
     and_then (stl_verify_finance_officer q) (\<lambda>_.
     fetch (row inc_id income_id (incomes d)) NotFoundError (\<lambda>i.
     and_then (stl_get_confirmed_event d (inc_event_id i) True) (\<lambda>ev.
     require (actor_id q \<noteq> inc_recorded_by i) ForbiddenError (
     require (inc_status i = IN_RECORDED) InvalidWorkflowTransitionError (
     let i' = i\<lparr>inc_status := IN_VERIFIED, inc_verified_by := Some (actor_id q),
                inc_verified_at := Some (now q), inc_finance_remarks := strip_opt finance_remarks\<rparr>;
         d1 = d\<lparr>incomes := put inc_id i' (incomes d)\<rparr>;
         d2 = add_audit q A_INCOME_VERIFIED ''actual_income'' (inc_id i)
                (JObj [(''status'', JEnum (J_income_status (inc_status i)))])
                (JObj [(''status'', JEnum (J_income_status IN_VERIFIED)), (''amount'', JMoney (inc_amount i)),
                       (''finance_remarks'', j_opt JText finance_remarks)]) None d1;
         d3 = create_notification q (inc_recorded_by i) N_INCOME_VERIFIED (Some (ev_event_request_id ev)) d2
     in commit IntegrityError i' d3)))))"

definition reject_income ::
    "request \<Rightarrow> uuid \<Rightarrow> string \<Rightarrow> string option \<Rightarrow> db \<Rightarrow> (actual_income \<times> db) res" where
  "reject_income q income_id rejection_reason finance_remarks d =
     and_then (stl_verify_finance_officer q) (\<lambda>_.
     fetch (row inc_id income_id (incomes d)) NotFoundError (\<lambda>i.
     require (actor_id q \<noteq> inc_recorded_by i) ForbiddenError (
     require (inc_status i = IN_RECORDED) InvalidWorkflowTransitionError (
     require (\<not> blank (Some rejection_reason)) BadRequestError (
     let remarks = ''REJECTED: '' @ strip rejection_reason;
         remarks_combined =
           (if truthy finance_remarks
            then remarks @ ''. '' @ strip (case finance_remarks of None \<Rightarrow> [] | Some r \<Rightarrow> r) else remarks);
         i' = i\<lparr>inc_status := IN_REJECTED, inc_verified_by := Some (actor_id q),
                inc_verified_at := Some (now q), inc_finance_remarks := Some remarks_combined\<rparr>;
         d1 = d\<lparr>incomes := put inc_id i' (incomes d)\<rparr>;
         d2 = add_audit q A_INCOME_REJECTED ''actual_income'' (inc_id i)
                (JObj [(''status'', JEnum (J_income_status (inc_status i)))])
                (JObj [(''status'', JEnum (J_income_status IN_REJECTED)),
                       (''rejection_reason'', JText rejection_reason),
                       (''finance_remarks'', JText remarks_combined)]) None d1
     in and_then (stl_get_confirmed_event d2 (inc_event_id i) False) (\<lambda>ev.
        let d3 = create_notification q (inc_recorded_by i) N_INCOME_REJECTED (Some (ev_event_request_id ev)) d2
        in commit IntegrityError i' d3))))))"

definition get_incomes_for_event :: "request \<Rightarrow> uuid \<Rightarrow> db \<Rightarrow> actual_income list res" where
  "get_incomes_for_event q event_id d =
     and_then (stl_get_confirmed_event d event_id False) (\<lambda>ev.
     and_then (stl_verify_event_viewer q d ev) (\<lambda>_.
     Inr (sort_key (\<lambda>i. - inc_received_date i) (filter (\<lambda>i. inc_event_id i = event_id) (incomes d)))))"

section \<open>The income ledger as a service\<close>

datatype income_request =
    RecordIncome uuid income_create
  | VerifyIncome uuid "string option"
  | RejectIncome uuid string "string option"

fun income_exec :: "request \<Rightarrow> income_request \<Rightarrow> db \<Rightarrow> db res" where
  "income_exec q (RecordIncome ev p) d = db_of (record_income q ev p d)"
| "income_exec q (VerifyIncome i r) d = db_of (verify_income q i r d)"
| "income_exec q (RejectIncome i s r) d = db_of (reject_income q i s r d)"

lemmas income_handler_defs = record_income_def verify_income_def reject_income_def

lemma income_exec_ok: "income_exec q r d = Inr d' \<Longrightarrow> db_ok d'"
  by (cases r) (auto simp: res_simps income_handler_defs Let_def)

lemma income_exec_audit: "income_exec q r d = Inr d' \<Longrightarrow> signed q d d'"
  by (cases r) (auto simp: res_simps income_handler_defs Let_def)

interpretation income_service: audited_service income_exec
  by unfold_locales (auto dest: income_exec_ok income_exec_audit)

inductive income_step :: "request \<Rightarrow> actual_income \<Rightarrow> actual_income \<Rightarrow> bool" for q where
  audit: "actor_role q = FINANCE_OFFICER \<Longrightarrow> actor_id q \<noteq> inc_recorded_by i \<Longrightarrow>
     inc_status i = IN_RECORDED \<Longrightarrow> st \<in> {IN_VERIFIED, IN_REJECTED} \<Longrightarrow>
     income_step q i (i\<lparr>inc_status := st, inc_verified_by := Some (actor_id q),
       inc_verified_at := Some (now q), inc_finance_remarks := r\<rparr>)"

inductive_cases income_stepE: "income_step q a b"

definition income_new :: "request \<Rightarrow> actual_income \<Rightarrow> bool" where
  "income_new q i \<longleftrightarrow> inc_status i = IN_RECORDED \<and> inc_recorded_by i = actor_id q \<and> inc_verified_by i = None"

lemma income_exec_evolves:
  "income_exec q r d = Inr d' \<Longrightarrow> evolves inc_id (income_new q) (income_step q) (incomes d) (incomes d')"
  by (cases r)
    (auto simp: res_simps income_handler_defs Let_def income_new_def
      intro!: evolves_put evolves_snoc audit dest!: row_key)

interpretation income_machine: row_machine income_exec incomes inc_id income_new income_step
  by unfold_locales (rule income_exec_evolves)

definition income_final :: "actual_income \<Rightarrow> bool" where
  "income_final i \<longleftrightarrow> inc_status i \<noteq> IN_RECORDED"

lemma income_exec_final:
  assumes ok: "db_ok d" and ex: "income_exec q r d = Inr d'"
    and x: "x \<in> set (incomes d)" and fin: "income_final x"
  shows "x \<in> set (incomes d')"
proof -
  note fin = final_put [where P = income_final, OF db_ok_keys(10) [OF ok] x _ fin]
  show ?thesis
    by (cases r; use ex x in \<open>auto simp: res_simps income_handler_defs Let_def income_final_def
        dest!: row_key intro!: fin\<close>)
qed

interpretation income_finality: final_rows income_exec incomes income_final
  by unfold_locales (rule income_exec_final)

definition income_sound :: "actual_income \<Rightarrow> bool" where
  "income_sound i =
     (case inc_status i of
        IN_RECORDED \<Rightarrow> inc_verified_by i = None
      | _ \<Rightarrow> (case inc_verified_by i of None \<Rightarrow> False | Some v \<Rightarrow> v \<noteq> inc_recorded_by i))"

lemma income_new_sound: "income_new q i \<Longrightarrow> income_sound i"
  by (simp add: income_new_def income_sound_def)

lemma income_step_sound: "income_step q i j \<Longrightarrow> income_sound i \<Longrightarrow> income_sound j"
  by (erule income_stepE) (auto simp: income_sound_def)

section \<open>Properties\<close>

definition takings :: income_create where
  "takings =
     \<lparr>ic_source_type = IS_TICKET_SALES, ic_amount = 80000, ic_description = ''Tickets'',
      ic_payer_name = ''Visitors'', ic_received_date = 739000, ic_evidence_document_id = 28,
      ic_reference_number = None\<rparr>"

definition income_run :: "(request \<times> income_request) list" where
  "income_run =
     [(ctx the_secretary (days 31), RecordIncome 25 takings),
      (ctx the_finance (days 32), VerifyIncome 100 None)]"

text \<open>
  Four eyes on income: in every run, an entry that was verified or rejected was so by somebody else
  than the person who recorded it.
\<close>

theorem income_four_eyes:
  assumes "db_ok d" and "incomes d = []" and "i \<in> set (incomes (run income_exec xs d))"
    and "inc_status i \<noteq> IN_RECORDED"
  shows "\<exists>v. inc_verified_by i = Some v \<and> v \<noteq> inc_recorded_by i"
proof -
  have "\<forall>i\<in>set (incomes (run income_exec xs d)). income_sound i"
    using assms(1) by (rule income_machine.run_rows) (use assms(2) in \<open>auto intro: income_new_sound income_step_sound\<close>)
  with assms(3) have "income_sound i" by blast
  with assms(4) show ?thesis
    by (auto simp: income_sound_def split: actual_income_status.splits option.splits)
qed

lemma income_four_eyes_witness:
  "\<exists>i v. incomes (run income_exec income_run campus) = [i] \<and> inc_verified_by i = Some v \<and> v \<noteq> inc_recorded_by i"
proof -
  have "map inc_status (incomes (run income_exec income_run campus)) = [IN_VERIFIED]" by code_simp
  then obtain i where i: "incomes (run income_exec income_run campus) = [i]" "inc_status i = IN_VERIFIED" by auto
  have "incomes campus = []" by (simp add: campus_defs)
  from income_four_eyes [OF campus_ok this, of i income_run] i show ?thesis by auto
qed

text \<open>
  A verified or rejected income entry stays in the ledger unchanged, whatever income requests follow.
\<close>

theorem income_verdict_final:
  assumes "db_ok d" and "i \<in> set (incomes d)" and "inc_status i \<noteq> IN_RECORDED"
  shows "i \<in> set (incomes (run income_exec xs d))"
  using income_finality.run_final [OF assms(1,2)] assms(3) by (simp add: income_final_def)

definition verified_income :: actual_income where
  "verified_income =
     \<lparr>inc_id = 70, inc_event_id = 25, inc_source_type = IS_DONATION, inc_description = ''Gift'',
      inc_payer_name = ''A. Friend'', inc_amount = 80000, inc_received_date = 739000,
      inc_reference_number = None, inc_evidence_document_id = 28, inc_status = IN_VERIFIED,
      inc_recorded_by = 2, inc_verified_by = Some 8, inc_verified_at = Some 0,
      inc_finance_remarks = None, inc_created_at = 0\<rparr>"

lemma income_verdict_final_witness:
  "verified_income \<in> set (incomes (run income_exec
     [(ctx the_finance (days 33), RejectIncome 70 ''Mistake'' None)] (campus\<lparr>incomes := [verified_income]\<rparr>)))"
proof (rule income_verdict_final)
  show "db_ok (campus\<lparr>incomes := [verified_income]\<rparr>)" by code_simp
qed (simp_all add: verified_income_def)

end
