(* ===== verification/Settlement.thy ===== *)
theory Settlement
  imports Expenses Advances Incomes
begin

text \<open>
  The financial settlement of an event: the settlement part of \<^verbatim>\<open>SettlementService\<close>
  (\<^verbatim>\<open>backend/app/services/settlement_service.py\<close>). The secretary prepares it from the audited ledgers,
  the finance office audits it and records the balancing payments, and a settled one can be reopened
  as a new revision.
\<close>

section \<open>Source fingerprint\<close>

definition expense_source :: "actual_expense \<Rightarrow> json" where
  "expense_source e =
     JObj [(''id'', JUuid (ex_id e)), (''status'', JEnum (J_expense_status (ex_status e))),
           (''claimed_amount'', JMoney (ex_claimed_amount e)),
           (''verified_amount'', j_opt JMoney (ex_verified_amount e))]"

definition income_source :: "actual_income \<Rightarrow> json" where
  "income_source i =
     JObj [(''id'', JUuid (inc_id i)), (''status'', JEnum (J_income_status (inc_status i))),
           (''amount'', JMoney (inc_amount i))]"

definition advance_source :: "cash_advance option \<Rightarrow> json" where
  "advance_source a =
     (case a of
        None \<Rightarrow> JNull
      | Some a \<Rightarrow>
          JObj [(''id'', JUuid (ca_id a)), (''status'', JEnum (J_advance_status (ca_status a))),
                (''amount_approved'', j_opt JMoney (ca_amount_approved a)),
                (''amount_disbursed'', JMoney (ca_amount_disbursed a))])"

definition source_payload ::
    "uuid \<Rightarrow> money \<Rightarrow> actual_expense list \<Rightarrow> actual_income list \<Rightarrow> cash_advance option \<Rightarrow> json" where
  "source_payload approved_version_id grant exs ins adv =
     JObj [(''approved_version_id'', JUuid approved_version_id),
           (''sanctioned_grant'', JMoney grant),
           (''expenses'', JList (map expense_source (sort_key ex_id exs))),
           (''incomes'', JList (map income_source (sort_key inc_id ins))),
           (''advance'', advance_source adv)]"

definition compute_source_fingerprint ::
    "request \<Rightarrow> uuid \<Rightarrow> money \<Rightarrow> actual_expense list \<Rightarrow> actual_income list \<Rightarrow> cash_advance option \<Rightarrow> string" where
  "compute_source_fingerprint q approved_version_id grant exs ins adv =
     sha256_json q (source_payload approved_version_id grant exs ins adv)"

text \<open>The fingerprint the latest \<open>SETTLEMENT_PREPARED\<close> entry of the audit log keeps.\<close>

definition get_prepared_source_fingerprint :: "db \<Rightarrow> financial_settlement \<Rightarrow> json option" where
  "get_prepared_source_fingerprint d s =
     (case latest_by al_created_at
             (filter (\<lambda>l. al_entity_type l = ''financial_settlement'' \<and> al_entity_id l = Some (fs_id s) \<and>
                          al_action l = A_SETTLEMENT_PREPARED) (audit_logs d)) of
        None \<Rightarrow> None
      | Some l \<Rightarrow>
          (let fp = j_get ''source_fingerprint'' (al_new_state l) in if j_truthy fp then Some fp else None))"

section \<open>The accounts\<close>

record settlement_totals =
  tt_claimed :: money
  tt_verified :: money
  tt_disallowed :: money
  tt_income :: money
  tt_net_deficit :: money
  tt_payout :: money
  tt_advance :: money
  tt_r_cleared :: money
  tt_f_cleared :: money
  tt_net_cash :: money
  tt_balance :: money
  tt_reimbursement_due :: money
  tt_refund_due :: money
  tt_type :: settlement_type
  tt_expenses :: "actual_expense list"
  tt_incomes :: "actual_income list"
  tt_advance_row :: "cash_advance option"

definition expense_unresolved :: "actual_expense \<Rightarrow> bool" where
  "expense_unresolved e \<longleftrightarrow> ex_status e \<in> {EX_DRAFT, EX_SUBMITTED, EX_QUERIED}"

text \<open>One round of the loop over the claims.\<close>

definition settled_verified :: "actual_expense \<Rightarrow> money" where
  "settled_verified e =
     (if ex_status e \<in> {EX_VERIFIED, EX_PARTIALLY_VERIFIED}
      then (case ex_verified_amount e of None \<Rightarrow> ex_claimed_amount e | Some v \<Rightarrow> v) else 0)"

definition settled_disallowed :: "actual_expense \<Rightarrow> money" where
  "settled_disallowed e =
     (if ex_status e \<in> {EX_VERIFIED, EX_PARTIALLY_VERIFIED}
      then (let v = (case ex_verified_amount e of None \<Rightarrow> ex_claimed_amount e | Some v \<Rightarrow> v)
            in if ex_claimed_amount e > v then ex_claimed_amount e - v else 0)
      else if ex_status e = EX_DISALLOWED then ex_claimed_amount e else 0)"

definition payments_of :: "db \<Rightarrow> uuid \<Rightarrow> settlement_payment list" where
  "payments_of d settlement_id = filter (\<lambda>p. sp_settlement_id p = settlement_id) (payments d)"

definition cleared :: "settlement_payment_type \<Rightarrow> settlement_payment list \<Rightarrow> money" where
  "cleared ty ps = sum_list (map sp_amount (filter (\<lambda>p. sp_payment_type p = ty) ps))"

definition settlement_type_of :: "money \<Rightarrow> settlement_type" where
  "settlement_type_of balance =
     (if balance > 0 then SY_REIMBURSEMENT_DUE
      else if balance < 0 then SY_REFUND_DUE
      else SY_BALANCED)"

definition compute_settlement_totals ::
    "db \<Rightarrow> event \<Rightarrow> money \<Rightarrow> financial_settlement option \<Rightarrow> settlement_totals res" where
  "compute_settlement_totals d ev grant settlement =
     (let exs = filter (\<lambda>e. ex_event_id e = ev_id ev) (expenses d) in
      require (\<not> list_ex expense_unresolved exs) BusinessRuleError (
      let ins = filter (\<lambda>i. inc_event_id i = ev_id ev) (incomes d) in
      require (\<not> list_ex (\<lambda>i. inc_status i = IN_RECORDED) ins) BusinessRuleError (
      let adv = advance_of d (ev_id ev) in
      require (case adv of None \<Rightarrow> True | Some a \<Rightarrow> ca_status a \<notin> {CA_REQUESTED, CA_APPROVED})
        BusinessRuleError (
      let verified = sum_list (map settled_verified exs);
          income = sum_list (map inc_amount (filter (\<lambda>i. inc_status i = IN_VERIFIED) ins));
          disbursed = (case adv of None \<Rightarrow> 0
                       | Some a \<Rightarrow> if ca_status a = CA_DISBURSED then ca_amount_disbursed a else 0);
          net_deficit = max 0 (verified - income);
          payout = min grant net_deficit;
          target = (case settlement of Some s \<Rightarrow> Some s | None \<Rightarrow> settlement_of d (ev_id ev));
          ps = (case target of None \<Rightarrow> [] | Some s \<Rightarrow> payments_of d (fs_id s));
          r_cleared = cleared PT_REIMBURSEMENT_DISBURSEMENT ps;
          f_cleared = cleared PT_ADVANCE_REFUND_RECEIPT ps;
          net_cash = disbursed + r_cleared - f_cleared;
          balance = payout - net_cash
      in Inr \<lparr>tt_claimed = sum_list (map ex_claimed_amount exs), tt_verified = verified,
              tt_disallowed = sum_list (map settled_disallowed exs), tt_income = income,
              tt_net_deficit = net_deficit, tt_payout = payout, tt_advance = disbursed,
              tt_r_cleared = r_cleared, tt_f_cleared = f_cleared, tt_net_cash = net_cash,
              tt_balance = balance,
              tt_reimbursement_due = (if balance > 0 then balance else 0),
              tt_refund_due = (if balance < 0 then \<bar>balance\<bar> else 0),
              tt_type = settlement_type_of balance,
              tt_expenses = exs, tt_incomes = ins, tt_advance_row = adv\<rparr>))))"

section \<open>Preparation and submission\<close>

text \<open>The calculated columns of a settlement.\<close>

definition set_figures ::
    "uuid \<Rightarrow> money \<Rightarrow> money \<Rightarrow> money \<Rightarrow> settlement_totals \<Rightarrow> financial_settlement \<Rightarrow> financial_settlement" where
  "set_figures version_id grant expd inc t s =
     s\<lparr>fs_approved_version_id := version_id, fs_sanctioned_grant := grant,
       fs_sanctioned_expenditure := expd, fs_expected_income := inc,
       fs_total_claimed_expenditure := tt_claimed t, fs_total_verified_expenditure := tt_verified t,
       fs_total_disallowed_expenditure := tt_disallowed t, fs_total_verified_income := tt_income t,
       fs_net_deficit := tt_net_deficit t, fs_institutional_payout := tt_payout t,
       fs_cash_advance_disbursed := tt_advance t, fs_settlement_balance := tt_balance t,
       fs_reimbursement_due := tt_reimbursement_due t, fs_refund_due := tt_refund_due t,
       fs_settlement_type := tt_type t\<rparr>"

definition new_settlement :: "request \<Rightarrow> uuid \<Rightarrow> uuid \<Rightarrow> financial_settlement" where
  "new_settlement q i event_id =
     \<lparr>fs_id = i, fs_event_id = event_id, fs_approved_version_id = 0, fs_sanctioned_grant = 0,
      fs_sanctioned_expenditure = 0, fs_expected_income = 0, fs_total_claimed_expenditure = 0,
      fs_total_verified_expenditure = 0, fs_total_disallowed_expenditure = 0,
      fs_total_verified_income = 0, fs_net_deficit = 0, fs_institutional_payout = 0,
      fs_cash_advance_disbursed = 0, fs_settlement_balance = 0, fs_reimbursement_due = 0,
      fs_refund_due = 0, fs_settlement_type = SY_BALANCED, fs_status = ST_DRAFT,
      fs_prepared_by = actor_id q, fs_submitted_at = None, fs_audited_by = None, fs_audited_at = None,
      fs_finance_remarks = None, fs_query_reason = None, fs_created_at = now q\<rparr>"

text \<open>The row the preparation writes: the reopened settlement of the event recompiled, or a new one.\<close>

definition compiled_settlement ::
    "request \<Rightarrow> event \<Rightarrow> uuid \<Rightarrow> money \<Rightarrow> money \<Rightarrow> money \<Rightarrow> settlement_totals \<Rightarrow>
       financial_settlement option \<Rightarrow> db \<Rightarrow> financial_settlement" where
  "compiled_settlement q ev version_id grant expd inc t existing d =
     (case existing of
        Some s0 \<Rightarrow> (set_figures version_id grant expd inc t s0)
                     \<lparr>fs_status := ST_DRAFT, fs_prepared_by := actor_id q, fs_query_reason := None\<rparr>
      | None \<Rightarrow> set_figures version_id grant expd inc t (new_settlement q (next_uuid d) (ev_id ev)))"

definition store_settlement :: "financial_settlement option \<Rightarrow> financial_settlement \<Rightarrow> db \<Rightarrow> db" where
  "store_settlement existing s d =
     (case existing of
        Some _ \<Rightarrow> d\<lparr>settlements := put fs_id s (settlements d)\<rparr>
      | None \<Rightarrow> d\<lparr>settlements := settlements d @ [s], next_uuid := Suc (next_uuid d)\<rparr>)"

definition prepared_entry ::
    "request \<Rightarrow> event \<Rightarrow> uuid \<Rightarrow> money \<Rightarrow> settlement_totals \<Rightarrow> financial_settlement \<Rightarrow> db \<Rightarrow> db" where
  "prepared_entry q ev version_id grant t s d =
     add_audit q A_SETTLEMENT_PREPARED ''financial_settlement'' (fs_id s) JNull
       (JObj [(''event_id'', JUuid (ev_id ev)),
              (''status'', JEnum (J_settlement_status ST_DRAFT)),
              (''sanctioned_grant'', JMoney grant),
              (''total_verified_expenditure'', JMoney (tt_verified t)),
              (''total_verified_income'', JMoney (tt_income t)),
              (''cash_advance_disbursed'', JMoney (tt_advance t)),
              (''institutional_payout'', JMoney (tt_payout t)),
              (''settlement_balance'', JMoney (tt_balance t)),
              (''settlement_type'', JEnum (J_settlement_type (tt_type t))),
              (''approved_version_id'', JUuid version_id),
              (''source_fingerprint'', JText (compute_source_fingerprint q version_id grant
                 (tt_expenses t) (tt_incomes t) (tt_advance_row t)))]) None d"

definition prepare_settlement :: "request \<Rightarrow> uuid \<Rightarrow> db \<Rightarrow> (financial_settlement \<times> db) res" where
  "prepare_settlement q event_id d =
     and_then (stl_get_confirmed_event d event_id True) (\<lambda>ev.
     and_then (stl_verify_club_secretary q d ev) (\<lambda>_.
     require (ev_status ev = EV_COMPLETED) WorkflowStateError (
     require (case report_of d (ev_id ev) of None \<Rightarrow> False | Some r \<Rightarrow> rp_status r = RP_CERTIFIED)
       WorkflowStateError (
     let existing = settlement_of d (ev_id ev) in
     require (case existing of None \<Rightarrow> True | Some s \<Rightarrow> fs_status s = ST_REOPENED) ConflictError (
     and_then (resolve_sanctioned_snapshot d ev) (\<lambda>(version_id, grant, expd, inc).
     and_then (compute_settlement_totals d ev grant existing) (\<lambda>t.
     let s = compiled_settlement q ev version_id grant expd inc t existing d
     in commit ConflictError s
          (prepared_entry q ev version_id grant t s (store_settlement existing s d)))))))))"

text \<open>The stale-data protection: the settlement still describes the live records.\<close>

definition verify_live_source_consistency ::
    "request \<Rightarrow> db \<Rightarrow> financial_settlement \<Rightarrow> event \<Rightarrow> unit res" where
  "verify_live_source_consistency q d s ev =
     and_then (resolve_sanctioned_snapshot d ev) (\<lambda>(version_id, grant, _, _).
     and_then (compute_settlement_totals d ev grant (Some s)) (\<lambda>t.
     let current = compute_source_fingerprint q version_id grant (tt_expenses t) (tt_incomes t) (tt_advance_row t);
         mismatch =
           fs_approved_version_id s \<noteq> version_id \<or>
           fs_sanctioned_grant s \<noteq> grant \<or>
           (case get_prepared_source_fingerprint d s of None \<Rightarrow> False | Some fp \<Rightarrow> JText current \<noteq> fp) \<or>
           fs_total_verified_expenditure s \<noteq> tt_verified t \<or>
           fs_total_verified_income s \<noteq> tt_income t \<or>
           fs_cash_advance_disbursed s \<noteq> tt_advance t
     in require (\<not> mismatch) SettlementStaleDataError (Inr ())))"

definition submit_settlement :: "request \<Rightarrow> uuid \<Rightarrow> db \<Rightarrow> (financial_settlement \<times> db) res" where
  "submit_settlement q settlement_id d =
     fetch (row fs_id settlement_id (settlements d)) NotFoundError (\<lambda>s.
     and_then (stl_get_confirmed_event d (fs_event_id s) True) (\<lambda>ev.
     and_then (stl_verify_club_secretary q d ev) (\<lambda>_.
     require (fs_status s \<in> {ST_DRAFT, ST_QUERIED, ST_REOPENED}) InvalidWorkflowTransitionError (
     and_then (verify_live_source_consistency q d s ev) (\<lambda>_.
     let s' = s\<lparr>fs_status := ST_UNDER_AUDIT, fs_submitted_at := Some (now q)\<rparr>;
         d1 = d\<lparr>settlements := put fs_id s' (settlements d)\<rparr>;
         d2 = add_audit q A_SETTLEMENT_SUBMITTED ''financial_settlement'' (fs_id s)
                (JObj [(''status'', JEnum (J_settlement_status (fs_status s)))])
                (JObj [(''status'', JEnum (J_settlement_status ST_UNDER_AUDIT)),
                       (''submitted_at'', JTime (now q))]) None d1
     in commit IntegrityError s' d2)))))"

section \<open>Finance audit\<close>

definition approval_status :: "settlement_type \<Rightarrow> settlement_status" where
  "approval_status ty =
     (case ty of SY_BALANCED \<Rightarrow> ST_SETTLED
      | SY_REIMBURSEMENT_DUE \<Rightarrow> ST_PENDING_REIMBURSEMENT
      | SY_REFUND_DUE \<Rightarrow> ST_PENDING_REFUND)"

definition approval_notice :: "settlement_type \<Rightarrow> notification_type" where
  "approval_notice ty =
     (case ty of SY_BALANCED \<Rightarrow> N_SETTLEMENT_SETTLED
      | SY_REIMBURSEMENT_DUE \<Rightarrow> N_SETTLEMENT_REIMBURSEMENT_PENDING
      | SY_REFUND_DUE \<Rightarrow> N_SETTLEMENT_REFUND_PENDING)"

text \<open>\<open>remarks.strip() if remarks else settlement.finance_remarks\<close>\<close>

definition or_keep :: "string option \<Rightarrow> string option \<Rightarrow> string option" where
  "or_keep remarks old = (if truthy remarks then map_option strip remarks else old)"

definition settlement_prev_state :: "financial_settlement \<Rightarrow> json" where
  "settlement_prev_state s = JObj [(''status'', JEnum (J_settlement_status (fs_status s)))]"

definition queried_row ::
    "string option \<Rightarrow> string option \<Rightarrow> financial_settlement \<Rightarrow> financial_settlement" where
  "queried_row remarks query_reason s =
     s\<lparr>fs_status := ST_QUERIED, fs_query_reason := map_option strip query_reason,
       fs_finance_remarks := or_keep remarks (fs_finance_remarks s)\<rparr>"

definition query_settlement ::
    "request \<Rightarrow> event \<Rightarrow> financial_settlement \<Rightarrow> string option \<Rightarrow> string option \<Rightarrow> db \<Rightarrow> db" where
  "query_settlement q ev s remarks query_reason d =
     (let d1 = d\<lparr>settlements := put fs_id (queried_row remarks query_reason s) (settlements d)\<rparr>;
          d2 = add_audit q A_SETTLEMENT_QUERIED ''financial_settlement'' (fs_id s) (settlement_prev_state s)
                 (JObj [(''status'', JEnum (J_settlement_status ST_QUERIED)),
                        (''query_reason'', j_opt JText query_reason),
                        (''finance_remarks'', j_opt JText remarks)]) None d1
      in create_notification q (fs_prepared_by s) N_SETTLEMENT_QUERIED (Some (ev_event_request_id ev)) d2)"

definition approved_row :: "request \<Rightarrow> string option \<Rightarrow> financial_settlement \<Rightarrow> financial_settlement" where
  "approved_row q remarks s =
     s\<lparr>fs_audited_by := Some (actor_id q), fs_audited_at := Some (now q),
       fs_finance_remarks := or_keep remarks (fs_finance_remarks s),
       fs_query_reason := None, fs_status := approval_status (fs_settlement_type s)\<rparr>"

definition approve_settlement ::
    "request \<Rightarrow> event \<Rightarrow> financial_settlement \<Rightarrow> string option \<Rightarrow> db \<Rightarrow> db" where
  "approve_settlement q ev s remarks d =
     (let st = approval_status (fs_settlement_type s);
          d1 = d\<lparr>settlements := put fs_id (approved_row q remarks s) (settlements d)\<rparr>;
          d2 = add_audit q A_SETTLEMENT_APPROVED ''financial_settlement'' (fs_id s) (settlement_prev_state s)
                 (JObj [(''status'', JEnum (J_settlement_status st)),
                        (''settlement_type'', JEnum (J_settlement_type (fs_settlement_type s))),
                        (''reimbursement_due'', JMoney (fs_reimbursement_due s)),
                        (''refund_due'', JMoney (fs_refund_due s)),
                        (''audited_at'', JTime (now q))]) None d1;
          d3 = (if st = ST_SETTLED
                then add_audit q A_SETTLEMENT_SETTLED ''financial_settlement'' (fs_id s) (settlement_prev_state s)
                       (JObj [(''status'', JEnum (J_settlement_status ST_SETTLED))]) None d2
                else d2)
      in create_notification q (fs_prepared_by s) (approval_notice (fs_settlement_type s))
           (Some (ev_event_request_id ev)) d3)"

definition audit_settlement ::
    "request \<Rightarrow> uuid \<Rightarrow> string \<Rightarrow> string option \<Rightarrow> string option \<Rightarrow> db \<Rightarrow> (financial_settlement \<times> db) res" where
  "audit_settlement q settlement_id action remarks query_reason d =
     and_then (stl_verify_finance_officer q) (\<lambda>_.
     require (upper (strip action) \<in> {''APPROVE'', ''QUERY''}) BadRequestError (
     fetch (row fs_id settlement_id (settlements d)) NotFoundError (\<lambda>s.
     require (fs_status s = ST_UNDER_AUDIT) InvalidWorkflowTransitionError (
     and_then (stl_get_confirmed_event d (fs_event_id s) True) (\<lambda>ev.
     and_then (verify_live_source_consistency q d s ev) (\<lambda>_.
     if upper (strip action) = ''QUERY'' then
       require (\<not> blank query_reason) BadRequestError (
       commit IntegrityError (queried_row remarks query_reason s)
         (query_settlement q ev s remarks query_reason d))
     else
       commit IntegrityError (approved_row q remarks s) (approve_settlement q ev s remarks d)))))))"

section \<open>Payments\<close>

record payment_create =
  pc_payment_type :: settlement_payment_type
  pc_amount :: money
  pc_payment_method :: payment_method
  pc_transaction_reference :: string
  pc_transaction_date :: time
  pc_proof_document_id :: uuid
  pc_notes :: "string option"

text \<open>The cash the institution has parted with for the settlement, net of refunds.\<close>

definition net_cash_transferred :: "db \<Rightarrow> financial_settlement \<Rightarrow> money" where
  "net_cash_transferred d s =
     fs_cash_advance_disbursed s +
     cleared PT_REIMBURSEMENT_DISBURSEMENT (payments_of d (fs_id s)) -
     cleared PT_ADVANCE_REFUND_RECEIPT (payments_of d (fs_id s))"

text \<open>What is left to pay in the direction of the settlement, and the payment type of that direction.\<close>

definition remaining_due :: "settlement_type \<Rightarrow> money \<Rightarrow> money \<Rightarrow> money" where
  "remaining_due ty payout net_cash =
     (if ty = SY_REIMBURSEMENT_DUE then payout - net_cash else net_cash - payout)"

definition payment_direction :: "settlement_type \<Rightarrow> settlement_payment_type" where
  "payment_direction ty =
     (if ty = SY_REIMBURSEMENT_DUE then PT_REIMBURSEMENT_DISBURSEMENT else PT_ADVANCE_REFUND_RECEIPT)"

definition new_payment :: "request \<Rightarrow> uuid \<Rightarrow> financial_settlement \<Rightarrow> payment_create \<Rightarrow> settlement_payment" where
  "new_payment q i s p =
     \<lparr>sp_id = i, sp_settlement_id = fs_id s, sp_payment_type = pc_payment_type p,
      sp_amount = pc_amount p, sp_payment_method = pc_payment_method p,
      sp_transaction_reference = strip (pc_transaction_reference p),
      sp_transaction_date = pc_transaction_date p, sp_proof_document_id = pc_proof_document_id p,
      sp_recorded_by = actor_id q, sp_notes = strip_opt (pc_notes p), sp_created_at = now q\<rparr>"

definition store_payment :: "request \<Rightarrow> financial_settlement \<Rightarrow> payment_create \<Rightarrow> db \<Rightarrow> db" where
  "store_payment q s p d =
     (let i = next_uuid d;
          d1 = d\<lparr>payments := payments d @ [new_payment q i s p], next_uuid := Suc i\<rparr>
      in add_audit q A_SETTLEMENT_PAYMENT_RECORDED ''settlement_payment'' i JNull
           (JObj [(''settlement_id'', JUuid (fs_id s)),
                  (''payment_type'', JEnum (J_payment_type (pc_payment_type p))),
                  (''amount'', JMoney (pc_amount p)),
                  (''transaction_reference'', JText (pc_transaction_reference p)),
                  (''proof_document_id'', JUuid (pc_proof_document_id p))]) None d1)"

definition settle :: "request \<Rightarrow> event \<Rightarrow> financial_settlement \<Rightarrow> money \<Rightarrow> db \<Rightarrow> db" where
  "settle q ev s new_net_cash d =
     (let d1 = d\<lparr>settlements := put fs_id (s\<lparr>fs_status := ST_SETTLED\<rparr>) (settlements d)\<rparr>;
          d2 = add_audit q A_SETTLEMENT_SETTLED ''financial_settlement'' (fs_id s) (settlement_prev_state s)
                 (JObj [(''status'', JEnum (J_settlement_status ST_SETTLED)),
                        (''net_cash_transferred'', JMoney new_net_cash),
                        (''institutional_payout'', JMoney (fs_institutional_payout s))]) None d1
      in create_notification q (fs_prepared_by s) N_SETTLEMENT_SETTLED (Some (ev_event_request_id ev)) d2)"

definition record_payment ::
    "request \<Rightarrow> uuid \<Rightarrow> payment_create \<Rightarrow> db \<Rightarrow> (settlement_payment \<times> db) res" where
  "record_payment q settlement_id p d =
     and_then (stl_verify_finance_officer q) (\<lambda>_.
     fetch (row fs_id settlement_id (settlements d)) NotFoundError (\<lambda>s.
     require (fs_status s \<in> {ST_PENDING_REIMBURSEMENT, ST_PENDING_REFUND}) InvalidWorkflowTransitionError (
     and_then (stl_get_confirmed_event d (fs_event_id s) True) (\<lambda>ev.
     require (fs_settlement_type s \<noteq> SY_BALANCED) BusinessRuleError (
     let ty = fs_settlement_type s;
         net_cash = net_cash_transferred d s;
         payout = fs_institutional_payout s in
     require (pc_payment_type p = payment_direction ty) BusinessRuleError (
     require (\<not> pc_amount p \<le> 0) BadRequestError (
     require (\<not> blank (Some (pc_transaction_reference p))) BadRequestError (
     fetch (active_document d (pc_proof_document_id p)) NotFoundError (\<lambda>doc.
     require (dc_document_type doc = DT_SETTLEMENT_PAYMENT_PROOF) BadRequestError (
     require (document_of_event doc ev) BadRequestError (
     require (\<not> pc_amount p > remaining_due ty payout net_cash) BusinessRuleError (
     let new_net_cash =
           (if ty = SY_REIMBURSEMENT_DUE then net_cash + pc_amount p else net_cash - pc_amount p);
         d1 = store_payment q s p d
     in commit IntegrityError (new_payment q (next_uuid d) s p)
          (if remaining_due ty payout new_net_cash \<le> 0 then settle q ev s new_net_cash d1 else d1)))))))))))))"

section \<open>Reopening\<close>

definition payment_snapshot :: "settlement_payment \<Rightarrow> json" where
  "payment_snapshot p =
     JObj [(''id'', JUuid (sp_id p)), (''payment_type'', JEnum (J_payment_type (sp_payment_type p))),
           (''amount'', JMoney (sp_amount p)),
           (''payment_method'', JEnum (J_payment_method (sp_payment_method p))),
           (''transaction_reference'', JText (sp_transaction_reference p)),
           (''transaction_date'', JTime (sp_transaction_date p)),
           (''proof_document_id'', JUuid (sp_proof_document_id p))]"

definition settlement_snapshot :: "db \<Rightarrow> financial_settlement \<Rightarrow> json" where
  "settlement_snapshot d s =
     JObj [(''settlement_id'', JUuid (fs_id s)), (''event_id'', JUuid (fs_event_id s)),
           (''approved_version_id'', JUuid (fs_approved_version_id s)),
           (''sanctioned_grant'', JMoney (fs_sanctioned_grant s)),
           (''sanctioned_expenditure'', JMoney (fs_sanctioned_expenditure s)),
           (''expected_income'', JMoney (fs_expected_income s)),
           (''total_claimed_expenditure'', JMoney (fs_total_claimed_expenditure s)),
           (''total_verified_expenditure'', JMoney (fs_total_verified_expenditure s)),
           (''total_disallowed_expenditure'', JMoney (fs_total_disallowed_expenditure s)),
           (''total_verified_income'', JMoney (fs_total_verified_income s)),
           (''net_deficit'', JMoney (fs_net_deficit s)),
           (''institutional_payout'', JMoney (fs_institutional_payout s)),
           (''cash_advance_disbursed'', JMoney (fs_cash_advance_disbursed s)),
           (''settlement_balance'', JMoney (fs_settlement_balance s)),
           (''reimbursement_due'', JMoney (fs_reimbursement_due s)),
           (''refund_due'', JMoney (fs_refund_due s)),
           (''settlement_type'', JEnum (J_settlement_type (fs_settlement_type s))),
           (''status'', JEnum (J_settlement_status (fs_status s))),
           (''prepared_by'', JUuid (fs_prepared_by s)),
           (''audited_by'', j_opt JUuid (fs_audited_by s)),
           (''audited_at'', j_opt JTime (fs_audited_at s)),
           (''submitted_at'', j_opt JTime (fs_submitted_at s)),
           (''finance_remarks'', j_opt JText (fs_finance_remarks s)),
           (''query_reason'', j_opt JText (fs_query_reason s)),
           (''payments'', JList (map payment_snapshot (payments_of d (fs_id s))))]"

definition revisions_of :: "db \<Rightarrow> uuid \<Rightarrow> settlement_revision list" where
  "revisions_of d settlement_id =
     filter (\<lambda>r. sr_settlement_id r = settlement_id) (settlement_revisions d)"

definition reopen_settlement ::
    "request \<Rightarrow> uuid \<Rightarrow> string \<Rightarrow> db \<Rightarrow> (settlement_revision \<times> db) res" where
  "reopen_settlement q settlement_id reopening_reason d =
     and_then (stl_verify_reopen_authority q) (\<lambda>_.
     require (\<not> blank (Some reopening_reason)) BadRequestError (
     fetch (row fs_id settlement_id (settlements d)) NotFoundError (\<lambda>s.
     require (fs_status s = ST_SETTLED) BusinessRuleError (
     and_then (stl_get_confirmed_event d (fs_event_id s) False) (\<lambda>ev.
     require (ev_status ev \<notin> {EV_CLOSED, EV_ARCHIVED}) ConflictError (
     let next_revision = int (length (revisions_of d (fs_id s))) + 1;
         i = next_uuid d;
         revision =
           \<lparr>sr_id = i, sr_settlement_id = fs_id s, sr_revision_number = next_revision,
            sr_snapshot_data = settlement_snapshot d s, sr_reopened_by = actor_id q,
            sr_reopening_reason = strip reopening_reason, sr_created_at = now q\<rparr>;
         s' = s\<lparr>fs_status := ST_REOPENED\<rparr>;
         d1 = d\<lparr>settlement_revisions := settlement_revisions d @ [revision],
                settlements := put fs_id s' (settlements d), next_uuid := Suc i\<rparr>;
         d2 = add_audit q A_SETTLEMENT_REOPENED ''financial_settlement'' (fs_id s)
                (JObj [(''status'', JEnum (J_settlement_status (fs_status s)))])
                (JObj [(''status'', JEnum (J_settlement_status ST_REOPENED)),
                       (''revision_number'', JInt next_revision),
                       (''reopening_reason'', JText reopening_reason)]) None d1;
         d3 = create_notification q (fs_prepared_by s) N_SETTLEMENT_REOPENED (Some (ev_event_request_id ev)) d2
     in commit IntegrityError revision d3))))))"

section \<open>Closure eligibility and queries\<close>

datatype closure_blocker =
    EVENT_DELETED
  | EVENT_CANCELLED
  | VENUE_BOOKING_NOT_ENDED
  | EVENT_NOT_COMPLETED
  | POST_EVENT_REPORT_NOT_CERTIFIED
  | UNRESOLVED_EXPENSES
  | UNVERIFIED_INCOME
  | ADVANCE_UNRESOLVED
  | SETTLEMENT_MISSING
  | SETTLEMENT_NOT_SETTLED
  | PAYMENT_OUTSTANDING

definition settlement_blockers :: "db \<Rightarrow> event \<Rightarrow> closure_blocker list" where
  "settlement_blockers d ev =
     (if ev_status ev \<noteq> EV_COMPLETED then [EVENT_NOT_COMPLETED] else []) @
     (case report_of d (ev_id ev) of
        None \<Rightarrow> [POST_EVENT_REPORT_NOT_CERTIFIED]
      | Some r \<Rightarrow> if rp_status r \<noteq> RP_CERTIFIED then [POST_EVENT_REPORT_NOT_CERTIFIED] else []) @
     (if list_ex expense_unresolved (filter (\<lambda>e. ex_event_id e = ev_id ev) (expenses d))
      then [UNRESOLVED_EXPENSES] else []) @
     (if list_ex (\<lambda>i. inc_status i = IN_RECORDED) (filter (\<lambda>i. inc_event_id i = ev_id ev) (incomes d))
      then [UNVERIFIED_INCOME] else []) @
     (case advance_of d (ev_id ev) of
        None \<Rightarrow> []
      | Some a \<Rightarrow> if ca_status a \<in> {CA_REQUESTED, CA_APPROVED} then [ADVANCE_UNRESOLVED] else []) @
     (case settlement_of d (ev_id ev) of
        None \<Rightarrow> [SETTLEMENT_MISSING]
      | Some s \<Rightarrow>
          if fs_status s \<noteq> ST_SETTLED then [SETTLEMENT_NOT_SETTLED]
          else if net_cash_transferred d s \<noteq> fs_institutional_payout s then [PAYMENT_OUTSTANDING]
          else [])"

record closure_eligibility =
  ce_eligible :: bool
  ce_blockers :: "closure_blocker list"
  ce_event_id :: uuid
  ce_settlement_id :: "uuid option"

definition get_closure_eligibility :: "request \<Rightarrow> uuid \<Rightarrow> db \<Rightarrow> closure_eligibility res" where
  "get_closure_eligibility q event_id d =
     and_then (stl_get_confirmed_event d event_id False) (\<lambda>ev.
     and_then (stl_verify_event_viewer q d ev) (\<lambda>_.
     let blockers = settlement_blockers d ev
     in Inr \<lparr>ce_eligible = (blockers = []), ce_blockers = blockers, ce_event_id = ev_id ev,
             ce_settlement_id = map_option fs_id (settlement_of d (ev_id ev))\<rparr>))"

definition get_settlement :: "request \<Rightarrow> uuid \<Rightarrow> db \<Rightarrow> financial_settlement option res" where
  "get_settlement q event_id d =
     and_then (stl_get_confirmed_event d event_id False) (\<lambda>ev.
     and_then (stl_verify_event_viewer q d ev) (\<lambda>_. Inr (settlement_of d event_id)))"

definition get_settlement_by_id :: "request \<Rightarrow> uuid \<Rightarrow> db \<Rightarrow> financial_settlement res" where
  "get_settlement_by_id q settlement_id d =
     fetch (row fs_id settlement_id (settlements d)) NotFoundError (\<lambda>s.
     and_then (stl_get_confirmed_event d (fs_event_id s) False) (\<lambda>ev.
     and_then (stl_verify_event_viewer q d ev) (\<lambda>_. Inr s)))"

definition get_settlement_revisions :: "request \<Rightarrow> uuid \<Rightarrow> db \<Rightarrow> settlement_revision list res" where
  "get_settlement_revisions q settlement_id d =
     and_then (get_settlement_by_id q settlement_id d) (\<lambda>s.
     Inr (sort_key sr_revision_number (revisions_of d (fs_id s))))"

definition get_settlement_payments :: "request \<Rightarrow> uuid \<Rightarrow> db \<Rightarrow> settlement_payment list res" where
  "get_settlement_payments q settlement_id d =
     and_then (get_settlement_by_id q settlement_id d) (\<lambda>s.
     Inr (sort_key sp_created_at (payments_of d (fs_id s))))"

section \<open>The settlements as a service\<close>

datatype settlement_request =
    PrepareSettlement uuid
  | SubmitSettlement uuid
  | AuditSettlement uuid string "string option" "string option"
  | RecordPayment uuid payment_create
  | ReopenSettlement uuid string

fun settlement_exec :: "request \<Rightarrow> settlement_request \<Rightarrow> db \<Rightarrow> db res" where
  "settlement_exec q (PrepareSettlement ev) d = db_of (prepare_settlement q ev d)"
| "settlement_exec q (SubmitSettlement i) d = db_of (submit_settlement q i d)"
| "settlement_exec q (AuditSettlement i a r s) d = db_of (audit_settlement q i a r s d)"
| "settlement_exec q (RecordPayment i p) d = db_of (record_payment q i p d)"
| "settlement_exec q (ReopenSettlement i r) d = db_of (reopen_settlement q i r d)"

lemmas settlement_handler_defs =
  prepare_settlement_def submit_settlement_def audit_settlement_def record_payment_def
  reopen_settlement_def

text \<open>What each effect changes.\<close>

lemma store_settlement_frame [simp]:
  "payments (store_settlement e s d) = payments d"
  "settlement_revisions (store_settlement e s d) = settlement_revisions d"
  "audit_logs (store_settlement e s d) = audit_logs d"
  "events (store_settlement e s d) = events d"
  "expenses (store_settlement e s d) = expenses d"
  "settlements (store_settlement None s d) = settlements d @ [s]"
  "settlements (store_settlement (Some s0) s d) = put fs_id s (settlements d)"
  "next_uuid (store_settlement None s d) = Suc (next_uuid d)"
  "next_uuid (store_settlement (Some s0) s d) = next_uuid d"
  by (simp_all add: store_settlement_def split: option.splits)

lemma prepared_entry_frame [simp]:
  "payments (prepared_entry q ev v g t s d) = payments d"
  "settlement_revisions (prepared_entry q ev v g t s d) = settlement_revisions d"
  "settlements (prepared_entry q ev v g t s d) = settlements d"
  "next_uuid (prepared_entry q ev v g t s d) = Suc (next_uuid d)"
  "signed q d (prepared_entry q ev v g t s d)"
  by (simp_all add: prepared_entry_def)

lemma query_settlement_frame [simp]:
  "payments (query_settlement q ev s r m d) = payments d"
  "settlement_revisions (query_settlement q ev s r m d) = settlement_revisions d"
  "settlements (query_settlement q ev s r m d) = put fs_id (queried_row r m s) (settlements d)"
  "next_uuid (query_settlement q ev s r m d) = next_uuid d + 2"
  "signed q d (query_settlement q ev s r m d)"
  by (simp_all add: query_settlement_def Let_def)

lemma approve_settlement_frame [simp]:
  "payments (approve_settlement q ev s r d) = payments d"
  "settlement_revisions (approve_settlement q ev s r d) = settlement_revisions d"
  "settlements (approve_settlement q ev s r d) = put fs_id (approved_row q r s) (settlements d)"
  "next_uuid d \<le> next_uuid (approve_settlement q ev s r d)"
  "signed q d (approve_settlement q ev s r d)"
  by (simp_all add: approve_settlement_def Let_def)

lemma store_payment_frame [simp]:
  "payments (store_payment q s p d) = payments d @ [new_payment q (next_uuid d) s p]"
  "settlement_revisions (store_payment q s p d) = settlement_revisions d"
  "settlements (store_payment q s p d) = settlements d"
  "next_uuid (store_payment q s p d) = next_uuid d + 2"
  "signed q d (store_payment q s p d)"
  by (simp_all add: store_payment_def Let_def)

lemma settle_frame [simp]:
  "payments (settle q ev s n d) = payments d"
  "settlement_revisions (settle q ev s n d) = settlement_revisions d"
  "settlements (settle q ev s n d) = put fs_id (s\<lparr>fs_status := ST_SETTLED\<rparr>) (settlements d)"
  "next_uuid (settle q ev s n d) = next_uuid d + 2"
  "signed q d (settle q ev s n d)"
  by (simp_all add: settle_def Let_def)

text \<open>What a served request has done, one clause per method.\<close>

inductive settlement_effect :: "request \<Rightarrow> db \<Rightarrow> db \<Rightarrow> bool" for q d where
  prepared: "ev \<in> set (events d) \<Longrightarrow> ev_status ev = EV_COMPLETED \<Longrightarrow>
     existing = settlement_of d (ev_id ev) \<Longrightarrow>
     (case existing of None \<Rightarrow> True | Some s \<Rightarrow> fs_status s = ST_REOPENED) \<Longrightarrow>
     resolve_sanctioned_snapshot d ev = Inr (v, g, e, i) \<Longrightarrow>
     compute_settlement_totals d ev g existing = Inr t \<Longrightarrow>
     s = compiled_settlement q ev v g e i t existing d \<Longrightarrow>
     settlement_effect q d (prepared_entry q ev v g t s (store_settlement existing s d))"
| submitted: "row fs_id i (settlements d) = Some s \<Longrightarrow> fs_status s \<in> {ST_DRAFT, ST_QUERIED, ST_REOPENED} \<Longrightarrow>
     ev \<in> set (events d) \<Longrightarrow> ev_id ev = fs_event_id s \<Longrightarrow>
     verify_live_source_consistency q d s ev = Inr u \<Longrightarrow>
     settlement_effect q d (add_audit q A_SETTLEMENT_SUBMITTED ''financial_settlement'' (fs_id s) j1 j2 None
       (d\<lparr>settlements := put fs_id (s\<lparr>fs_status := ST_UNDER_AUDIT, fs_submitted_at := Some (now q)\<rparr>) (settlements d)\<rparr>))"
| queried: "actor_role q = FINANCE_OFFICER \<Longrightarrow> row fs_id i (settlements d) = Some s \<Longrightarrow> fs_status s = ST_UNDER_AUDIT \<Longrightarrow>
     settlement_effect q d (query_settlement q ev s r m d)"
| approved: "actor_role q = FINANCE_OFFICER \<Longrightarrow> row fs_id i (settlements d) = Some s \<Longrightarrow> fs_status s = ST_UNDER_AUDIT \<Longrightarrow>
     ev \<in> set (events d) \<Longrightarrow> ev_id ev = fs_event_id s \<Longrightarrow>
     verify_live_source_consistency q d s ev = Inr u \<Longrightarrow>
     settlement_effect q d (approve_settlement q ev s r d)"
| paid: "actor_role q = FINANCE_OFFICER \<Longrightarrow> row fs_id i (settlements d) = Some s \<Longrightarrow>
     fs_status s \<in> {ST_PENDING_REIMBURSEMENT, ST_PENDING_REFUND} \<Longrightarrow> fs_settlement_type s \<noteq> SY_BALANCED \<Longrightarrow>
     pc_payment_type p = payment_direction (fs_settlement_type s) \<Longrightarrow> 0 < pc_amount p \<Longrightarrow>
     pc_amount p \<le> remaining_due (fs_settlement_type s) (fs_institutional_payout s) (net_cash_transferred d s) \<Longrightarrow>
     n = (if fs_settlement_type s = SY_REIMBURSEMENT_DUE then net_cash_transferred d s + pc_amount p
          else net_cash_transferred d s - pc_amount p) \<Longrightarrow>
     settlement_effect q d
       (if remaining_due (fs_settlement_type s) (fs_institutional_payout s) n \<le> 0
        then settle q ev s n (store_payment q s p d) else store_payment q s p d)"
| reopened: "actor_role q \<in> {FINANCE_OFFICER, PRINCIPAL, DEAN_STUDENT_AFFAIRS} \<Longrightarrow> row fs_id i (settlements d) = Some s \<Longrightarrow>
     fs_status s = ST_SETTLED \<Longrightarrow> ev \<in> set (events d) \<Longrightarrow> ev_id ev = fs_event_id s \<Longrightarrow>
     ev_status ev \<notin> {EV_CLOSED, EV_ARCHIVED} \<Longrightarrow>
     r = \<lparr>sr_id = next_uuid d, sr_settlement_id = fs_id s,
          sr_revision_number = int (length (revisions_of d (fs_id s))) + 1,
          sr_snapshot_data = settlement_snapshot d s, sr_reopened_by = actor_id q,
          sr_reopening_reason = m, sr_created_at = now q\<rparr> \<Longrightarrow>
     settlement_effect q d (create_notification q k N_SETTLEMENT_REOPENED l
       (add_audit q A_SETTLEMENT_REOPENED ''financial_settlement'' (fs_id s) j1 j2 None
         (d\<lparr>settlement_revisions := settlement_revisions d @ [r],
            settlements := put fs_id (s\<lparr>fs_status := ST_REOPENED\<rparr>) (settlements d),
            next_uuid := Suc (next_uuid d)\<rparr>)))"

lemma stl_get_confirmed_event_in:
  "stl_get_confirmed_event d i m = Inr ev \<Longrightarrow> ev \<in> set (events d)"
  "stl_get_confirmed_event d i m = Inr ev \<Longrightarrow> ev_id ev = i"
  by (auto dest: stl_get_confirmed_eventD)

lemma prepare_effect: "prepare_settlement q i d = Inr (s, d') \<Longrightarrow> settlement_effect q d d' \<and> db_ok d'"
  unfolding prepare_settlement_def Let_def
  by (auto simp only: res_simps case_prod_unfold prod.collapse split_paired_all prod.inject
      intro!: prepared stl_get_confirmed_event_in)


lemma submit_effect: "submit_settlement q i d = Inr (s, d') \<Longrightarrow> settlement_effect q d d' \<and> db_ok d'"
  unfolding submit_settlement_def Let_def
  by (auto simp only: res_simps prod.inject intro!: submitted stl_get_confirmed_event_in)

lemma audit_effect:
  "audit_settlement q i a r m d = Inr (s, d') \<Longrightarrow> settlement_effect q d d' \<and> db_ok d'"
  unfolding audit_settlement_def
  by (auto simp: res_simps intro!: queried intro: approved stl_get_confirmed_event_in split: if_splits)

lemma payment_effect: "record_payment q i p d = Inr (s, d') \<Longrightarrow> settlement_effect q d d' \<and> db_ok d'"
  unfolding record_payment_def Let_def
  by (auto simp only: res_simps prod.inject not_le not_less intro!: paid)

lemma reopen_effect: "reopen_settlement q i m d = Inr (s, d') \<Longrightarrow> settlement_effect q d d' \<and> db_ok d'"
  unfolding reopen_settlement_def Let_def stl_verify_reopen_authority_def
  by (auto simp only: res_simps prod.inject intro!: reopened stl_get_confirmed_event_in
      split: if_splits)

lemma settlement_exec_effect: "settlement_exec q r d = Inr d' \<Longrightarrow> settlement_effect q d d' \<and> db_ok d'"
  by (cases r) (auto simp only: settlement_exec.simps db_of_Inr
      dest: prepare_effect submit_effect audit_effect payment_effect reopen_effect)

lemma settlement_effect_audit: "settlement_effect q d d' \<Longrightarrow> signed q d d'"
proof (induction rule: settlement_effect.induct)
  case (paid i s p n ev)
  have "signed q d (settle q ev s n (store_payment q s p d))"
    by (rule signed_trans [OF store_payment_frame(5) settle_frame(5)])
  then show ?case using store_payment_frame(5) [of q s p d]
    by (cases "remaining_due (fs_settlement_type s) (fs_institutional_payout s) n \<le> 0") (simp_all only: if_True if_False simp_thms)
next
  case (prepared ev existing v g e i t s)
  show ?case using prepared_entry_frame(5) [of q ev v g t s "store_settlement existing s d"] by simp
qed auto

interpretation settlement_service: audited_service settlement_exec
  by unfold_locales (auto dest: settlement_exec_effect settlement_effect_audit)

lemma settlement_effect_payments: "settlement_effect q d d' \<Longrightarrow> \<exists>ps. payments d' = payments d @ ps"
  by (induction rule: settlement_effect.induct) auto

lemma settlement_effect_revisions:
  "settlement_effect q d d' \<Longrightarrow> \<exists>rs. settlement_revisions d' = settlement_revisions d @ rs"
  by (induction rule: settlement_effect.induct) auto

interpretation payment_ledger: immutable_rows settlement_exec payments
  by unfold_locales (auto dest: settlement_exec_effect settlement_effect_payments)

interpretation revision_ledger: immutable_rows settlement_exec settlement_revisions
  by unfold_locales (auto dest: settlement_exec_effect settlement_effect_revisions)

section \<open>The accounting formulas\<close>

definition figures_ok :: "financial_settlement \<Rightarrow> bool" where
  "figures_ok s \<longleftrightarrow>
     fs_net_deficit s = max 0 (fs_total_verified_expenditure s - fs_total_verified_income s) \<and>
     fs_institutional_payout s = min (fs_sanctioned_grant s) (fs_net_deficit s) \<and>
     fs_reimbursement_due s = max 0 (fs_settlement_balance s) \<and>
     fs_refund_due s = max 0 (- fs_settlement_balance s) \<and>
     fs_settlement_type s = settlement_type_of (fs_settlement_balance s)"

lemma set_figures_simps [simp]:
  "fs_id (set_figures v g e i t s) = fs_id s"
  "fs_event_id (set_figures v g e i t s) = fs_event_id s"
  "fs_status (set_figures v g e i t s) = fs_status s"
  "fs_prepared_by (set_figures v g e i t s) = fs_prepared_by s"
  "fs_sanctioned_grant (set_figures v g e i t s) = g"
  "fs_approved_version_id (set_figures v g e i t s) = v"
  "fs_total_verified_expenditure (set_figures v g e i t s) = tt_verified t"
  "fs_total_verified_income (set_figures v g e i t s) = tt_income t"
  "fs_total_claimed_expenditure (set_figures v g e i t s) = tt_claimed t"
  "fs_total_disallowed_expenditure (set_figures v g e i t s) = tt_disallowed t"
  "fs_cash_advance_disbursed (set_figures v g e i t s) = tt_advance t"
  "fs_institutional_payout (set_figures v g e i t s) = tt_payout t"
  "fs_settlement_balance (set_figures v g e i t s) = tt_balance t"
  "fs_settlement_type (set_figures v g e i t s) = tt_type t"
  by (simp_all add: set_figures_def)

lemma new_settlement_simps [simp]:
  "fs_id (new_settlement q i e) = i" "fs_event_id (new_settlement q i e) = e"
  "fs_status (new_settlement q i e) = ST_DRAFT"
  by (simp_all add: new_settlement_def)

text \<open>What the calculation returns.\<close>

definition totals_ok :: "db \<Rightarrow> event \<Rightarrow> money \<Rightarrow> financial_settlement option \<Rightarrow> settlement_totals \<Rightarrow> bool" where
  "totals_ok d ev grant settlement t \<longleftrightarrow>
     tt_net_deficit t = max 0 (tt_verified t - tt_income t) \<and>
     tt_payout t = min grant (tt_net_deficit t) \<and>
     tt_balance t = tt_payout t - tt_net_cash t \<and>
     tt_reimbursement_due t = max 0 (tt_balance t) \<and> tt_refund_due t = max 0 (- tt_balance t) \<and>
     tt_type t = settlement_type_of (tt_balance t) \<and>
     tt_net_cash t = tt_advance t +
       (case (case settlement of Some s \<Rightarrow> Some s | None \<Rightarrow> settlement_of d (ev_id ev)) of
          None \<Rightarrow> 0
        | Some s \<Rightarrow> cleared PT_REIMBURSEMENT_DISBURSEMENT (payments_of d (fs_id s)) -
                   cleared PT_ADVANCE_REFUND_RECEIPT (payments_of d (fs_id s)))"

lemma cleared_Nil [simp]: "cleared ty [] = 0"
  by (simp add: cleared_def)

lemma due_max:
  "(if b > 0 then b else 0) = max 0 (b :: int)" "(if b < 0 then \<bar>b\<bar> else 0) = max 0 (- b :: int)"
  by auto

lemma compute_totals_ok:
  assumes "compute_settlement_totals d ev g so = Inr t"
  shows "totals_ok d ev g so t"
proof -
  define target where "target = (case so of Some s \<Rightarrow> Some s | None \<Rightarrow> settlement_of d (ev_id ev))"
  show ?thesis
    using assms unfolding compute_settlement_totals_def totals_ok_def Let_def target_def [symmetric]
    by (cases target) (auto simp only: require_Inr sum.inject settlement_totals.simps option.case
        cleared_Nil due_max simp_thms diff_zero add_0_right add_diff_eq)
qed

lemma set_figures_ok: "totals_ok d ev g so t \<Longrightarrow> figures_ok (set_figures v g e i t s)"
  by (simp add: figures_ok_def totals_ok_def set_figures_def)

text \<open>Changing the status and the remarks keeps the figures.\<close>

lemma figures_ok_update [simp]:
  "figures_ok (fs_status_update a s) = figures_ok s"
  "figures_ok (fs_prepared_by_update b s) = figures_ok s"
  "figures_ok (fs_submitted_at_update c s) = figures_ok s"
  "figures_ok (fs_audited_by_update c2 s) = figures_ok s"
  "figures_ok (fs_audited_at_update c s) = figures_ok s"
  "figures_ok (fs_finance_remarks_update c3 s) = figures_ok s"
  "figures_ok (fs_query_reason_update c3 s) = figures_ok s"
  by (simp_all add: figures_ok_def)

section \<open>The state machine\<close>

inductive settlement_step :: "request \<Rightarrow> financial_settlement \<Rightarrow> financial_settlement \<Rightarrow> bool" for q where
  recompile: "fs_status s = ST_REOPENED \<Longrightarrow> fs_status s' = ST_DRAFT \<Longrightarrow> fs_event_id s' = fs_event_id s \<Longrightarrow>
     figures_ok s' \<Longrightarrow> settlement_step q s s'"
| submit: "fs_status s \<in> {ST_DRAFT, ST_QUERIED, ST_REOPENED} \<Longrightarrow>
     settlement_step q s (s\<lparr>fs_status := ST_UNDER_AUDIT, fs_submitted_at := Some (now q)\<rparr>)"
| query: "actor_role q = FINANCE_OFFICER \<Longrightarrow> fs_status s = ST_UNDER_AUDIT \<Longrightarrow>
     settlement_step q s (s\<lparr>fs_status := ST_QUERIED, fs_query_reason := m, fs_finance_remarks := r\<rparr>)"
| approve: "actor_role q = FINANCE_OFFICER \<Longrightarrow> fs_status s = ST_UNDER_AUDIT \<Longrightarrow>
     settlement_step q s (s\<lparr>fs_audited_by := Some (actor_id q), fs_audited_at := Some (now q),
       fs_finance_remarks := r, fs_query_reason := None, fs_status := approval_status (fs_settlement_type s)\<rparr>)"
| settle: "actor_role q = FINANCE_OFFICER \<Longrightarrow> fs_status s \<in> {ST_PENDING_REIMBURSEMENT, ST_PENDING_REFUND} \<Longrightarrow>
     settlement_step q s (s\<lparr>fs_status := ST_SETTLED\<rparr>)"
| reopen: "actor_role q \<in> {FINANCE_OFFICER, PRINCIPAL, DEAN_STUDENT_AFFAIRS} \<Longrightarrow> fs_status s = ST_SETTLED \<Longrightarrow>
     settlement_step q s (s\<lparr>fs_status := ST_REOPENED\<rparr>)"

inductive_cases settlement_stepE: "settlement_step q s s'"

definition settlement_new :: "request \<Rightarrow> financial_settlement \<Rightarrow> bool" where
  "settlement_new q s \<longleftrightarrow> fs_status s = ST_DRAFT \<and> fs_prepared_by s = actor_id q \<and> figures_ok s"

lemma settlement_of_Some:
  "settlement_of d i = Some s \<Longrightarrow> s \<in> set (settlements d) \<and> fs_event_id s = i"
  by (auto simp: settlement_of_def dest: scalar_Some)


lemma compiled_settlement_simps:
  "totals_ok d ev g existing t \<Longrightarrow> figures_ok (compiled_settlement q ev v g e i t existing d)"
  "fs_status (compiled_settlement q ev v g e i t existing d) = ST_DRAFT"
  "fs_prepared_by (compiled_settlement q ev v g e i t existing d) = actor_id q"
  "fs_id (compiled_settlement q ev v g e i t existing d) =
     (case existing of None \<Rightarrow> next_uuid d | Some s0 \<Rightarrow> fs_id s0)"
  "fs_cash_advance_disbursed (compiled_settlement q ev v g e i t existing d) = tt_advance t"
  "fs_institutional_payout (compiled_settlement q ev v g e i t existing d) = tt_payout t"
  "fs_settlement_type (compiled_settlement q ev v g e i t existing d) = tt_type t"
  "existing = settlement_of d (ev_id ev) \<Longrightarrow>
     fs_event_id (compiled_settlement q ev v g e i t existing d) = ev_id ev"
  by (auto simp: compiled_settlement_def set_figures_ok new_settlement_def split: option.splits
      dest: settlement_of_Some)

lemma settlement_effect_evolves:
  "settlement_effect q d d' \<Longrightarrow>
     evolves fs_id (settlement_new q) (settlement_step q) (settlements d) (settlements d')"
proof (induction rule: settlement_effect.induct)
  case (prepared ev existing v g e i t s)
  note fig = compiled_settlement_simps [where q = q and ev = ev and v = v and g = g and e = e and i = i
      and t = t and existing = existing and d = d]
  note tot = compute_totals_ok [OF prepared(6)]
  show ?case
  proof (cases existing)
    case None
    then show ?thesis using fig tot prepared by (auto intro!: evolves_snoc simp: settlement_new_def)
  next
    case (Some s0)
    then have s0: "s0 \<in> set (settlements d)" "fs_event_id s0 = ev_id ev" "fs_status s0 = ST_REOPENED"
      using prepared settlement_of_Some by auto
    then have "settlement_step q s0 s" using fig tot prepared by (intro recompile) auto
    then show ?thesis using s0 Some fig prepared by (auto intro!: evolves_put)
  qed
next
  case (paid i s p n ev)
  then show ?case by (auto intro!: evolves_put settlement_step.settle dest: row_key)
qed (auto simp: queried_row_def approved_row_def dest!: row_key
      intro!: evolves_put submit query approve reopen)

interpretation settlement_machine:
  row_machine settlement_exec settlements fs_id settlement_new settlement_step
  by unfold_locales (auto dest: settlement_exec_effect settlement_effect_evolves)

lemma settlement_new_figures: "settlement_new q s \<Longrightarrow> figures_ok s"
  by (simp add: settlement_new_def)

lemma settlement_step_figures: "settlement_step q s s' \<Longrightarrow> figures_ok s \<Longrightarrow> figures_ok s'"
  by (erule settlement_stepE) auto

section \<open>Cash\<close>

text \<open>
  The cash that has moved never passes the payout from the wrong side, and a settled settlement is even;
  and identifiers are fresh.
\<close>

definition cash_row_ok :: "db \<Rightarrow> financial_settlement \<Rightarrow> bool" where
  "cash_row_ok d s \<longleftrightarrow>
     (case fs_settlement_type s of
        SY_REIMBURSEMENT_DUE \<Rightarrow> net_cash_transferred d s \<le> fs_institutional_payout s
      | SY_REFUND_DUE \<Rightarrow> net_cash_transferred d s \<ge> fs_institutional_payout s
      | SY_BALANCED \<Rightarrow> net_cash_transferred d s = fs_institutional_payout s) \<and>
     (fs_status s = ST_SETTLED \<longrightarrow> net_cash_transferred d s = fs_institutional_payout s)"

definition cash_ok :: "db \<Rightarrow> bool" where
  "cash_ok d \<longleftrightarrow>
     (\<forall>s\<in>set (settlements d). cash_row_ok d s \<and> fs_id s < next_uuid d) \<and>
     (\<forall>p\<in>set (payments d). sp_settlement_id p < next_uuid d)"

lemma net_cash_cong:
  "payments d' = payments d \<Longrightarrow> net_cash_transferred d' s = net_cash_transferred d s"
  by (simp add: net_cash_transferred_def payments_of_def)

lemma cash_row_cong: "payments d' = payments d \<Longrightarrow> cash_row_ok d' s = cash_row_ok d s"
  unfolding cash_row_ok_def by (simp only: net_cash_cong [of d' d s])

lemma payments_of_snoc:
  "payments d' = payments d @ [p] \<Longrightarrow>
     payments_of d' i = payments_of d i @ (if sp_settlement_id p = i then [p] else [])"
  by (simp add: payments_of_def)

lemma cleared_append [simp]: "cleared ty (ps @ qs) = cleared ty ps + cleared ty qs"
  by (simp add: cleared_def)

lemma cleared_one: "cleared ty [p] = (if sp_payment_type p = ty then sp_amount p else 0)"
  by (simp add: cleared_def)

text \<open>The net cash of a settlement depends on its identifier and advance only.\<close>

lemma net_cash_row:
  "fs_id s' = fs_id s \<Longrightarrow> fs_cash_advance_disbursed s' = fs_cash_advance_disbursed s \<Longrightarrow>
     net_cash_transferred d s' = net_cash_transferred d s"
  by (simp add: net_cash_transferred_def)

text \<open>A payment in the direction of a settlement moves its net cash towards the payout.\<close>

lemma net_cash_paid:
  assumes "payments d' = payments d @ [new_payment q i s p]"
    and "pc_payment_type p = payment_direction (fs_settlement_type s)"
  shows "net_cash_transferred d' x =
    (if fs_id x = fs_id s
     then net_cash_transferred d x +
       (if fs_settlement_type s = SY_REIMBURSEMENT_DUE then pc_amount p else - pc_amount p)
     else net_cash_transferred d x)"
  using assms
  by (auto simp: net_cash_transferred_def payments_of_snoc cleared_one new_payment_def payment_direction_def)

lemma cash_ok_put:
  assumes "cash_ok d" and "payments d' = payments d" and "settlements d' = put fs_id r (settlements d)"
    and "next_uuid d \<le> next_uuid d'" and "cash_row_ok d r" and "fs_id r < next_uuid d"
  shows "cash_ok d'"
proof -
  have "cash_row_ok d s \<and> fs_id s < next_uuid d" if "s \<in> set (settlements d')" for s
    using that assms(1,3,5,6) put_rows by (metis cash_ok_def)
  moreover have "sp_settlement_id p < next_uuid d" if "p \<in> set (payments d')" for p
    using that assms(1,2) by (simp add: cash_ok_def)
  ultimately show ?thesis
    using cash_row_cong [OF assms(2)] assms(4) unfolding cash_ok_def by fastforce
qed

text \<open>A row whose cash figures are those of a sound row is sound, unless it became settled.\<close>

lemma cash_row_same:
  assumes "cash_row_ok d s" and "fs_id r = fs_id s" and "fs_cash_advance_disbursed r = fs_cash_advance_disbursed s"
    and "fs_institutional_payout r = fs_institutional_payout s" and "fs_settlement_type r = fs_settlement_type s"
    and "fs_status r = ST_SETTLED \<Longrightarrow> fs_settlement_type s = SY_BALANCED \<or> fs_status s = ST_SETTLED"
  shows "cash_row_ok d r"
  using assms(1,6) unfolding cash_row_ok_def net_cash_row [OF assms(2,3)] assms(4,5)
  by (cases "fs_settlement_type s") auto

lemma cash_row_net:
  "net_cash_transferred d' s = net_cash_transferred d s \<Longrightarrow> cash_row_ok d' s = cash_row_ok d s"
  unfolding cash_row_ok_def by (simp only:)

lemma cash_ok_effect:
  assumes "settlement_effect q d d'" and ok: "cash_ok d" and db: "db_ok d"
  shows "cash_ok d'"
  using assms(1)
proof cases
  case (prepared ev existing v g e i t s)
  note tot = compute_totals_ok [OF prepared(7)]
  note sim = compiled_settlement_simps [where q = q and ev = ev and v = v and g = g and e = e and i = i
      and t = t and existing = existing and d = d]
  have id: "fs_id s = (case existing of None \<Rightarrow> next_uuid d | Some s0 \<Rightarrow> fs_id s0)"
    using sim(4) prepared(8) by simp
  have none: "payments_of d (next_uuid d) = []"
    using ok by (auto simp: cash_ok_def payments_of_def filter_empty_conv)
  have net: "net_cash_transferred d s = tt_net_cash t"
    using tot id none prepared(4,8) sim(5)
    by (auto simp: net_cash_transferred_def totals_ok_def split: option.splits)
  have row: "cash_row_ok d s"
  proof -
    have f: "fs_status s = ST_DRAFT" "fs_settlement_type s = tt_type t" "fs_institutional_payout s = tt_payout t"
      using sim(2,6,7) prepared(8) by simp_all
    have "tt_balance t = tt_payout t - tt_net_cash t" "tt_type t = settlement_type_of (tt_balance t)"
      using tot by (simp_all only: totals_ok_def)
    then show ?thesis unfolding cash_row_ok_def f net settlement_type_of_def
      by (cases "tt_balance t" "0 :: int" rule: linorder_cases) simp_all
  qed
  show ?thesis
  proof (cases existing)
    case None
    have "cash_row_ok d' x = cash_row_ok d x" for x
      by (rule cash_row_cong) (simp add: prepared(1))
    with ok row None id show ?thesis
      unfolding prepared(1) by (auto simp: cash_ok_def)
  next
    case (Some s0)
    then have "s0 \<in> set (settlements d)" using prepared(4) settlement_of_Some by metis
    with ok have "fs_id s < next_uuid d" using id Some by (auto simp: cash_ok_def)
    then show ?thesis
      by (rule cash_ok_put [OF ok _ _ _ row, rotated -1]) (simp_all add: prepared(1) Some)
  qed
next
  case (paid i s p n ev)
  have s: "s \<in> set (settlements d)" "cash_row_ok d s" "fs_id s < next_uuid d"
    using row_key [OF paid(3)] ok by (auto simp: cash_ok_def)
  let ?d1 = "store_payment q s p d"
  have net: "net_cash_transferred ?d1 x = (if fs_id x = fs_id s then net_cash_transferred d x +
       (if fs_settlement_type s = SY_REIMBURSEMENT_DUE then pc_amount p else - pc_amount p)
     else net_cash_transferred d x)" for x
    by (rule net_cash_paid [OF _ paid(6)]) simp
  have uniq: "x = s" if "x \<in> set (settlements d)" "fs_id x = fs_id s" for x
    using that s(1) db_ok_keys(11) [OF db] by (auto simp: distinct_map inj_on_def)
  have ps: "\<forall>x\<in>set (payments ?d1). sp_settlement_id x < next_uuid ?d1"
    using ok s(3) by (auto simp: cash_ok_def new_payment_def)
  have rows: "\<forall>x\<in>set (settlements d). fs_id x < next_uuid ?d1"
    using ok by (auto simp: cash_ok_def)
  have other: "cash_row_ok ?d1 x" if "x \<in> set (settlements d)" "fs_id x \<noteq> fs_id s" for x
    using ok that cash_row_net [of ?d1 x d] by (simp add: cash_ok_def net)
  have moved: "fs_settlement_type s = SY_REIMBURSEMENT_DUE \<Longrightarrow> net_cash_transferred ?d1 s \<le> fs_institutional_payout s"
    "fs_settlement_type s = SY_REFUND_DUE \<Longrightarrow> net_cash_transferred ?d1 s \<ge> fs_institutional_payout s"
    "n = net_cash_transferred ?d1 s"
    using paid(5,8,9) by (auto simp: net remaining_due_def)
  show ?thesis
  proof (cases "remaining_due (fs_settlement_type s) (fs_institutional_payout s) n \<le> 0")
    case False
    have "cash_row_ok ?d1 s" using moved(1,2) paid(4,5)
      by (cases "fs_settlement_type s") (auto simp: cash_row_ok_def)
    then have "\<forall>x\<in>set (settlements d). cash_row_ok ?d1 x" using other uniq by metis
    with ps rows False show ?thesis unfolding paid(1) cash_ok_def by simp
  next
    case True
    let ?d2 = "settle q ev s n ?d1" and ?s = "s\<lparr>fs_status := ST_SETTLED\<rparr>"
    have cong: "cash_row_ok ?d2 x = cash_row_ok ?d1 x" for x by (rule cash_row_cong) simp
    have net_s: "net_cash_transferred ?d1 ?s = net_cash_transferred ?d1 s" by (rule net_cash_row) simp_all
    have "net_cash_transferred ?d1 s = fs_institutional_payout s"
      using True moved paid(5) by (cases "fs_settlement_type s") (auto simp: remaining_due_def)
    then have new: "cash_row_ok ?d1 ?s"
      by (cases "fs_settlement_type s") (auto simp: cash_row_ok_def net_s)
    have "\<forall>x\<in>set (put fs_id ?s (settlements d)). cash_row_ok ?d1 x \<and> fs_id x < next_uuid ?d1"
      using other new rows s(1) by (auto simp: in_put)
    with ps True show ?thesis unfolding paid(1) cash_ok_def
      by (auto simp: cong less_SucI)
  qed
next
  case (submitted i s ev u j1 j2)
  note s = row_key [OF submitted(2)]
  with ok have c: "cash_row_ok d s" "fs_id s < next_uuid d" by (auto simp: cash_ok_def)
  show ?thesis
    by (rule cash_ok_put [OF ok, where r = "s\<lparr>fs_status := ST_UNDER_AUDIT, fs_submitted_at := Some (now q)\<rparr>"])
      (simp_all add: submitted(1) c, rule cash_row_same [OF c(1)], simp_all)
next
  case (queried i s ev r m)
  note s = row_key [OF queried(3)]
  with ok have c: "cash_row_ok d s" "fs_id s < next_uuid d" by (auto simp: cash_ok_def)
  show ?thesis
    by (rule cash_ok_put [OF ok, where r = "queried_row r m s"])
      (simp_all add: queried(1) c queried_row_def, rule cash_row_same [OF c(1)], simp_all)
next
  case (approved i s ev u r)
  note s = row_key [OF approved(3)]
  with ok have c: "cash_row_ok d s" "fs_id s < next_uuid d" by (auto simp: cash_ok_def)
  have "cash_row_ok d (approved_row q r s)"
    by (rule cash_row_same [OF c(1)])
      (auto simp: approved_row_def approval_status_def split: settlement_type.splits)
  then show ?thesis
    by (rule cash_ok_put [OF ok _ _ _ _, rotated -2])
      (simp_all add: approved(1) c, simp add: approved_row_def c)
next
  case (reopened i s ev r m k l j1 j2)
  note s = row_key [OF reopened(3)]
  with ok have c: "cash_row_ok d s" "fs_id s < next_uuid d" by (auto simp: cash_ok_def)
  show ?thesis
    by (rule cash_ok_put [OF ok, where r = "s\<lparr>fs_status := ST_REOPENED\<rparr>"])
      (simp_all add: reopened(1) c, rule cash_row_same [OF c(1)], simp_all)
qed

interpretation settlement_cash: state_invariant settlement_exec cash_ok
  by unfold_locales (auto dest: settlement_exec_effect cash_ok_effect)

section \<open>Revisions\<close>

definition revisions_numbered :: "db \<Rightarrow> bool" where
  "revisions_numbered d \<longleftrightarrow>
     (\<forall>i. map sr_revision_number (revisions_of d i) = map int [1..<Suc (length (revisions_of d i))])"

lemma revisions_effect:
  assumes "settlement_effect q d d'" and "revisions_numbered d"
  shows "revisions_numbered d'"
  using assms(1)
proof cases
  case (reopened i s ev r m k l j1 j2)
  then have "revisions_of d' x = revisions_of d x @ (if fs_id s = x then [r] else [])" for x
    by (auto simp: revisions_of_def)
  with assms(2) reopened show ?thesis by (auto simp: revisions_numbered_def)
qed (use assms(2) in \<open>auto simp: revisions_numbered_def revisions_of_def\<close>)

interpretation revision_numbers: state_invariant settlement_exec revisions_numbered
  by unfold_locales (auto dest: settlement_exec_effect revisions_effect)

section \<open>Properties\<close>

definition audited_campus :: db where
  "audited_campus = campus\<lparr>expenses := audited_claims\<rparr>"

definition balance_payment :: "money \<Rightarrow> payment_create" where
  "balance_payment m =
     \<lparr>pc_payment_type = PT_REIMBURSEMENT_DISBURSEMENT, pc_amount = m,
      pc_payment_method = PM_CHEQUE, pc_transaction_reference = ''CHQ-1'',
      pc_transaction_date = days 36, pc_proof_document_id = 40, pc_notes = None\<rparr>"

definition settlement_run :: "(request \<times> settlement_request) list" where
  "settlement_run =
     [(ctx the_secretary (days 33), PrepareSettlement 25),
      (ctx the_secretary (days 34), SubmitSettlement 100),
      (ctx the_finance (days 35), AuditSettlement 100 '' approve'' None None),
      (ctx the_finance (days 36), RecordPayment 100 (balance_payment 30000)),
      (ctx the_finance (days 37), RecordPayment 100 (balance_payment 40000))]"

lemma settlement_run_result:
  "map (\<lambda>s. (fs_id s, fs_status s, fs_institutional_payout s)) (settlements (run settlement_exec settlement_run audited_campus)) =
     [(100, ST_SETTLED, 70000)]"
  by code_simp


lemma audited_campus_ok: "db_ok audited_campus"
  by code_simp




text \<open>
  Reopening keeps history: in every reachable state the revisions of each settlement are numbered 1, 2,
  3, ... in the order they were made, and a revision once written stays as it is.
\<close>

theorem revisions_sequential:
  assumes "db_ok d" and "settlement_revisions d = []"
  shows "map sr_revision_number (revisions_of (run settlement_exec xs d) i) =
      map int [1..<Suc (length (revisions_of (run settlement_exec xs d) i))] \<and>
    (\<forall>r\<in>set (settlement_revisions (run settlement_exec xs d)).
       r \<in> set (settlement_revisions (run settlement_exec ys (run settlement_exec xs d))))"
proof -
  have "revisions_numbered (run settlement_exec xs d)"
    using revision_numbers.run_good [OF assms(1)] assms(2)
    by (simp add: revisions_numbered_def revisions_of_def)
  then show ?thesis
    using revision_ledger.run_final [OF settlement_service.run_ok [OF assms(1)]]
    by (auto simp: revisions_numbered_def)
qed

definition settled_row :: financial_settlement where
  "settled_row =
     \<lparr>fs_id = 80, fs_event_id = 25, fs_approved_version_id = 21, fs_sanctioned_grant = 500000,
      fs_sanctioned_expenditure = 600000, fs_expected_income = 100000, fs_total_claimed_expenditure = 150000,
      fs_total_verified_expenditure = 70000, fs_total_disallowed_expenditure = 80000,
      fs_total_verified_income = 0, fs_net_deficit = 70000, fs_institutional_payout = 70000,
      fs_cash_advance_disbursed = 0, fs_settlement_balance = 70000, fs_reimbursement_due = 70000,
      fs_refund_due = 0, fs_settlement_type = SY_REIMBURSEMENT_DUE, fs_status = ST_SETTLED,
      fs_prepared_by = 2, fs_submitted_at = Some 0, fs_audited_by = Some 8, fs_audited_at = Some 0,
      fs_finance_remarks = None, fs_query_reason = None, fs_created_at = 0\<rparr>"

definition paid_row :: settlement_payment where
  "paid_row =
     \<lparr>sp_id = 81, sp_settlement_id = 80, sp_payment_type = PT_REIMBURSEMENT_DISBURSEMENT, sp_amount = 70000,
      sp_payment_method = PM_CHEQUE, sp_transaction_reference = ''CHQ-1'', sp_transaction_date = 0,
      sp_proof_document_id = 40, sp_recorded_by = 8, sp_notes = None, sp_created_at = 0\<rparr>"

definition settled_campus :: db where
  "settled_campus = audited_campus\<lparr>settlements := [settled_row], payments := [paid_row]\<rparr>"

lemma settled_campus_ok: "db_ok settled_campus"
  by code_simp

definition reopening :: "(request \<times> settlement_request) list" where
  "reopening = [(ctx the_dean (days 50), ReopenSettlement 80 ''Audit objection'')]"

lemma revisions_sequential_witness:
  "map sr_revision_number (revisions_of (run settlement_exec reopening settled_campus) 80) = [1]"
proof -
  have "length (revisions_of (run settlement_exec reopening settled_campus) 80) = 1" by code_simp
  moreover have "settlement_revisions settled_campus = []"
    by (simp add: settled_campus_def audited_campus_def campus_defs)
  ultimately show ?thesis using revisions_sequential [OF settled_campus_ok, of reopening 80] by simp
qed

text \<open>
  C10. Segregation of duties: a settlement becomes queried, approved or settled only by the hand of a finance
  officer, and reopened only by a finance officer, the dean or the principal; a system administrator does
  none of these.
\<close>

theorem settlement_duties:
  assumes "db_ok d" and "settlement_exec q r d = Inr d'" and "s' \<in> set (settlements d')"
    and "s' \<notin> set (settlements d)"
  shows "(fs_status s' \<in> {ST_QUERIED, ST_PENDING_REIMBURSEMENT, ST_PENDING_REFUND, ST_SETTLED} \<longrightarrow>
       actor_role q = FINANCE_OFFICER) \<and>
    (fs_status s' = ST_REOPENED \<longrightarrow> actor_role q \<in> {FINANCE_OFFICER, PRINCIPAL, DEAN_STUDENT_AFFAIRS})"
proof -
  from settlement_machine.exec_evolves [OF assms(1,2)] assms(3,4)
  consider "settlement_new q s'" | s where "settlement_step q s s'"
    by (auto simp: evolves_def)
  then show ?thesis
    by cases (auto simp: settlement_new_def elim!: settlement_stepE)
qed

lemma settlement_duties_witness:
  "\<exists>d' s'. settlement_exec (ctx the_dean (days 50)) (ReopenSettlement 80 ''Audit objection'') settled_campus = Inr d' \<and>
     settlements d' = [s'] \<and> fs_status s' = ST_REOPENED \<and>
     actor_role (ctx the_dean (days 50)) \<in> {FINANCE_OFFICER, PRINCIPAL, DEAN_STUDENT_AFFAIRS}"
proof -
  let ?q = "ctx the_dean (days 50)" and ?r = "ReopenSettlement 80 ''Audit objection''"
  let ?d' = "projr (settlement_exec ?q ?r settled_campus)"
  have ex: "settlement_exec ?q ?r settled_campus = Inr ?d'" by (rule Inr_projr) code_simp
  have "map fs_status (settlements ?d') = [ST_REOPENED]" by code_simp
  then obtain s' where s': "settlements ?d' = [s']" "fs_status s' = ST_REOPENED" by auto
  then have "s' \<notin> set (settlements settled_campus)"
    by (auto simp: settled_campus_def settled_row_def)
  with settlement_duties [OF settled_campus_ok ex, of s'] ex s' show ?thesis by auto
qed


lemma live_consistent:
  assumes "verify_live_source_consistency q d s ev = Inr u"
  obtains g t where "compute_settlement_totals d ev g (Some s) = Inr t"
    "fs_sanctioned_grant s = g" "fs_total_verified_expenditure s = tt_verified t"
    "fs_total_verified_income s = tt_income t" "fs_cash_advance_disbursed s = tt_advance t"
    "\<forall>fp. get_prepared_source_fingerprint d s = Some fp \<longrightarrow>
       fp = JText (compute_source_fingerprint q (fs_approved_version_id s) g (tt_expenses t) (tt_incomes t)
                     (tt_advance_row t))"
proof -
  obtain v g e x where sn: "resolve_sanctioned_snapshot d ev = Inr (v, g, e, x)"
    using assms by (cases "resolve_sanctioned_snapshot d ev") (auto simp: verify_live_source_consistency_def)
  obtain t where t: "compute_settlement_totals d ev g (Some s) = Inr t"
    using assms by (cases "compute_settlement_totals d ev g (Some s)")
      (auto simp: verify_live_source_consistency_def sn)
  from assms show ?thesis
    by (intro that [OF t]) (auto simp: verify_live_source_consistency_def sn t require_Inr)
qed



section \<open>Two ways to get stuck\<close>

text \<open>A settlement that waits for a payment while its books are even.\<close>

definition waits_in_vain :: "financial_settlement \<Rightarrow> db \<Rightarrow> bool" where
  "waits_in_vain s d \<longleftrightarrow>
     s \<in> set (settlements d) \<and> fs_status s \<in> {ST_PENDING_REIMBURSEMENT, ST_PENDING_REFUND} \<and>
     net_cash_transferred d s = fs_institutional_payout s"

lemma waits_in_vain_put:
  assumes "db_ok d" and "waits_in_vain s d" and "e \<in> set (settlements d)" and "fs_id r = fs_id e"
    and "fs_status e \<notin> {ST_PENDING_REIMBURSEMENT, ST_PENDING_REFUND}"
    and "settlements d' = put fs_id r (settlements d)" and "payments d' = payments d"
  shows "waits_in_vain s d'"
  using assms put_keeps [OF db_ok_keys(11) [OF assms(1)] assms(3,4), of s] net_cash_cong [OF assms(7), of s]
  by (auto simp: waits_in_vain_def)

lemma waits_in_vain_effect:
  assumes "settlement_effect q d d'" and ok: "db_ok d" and w: "waits_in_vain s d"
  shows "waits_in_vain s d'"
  using assms(1)
proof cases
  case (prepared ev existing v g e i t s')
  show ?thesis
  proof (cases existing)
    case None
    then have "payments d' = payments d" "settlements d' = settlements d @ [s']"
      by (simp_all add: prepared(1))
    with w net_cash_cong [of d' d s] show ?thesis by (simp add: waits_in_vain_def)
  next
    case (Some s0)
    then have s0: "s0 \<in> set (settlements d)" "fs_status s0 = ST_REOPENED"
      using prepared(4,5) settlement_of_Some by auto
    have "fs_id s' = fs_id s0" using Some prepared(8) compiled_settlement_simps(4) by simp
    with s0 show ?thesis
      by (intro waits_in_vain_put [OF ok w, of s0 s']) (simp_all add: prepared(1) Some)
  qed
next
  case (paid i s0 p n ev)
  have s0: "s0 \<in> set (settlements d)" using row_key [OF paid(3)] by simp
  have "s0 \<noteq> s" using paid(5,7,8) w by (auto simp: waits_in_vain_def remaining_due_def split: if_splits)
  then have id: "fs_id s0 \<noteq> fs_id s"
    using s0 w db_ok_keys(11) [OF ok] by (auto simp: waits_in_vain_def distinct_map inj_on_def)
  have "payments d' = payments d @ [new_payment q (next_uuid d) s0 p]" by (simp add: paid(1))
  from net_cash_paid [OF this paid(6), of s] id
  have "net_cash_transferred d' s = net_cash_transferred d s" by simp
  moreover have "s \<in> set (settlements d')" using w id by (auto simp: paid(1) waits_in_vain_def in_put)
  ultimately show ?thesis using w by (simp add: waits_in_vain_def)
next
  case (submitted i s0 ev u j1 j2)
  show ?thesis
    by (rule waits_in_vain_put [OF ok w, of s0]) (use row_key [OF submitted(2)] submitted(3) in \<open>auto simp: submitted(1)\<close>)
next
  case (queried i s0 ev r m)
  show ?thesis
    by (rule waits_in_vain_put [OF ok w, of s0 "queried_row r m s0"])
      (use row_key [OF queried(3)] queried(4) in \<open>auto simp: queried(1) queried_row_def\<close>)
next
  case (approved i s0 ev u r)
  show ?thesis
    by (rule waits_in_vain_put [OF ok w, of s0 "approved_row q r s0"])
      (use row_key [OF approved(3)] approved(4) in \<open>auto simp: approved(1) approved_row_def\<close>)
next
  case (reopened i s0 ev r m k l j1 j2)
  show ?thesis
    by (rule waits_in_vain_put [OF ok w, of s0 "s0\<lparr>fs_status := ST_REOPENED\<rparr>"])
      (use row_key [OF reopened(3)] reopened(4) in \<open>auto simp: reopened(1)\<close>)
qed

interpretation stuck_settlement: state_invariant settlement_exec "waits_in_vain s" for s
  by unfold_locales (auto dest: settlement_exec_effect waits_in_vain_effect)


text \<open>Reopening, resubmitting and approving without preparing again leads there.\<close>

definition reopened_without_recompiling :: db where
  "reopened_without_recompiling =
     run settlement_exec
       [(ctx the_finance (days 40), ReopenSettlement 80 ''Wrong head''),
        (ctx the_secretary (days 41), SubmitSettlement 80),
        (ctx the_finance (days 42), AuditSettlement 80 ''APPROVE'' None None)] settled_campus"

definition open_gaps :: "db \<Rightarrow> (settlement_status \<times> money) list" where
  "open_gaps d = map (\<lambda>s. (fs_status s, net_cash_transferred d s - fs_institutional_payout s)) (settlements d)"


text \<open>
  Another one: a draft or queried settlement whose verified expenditure no longer matches the live
  claims can neither be submitted nor prepared again.
\<close>

theorem stale_draft_stuck:
  assumes "db_ok d" and "s \<in> set (settlements d)" and "fs_status s \<in> {ST_DRAFT, ST_QUERIED}"
    and "fs_total_verified_expenditure s \<noteq>
      (\<Sum>e\<leftarrow>filter (\<lambda>e. ex_event_id e = fs_event_id s) (expenses d). settled_verified e)"
  shows "isl (submit_settlement q (fs_id s) d) \<and> isl (prepare_settlement q (fs_event_id s) d)"
proof -
  have row: "row fs_id (fs_id s) (settlements d) = Some s"
    using row_unique [OF db_ok_keys(11) [OF assms(1)] assms(2)] .
  have "submit_settlement q (fs_id s) d \<noteq> Inr r" for r
  proof
    assume "submit_settlement q (fs_id s) d = Inr r"
    then obtain ev u where ev: "stl_get_confirmed_event d (fs_event_id s) True = Inr ev"
      and live: "verify_live_source_consistency q d s ev = Inr u"
      by (auto simp: submit_settlement_def res_simps row)
    from live obtain g t where t: "compute_settlement_totals d ev g (Some s) = Inr t"
      and eq: "fs_total_verified_expenditure s = tt_verified t"
      by (rule live_consistent)
    from t have "tt_verified t = (\<Sum>e\<leftarrow>filter (\<lambda>e. ex_event_id e = ev_id ev) (expenses d). settled_verified e)"
      unfolding compute_settlement_totals_def Let_def
      by (auto simp only: res_simps sum.inject settlement_totals.simps)
    with eq assms(4) stl_get_confirmed_eventD [OF ev] show False by simp
  qed
  moreover have mine: "settlement_of d (fs_event_id s) = Some s"
  proof -
    have "distinct (map fs_event_id (settlements d))" using assms(1) by (simp add: db_ok_def settlements_ok_def)
    from row_unique [OF this assms(2)] show ?thesis by (simp add: settlement_of_def row_def)
  qed
  have "prepare_settlement q (fs_event_id s) d \<noteq> Inr r" for r
  proof
    assume "prepare_settlement q (fs_event_id s) d = Inr r"
    then obtain ev where "stl_get_confirmed_event d (fs_event_id s) True = Inr ev"
      "case settlement_of d (ev_id ev) of None \<Rightarrow> True | Some s \<Rightarrow> fs_status s = ST_REOPENED"
      unfolding prepare_settlement_def Let_def by (auto simp only: res_simps)
    with assms(3) mine show False by (auto dest!: stl_get_confirmed_eventD)
  qed
  ultimately show ?thesis by (metis sum.collapse(2))
qed

definition stale_campus :: db where
  "stale_campus = (run settlement_exec (take 1 settlement_run) audited_campus)
     \<lparr>expenses := audited_claims @ [claim_row 93 EX_VERIFIED (Some 50000)]\<rparr>"

lemma stale_draft_stuck_witness:
  "isl (submit_settlement (ctx the_secretary (days 34)) 100 stale_campus) \<and>
   isl (prepare_settlement (ctx the_secretary (days 34)) 25 stale_campus)"
proof -
  have ok: "db_ok stale_campus" by code_simp
  have "map (\<lambda>s. (fs_id s, fs_event_id s, fs_status s, fs_total_verified_expenditure s)) (settlements stale_campus) =
      [(100, 25, ST_DRAFT, 70000)]" by code_simp
  then obtain s where s: "settlements stale_campus = [s]" "fs_id s = 100" "fs_event_id s = 25"
    "fs_status s = ST_DRAFT" "fs_total_verified_expenditure s = 70000" by auto
  have "(\<Sum>e\<leftarrow>filter (\<lambda>e. ex_event_id e = 25) (expenses stale_campus). settled_verified e) = 120000" by code_simp
  with stale_draft_stuck [OF ok, of s "ctx the_secretary (days 34)"] s show ?thesis by simp
qed

text \<open>
  What the closure gate demands: an event is eligible exactly when it is completed, its report is
  certified, every claim and income entry has its verdict, no advance is pending, and its settlement is
  settled with the cash moved equal to the payout.
\<close>

theorem closure_gate:
  assumes "get_closure_eligibility q i d = Inr c"
  shows "\<exists>ev\<in>set (events d). ev_id ev = i \<and>
    (ce_eligible c \<longleftrightarrow>
       ev_status ev = EV_COMPLETED \<and>
       (\<exists>r. report_of d i = Some r \<and> rp_status r = RP_CERTIFIED) \<and>
       (\<forall>e\<in>set (expenses d). ex_event_id e = i \<longrightarrow> expense_final e) \<and>
       (\<forall>x\<in>set (incomes d). inc_event_id x = i \<longrightarrow> inc_status x \<noteq> IN_RECORDED) \<and>
       (\<forall>a. advance_of d i = Some a \<longrightarrow> ca_status a \<in> {CA_DISBURSED, CA_REJECTED}) \<and>
       (\<exists>s. settlement_of d i = Some s \<and> fs_status s = ST_SETTLED \<and>
          net_cash_transferred d s = fs_institutional_payout s))"
proof -
  from assms obtain ev where ev: "stl_get_confirmed_event d i False = Inr ev"
    and c: "ce_eligible c = (settlement_blockers d ev = [])"
    by (auto simp: get_closure_eligibility_def res_simps Let_def)
  have id: "ev \<in> set (events d)" "ev_id ev = i" using stl_get_confirmed_eventD [OF ev] by auto
  have f: "expense_unresolved e \<longleftrightarrow> \<not> expense_final e" for e
    by (cases "ex_status e") (simp_all add: expense_unresolved_def expense_final_def)
  have a: "ca_status x \<notin> {CA_REQUESTED, CA_APPROVED} \<longleftrightarrow> ca_status x \<in> {CA_DISBURSED, CA_REJECTED}" for x
    by (cases "ca_status x") simp_all
  show ?thesis
    by (rule bexI [OF _ id(1)])
      (use a in \<open>auto simp: c id(2) settlement_blockers_def f list_ex_iff split: option.split\<close>)
qed

lemma closure_gate_witness:
  "\<exists>c. get_closure_eligibility (ctx the_dean (days 50)) 25 (settled_campus) = Inr c \<and> ce_eligible c \<and>
     (\<exists>ev\<in>set (events settled_campus). ev_id ev = 25 \<and> ev_status ev = EV_COMPLETED)"
proof -
  let ?r = "get_closure_eligibility (ctx the_dean (days 50)) 25 settled_campus"
  have r: "?r = Inr (projr ?r)" by (rule Inr_projr) code_simp
  have "ce_eligible (projr ?r)" by code_simp
  with closure_gate [OF r] r show ?thesis by blast
qed

end
