(* ===== verification/Closeout.thy ===== *)
theory Closeout
  imports Settlement
begin

text \<open>
  Institutional closeout: \<^verbatim>\<open>CloseoutService\<close> of \<^verbatim>\<open>backend/app/services/closeout_service.py\<close>. The
  secretary of a completed event requests closure, the dean or the principal (or, by configuration, the
  club's advisor) certifies or rejects it; a closed event can be petitioned and reopened, which also
  reopens its settlement, and an administrator archives it.
\<close>

section \<open>Authority\<close>

definition co_get_event :: "db \<Rightarrow> uuid \<Rightarrow> event res" where
  "co_get_event d event_id =
     fetch (scalar (\<lambda>e. ev_id e = event_id \<or> ev_event_request_id e = event_id) (events d)) NotFoundError Inr"

definition verify_secretary_ownership :: "request \<Rightarrow> db \<Rightarrow> event \<Rightarrow> unit res" where
  "verify_secretary_ownership q d ev =
     (if actor_role q = SYSTEM_ADMIN then Inl ForbiddenError
      else fetch (secretary_membership d (ev_club_id ev) (actor_id q)) ResourceOwnershipError (\<lambda>_. Inr ()))"

definition advises_club :: "db \<Rightarrow> uuid \<Rightarrow> uuid \<Rightarrow> bool" where
  "advises_club d club_id user_id =
     (case club_by_id d club_id of None \<Rightarrow> False | Some c \<Rightarrow> cl_faculty_advisor_id c = Some user_id)"

definition verify_certifier_authority :: "request \<Rightarrow> db \<Rightarrow> event \<Rightarrow> unit res" where
  "verify_certifier_authority q d ev =
     (if actor_role q = SYSTEM_ADMIN then Inl ForbiddenError
      else if actor_role q = FACULTY_ADVISOR then
        require (ALLOW_ADVISOR_EVENT_CLOSEOUT q) ForbiddenError (
        require (advises_club d (ev_club_id ev) (actor_id q)) ForbiddenError (Inr ()))
      else require (actor_role q \<in> {DEAN_STUDENT_AFFAIRS, PRINCIPAL}) ForbiddenError (Inr ()))"

definition verify_reopen_petition_authority :: "request \<Rightarrow> db \<Rightarrow> event \<Rightarrow> unit res" where
  "verify_reopen_petition_authority q d ev =
     (if actor_role q = SYSTEM_ADMIN then Inl ForbiddenError
      else if actor_role q = FINANCE_OFFICER then Inr ()
      else if actor_role q = FACULTY_ADVISOR then
        require (advises_club d (ev_club_id ev) (actor_id q)) ForbiddenError (Inr ())
      else fetch (secretary_membership d (ev_club_id ev) (actor_id q)) ForbiddenError (\<lambda>_. Inr ()))"

section \<open>Eligibility\<close>

definition add_blocker :: "event \<Rightarrow> closure_blocker \<Rightarrow> closure_blocker list \<Rightarrow> closure_blocker list" where
  "add_blocker ev b bs =
     (if b = EVENT_NOT_COMPLETED \<and> ev_status ev \<in> {EV_CLOSURE_REQUESTED, EV_CLOSED, EV_ARCHIVED} then bs
      else if b \<in> set bs then bs else bs @ [b])"

definition own_blockers :: "event \<Rightarrow> closure_blocker list" where
  "own_blockers ev =
     (if ev_deleted_at ev \<noteq> None then [EVENT_DELETED] else []) @
     (if ev_cancelled_at ev \<noteq> None \<or> ev_status ev = EV_CANCELLED then [EVENT_CANCELLED] else [])"

definition venue_blockers :: "request \<Rightarrow> db \<Rightarrow> event \<Rightarrow> closure_blocker list" where
  "venue_blockers q d ev =
     (case active_booking_of d (ev_event_request_id ev) of
        None \<Rightarrow> []
      | Some b \<Rightarrow> if bk_end_time b \<le> now q then [] else [VENUE_BOOKING_NOT_ENDED])"

record closeout_eligibility =
  oe_eligible :: bool
  oe_blockers :: "closure_blocker list"
  oe_event_status :: event_status
  oe_settlement_status :: "settlement_status option"
  oe_report_status :: "post_event_report_status option"
  oe_has_booking :: bool
  oe_booking_ended :: bool
  oe_hall_id :: "uuid option"
  oe_event_id :: uuid
  oe_settlement_id :: "uuid option"
  oe_report_id :: "uuid option"

definition closeout_eligible :: "request \<Rightarrow> uuid \<Rightarrow> db \<Rightarrow> closeout_eligibility res" where
  "closeout_eligible q event_id d =
     and_then (co_get_event d event_id) (\<lambda>ev.
     and_then (get_closure_eligibility q (ev_id ev) d) (\<lambda>elig.
     let bs1 = fold (add_blocker ev) (ce_blockers elig) (own_blockers ev);
         blockers = bs1 @ venue_blockers q d ev;
         booking = active_booking_of d (ev_event_request_id ev);
         report = report_of d (ev_id ev);
         settlement = settlement_of d (ev_id ev)
     in Inr \<lparr>oe_eligible = (blockers = []), oe_blockers = blockers, oe_event_status = ev_status ev,
             oe_settlement_status = map_option fs_status settlement,
             oe_report_status = map_option rp_status report,
             oe_has_booking = (booking \<noteq> None),
             oe_booking_ended = (case booking of None \<Rightarrow> False | Some b \<Rightarrow> bk_end_time b \<le> now q),
             oe_hall_id = ev_hall_id ev, oe_event_id = ev_id ev,
             oe_settlement_id = map_option fs_id settlement, oe_report_id = map_option rp_id report\<rparr>))"

definition closure_of :: "db \<Rightarrow> uuid \<Rightarrow> event_closure option" where
  "closure_of d event_id = scalar (\<lambda>c. ec_event_id c = event_id) (closures d)"

definition latest_closure_request :: "db \<Rightarrow> event \<Rightarrow> audit_log option" where
  "latest_closure_request d ev =
     latest_by al_created_at
       (filter (\<lambda>l. al_entity_id l = Some (ev_id ev) \<and> al_action l = A_CLOSURE_REQUESTED) (audit_logs d))"

definition closure_revisions_of :: "db \<Rightarrow> uuid \<Rightarrow> event_closure_revision list" where
  "closure_revisions_of d event_id = filter (\<lambda>r. er_event_id r = event_id) (closure_revisions d)"

record closure_details =
  cd_event_id :: uuid
  cd_event_status :: event_status
  cd_is_archived :: bool
  cd_eligibility :: closeout_eligibility
  cd_closure :: "event_closure option"
  cd_revisions :: "event_closure_revision list"
  cd_latest_request :: "(uuid option \<times> time \<times> json) option"

definition get_closure_details :: "request \<Rightarrow> uuid \<Rightarrow> db \<Rightarrow> closure_details res" where
  "get_closure_details q event_id d =
     and_then (co_get_event d event_id) (\<lambda>ev.
     and_then (stl_verify_event_viewer q d ev) (\<lambda>_.
     and_then (closeout_eligible q (ev_id ev) d) (\<lambda>eligibility.
     Inr \<lparr>cd_event_id = ev_id ev, cd_event_status = ev_status ev,
          cd_is_archived = (ev_status ev = EV_ARCHIVED), cd_eligibility = eligibility,
          cd_closure = closure_of d (ev_id ev),
          cd_revisions = sort_key er_revision_number (closure_revisions_of d (ev_id ev)),
          cd_latest_request =
            map_option (\<lambda>l. (al_actor_id l, al_created_at l, j_get ''remarks'' (al_new_state l)))
              (latest_closure_request d ev)\<rparr>)))"

section \<open>Operations\<close>

definition set_event_status :: "event_status \<Rightarrow> event \<Rightarrow> db \<Rightarrow> db" where
  "set_event_status st ev d = d\<lparr>events := put ev_id (ev\<lparr>ev_status := st\<rparr>) (events d)\<rparr>"

definition event_status_json :: "event_status \<Rightarrow> json" where
  "event_status_json st = JObj [(''status'', JEnum (J_event_status st))]"

definition notify_secretaries :: "request \<Rightarrow> event \<Rightarrow> notification_type \<Rightarrow> db \<Rightarrow> db" where
  "notify_secretaries q ev n d =
     notify_all q (map cm_user_id (active_secretaries d (ev_club_id ev))) n (Some (ev_event_request_id ev)) d"

text \<open>The dean and the principal, and the club's advisor where closeout is delegated.\<close>

definition certifier_recipients :: "request \<Rightarrow> db \<Rightarrow> event \<Rightarrow> user list" where
  "certifier_recipients q d ev =
     (let certifiers = active_users_with_roles d [DEAN_STUDENT_AFFAIRS, PRINCIPAL] in
      if ALLOW_ADVISOR_EVENT_CLOSEOUT q then
        (case Option.bind (club_by_id d (ev_club_id ev)) cl_faculty_advisor_id of
           None \<Rightarrow> certifiers
         | Some i \<Rightarrow>
             (case scalar (\<lambda>u. us_id u = i \<and> us_is_active u) (users d) of
                None \<Rightarrow> certifiers
              | Some a \<Rightarrow> if us_id a \<in> us_id ` set certifiers then certifiers else certifiers @ [a]))
      else certifiers)"

definition closure_requested :: "request \<Rightarrow> event \<Rightarrow> string option \<Rightarrow> db \<Rightarrow> db" where
  "closure_requested q ev remarks d =
     (let d1 = set_event_status EV_CLOSURE_REQUESTED ev d;
          d2 = add_audit q A_CLOSURE_REQUESTED ''event'' (ev_id ev) (event_status_json (ev_status ev))
                 (JObj [(''status'', JEnum (J_event_status EV_CLOSURE_REQUESTED)),
                        (''remarks'', j_opt JText (strip_opt remarks))]) None d1
      in notify_all q (map us_id (certifier_recipients q d ev)) N_EVENT_CLOSURE_REQUESTED
           (Some (ev_event_request_id ev)) d2)"

definition request_closeout :: "request \<Rightarrow> uuid \<Rightarrow> string option \<Rightarrow> db \<Rightarrow> (event_status \<times> db) res" where
  "request_closeout q event_id remarks d =
     and_then (co_get_event d event_id) (\<lambda>ev.
     and_then (verify_secretary_ownership q d ev) (\<lambda>_.
     if ev_status ev = EV_CLOSURE_REQUESTED then Inr (EV_CLOSURE_REQUESTED, d)
     else
       require (ev_status ev = EV_COMPLETED) InvalidWorkflowTransitionError (
       and_then (closeout_eligible q (ev_id ev) d) (\<lambda>elig.
       require (oe_eligible elig) BusinessRuleError (
       commit IntegrityError EV_CLOSURE_REQUESTED (closure_requested q ev remarks d))))))"

definition manifest_payload ::
    "request \<Rightarrow> event \<Rightarrow> financial_settlement \<Rightarrow> post_event_report \<Rightarrow> json" where
  "manifest_payload q ev s r =
     JObj [(''certified_by'', JUuid (actor_id q)), (''club_id'', JUuid (ev_club_id ev)),
           (''event_id'', JUuid (ev_id ev)), (''event_request_id'', JUuid (ev_event_request_id ev)),
           (''institutional_payout'', JMoney (fs_institutional_payout s)),
           (''post_event_report_id'', JUuid (rp_id r)),
           (''sanctioned_grant'', JMoney (fs_sanctioned_grant s)),
           (''settlement_balance'', JMoney (fs_settlement_balance s)),
           (''settlement_id'', JUuid (fs_id s)),
           (''total_verified_expenditure'', JMoney (fs_total_verified_expenditure s)),
           (''total_verified_income'', JMoney (fs_total_verified_income s)),
           (''venue_cleared'', JBool True)]"

definition certified_closure ::
    "request \<Rightarrow> event \<Rightarrow> financial_settlement \<Rightarrow> post_event_report \<Rightarrow> string option \<Rightarrow> db \<Rightarrow>
       uuid \<Rightarrow> time \<Rightarrow> event_closure" where
  "certified_closure q ev s r closure_notes d i created =
     (let req = latest_closure_request d ev
      in \<lparr>ec_id = i, ec_event_id = ev_id ev, ec_settlement_id = fs_id s, ec_post_event_report_id = rp_id r,
          ec_requested_by = Option.bind req al_actor_id, ec_requested_at = map_option al_created_at req,
          ec_certified_by = actor_id q, ec_certified_at = now q,
          ec_closure_notes = strip_opt closure_notes, ec_venue_cleared = True,
          ec_certificate_manifest_hash = sha256_json q (manifest_payload q ev s r), ec_created_at = created\<rparr>)"

definition store_closure ::
    "request \<Rightarrow> event \<Rightarrow> financial_settlement \<Rightarrow> post_event_report \<Rightarrow> string option \<Rightarrow> db \<Rightarrow> event_closure \<times> db" where
  "store_closure q ev s r closure_notes d =
     (case closure_of d (ev_id ev) of
        None \<Rightarrow>
          let c = certified_closure q ev s r closure_notes d (next_uuid d) (now q)
          in (c, d\<lparr>closures := closures d @ [c], next_uuid := Suc (next_uuid d)\<rparr>)
      | Some c0 \<Rightarrow>
          let c = certified_closure q ev s r closure_notes d (ec_id c0) (ec_created_at c0)
          in (c, d\<lparr>closures := put ec_id c (closures d)\<rparr>))"

definition event_closed ::
    "request \<Rightarrow> event \<Rightarrow> financial_settlement \<Rightarrow> post_event_report \<Rightarrow> string option \<Rightarrow> db \<Rightarrow> db" where
  "event_closed q ev s r closure_notes d =
     (let (c, d1) = store_closure q ev s r closure_notes d;
          d2 = set_event_status EV_CLOSED ev d1;
          d3 = add_audit q A_EVENT_CLOSED ''event'' (ev_id ev) (event_status_json (ev_status ev))
                 (JObj [(''status'', JEnum (J_event_status EV_CLOSED)), (''closure_id'', JUuid (ec_id c)),
                        (''certificate_manifest_hash'', JText (ec_certificate_manifest_hash c)),
                        (''venue_cleared'', JBool True)]) None d2
      in notify_secretaries q ev N_EVENT_CLOSED d3)"

definition certify_closeout ::
    "request \<Rightarrow> uuid \<Rightarrow> string option \<Rightarrow> bool \<Rightarrow> db \<Rightarrow> (event_closure \<times> db) res" where
  "certify_closeout q event_id closure_notes venue_cleared d =
     and_then (co_get_event d event_id) (\<lambda>ev.
     and_then (verify_certifier_authority q d ev) (\<lambda>_.
     require venue_cleared BusinessRuleError (
     require (ev_status ev = EV_CLOSURE_REQUESTED) InvalidWorkflowTransitionError (
     and_then (closeout_eligible q (ev_id ev) d) (\<lambda>elig.
     require (oe_eligible elig) BusinessRuleError (
     fetch (settlement_of d (ev_id ev)) BusinessRuleError (\<lambda>s.
     require (fs_status s = ST_SETTLED) BusinessRuleError (
     fetch (report_of d (ev_id ev)) BusinessRuleError (\<lambda>r.
     require (rp_status r = RP_CERTIFIED) BusinessRuleError (
     commit IntegrityError (fst (store_closure q ev s r closure_notes d))
       (event_closed q ev s r closure_notes d)))))))))))"

definition closure_rejected :: "request \<Rightarrow> event \<Rightarrow> string \<Rightarrow> db \<Rightarrow> db" where
  "closure_rejected q ev reason d =
     (let d1 = set_event_status EV_COMPLETED ev d;
          d2 = add_audit q A_CLOSURE_REJECTED ''event'' (ev_id ev) (event_status_json (ev_status ev))
                 (JObj [(''status'', JEnum (J_event_status EV_COMPLETED)),
                        (''rejection_reason'', JText (strip reason))]) None d1
      in notify_secretaries q ev N_EVENT_CLOSURE_REJECTED d2)"

definition reject_closeout :: "request \<Rightarrow> uuid \<Rightarrow> string \<Rightarrow> db \<Rightarrow> (event \<times> db) res" where
  "reject_closeout q event_id reason d =
     require (\<not> blank (Some reason)) BadRequestError (
     and_then (co_get_event d event_id) (\<lambda>ev.
     and_then (verify_certifier_authority q d ev) (\<lambda>_.
     require (ev_status ev = EV_CLOSURE_REQUESTED) InvalidWorkflowTransitionError (
     commit IntegrityError (ev\<lparr>ev_status := EV_COMPLETED\<rparr>) (closure_rejected q ev reason d)))))"

definition reopen_petitioned :: "request \<Rightarrow> event \<Rightarrow> string \<Rightarrow> db \<Rightarrow> db" where
  "reopen_petitioned q ev reason d =
     (let d1 = add_audit q A_EVENT_REOPEN_REQUESTED ''event'' (ev_id ev) (event_status_json EV_CLOSED)
                 (JObj [(''status'', JEnum (J_event_status EV_CLOSED)),
                        (''petition_reason'', JText (strip reason))]) None d
      in notify_all q (map us_id (active_users_with_roles d [DEAN_STUDENT_AFFAIRS, PRINCIPAL]))
           N_EVENT_CLOSURE_REQUESTED (Some (ev_event_request_id ev)) d1)"

definition request_reopen :: "request \<Rightarrow> uuid \<Rightarrow> string \<Rightarrow> db \<Rightarrow> (event_status \<times> db) res" where
  "request_reopen q event_id reason d =
     require (\<not> blank (Some reason)) BadRequestError (
     and_then (co_get_event d event_id) (\<lambda>ev.
     and_then (verify_reopen_petition_authority q d ev) (\<lambda>_.
     require (ev_status ev = EV_CLOSED) InvalidWorkflowTransitionError (
     commit IntegrityError EV_CLOSED (reopen_petitioned q ev reason d)))))"

definition closure_snapshot ::
    "request \<Rightarrow> event \<Rightarrow> event_closure \<Rightarrow> financial_settlement \<Rightarrow> string \<Rightarrow> json" where
  "closure_snapshot q ev c s reason =
     JObj [(''closure_id'', JUuid (ec_id c)), (''event_id'', JUuid (ev_id ev)),
           (''certified_by'', JUuid (ec_certified_by c)), (''certified_at'', JTime (ec_certified_at c)),
           (''certificate_manifest_hash'', JText (ec_certificate_manifest_hash c)),
           (''closure_notes'', j_opt JText (ec_closure_notes c)),
           (''venue_cleared'', JBool (ec_venue_cleared c)),
           (''settlement_id'', JUuid (ec_settlement_id c)),
           (''post_event_report_id'', JUuid (ec_post_event_report_id c)),
           (''requested_by'', j_opt JUuid (ec_requested_by c)),
           (''requested_at'', j_opt JTime (ec_requested_at c)),
           (''settlement_snapshot'',
              JObj [(''status'', JEnum (J_settlement_status (fs_status s))),
                    (''sanctioned_grant'', JMoney (fs_sanctioned_grant s)),
                    (''total_verified_expenditure'', JMoney (fs_total_verified_expenditure s)),
                    (''total_verified_income'', JMoney (fs_total_verified_income s)),
                    (''institutional_payout'', JMoney (fs_institutional_payout s)),
                    (''settlement_balance'', JMoney (fs_settlement_balance s))]),
           (''reopened_by'', JUuid (actor_id q)), (''reopened_at'', JTime (now q)),
           (''reopening_reason'', JText (strip reason))]"

definition closure_revision ::
    "request \<Rightarrow> event \<Rightarrow> event_closure \<Rightarrow> financial_settlement \<Rightarrow> string \<Rightarrow> db \<Rightarrow> event_closure_revision" where
  "closure_revision q ev c s reason d =
     \<lparr>er_id = next_uuid d, er_event_id = ev_id ev, er_closure_id = ec_id c,
      er_revision_number = int (length (closure_revisions_of d (ev_id ev))) + 1,
      er_reopened_by = actor_id q, er_reopened_at = now q, er_reopening_reason = strip reason,
      er_snapshot_data = closure_snapshot q ev c s reason, er_created_at = now q\<rparr>"

text \<open>
  The event is set back before the settlement is reopened in the same transaction, so the guard of
  \<open>reopen_settlement\<close> sees a completed event.
\<close>

definition store_closure_revision :: "event \<Rightarrow> event_closure_revision \<Rightarrow> db \<Rightarrow> db" where
  "store_closure_revision ev r d =
     set_event_status EV_COMPLETED ev
       (d\<lparr>closure_revisions := closure_revisions d @ [r], next_uuid := Suc (next_uuid d)\<rparr>)"

definition event_reopened :: "request \<Rightarrow> event \<Rightarrow> event_closure_revision \<Rightarrow> string \<Rightarrow> db \<Rightarrow> db" where
  "event_reopened q ev r reason d =
     notify_secretaries q ev N_EVENT_REOPENED
       (add_audit q A_EVENT_REOPENED ''event'' (ev_id ev) (event_status_json (ev_status ev))
          (JObj [(''status'', JEnum (J_event_status EV_COMPLETED)),
                 (''revision_number'', JInt (er_revision_number r)),
                 (''reopened_by'', JUuid (actor_id q)), (''reopening_reason'', JText (strip reason))]) None d)"

definition approve_reopen :: "request \<Rightarrow> uuid \<Rightarrow> string \<Rightarrow> db \<Rightarrow> (event_closure_revision \<times> db) res" where
  "approve_reopen q event_id reason d =
     require (\<not> blank (Some reason)) BadRequestError (
     require (actor_role q \<noteq> SYSTEM_ADMIN) ForbiddenError (
     require (actor_role q \<in> {DEAN_STUDENT_AFFAIRS, PRINCIPAL}) ForbiddenError (
     and_then (co_get_event d event_id) (\<lambda>ev.
     require (ev_status ev = EV_CLOSED) InvalidWorkflowTransitionError (
     fetch (closure_of d (ev_id ev)) BusinessRuleError (\<lambda>c.
     fetch (row fs_id (ec_settlement_id c) (settlements d)) BusinessRuleError (\<lambda>s.
     let r = closure_revision q ev c s reason d in
     and_then (reopen_settlement q (fs_id s) (strip reason) (store_closure_revision ev r d)) (\<lambda>(_, d1).
     commit IntegrityError r (event_reopened q ev r reason d1)))))))))"

definition event_archived :: "request \<Rightarrow> event \<Rightarrow> db \<Rightarrow> db" where
  "event_archived q ev d =
     add_audit q A_EVENT_ARCHIVED ''event'' (ev_id ev) (event_status_json (ev_status ev))
       (event_status_json EV_ARCHIVED) None (set_event_status EV_ARCHIVED ev d)"

definition archive_event :: "request \<Rightarrow> uuid \<Rightarrow> db \<Rightarrow> (event \<times> db) res" where
  "archive_event q event_id d =
     require (actor_role q = SYSTEM_ADMIN) ForbiddenError (
     and_then (co_get_event d event_id) (\<lambda>ev.
     if ev_status ev = EV_ARCHIVED then Inr (ev, d)
     else
       require (ev_status ev = EV_CLOSED) InvalidWorkflowTransitionError (
       fetch (closure_of d (ev_id ev)) BusinessRuleError (\<lambda>_.
       commit IntegrityError (ev\<lparr>ev_status := EV_ARCHIVED\<rparr>) (event_archived q ev d)))))"

section \<open>Closeout as a service\<close>

datatype closeout_request =
    RequestCloseout uuid "string option"
  | CertifyCloseout uuid "string option" bool
  | RejectCloseout uuid string
  | RequestReopen uuid string
  | ApproveReopen uuid string
  | ArchiveEvent uuid

fun closeout_exec :: "request \<Rightarrow> closeout_request \<Rightarrow> db \<Rightarrow> db res" where
  "closeout_exec q (RequestCloseout ev r) d = db_of (request_closeout q ev r d)"
| "closeout_exec q (CertifyCloseout ev n v) d = db_of (certify_closeout q ev n v d)"
| "closeout_exec q (RejectCloseout ev r) d = db_of (reject_closeout q ev r d)"
| "closeout_exec q (RequestReopen ev r) d = db_of (request_reopen q ev r d)"
| "closeout_exec q (ApproveReopen ev r) d = db_of (approve_reopen q ev r d)"
| "closeout_exec q (ArchiveEvent ev) d = db_of (archive_event q ev d)"

text \<open>What each effect changes.\<close>

definition only_events :: "request \<Rightarrow> event_status \<Rightarrow> event \<Rightarrow> db \<Rightarrow> db \<Rightarrow> bool" where
  "only_events q st ev d d' \<longleftrightarrow>
     events d' = put ev_id (ev\<lparr>ev_status := st\<rparr>) (events d) \<and>
     expenses d' = expenses d \<and> incomes d' = incomes d \<and> advances d' = advances d \<and>
     reports d' = reports d \<and> payments d' = payments d \<and> hall_bookings d' = hall_bookings d \<and>
     signed q d d'"

lemma closure_requested_frame:
  "only_events q EV_CLOSURE_REQUESTED ev d (closure_requested q ev r d)"
  "closures (closure_requested q ev r d) = closures d"
  "settlements (closure_requested q ev r d) = settlements d"
  "closure_revisions (closure_requested q ev r d) = closure_revisions d"
  by (simp_all add: closure_requested_def only_events_def set_event_status_def Let_def)

lemma closure_rejected_frame:
  "only_events q EV_COMPLETED ev d (closure_rejected q ev r d)"
  "closures (closure_rejected q ev r d) = closures d"
  "settlements (closure_rejected q ev r d) = settlements d"
  "closure_revisions (closure_rejected q ev r d) = closure_revisions d"
  by (simp_all add: closure_rejected_def only_events_def set_event_status_def Let_def notify_secretaries_def)

lemma event_closed_frame:
  "only_events q EV_CLOSED ev d (event_closed q ev s r n d)"
  "closures (event_closed q ev s r n d) = closures (snd (store_closure q ev s r n d))"
  "settlements (event_closed q ev s r n d) = settlements d"
  "closure_revisions (event_closed q ev s r n d) = closure_revisions d"
  by (auto simp: event_closed_def only_events_def set_event_status_def Let_def notify_secretaries_def
      store_closure_def split: option.split)

lemma reopen_petitioned_frame:
  "events (reopen_petitioned q ev r d) = events d"
  "expenses (reopen_petitioned q ev r d) = expenses d"
  "incomes (reopen_petitioned q ev r d) = incomes d"
  "advances (reopen_petitioned q ev r d) = advances d"
  "reports (reopen_petitioned q ev r d) = reports d"
  "payments (reopen_petitioned q ev r d) = payments d"
  "closures (reopen_petitioned q ev r d) = closures d"
  "settlements (reopen_petitioned q ev r d) = settlements d"
  "closure_revisions (reopen_petitioned q ev r d) = closure_revisions d"
  "signed q d (reopen_petitioned q ev r d)"
  by (simp_all add: reopen_petitioned_def Let_def)

lemma event_archived_frame:
  "only_events q EV_ARCHIVED ev d (event_archived q ev d)"
  "closures (event_archived q ev d) = closures d"
  "settlements (event_archived q ev d) = settlements d"
  "closure_revisions (event_archived q ev d) = closure_revisions d"
  by (simp_all add: event_archived_def only_events_def set_event_status_def)

text \<open>The certifying authority.\<close>

definition certifier :: "request \<Rightarrow> db \<Rightarrow> event \<Rightarrow> bool" where
  "certifier q d ev \<longleftrightarrow>
     actor_role q \<in> {DEAN_STUDENT_AFFAIRS, PRINCIPAL} \<or>
     actor_role q = FACULTY_ADVISOR \<and> ALLOW_ADVISOR_EVENT_CLOSEOUT q \<and>
       advises_club d (ev_club_id ev) (actor_id q)"

lemma verify_certifier_authority_Inr [res_simps]:
  "verify_certifier_authority q d ev = Inr u \<longleftrightarrow> certifier q d ev"
  by (auto simp: verify_certifier_authority_def certifier_def require_Inr)

lemma co_get_eventD: "co_get_event d i = Inr ev \<Longrightarrow> ev \<in> set (events d)"
  by (auto simp: co_get_event_def res_simps dest: scalar_Some)

text \<open>What a served request has done.\<close>

inductive closeout_effect :: "request \<Rightarrow> db \<Rightarrow> db \<Rightarrow> bool" for q d where
  nothing: "closeout_effect q d d"
| requested: "ev \<in> set (events d) \<Longrightarrow> ev_status ev = EV_COMPLETED \<Longrightarrow>
     secretary_membership d (ev_club_id ev) (actor_id q) \<noteq> None \<Longrightarrow>
     closeout_eligible q (ev_id ev) d = Inr elig \<Longrightarrow> oe_eligible elig \<Longrightarrow>
     closeout_effect q d (closure_requested q ev r d)"
| certified: "ev \<in> set (events d) \<Longrightarrow> ev_status ev = EV_CLOSURE_REQUESTED \<Longrightarrow> certifier q d ev \<Longrightarrow>
     closeout_eligible q (ev_id ev) d = Inr elig \<Longrightarrow> oe_eligible elig \<Longrightarrow>
     settlement_of d (ev_id ev) = Some s \<Longrightarrow> fs_status s = ST_SETTLED \<Longrightarrow>
     report_of d (ev_id ev) = Some r \<Longrightarrow> rp_status r = RP_CERTIFIED \<Longrightarrow>
     closeout_effect q d (event_closed q ev s r n d)"
| rejected: "ev \<in> set (events d) \<Longrightarrow> ev_status ev = EV_CLOSURE_REQUESTED \<Longrightarrow> certifier q d ev \<Longrightarrow>
     closeout_effect q d (closure_rejected q ev m d)"
| petitioned: "closeout_effect q d (reopen_petitioned q ev m d)"
| reopened: "actor_role q \<in> {DEAN_STUDENT_AFFAIRS, PRINCIPAL} \<Longrightarrow> ev \<in> set (events d) \<Longrightarrow>
     ev_status ev = EV_CLOSED \<Longrightarrow> closure_of d (ev_id ev) = Some c \<Longrightarrow>
     row fs_id (ec_settlement_id c) (settlements d) = Some s \<Longrightarrow>
     cr = closure_revision q ev c s m d \<Longrightarrow>
     reopen_settlement q (fs_id s) (strip m) (store_closure_revision ev cr d) = Inr (x, d1) \<Longrightarrow>
     closeout_effect q d (event_reopened q ev cr m d1)"
| archived: "actor_role q = SYSTEM_ADMIN \<Longrightarrow> ev \<in> set (events d) \<Longrightarrow> ev_status ev = EV_CLOSED \<Longrightarrow>
     closeout_effect q d (event_archived q ev d)"

lemma verify_secretary_ownershipD:
  "verify_secretary_ownership q d ev = Inr u \<Longrightarrow> secretary_membership d (ev_club_id ev) (actor_id q) \<noteq> None"
  by (auto simp: verify_secretary_ownership_def res_simps split: if_splits)

lemma request_closeout_effect:
  "request_closeout q i r d = Inr (st, d') \<Longrightarrow> closeout_effect q d d' \<and> (db_ok d \<longrightarrow> db_ok d')"
  unfolding request_closeout_def
  by (auto simp: res_simps intro: requested intro!: closeout_effect.nothing dest: co_get_eventD verify_secretary_ownershipD split: if_splits)

lemma certify_closeout_effect:
  "certify_closeout q i n v d = Inr (c, d') \<Longrightarrow> closeout_effect q d d' \<and> db_ok d'"
  unfolding certify_closeout_def
  by (auto simp: res_simps intro: certified dest: co_get_eventD)

lemma reject_closeout_effect:
  "reject_closeout q i r d = Inr (e, d') \<Longrightarrow> closeout_effect q d d' \<and> db_ok d'"
  unfolding reject_closeout_def
  by (auto simp: res_simps intro: rejected dest: co_get_eventD)

lemma request_reopen_effect:
  "request_reopen q i r d = Inr (e, d') \<Longrightarrow> closeout_effect q d d' \<and> db_ok d'"
  unfolding request_reopen_def
  by (auto simp: res_simps intro: petitioned)

lemma approve_reopen_effect:
  "approve_reopen q i r d = Inr (e, d') \<Longrightarrow> closeout_effect q d d' \<and> db_ok d'"
  unfolding approve_reopen_def Let_def
  by (auto simp only: res_simps case_prod_unfold prod.inject fst_conv snd_conv intro!: reopened co_get_eventD)

lemma archive_event_effect:
  "archive_event q i d = Inr (e, d') \<Longrightarrow> closeout_effect q d d' \<and> (db_ok d \<longrightarrow> db_ok d')"
  unfolding archive_event_def
  by (auto simp: res_simps intro: archived intro!: closeout_effect.nothing dest: co_get_eventD split: if_splits)

lemma closeout_exec_effect:
  "closeout_exec q r d = Inr d' \<Longrightarrow> closeout_effect q d d' \<and> (db_ok d \<longrightarrow> db_ok d')"
  by (cases r) (auto simp only: closeout_exec.simps db_of_Inr
      dest: request_closeout_effect certify_closeout_effect reject_closeout_effect
        request_reopen_effect approve_reopen_effect archive_event_effect)


lemma store_closure_revision_frame [simp]:
  "events (store_closure_revision ev r d) = put ev_id (ev\<lparr>ev_status := EV_COMPLETED\<rparr>) (events d)"
  "closure_revisions (store_closure_revision ev r d) = closure_revisions d @ [r]"
  "settlements (store_closure_revision ev r d) = settlements d"
  "settlement_revisions (store_closure_revision ev r d) = settlement_revisions d"
  "closures (store_closure_revision ev r d) = closures d"
  "expenses (store_closure_revision ev r d) = expenses d"
  "incomes (store_closure_revision ev r d) = incomes d"
  "advances (store_closure_revision ev r d) = advances d"
  "reports (store_closure_revision ev r d) = reports d"
  "payments (store_closure_revision ev r d) = payments d"
  "audit_logs (store_closure_revision ev r d) = audit_logs d"
  by (simp_all add: store_closure_revision_def set_event_status_def)

lemma event_reopened_frame [simp]:
  "events (event_reopened q ev r m d) = events d"
  "closure_revisions (event_reopened q ev r m d) = closure_revisions d"
  "settlements (event_reopened q ev r m d) = settlements d"
  "settlement_revisions (event_reopened q ev r m d) = settlement_revisions d"
  "closures (event_reopened q ev r m d) = closures d"
  "expenses (event_reopened q ev r m d) = expenses d"
  "incomes (event_reopened q ev r m d) = incomes d"
  "advances (event_reopened q ev r m d) = advances d"
  "reports (event_reopened q ev r m d) = reports d"
  "payments (event_reopened q ev r m d) = payments d"
  "signed q d (event_reopened q ev r m d)"
  by (simp_all add: event_reopened_def notify_secretaries_def)

lemma reopen_settlement_frame:
  assumes "reopen_settlement q i m d = Inr (x, d')"
  shows "events d' = events d" "closure_revisions d' = closure_revisions d" "closures d' = closures d"
    "expenses d' = expenses d" "incomes d' = incomes d" "advances d' = advances d"
    "reports d' = reports d" "payments d' = payments d"
    "settlement_revisions d' = settlement_revisions d @ [x]" "signed q d d'"
    "\<exists>s. row fs_id i (settlements d) = Some s \<and> fs_status s = ST_SETTLED \<and>
       settlements d' = put fs_id (s\<lparr>fs_status := ST_REOPENED\<rparr>) (settlements d) \<and>
       sr_snapshot_data x = settlement_snapshot d s \<and> sr_settlement_id x = fs_id s"
  using assms unfolding reopen_settlement_def Let_def by (auto simp: res_simps)

text \<open>The statuses of an event on its way out.\<close>

inductive closeout_step :: "request \<Rightarrow> event \<Rightarrow> event \<Rightarrow> bool" for q where
  request: "ev_status e = EV_COMPLETED \<Longrightarrow> closeout_step q e (e\<lparr>ev_status := EV_CLOSURE_REQUESTED\<rparr>)"
| certify: "actor_role q \<in> {DEAN_STUDENT_AFFAIRS, PRINCIPAL, FACULTY_ADVISOR} \<Longrightarrow>
     ev_status e = EV_CLOSURE_REQUESTED \<Longrightarrow> closeout_step q e (e\<lparr>ev_status := EV_CLOSED\<rparr>)"
| reject: "actor_role q \<in> {DEAN_STUDENT_AFFAIRS, PRINCIPAL, FACULTY_ADVISOR} \<Longrightarrow>
     ev_status e = EV_CLOSURE_REQUESTED \<Longrightarrow> closeout_step q e (e\<lparr>ev_status := EV_COMPLETED\<rparr>)"
| reopen: "actor_role q \<in> {DEAN_STUDENT_AFFAIRS, PRINCIPAL} \<Longrightarrow>
     ev_status e = EV_CLOSED \<Longrightarrow> closeout_step q e (e\<lparr>ev_status := EV_COMPLETED\<rparr>)"
| archive: "actor_role q = SYSTEM_ADMIN \<Longrightarrow> ev_status e = EV_CLOSED \<Longrightarrow>
     closeout_step q e (e\<lparr>ev_status := EV_ARCHIVED\<rparr>)"

inductive_cases closeout_stepE: "closeout_step q e e'"

lemma certifier_role: "certifier q d ev \<Longrightarrow> actor_role q \<in> {DEAN_STUDENT_AFFAIRS, PRINCIPAL, FACULTY_ADVISOR}"
  by (auto simp: certifier_def)

lemma only_events_evolves:
  "only_events q st ev d d' \<Longrightarrow> ev \<in> set (events d) \<Longrightarrow> closeout_step q ev (ev\<lparr>ev_status := st\<rparr>) \<Longrightarrow>
     evolves ev_id (\<lambda>_. False) (closeout_step q) (events d) (events d')"
  by (auto simp: only_events_def intro!: evolves_put)

lemma closeout_effect_evolves:
  "closeout_effect q d d' \<Longrightarrow> evolves ev_id (\<lambda>_. False) (closeout_step q) (events d) (events d')"
proof (induction rule: closeout_effect.induct)
  case nothing
  show ?case by simp
next
  case (requested ev elig r)
  then show ?case by (intro only_events_evolves [OF closure_requested_frame(1)] request)
next
  case (certified ev elig s r n)
  then show ?case by (intro only_events_evolves [OF event_closed_frame(1)] certify certifier_role)
next
  case (rejected ev m)
  then show ?case by (intro only_events_evolves [OF closure_rejected_frame(1)] reject certifier_role)
next
  case (petitioned ev m)
  show ?case by (simp add: reopen_petitioned_frame)
next
  case (reopened ev c s cr m x d1)
  have "events d1 = put ev_id (ev\<lparr>ev_status := EV_COMPLETED\<rparr>) (events d)"
    using reopen_settlement_frame(1) [OF reopened(7)] by simp
  moreover have "closeout_step q ev (ev\<lparr>ev_status := EV_COMPLETED\<rparr>)" using reopened(1,3) by (rule reopen)
  ultimately show ?case using reopened(2) by (simp add: evolves_put)
next
  case (archived ev)
  then show ?case by (intro only_events_evolves [OF event_archived_frame(1)] archive)
qed

lemma closeout_effect_audit: "closeout_effect q d d' \<Longrightarrow> signed q d d'"
proof (induction rule: closeout_effect.induct)
  case (reopened ev c s cr m x d1)
  show ?case using signed_trans [OF reopen_settlement_frame(10) [OF reopened(7)] event_reopened_frame(11)] by simp
qed (use closure_requested_frame(1) event_closed_frame(1) closure_rejected_frame(1) reopen_petitioned_frame(10)
      event_archived_frame(1) in \<open>auto simp: only_events_def\<close>)

interpretation closeout_service: audited_service closeout_exec
  by unfold_locales (auto dest: closeout_exec_effect closeout_effect_audit)

interpretation closeout_machine:
  row_machine closeout_exec events ev_id "\<lambda>_ _. False" closeout_step
  by unfold_locales (auto dest: closeout_exec_effect closeout_effect_evolves)

lemma closeout_effect_revisions: "closeout_effect q d d' \<Longrightarrow> \<exists>rs. closure_revisions d' = closure_revisions d @ rs"
  by (induction rule: closeout_effect.induct)
    (auto simp: closure_requested_frame event_closed_frame closure_rejected_frame reopen_petitioned_frame
      event_archived_frame reopen_settlement_frame(2))

interpretation closure_history: immutable_rows closeout_exec closure_revisions
  by unfold_locales (auto dest: closeout_exec_effect closeout_effect_revisions)

definition closure_revisions_numbered :: "db \<Rightarrow> bool" where
  "closure_revisions_numbered d \<longleftrightarrow>
     (\<forall>i. map er_revision_number (closure_revisions_of d i) = map int [1..<Suc (length (closure_revisions_of d i))])"

lemma closure_revisions_of_cong:
  "closure_revisions d' = closure_revisions d \<Longrightarrow> closure_revisions_numbered d' = closure_revisions_numbered d"
  by (simp add: closure_revisions_numbered_def closure_revisions_of_def)

lemma closure_revisions_effect:
  assumes "closeout_effect q d d'" and num: "closure_revisions_numbered d"
  shows "closure_revisions_numbered d'"
proof -
  have same: "closure_revisions d' = closure_revisions d \<Longrightarrow> closure_revisions_numbered d'"
    using num closure_revisions_of_cong [of d' d] by blast
  show ?thesis using assms(1)
proof cases
  case (reopened ev c s cr m x d1)
  have "closure_revisions d' = closure_revisions d @ [cr]"
    using reopen_settlement_frame(2) [OF reopened(8)] reopened(1) by simp
  then have "closure_revisions_of d' i =
      closure_revisions_of d i @ (if ev_id ev = i then [cr] else [])" for i
    by (auto simp: closure_revisions_of_def reopened(7) closure_revision_def)
  with num show ?thesis
    by (auto simp: closure_revisions_numbered_def reopened(7) closure_revision_def)
qed (use num same in \<open>simp_all add: closure_requested_frame event_closed_frame closure_rejected_frame
      reopen_petitioned_frame event_archived_frame\<close>)
qed

interpretation closure_numbers: state_invariant closeout_exec closure_revisions_numbered
  by unfold_locales (auto dest: closeout_exec_effect closure_revisions_effect)

text \<open>Archived events.\<close>

lemma only_events_keeps:
  assumes "only_events q st ev d d'" and "ev \<in> set (events d)" and "db_ok d" and "x \<in> set (events d)"
    and "ev_status x = EV_ARCHIVED" and "ev_status ev \<noteq> EV_ARCHIVED"
  shows "x \<in> set (events d')"
  using assms final_put [where P = "\<lambda>e. ev_status e = EV_ARCHIVED", OF db_ok_keys(6) [OF assms(3)] assms(4,2)]
  by (simp add: only_events_def)

lemma closeout_effect_archived:
  assumes "closeout_effect q d d'" and ok: "db_ok d" and x: "x \<in> set (events d)" "ev_status x = EV_ARCHIVED"
  shows "x \<in> set (events d')"
  using assms(1)
proof cases
  case nothing
  with x show ?thesis by simp
next
  case (requested ev elig r)
  then show ?thesis using only_events_keeps [OF closure_requested_frame(1) _ ok x] by simp
next
  case (certified ev elig s r n)
  then show ?thesis using only_events_keeps [OF event_closed_frame(1) _ ok x] by simp
next
  case (rejected ev m)
  then show ?thesis using only_events_keeps [OF closure_rejected_frame(1) _ ok x] by simp
next
  case (petitioned ev m)
  with x show ?thesis by (simp add: reopen_petitioned_frame)
next
  case (reopened ev c s cr m y d1)
  have "events d' = put ev_id (ev\<lparr>ev_status := EV_COMPLETED\<rparr>) (events d)"
    using reopen_settlement_frame(1) [OF reopened(8)] reopened(1) by simp
  then show ?thesis
    using final_put [where P = "\<lambda>e. ev_status e = EV_ARCHIVED", OF db_ok_keys(6) [OF ok] x(1) reopened(3)]
      x(2) reopened(4) by simp
next
  case (archived ev)
  then show ?thesis using only_events_keeps [OF event_archived_frame(1) _ ok x] by simp
qed

interpretation archived_events: final_rows closeout_exec events "\<lambda>e. ev_status e = EV_ARCHIVED"
  by unfold_locales (auto dest: closeout_exec_effect closeout_effect_archived)

section \<open>The closing of an event\<close>

text \<open>
  What a closed event's books look like: the report certified, every claim and income entry with its
  verdict, no advance pending, the settlement settled and even.
\<close>

definition books_final :: "db \<Rightarrow> uuid \<Rightarrow> bool" where
  "books_final d i \<longleftrightarrow>
     (\<exists>r. report_of d i = Some r \<and> rp_status r = RP_CERTIFIED) \<and>
     (\<forall>e\<in>set (expenses d). ex_event_id e = i \<longrightarrow> expense_final e) \<and>
     (\<forall>x\<in>set (incomes d). inc_event_id x = i \<longrightarrow> inc_status x \<noteq> IN_RECORDED) \<and>
     (\<forall>a. advance_of d i = Some a \<longrightarrow> ca_status a \<in> {CA_DISBURSED, CA_REJECTED}) \<and>
     (\<exists>s. settlement_of d i = Some s \<and> fs_status s = ST_SETTLED \<and>
        net_cash_transferred d s = fs_institutional_payout s)"

text \<open>
  The methods look an event up by its own id or by its proposal's; both are random UUIDs, so no event's id
  is the id of a proposal.
\<close>

definition event_ids_apart :: "db \<Rightarrow> bool" where
  "event_ids_apart d \<longleftrightarrow> (\<forall>x\<in>set (events d). \<forall>y\<in>set (events d). ev_event_request_id x \<noteq> ev_id y)"

lemma co_get_event_id:
  assumes "db_ok d" and "event_ids_apart d" and "ev \<in> set (events d)" and "co_get_event d (ev_id ev) = Inr x"
  shows "x = ev"
proof -
  have x: "x \<in> set (events d)" "ev_id x = ev_id ev \<or> ev_event_request_id x = ev_id ev"
    using assms(4) by (auto simp: co_get_event_def res_simps dest: scalar_Some)
  with assms(2,3) have "ev_id x = ev_id ev" by (auto simp: event_ids_apart_def)
  with db_ok_keys(6) [OF assms(1)] x(1) assms(3) show ?thesis by (auto simp: distinct_map inj_on_def)
qed

lemma set_add_blocker:
  "set (add_blocker ev b bs) =
     set bs \<union> (if b = EVENT_NOT_COMPLETED \<and> ev_status ev \<in> {EV_CLOSURE_REQUESTED, EV_CLOSED, EV_ARCHIVED}
                then {} else {b})"
  by (auto simp: add_blocker_def)

lemma fold_add_blocker_Nil:
  "fold (add_blocker ev) bs acc = [] \<Longrightarrow> acc = [] \<and> (\<forall>b\<in>set bs. b = EVENT_NOT_COMPLETED)"
proof (induction bs arbitrary: acc)
  case Nil
  then show ?case by simp
next
  case (Cons b bs)
  then have n: "add_blocker ev b acc = []" "\<forall>b\<in>set bs. b = EVENT_NOT_COMPLETED" by auto
  from n(1) have "set (add_blocker ev b acc) = {}" by simp
  then have "acc = [] \<and> b = EVENT_NOT_COMPLETED" by (auto simp: set_add_blocker split: if_splits)
  with n show ?case by simp
qed

lemma settlement_blockers_final:
  assumes "\<forall>b\<in>set (settlement_blockers d ev). b = EVENT_NOT_COMPLETED"
  shows "books_final d (ev_id ev)"
proof -
  have f: "expense_unresolved e \<longleftrightarrow> \<not> expense_final e" for e
    by (cases "ex_status e") (simp_all add: expense_unresolved_def expense_final_def)
  have a: "ca_status x = CA_DISBURSED"
    if "ca_status x \<noteq> CA_REQUESTED" "ca_status x \<noteq> CA_APPROVED" "ca_status x \<noteq> CA_REJECTED" for x
    using that by (cases "ca_status x") simp_all
  show ?thesis
    using assms unfolding books_final_def settlement_blockers_def
    by (auto simp: f list_ex_iff ball_Un intro: a split: option.splits if_splits)
qed

lemma eligible_books:
  assumes "closeout_eligible q (ev_id ev) d = Inr elig" and "oe_eligible elig"
    and "db_ok d" and "event_ids_apart d" and "ev \<in> set (events d)"
  shows "books_final d (ev_id ev)" "ev_cancelled_at ev = None" "ev_deleted_at ev = None"
    "\<forall>b. active_booking_of d (ev_event_request_id ev) = Some b \<longrightarrow> bk_end_time b \<le> now q"
proof -
  obtain x c where x: "co_get_event d (ev_id ev) = Inr x" and c: "get_closure_eligibility q (ev_id x) d = Inr c"
    and none: "fold (add_blocker x) (ce_blockers c) (own_blockers x) @ venue_blockers q d x = []"
    using assms(1,2) by (auto simp: closeout_eligible_def res_simps Let_def)
  have xe: "x = ev" using co_get_event_id [OF assms(3-5) x] .
  have "get_closure_eligibility q (ev_id ev) d = Inr c" using c xe by simp
  then obtain y where y: "y \<in> set (events d)" "ev_id y = ev_id ev" "ce_blockers c = settlement_blockers d y"
    by (auto simp: get_closure_eligibility_def res_simps Let_def dest: stl_get_confirmed_eventD)
  have ye: "y = ev"
    using db_ok_keys(6) [OF assms(3)] y(1,2) assms(5) by (auto simp: distinct_map inj_on_def)
  have n: "own_blockers ev = []" "\<forall>b\<in>set (settlement_blockers d ev). b = EVENT_NOT_COMPLETED"
    using fold_add_blocker_Nil [of x "ce_blockers c" "own_blockers x"] none xe y(3) ye by auto
  show "books_final d (ev_id ev)" using n(2) by (rule settlement_blockers_final)
  show "ev_cancelled_at ev = None" "ev_deleted_at ev = None"
    using n(1) by (auto simp: own_blockers_def split: if_splits)
  show "\<forall>b. active_booking_of d (ev_event_request_id ev) = Some b \<longrightarrow> bk_end_time b \<le> now q"
    using none xe by (auto simp: venue_blockers_def split: if_splits)
qed


text \<open>Which requests can close an event.\<close>

lemma books_final_cong:
  "expenses d' = expenses d \<Longrightarrow> incomes d' = incomes d \<Longrightarrow> advances d' = advances d \<Longrightarrow>
   reports d' = reports d \<Longrightarrow> payments d' = payments d \<Longrightarrow> settlements d' = settlements d \<Longrightarrow>
     books_final d' i = books_final d i"
  by (simp add: books_final_def report_of_def advance_of_def settlement_of_def net_cash_transferred_def payments_of_def)

lemma event_closed_closure:
  "\<exists>c\<in>set (closures (event_closed q ev s r n d)).
     ec_event_id c = ev_id ev \<and> ec_certified_by c = actor_id q \<and> ec_certified_at c = now q \<and>
     ec_settlement_id c = fs_id s \<and> ec_post_event_report_id c = rp_id r \<and>
     ec_certificate_manifest_hash c = sha256_json q (manifest_payload q ev s r)"
proof (cases "closure_of d (ev_id ev)")
  case None
  then show ?thesis
    by (simp add: event_closed_frame(2) store_closure_def certified_closure_def Let_def)
next
  case (Some c0)
  then have "c0 \<in> set (closures d)" by (auto simp: closure_of_def dest: scalar_Some)
  then have "certified_closure q ev s r n d (ec_id c0) (ec_created_at c0) \<in> set (closures (event_closed q ev s r n d))"
    using Some by (auto simp: event_closed_frame(2) store_closure_def Let_def in_put certified_closure_def)
  then show ?thesis by (rule bexI [rotated]) (simp add: certified_closure_def Let_def)
qed

definition booking_over :: "request \<Rightarrow> db \<Rightarrow> event \<Rightarrow> bool" where
  "booking_over q d ev \<longleftrightarrow>
     (\<forall>b. active_booking_of d (ev_event_request_id ev) = Some b \<longrightarrow> bk_end_time b \<le> now q)"

text \<open>
  C2. An event is closed only by the gate: if a closeout request leaves an event closed that was not closed
  before, then its sender is the dean, the principal or (where the deployment delegates it) the advisor of the
  event's own club; the books of the event are final, it was not cancelled, its hall booking is over; and a
  closure record names the certifier, the settlement and the report it was certified on, with the digest of
  their figures.
\<close>

theorem closed_only_by_the_gate:
  assumes ok: "db_ok d" and apart: "event_ids_apart d" and ex: "closeout_exec q r d = Inr d'"
    and e: "e \<in> set (events d')" "ev_status e = EV_CLOSED"
    and was: "\<forall>x\<in>set (events d). ev_id x = ev_id e \<longrightarrow> ev_status x \<noteq> EV_CLOSED"
  shows "certifier q d e \<and> books_final d' (ev_id e) \<and> ev_cancelled_at e = None \<and> booking_over q d e \<and>
    (\<exists>c\<in>set (closures d'). \<exists>s rp. settlement_of d (ev_id e) = Some s \<and> report_of d (ev_id e) = Some rp \<and>
       ec_event_id c = ev_id e \<and> ec_certified_by c = actor_id q \<and> ec_settlement_id c = fs_id s \<and>
       ec_post_event_report_id c = rp_id rp \<and>
       ec_certificate_manifest_hash c = sha256_json q (manifest_payload q e s rp))"
proof -
  have eff: "closeout_effect q d d'" using closeout_exec_effect [OF ex] by blast
  have old: "x \<in> set (events d) \<Longrightarrow> ev_id x = ev_id e \<Longrightarrow> ev_status x \<noteq> EV_CLOSED" for x using was by blast
  have upd: False if "only_events q st ev d d'" "st \<noteq> EV_CLOSED" for st ev
    using that e old put_rows [of e ev_id "ev\<lparr>ev_status := st\<rparr>" "events d"] by (auto simp: only_events_def)
  from eff show ?thesis
  proof cases
    case (certified ev elig s rp n)
    have oe: "only_events q EV_CLOSED ev d d'" using event_closed_frame(1) certified(1) by simp
    have ee: "e = ev\<lparr>ev_status := EV_CLOSED\<rparr>"
      using oe e(1,2) old put_rows [of e ev_id "ev\<lparr>ev_status := EV_CLOSED\<rparr>" "events d"]
      by (auto simp: only_events_def)
    note b = eligible_books [OF certified(5,6) ok apart certified(2)]
    have "books_final d' (ev_id ev)"
      using b(1) books_final_cong [of d' d] oe event_closed_frame(3) certified(1) by (auto simp: only_events_def)
    moreover have "certifier q d e" using certified(4) by (simp add: ee certifier_def)
    moreover have "manifest_payload q e s rp = manifest_payload q ev s rp" by (simp add: ee manifest_payload_def)
    ultimately show ?thesis
      using b event_closed_closure [of q ev s rp n d] certified(1,7,9) by (auto simp: ee booking_over_def)
  next
    case (reopened ev c s cr m x d1)
    have "events d' = put ev_id (ev\<lparr>ev_status := EV_COMPLETED\<rparr>) (events d)"
      using reopen_settlement_frame(1) [OF reopened(8)] reopened(1) by simp
    with e old put_rows [of e ev_id "ev\<lparr>ev_status := EV_COMPLETED\<rparr>" "events d"] show ?thesis by auto
  next
    case nothing
    with e old show ?thesis by blast
  next
    case (requested ev elig m)
    then have "only_events q EV_CLOSURE_REQUESTED ev d d'" using closure_requested_frame(1) by simp
    then show ?thesis using upd by blast
  next
    case (rejected ev m)
    then have "only_events q EV_COMPLETED ev d d'" using closure_rejected_frame(1) by simp
    then show ?thesis using upd by blast
  next
    case (petitioned ev m)
    with e old show ?thesis using reopen_petitioned_frame(1) [of q ev m d] by auto
  next
    case (archived ev)
    then have "only_events q EV_ARCHIVED ev d d'" using event_archived_frame(1) by simp
    then show ?thesis using upd by blast
  qed
qed


definition closing_campus :: db where
  "closing_campus = settled_campus\<lparr>events := [the_event EV_CLOSURE_REQUESTED]\<rparr>"

lemma closing_campus_ok: "db_ok closing_campus"
  by code_simp

lemma closed_only_by_the_gate_witness:
  "\<exists>d'. closeout_exec (ctx the_dean (days 50)) (CertifyCloseout 25 None True) closing_campus = Inr d' \<and>
     map ev_status (events d') = [EV_CLOSED] \<and> books_final d' 25"
proof -
  let ?r = "closeout_exec (ctx the_dean (days 50)) (CertifyCloseout 25 None True) closing_campus"
  have r: "?r = Inr (projr ?r)" by (rule Inr_projr) code_simp
  have e: "events (projr ?r) = [the_event EV_CLOSED]" by code_simp
  have "event_ids_apart closing_campus" by code_simp
  moreover have "\<forall>x\<in>set (events closing_campus). ev_id x = ev_id (the_event EV_CLOSED) \<longrightarrow> ev_status x \<noteq> EV_CLOSED"
    by (simp add: closing_campus_def the_event_def)
  ultimately have "books_final (projr ?r) 25"
    using closed_only_by_the_gate [OF closing_campus_ok _ r, of "the_event EV_CLOSED"] e by (simp add: the_event_def)
  with r e show ?thesis by (auto simp: the_event_def)
qed

text \<open>
  Rejecting a closure request undoes it: after a secretary's request and a certifier's rejection every
  table is what it was, but for the audit entries and the notifications of the two requests.
\<close>

theorem closeout_rejection_undoes_request:
  assumes "db_ok d" and "event_ids_apart d" and "ev_status ev = EV_COMPLETED" and "ev \<in> set (events d)"
    and req: "request_closeout q (ev_id ev) r d = Inr (st, d1)"
    and rej: "reject_closeout q' (ev_id ev) m d1 = Inr (x, d2)"
  shows "x = ev \<and> business d2 = business d"
proof -
  have d1: "d1 = closure_requested q ev r d"
    using req co_get_event_id [OF assms(1,2,4)] assms(3) by (auto simp: request_closeout_def res_simps split: if_splits)
  let ?ev = "ev\<lparr>ev_status := EV_CLOSURE_REQUESTED\<rparr>"
  have ev1: "events d1 = put ev_id ?ev (events d)"
    by (simp add: d1 closure_requested_def Let_def set_event_status_def)
  obtain y where y: "co_get_event d1 (ev_id ev) = Inr y" and x: "x = y\<lparr>ev_status := EV_COMPLETED\<rparr>"
    and d2: "d2 = closure_rejected q' y m d1"
    using rej by (auto simp: reject_closeout_def res_simps)
  have "?ev \<in> set (events d1)" using assms(4) by (simp add: ev1 put_written)
  moreover have "event_ids_apart d1"
    using assms(2,4) by (auto simp: event_ids_apart_def ev1 dest!: put_rows)
  moreover have "db_ok d1" using request_closeout_effect [OF req] assms(1) by blast
  ultimately have ye: "y = ?ev" using co_get_event_id [of d1 ?ev y] y by simp
  have "ev\<lparr>ev_status := EV_COMPLETED\<rparr> = ev" using assms(3) by simp
  moreover have "put ev_id ev (events d) = events d" using put_self [OF db_ok_keys(6) [OF assms(1)] assms(4)] .
  moreover have "business d2 = (business d)\<lparr>events := put ev_id (y\<lparr>ev_status := EV_COMPLETED\<rparr>) (events d1)\<rparr>"
    by (simp add: d2 d1 closure_requested_def closure_rejected_def Let_def set_event_status_def notify_secretaries_def)
  ultimately show ?thesis by (simp add: x ye ev1)
qed


definition closure_asked :: "(event_status \<times> db) res" where
  "closure_asked = request_closeout (ctx the_secretary (days 49)) 25 None settled_campus"

lemma closeout_rejection_undoes_request_witness:
  "\<exists>d2. reject_closeout (ctx the_dean (days 50)) 25 ''Minutes missing'' (snd (projr closure_asked)) =
       Inr (the_event EV_COMPLETED, d2) \<and> business d2 = business settled_campus"
proof -
  let ?d1 = "snd (projr closure_asked)"
  let ?r = "reject_closeout (ctx the_dean (days 50)) 25 ''Minutes missing'' ?d1"
  have "\<not> isl closure_asked" by code_simp
  then have a: "request_closeout (ctx the_secretary (days 49)) 25 None settled_campus = Inr (fst (projr closure_asked), ?d1)"
    using Inr_projr [of closure_asked] by (simp add: closure_asked_def)
  have "\<not> isl ?r" by code_simp
  then have r: "?r = Inr (fst (projr ?r), snd (projr ?r))" using Inr_projr [of ?r] by simp
  have "event_ids_apart settled_campus" by code_simp
  moreover have "ev_status (the_event EV_COMPLETED) = EV_COMPLETED" "ev_id (the_event EV_COMPLETED) = 25"
    by (simp_all add: the_event_def)
  moreover have "the_event EV_COMPLETED \<in> set (events settled_campus)"
    by (simp add: settled_campus_def audited_campus_def campus_defs)
  ultimately have "fst (projr ?r) = the_event EV_COMPLETED \<and> business (snd (projr ?r)) = business settled_campus"
    using closeout_rejection_undoes_request [OF settled_campus_ok, of "the_event EV_COMPLETED"] a r by metis
  with r show ?thesis by metis
qed


definition closed_campus :: db where
  "closed_campus = snd (projr (certify_closeout (ctx the_dean (days 50)) 25 None True closing_campus))"


text \<open>
  C13. The life of an event after completion: along any sequence of closeout requests an event only follows the
  transitions of the closeout (requested by a secretary, certified or rejected by dean, principal or advisor,
  reopened by dean or principal, archived by an administrator), nothing but its status changes, and once
  archived it stays archived for good.
\<close>

theorem closeout_life:
  assumes "db_ok d"
  shows "(\<forall>e'\<in>set (events (run closeout_exec xs d)). \<exists>e\<in>set (events d). ev_id e = ev_id e' \<and>
       (\<lambda>x y. \<exists>q. closeout_step q x y)\<^sup>*\<^sup>* e e' \<and> e' = e\<lparr>ev_status := ev_status e'\<rparr>) \<and>
    (\<forall>e\<in>set (events d). ev_status e = EV_ARCHIVED \<longrightarrow> e \<in> set (events (run closeout_exec xs d)))"
proof -
  have keep: "y = x\<lparr>ev_status := ev_status y\<rparr>" if "(\<lambda>x y. \<exists>q. closeout_step q x y)\<^sup>*\<^sup>* x y" for x y
    using that
  proof (induction rule: rtranclp_induct)
    case (step y z)
    then obtain q where "closeout_step q y z" by blast
    then have "z = y\<lparr>ev_status := ev_status z\<rparr>" by cases simp_all
    with step.IH show ?case by (metis event.update_convs(13) event.surjective event.ext_inject)
  qed simp
  show ?thesis
    using closeout_machine.run_history [OF assms, of xs] archived_events.run_final [OF assms] keep by blast
qed


definition closeout_run :: "(request \<times> closeout_request) list" where
  "closeout_run =
     [(ctx the_secretary (days 49), RequestCloseout 25 None), (ctx the_dean (days 50), CertifyCloseout 25 None True),
      (ctx the_admin (days 60), ArchiveEvent 25), (ctx the_principal (days 61), ApproveReopen 25 ''Too late'')]"

lemma closeout_life_witness:
  "events (run closeout_exec closeout_run settled_campus) = [the_event EV_ARCHIVED] \<and>
     (\<lambda>x y. \<exists>q. closeout_step q x y)\<^sup>*\<^sup>* (the_event EV_COMPLETED) (the_event EV_ARCHIVED)"
proof -
  have e: "events (run closeout_exec closeout_run settled_campus) = [the_event EV_ARCHIVED]" by code_simp
  have "events settled_campus = [the_event EV_COMPLETED]"
    by (simp add: settled_campus_def audited_campus_def campus_defs)
  with closeout_life [OF settled_campus_ok, of closeout_run] e show ?thesis by auto
qed

end
