(* ===== verification/Execution.thy ===== *)
theory Execution
  imports Expenses
begin

text \<open>
  The operational life of a confirmed event: \<^verbatim>\<open>EventExecutionService\<close> of
  \<^verbatim>\<open>backend/app/services/event_execution_service.py\<close> with the payload schemas of
  \<^verbatim>\<open>backend/app/schemas/post_event_report.py\<close>. The secretary starts the event, ends it with a report, and
  amends the report until the club's faculty advisor certifies the delivery.
\<close>

section \<open>Payloads\<close>

record report_create =
  rc_actual_attendance :: int
  rc_summary :: string
  rc_objectives_achieved :: string
  rc_outcomes :: "string option"
  rc_challenges :: "string option"

definition report_create_schema :: "report_create \<Rightarrow> report_create res" where
  "report_create_schema p =
     require (1 \<le> rc_actual_attendance p \<and> rc_actual_attendance p \<le> 100000 \<and>
              len_between 20 10000 (rc_summary p) \<and> len_between 5 5000 (rc_objectives_achieved p) \<and>
              opt_len_between 0 5000 (rc_outcomes p) \<and> opt_len_between 0 5000 (rc_challenges p))
       RequestValidationError (
     require (\<not> length (squeeze (rc_summary p)) < 20) RequestValidationError (
     require (\<not> length (squeeze (rc_objectives_achieved p)) < 5) RequestValidationError (
     Inr (p\<lparr>rc_summary := squeeze (rc_summary p),
            rc_objectives_achieved := squeeze (rc_objectives_achieved p)\<rparr>))))"

record report_update =
  ru_actual_attendance :: "int option"
  ru_summary :: "string option"
  ru_objectives_achieved :: "string option"
  ru_outcomes :: "string option"
  ru_challenges :: "string option"

definition report_update_schema :: "report_update \<Rightarrow> report_update res" where
  "report_update_schema p =
     require ((case ru_actual_attendance p of None \<Rightarrow> True | Some n \<Rightarrow> 1 \<le> n \<and> n \<le> 100000) \<and>
              opt_len_between 20 10000 (ru_summary p) \<and> opt_len_between 5 5000 (ru_objectives_achieved p) \<and>
              opt_len_between 0 5000 (ru_outcomes p) \<and> opt_len_between 0 5000 (ru_challenges p))
       RequestValidationError (
     require (case ru_summary p of None \<Rightarrow> True | Some s \<Rightarrow> \<not> length (squeeze s) < 20) RequestValidationError (
     Inr (p\<lparr>ru_summary := map_option squeeze (ru_summary p)\<rparr>)))"

definition certify_schema :: "string option \<Rightarrow> string option res" where
  "certify_schema remarks = require (opt_len_between 0 2000 remarks) RequestValidationError (Inr remarks)"

definition revision_schema :: "string \<Rightarrow> string res" where
  "revision_schema remarks =
     require (len_between 5 2000 remarks) RequestValidationError (
     require (\<not> length (squeeze remarks) < 5) RequestValidationError (Inr (squeeze remarks)))"

definition admin_start_schema :: "string \<Rightarrow> string res" where
  "admin_start_schema reason = require (len_between 10 1000 reason) RequestValidationError (Inr reason)"

section \<open>Checks\<close>

definition exec_ensure_event_mutable :: "event \<Rightarrow> unit res" where
  "exec_ensure_event_mutable ev =
     (if ev_status ev \<in> {EV_CLOSED, EV_ARCHIVED} then Inl ConflictError else Inr ())"

definition resolve_event :: "db \<Rightarrow> uuid \<Rightarrow> bool \<Rightarrow> event res" where
  "resolve_event d event_identifier ensure_mutable =
     fetch (scalar (\<lambda>e. ev_id e = event_identifier \<or> ev_event_request_id e = event_identifier) (events d))
       NotFoundError (\<lambda>ev.
     if ensure_mutable then and_then (exec_ensure_event_mutable ev) (\<lambda>_. Inr ev) else Inr ev)"

definition exec_verify_secretary_ownership :: "request \<Rightarrow> db \<Rightarrow> uuid \<Rightarrow> unit res" where
  "exec_verify_secretary_ownership q d club_id =
     fetch (secretary_membership d club_id (actor_id q)) ForbiddenError (\<lambda>_. Inr ())"

definition verify_advisor_eligibility :: "request \<Rightarrow> db \<Rightarrow> uuid \<Rightarrow> club res" where
  "verify_advisor_eligibility q d club_id =
     require (actor_role q \<noteq> SYSTEM_ADMIN) ForbiddenError (
     fetch (club_by_id d club_id) NotFoundError (\<lambda>club.
     require (cl_faculty_advisor_id club = Some (actor_id q)) ForbiddenError (Inr club)))"

section \<open>Starting and completing an event\<close>

definition status_json :: "event_status \<Rightarrow> json" where
  "status_json st = JObj [(''status'', JEnum (J_event_status st))]"

definition event_set :: "event_status \<Rightarrow> event \<Rightarrow> db \<Rightarrow> db" where
  "event_set st ev d = d\<lparr>events := put ev_id (ev\<lparr>ev_status := st\<rparr>) (events d)\<rparr>"

definition event_started :: "request \<Rightarrow> event \<Rightarrow> db \<Rightarrow> db" where
  "event_started q ev d =
     add_audit q A_EVENT_STARTED ''event'' (ev_id ev) (status_json EV_SCHEDULED) (status_json EV_IN_PROGRESS) None
       (event_set EV_IN_PROGRESS ev d)"

definition start_event :: "request \<Rightarrow> uuid \<Rightarrow> db \<Rightarrow> (event \<times> db) res" where
  "start_event q event_id d =
     and_then (resolve_event d event_id True) (\<lambda>ev.
     and_then (exec_verify_secretary_ownership q d (ev_club_id ev)) (\<lambda>_.
     require (ev_status ev = EV_SCHEDULED) WorkflowStateError (
     require (\<not> now q < ev_start_time ev - hours 2) BadRequestError (
     commit IntegrityError (ev\<lparr>ev_status := EV_IN_PROGRESS\<rparr>) (event_started q ev d)))))"

definition admin_started :: "request \<Rightarrow> event \<Rightarrow> string \<Rightarrow> db \<Rightarrow> db" where
  "admin_started q ev reason d =
     add_audit q A_ADMIN_EVENT_STARTED ''event'' (ev_id ev) (status_json EV_SCHEDULED)
       (JObj [(''status'', JEnum (J_event_status EV_IN_PROGRESS)), (''admin_reason'', JText reason)]) None
       (event_set EV_IN_PROGRESS ev d)"

definition admin_start_event :: "request \<Rightarrow> uuid \<Rightarrow> string \<Rightarrow> db \<Rightarrow> (event \<times> db) res" where
  "admin_start_event q event_id reason d =
     require (actor_role q = SYSTEM_ADMIN) ForbiddenError (
     and_then (resolve_event d event_id True) (\<lambda>ev.
     require (ev_status ev = EV_SCHEDULED) WorkflowStateError (
     commit IntegrityError (ev\<lparr>ev_status := EV_IN_PROGRESS\<rparr>) (admin_started q ev reason d))))"

definition notify_advisor :: "request \<Rightarrow> event \<Rightarrow> db \<Rightarrow> db" where
  "notify_advisor q ev d =
     (case Option.bind (club_by_id d (ev_club_id ev)) cl_faculty_advisor_id of
        None \<Rightarrow> d
      | Some a \<Rightarrow> create_notification q a N_POST_EVENT_REPORT_SUBMITTED (Some (ev_event_request_id ev)) d)"

definition new_report :: "request \<Rightarrow> event \<Rightarrow> report_create \<Rightarrow> uuid \<Rightarrow> post_event_report" where
  "new_report q ev p i =
     \<lparr>rp_id = i, rp_event_id = ev_id ev, rp_revision_number = 1,
      rp_actual_attendance = rc_actual_attendance p, rp_summary = rc_summary p,
      rp_objectives_achieved = rc_objectives_achieved p, rp_outcomes = rc_outcomes p,
      rp_challenges = rc_challenges p, rp_status = RP_SUBMITTED, rp_submitted_by = actor_id q,
      rp_submitted_at = now q, rp_certified_by = None, rp_certified_at = None,
      rp_certification_remarks = None, rp_created_at = now q\<rparr>"

text \<open>
  The status of the event has already been changed when its audit entry is written, so the entry's previous
  state says \<open>COMPLETED\<close> as well.
\<close>

definition event_completed :: "request \<Rightarrow> event \<Rightarrow> post_event_report \<Rightarrow> db \<Rightarrow> db" where
  "event_completed q ev r d =
     (let d1 = event_set EV_COMPLETED ev (d\<lparr>reports := reports d @ [r], next_uuid := Suc (next_uuid d)\<rparr>);
          d2 = add_audit q A_EVENT_COMPLETED ''event'' (ev_id ev) (status_json EV_COMPLETED) (status_json EV_COMPLETED) None d1;
          d3 = add_audit q A_POST_EVENT_REPORT_SUBMITTED ''post_event_report'' (rp_id r) JNull
                 (JObj [(''event_id'', JUuid (ev_id ev)), (''revision_number'', JInt 1),
                        (''actual_attendance'', JInt (rp_actual_attendance r)),
                        (''status'', JEnum (J_report_status RP_SUBMITTED))]) None d2
      in notify_advisor q ev d3)"

definition complete_and_submit_report ::
    "request \<Rightarrow> uuid \<Rightarrow> report_create \<Rightarrow> db \<Rightarrow> ((event \<times> post_event_report) \<times> db) res" where
  "complete_and_submit_report q event_id p d =
     and_then (resolve_event d event_id True) (\<lambda>ev.
     and_then (exec_verify_secretary_ownership q d (ev_club_id ev)) (\<lambda>_.
     require (ev_status ev \<noteq> EV_COMPLETED) ConflictError (
     require (ev_status ev \<in> {EV_IN_PROGRESS, EV_SCHEDULED}) WorkflowStateError (
     require (case report_of d (ev_id ev) of None \<Rightarrow> True
              | Some r \<Rightarrow> rp_status r \<notin> {RP_SUBMITTED, RP_CERTIFIED}) ConflictError (
     require (case report_of d (ev_id ev) of None \<Rightarrow> True
              | Some r \<Rightarrow> rp_status r \<noteq> RP_REVISION_REQUIRED) WorkflowStateError (
     let r = new_report q ev p (next_uuid d)
     in commit IntegrityError (ev\<lparr>ev_status := EV_COMPLETED\<rparr>, r) (event_completed q ev r d)))))))"

section \<open>Revision and certification of the report\<close>

definition amended :: "report_update \<Rightarrow> post_event_report \<Rightarrow> post_event_report" where
  "amended u r =
     r\<lparr>rp_actual_attendance := (case ru_actual_attendance u of None \<Rightarrow> rp_actual_attendance r | Some n \<Rightarrow> n),
       rp_summary := (case ru_summary u of None \<Rightarrow> rp_summary r | Some s \<Rightarrow> s),
       rp_objectives_achieved :=
         (case ru_objectives_achieved u of None \<Rightarrow> rp_objectives_achieved r | Some s \<Rightarrow> s),
       rp_outcomes := (case ru_outcomes u of None \<Rightarrow> rp_outcomes r | Some s \<Rightarrow> Some s),
       rp_challenges := (case ru_challenges u of None \<Rightarrow> rp_challenges r | Some s \<Rightarrow> Some s)\<rparr>"

definition update_report :: "request \<Rightarrow> uuid \<Rightarrow> report_update \<Rightarrow> db \<Rightarrow> (post_event_report \<times> db) res" where
  "update_report q event_id u d =
     and_then (resolve_event d event_id True) (\<lambda>ev.
     and_then (exec_verify_secretary_ownership q d (ev_club_id ev)) (\<lambda>_.
     fetch (report_of d (ev_id ev)) NotFoundError (\<lambda>r.
     require (rp_status r = RP_REVISION_REQUIRED) WorkflowStateError (
     commit IntegrityError (amended u r) (d\<lparr>reports := put rp_id (amended u r) (reports d)\<rparr>)))))"

definition resubmitted :: "request \<Rightarrow> post_event_report \<Rightarrow> post_event_report" where
  "resubmitted q r =
     r\<lparr>rp_revision_number := rp_revision_number r + 1, rp_status := RP_SUBMITTED, rp_submitted_at := now q\<rparr>"

definition report_resubmitted :: "request \<Rightarrow> event \<Rightarrow> post_event_report \<Rightarrow> db \<Rightarrow> db" where
  "report_resubmitted q ev r d =
     notify_advisor q ev
       (add_audit q A_POST_EVENT_REPORT_SUBMITTED ''post_event_report'' (rp_id r)
          (JObj [(''revision_number'', JInt (rp_revision_number r)),
                 (''status'', JEnum (J_report_status RP_REVISION_REQUIRED))])
          (JObj [(''revision_number'', JInt (rp_revision_number r + 1)),
                 (''status'', JEnum (J_report_status RP_SUBMITTED))]) None
          (d\<lparr>reports := put rp_id (resubmitted q r) (reports d)\<rparr>))"

definition resubmit_report :: "request \<Rightarrow> uuid \<Rightarrow> db \<Rightarrow> (post_event_report \<times> db) res" where
  "resubmit_report q event_id d =
     and_then (resolve_event d event_id True) (\<lambda>ev.
     and_then (exec_verify_secretary_ownership q d (ev_club_id ev)) (\<lambda>_.
     fetch (report_of d (ev_id ev)) NotFoundError (\<lambda>r.
     require (rp_status r = RP_REVISION_REQUIRED) WorkflowStateError (
     commit IntegrityError (resubmitted q r) (report_resubmitted q ev r d)))))"

definition certified :: "request \<Rightarrow> string option \<Rightarrow> post_event_report \<Rightarrow> post_event_report" where
  "certified q remarks r =
     r\<lparr>rp_status := RP_CERTIFIED, rp_certified_by := Some (actor_id q), rp_certified_at := Some (now q),
       rp_certification_remarks := remarks\<rparr>"

definition report_certified :: "request \<Rightarrow> event \<Rightarrow> string option \<Rightarrow> post_event_report \<Rightarrow> db \<Rightarrow> db" where
  "report_certified q ev remarks r d =
     create_notification q (rp_submitted_by r) N_POST_EVENT_REPORT_CERTIFIED (Some (ev_event_request_id ev))
       (add_audit q A_POST_EVENT_REPORT_CERTIFIED ''post_event_report'' (rp_id r)
          (JObj [(''status'', JEnum (J_report_status RP_SUBMITTED))])
          (JObj [(''status'', JEnum (J_report_status RP_CERTIFIED)), (''certified_by'', JUuid (actor_id q))]) None
          (d\<lparr>reports := put rp_id (certified q remarks r) (reports d)\<rparr>))"

definition certify_report :: "request \<Rightarrow> uuid \<Rightarrow> string option \<Rightarrow> db \<Rightarrow> (post_event_report \<times> db) res" where
  "certify_report q event_id remarks d =
     and_then (resolve_event d event_id True) (\<lambda>ev.
     fetch (report_of d (ev_id ev)) NotFoundError (\<lambda>r.
     require (rp_submitted_by r \<noteq> actor_id q) ForbiddenError (
     and_then (verify_advisor_eligibility q d (ev_club_id ev)) (\<lambda>_.
     require (rp_status r \<noteq> RP_CERTIFIED) ConflictError (
     require (rp_status r = RP_SUBMITTED) WorkflowStateError (
     commit IntegrityError (certified q remarks r) (report_certified q ev remarks r d)))))))"

definition returned :: "string \<Rightarrow> post_event_report \<Rightarrow> post_event_report" where
  "returned remarks r = r\<lparr>rp_status := RP_REVISION_REQUIRED, rp_certification_remarks := Some remarks\<rparr>"

definition report_returned :: "request \<Rightarrow> event \<Rightarrow> string \<Rightarrow> post_event_report \<Rightarrow> db \<Rightarrow> db" where
  "report_returned q ev remarks r d =
     create_notification q (rp_submitted_by r) N_POST_EVENT_REPORT_REVISION_REQUESTED (Some (ev_event_request_id ev))
       (add_audit q A_POST_EVENT_REPORT_REVISION_REQUESTED ''post_event_report'' (rp_id r)
          (JObj [(''status'', JEnum (J_report_status RP_SUBMITTED))])
          (JObj [(''status'', JEnum (J_report_status RP_REVISION_REQUIRED)), (''remarks'', JText remarks)]) None
          (d\<lparr>reports := put rp_id (returned remarks r) (reports d)\<rparr>))"

definition request_report_revision :: "request \<Rightarrow> uuid \<Rightarrow> string \<Rightarrow> db \<Rightarrow> (post_event_report \<times> db) res" where
  "request_report_revision q event_id remarks d =
     and_then (resolve_event d event_id True) (\<lambda>ev.
     fetch (report_of d (ev_id ev)) NotFoundError (\<lambda>r.
     require (rp_submitted_by r \<noteq> actor_id q) ForbiddenError (
     and_then (verify_advisor_eligibility q d (ev_club_id ev)) (\<lambda>_.
     require (rp_status r = RP_SUBMITTED) WorkflowStateError (
     commit IntegrityError (returned remarks r) (report_returned q ev remarks r d))))))"

section \<open>Queries\<close>

definition get_report :: "uuid \<Rightarrow> db \<Rightarrow> post_event_report res" where
  "get_report event_id d =
     and_then (resolve_event d event_id False) (\<lambda>ev. fetch (report_of d (ev_id ev)) NotFoundError Inr)"

definition get_confirmed_event :: "uuid \<Rightarrow> db \<Rightarrow> event res" where
  "get_confirmed_event event_id d = resolve_event d event_id False"

section \<open>The execution of events as a service\<close>

datatype execution_request =
    StartEvent uuid
  | AdminStartEvent uuid string
  | CompleteEvent uuid report_create
  | UpdateReport uuid report_update
  | ResubmitReport uuid
  | CertifyReport uuid "string option"
  | ReturnReport uuid string

fun execution_exec :: "request \<Rightarrow> execution_request \<Rightarrow> db \<Rightarrow> db res" where
  "execution_exec q (StartEvent i) d = db_of (start_event q i d)"
| "execution_exec q (AdminStartEvent i r) d =
     and_then (admin_start_schema r) (\<lambda>r. db_of (admin_start_event q i r d))"
| "execution_exec q (CompleteEvent i p) d =
     and_then (report_create_schema p) (\<lambda>p. db_of (complete_and_submit_report q i p d))"
| "execution_exec q (UpdateReport i u) d =
     and_then (report_update_schema u) (\<lambda>u. db_of (update_report q i u d))"
| "execution_exec q (ResubmitReport i) d = db_of (resubmit_report q i d)"
| "execution_exec q (CertifyReport i r) d =
     and_then (certify_schema r) (\<lambda>r. db_of (certify_report q i r d))"
| "execution_exec q (ReturnReport i r) d =
     and_then (revision_schema r) (\<lambda>r. db_of (request_report_revision q i r d))"


lemmas execution_handler_defs =
  start_event_def admin_start_event_def complete_and_submit_report_def update_report_def resubmit_report_def
  certify_report_def request_report_revision_def

lemma execution_frame [simp]:
  "events (event_set st ev d) = put ev_id (ev\<lparr>ev_status := st\<rparr>) (events d)"
  "reports (event_set st ev d) = reports d"
  "audit_logs (event_set st ev d) = audit_logs d"
  "events (notify_advisor q ev d) = events d"
  "reports (notify_advisor q ev d) = reports d"
  "audit_logs (notify_advisor q ev d) = audit_logs d"
  by (simp_all add: event_set_def notify_advisor_def split: option.split)

lemma event_writes [simp]:
  "events (event_started q ev d) = put ev_id (ev\<lparr>ev_status := EV_IN_PROGRESS\<rparr>) (events d)"
  "reports (event_started q ev d) = reports d"
  "events (admin_started q ev m d) = put ev_id (ev\<lparr>ev_status := EV_IN_PROGRESS\<rparr>) (events d)"
  "reports (admin_started q ev m d) = reports d"
  "events (event_completed q ev r d) = put ev_id (ev\<lparr>ev_status := EV_COMPLETED\<rparr>) (events d)"
  "reports (event_completed q ev r d) = reports d @ [r]"
  by (simp_all add: event_started_def admin_started_def event_completed_def Let_def)

lemma report_writes [simp]:
  "events (report_resubmitted q ev r d) = events d"
  "reports (report_resubmitted q ev r d) = put rp_id (resubmitted q r) (reports d)"
  "events (report_certified q ev m r d) = events d"
  "reports (report_certified q ev m r d) = put rp_id (certified q m r) (reports d)"
  "events (report_returned q ev t r d) = events d"
  "reports (report_returned q ev t r d) = put rp_id (returned t r) (reports d)"
  by (simp_all add: report_resubmitted_def report_certified_def report_returned_def)

lemma execution_audit:
  "signed q d (event_started q ev d)"
  "signed q d (admin_started q ev m d)"
  "signed q d (event_completed q ev r d)"
  "signed q d (report_resubmitted q ev r d)"
  "signed q d (report_certified q ev x r d)"
  "signed q d (report_returned q ev t r d)"
  by (simp_all add: event_started_def admin_started_def event_completed_def Let_def
      report_resubmitted_def report_certified_def report_returned_def)

lemma resolve_eventD:
  "resolve_event d i True = Inr ev \<Longrightarrow> ev \<in> set (events d) \<and> ev_status ev \<notin> {EV_CLOSED, EV_ARCHIVED}"
  by (auto simp: resolve_event_def exec_ensure_event_mutable_def res_simps dest: scalar_Some)

lemma report_ofD: "report_of d i = Some r \<Longrightarrow> r \<in> set (reports d) \<and> rp_event_id r = i"
  by (auto simp: report_of_def dest: scalar_Some)

lemma verify_advisor_eligibility_Inr [res_simps]:
  "verify_advisor_eligibility q d i = Inr c \<longleftrightarrow>
     actor_role q \<noteq> SYSTEM_ADMIN \<and> club_by_id d i = Some c \<and> cl_faculty_advisor_id c = Some (actor_id q)"
  by (auto simp: verify_advisor_eligibility_def res_simps)

lemma exec_verify_secretary_ownership_Inr [res_simps]:
  "exec_verify_secretary_ownership q d i = Inr u \<longleftrightarrow> secretary_membership d i (actor_id q) \<noteq> None"
  by (auto simp: exec_verify_secretary_ownership_def res_simps)

text \<open>What a served request has done.\<close>

definition advised_by :: "request \<Rightarrow> db \<Rightarrow> event \<Rightarrow> bool" where
  "advised_by q d ev \<longleftrightarrow> actor_role q \<noteq> SYSTEM_ADMIN \<and>
     (\<exists>c. club_by_id d (ev_club_id ev) = Some c \<and> cl_faculty_advisor_id c = Some (actor_id q))"

definition secretary_of :: "request \<Rightarrow> db \<Rightarrow> event \<Rightarrow> bool" where
  "secretary_of q d ev \<longleftrightarrow> secretary_membership d (ev_club_id ev) (actor_id q) \<noteq> None"

inductive execution_effect :: "request \<Rightarrow> db \<Rightarrow> db \<Rightarrow> bool" for q d where
  started: "ev \<in> set (events d) \<Longrightarrow> ev_status ev = EV_SCHEDULED \<Longrightarrow> secretary_of q d ev \<Longrightarrow>
     now q \<ge> ev_start_time ev - hours 2 \<Longrightarrow> execution_effect q d (event_started q ev d)"
| admin_started: "ev \<in> set (events d) \<Longrightarrow> ev_status ev = EV_SCHEDULED \<Longrightarrow> actor_role q = SYSTEM_ADMIN \<Longrightarrow>
     execution_effect q d (admin_started q ev m d)"
| completed: "ev \<in> set (events d) \<Longrightarrow> ev_status ev \<in> {EV_IN_PROGRESS, EV_SCHEDULED} \<Longrightarrow> secretary_of q d ev \<Longrightarrow>
     r = new_report q ev p (next_uuid d) \<Longrightarrow> execution_effect q d (event_completed q ev r d)"
| amended: "ev \<in> set (events d) \<Longrightarrow> r \<in> set (reports d) \<Longrightarrow> rp_event_id r = ev_id ev \<Longrightarrow>
     rp_status r = RP_REVISION_REQUIRED \<Longrightarrow> secretary_of q d ev \<Longrightarrow>
     execution_effect q d (d\<lparr>reports := put rp_id (amended u r) (reports d)\<rparr>)"
| resubmitted: "ev \<in> set (events d) \<Longrightarrow> r \<in> set (reports d) \<Longrightarrow> rp_event_id r = ev_id ev \<Longrightarrow>
     rp_status r = RP_REVISION_REQUIRED \<Longrightarrow> secretary_of q d ev \<Longrightarrow>
     execution_effect q d (report_resubmitted q ev r d)"
| certified: "ev \<in> set (events d) \<Longrightarrow> r \<in> set (reports d) \<Longrightarrow> rp_event_id r = ev_id ev \<Longrightarrow>
     rp_status r = RP_SUBMITTED \<Longrightarrow> rp_submitted_by r \<noteq> actor_id q \<Longrightarrow> advised_by q d ev \<Longrightarrow>
     execution_effect q d (report_certified q ev m' r d)"
| returned: "ev \<in> set (events d) \<Longrightarrow> r \<in> set (reports d) \<Longrightarrow> rp_event_id r = ev_id ev \<Longrightarrow>
     rp_status r = RP_SUBMITTED \<Longrightarrow> rp_submitted_by r \<noteq> actor_id q \<Longrightarrow> advised_by q d ev \<Longrightarrow>
     execution_effect q d (report_returned q ev t r d)"

lemma start_event_effect: "start_event q i d = Inr (e, d') \<Longrightarrow> execution_effect q d d' \<and> db_ok d'"
  unfolding start_event_def
  by (auto simp only: res_simps prod.inject not_less secretary_of_def dest!: resolve_eventD intro!: started)

lemma admin_start_event_effect: "admin_start_event q i m d = Inr (e, d') \<Longrightarrow> execution_effect q d d' \<and> db_ok d'"
  unfolding admin_start_event_def
  by (auto simp only: res_simps prod.inject dest!: resolve_eventD intro!: admin_started)

lemma complete_effect: "complete_and_submit_report q i p d = Inr (e, d') \<Longrightarrow> execution_effect q d d' \<and> db_ok d'"
  unfolding complete_and_submit_report_def Let_def
  by (auto simp only: res_simps prod.inject secretary_of_def dest!: resolve_eventD intro!: completed)

lemma report_effects:
  "update_report q i u d = Inr (r, d') \<Longrightarrow> execution_effect q d d' \<and> db_ok d'"
  "resubmit_report q i d = Inr (r, d') \<Longrightarrow> execution_effect q d d' \<and> db_ok d'"
  "certify_report q i m d = Inr (r, d') \<Longrightarrow> execution_effect q d d' \<and> db_ok d'"
  "request_report_revision q i t d = Inr (r, d') \<Longrightarrow> execution_effect q d d' \<and> db_ok d'"
  unfolding update_report_def resubmit_report_def certify_report_def request_report_revision_def
  by (auto simp: res_simps secretary_of_def advised_by_def dest!: resolve_eventD report_ofD
      intro: amended resubmitted certified returned)

lemma execution_exec_effect: "execution_exec q r d = Inr d' \<Longrightarrow> execution_effect q d d' \<and> db_ok d'"
  by (cases r) (auto simp: res_simps
      dest: start_event_effect admin_start_event_effect complete_effect report_effects)

interpretation execution_service: audited_service execution_exec
proof unfold_locales
  fix d q r d'
  assume "execution_exec q r d = Inr d'"
  then have "execution_effect q d d'" using execution_exec_effect by blast
  then show "signed q d d'" by cases (simp_all add: execution_audit)
qed (auto dest: execution_exec_effect)

inductive execution_step :: "request \<Rightarrow> event \<Rightarrow> event \<Rightarrow> bool" for q where
  start: "ev_status e = EV_SCHEDULED \<Longrightarrow> actor_role q = SYSTEM_ADMIN \<or> now q \<ge> ev_start_time e - hours 2 \<Longrightarrow>
     execution_step q e (e\<lparr>ev_status := EV_IN_PROGRESS\<rparr>)"
| complete: "ev_status e \<in> {EV_IN_PROGRESS, EV_SCHEDULED} \<Longrightarrow> execution_step q e (e\<lparr>ev_status := EV_COMPLETED\<rparr>)"

inductive report_step :: "request \<Rightarrow> post_event_report \<Rightarrow> post_event_report \<Rightarrow> bool" for q where
  amend: "rp_status r = RP_REVISION_REQUIRED \<Longrightarrow> report_step q r (amended u r)"
| resubmit: "rp_status r = RP_REVISION_REQUIRED \<Longrightarrow> report_step q r (resubmitted q r)"
| certify: "rp_status r = RP_SUBMITTED \<Longrightarrow> rp_submitted_by r \<noteq> actor_id q \<Longrightarrow> actor_role q \<noteq> SYSTEM_ADMIN \<Longrightarrow>
     report_step q r (certified q m r)"
| return: "rp_status r = RP_SUBMITTED \<Longrightarrow> rp_submitted_by r \<noteq> actor_id q \<Longrightarrow> actor_role q \<noteq> SYSTEM_ADMIN \<Longrightarrow>
     report_step q r (returned t r)"

inductive_cases execution_stepE: "execution_step q e e'"
inductive_cases report_stepE: "report_step q r r'"

lemma report_row_simps [simp]:
  "rp_id (amended u r) = rp_id r" "rp_id (resubmitted q r) = rp_id r" "rp_id (certified q m r) = rp_id r"
  "rp_id (returned t r) = rp_id r"
  "rp_event_id (amended u r) = rp_event_id r" "rp_event_id (resubmitted q r) = rp_event_id r"
  "rp_event_id (certified q m r) = rp_event_id r" "rp_event_id (returned t r) = rp_event_id r"
  "rp_submitted_by (amended u r) = rp_submitted_by r" "rp_submitted_by (resubmitted q r) = rp_submitted_by r"
  "rp_submitted_by (certified q m r) = rp_submitted_by r" "rp_submitted_by (returned t r) = rp_submitted_by r"
  "rp_status (amended u r) = rp_status r" "rp_status (resubmitted q r) = RP_SUBMITTED"
  "rp_status (certified q m r) = RP_CERTIFIED" "rp_status (returned t r) = RP_REVISION_REQUIRED"
  "rp_revision_number (amended u r) = rp_revision_number r"
  "rp_revision_number (resubmitted q r) = rp_revision_number r + 1"
  "rp_revision_number (certified q m r) = rp_revision_number r"
  "rp_revision_number (returned t r) = rp_revision_number r"
  "rp_certified_by (certified q m r) = Some (actor_id q)"
  by (simp_all add: amended_def resubmitted_def certified_def returned_def)

lemma execution_effect_events:
  "execution_effect q d d' \<Longrightarrow> evolves ev_id (\<lambda>_. False) (execution_step q) (events d) (events d')"
  by (cases rule: execution_effect.cases) (auto intro!: evolves_put start complete)

definition report_new :: "request \<Rightarrow> post_event_report \<Rightarrow> bool" where
  "report_new q r \<longleftrightarrow> rp_status r = RP_SUBMITTED \<and> rp_submitted_by r = actor_id q \<and> rp_revision_number r = 1"

lemma execution_effect_reports:
  "execution_effect q d d' \<Longrightarrow> evolves rp_id (report_new q) (report_step q) (reports d) (reports d')"
  by (cases rule: execution_effect.cases)
    (auto simp: report_new_def new_report_def advised_by_def
      intro!: evolves_put evolves_snoc amend resubmit certify return)

interpretation execution_machine: row_machine execution_exec events ev_id "\<lambda>_ _. False" execution_step
  by unfold_locales (auto dest: execution_exec_effect execution_effect_events)

interpretation report_machine: row_machine execution_exec reports rp_id report_new report_step
  by unfold_locales (auto dest: execution_exec_effect execution_effect_reports)

lemma execution_effect_certified:
  assumes "execution_effect q d d'" and ok: "db_ok d" and x: "x \<in> set (reports d)" "rp_status x = RP_CERTIFIED"
  shows "x \<in> set (reports d')"
proof -
  note keep = final_put [where P = "\<lambda>r. rp_status r = RP_CERTIFIED", OF db_ok_keys(7) [OF ok] x(1)]
  from assms(1) show ?thesis by cases (use x keep in auto)
qed

interpretation certified_reports: final_rows execution_exec reports "\<lambda>r. rp_status r = RP_CERTIFIED"
  by unfold_locales (auto dest: execution_exec_effect execution_effect_certified)


definition completed_reported :: "db \<Rightarrow> bool" where
  "completed_reported d \<longleftrightarrow>
     (\<forall>e\<in>set (events d). ev_status e = EV_COMPLETED \<longrightarrow> (\<exists>r\<in>set (reports d). rp_event_id r = ev_id e))"

lemma put_report_events:
  "r \<in> set t \<Longrightarrow> rp_id r' = rp_id r \<Longrightarrow> rp_event_id r' = rp_event_id r \<Longrightarrow> distinct (map rp_id t) \<Longrightarrow>
     (\<exists>x\<in>set (put rp_id r' t). rp_event_id x = i) \<longleftrightarrow> (\<exists>x\<in>set t. rp_event_id x = i)"
proof -
  assume a: "r \<in> set t" "rp_id r' = rp_id r" "rp_event_id r' = rp_event_id r" "distinct (map rp_id t)"
  then have "map rp_event_id (put rp_id r' t) = map rp_event_id t"
    by (auto simp: put_def distinct_map inj_on_def)
  then have "rp_event_id ` set (put rp_id r' t) = rp_event_id ` set t" by (metis set_map)
  then show ?thesis by (metis (no_types, lifting) imageE imageI)
qed

lemma completed_reported_effect:
  assumes "execution_effect q d d'" and ok: "db_ok d" and good: "completed_reported d"
  shows "completed_reported d'"
proof -
  note r = put_report_events [OF _ _ _ db_ok_keys(7) [OF ok]]
  from assms(1) show ?thesis
    by cases (use good in \<open>auto simp: completed_reported_def r new_report_def dest!: put_rows\<close>)
qed

interpretation completed_reports: state_invariant execution_exec completed_reported
  by unfold_locales (auto dest: execution_exec_effect completed_reported_effect)

section \<open>Properties\<close>

definition under_way :: db where
  "under_way = (campus_at EV_SCHEDULED)"

definition the_story :: report_create where
  "the_story =
     \<lparr>rc_actual_attendance = 45, rc_summary = ''  The open tournament   was held.'',
      rc_objectives_achieved = ''All of   them'', rc_outcomes = None, rc_challenges = None\<rparr>"

definition execution_run :: "(request \<times> execution_request) list" where
  "execution_run =
     [(ctx the_secretary (days 30 + hours 8), StartEvent 25),
      (ctx the_secretary (days 30 + hours 13), CompleteEvent 20 the_story),
      (ctx the_advisor (days 31), ReturnReport 25 ''Add photos''),
      (ctx the_secretary (days 32), ResubmitReport 25),
      (ctx the_secretary (days 33), CertifyReport 25 None),
      (ctx the_advisor (days 33), CertifyReport 25 None)]"

lemma under_way_ok: "db_ok under_way"
  by code_simp

text \<open>
  C38. Delivery is certified by the right person: a request that leaves a report certified that was not so before
  was sent by the faculty advisor of the event's club, who is neither an administrator nor the person who
  submitted the report; and from then on no execution request changes the report.
\<close>

theorem delivery_certification:
  assumes "db_ok d" and "execution_exec q r d = Inr d'"
    and y: "y \<in> set (reports d')" "y \<notin> set (reports d)" "rp_status y = RP_CERTIFIED"
  shows "(\<exists>ev\<in>set (events d). ev_id ev = rp_event_id y \<and> advised_by q d ev) \<and>
    rp_certified_by y = Some (actor_id q) \<and> rp_submitted_by y \<noteq> actor_id q \<and>
    y \<in> set (reports (run execution_exec xs d'))"
proof -
  have eff: "execution_effect q d d'" and ok: "db_ok d'" using execution_exec_effect [OF assms(2)] by auto
  have "y \<in> set (reports (run execution_exec xs d'))"
    using certified_reports.run_final [OF ok y(1)] y(3) by simp
  moreover from eff have "(\<exists>ev\<in>set (events d). ev_id ev = rp_event_id y \<and> advised_by q d ev) \<and>
      rp_certified_by y = Some (actor_id q) \<and> rp_submitted_by y \<noteq> actor_id q"
    by cases (use y in \<open>auto simp: new_report_def dest!: put_rows\<close>)
  ultimately show ?thesis by blast
qed

definition before_certification :: db where
  "before_certification = run execution_exec (take 4 execution_run) under_way"

lemma delivery_certification_witness:
  "\<exists>d' y. execution_exec (ctx the_advisor (days 33)) (CertifyReport 25 None) before_certification = Inr d' \<and>
     reports d' = [y] \<and> rp_certified_by y = Some 3 \<and> rp_submitted_by y = 2 \<and>
     y \<in> set (reports (run execution_exec execution_run d'))"
proof -
  let ?r = "execution_exec (ctx the_advisor (days 33)) (CertifyReport 25 None) before_certification"
  have r: "?r = Inr (projr ?r)" by (rule Inr_projr) code_simp
  have "map (\<lambda>y. (rp_status y, rp_certified_by y, rp_submitted_by y)) (reports (projr ?r)) = [(RP_CERTIFIED, Some 3, 2)]"
    by code_simp
  then obtain y where y: "reports (projr ?r) = [y]" "rp_status y = RP_CERTIFIED" "rp_certified_by y = Some 3"
    "rp_submitted_by y = 2" by auto
  have "map rp_status (reports before_certification) = [RP_SUBMITTED]" by code_simp
  with y have "y \<notin> set (reports before_certification)" by auto
  moreover have "db_ok before_certification"
    unfolding before_certification_def by (rule execution_service.run_ok [OF under_way_ok])
  ultimately show ?thesis
    using delivery_certification [OF _ r, of y execution_run] y r by auto
qed

text \<open>
  No event is over without its report: from a database in which every completed event has a report, every
  reachable one is such; and an event moves only from scheduled to in progress (not more than two hours before
  its start, unless an administrator overrides) and on to completed, with nothing but its status changed.
\<close>

theorem completed_events_reported:
  assumes "db_ok d" and "completed_reported d"
  shows "completed_reported (run execution_exec xs d) \<and>
    (\<forall>e'\<in>set (events (run execution_exec xs d)). \<exists>e\<in>set (events d). ev_id e = ev_id e' \<and>
       (\<lambda>x y. \<exists>q. execution_step q x y)\<^sup>*\<^sup>* e e' \<and> e' = e\<lparr>ev_status := ev_status e'\<rparr>)"
proof -
  have keep: "y = x\<lparr>ev_status := ev_status y\<rparr>" if "(\<lambda>x y. \<exists>q. execution_step q x y)\<^sup>*\<^sup>* x y" for x y
    using that
  proof (induction rule: rtranclp_induct)
    case (step y z)
    then obtain q where "execution_step q y z" by blast
    then have "z = y\<lparr>ev_status := ev_status z\<rparr>" by cases simp_all
    with step.IH show ?case by (metis event.update_convs(13) event.surjective event.ext_inject)
  qed simp
  show ?thesis
    using completed_reports.run_good [OF assms] execution_machine.run_history [OF assms(1), of xs] keep by blast
qed

lemma completed_events_reported_witness:
  "map ev_status (events (run execution_exec execution_run under_way)) = [EV_COMPLETED] \<and>
   completed_reported (run execution_exec execution_run under_way)"
proof
  have "completed_reported under_way" by code_simp
  from completed_events_reported [OF under_way_ok this, of execution_run]
  show "completed_reported (run execution_exec execution_run under_way)" ..
qed code_simp

text \<open>
  Validation is stable: a report payload that was accepted is accepted again as it was stored, without a
  further change, and its texts have no leading, trailing or double blanks.
\<close>

theorem report_schema_stable:
  assumes "report_create_schema p = Inr p'"
  shows "report_create_schema p' = Inr p' \<and>
    split_ws [] (rc_summary p') = split_ws [] (strip (rc_summary p)) \<and>
    join_sp (split_ws [] (rc_summary p')) = rc_summary p'"
proof -
  have w: "words (split_ws [] (strip s))" for s by (rule split_ws_words) simp
  have p': "p' = p\<lparr>rc_summary := squeeze (rc_summary p), rc_objectives_achieved := squeeze (rc_objectives_achieved p)\<rparr>"
    using assms by (auto simp: report_create_schema_def res_simps)
  have "report_create_schema p' = Inr p'"
    using assms length_squeeze [of "rc_summary p"] length_squeeze [of "rc_objectives_achieved p"]
    by (auto simp: report_create_schema_def res_simps p' len_between_def)
  then show ?thesis by (simp add: p' squeeze_def split_join [OF w])
qed

lemma report_schema_stable_witness:
  "\<exists>p. report_create_schema the_story = Inr p \<and> rc_summary p = ''The open tournament was held.'' \<and>
     report_create_schema p = Inr p"
proof -
  let ?r = "report_create_schema the_story"
  have r: "?r = Inr (projr ?r)" by (rule Inr_projr) code_simp
  have "rc_summary (projr ?r) = ''The open tournament was held.''" by code_simp
  with report_schema_stable [OF r] r show ?thesis by blast
qed

end
