(* ===== verification/Finance_Api.thy ===== *)
theory Finance_Api
  imports Guards Closeout Execution Expenses Settlement
begin

text \<open>
  The endpoints of \<^verbatim>\<open>expenses.py\<close>, \<^verbatim>\<open>event_execution.py\<close>, \<^verbatim>\<open>settlement.py\<close> and \<^verbatim>\<open>closeout.py\<close> (under
  \<^verbatim>\<open>app/api/v1/endpoints\<close>) with the payload schemas of \<^verbatim>\<open>financial_settlement.py\<close> and \<^verbatim>\<open>closeout.py\<close>: who may call
  them, what of the payload is checked, and the service method they call. The uploads of these files are with the
  other documents (theory System).
\<close>

section \<open>Payloads\<close>

text \<open>Amounts have at most twelve digits, two of them fractional; in paise they are below \<open>10 ^ 12\<close>.\<close>

definition amount_ok :: "money \<Rightarrow> bool" where
  "amount_ok m \<longleftrightarrow> 0 \<le> m \<and> m < 10 ^ 12"

definition advance_request_schema :: "money \<Rightarrow> string \<Rightarrow> unit res" where
  "advance_request_schema m r =
     require (0 < m \<and> amount_ok m \<and> len_between 5 500 r) RequestValidationError (Inr ())"

definition advance_approve_schema :: "money \<Rightarrow> string option \<Rightarrow> unit res" where
  "advance_approve_schema m r = require (amount_ok m \<and> opt_len_between 0 500 r) RequestValidationError (Inr ())"

definition advance_disburse_schema :: "money \<Rightarrow> string \<Rightarrow> string option \<Rightarrow> unit res" where
  "advance_disburse_schema m p n =
     require (0 < m \<and> amount_ok m \<and> len_between 2 100 p \<and> opt_len_between 0 500 n) RequestValidationError (Inr ())"

text \<open>\<open>CashAdvanceReject\<close>, which has no remarks, and \<open>ActualIncomeReject\<close>.\<close>

definition rejection_schema :: "string \<Rightarrow> string option \<Rightarrow> unit res" where
  "rejection_schema s r = require (len_between 5 500 s \<and> opt_len_between 0 500 r) RequestValidationError (Inr ())"

definition income_schema :: "income_create \<Rightarrow> income_create res" where
  "income_schema p =
     require (0 < ic_amount p \<and> amount_ok (ic_amount p) \<and> len_between 3 500 (ic_description p) \<and>
       len_between 2 255 (ic_payer_name p) \<and> opt_len_between 0 100 (ic_reference_number p)) RequestValidationError (Inr p)"

definition audit_schema :: "string option \<Rightarrow> string option \<Rightarrow> unit res" where
  "audit_schema r y = require (opt_len_between 0 1000 r \<and> opt_len_between 0 1000 y) RequestValidationError (Inr ())"

definition payment_schema :: "payment_create \<Rightarrow> payment_create res" where
  "payment_schema p =
     require (0 < pc_amount p \<and> amount_ok (pc_amount p) \<and> len_between 2 100 (pc_transaction_reference p) \<and>
       opt_len_between 0 500 (pc_notes p)) RequestValidationError (Inr p)"

text \<open>The annotated type \<open>ReasonText\<close>: stripped, then five to a thousand characters.\<close>

definition reason_text :: "string \<Rightarrow> string res" where
  "reason_text r = require (len_between 5 1000 (strip r)) RequestValidationError (Inr (strip r))"

section \<open>Claims\<close>

definition create_expense_endpoint ::
    "library \<Rightarrow> string option \<Rightarrow> request \<Rightarrow> uuid \<Rightarrow> expense_create \<Rightarrow> db \<Rightarrow> (actual_expense \<times> db) res" where
  "create_expense_endpoint L t q i p d =
     authenticated L t q d (\<lambda>q. and_then (expense_create_schema p) (\<lambda>p. create_draft_expense q i p d))"

definition get_expense_summary_endpoint ::
    "library \<Rightarrow> string option \<Rightarrow> request \<Rightarrow> uuid \<Rightarrow> db \<Rightarrow> ledger_summary res" where
  "get_expense_summary_endpoint L t q i d =
     authenticated L t q d (\<lambda>q. get_ledger_summary q i d)"

definition list_expenses_endpoint ::
    "library \<Rightarrow> string option \<Rightarrow> request \<Rightarrow> uuid \<Rightarrow> db \<Rightarrow> expense_response list res" where
  "list_expenses_endpoint L t q i d =
     authenticated L t q d (\<lambda>q. get_event_expenses q i d)"

definition get_expense_endpoint ::
    "library \<Rightarrow> string option \<Rightarrow> request \<Rightarrow> uuid \<Rightarrow> uuid \<Rightarrow> db \<Rightarrow> expense_response res" where
  "get_expense_endpoint L t q i x d =
     authenticated L t q d (\<lambda>q. get_single_expense q i x d)"

definition update_expense_endpoint ::
    "library \<Rightarrow> string option \<Rightarrow> request \<Rightarrow> uuid \<Rightarrow> uuid \<Rightarrow> expense_update \<Rightarrow> db \<Rightarrow> (actual_expense \<times> db) res" where
  "update_expense_endpoint L t q i x p d =
     authenticated L t q d (\<lambda>q. and_then (expense_update_schema p) (\<lambda>p. update_expense q i x p d))"

definition delete_expense_endpoint ::
    "library \<Rightarrow> string option \<Rightarrow> request \<Rightarrow> uuid \<Rightarrow> uuid \<Rightarrow> db \<Rightarrow> (unit \<times> db) res" where
  "delete_expense_endpoint L t q i x d =
     authenticated L t q d (\<lambda>q. delete_draft_expense q i x d)"

definition submit_expenses_endpoint ::
    "library \<Rightarrow> string option \<Rightarrow> request \<Rightarrow> uuid \<Rightarrow> uuid list option \<Rightarrow> db \<Rightarrow> (uuid list \<times> db) res" where
  "submit_expenses_endpoint L t q i xs d =
     authenticated L t q d (\<lambda>q. submit_expenses q i xs d)"

definition submit_single_expense_endpoint ::
    "library \<Rightarrow> string option \<Rightarrow> request \<Rightarrow> uuid \<Rightarrow> uuid \<Rightarrow> db \<Rightarrow> (uuid \<times> db) res" where
  "submit_single_expense_endpoint L t q i x d =
     authenticated L t q d (\<lambda>q. and_then (submit_expenses q i (Some [x]) d) (\<lambda>(xs, d').
     case xs of [] \<Rightarrow> Inl InternalError | y # _ \<Rightarrow> Inr (y, d')))"

definition verify_expense_endpoint ::
    "library \<Rightarrow> string option \<Rightarrow> request \<Rightarrow> uuid \<Rightarrow> uuid \<Rightarrow> string option \<Rightarrow> db \<Rightarrow> (actual_expense \<times> db) res" where
  "verify_expense_endpoint L t q i x r d =
     authenticated L t q d (\<lambda>q. verify_expense q i x r d)"

definition partial_verify_expense_endpoint ::
    "library \<Rightarrow> string option \<Rightarrow> request \<Rightarrow> uuid \<Rightarrow> uuid \<Rightarrow> money \<Rightarrow> string \<Rightarrow> db \<Rightarrow> (actual_expense \<times> db) res" where
  "partial_verify_expense_endpoint L t q i x m r d =
     authenticated L t q d (\<lambda>q. require (m > 0) RequestValidationError (
     and_then (remarks_schema r) (\<lambda>r. partial_verify_expense q i x m r d)))"

definition query_expense_endpoint ::
    "library \<Rightarrow> string option \<Rightarrow> request \<Rightarrow> uuid \<Rightarrow> uuid \<Rightarrow> string \<Rightarrow> db \<Rightarrow> (actual_expense \<times> db) res" where
  "query_expense_endpoint L t q i x r d =
     authenticated L t q d (\<lambda>q. and_then (remarks_schema r) (\<lambda>r. query_expense q i x r d))"

definition disallow_expense_endpoint ::
    "library \<Rightarrow> string option \<Rightarrow> request \<Rightarrow> uuid \<Rightarrow> uuid \<Rightarrow> string \<Rightarrow> db \<Rightarrow> (actual_expense \<times> db) res" where
  "disallow_expense_endpoint L t q i x r d =
     authenticated L t q d (\<lambda>q. and_then (remarks_schema r) (\<lambda>r. disallow_expense q i x r d))"

section \<open>Execution and reports\<close>

definition start_event_endpoint ::
    "library \<Rightarrow> string option \<Rightarrow> request \<Rightarrow> uuid \<Rightarrow> db \<Rightarrow> (event \<times> db) res" where
  "start_event_endpoint L t q i d =
     authenticated L t q d (\<lambda>q. start_event q i d)"

definition admin_start_event_endpoint ::
    "library \<Rightarrow> string option \<Rightarrow> request \<Rightarrow> uuid \<Rightarrow> string \<Rightarrow> db \<Rightarrow> (event \<times> db) res" where
  "admin_start_event_endpoint L t q i r d =
     with_role L t q d [SYSTEM_ADMIN] (\<lambda>q. and_then (admin_start_schema r) (\<lambda>r. admin_start_event q i r d))"

definition complete_and_report_event_endpoint ::
    "library \<Rightarrow> string option \<Rightarrow> request \<Rightarrow> uuid \<Rightarrow> report_create \<Rightarrow> db \<Rightarrow> ((event \<times> post_event_report) \<times> db) res" where
  "complete_and_report_event_endpoint L t q i p d =
     authenticated L t q d (\<lambda>q. and_then (report_create_schema p) (\<lambda>p. complete_and_submit_report q i p d))"

definition get_post_event_report_endpoint ::
    "library \<Rightarrow> string option \<Rightarrow> request \<Rightarrow> uuid \<Rightarrow> db \<Rightarrow> post_event_report res" where
  "get_post_event_report_endpoint L t q i d =
     authenticated L t q d (\<lambda>q. get_report i d)"

definition update_post_event_report_endpoint ::
    "library \<Rightarrow> string option \<Rightarrow> request \<Rightarrow> uuid \<Rightarrow> report_update \<Rightarrow> db \<Rightarrow> (post_event_report \<times> db) res" where
  "update_post_event_report_endpoint L t q i p d =
     authenticated L t q d (\<lambda>q. and_then (report_update_schema p) (\<lambda>p. update_report q i p d))"

definition resubmit_post_event_report_endpoint ::
    "library \<Rightarrow> string option \<Rightarrow> request \<Rightarrow> uuid \<Rightarrow> db \<Rightarrow> (post_event_report \<times> db) res" where
  "resubmit_post_event_report_endpoint L t q i d =
     authenticated L t q d (\<lambda>q. resubmit_report q i d)"

definition certify_post_event_report_endpoint ::
    "library \<Rightarrow> string option \<Rightarrow> request \<Rightarrow> uuid \<Rightarrow> string option \<Rightarrow> db \<Rightarrow> (post_event_report \<times> db) res" where
  "certify_post_event_report_endpoint L t q i r d =
     authenticated L t q d (\<lambda>q. and_then (certify_schema r) (\<lambda>r. certify_report q i r d))"

definition request_post_event_report_revision_endpoint ::
    "library \<Rightarrow> string option \<Rightarrow> request \<Rightarrow> uuid \<Rightarrow> string \<Rightarrow> db \<Rightarrow> (post_event_report \<times> db) res" where
  "request_post_event_report_revision_endpoint L t q i r d =
     authenticated L t q d (\<lambda>q. and_then (revision_schema r) (\<lambda>r. request_report_revision q i r d))"

definition get_confirmed_event_endpoint ::
    "library \<Rightarrow> string option \<Rightarrow> request \<Rightarrow> uuid \<Rightarrow> db \<Rightarrow> event res" where
  "get_confirmed_event_endpoint L t q i d =
     authenticated L t q d (\<lambda>q. get_confirmed_event i d)"

section \<open>Advances\<close>

text \<open>The endpoints on an advance or an income take its event from the path and do not look at it.\<close>

definition request_cash_advance_endpoint ::
    "library \<Rightarrow> string option \<Rightarrow> request \<Rightarrow> uuid \<Rightarrow> money \<Rightarrow> string \<Rightarrow> db \<Rightarrow> (cash_advance \<times> db) res" where
  "request_cash_advance_endpoint L t q i m r d =
     with_role L t q d [CLUB_SECRETARY] (\<lambda>q. and_then (advance_request_schema m r) (\<lambda>_. request_advance q i m r d))"

definition get_cash_advance_endpoint ::
    "library \<Rightarrow> string option \<Rightarrow> request \<Rightarrow> uuid \<Rightarrow> db \<Rightarrow> cash_advance option res" where
  "get_cash_advance_endpoint L t q i d =
     authenticated L t q d (\<lambda>q. get_advances_for_event q i d)"

definition approve_cash_advance_endpoint ::
    "library \<Rightarrow> string option \<Rightarrow> request \<Rightarrow> uuid \<Rightarrow> uuid \<Rightarrow> money \<Rightarrow> string option \<Rightarrow> db \<Rightarrow> (cash_advance \<times> db) res" where
  "approve_cash_advance_endpoint L t q i x m r d =
     with_role L t q d [FINANCE_OFFICER] (\<lambda>q. and_then (advance_approve_schema m r) (\<lambda>_. approve_advance q x m r d))"

definition reject_cash_advance_endpoint ::
    "library \<Rightarrow> string option \<Rightarrow> request \<Rightarrow> uuid \<Rightarrow> uuid \<Rightarrow> string \<Rightarrow> db \<Rightarrow> (cash_advance \<times> db) res" where
  "reject_cash_advance_endpoint L t q i x r d =
     with_role L t q d [FINANCE_OFFICER] (\<lambda>q. and_then (rejection_schema r None) (\<lambda>_. reject_advance q x r d))"

definition disburse_cash_advance_endpoint ::
    "library \<Rightarrow> string option \<Rightarrow> request \<Rightarrow> uuid \<Rightarrow> uuid \<Rightarrow> money \<Rightarrow> string \<Rightarrow> time option \<Rightarrow> string option \<Rightarrow> db \<Rightarrow> (cash_advance \<times> db) res" where
  "disburse_cash_advance_endpoint L t q i x m p w n d =
     with_role L t q d [FINANCE_OFFICER] (\<lambda>q. and_then (advance_disburse_schema m p n) (\<lambda>_. disburse_advance q x m p w n d))"

section \<open>Incomes\<close>

definition record_actual_income_endpoint ::
    "library \<Rightarrow> string option \<Rightarrow> request \<Rightarrow> uuid \<Rightarrow> income_create \<Rightarrow> db \<Rightarrow> (actual_income \<times> db) res" where
  "record_actual_income_endpoint L t q i p d =
     with_role L t q d [CLUB_SECRETARY] (\<lambda>q. and_then (income_schema p) (\<lambda>p. record_income q i p d))"

definition list_actual_incomes_endpoint ::
    "library \<Rightarrow> string option \<Rightarrow> request \<Rightarrow> uuid \<Rightarrow> db \<Rightarrow> actual_income list res" where
  "list_actual_incomes_endpoint L t q i d =
     authenticated L t q d (\<lambda>q. get_incomes_for_event q i d)"

definition verify_actual_income_endpoint ::
    "library \<Rightarrow> string option \<Rightarrow> request \<Rightarrow> uuid \<Rightarrow> uuid \<Rightarrow> string option \<Rightarrow> db \<Rightarrow> (actual_income \<times> db) res" where
  "verify_actual_income_endpoint L t q i x r d =
     with_role L t q d [FINANCE_OFFICER] (\<lambda>q. require (opt_len_between 0 500 r) RequestValidationError (
     verify_income q x r d))"

definition reject_actual_income_endpoint ::
    "library \<Rightarrow> string option \<Rightarrow> request \<Rightarrow> uuid \<Rightarrow> uuid \<Rightarrow> string \<Rightarrow> string option \<Rightarrow> db \<Rightarrow> (actual_income \<times> db) res" where
  "reject_actual_income_endpoint L t q i x s r d =
     with_role L t q d [FINANCE_OFFICER] (\<lambda>q. and_then (rejection_schema s r) (\<lambda>_. reject_income q x s r d))"

section \<open>Settlements\<close>

text \<open>The settlement of the event in the path, for a user who may see it.\<close>

definition prepared_for :: "request \<Rightarrow> uuid \<Rightarrow> db \<Rightarrow> financial_settlement res" where
  "prepared_for q i d = and_then (get_settlement q i d) (\<lambda>s. fetch s NotFoundError Inr)"

definition prepare_financial_settlement_endpoint ::
    "library \<Rightarrow> string option \<Rightarrow> request \<Rightarrow> uuid \<Rightarrow> db \<Rightarrow> (financial_settlement \<times> db) res" where
  "prepare_financial_settlement_endpoint L t q i d =
     with_role L t q d [CLUB_SECRETARY] (\<lambda>q. prepare_settlement q i d)"

definition get_financial_settlement_endpoint ::
    "library \<Rightarrow> string option \<Rightarrow> request \<Rightarrow> uuid \<Rightarrow> db \<Rightarrow> (financial_settlement \<times> settlement_payment list \<times> settlement_revision list) res" where
  "get_financial_settlement_endpoint L t q i d =
     authenticated L t q d (\<lambda>q. and_then (prepared_for q i d) (\<lambda>s.
     and_then (get_settlement_payments q (fs_id s) d) (\<lambda>ps.
     and_then (get_settlement_revisions q (fs_id s) d) (\<lambda>rs. Inr (s, ps, rs)))))"

definition submit_financial_settlement_endpoint ::
    "library \<Rightarrow> string option \<Rightarrow> request \<Rightarrow> uuid \<Rightarrow> db \<Rightarrow> (financial_settlement \<times> db) res" where
  "submit_financial_settlement_endpoint L t q i d =
     with_role L t q d [CLUB_SECRETARY] (\<lambda>q. and_then (prepared_for q i d) (\<lambda>s.
     submit_settlement q (fs_id s) d))"

definition audit_financial_settlement_endpoint ::
    "library \<Rightarrow> string option \<Rightarrow> request \<Rightarrow> uuid \<Rightarrow> string \<Rightarrow> string option \<Rightarrow> string option \<Rightarrow> db \<Rightarrow> (financial_settlement \<times> db) res" where
  "audit_financial_settlement_endpoint L t q i a r y d =
     with_role L t q d [FINANCE_OFFICER] (\<lambda>q. and_then (audit_schema r y) (\<lambda>_.
     and_then (prepared_for q i d) (\<lambda>s. audit_settlement q (fs_id s) a r y d)))"

definition reopen_financial_settlement_endpoint ::
    "library \<Rightarrow> string option \<Rightarrow> request \<Rightarrow> uuid \<Rightarrow> string \<Rightarrow> db \<Rightarrow> (settlement_revision \<times> db) res" where
  "reopen_financial_settlement_endpoint L t q i r d =
     with_role L t q d [FINANCE_OFFICER, PRINCIPAL] (\<lambda>q. require (len_between 5 1000 r) RequestValidationError (
     and_then (prepared_for q i d) (\<lambda>s. reopen_settlement q (fs_id s) r d)))"

definition record_settlement_payment_endpoint ::
    "library \<Rightarrow> string option \<Rightarrow> request \<Rightarrow> uuid \<Rightarrow> payment_create \<Rightarrow> db \<Rightarrow> (settlement_payment \<times> db) res" where
  "record_settlement_payment_endpoint L t q i p d =
     with_role L t q d [FINANCE_OFFICER] (\<lambda>q. and_then (payment_schema p) (\<lambda>p.
     and_then (prepared_for q i d) (\<lambda>s. record_payment q (fs_id s) p d)))"

definition list_settlement_payments_endpoint ::
    "library \<Rightarrow> string option \<Rightarrow> request \<Rightarrow> uuid \<Rightarrow> db \<Rightarrow> settlement_payment list res" where
  "list_settlement_payments_endpoint L t q i d =
     authenticated L t q d (\<lambda>q. and_then (prepared_for q i d) (\<lambda>s. get_settlement_payments q (fs_id s) d))"

definition list_settlement_revisions_endpoint ::
    "library \<Rightarrow> string option \<Rightarrow> request \<Rightarrow> uuid \<Rightarrow> db \<Rightarrow> settlement_revision list res" where
  "list_settlement_revisions_endpoint L t q i d =
     authenticated L t q d (\<lambda>q. and_then (prepared_for q i d) (\<lambda>s. get_settlement_revisions q (fs_id s) d))"

definition get_settlement_closure_eligibility_endpoint ::
    "library \<Rightarrow> string option \<Rightarrow> request \<Rightarrow> uuid \<Rightarrow> db \<Rightarrow> closure_eligibility res" where
  "get_settlement_closure_eligibility_endpoint L t q i d =
     authenticated L t q d (\<lambda>q. get_closure_eligibility q i d)"

section \<open>Closeout\<close>

definition get_event_closure_endpoint ::
    "library \<Rightarrow> string option \<Rightarrow> request \<Rightarrow> uuid \<Rightarrow> db \<Rightarrow> closure_details res" where
  "get_event_closure_endpoint L t q i d =
     authenticated L t q d (\<lambda>q. get_closure_details q i d)"

definition request_event_closeout_endpoint ::
    "library \<Rightarrow> string option \<Rightarrow> request \<Rightarrow> uuid \<Rightarrow> string option \<Rightarrow> db \<Rightarrow> (event_status \<times> db) res" where
  "request_event_closeout_endpoint L t q i r d =
     with_role L t q d [CLUB_SECRETARY] (\<lambda>q. require (opt_len_between 0 1000 r) RequestValidationError (
     request_closeout q i r d))"

definition certify_event_closeout_endpoint ::
    "library \<Rightarrow> string option \<Rightarrow> request \<Rightarrow> uuid \<Rightarrow> string option \<Rightarrow> bool \<Rightarrow> db \<Rightarrow> (event_closure \<times> db) res" where
  "certify_event_closeout_endpoint L t q i n v d =
     with_role L t q d [DEAN_STUDENT_AFFAIRS, PRINCIPAL, FACULTY_ADVISOR] (\<lambda>q. require (opt_len_between 0 1000 n) RequestValidationError (
     certify_closeout q i n v d))"

definition reject_event_closeout_endpoint ::
    "library \<Rightarrow> string option \<Rightarrow> request \<Rightarrow> uuid \<Rightarrow> string \<Rightarrow> db \<Rightarrow> (event \<times> db) res" where
  "reject_event_closeout_endpoint L t q i r d =
     with_role L t q d [DEAN_STUDENT_AFFAIRS, PRINCIPAL, FACULTY_ADVISOR] (\<lambda>q. and_then (reason_text r) (\<lambda>r. reject_closeout q i r d))"

definition request_event_reopen_endpoint ::
    "library \<Rightarrow> string option \<Rightarrow> request \<Rightarrow> uuid \<Rightarrow> string \<Rightarrow> db \<Rightarrow> (event_status \<times> db) res" where
  "request_event_reopen_endpoint L t q i r d =
     with_role L t q d [CLUB_SECRETARY, FACULTY_ADVISOR, FINANCE_OFFICER] (\<lambda>q. and_then (reason_text r) (\<lambda>r. request_reopen q i r d))"

definition approve_event_reopen_endpoint ::
    "library \<Rightarrow> string option \<Rightarrow> request \<Rightarrow> uuid \<Rightarrow> string \<Rightarrow> db \<Rightarrow> (event_closure_revision \<times> db) res" where
  "approve_event_reopen_endpoint L t q i r d =
     with_role L t q d [DEAN_STUDENT_AFFAIRS, PRINCIPAL] (\<lambda>q. and_then (reason_text r) (\<lambda>r. approve_reopen q i r d))"

definition archive_event_endpoint ::
    "library \<Rightarrow> string option \<Rightarrow> request \<Rightarrow> uuid \<Rightarrow> db \<Rightarrow> (event \<times> db) res" where
  "archive_event_endpoint L t q i d =
     with_role L t q d [SYSTEM_ADMIN] (\<lambda>q. archive_event q i d)"

section \<open>What the endpoints hand to the services\<close>

datatype settlement_call =
    PostAdvance uuid money string
  | PostAdvanceApproval uuid uuid money "string option"
  | PostAdvanceRejection uuid uuid string
  | PostDisbursement uuid uuid money string "time option" "string option"
  | PostIncome uuid income_create
  | PostIncomeVerification uuid uuid "string option"
  | PostIncomeRejection uuid uuid string "string option"
  | PostPreparation uuid
  | PostSubmission uuid
  | PostAudit uuid string "string option" "string option"
  | PostReopening uuid string
  | PostPayment uuid payment_create

fun settlement_api :: "library \<Rightarrow> string option \<Rightarrow> request \<Rightarrow> settlement_call \<Rightarrow> db \<Rightarrow> db res" where
  "settlement_api L t q (PostAdvance i m r) d = db_of (request_cash_advance_endpoint L t q i m r d)"
| "settlement_api L t q (PostAdvanceApproval i x m r) d = db_of (approve_cash_advance_endpoint L t q i x m r d)"
| "settlement_api L t q (PostAdvanceRejection i x r) d = db_of (reject_cash_advance_endpoint L t q i x r d)"
| "settlement_api L t q (PostDisbursement i x m p w n) d = db_of (disburse_cash_advance_endpoint L t q i x m p w n d)"
| "settlement_api L t q (PostIncome i p) d = db_of (record_actual_income_endpoint L t q i p d)"
| "settlement_api L t q (PostIncomeVerification i x r) d = db_of (verify_actual_income_endpoint L t q i x r d)"
| "settlement_api L t q (PostIncomeRejection i x s r) d = db_of (reject_actual_income_endpoint L t q i x s r d)"
| "settlement_api L t q (PostPreparation i) d = db_of (prepare_financial_settlement_endpoint L t q i d)"
| "settlement_api L t q (PostSubmission i) d = db_of (submit_financial_settlement_endpoint L t q i d)"
| "settlement_api L t q (PostAudit i a r y) d = db_of (audit_financial_settlement_endpoint L t q i a r y d)"
| "settlement_api L t q (PostReopening i r) d = db_of (reopen_financial_settlement_endpoint L t q i r d)"
| "settlement_api L t q (PostPayment i p) d = db_of (record_settlement_payment_endpoint L t q i p d)"

fun expense_api :: "library \<Rightarrow> string option \<Rightarrow> request \<Rightarrow> expense_request \<Rightarrow> db \<Rightarrow> db res" where
  "expense_api L t q (CreateExpense i p) d = db_of (create_expense_endpoint L t q i p d)"
| "expense_api L t q (UpdateExpense i x p) d = db_of (update_expense_endpoint L t q i x p d)"
| "expense_api L t q (DeleteExpense i x) d = db_of (delete_expense_endpoint L t q i x d)"
| "expense_api L t q (SubmitExpenses i xs) d = db_of (submit_expenses_endpoint L t q i xs d)"
| "expense_api L t q (VerifyExpense i x r) d = db_of (verify_expense_endpoint L t q i x r d)"
| "expense_api L t q (PartialVerifyExpense i x m r) d = db_of (partial_verify_expense_endpoint L t q i x m r d)"
| "expense_api L t q (QueryExpense i x r) d = db_of (query_expense_endpoint L t q i x r d)"
| "expense_api L t q (DisallowExpense i x r) d = db_of (disallow_expense_endpoint L t q i x r d)"

fun execution_api :: "library \<Rightarrow> string option \<Rightarrow> request \<Rightarrow> execution_request \<Rightarrow> db \<Rightarrow> db res" where
  "execution_api L t q (StartEvent i) d = db_of (start_event_endpoint L t q i d)"
| "execution_api L t q (AdminStartEvent i r) d = db_of (admin_start_event_endpoint L t q i r d)"
| "execution_api L t q (CompleteEvent i p) d = db_of (complete_and_report_event_endpoint L t q i p d)"
| "execution_api L t q (UpdateReport i p) d = db_of (update_post_event_report_endpoint L t q i p d)"
| "execution_api L t q (ResubmitReport i) d = db_of (resubmit_post_event_report_endpoint L t q i d)"
| "execution_api L t q (CertifyReport i r) d = db_of (certify_post_event_report_endpoint L t q i r d)"
| "execution_api L t q (ReturnReport i r) d = db_of (request_post_event_report_revision_endpoint L t q i r d)"

fun closeout_api :: "library \<Rightarrow> string option \<Rightarrow> request \<Rightarrow> closeout_request \<Rightarrow> db \<Rightarrow> db res" where
  "closeout_api L t q (RequestCloseout i r) d = db_of (request_event_closeout_endpoint L t q i r d)"
| "closeout_api L t q (CertifyCloseout i n v) d = db_of (certify_event_closeout_endpoint L t q i n v d)"
| "closeout_api L t q (RejectCloseout i r) d = db_of (reject_event_closeout_endpoint L t q i r d)"
| "closeout_api L t q (RequestReopen i r) d = db_of (request_event_reopen_endpoint L t q i r d)"
| "closeout_api L t q (ApproveReopen i r) d = db_of (approve_event_reopen_endpoint L t q i r d)"
| "closeout_api L t q (ArchiveEvent i) d = db_of (archive_event_endpoint L t q i d)"

text \<open>Submitting one claim is submitting a list of one.\<close>

lemma submit_single_expense_served:
  assumes "submit_single_expense_endpoint L t q i x d = Inr (y, d')"
  shows "expense_api L t q (SubmitExpenses i (Some [x])) d = Inr d'"
proof -
  from assms obtain u r where u: "sender L t q d u" and r: "submit_expenses (q\<lparr>actor := u\<rparr>) i (Some [x]) d = Inr r"
    and c: "(case fst r of [] \<Rightarrow> Inl InternalError | z # _ \<Rightarrow> Inr (z, snd r)) = (Inr (y, d') :: (uuid \<times> db) res)"
    by (auto simp: submit_single_expense_endpoint_def authenticated_Inr and_then_Inr split_beta)
  from c have "snd r = d'" by (cases "fst r") simp_all
  with r have "submit_expenses (q\<lparr>actor := u\<rparr>) i (Some [x]) d = Inr (fst r, d')" by (cases r) simp
  with u show ?thesis by (auto simp: submit_expenses_endpoint_def authenticated_Inr db_of_Inr)
qed

text \<open>
  Every change an endpoint makes is one its service makes for the sender. A role at the endpoint comes on top of the
  checks of the service.
\<close>

inductive finance_step :: "request \<Rightarrow> db \<Rightarrow> db \<Rightarrow> bool" for q d where
  on_advance: "advance_exec q r d = Inr d' \<Longrightarrow> finance_step q d d'"
| on_income: "income_exec q r d = Inr d' \<Longrightarrow> finance_step q d d'"
| on_settlement: "settlement_exec q r d = Inr d' \<Longrightarrow> finance_step q d d'"

fun finance_roles :: "settlement_call \<Rightarrow> user_role list" where
  "finance_roles (PostAdvance _ _ _) = [CLUB_SECRETARY]"
| "finance_roles (PostIncome _ _) = [CLUB_SECRETARY]"
| "finance_roles (PostPreparation _) = [CLUB_SECRETARY]"
| "finance_roles (PostSubmission _) = [CLUB_SECRETARY]"
| "finance_roles (PostReopening _ _) = [FINANCE_OFFICER, PRINCIPAL]"
| "finance_roles _ = [FINANCE_OFFICER]"

lemmas settlement_endpoint_defs =
  request_cash_advance_endpoint_def approve_cash_advance_endpoint_def reject_cash_advance_endpoint_def
  disburse_cash_advance_endpoint_def record_actual_income_endpoint_def verify_actual_income_endpoint_def
  reject_actual_income_endpoint_def prepare_financial_settlement_endpoint_def submit_financial_settlement_endpoint_def
  audit_financial_settlement_endpoint_def reopen_financial_settlement_endpoint_def
  record_settlement_payment_endpoint_def

lemmas settlement_schema_defs =
  advance_request_schema_def advance_approve_schema_def advance_disburse_schema_def rejection_schema_def
  income_schema_def audit_schema_def payment_schema_def prepared_for_def

lemma advance_stepI:
  "request_advance q i m r d = Inr (x, d') \<Longrightarrow> finance_step q d d'"
  "approve_advance q i m s d = Inr (x, d') \<Longrightarrow> finance_step q d d'"
  "reject_advance q i r d = Inr (x, d') \<Longrightarrow> finance_step q d d'"
  "disburse_advance q i m r w s d = Inr (x, d') \<Longrightarrow> finance_step q d d'"
  by (metis on_advance advance_exec.simps db_of_simps(2))+

lemma income_stepI:
  "record_income q i p d = Inr (y, d') \<Longrightarrow> finance_step q d d'"
  "verify_income q i s d = Inr (y, d') \<Longrightarrow> finance_step q d d'"
  "reject_income q i r s d = Inr (y, d') \<Longrightarrow> finance_step q d d'"
  by (metis on_income income_exec.simps db_of_simps(2))+

lemma settlement_stepI:
  "prepare_settlement q i d = Inr (s, d') \<Longrightarrow> finance_step q d d'"
  "submit_settlement q i d = Inr (s, d') \<Longrightarrow> finance_step q d d'"
  "audit_settlement q i a x y d = Inr (s, d') \<Longrightarrow> finance_step q d d'"
  "record_payment q i p d = Inr (pp, d') \<Longrightarrow> finance_step q d d'"
  "reopen_settlement q i r d = Inr (rv, d') \<Longrightarrow> finance_step q d d'"
  by (metis on_settlement settlement_exec.simps db_of_simps(2))+

lemma settlement_api_served:
  "settlement_api L t q r d = Inr d' \<Longrightarrow>
     \<exists>u. sender L t q d u \<and> us_role u \<in> set (finance_roles r) \<and> finance_step (q\<lparr>actor := u\<rparr>) d d'"
  by (cases r) (auto simp: res_simps settlement_endpoint_defs settlement_schema_defs
      intro: advance_stepI income_stepI settlement_stepI)

lemma expense_api_served:
  "expense_api L t q r d = Inr d' \<Longrightarrow> \<exists>u. sender L t q d u \<and> expense_exec (q\<lparr>actor := u\<rparr>) r d = Inr d'"
  by (cases r) (auto simp: res_simps create_expense_endpoint_def update_expense_endpoint_def
      delete_expense_endpoint_def submit_expenses_endpoint_def verify_expense_endpoint_def
      partial_verify_expense_endpoint_def query_expense_endpoint_def disallow_expense_endpoint_def)

lemma execution_api_served:
  "execution_api L t q r d = Inr d' \<Longrightarrow> \<exists>u. sender L t q d u \<and> execution_exec (q\<lparr>actor := u\<rparr>) r d = Inr d'"
  by (cases r) (auto simp: res_simps start_event_endpoint_def admin_start_event_endpoint_def
      complete_and_report_event_endpoint_def update_post_event_report_endpoint_def
      resubmit_post_event_report_endpoint_def certify_post_event_report_endpoint_def
      request_post_event_report_revision_endpoint_def)

text \<open>The reasons of the closeout reach the service stripped.\<close>

lemma closeout_stepI:
  "request_closeout q i c d = Inr (st, d') \<Longrightarrow> \<exists>r. closeout_exec q r d = Inr d'"
  "certify_closeout q i c v d = Inr (k, d') \<Longrightarrow> \<exists>r. closeout_exec q r d = Inr d'"
  "reject_closeout q i m d = Inr (e, d') \<Longrightarrow> \<exists>r. closeout_exec q r d = Inr d'"
  "request_reopen q i m d = Inr (st, d') \<Longrightarrow> \<exists>r. closeout_exec q r d = Inr d'"
  "approve_reopen q i m d = Inr (kr, d') \<Longrightarrow> \<exists>r. closeout_exec q r d = Inr d'"
  "archive_event q i d = Inr (e, d') \<Longrightarrow> \<exists>r. closeout_exec q r d = Inr d'"
  by (metis closeout_exec.simps db_of_simps(2))+

lemma closeout_api_served:
  "closeout_api L t q r d = Inr d' \<Longrightarrow>
     \<exists>u. sender L t q d u \<and> (\<exists>r'. closeout_exec (q\<lparr>actor := u\<rparr>) r' d = Inr d')"
  by (cases r) (auto simp: res_simps request_event_closeout_endpoint_def certify_event_closeout_endpoint_def
      reject_event_closeout_endpoint_def request_event_reopen_endpoint_def approve_event_reopen_endpoint_def
      archive_event_endpoint_def dest: closeout_stepI)

end
