(* ===== verification/Documents.thy ===== *)
theory Documents
  imports Scenario
begin

text \<open>
  Documents: \<open>src/backend/app/services/document_service.py\<close>. Who may see and change the documents of a proposal,
  the five kinds of upload with their checks of extension, size, signature, path and digest, downloads, removals
  and lists. The database is a \<open>db\<close> as everywhere; the files are a \<open>store\<close>, a map from resolved paths
  to contents, which is written before the transaction commits and is not rolled back. An upload is planned
  first (all its checks, the row, the audit entry, the path) and then performed.
\<close>

section \<open>Files and paths\<close>

text \<open>
  A path is its list of components, a file's content its list of bytes. The store lists the files under their
  resolved paths; symbolic links are not modelled, so \<open>resolve\<close> only removes the dots.
\<close>

type_synonym path = "string list"
type_synonym store = "path \<Rightarrow> string option"

fun split_on :: "char \<Rightarrow> string \<Rightarrow> string list" where
  "split_on c [] = [[]]"
| "split_on c (x # xs) =
     (if x = c then [] # split_on c xs
      else (case split_on c xs of [] \<Rightarrow> [[x]] | w # ws \<Rightarrow> (x # w) # ws))"

definition path_of :: "string \<Rightarrow> path" where
  "path_of s = filter (\<lambda>c. c \<noteq> [] \<and> c \<noteq> ''.'') (split_on CHR ''/'' s)"

fun join_path :: "path \<Rightarrow> string" where
  "join_path [] = []"
| "join_path [c] = c"
| "join_path (c # cs) = c @ ''/'' @ join_path cs"

text \<open>\<open>Path(s).name\<close>, and \<open>root / s\<close>, which is \<open>s\<close> itself when it is absolute.\<close>

definition path_name :: "string \<Rightarrow> string" where
  "path_name s = (if path_of s = [] then [] else last (path_of s))"

definition under :: "path \<Rightarrow> string \<Rightarrow> path" where
  "under root s = (if s \<noteq> [] \<and> hd s = CHR ''/'' then path_of s else root @ path_of s)"

definition resolve :: "path \<Rightarrow> path" where
  "resolve p = foldl (\<lambda>acc c. if c = ''..'' then butlast acc else acc @ [c]) [] p"

definition is_relative_to :: "path \<Rightarrow> path \<Rightarrow> bool" where
  "is_relative_to p root \<longleftrightarrow> take (length root) p = root"

text \<open>The two ways a UUID is printed: \<open>.hex\<close> and \<open>str()\<close>.\<close>

definition hex_digit :: "nat \<Rightarrow> char" where
  "hex_digit n = ''0123456789abcdef'' ! n"

fun hex_digits :: "nat \<Rightarrow> nat \<Rightarrow> string" where
  "hex_digits 0 n = []"
| "hex_digits (Suc k) n = hex_digits k (n div 16) @ [hex_digit (n mod 16)]"

definition uuid_hex :: "uuid \<Rightarrow> string" where
  "uuid_hex i = hex_digits 32 i"

definition uuid_str :: "uuid \<Rightarrow> string" where
  "uuid_str i =
     (let h = uuid_hex i
      in take 8 h @ ''-'' @ take 4 (drop 8 h) @ ''-'' @ take 4 (drop 12 h) @ ''-'' @ take 4 (drop 16 h) @ ''-'' @ drop 20 h)"

section \<open>Uploads\<close>

record doc_settings =
  ALLOWED_EXTENSIONS :: "string list"
  MAX_FILE_SIZE_BYTES :: nat
  storage_root :: path
  sha256_hex :: "string \<Rightarrow> string"

record upload =
  up_filename :: "string option"
  up_content :: string
  up_content_type :: "string option"

definition jpeg_signature :: string where
  "jpeg_signature = [CHR 0xFF, CHR 0xD8, CHR 0xFF]"

definition MAGIC_SIGNATURES :: "(string \<times> string list) list" where
  "MAGIC_SIGNATURES =
     [(''pdf'', [''%PDF-'']), (''png'', [[CHR 0x89] @ ''PNG'' @ [CHR 0x0D, CHR 0x0A, CHR 0x1A, CHR 0x0A]]),
      (''jpg'', [jpeg_signature]), (''jpeg'', [jpeg_signature]), (''docx'', [''PK'' @ [CHR 0x03, CHR 0x04]])]"

definition MIME_TYPE_MAP :: "(string \<times> string) list" where
  "MIME_TYPE_MAP =
     [(''pdf'', ''application/pdf''), (''png'', ''image/png''), (''jpg'', ''image/jpeg''), (''jpeg'', ''image/jpeg''),
      (''docx'', ''application/vnd.openxmlformats-officedocument.wordprocessingml.document'')]"

definition signatures :: "string \<Rightarrow> string list" where
  "signatures ext = (case map_of MAGIC_SIGNATURES ext of None \<Rightarrow> [] | Some s \<Rightarrow> s)"

definition starts_with :: "string \<Rightarrow> string \<Rightarrow> bool" where
  "starts_with content sig \<longleftrightarrow> take (length sig) content = sig"

definition matches_magic :: "string \<Rightarrow> string \<Rightarrow> bool" where
  "matches_magic ext content = list_ex (starts_with content) (signatures ext)"

definition str_default :: "string option \<Rightarrow> string \<Rightarrow> string" where
  "str_default s dflt = (if truthy s then the s else dflt)"

definition extension :: "string \<Rightarrow> string" where
  "extension raw = (if CHR ''.'' \<in> set raw then lower (rev (takeWhile (\<lambda>c. c \<noteq> CHR ''.'') (rev raw))) else [])"

section \<open>Who may see and change documents\<close>

definition reviewer_roles :: "user_role list" where
  "reviewer_roles = [HALL_INCHARGE, FINANCE_OFFICER, ADVISOR_STUDENTS_UNION, DEAN_STUDENT_AFFAIRS, PRINCIPAL]"

definition verify_document_access :: "request \<Rightarrow> event_request \<Rightarrow> db \<Rightarrow> bool" where
  "verify_document_access q ev d \<longleftrightarrow>
     actor_role q = SYSTEM_ADMIN \<or> actor_role q \<in> set reviewer_roles \<or>
     (case club_by_id d (rq_club_id ev) of None \<Rightarrow> False | Some c \<Rightarrow> cl_faculty_advisor_id c = Some (actor_id q)) \<or>
     rq_submitted_by ev = actor_id q \<or>
     scalar (\<lambda>m. cm_club_id m = rq_club_id ev \<and> cm_user_id m = actor_id q \<and> cm_is_active m) (club_members d) \<noteq> None"

definition verify_upload_permission :: "request \<Rightarrow> event_request \<Rightarrow> db \<Rightarrow> unit res" where
  "verify_upload_permission q ev d =
     require (rq_status ev \<in> {RQ_DRAFT, RQ_REVISION_REQUIRED}) WorkflowStateError (
     if actor_role q = SYSTEM_ADMIN \<or> rq_submitted_by ev = actor_id q then Inr ()
     else fetch (secretary_membership d (rq_club_id ev) (actor_id q)) ForbiddenError (\<lambda>_. Inr ()))"

section \<open>Storing\<close>

text \<open>What an upload ends in: a document that is there already, or a file to write with its row and audit entry.\<close>

record plan =
  pl_path :: path
  pl_document :: document
  pl_action :: audit_action
  pl_state :: json

datatype disposition = Reuse document | Store plan

text \<open>The file is written before the transaction commits, so it stays when the commit fails.\<close>

definition planned :: "request \<Rightarrow> plan \<Rightarrow> db \<Rightarrow> db" where
  "planned q p d =
     add_audit q (pl_action p) ''document'' (dc_id (pl_document p)) JNull (pl_state p) None
       (d\<lparr>documents := documents d @ [pl_document p], next_uuid := Suc (dc_id (pl_document p))\<rparr>)"

definition perform :: "request \<Rightarrow> upload \<Rightarrow> disposition res \<Rightarrow> db \<Rightarrow> store \<Rightarrow> (document \<times> db) res \<times> store" where
  "perform q f r d fs =
     (case r of
        Inl e \<Rightarrow> (Inl e, fs)
      | Inr (Reuse x) \<Rightarrow> (Inr (x, d), fs)
      | Inr (Store p) \<Rightarrow> (commit IntegrityError (pl_document p) (planned q p d), fs(pl_path p \<mapsto> up_content f)))"

text \<open>A new row; its identifier is the one drawn after that of the file name.\<close>

definition new_document ::
    "request \<Rightarrow> uuid \<Rightarrow> uuid option \<Rightarrow> document_type \<Rightarrow> string \<Rightarrow> string \<Rightarrow> nat \<Rightarrow> string \<Rightarrow> string \<Rightarrow> string option \<Rightarrow>
       uuid \<Rightarrow> document" where
  "new_document q request_id event_id ty raw stored file_size mime rel hash n =
     \<lparr>dc_id = Suc n, dc_event_request_id = request_id, dc_uploaded_by = actor_id q, dc_document_type = ty,
      dc_original_filename = raw, dc_stored_filename = stored, dc_file_size_bytes = int file_size, dc_mime_type = mime,
      dc_storage_path = rel, dc_is_active = True, dc_event_id = event_id, dc_geo_latitude = None,
      dc_geo_longitude = None, dc_geo_source = None, dc_file_hash = hash, dc_created_at = now q\<rparr>"

definition document_name :: "upload \<Rightarrow> string" where
  "document_name f = str_default (up_filename f) ''file.pdf''"

definition document_plan :: "doc_settings \<Rightarrow> request \<Rightarrow> uuid \<Rightarrow> upload \<Rightarrow> document_type \<Rightarrow> db \<Rightarrow> plan" where
  "document_plan C q event_id f ty d =
     (let raw = document_name f; ext = extension raw; file_size = length (up_content f);
          mime = (case map_of MIME_TYPE_MAP ext of Some m \<Rightarrow> m | None \<Rightarrow> str_default (up_content_type f) ''application/octet-stream'');
          n = next_uuid d; stored = uuid_hex n @ ''.'' @ ext; rel = path_of (uuid_str event_id) @ path_of stored in
      \<lparr>pl_path = resolve (storage_root C @ rel),
       pl_document = new_document q event_id None ty raw stored file_size mime (join_path rel) None n,
       pl_action = A_FILE_UPLOADED,
       pl_state = JObj [(''event_request_id'', JUuid event_id), (''original_filename'', JText raw),
                        (''document_type'', JEnum (J_document_type ty)), (''file_size_bytes'', JInt (int file_size))]\<rparr>)"

definition plan_document :: "doc_settings \<Rightarrow> request \<Rightarrow> uuid \<Rightarrow> upload \<Rightarrow> document_type \<Rightarrow> db \<Rightarrow> disposition res" where
  "plan_document C q event_id f ty d =
     fetch (row rq_id event_id (event_requests d)) NotFoundError (\<lambda>ev.
     and_then (verify_upload_permission q ev d) (\<lambda>_.
     let ext = extension (document_name f); file_size = length (up_content f); p = document_plan C q event_id f ty d in
     require (ext \<in> set (ALLOWED_EXTENSIONS C)) BadRequestError (
     require (file_size \<noteq> 0) BadRequestError (
     require (\<not> file_size > MAX_FILE_SIZE_BYTES C) BadRequestError (
     require (matches_magic ext (up_content f)) BadRequestError (
     require (is_relative_to (pl_path p) (storage_root C)) BadRequestError (Inr (Store p))))))))"

definition upload_document ::
    "doc_settings \<Rightarrow> request \<Rightarrow> uuid \<Rightarrow> upload \<Rightarrow> document_type \<Rightarrow> db \<Rightarrow> store \<Rightarrow> (document \<times> db) res \<times> store" where
  "upload_document C q event_id f ty d fs = perform q f (plan_document C q event_id f ty d) d fs"

section \<open>Evidence of an event\<close>

text \<open>The event, by its own identifier or by that of its proposal.\<close>

definition event_of :: "uuid \<Rightarrow> db \<Rightarrow> event res" where
  "event_of event_id d =
     fetch (scalar (\<lambda>e. ev_id e = event_id \<or> ev_event_request_id e = event_id) (events d)) NotFoundError Inr"

definition secretary_or_admin :: "request \<Rightarrow> event \<Rightarrow> db \<Rightarrow> unit res" where
  "secretary_or_admin q ev d =
     (if actor_role q = SYSTEM_ADMIN then Inr ()
      else fetch (secretary_membership d (ev_club_id ev) (actor_id q)) ForbiddenError (\<lambda>_. Inr ()))"

record geo =
  geo_latitude :: "int option"
  geo_longitude :: "int option"
  geo_source :: "string option"

definition evidence_dir :: "doc_settings \<Rightarrow> event \<Rightarrow> path" where
  "evidence_dir C ev = resolve (storage_root C @ path_of (uuid_str (ev_event_request_id ev)))"

definition evidence_name :: "upload \<Rightarrow> string" where
  "evidence_name f = str_default (up_filename f) ''photo.jpg''"

definition evidence_plan :: "doc_settings \<Rightarrow> request \<Rightarrow> event \<Rightarrow> upload \<Rightarrow> document_type \<Rightarrow> geo \<Rightarrow> db \<Rightarrow> plan" where
  "evidence_plan C q ev f ty g d =
     (let raw = evidence_name f; ext = extension raw; file_size = length (up_content f);
          n = next_uuid d; stored = uuid_hex n @ ''.'' @ ext in
      \<lparr>pl_path = resolve (evidence_dir C ev @ path_of stored),
       pl_document =
         (new_document q (ev_event_request_id ev) (Some (ev_id ev)) ty raw stored file_size
            (str_default (up_content_type f) (''image/'' @ ext)) (uuid_str (ev_event_request_id ev) @ ''/'' @ stored) None n)
         \<lparr>dc_geo_latitude := geo_latitude g, dc_geo_longitude := geo_longitude g,
          dc_geo_source := (if truthy (geo_source g) then geo_source g
                            else if geo_latitude g \<noteq> None then Some ''CLIENT_DECLARED'' else None)\<rparr>,
       pl_action = A_POST_EVENT_EVIDENCE_UPLOADED,
       pl_state = JObj [(''event_id'', JUuid (ev_id ev)), (''original_filename'', JText raw),
                        (''document_type'', JEnum (J_document_type ty)), (''file_size_bytes'', JInt (int file_size)),
                        (''has_geo'', JBool (geo_latitude g \<noteq> None))]\<rparr>)"

definition plan_post_event_evidence ::
    "doc_settings \<Rightarrow> request \<Rightarrow> uuid \<Rightarrow> upload \<Rightarrow> document_type \<Rightarrow> geo \<Rightarrow> db \<Rightarrow> disposition res" where
  "plan_post_event_evidence C q event_id f ty g d =
     (case event_of event_id d of
       Inl e \<Rightarrow> Inl e
     | Inr ev \<Rightarrow>
     require (ev_status ev \<notin> {EV_CLOSED, EV_ARCHIVED}) ConflictError (
     require (ev_status ev \<in> {EV_IN_PROGRESS, EV_COMPLETED}) WorkflowStateError (
     and_then (secretary_or_admin q ev d) (\<lambda>_.
     let ext = extension (evidence_name f); file_size = length (up_content f); p = evidence_plan C q ev f ty g d in
     require (ext \<in> set (ALLOWED_EXTENSIONS C)) BadRequestError (
     require (\<not> file_size > MAX_FILE_SIZE_BYTES C) BadRequestError (
     require (file_size \<noteq> 0) BadRequestError (
     require (matches_magic ext (up_content f)) BadRequestError (
     require (is_relative_to (evidence_dir C ev) (storage_root C)) ForbiddenError (
     require (is_relative_to (pl_path p) (storage_root C)) ForbiddenError (Inr (Store p)))))))))))"

definition upload_post_event_evidence ::
    "doc_settings \<Rightarrow> request \<Rightarrow> uuid \<Rightarrow> upload \<Rightarrow> document_type \<Rightarrow> geo \<Rightarrow> db \<Rightarrow> store \<Rightarrow> (document \<times> db) res \<times> store" where
  "upload_post_event_evidence C q event_id f ty g d fs = perform q f (plan_post_event_evidence C q event_id f ty g d) d fs"

section \<open>Bills, income evidence and payment proofs\<close>

definition checked_voucher :: "doc_settings \<Rightarrow> string \<Rightarrow> upload \<Rightarrow> (string \<times> string) res" where
  "checked_voucher C dflt f =
     require (length (up_content f) \<noteq> 0) BadRequestError (
     require (\<not> length (up_content f) > MAX_FILE_SIZE_BYTES C) BadRequestError (
     let raw = path_name (str_default (up_filename f) dflt); ext = extension raw in
     require (ext \<in> {''pdf'', ''png'', ''jpg'', ''jpeg''}) BadRequestError (
     require (\<not> (signatures ext \<noteq> [] \<and> \<not> matches_magic ext (up_content f))) BadRequestError (Inr (raw, ext)))))"

definition plan_voucher ::
    "doc_settings \<Rightarrow> request \<Rightarrow> event \<Rightarrow> string \<Rightarrow> document_type \<Rightarrow> audit_action \<Rightarrow> string \<Rightarrow> string \<Rightarrow> upload \<Rightarrow> db \<Rightarrow>
       disposition res" where
  "plan_voucher C q ev folder ty action raw ext f d =
     (let file_size = length (up_content f); hash = sha256_hex C (up_content f);
          mime = (case map_of MIME_TYPE_MAP ext of Some m \<Rightarrow> m | None \<Rightarrow> ''application/octet-stream'');
          n = next_uuid d; stored = uuid_str n @ ''.'' @ ext;
          rel = [''events'', uuid_str (ev_id ev), folder, stored]; full = resolve (storage_root C @ rel) in
      require (is_relative_to full (storage_root C)) BadRequestError (
      Inr (Store
        \<lparr>pl_path = full,
         pl_document = new_document q (ev_event_request_id ev) (Some (ev_id ev)) ty raw stored file_size mime (join_path rel) (Some hash) n,
         pl_action = action,
         pl_state = JObj [(''event_id'', JUuid (ev_id ev)), (''original_filename'', JText raw),
                          (''document_type'', JEnum (J_document_type ty)), (''file_size_bytes'', JInt (int file_size)),
                          (''file_hash'', JText hash)]\<rparr>)))"

text \<open>An active bill with this digest; \<open>event_id != id\<close> is not true of a row without an event.\<close>

definition live_bill :: "string \<Rightarrow> document \<Rightarrow> bool" where
  "live_bill hash x \<longleftrightarrow> dc_file_hash x = Some hash \<and> dc_document_type x = DT_EXPENSE_INVOICE \<and> dc_is_active x"

definition plan_expense_invoice :: "doc_settings \<Rightarrow> request \<Rightarrow> uuid \<Rightarrow> upload \<Rightarrow> db \<Rightarrow> disposition res" where
  "plan_expense_invoice C q event_id f d =
     (case event_of event_id d of
       Inl e \<Rightarrow> Inl e
     | Inr ev \<Rightarrow>
     require (ev_status ev = EV_COMPLETED) WorkflowStateError (
     and_then (secretary_or_admin q ev d) (\<lambda>_.
     and_then (checked_voucher C ''invoice.pdf'' f) (\<lambda>(raw, ext).
     let hash = sha256_hex C (up_content f) in
     require (scalar (\<lambda>x. live_bill hash x \<and> dc_event_id x \<noteq> None \<and> dc_event_id x \<noteq> Some (ev_id ev)) (documents d) = None)
       ConflictError (
     case scalar (\<lambda>x. live_bill hash x \<and> dc_event_id x = Some (ev_id ev)) (documents d) of
       Some x \<Rightarrow> Inr (Reuse x)
     | None \<Rightarrow> plan_voucher C q ev ''expenses'' DT_EXPENSE_INVOICE A_EXPENSE_DOCUMENT_ATTACHED raw ext f d)))))"

definition upload_expense_invoice ::
    "doc_settings \<Rightarrow> request \<Rightarrow> uuid \<Rightarrow> upload \<Rightarrow> db \<Rightarrow> store \<Rightarrow> (document \<times> db) res \<times> store" where
  "upload_expense_invoice C q event_id f d fs = perform q f (plan_expense_invoice C q event_id f d) d fs"

definition plan_income_evidence :: "doc_settings \<Rightarrow> request \<Rightarrow> uuid \<Rightarrow> upload \<Rightarrow> db \<Rightarrow> disposition res" where
  "plan_income_evidence C q event_id f d =
     (case event_of event_id d of
       Inl e \<Rightarrow> Inl e
     | Inr ev \<Rightarrow>
     require (ev_status ev = EV_COMPLETED) WorkflowStateError (
     and_then (secretary_or_admin q ev d) (\<lambda>_.
     and_then (checked_voucher C ''income_evidence.pdf'' f) (\<lambda>(raw, ext).
     plan_voucher C q ev ''incomes'' DT_INCOME_EVIDENCE A_FILE_UPLOADED raw ext f d))))"

definition upload_income_evidence ::
    "doc_settings \<Rightarrow> request \<Rightarrow> uuid \<Rightarrow> upload \<Rightarrow> db \<Rightarrow> store \<Rightarrow> (document \<times> db) res \<times> store" where
  "upload_income_evidence C q event_id f d fs = perform q f (plan_income_evidence C q event_id f d) d fs"

definition plan_payment_proof :: "doc_settings \<Rightarrow> request \<Rightarrow> uuid \<Rightarrow> upload \<Rightarrow> db \<Rightarrow> disposition res" where
  "plan_payment_proof C q event_id f d =
     (case event_of event_id d of
       Inl e \<Rightarrow> Inl e
     | Inr ev \<Rightarrow>
     require (ev_status ev \<notin> {EV_CLOSED, EV_ARCHIVED}) ConflictError (
     require (actor_role q = FINANCE_OFFICER) ForbiddenError (
     and_then (checked_voucher C ''payment_proof.pdf'' f) (\<lambda>(raw, ext).
     plan_voucher C q ev ''settlement'' DT_SETTLEMENT_PAYMENT_PROOF A_FILE_UPLOADED raw ext f d))))"

definition upload_settlement_payment_proof ::
    "doc_settings \<Rightarrow> request \<Rightarrow> uuid \<Rightarrow> upload \<Rightarrow> db \<Rightarrow> store \<Rightarrow> (document \<times> db) res \<times> store" where
  "upload_settlement_payment_proof C q event_id f d fs = perform q f (plan_payment_proof C q event_id f d) d fs"

section \<open>Reading and removing\<close>

definition list_documents :: "request \<Rightarrow> uuid \<Rightarrow> db \<Rightarrow> document list res" where
  "list_documents q event_id d =
     fetch (row rq_id event_id (event_requests d)) NotFoundError (\<lambda>ev.
     require (verify_document_access q ev d) ForbiddenError (
     Inr (sort_key dc_created_at (filter (\<lambda>x. dc_event_request_id x = event_id \<and> dc_is_active x) (documents d)))))"

definition list_post_event_evidence :: "uuid \<Rightarrow> db \<Rightarrow> document list res" where
  "list_post_event_evidence event_id d =
     and_then (event_of event_id d) (\<lambda>ev.
     Inr (sort_key (\<lambda>x. - dc_created_at x)
       (filter (\<lambda>x. (dc_event_id x = Some (ev_id ev) \<or> dc_event_request_id x = ev_event_request_id ev) \<and> dc_is_active x \<and>
                    dc_document_type x = DT_POST_EVENT_PHOTO) (documents d))))"

definition document_in :: "uuid \<Rightarrow> uuid \<Rightarrow> db \<Rightarrow> document res" where
  "document_in event_id doc_id d =
     fetch (scalar (\<lambda>x. dc_id x = doc_id \<and> dc_event_request_id x = event_id) (documents d)) NotFoundError (\<lambda>x.
     require (dc_is_active x) NotFoundError (Inr x))"

definition get_document_for_download ::
    "doc_settings \<Rightarrow> request \<Rightarrow> uuid \<Rightarrow> uuid \<Rightarrow> db \<Rightarrow> store \<Rightarrow> ((document \<times> path) \<times> db) res" where
  "get_document_for_download C q event_id doc_id d fs =
     fetch (row rq_id event_id (event_requests d)) NotFoundError (\<lambda>ev.
     require (verify_document_access q ev d) ForbiddenError (
     and_then (document_in event_id doc_id d) (\<lambda>x.
     let full = resolve (under (storage_root C) (dc_storage_path x)) in
     require (is_relative_to full (storage_root C) \<and> fs full \<noteq> None) NotFoundError (
     commit IntegrityError (x, full)
       (add_audit q A_FILE_DOWNLOADED ''document'' (dc_id x) JNull
          (JObj [(''original_filename'', JText (dc_original_filename x))]) None d)))))"

definition delete_document :: "request \<Rightarrow> uuid \<Rightarrow> uuid \<Rightarrow> db \<Rightarrow> (document \<times> db) res" where
  "delete_document q event_id doc_id d =
     fetch (row rq_id event_id (event_requests d)) NotFoundError (\<lambda>ev.
     and_then (verify_upload_permission q ev d) (\<lambda>_.
     and_then (document_in event_id doc_id d) (\<lambda>x.
     let x' = x\<lparr>dc_is_active := False\<rparr> in
     commit IntegrityError x'
       (add_audit q A_FILE_DELETED ''document'' (dc_id x) (JObj [(''is_active'', JBool True)]) (JObj [(''is_active'', JBool False)])
          None (d\<lparr>documents := put dc_id x' (documents d)\<rparr>)))))"

datatype document_request =
    UploadDocument uuid upload document_type
  | UploadEvidence uuid upload geo
  | UploadInvoice uuid upload
  | UploadIncomeEvidence uuid upload
  | UploadPaymentProof uuid upload
  | Download uuid uuid
  | DeleteDocument uuid uuid

fun document_serve :: "doc_settings \<Rightarrow> request \<Rightarrow> document_request \<Rightarrow> db \<times> store \<Rightarrow> db res \<times> store" where
  "document_serve C q (UploadDocument i f ty) (d, fs) = map_prod db_of id (upload_document C q i f ty d fs)"
| "document_serve C q (UploadEvidence i f g) (d, fs) =
     map_prod db_of id (upload_post_event_evidence C q i f DT_POST_EVENT_PHOTO g d fs)"
| "document_serve C q (UploadInvoice i f) (d, fs) = map_prod db_of id (upload_expense_invoice C q i f d fs)"
| "document_serve C q (UploadIncomeEvidence i f) (d, fs) = map_prod db_of id (upload_income_evidence C q i f d fs)"
| "document_serve C q (UploadPaymentProof i f) (d, fs) = map_prod db_of id (upload_settlement_payment_proof C q i f d fs)"
| "document_serve C q (Download i x) (d, fs) = (db_of (get_document_for_download C q i x d fs), fs)"
| "document_serve C q (DeleteDocument i x) (d, fs) = (db_of (delete_document q i x d), fs)"

end
