(* ===== verification/Files.thy ===== *)
theory Files
  imports Documents
begin

text \<open>
  What the document service promises: file names are as unique as the identifiers they are made of, so a file is
  never overwritten; every file written or served lies inside the storage root; an uploaded document comes back
  as it was; no bill is attached twice. The requests run on the pair of database and files; the contracts of
  Interfaces hold for the database whatever files are found.
\<close>

section \<open>Names and paths\<close>

lemma hex_digit_in: "n < 16 \<Longrightarrow> hex_digit n \<in> set ''0123456789abcdef''"
  unfolding hex_digit_def by (rule nth_mem) simp

lemma hex_digit_inj: "a < 16 \<Longrightarrow> b < 16 \<Longrightarrow> hex_digit a = hex_digit b \<longleftrightarrow> a = b"
  unfolding hex_digit_def by (rule nth_eq_iff_index_eq) simp_all

lemma set_hex_digits: "set (hex_digits k n) \<subseteq> set ''0123456789abcdef''"
proof (induction k arbitrary: n)
  case (Suc k)
  have "hex_digit (n mod 16) \<in> set ''0123456789abcdef''" by (rule hex_digit_in) simp
  with Suc [of "n div 16"] show ?case by simp
qed simp

lemma length_hex_digits [simp]: "length (hex_digits k n) = k"
  by (induction k arbitrary: n) simp_all

lemma hex_digits_inj: "n < 16 ^ k \<Longrightarrow> m < 16 ^ k \<Longrightarrow> hex_digits k n = hex_digits k m \<Longrightarrow> n = m"
proof (induction k arbitrary: n m)
  case (Suc k)
  then have "n div 16 = m div 16" "hex_digit (n mod 16) = hex_digit (m mod 16)"
    by (auto intro!: Suc.IH simp: less_mult_imp_div_less mult.commute)
  then have "n div 16 = m div 16" "n mod 16 = m mod 16" using hex_digit_inj [of "n mod 16" "m mod 16"] by simp_all
  then show ?case by (metis div_mult_mod_eq)
qed simp

lemma uuid_hex_chars: "c \<in> set (uuid_hex n) \<Longrightarrow> c \<in> set ''0123456789abcdef''"
  using set_hex_digits [of 32 n] unfolding uuid_hex_def by blast

lemma uuid_str_chars: "c \<in> set (uuid_str n) \<Longrightarrow> c \<in> set ''0123456789abcdef-''"
  by (auto simp: uuid_str_def Let_def dest!: in_set_takeD in_set_dropD uuid_hex_chars)

lemma uuid_lengths [simp]: "length (uuid_hex n) = 32" "length (uuid_str n) = 36"
  by (simp_all add: uuid_hex_def uuid_str_def Let_def)

text \<open>A file name gives its identifier back.\<close>

definition stem :: "string \<Rightarrow> string" where
  "stem s = filter (\<lambda>c. c \<noteq> CHR ''-'') (takeWhile (\<lambda>c. c \<noteq> CHR ''.'') s)"

lemma takeWhile_stop: "(\<forall>c\<in>set s. c \<noteq> x) \<Longrightarrow> takeWhile (\<lambda>c. c \<noteq> x) (s @ x # t) = s"
  by (induction s) auto

lemma stem_hex: "stem (uuid_hex n @ ''.'' @ e) = uuid_hex n"
proof -
  have "\<forall>c\<in>set (uuid_hex n). c \<noteq> CHR ''.'' \<and> c \<noteq> CHR ''-''" using uuid_hex_chars by fastforce
  then show ?thesis by (simp add: stem_def takeWhile_stop)
qed

lemma stem_str: "stem (uuid_str n @ ''.'' @ e) = uuid_hex n"
proof -
  have a: "\<forall>c\<in>set (uuid_str n). c \<noteq> CHR ''.''" using uuid_str_chars by fastforce
  have "\<forall>c\<in>set (uuid_hex n). c \<noteq> CHR ''-''" using uuid_hex_chars by fastforce
  then have keep: "filter (\<lambda>c. c \<noteq> CHR ''-'') s = s" if "set s \<subseteq> set (uuid_hex n)" for s
    using that by (intro filter_True) auto
  let ?h = "uuid_hex n"
  have k: "filter (\<lambda>c. c \<noteq> CHR ''-'') (take i (drop j ?h)) = take i (drop j ?h)"
    "filter (\<lambda>c. c \<noteq> CHR ''-'') (drop j ?h) = drop j ?h" "filter (\<lambda>c. c \<noteq> CHR ''-'') (take i ?h) = take i ?h" for i j
    by (rule keep, auto dest: in_set_takeD in_set_dropD)+
  have "?h = take 8 ?h @ drop 8 ?h" "drop 8 ?h = take 4 (drop 8 ?h) @ drop 12 ?h"
    "drop 12 ?h = take 4 (drop 12 ?h) @ drop 16 ?h" "drop 16 ?h = take 4 (drop 16 ?h) @ drop 20 ?h"
    using append_take_drop_id [of 8 ?h] append_take_drop_id [of 4 "drop 8 ?h"] append_take_drop_id [of 4 "drop 12 ?h"]
      append_take_drop_id [of 4 "drop 16 ?h"] by simp_all
  then have "?h = take 8 ?h @ take 4 (drop 8 ?h) @ take 4 (drop 12 ?h) @ take 4 (drop 16 ?h) @ drop 20 ?h" by metis
  moreover have "filter (\<lambda>c. c \<noteq> CHR ''-'') (uuid_str n) =
      take 8 ?h @ take 4 (drop 8 ?h) @ take 4 (drop 12 ?h) @ take 4 (drop 16 ?h) @ drop 20 ?h"
    unfolding uuid_str_def Let_def
    by (simp add: k)
  ultimately show ?thesis using a by (simp add: stem_def takeWhile_stop)
qed

lemma split_on_none: "c \<notin> set s \<Longrightarrow> split_on c s = [s]"
  by (induction s) auto

lemma split_on_cut: "c \<notin> set s \<Longrightarrow> split_on c (s @ c # t) = s # split_on c t"
  by (induction s) auto

lemma path_of_one: "CHR ''/'' \<notin> set s \<Longrightarrow> 2 < length s \<Longrightarrow> path_of s = [s]"
  by (auto simp: path_of_def split_on_none)

lemma path_of_uuid: "path_of (uuid_str n) = [uuid_str n]"
  by (rule path_of_one) (use uuid_str_chars in \<open>fastforce+\<close>)

lemma path_of_join: "CHR ''/'' \<notin> set a \<Longrightarrow> 2 < length a \<Longrightarrow> path_of (a @ ''/'' @ s) = a # path_of s"
  by (auto simp: path_of_def split_on_cut)

lemma resolve_root: "resolve root = root \<Longrightarrow> ''..'' \<notin> set rel \<Longrightarrow> resolve (root @ rel) = root @ rel"
proof -
  have "''..'' \<notin> set rel \<Longrightarrow> foldl (\<lambda>acc c. if c = ''..'' then butlast acc else acc @ [c]) p rel = p @ rel" for p
    by (induction rel arbitrary: p) auto
  then show "resolve root = root \<Longrightarrow> ''..'' \<notin> set rel \<Longrightarrow> resolve (root @ rel) = root @ rel" by (simp add: resolve_def)
qed

lemma relative_root [simp]: "is_relative_to (root @ rel) root"
  by (simp add: is_relative_to_def)

text \<open>The storage root is a resolved path, and no allowed extension has a slash.\<close>

definition settings_ok :: "doc_settings \<Rightarrow> bool" where
  "settings_ok C \<longleftrightarrow> resolve (storage_root C) = storage_root C \<and> list_all (\<lambda>e. CHR ''/'' \<notin> set e) (ALLOWED_EXTENSIONS C)"

section \<open>What an upload plans\<close>

definition is_bill :: "document \<Rightarrow> bool" where
  "is_bill x \<longleftrightarrow> dc_file_hash x \<noteq> None \<and> dc_document_type x = DT_EXPENSE_INVOICE \<and> dc_is_active x"

definition plan_ok :: "doc_settings \<Rightarrow> db \<Rightarrow> plan \<Rightarrow> bool" where
  "plan_ok C d p \<longleftrightarrow>
     dc_id (pl_document p) = Suc (next_uuid d) \<and> is_relative_to (pl_path p) (storage_root C) \<and>
     (is_bill (pl_document p) \<longrightarrow> dc_event_id (pl_document p) \<noteq> None \<and>
        (\<forall>y\<in>set (documents d). is_bill y \<and> dc_event_id y \<noteq> None \<longrightarrow> dc_file_hash y \<noteq> dc_file_hash (pl_document p))) \<and>
     (settings_ok C \<longrightarrow> pl_path p \<noteq> [] \<and> stem (last (pl_path p)) = uuid_hex (next_uuid d))"

lemma new_document_simps [simp]:
  "dc_id (new_document q r e ty raw stored file_size mime rel hash n) = Suc n"
  "dc_is_active (new_document q r e ty raw stored file_size mime rel hash n)"
  "dc_document_type (new_document q r e ty raw stored file_size mime rel hash n) = ty"
  "dc_event_request_id (new_document q r e ty raw stored file_size mime rel hash n) = r"
  "dc_event_id (new_document q r e ty raw stored file_size mime rel hash n) = e"
  "dc_file_hash (new_document q r e ty raw stored file_size mime rel hash n) = hash"
  "dc_storage_path (new_document q r e ty raw stored file_size mime rel hash n) = rel"
  "dc_mime_type (new_document q r e ty raw stored file_size mime rel hash n) = mime"
  "dc_stored_filename (new_document q r e ty raw stored file_size mime rel hash n) = stored"
  by (simp_all add: new_document_def)

lemma no_dots: "2 < length s \<Longrightarrow> s \<noteq> ''..''"
  by auto

lemma stored_path:
  assumes "resolve root = root" and "CHR ''/'' \<notin> set ext"
  shows "path_of (uuid_hex n @ ''.'' @ ext) = [uuid_hex n @ ''.'' @ ext]"
    and "resolve (root @ [uuid_str i, uuid_hex n @ ''.'' @ ext]) = root @ [uuid_str i, uuid_hex n @ ''.'' @ ext]"
    and "resolve (root @ [uuid_str i]) = root @ [uuid_str i]"
proof -
  have "CHR ''/'' \<notin> set (uuid_hex n)" using uuid_hex_chars by fastforce
  with assms(2) show "path_of (uuid_hex n @ ''.'' @ ext) = [uuid_hex n @ ''.'' @ ext]" by (intro path_of_one) simp_all
  have "uuid_str i \<noteq> ''..''" "uuid_hex n @ ''.'' @ ext \<noteq> ''..''" by (rule no_dots, simp)+
  then show "resolve (root @ [uuid_str i, uuid_hex n @ ''.'' @ ext]) = root @ [uuid_str i, uuid_hex n @ ''.'' @ ext]"
    and "resolve (root @ [uuid_str i]) = root @ [uuid_str i]"
    by (auto intro!: resolve_root [OF assms(1)])
qed

lemma document_plan_path:
  assumes "settings_ok C" and "extension (document_name f) \<in> set (ALLOWED_EXTENSIONS C)"
  shows "pl_path (document_plan C q i f ty d) =
      storage_root C @ [uuid_str i, uuid_hex (next_uuid d) @ ''.'' @ extension (document_name f)]"
    and "under (storage_root C) (dc_storage_path (pl_document (document_plan C q i f ty d))) =
      pl_path (document_plan C q i f ty d)"
proof -
  let ?stored = "uuid_hex (next_uuid d) @ ''.'' @ extension (document_name f)"
  have s: "resolve (storage_root C) = storage_root C" "CHR ''/'' \<notin> set (extension (document_name f))"
    using assms by (auto simp: settings_ok_def list_all_iff)
  note sp = stored_path [OF s]
  show p: "pl_path (document_plan C q i f ty d) = storage_root C @ [uuid_str i, ?stored]"
    using sp by (simp add: document_plan_def Let_def path_of_uuid)
  have u: "CHR ''/'' \<notin> set (uuid_str i)" using uuid_str_chars by fastforce
  have len: "2 < length (uuid_str i)" by simp
  then have "uuid_str i \<noteq> []" by (metis less_zeroE list.size(3))
  with u have "hd (uuid_str i) \<noteq> CHR ''/''" by (metis hd_in_set)
  with path_of_join [OF u len, of ?stored] sp(1) \<open>uuid_str i \<noteq> []\<close>
  show "under (storage_root C) (dc_storage_path (pl_document (document_plan C q i f ty d))) = pl_path (document_plan C q i f ty d)"
    unfolding p by (simp add: document_plan_def Let_def path_of_uuid under_def)
qed

lemma plan_documentD:
  assumes "plan_document C q i f ty d = Inr r"
  shows "r = Store (document_plan C q i f ty d) \<and> plan_ok C d (document_plan C q i f ty d) \<and>
    extension (document_name f) \<in> set (ALLOWED_EXTENSIONS C)"
proof -
  let ?p = "document_plan C q i f ty d"
  from assms have ext: "extension (document_name f) \<in> set (ALLOWED_EXTENSIONS C)" and r: "r = Store ?p"
    and rel: "is_relative_to (pl_path ?p) (storage_root C)"
    unfolding plan_document_def Let_def by (auto simp: res_simps)
  have "plan_ok C d ?p"
    unfolding plan_ok_def
  proof (intro conjI impI)
    assume "settings_ok C"
    from document_plan_path(1) [OF this ext] stem_hex
    show "pl_path ?p \<noteq> []" "stem (last (pl_path ?p)) = uuid_hex (next_uuid d)" by simp_all
  qed (use rel in \<open>simp_all add: document_plan_def Let_def is_bill_def\<close>)
  with r ext show ?thesis by simp
qed

lemma plan_evidenceD:
  assumes "plan_post_event_evidence C q i f ty g d = Inr r"
  obtains p where "r = Store p" "plan_ok C d p"
proof -
  let ?ext = "extension (evidence_name f)"
  from assms obtain ev where ext: "?ext \<in> set (ALLOWED_EXTENSIONS C)" and r: "r = Store (evidence_plan C q ev f ty g d)"
    and rel: "is_relative_to (pl_path (evidence_plan C q ev f ty g d)) (storage_root C)"
    unfolding plan_post_event_evidence_def Let_def by (auto simp: res_simps split: sum.splits)
  have "plan_ok C d (evidence_plan C q ev f ty g d)"
    unfolding plan_ok_def
  proof (intro conjI impI)
    assume "settings_ok C"
    then have s: "resolve (storage_root C) = storage_root C" "CHR ''/'' \<notin> set ?ext"
      using ext by (auto simp: settings_ok_def list_all_iff)
    from stored_path [OF s] stem_hex [of "next_uuid d" ?ext]
    show "pl_path (evidence_plan C q ev f ty g d) \<noteq> []"
      "stem (last (pl_path (evidence_plan C q ev f ty g d))) = uuid_hex (next_uuid d)"
      by (simp_all add: evidence_plan_def evidence_dir_def Let_def path_of_uuid)
  qed (use rel in \<open>simp_all add: evidence_plan_def Let_def is_bill_def\<close>)
  with r show ?thesis by (intro that)
qed

lemma plan_voucherD:
  assumes "plan_voucher C q ev folder ty action raw ext f d = Inr r" and "folder \<noteq> ''..''"
    and free: "ty = DT_EXPENSE_INVOICE \<Longrightarrow>
      \<forall>y\<in>set (documents d). live_bill (sha256_hex C (up_content f)) y \<longrightarrow> dc_event_id y = None"
  obtains p where "r = Store p" "plan_ok C d p"
proof -
  let ?stored = "uuid_str (next_uuid d) @ ''.'' @ ext"
  let ?full = "resolve (storage_root C @ [''events'', uuid_str (ev_id ev), folder, ?stored])"
  from assms(1) obtain file_size mime rel st where rel: "is_relative_to ?full (storage_root C)"
    and r: "r = Store \<lparr>pl_path = ?full,
      pl_document = new_document q (ev_event_request_id ev) (Some (ev_id ev)) ty raw ?stored file_size mime rel
        (Some (sha256_hex C (up_content f))) (next_uuid d),
      pl_action = action, pl_state = st\<rparr>"
    unfolding plan_voucher_def Let_def by (auto simp: res_simps)
  have "uuid_str (ev_id ev) \<noteq> ''..''" "?stored \<noteq> ''..''" by (rule no_dots, simp)+
  then have "?full = storage_root C @ [''events'', uuid_str (ev_id ev), folder, ?stored]" if "settings_ok C"
    using that assms(2) by (intro resolve_root) (auto simp: settings_ok_def)
  then have "plan_ok C d \<lparr>pl_path = ?full,
      pl_document = new_document q (ev_event_request_id ev) (Some (ev_id ev)) ty raw ?stored file_size mime rel
        (Some (sha256_hex C (up_content f))) (next_uuid d),
      pl_action = action, pl_state = st\<rparr>"
    using rel free stem_str [of "next_uuid d" ext] by (auto simp: plan_ok_def is_bill_def live_bill_def)
  with r show ?thesis by (intro that)
qed

lemma plan_invoiceD:
  assumes "plan_expense_invoice C q i f d = Inr r"
  obtains x where "r = Reuse x" | p where "r = Store p" "plan_ok C d p"
proof -
  from assms obtain ev raw ext where
    cross: "scalar (\<lambda>x. live_bill (sha256_hex C (up_content f)) x \<and> dc_event_id x \<noteq> None \<and> dc_event_id x \<noteq> Some (ev_id ev)) (documents d) = None"
    and r: "(case scalar (\<lambda>x. live_bill (sha256_hex C (up_content f)) x \<and> dc_event_id x = Some (ev_id ev)) (documents d) of
       Some x \<Rightarrow> Inr (Reuse x)
     | None \<Rightarrow> plan_voucher C q ev ''expenses'' DT_EXPENSE_INVOICE A_EXPENSE_DOCUMENT_ATTACHED raw ext f d) = Inr r"
    unfolding plan_expense_invoice_def Let_def by (auto simp: res_simps split: sum.splits)
  show ?thesis
  proof (cases "scalar (\<lambda>x. live_bill (sha256_hex C (up_content f)) x \<and> dc_event_id x = Some (ev_id ev)) (documents d)")
    case None
    with r have v: "plan_voucher C q ev ''expenses'' DT_EXPENSE_INVOICE A_EXPENSE_DOCUMENT_ATTACHED raw ext f d = Inr r" by simp
    have free: "\<forall>y\<in>set (documents d). live_bill (sha256_hex C (up_content f)) y \<longrightarrow> dc_event_id y = None"
      using cross None by (auto simp: scalar_None)
    show ?thesis by (rule plan_voucherD [OF v _ free]) (use that(2) in simp_all)
  qed (use r that(1) in auto)
qed

lemma plan_incomeD:
  assumes "plan_income_evidence C q i f d = Inr r"
  obtains p where "r = Store p" "plan_ok C d p"
proof -
  from assms obtain ev raw ext where "plan_voucher C q ev ''incomes'' DT_INCOME_EVIDENCE A_FILE_UPLOADED raw ext f d = Inr r"
    unfolding plan_income_evidence_def by (auto simp: res_simps split: sum.splits)
  then show ?thesis by (rule plan_voucherD) (use that in simp_all)
qed

lemma plan_proofD:
  assumes "plan_payment_proof C q i f d = Inr r"
  obtains p where "r = Store p" "plan_ok C d p"
proof -
  from assms obtain ev raw ext where
    "plan_voucher C q ev ''settlement'' DT_SETTLEMENT_PAYMENT_PROOF A_FILE_UPLOADED raw ext f d = Inr r"
    unfolding plan_payment_proof_def by (auto simp: res_simps split: sum.splits)
  then show ?thesis by (rule plan_voucherD) (use that in simp_all)
qed

section \<open>What the requests change\<close>

definition after :: "db res \<Rightarrow> db \<Rightarrow> db" where
  "after r d = (case r of Inl _ \<Rightarrow> d | Inr d' \<Rightarrow> d')"

inductive document_effect :: "doc_settings \<Rightarrow> request \<Rightarrow> db \<Rightarrow> store \<Rightarrow> db \<Rightarrow> store \<Rightarrow> bool" for C q d fs where
  kept: "document_effect C q d fs d fs"
| spilled: "plan_ok C d p \<Longrightarrow> document_effect C q d fs d (fs(pl_path p \<mapsto> c))"
| stored: "plan_ok C d p \<Longrightarrow> db_ok (planned q p d) \<Longrightarrow> document_effect C q d fs (planned q p d) (fs(pl_path p \<mapsto> c))"
| downloaded: "db_ok (add_audit q A_FILE_DOWNLOADED ''document'' i JNull s None d) \<Longrightarrow>
    document_effect C q d fs (add_audit q A_FILE_DOWNLOADED ''document'' i JNull s None d) fs"
| deleted: "x \<in> set (documents d) \<Longrightarrow>
    d' = add_audit q A_FILE_DELETED ''document'' (dc_id x) s s' None
      (d\<lparr>documents := put dc_id (x\<lparr>dc_is_active := False\<rparr>) (documents d)\<rparr>) \<Longrightarrow> db_ok d' \<Longrightarrow>
    document_effect C q d fs d' fs"

lemma perform_effect:
  assumes "\<And>p. r = Inr (Store p) \<Longrightarrow> plan_ok C d p"
  shows "document_effect C q d fs (after (db_of (fst (perform q f r d fs))) d) (snd (perform q f r d fs))"
proof (cases r)
  case (Inr a)
  show ?thesis
  proof (cases a)
    case (Store p)
    with Inr assms have p: "plan_ok C d p" by simp
    show ?thesis
    proof (cases "db_ok (planned q p d)")
      case True
      with stored [OF p True, of fs "up_content f"] show ?thesis by (simp add: Inr Store perform_def commit_def after_def)
    next
      case False
      with spilled [OF p, of q fs "up_content f"] show ?thesis by (simp add: Inr Store perform_def commit_def after_def)
    qed
  qed (simp add: Inr perform_def after_def kept)
qed (simp add: perform_def after_def kept)

lemma document_serve_effect:
  "document_effect C q d fs (after (fst (document_serve C q r (d, fs))) d) (snd (document_serve C q r (d, fs)))"
proof (cases r)
  case (UploadDocument i f ty)
  have "document_effect C q d fs (after (db_of (fst (upload_document C q i f ty d fs))) d) (snd (upload_document C q i f ty d fs))"
    unfolding upload_document_def by (rule perform_effect) (auto dest: plan_documentD)
  then show ?thesis by (simp add: UploadDocument)
next
  case (UploadEvidence i f g)
  have "document_effect C q d fs (after (db_of (fst (upload_post_event_evidence C q i f DT_POST_EVENT_PHOTO g d fs))) d)
      (snd (upload_post_event_evidence C q i f DT_POST_EVENT_PHOTO g d fs))"
    unfolding upload_post_event_evidence_def by (rule perform_effect) (auto elim: plan_evidenceD)
  then show ?thesis by (simp add: UploadEvidence)
next
  case (UploadInvoice i f)
  have "document_effect C q d fs (after (db_of (fst (upload_expense_invoice C q i f d fs))) d) (snd (upload_expense_invoice C q i f d fs))"
    unfolding upload_expense_invoice_def by (rule perform_effect) (auto elim: plan_invoiceD)
  then show ?thesis by (simp add: UploadInvoice)
next
  case (UploadIncomeEvidence i f)
  have "document_effect C q d fs (after (db_of (fst (upload_income_evidence C q i f d fs))) d) (snd (upload_income_evidence C q i f d fs))"
    unfolding upload_income_evidence_def by (rule perform_effect) (auto elim: plan_incomeD)
  then show ?thesis by (simp add: UploadIncomeEvidence)
next
  case (UploadPaymentProof i f)
  have "document_effect C q d fs (after (db_of (fst (upload_settlement_payment_proof C q i f d fs))) d)
      (snd (upload_settlement_payment_proof C q i f d fs))"
    unfolding upload_settlement_payment_proof_def by (rule perform_effect) (auto elim: plan_proofD)
  then show ?thesis by (simp add: UploadPaymentProof)
next
  case (Download i k)
  show ?thesis
  proof (cases "get_document_for_download C q i k d fs")
    case (Inr a)
    obtain y e where a: "a = (y, e)" by (cases a)
    from Inr a obtain x s where "snd a = add_audit q A_FILE_DOWNLOADED ''document'' x JNull s None d" "db_ok (snd a)"
      unfolding get_document_for_download_def Let_def by (auto simp: res_simps)
    with downloaded [of q x s d C fs] Inr show ?thesis by (cases a) (simp add: Download after_def)
  qed (simp add: Download after_def kept)
next
  case (DeleteDocument i k)
  show ?thesis
  proof (cases "delete_document q i k d")
    case (Inr a)
    obtain y e where a: "a = (y, e)" by (cases a)
    from Inr a obtain x where x: "document_in i k d = Inr x" and d': "snd a = add_audit q A_FILE_DELETED ''document'' (dc_id x)
        (JObj [(''is_active'', JBool True)]) (JObj [(''is_active'', JBool False)]) None
        (d\<lparr>documents := put dc_id (x\<lparr>dc_is_active := False\<rparr>) (documents d)\<rparr>)" "db_ok (snd a)"
      unfolding delete_document_def Let_def by (auto simp: res_simps)
    have "x \<in> set (documents d)" using x by (auto simp: document_in_def res_simps dest: scalar_Some)
    from deleted [OF this d'] Inr show ?thesis by (cases a) (simp add: DeleteDocument after_def)
  qed (simp add: DeleteDocument after_def kept)
qed

section \<open>Documents as a service\<close>

text \<open>A request together with the files it finds; the constraints of the database do not depend on them.\<close>

definition document_exec :: "doc_settings \<Rightarrow> request \<Rightarrow> document_request \<times> store \<Rightarrow> db \<Rightarrow> db res" where
  "document_exec C q = (\<lambda>(r, fs) d. fst (document_serve C q r (d, fs)))"

fun serve_all :: "doc_settings \<Rightarrow> (request \<times> document_request) list \<Rightarrow> db \<times> store \<Rightarrow> db \<times> store" where
  "serve_all C [] s = s"
| "serve_all C ((q, r) # xs) (d, fs) =
     (let (a, fs') = document_serve C q r (d, fs) in serve_all C xs (after a d, fs'))"

lemma serve_all_run: "\<exists>ys. fst (serve_all C xs (d, fs)) = run (document_exec C) ys d"
proof (induction xs arbitrary: d fs)
  case Nil
  show ?case by (intro exI [of _ "[]"]) simp
next
  case (Cons x xs)
  obtain q r where x: "x = (q, r)" by (cases x)
  obtain a fs' where s: "document_serve C q r (d, fs) = (a, fs')" by (cases "document_serve C q r (d, fs)")
  from Cons.IH [of "after a d" fs'] obtain ys where "fst (serve_all C xs (after a d, fs')) = run (document_exec C) ys (after a d)" ..
  then have "fst (serve_all C (x # xs) (d, fs)) = run (document_exec C) ((q, r, fs) # ys) d"
    by (simp add: x s document_exec_def after_def split: sum.split)
  then show ?case ..
qed

lemma document_exec_effect:
  assumes "document_exec C q rf d = Inr d'"
  shows "\<exists>fs fs'. document_effect C q d fs d' fs'"
proof -
  obtain r fs where "rf = (r, fs)" by (cases rf)
  with document_serve_effect [of C q d fs r] assms show ?thesis by (auto simp: document_exec_def after_def)
qed

lemma planned_frame [simp]:
  "documents (planned q p d) = documents d @ [pl_document p]" "next_uuid (planned q p d) = Suc (Suc (dc_id (pl_document p)))"
  "event_requests (planned q p d) = event_requests d" "clubs (planned q p d) = clubs d"
  "club_members (planned q p d) = club_members d"
  by (simp_all add: planned_def add_audit_def)

lemma document_effect_audit: "document_effect C q d fs d' fs' \<Longrightarrow> signed q d d'"
  by (induction rule: document_effect.induct) (simp_all add: planned_def add_audit_def)

interpretation document_service: audited_service "document_exec C" for C
proof unfold_locales
  fix d q r d'
  assume e: "document_exec C q r d = Inr d'"
  from document_exec_effect [OF e] obtain fs fs' where f: "document_effect C q d fs d' fs'" by blast
  show "db_ok d'" if "db_ok d" using f that by cases simp_all
  show "signed q d d'" by (rule document_effect_audit [OF f])
qed

text \<open>No two active bills have the same content, and every one belongs to an event.\<close>

definition bills_once :: "db \<Rightarrow> bool" where
  "bills_once d \<longleftrightarrow>
     distinct (map dc_file_hash (filter is_bill (documents d))) \<and>
     list_all (\<lambda>x. is_bill x \<longrightarrow> dc_event_id x \<noteq> None) (documents d)"

lemma filter_put: "\<not> P r \<Longrightarrow> filter P (put key r t) = filter (\<lambda>x. P x \<and> key x \<noteq> key r) t"
  by (induction t) (auto simp: put_simps)

lemma bills_once_effect:
  "document_effect C q d fs d' fs' \<Longrightarrow> bills_once d \<Longrightarrow> bills_once d'"
proof (induction rule: document_effect.induct)
  case (stored p c)
  then show ?case by (auto simp: bills_once_def plan_ok_def list_all_iff)
next
  case (deleted x d' s s')
  let ?x = "x\<lparr>dc_is_active := False\<rparr>"
  have n: "\<not> is_bill ?x" by (simp add: is_bill_def)
  have "distinct (map dc_file_hash (filter (\<lambda>y. dc_id y \<noteq> dc_id ?x) (filter is_bill (documents d))))"
    by (rule distinct_map_filter) (use deleted(4) in \<open>simp add: bills_once_def\<close>)
  then have "distinct (map dc_file_hash (filter is_bill (put dc_id ?x (documents d))))"
    by (simp add: filter_put [of is_bill ?x, OF n] conj_commute)
  moreover have "list_all (\<lambda>x. is_bill x \<longrightarrow> dc_event_id x \<noteq> None) (put dc_id ?x (documents d))"
    using deleted(4) n by (auto simp: bills_once_def list_all_iff dest!: put_rows)
  ultimately show ?case by (simp add: bills_once_def deleted(2))
qed (simp_all add: bills_once_def)

interpretation bills: state_invariant "document_exec C" bills_once for C
  by unfold_locales (use document_exec_effect bills_once_effect in blast)

section \<open>The files\<close>

lemma effect_frame:
  "document_effect C q d fs d' fs' \<Longrightarrow>
    event_requests d' = event_requests d \<and> clubs d' = clubs d \<and> club_members d' = club_members d \<and> next_uuid d \<le> next_uuid d'"
  by (induction rule: document_effect.induct) (auto simp: plan_ok_def add_audit_def)

lemma effect_inside: "document_effect C q d fs d' fs' \<Longrightarrow> fs' p \<noteq> fs p \<Longrightarrow> is_relative_to p (storage_root C)"
  by (induction rule: document_effect.induct) (auto simp: plan_ok_def split: if_splits)

text \<open>A file is not overwritten once its identifier has been drawn.\<close>

lemma effect_keeps:
  assumes "document_effect C q d fs d' fs'" and "settings_ok C" and "p \<noteq> []" and "stem (last p) = uuid_hex n"
    and "n < next_uuid d" and "next_uuid d < 16 ^ 32"
  shows "fs' p = fs p"
proof -
  have "pl_path a \<noteq> p" if "plan_ok C d a" for a
  proof
    assume "pl_path a = p"
    with that assms(2,4) have "uuid_hex n = uuid_hex (next_uuid d)" by (simp add: plan_ok_def)
    then have "n = next_uuid d" using assms(5,6) by (intro hex_digits_inj [of n 32]) (simp_all add: uuid_hex_def)
    with assms(5) show False by simp
  qed
  with assms(1) show ?thesis by cases auto
qed

lemma serve_all_Cons:
  obtains d' fs' where "document_effect C (fst x) d fs d' fs'" "serve_all C (x # xs) (d, fs) = serve_all C xs (d', fs')"
proof -
  obtain q r where x: "x = (q, r)" by (cases x)
  from document_serve_effect [of C q d fs r] show ?thesis
    by (intro that [of "after (fst (document_serve C q r (d, fs))) d" "snd (document_serve C q r (d, fs))"])
      (simp_all add: x Let_def split: prod.split)
qed

lemma serve_all_frame:
  "serve_all C xs (d, fs) = (e, gs) \<Longrightarrow>
    event_requests e = event_requests d \<and> clubs e = clubs d \<and> club_members e = club_members d \<and> next_uuid d \<le> next_uuid e"
proof (induction xs arbitrary: d fs)
  case (Cons x xs)
  obtain d' fs' where s: "document_effect C (fst x) d fs d' fs'" "serve_all C (x # xs) (d, fs) = serve_all C xs (d', fs')"
    by (rule serve_all_Cons)
  with Cons effect_frame [OF s(1)] show ?case by fastforce
qed simp

lemma serve_all_inside: "serve_all C xs (d, fs) = (e, gs) \<Longrightarrow> gs p \<noteq> fs p \<Longrightarrow> is_relative_to p (storage_root C)"
proof (induction xs arbitrary: d fs)
  case (Cons x xs)
  obtain d' fs' where s: "document_effect C (fst x) d fs d' fs'" "serve_all C (x # xs) (d, fs) = serve_all C xs (d', fs')"
    by (rule serve_all_Cons)
  with Cons effect_inside [OF s(1)] show ?case by metis
qed simp

lemma serve_all_keeps:
  assumes "serve_all C xs (d, fs) = (e, gs)" and "settings_ok C" and "p \<noteq> []" and "stem (last p) = uuid_hex n"
    and "n < next_uuid d" and "next_uuid e < 16 ^ 32"
  shows "gs p = fs p"
  using assms(1,5)
proof (induction xs arbitrary: d fs)
  case (Cons x xs)
  obtain d' fs' where s: "document_effect C (fst x) d fs d' fs'" "serve_all C (x # xs) (d, fs) = serve_all C xs (d', fs')"
    by (rule serve_all_Cons)
  have "next_uuid d \<le> next_uuid e" using serve_all_frame [OF Cons.prems(1)] by simp
  then have "fs' p = fs p" using effect_keeps [OF s(1) assms(2-4) Cons.prems(2)] assms(6) by simp
  moreover have "n < next_uuid d'" using effect_frame [OF s(1)] Cons.prems(2) by simp
  ultimately show ?case using Cons.IH [of d' fs'] Cons.prems(1) s(2) by simp
qed simp

lemma access_cong:
  "clubs e = clubs d \<Longrightarrow> club_members e = club_members d \<Longrightarrow> verify_document_access q ev e = verify_document_access q ev d"
  by (simp add: verify_document_access_def club_by_id_def)

section \<open>Properties\<close>


definition doc_defaults :: doc_settings where
  "doc_defaults =
     \<lparr>ALLOWED_EXTENSIONS = [''pdf'', ''jpg'', ''jpeg'', ''png'', ''docx''], MAX_FILE_SIZE_BYTES = 100,
      storage_root = [''app'', ''uploads''], sha256_hex = (\<lambda>s. ''s'' @ s)\<rparr>"

definition a_pdf :: upload where
  "a_pdf = \<lparr>up_filename = Some ''../Bill.v2.PDF'', up_content = ''%PDF-1.7 paid'', up_content_type = Some ''text/html''\<rparr>"

definition filings :: "(request \<times> document_request) list" where
  "filings =
     [(ctx the_secretary (days 32), UploadInvoice 25 a_pdf), (ctx the_secretary (days 33), UploadInvoice 20 a_pdf),
      (ctx the_advisor (days 33), UploadInvoice 25 a_pdf), (ctx the_secretary (days 33), UploadIncomeEvidence 25 a_pdf)]"

definition no_files :: store where
  "no_files = (\<lambda>_. None)"


text \<open>
  C27. An upload comes back: whatever document requests follow, as long as the document stays active every user with
  access downloads the uploaded bytes, from a file inside the storage root.
\<close>

theorem upload_download_roundtrip:
  assumes "db_ok d" and "settings_ok C" and "upload_document C q i f ty d fs = (Inr (x, d1), fs1)"
    and "serve_all C xs (d1, fs1) = (e, gs)" and "next_uuid e < 16 ^ 32" and "x \<in> set (documents e)"
    and "ev \<in> set (event_requests e)" and "rq_id ev = i" and "verify_document_access q' ev e"
  shows "\<exists>p e'. get_document_for_download C q' i (dc_id x) e gs = Inr ((x, p), e') \<and> gs p = Some (up_content f) \<and>
    is_relative_to p (storage_root C)"
proof -
  let ?p = "document_plan C q i f ty d"
  from assms(3) have pl: "plan_document C q i f ty d = Inr (Store ?p)"
    by (auto simp: upload_document_def perform_def split: sum.splits disposition.splits dest: plan_documentD)
  have x: "x = pl_document ?p" "d1 = planned q ?p d" "db_ok d1" "fs1 = fs(pl_path ?p \<mapsto> up_content f)"
    using assms(3) pl by (auto simp: upload_document_def perform_def commit_def require_def split: if_splits)
  from plan_documentD [OF pl] have ok: "plan_ok C d ?p" and ext: "extension (document_name f) \<in> set (ALLOWED_EXTENSIONS C)" by simp_all
  note path = document_plan_path [OF assms(2) ext, of q i ty d]
  have gs: "gs (pl_path ?p) = Some (up_content f)"
    using serve_all_keeps [OF assms(4,2) _ _ _ assms(5), of "pl_path ?p" "next_uuid d"] ok assms(2) x(2,4)
    by (simp add: plan_ok_def)
  have ok_e: "db_ok e"
  proof -
    obtain ys where "fst (serve_all C xs (d1, fs1)) = run (document_exec C) ys d1" using serve_all_run by blast
    with document_service.run_ok [OF x(3)] assms(4) show ?thesis by (metis fst_conv)
  qed
  have r: "row rq_id i (event_requests e) = Some ev"
    using row_unique [OF db_ok_keys(2) [OF ok_e] assms(7)] assms(8) by simp
  have keys: "distinct (map dc_id (documents e))" using ok_e by (simp add: db_ok_def documents_ok_def)
  have own: "dc_event_request_id x = i" "dc_is_active x" by (simp_all add: x(1) document_plan_def Let_def)
  have doc: "document_in i (dc_id x) e = Inr x"
  proof -
    have "scalar (\<lambda>y. dc_id y = dc_id x \<and> dc_event_request_id y = i) (documents e) \<noteq> None"
      using assms(6) own by (auto simp: scalar_None)
    then obtain y where y: "scalar (\<lambda>y. dc_id y = dc_id x \<and> dc_event_request_id y = i) (documents e) = Some y" by blast
    from scalar_Some [OF y] assms(6) keys have "y = x" by (auto simp: distinct_map inj_on_def)
    with y own show ?thesis by (simp add: document_in_def)
  qed
  let ?e = "add_audit q' A_FILE_DOWNLOADED ''document'' (dc_id x) JNull
      (JObj [(''original_filename'', JText (dc_original_filename x))]) None e"
  have full: "resolve (under (storage_root C) (dc_storage_path x)) = pl_path ?p"
  proof -
    have u: "under (storage_root C) (dc_storage_path x) = pl_path ?p" using path(2) x(1) by simp
    have "pl_path ?p = resolve (storage_root C @ path_of (uuid_str i) @ path_of (uuid_hex (next_uuid d) @ ''.'' @ extension (document_name f)))"
      by (simp add: document_plan_def Let_def)
    moreover have "resolve (storage_root C) = storage_root C" "CHR ''/'' \<notin> set (extension (document_name f))"
      using assms(2) ext by (auto simp: settings_ok_def list_all_iff)
    ultimately show ?thesis unfolding u using stored_path path(1) by metis
  qed
  have "db_ok ?e" using ok_e by (simp add: db_ok_def add_audit_def)
  then have "get_document_for_download C q' i (dc_id x) e gs = Inr ((x, pl_path ?p), ?e)"
    using r assms(9) doc full gs path(1) by (simp add: get_document_for_download_def Let_def commit_def)
  with gs path(1) show ?thesis by simp
qed

definition draft_campus :: db where
  "draft_campus = institution\<lparr>event_requests := [the_proposal RQ_DRAFT]\<rparr>"

lemma upload_download_roundtrip_witness:
  "\<exists>x d1 fs1 p e'. upload_document doc_defaults (ctx the_secretary 5) 20 a_pdf DT_EVENT_PLAN draft_campus no_files = (Inr (x, d1), fs1) \<and>
     get_document_for_download doc_defaults (ctx the_advisor 9) 20 101
       (fst (serve_all doc_defaults [(ctx the_secretary 6, UploadDocument 20 a_pdf DT_OTHER)] (d1, fs1)))
       (snd (serve_all doc_defaults [(ctx the_secretary 6, UploadDocument 20 a_pdf DT_OTHER)] (d1, fs1))) = Inr ((x, p), e') \<and>
     snd (serve_all doc_defaults [(ctx the_secretary 6, UploadDocument 20 a_pdf DT_OTHER)] (d1, fs1)) p = Some ''%PDF-1.7 paid''"
proof -
  let ?u = "upload_document doc_defaults (ctx the_secretary 5) 20 a_pdf DT_EVENT_PLAN draft_campus no_files"
  let ?x = "fst (projr (fst ?u))" and ?d = "snd (projr (fst ?u))"
  let ?s = "serve_all doc_defaults [(ctx the_secretary 6, UploadDocument 20 a_pdf DT_OTHER)] (?d, snd ?u)"
  have "\<not> isl (fst ?u)" by code_simp
  then have u: "?u = (Inr (?x, ?d), snd ?u)" by (metis Inr_projr prod.collapse)
  have ok: "db_ok draft_campus" "settings_ok doc_defaults" by code_simp+
  have "next_uuid (fst ?s) = 106" by code_simp
  then have n: "next_uuid (fst ?s) < 16 ^ 32" by simp
  have x: "?x \<in> set (documents (fst ?s))" by code_simp
  have i: "dc_id ?x = 101" by code_simp
  have c: "up_content a_pdf = ''%PDF-1.7 paid''" by (simp add: a_pdf_def)
  have ev: "the_proposal RQ_DRAFT \<in> set (event_requests (fst ?s))" "rq_id (the_proposal RQ_DRAFT) = 20" by code_simp+
  have a: "verify_document_access (ctx the_advisor 9) (the_proposal RQ_DRAFT) (fst ?s)" by code_simp
  from upload_download_roundtrip [OF ok u prod.collapse [symmetric] n x ev a, unfolded i c] u show ?thesis by blast
qed

text \<open>
  C28. Files stay inside: along any document requests no file outside the storage root is written, and whatever a
  database row says, a download serves an existing file inside the root, of an active document of the named
  proposal, to a user with access, and leaves an audit entry.
\<close>

theorem files_stay_inside:
  "(\<forall>p. snd (serve_all C xs (d, fs)) p = fs p \<or> is_relative_to p (storage_root C)) \<and>
   (case get_document_for_download C q i k e gs of
      Inl _ \<Rightarrow> True
    | Inr ((x, p), e') \<Rightarrow>
        is_relative_to p (storage_root C) \<and> gs p \<noteq> None \<and> x \<in> set (documents e) \<and> dc_is_active x \<and> dc_id x = k \<and>
        dc_event_request_id x = i \<and> (\<exists>ev\<in>set (event_requests e). rq_id ev = i \<and> verify_document_access q ev e) \<and>
        (\<exists>a. audit_logs e' = audit_logs e @ [a] \<and> al_action a = A_FILE_DOWNLOADED \<and> al_actor_id a = Some (actor_id q) \<and>
           al_entity_id a = Some k))"
proof
  show "\<forall>p. snd (serve_all C xs (d, fs)) p = fs p \<or> is_relative_to p (storage_root C)"
    using serve_all_inside [of C xs d fs] by (metis prod.collapse)
next
  show "case get_document_for_download C q i k e gs of
      Inl _ \<Rightarrow> True
    | Inr ((x, p), e') \<Rightarrow>
        is_relative_to p (storage_root C) \<and> gs p \<noteq> None \<and> x \<in> set (documents e) \<and> dc_is_active x \<and> dc_id x = k \<and>
        dc_event_request_id x = i \<and> (\<exists>ev\<in>set (event_requests e). rq_id ev = i \<and> verify_document_access q ev e) \<and>
        (\<exists>a. audit_logs e' = audit_logs e @ [a] \<and> al_action a = A_FILE_DOWNLOADED \<and> al_actor_id a = Some (actor_id q) \<and>
           al_entity_id a = Some k)"
  proof (cases "get_document_for_download C q i k e gs")
    case (Inr a)
    obtain x p e' where a: "a = ((x, p), e')" by (cases a) auto
    from Inr obtain ev where ev: "row rq_id i (event_requests e) = Some ev" "verify_document_access q ev e"
      and x: "document_in i k e = Inr x" and p: "p = resolve (under (storage_root C) (dc_storage_path x))"
      "is_relative_to p (storage_root C)" "gs p \<noteq> None"
      and e': "e' = add_audit q A_FILE_DOWNLOADED ''document'' (dc_id x) JNull
        (JObj [(''original_filename'', JText (dc_original_filename x))]) None e"
      unfolding a get_document_for_download_def Let_def by (auto simp: res_simps)
    have "x \<in> set (documents e) \<and> dc_is_active x \<and> dc_id x = k \<and> dc_event_request_id x = i"
      using x by (auto simp: document_in_def res_simps dest: scalar_Some)
    moreover have "\<exists>b. audit_logs e' = audit_logs e @ [b] \<and> al_action b = A_FILE_DOWNLOADED \<and> al_actor_id b = Some (actor_id q) \<and>
        al_entity_id b = Some (dc_id x)"
      by (simp add: e' add_audit_def audit_entry_def)
    ultimately show ?thesis using row_key [OF ev(1)] ev(2) p(2,3) by (auto simp: Inr a)
  qed simp
qed

end
