(* ===== verification/Document_Api.thy ===== *)
theory Document_Api
  imports Guards Files
begin

text \<open>
  The endpoints that move files: \<^verbatim>\<open>documents.py\<close> and the uploads of \<^verbatim>\<open>expenses.py\<close>, \<^verbatim>\<open>event_execution.py\<close> and
  \<^verbatim>\<open>settlement.py\<close>. A request that is refused at the door finds and leaves the files as they are.
\<close>

section \<open>Uploads\<close>

definition at_door :: "user res \<Rightarrow> request \<Rightarrow> store \<Rightarrow> (request \<Rightarrow> 'a res \<times> store) \<Rightarrow> 'a res \<times> store" where
  "at_door user q fs k = (case user of Inl e \<Rightarrow> (Inl e, fs) | Inr u \<Rightarrow> k (q\<lparr>actor := u\<rparr>))"

definition upload_document_endpoint ::
    "library \<Rightarrow> doc_settings \<Rightarrow> string option \<Rightarrow> request \<Rightarrow> uuid \<Rightarrow> upload \<Rightarrow> document_type \<Rightarrow> db \<Rightarrow> store \<Rightarrow>
       (document \<times> db) res \<times> store" where
  "upload_document_endpoint L C t q i f ty d fs =
     at_door (get_current_user L (now q) t d) q fs (\<lambda>q. upload_document C q i f ty d fs)"

definition upload_post_event_evidence_endpoint ::
    "library \<Rightarrow> doc_settings \<Rightarrow> string option \<Rightarrow> request \<Rightarrow> uuid \<Rightarrow> upload \<Rightarrow> geo \<Rightarrow> db \<Rightarrow> store \<Rightarrow>
       (document \<times> db) res \<times> store" where
  "upload_post_event_evidence_endpoint L C t q i f g d fs =
     at_door (get_current_user L (now q) t d) q fs (\<lambda>q. upload_post_event_evidence C q i f DT_POST_EVENT_PHOTO g d fs)"

definition upload_expense_bill_endpoint ::
    "library \<Rightarrow> doc_settings \<Rightarrow> string option \<Rightarrow> request \<Rightarrow> uuid \<Rightarrow> upload \<Rightarrow> db \<Rightarrow> store \<Rightarrow> (document \<times> db) res \<times> store" where
  "upload_expense_bill_endpoint L C t q i f d fs =
     at_door (get_current_user L (now q) t d) q fs (\<lambda>q. upload_expense_invoice C q i f d fs)"

definition upload_income_evidence_doc_endpoint ::
    "library \<Rightarrow> doc_settings \<Rightarrow> string option \<Rightarrow> request \<Rightarrow> uuid \<Rightarrow> upload \<Rightarrow> db \<Rightarrow> store \<Rightarrow> (document \<times> db) res \<times> store" where
  "upload_income_evidence_doc_endpoint L C t q i f d fs =
     at_door (and_then (get_current_user L (now q) t d) (role_checker [CLUB_SECRETARY])) q fs
       (\<lambda>q. upload_income_evidence C q i f d fs)"

definition upload_payment_proof_doc_endpoint ::
    "library \<Rightarrow> doc_settings \<Rightarrow> string option \<Rightarrow> request \<Rightarrow> uuid \<Rightarrow> upload \<Rightarrow> db \<Rightarrow> store \<Rightarrow> (document \<times> db) res \<times> store" where
  "upload_payment_proof_doc_endpoint L C t q i f d fs =
     at_door (and_then (get_current_user L (now q) t d) (role_checker [FINANCE_OFFICER])) q fs
       (\<lambda>q. upload_settlement_payment_proof C q i f d fs)"

section \<open>Reading and removing\<close>

definition list_documents_endpoint :: "library \<Rightarrow> string option \<Rightarrow> request \<Rightarrow> uuid \<Rightarrow> db \<Rightarrow> document list res" where
  "list_documents_endpoint L t q i d = authenticated L t q d (\<lambda>q. list_documents q i d)"

definition list_post_event_evidence_endpoint :: "library \<Rightarrow> string option \<Rightarrow> request \<Rightarrow> uuid \<Rightarrow> db \<Rightarrow> document list res" where
  "list_post_event_evidence_endpoint L t q i d = authenticated L t q d (\<lambda>q. list_post_event_evidence i d)"

definition download_document_endpoint ::
    "library \<Rightarrow> doc_settings \<Rightarrow> string option \<Rightarrow> request \<Rightarrow> uuid \<Rightarrow> uuid \<Rightarrow> db \<Rightarrow> store \<Rightarrow> ((document \<times> path) \<times> db) res" where
  "download_document_endpoint L C t q i x d fs =
     authenticated L t q d (\<lambda>q. get_document_for_download C q i x d fs)"

definition delete_document_endpoint ::
    "library \<Rightarrow> string option \<Rightarrow> request \<Rightarrow> uuid \<Rightarrow> uuid \<Rightarrow> db \<Rightarrow> (document \<times> db) res" where
  "delete_document_endpoint L t q i x d = authenticated L t q d (\<lambda>q. delete_document q i x d)"

section \<open>What the endpoints hand to the service\<close>

fun document_api ::
    "library \<Rightarrow> doc_settings \<Rightarrow> string option \<Rightarrow> request \<Rightarrow> document_request \<Rightarrow> db \<times> store \<Rightarrow> db res \<times> store" where
  "document_api L C t q (UploadDocument i f ty) (d, fs) = map_prod db_of id (upload_document_endpoint L C t q i f ty d fs)"
| "document_api L C t q (UploadEvidence i f g) (d, fs) =
     map_prod db_of id (upload_post_event_evidence_endpoint L C t q i f g d fs)"
| "document_api L C t q (UploadInvoice i f) (d, fs) = map_prod db_of id (upload_expense_bill_endpoint L C t q i f d fs)"
| "document_api L C t q (UploadIncomeEvidence i f) (d, fs) =
     map_prod db_of id (upload_income_evidence_doc_endpoint L C t q i f d fs)"
| "document_api L C t q (UploadPaymentProof i f) (d, fs) =
     map_prod db_of id (upload_payment_proof_doc_endpoint L C t q i f d fs)"
| "document_api L C t q (Download i x) (d, fs) = (db_of (download_document_endpoint L C t q i x d fs), fs)"
| "document_api L C t q (DeleteDocument i x) (d, fs) = (db_of (delete_document_endpoint L t q i x d), fs)"

lemma at_door_served:
  "(\<exists>e. at_door (get_current_user L (now q) t d) q fs k = (Inl e, fs)) \<or>
     (\<exists>u. sender L t q d u \<and> at_door (get_current_user L (now q) t d) q fs k = k (q\<lparr>actor := u\<rparr>))"
  "(\<exists>e. at_door (and_then (get_current_user L (now q) t d) (role_checker rs)) q fs k = (Inl e, fs)) \<or>
     (\<exists>u. sender L t q d u \<and> at_door (and_then (get_current_user L (now q) t d) (role_checker rs)) q fs k = k (q\<lparr>actor := u\<rparr>))"
  by (cases "get_current_user L (now q) t d"; auto simp: at_door_def sender_def role_checker_def require_def)+

lemma authenticated_served:
  "(\<exists>e. authenticated L t q d k = Inl e) \<or> (\<exists>u. sender L t q d u \<and> authenticated L t q d k = k (q\<lparr>actor := u\<rparr>))"
  by (cases "get_current_user L (now q) t d") (simp_all add: authenticated_def sender_def)

lemma document_api_served:
  "(\<exists>e. document_api L C t q r (d, fs) = (Inl e, fs)) \<or>
     (\<exists>u. sender L t q d u \<and> document_api L C t q r (d, fs) = document_serve C (q\<lparr>actor := u\<rparr>) r (d, fs))"
proof (cases r)
  case (UploadDocument i f ty)
  then show ?thesis
    using at_door_served(1) [of L q t d fs "\<lambda>q. upload_document C q i f ty d fs"]
    by (auto simp: upload_document_endpoint_def)
next
  case (UploadEvidence i f g)
  then show ?thesis
    using at_door_served(1) [of L q t d fs "\<lambda>q. upload_post_event_evidence C q i f DT_POST_EVENT_PHOTO g d fs"]
    by (auto simp: upload_post_event_evidence_endpoint_def)
next
  case (UploadInvoice i f)
  then show ?thesis
    using at_door_served(1) [of L q t d fs "\<lambda>q. upload_expense_invoice C q i f d fs"]
    by (auto simp: upload_expense_bill_endpoint_def)
next
  case (UploadIncomeEvidence i f)
  then show ?thesis
    using at_door_served(2) [of L q t d "[CLUB_SECRETARY]" fs "\<lambda>q. upload_income_evidence C q i f d fs"]
    by (auto simp: upload_income_evidence_doc_endpoint_def)
next
  case (UploadPaymentProof i f)
  then show ?thesis
    using at_door_served(2) [of L q t d "[FINANCE_OFFICER]" fs "\<lambda>q. upload_settlement_payment_proof C q i f d fs"]
    by (auto simp: upload_payment_proof_doc_endpoint_def)
next
  case (Download i x)
  then show ?thesis
    using authenticated_served [of L t q d "\<lambda>q. get_document_for_download C q i x d fs"]
    by (auto simp: download_document_endpoint_def)
next
  case (DeleteDocument i x)
  then show ?thesis
    using authenticated_served [of L t q d "\<lambda>q. delete_document q i x d"]
    by (auto simp: delete_document_endpoint_def)
qed

end
