(* ===== verification/Lifecycle.thy ===== *)
theory Lifecycle
  imports Chain Proposals
begin

text \<open>
  The life of a proposal across the two services that move it: theory Proposals starts and cancels approval chains,
  theory Workflow decides their steps. \<open>governed\<close> collects what both keep: the chains are in order, the chain in
  progress is the one its proposal points to and the proposal is open, an approved proposal has its completed chain
  and its event, and an event has its approved proposal. Each alone would not be kept by one of the services.
\<close>

section \<open>The state both services keep\<close>

definition under_review :: "event_request \<Rightarrow> bool" where
  "under_review rq \<longleftrightarrow> rq_status rq \<in> {RQ_SUBMITTED, RQ_IN_REVIEW, RQ_REVISION_REQUIRED}"

definition running_ok :: "db \<Rightarrow> bool" where
  "running_ok d \<longleftrightarrow>
     (\<forall>i\<in>set (instances d). wi_status i = WI_IN_PROGRESS \<longrightarrow>
        (\<exists>rq\<in>set (event_requests d). rq_id rq = wi_event_request_id i \<and>
           rq_workflow_instance_id rq = Some (wi_id i) \<and> under_review rq))"

definition steps_owned :: "db \<Rightarrow> bool" where
  "steps_owned d \<longleftrightarrow> ws_instance_id ` set (steps d) \<subseteq> wi_id ` set (instances d)"

definition template_shape :: "workflow_template_step list \<Rightarrow> bool" where
  "template_shape t \<longleftrightarrow>
     (\<forall>s\<in>set t. ts_step_order s \<ge> 1 \<and>
        (ts_step_order s > 1 \<longrightarrow>
           (\<exists>r\<in>set t. ts_template_id r = ts_template_id s \<and> ts_step_order r = ts_step_order s - 1)))"

definition events_sanctioned :: "db \<Rightarrow> bool" where
  "events_sanctioned d \<longleftrightarrow>
     (\<forall>e\<in>set (events d). \<exists>rq\<in>set (event_requests d). rq_id rq = ev_event_request_id e \<and> rq_status rq = RQ_APPROVED)"

definition worked_through :: "db \<Rightarrow> bool" where
  "worked_through d \<longleftrightarrow>
     (\<forall>i\<in>set (instances d). wi_status i = WI_COMPLETED \<longrightarrow> wi_id i \<in> ws_instance_id ` set (steps d))"

definition governed :: "db \<Rightarrow> bool" where
  "governed d \<longleftrightarrow>
     chain_ok d \<and> sanctioned_ok d \<and> running_ok d \<and> steps_owned d \<and> template_shape (template_steps d) \<and>
     events_sanctioned d \<and> worked_through d"

lemma worked_through_keep:
  assumes "worked_through d"
    and "\<And>i. i \<in> set (instances d') \<Longrightarrow> wi_status i = WI_COMPLETED \<Longrightarrow>
      i \<in> set (instances d) \<or> wi_id i \<in> ws_instance_id ` set (steps d')"
    and "ws_instance_id ` set (steps d) \<subseteq> ws_instance_id ` set (steps d')"
  shows "worked_through d'"
  using assms unfolding worked_through_def by blast

lemma governedI:
  "chain_ok d \<Longrightarrow> sanctioned_ok d \<Longrightarrow> running_ok d \<Longrightarrow> steps_owned d \<Longrightarrow> template_shape (template_steps d) \<Longrightarrow>
     events_sanctioned d \<Longrightarrow> worked_through d \<Longrightarrow> governed d"
  by (simp add: governed_def)

lemma governedD:
  assumes "governed d"
  shows "chain_ok d" "sanctioned_ok d" "running_ok d" "steps_owned d" "template_shape (template_steps d)"
    "events_sanctioned d" "worked_through d"
  using assms by (simp_all add: governed_def)

lemma request_unique:
  "db_ok d \<Longrightarrow> r \<in> set (event_requests d) \<Longrightarrow> x \<in> set (event_requests d) \<Longrightarrow> rq_id r = rq_id x \<Longrightarrow> r = x"
  using db_ok_keys(2) [of d] by (auto simp: distinct_map inj_on_def)

lemma awaiting_current:
  assumes "awaiting q d s inst rq" and "db_ok d" and "running_ok d"
  shows "rq_workflow_instance_id rq = Some (wi_id inst) \<and> under_review rq"
proof -
  from assms(1) have a: "inst \<in> set (instances d)" "wi_status inst = WI_IN_PROGRESS" "rq \<in> set (event_requests d)"
    "wi_event_request_id inst = rq_id rq" by (auto simp: awaiting_def)
  from assms(3) a(1,2) obtain r where r: "r \<in> set (event_requests d)" "rq_id r = wi_event_request_id inst"
    "rq_workflow_instance_id r = Some (wi_id inst)" "under_review r" unfolding running_ok_def by blast
  have "r = rq" by (rule request_unique [OF assms(2) r(1) a(3)]) (use r(2) a(4) in simp)
  with r show ?thesis by simp
qed

text \<open>A decision writes one proposal and its chain; the other chains keep their proposals.\<close>

lemma running_ok_put:
  assumes ok: "db_ok d" and run: "running_ok d" and inst: "inst \<in> set (instances d)" and rq: "rq \<in> set (event_requests d)"
    and cur: "rq_workflow_instance_id rq = Some (wi_id inst)"
    and ins: "instances d' = put wi_id inst' (instances d)" "wi_id inst' = wi_id inst"
      "wi_event_request_id inst' = rq_id rq"
    and rqs: "event_requests d' = put rq_id rq' (event_requests d)" "rq_id rq' = rq_id rq"
      "rq_workflow_instance_id rq' = rq_workflow_instance_id rq"
    and st: "wi_status inst' = WI_IN_PROGRESS \<Longrightarrow> under_review rq'"
  shows "running_ok d'"
  unfolding running_ok_def
proof (intro ballI impI)
  fix i assume i: "i \<in> set (instances d')" "wi_status i = WI_IN_PROGRESS"
  then consider "i = inst'" | "i \<in> set (instances d)" "wi_id i \<noteq> wi_id inst" by (auto simp: ins in_put)
  then show "\<exists>r\<in>set (event_requests d'). rq_id r = wi_event_request_id i \<and>
      rq_workflow_instance_id r = Some (wi_id i) \<and> under_review r"
  proof cases
    case 1
    with i(2) st cur ins rqs put_written [OF rq rqs(2)] show ?thesis by (intro bexI [of _ rq']) auto
  next
    case 2
    with run i(2) obtain r where r: "r \<in> set (event_requests d)" "rq_id r = wi_event_request_id i"
      "rq_workflow_instance_id r = Some (wi_id i)" "under_review r" unfolding running_ok_def by blast
    have "r \<noteq> rq" using r(3) cur 2(2) by auto
    with put_keeps [OF db_ok_keys(2) [OF ok] rq rqs(2) r(1)] r rqs(1) show ?thesis by (intro bexI [of _ r]) auto
  qed
qed

lemma events_sanctioned_keep:
  assumes "events_sanctioned d"
    and "\<And>r. r \<in> set (event_requests d) \<Longrightarrow> rq_status r = RQ_APPROVED \<Longrightarrow> r \<in> set (event_requests d')"
    and "\<And>e. e \<in> set (events d') \<Longrightarrow>
      (\<exists>x\<in>set (events d). ev_event_request_id x = ev_event_request_id e) \<or>
      (\<exists>r\<in>set (event_requests d'). rq_id r = ev_event_request_id e \<and> rq_status r = RQ_APPROVED)"
  shows "events_sanctioned d'"
  unfolding events_sanctioned_def
proof
  fix e assume "e \<in> set (events d')"
  from assms(3) [OF this] show "\<exists>rq\<in>set (event_requests d'). rq_id rq = ev_event_request_id e \<and> rq_status rq = RQ_APPROVED"
    using assms(1,2) unfolding events_sanctioned_def by metis
qed

lemma approved_kept:
  assumes "db_ok d" and "rq \<in> set (event_requests d)" and "rq_status rq \<noteq> RQ_APPROVED" and "rq_id rq' = rq_id rq"
    and "r \<in> set (event_requests d)" and "rq_status r = RQ_APPROVED"
  shows "r \<in> set (put rq_id rq' (event_requests d))"
  by (rule put_keeps [OF db_ok_keys(2) [OF assms(1)] assms(2,4,5)]) (use assms(3,6) in auto)

section \<open>Decisions\<close>

lemma decision_templates:
  "template_steps (decision_entry q a s j d) = template_steps d"
  "template_steps (store_decision q st c inst s d) = template_steps d"
  "template_steps (release_booking i d) = template_steps d"
  "template_steps (refuse_venue i m d) = template_steps d"
  "template_steps (pass_budget q rq c d) = template_steps d"
  "template_steps (advance_chain q s inst rq nxt d) = template_steps d"
  "template_steps (chain_rejected q s inst rq m d) = template_steps d"
  "template_steps (chain_returned q s inst rq m d) = template_steps d"
  by (simp_all add: decision_entry_def store_decision_def release_booking_def refuse_venue_def pass_budget_def
      advance_chain_def chain_rejected_def chain_returned_def Let_def split: option.splits)

lemma interlocks_templates: "interlocks q s rq c d = Inr d' \<Longrightarrow> template_steps d' = template_steps d"
  by (auto simp: interlocks_def confirm_venue_def res_simps Let_def decision_templates split: option.splits if_splits)

lemma create_confirmed_event_events:
  assumes "create_confirmed_event q rq bs d = Inr (e, d')"
  shows "template_steps d' = template_steps d"
    and "x \<in> set (events d') \<Longrightarrow> x \<in> set (events d) \<or> ev_event_request_id x = rq_id rq"
  using assms
  by (auto simp: create_confirmed_event_def res_simps Let_def confirmed_event_fields split: option.splits)

lemma complete_chain_events:
  assumes "complete_chain q s inst rq bs d = Inr d'"
  shows "template_steps d' = template_steps d"
    and "x \<in> set (events d') \<Longrightarrow> x \<in> set (events d) \<or> ev_event_request_id x = rq_id rq"
proof -
  let ?d = "d\<lparr>instances := put wi_id (inst\<lparr>wi_status := WI_COMPLETED\<rparr>) (instances d),
         event_requests := put rq_id (rq\<lparr>rq_status := RQ_APPROVED\<rparr>) (event_requests d)\<rparr>"
  from assms obtain x j where y: "create_confirmed_event q (rq\<lparr>rq_status := RQ_APPROVED\<rparr>) bs ?d = Inr x"
    and d': "d' = decision_entry q A_PROPOSAL_APPROVED s j
        (create_notification q (rq_submitted_by rq) N_PROPOSAL_APPROVED (Some (rq_id rq)) (snd x))"
    unfolding complete_chain_def Let_def and_then_Inr by (auto simp: split_beta)
  from y have c: "create_confirmed_event q (rq\<lparr>rq_status := RQ_APPROVED\<rparr>) bs ?d = Inr (fst x, snd x)" by simp
  note f = create_confirmed_event_events [OF c]
  show "template_steps d' = template_steps d" using f(1) by (simp add: d' decision_templates)
  show "x \<in> set (events d') \<Longrightarrow> x \<in> set (events d) \<or> ev_event_request_id x = rq_id rq" for x
    using f(2) [of x] by (simp add: d')
qed

text \<open>What a decision leaves, in one form for its four outcomes.\<close>

lemma decision_shape:
  assumes "workflow_effect q d d'" and ok: "db_ok d"
  obtains s inst rq inst' rq' st c where "awaiting q d s inst rq"
    "steps d' = put ws_id (decided q st c inst s) (steps d)"
    "instances d' = put wi_id inst' (instances d)" "wi_id inst' = wi_id inst"
    "wi_event_request_id inst' = wi_event_request_id inst"
    "event_requests d' = put rq_id rq' (event_requests d)" "rq_id rq' = rq_id rq"
    "rq_workflow_instance_id rq' = rq_workflow_instance_id rq"
    "wi_status inst' = WI_IN_PROGRESS \<longrightarrow> under_review rq \<longrightarrow> under_review rq'"
    "template_steps d' = template_steps d"
    "\<forall>e\<in>set (events d'). e \<in> set (events d) \<or> ev_event_request_id e = rq_id rq' \<and> rq_status rq' = RQ_APPROVED"
  using assms(1)
proof cases
  case (advanced s inst rq c d1 nxt)
  note f = interlocks_frame [OF advanced(3)] and t = interlocks_templates [OF advanced(3)]
  show ?thesis
    by (rule that [OF advanced(2), where st = WS_APPROVED and c = c and
          inst' = "inst\<lparr>wi_current_step_order := ws_step_order nxt\<rparr>" and
          rq' = "if rq_status rq = RQ_SUBMITTED then rq\<lparr>rq_status := RQ_IN_REVIEW\<rparr> else rq"])
      (auto simp: advanced(1) f t decision_templates under_review_def)
next
  case (completed s inst rq c d1)
  note f = interlocks_frame [OF completed(2)] and t = interlocks_templates [OF completed(2)]
    and g = complete_chain_frame [OF completed(4)] and e = complete_chain_events [OF completed(4)]
  show ?thesis
    by (rule that [OF completed(1), where st = WS_APPROVED and c = c and
          inst' = "inst\<lparr>wi_status := WI_COMPLETED\<rparr>" and rq' = "rq\<lparr>rq_status := RQ_APPROVED\<rparr>"])
      (use e(2) in \<open>auto simp: f g(1,2,3) t e(1) decision_templates\<close>)
next
  case (rejected s inst rq m)
  show ?thesis
    by (rule that [OF rejected(2), where st = WS_REJECTED and c = "Some m" and
          inst' = "inst\<lparr>wi_status := WI_REJECTED\<rparr>" and rq' = "rq\<lparr>rq_status := RQ_REJECTED\<rparr>"])
      (simp_all add: rejected(1) chain_rejected_frame decision_templates)
next
  case (returned s inst rq m)
  have "put wi_id inst (instances d) = instances d"
    by (rule put_self [OF db_ok_keys(4) [OF ok]]) (use returned(2) in \<open>simp add: awaiting_def\<close>)
  then show ?thesis
    by (intro that [OF returned(2), where st = WS_REVISION_REQUESTED and c = "Some m" and inst' = inst and
          rq' = "rq\<lparr>rq_status := RQ_REVISION_REQUIRED\<rparr>"])
      (simp_all add: returned(1) chain_returned_frame decision_templates under_review_def)
qed

lemma steps_owned_put:
  "steps_owned d \<Longrightarrow> steps d' = put ws_id (decided q st c inst s) (steps d) \<Longrightarrow> s \<in> set (steps d) \<Longrightarrow>
     wi_id ` set (instances d') = wi_id ` set (instances d) \<Longrightarrow> steps_owned d'"
  by (fastforce simp: steps_owned_def dest!: put_rows)

lemma governed_decision:
  assumes eff: "workflow_effect q d d'" and ok: "db_ok d" and gov: "governed d"
  shows "governed d'"
proof -
  note g = governedD [OF gov]
  obtain s inst rq inst' rq' st c where aw: "awaiting q d s inst rq"
    and st: "steps d' = put ws_id (decided q st c inst s) (steps d)"
    and ins: "instances d' = put wi_id inst' (instances d)" "wi_id inst' = wi_id inst"
      "wi_event_request_id inst' = wi_event_request_id inst"
    and rqs: "event_requests d' = put rq_id rq' (event_requests d)" "rq_id rq' = rq_id rq"
      "rq_workflow_instance_id rq' = rq_workflow_instance_id rq"
    and open': "wi_status inst' = WI_IN_PROGRESS \<longrightarrow> under_review rq \<longrightarrow> under_review rq'"
    and ts: "template_steps d' = template_steps d"
    and evs: "\<forall>e\<in>set (events d').
      e \<in> set (events d) \<or> ev_event_request_id e = rq_id rq' \<and> rq_status rq' = RQ_APPROVED"
    by (rule decision_shape [OF eff ok])
  from aw have a: "inst \<in> set (instances d)" "rq \<in> set (event_requests d)" "s \<in> set (steps d)"
    "wi_event_request_id inst = rq_id rq" by (auto simp: awaiting_def)
  from awaiting_current [OF aw ok g(3)] have cur: "rq_workflow_instance_id rq = Some (wi_id inst)" "under_review rq"
    by simp_all
  have "running_ok d'"
    by (rule running_ok_put [OF ok g(3) a(1,2) cur(1) ins(1,2) _ rqs]) (use ins(3) a(4) open' cur(2) in auto)
  moreover have "events_sanctioned d'"
  proof (rule events_sanctioned_keep [OF g(6)])
    fix r assume r: "r \<in> set (event_requests d)" "rq_status r = RQ_APPROVED"
    show "r \<in> set (event_requests d')" unfolding rqs(1)
      by (rule approved_kept [OF ok a(2) _ rqs(2) r]) (use cur(2) in \<open>auto simp: under_review_def\<close>)
  next
    fix e assume "e \<in> set (events d')"
    from bspec [OF evs this] put_written [OF a(2) rqs(2)] show "(\<exists>x\<in>set (events d). ev_event_request_id x = ev_event_request_id e) \<or>
      (\<exists>r\<in>set (event_requests d'). rq_id r = ev_event_request_id e \<and> rq_status r = RQ_APPROVED)"
      unfolding rqs(1) by metis
  qed
  moreover have "steps_owned d'"
    by (rule steps_owned_put [OF g(4) st a(3)]) (simp add: ins(1))
  moreover have "worked_through d'"
  proof (rule worked_through_keep [OF g(7)])
    have own: "ws_instance_id ` set (steps d') = ws_instance_id ` set (steps d)"
      using arg_cong [OF map_put [OF db_ok_keys(5) [OF ok] a(3), of "decided q st c inst s" ws_instance_id], of set]
      by (simp add: st)
    then show "ws_instance_id ` set (steps d) \<subseteq> ws_instance_id ` set (steps d')" by simp
    fix i assume "i \<in> set (instances d')"
    with ins(1) have "i \<in> set (instances d) \<or> i = inst'" by (auto dest: put_rows)
    moreover have "wi_id inst' \<in> ws_instance_id ` set (steps d)" using aw ins(2) by (metis awaiting_def image_eqI)
    ultimately show "i \<in> set (instances d) \<or> wi_id i \<in> ws_instance_id ` set (steps d')" using own by auto
  qed
  ultimately show ?thesis
    using chain_ok_effect [OF eff ok g(1)] sanctioned_ok_effect [OF eff ok g(2)] g(5) ts by (simp add: governed_def)
qed

interpretation governed_decisions: state_invariant workflow_exec governed
  by unfold_locales (auto dest: workflow_exec_effect governed_decision)

section \<open>Submissions and withdrawals\<close>

lemma chain_ok_cong: "steps d' = steps d \<Longrightarrow> instances d' = instances d \<Longrightarrow> chain_ok d' = chain_ok d"
  by (simp add: chain_ok_def in_order_def chain_of_def)

lemma running_ok_edit:
  assumes ok: "db_ok d" and run: "running_ok d" and rq: "rq \<in> set (event_requests d)"
    and ins: "instances d' = instances d"
    and rqs: "event_requests d' = put rq_id rq' (event_requests d)" "rq_id rq' = rq_id rq"
      "rq_workflow_instance_id rq' = rq_workflow_instance_id rq" "under_review rq \<Longrightarrow> under_review rq'"
  shows "running_ok d'"
  unfolding running_ok_def
proof (intro ballI impI)
  fix i assume "i \<in> set (instances d')" "wi_status i = WI_IN_PROGRESS"
  with run ins obtain r where r: "r \<in> set (event_requests d)" "rq_id r = wi_event_request_id i"
    "rq_workflow_instance_id r = Some (wi_id i)" "under_review r" unfolding running_ok_def by auto
  show "\<exists>r\<in>set (event_requests d'). rq_id r = wi_event_request_id i \<and>
      rq_workflow_instance_id r = Some (wi_id i) \<and> under_review r"
  proof (cases "r = rq")
    case True
    with r rqs put_written [OF rq rqs(2)] show ?thesis by (intro bexI [of _ rq']) auto
  next
    case False
    with put_keeps [OF db_ok_keys(2) [OF ok] rq rqs(2) r(1)] r rqs(1) show ?thesis by (intro bexI [of _ r]) auto
  qed
qed

text \<open>A proposal whose chain was stopped, possibly with a new one started.\<close>

lemma running_ok_stopped:
  assumes ok: "db_ok d" and run: "running_ok d" and rq: "rq \<in> set (event_requests d)"
    and ins: "\<And>i. i \<in> set (instances d') \<Longrightarrow> wi_status i = WI_IN_PROGRESS \<Longrightarrow>
      i \<in> set (instances d) \<and> rq_workflow_instance_id rq \<noteq> Some (wi_id i) \<or>
      wi_event_request_id i = rq_id rq' \<and> rq_workflow_instance_id rq' = Some (wi_id i) \<and> under_review rq'"
    and rqs: "event_requests d' = put rq_id rq' (event_requests d)" "rq_id rq' = rq_id rq"
  shows "running_ok d'"
  unfolding running_ok_def
proof (intro ballI impI)
  fix i assume i: "i \<in> set (instances d')" "wi_status i = WI_IN_PROGRESS"
  from ins [OF this] show "\<exists>r\<in>set (event_requests d'). rq_id r = wi_event_request_id i \<and>
      rq_workflow_instance_id r = Some (wi_id i) \<and> under_review r"
  proof
    assume o: "i \<in> set (instances d) \<and> rq_workflow_instance_id rq \<noteq> Some (wi_id i)"
    with run i(2) obtain r where r: "r \<in> set (event_requests d)" "rq_id r = wi_event_request_id i"
      "rq_workflow_instance_id r = Some (wi_id i)" "under_review r" unfolding running_ok_def by blast
    with o have "r \<noteq> rq" by auto
    with put_keeps [OF db_ok_keys(2) [OF ok] rq rqs(2) r(1)] r rqs(1) show ?thesis by (intro bexI [of _ r]) auto
  next
    assume "wi_event_request_id i = rq_id rq' \<and> rq_workflow_instance_id rq' = Some (wi_id i) \<and> under_review rq'"
    with put_written [OF rq rqs(2)] rqs(1) show ?thesis by (intro bexI [of _ rq']) auto
  qed
qed

lemma instance_unique:
  "db_ok d \<Longrightarrow> i \<in> set (instances d) \<Longrightarrow> row wi_id (wi_id i) (instances d) = Some i"
  by (rule row_unique [OF db_ok_keys(4)]) auto

definition halted :: "workflow_instance_status \<Rightarrow> event_request \<Rightarrow> db \<Rightarrow> workflow_instance list" where
  "halted st rq d =
     (case chain_of_proposal d rq of
        None \<Rightarrow> instances d
      | Some p \<Rightarrow> if wi_status p = WI_IN_PROGRESS then put wi_id (p\<lparr>wi_status := st\<rparr>) (instances d) else instances d)"

lemma halted_instances:
  "instances (supersede rq d) = halted WI_SUPERSEDED rq d"
  "instances (cancel_chain (chain_of_proposal d rq) d) = halted WI_CANCELLED rq d"
  by (simp_all add: halted_def supersede_def cancel_chain_def chain_of_proposal_def split: option.split)

lemma halted_rows: "i \<in> set (halted st rq d) \<Longrightarrow> i \<in> set (instances d) \<or> wi_status i = st"
  by (auto simp: halted_def split: option.splits if_splits dest!: put_rows)

lemma halted_completed: "i \<in> set (halted st rq d) \<Longrightarrow> wi_status i = WI_COMPLETED \<Longrightarrow> st \<noteq> WI_COMPLETED \<Longrightarrow> i \<in> set (instances d)"
  by (auto dest: halted_rows)

lemma halted_running:
  assumes i: "i \<in> set (halted st rq d)" "wi_status i = WI_IN_PROGRESS" and st: "st \<noteq> WI_IN_PROGRESS" and ok: "db_ok d"
  shows "i \<in> set (instances d) \<and> rq_workflow_instance_id rq \<noteq> Some (wi_id i)"
proof
  show d: "i \<in> set (instances d)" using halted_rows [OF i(1)] i(2) st by auto
  show "rq_workflow_instance_id rq \<noteq> Some (wi_id i)"
  proof
    assume "rq_workflow_instance_id rq = Some (wi_id i)"
    then have "chain_of_proposal d rq = Some i" using instance_unique [OF ok d] by (simp add: chain_of_proposal_def)
    then have "halted st rq d = put wi_id (i\<lparr>wi_status := st\<rparr>) (instances d)" using i(2) by (simp add: halted_def)
    with i(1) have "i = i\<lparr>wi_status := st\<rparr>" by (simp add: in_put)
    then have "wi_status i = wi_status (i\<lparr>wi_status := st\<rparr>)" by (rule arg_cong)
    with i(2) st show False by simp
  qed
qed

lemma halted_keeps:
  assumes "i \<in> set (instances d)" and "wi_status i \<noteq> WI_IN_PROGRESS" and ok: "db_ok d"
  shows "i \<in> set (halted st rq d)"
proof (cases "chain_of_proposal d rq")
  case None
  with assms(1) show ?thesis by (simp add: halted_def)
next
  case (Some p)
  then have p: "p \<in> set (instances d)" by (auto simp: chain_of_proposal_def split: bind_splits dest: row_key)
  show ?thesis
  proof (cases "wi_status p = WI_IN_PROGRESS")
    case True
    with assms(2) have "i \<noteq> p" by auto
    with put_keeps [OF db_ok_keys(4) [OF ok] p, of "p\<lparr>wi_status := st\<rparr>" i] assms(1) True Some show ?thesis
      by (simp add: halted_def)
  next
    case False
    with Some assms(1) show ?thesis by (simp add: halted_def)
  qed
qed

lemma instance_ids [simp]:
  "wi_id ` set (instances (supersede rq d)) = wi_id ` set (instances d)"
  "wi_id ` set (instances (cancel_chain c d)) = wi_id ` set (instances d)"
  by (simp_all add: supersede_def cancel_chain_def split: option.split)

text \<open>Skipped steps leave the order of a chain alone.\<close>

lemma skipped_simps [simp]:
  "ws_instance_id (skipped i s) = ws_instance_id s" "ws_step_order (skipped i s) = ws_step_order s"
  "ws_instance_id s \<noteq> i \<Longrightarrow> skipped i s = s"
  by (simp_all add: skipped_def)

lemma cancelled_step_ids: "ws_instance_id ` set (steps (cancel_chain c d)) = ws_instance_id ` set (steps d)"
  by (simp add: cancel_chain_def image_image split: option.split)

lemma gapless_skipped: "gapless t \<Longrightarrow> gapless (map (skipped i) t)"
  by (fastforce simp: gapless_def)

lemma chain_ok_cancelled:
  assumes good: "chain_ok d"
  shows "chain_ok (cancel_chain (chain_of_proposal d rq) d)" (is "chain_ok ?d")
proof (cases "\<exists>c. chain_of_proposal d rq = Some c \<and> wi_status c = WI_IN_PROGRESS")
  case True
  then obtain c where c: "chain_of_proposal d rq = Some c" "wi_status c = WI_IN_PROGRESS" by blast
  have st: "steps ?d = map (skipped (wi_id c)) (steps d)"
    and ins: "instances ?d = put wi_id (c\<lparr>wi_status := WI_CANCELLED\<rparr>) (instances d)"
    using c by (simp_all add: cancel_chain_def)
  have "in_order ?d i" if i: "i \<in> set (instances ?d)" for i
  proof (cases "wi_id i = wi_id c")
    case True
    with i have "wi_status i = WI_CANCELLED" by (auto simp: ins in_put)
    then show ?thesis by (simp add: in_order_def)
  next
    case False
    with i have "i \<in> set (instances d)" by (auto simp: ins in_put)
    moreover have "set (chain_of ?d i) = set (chain_of d i)" using False by (force simp: chain_of_def st)
    ultimately show ?thesis using good in_order_cong [of ?d i d] by (simp add: chain_ok_def)
  qed
  with good show ?thesis by (simp add: chain_ok_def st gapless_skipped)
next
  case False
  then have "?d = d" by (auto simp: cancel_chain_def split: option.split)
  with good show ?thesis by simp
qed

lemma template_shape_append: "template_shape a \<Longrightarrow> template_shape b \<Longrightarrow> template_shape (a @ b)"
  by (fastforce simp: template_shape_def)

lemma standard_shape: "template_shape (map (standard_step q i) (enumerate k standard_steps))"
  by (simp add: template_shape_def standard_steps_def standard_step_def)

lemma ensure_shape:
  "template_shape (template_steps d) \<Longrightarrow> template_shape (template_steps (snd (ensure_default_template q d)))"
  by (simp add: ensure_default_template_def Let_def template_shape_append standard_shape split: option.split)

lemma in_enumerate: "x \<in> set xs \<Longrightarrow> \<exists>n. (n, x) \<in> set (enumerate k xs)"
  by (metis (no_types, lifting) imageE map_snd_enumerate list.set_map prod.collapse)

lemma started_chain_shape:
  assumes "template_shape (template_steps d)" and "started_chain q rq d = (inst, ss)"
  shows "wi_status inst = WI_IN_PROGRESS" "wi_current_step_order inst = 1" "wi_event_request_id inst = rq_id rq"
    and "s \<in> set ss \<Longrightarrow> ws_instance_id s = wi_id inst \<and> ws_status s = WS_PENDING \<and> ws_step_order s \<ge> 1 \<and>
      (ws_step_order s > 1 \<longrightarrow> (\<exists>r\<in>set ss. ws_step_order r = ws_step_order s - 1))"
proof -
  obtain t d1 where e: "ensure_default_template q (supersede rq d) = (t, d1)"
    by (cases "ensure_default_template q (supersede rq d)")
  have sh: "template_shape (template_steps d1)" using ensure_shape [of "supersede rq d" q] assms(1) by (simp add: e)
  have inst: "inst = new_instance q rq t (next_uuid d1)"
    and ss: "ss = map (instance_step q rq d1 (next_uuid d1)) (enumerate (Suc (next_uuid d1)) (steps_of_template d1 t))"
    using assms(2) by (simp_all add: started_chain_def e Let_def)
  show "wi_status inst = WI_IN_PROGRESS" "wi_current_step_order inst = 1" "wi_event_request_id inst = rq_id rq"
    by (simp_all add: inst new_instance_def)
  show "s \<in> set ss \<Longrightarrow> ws_instance_id s = wi_id inst \<and> ws_status s = WS_PENDING \<and> ws_step_order s \<ge> 1 \<and>
      (ws_step_order s > 1 \<longrightarrow> (\<exists>r\<in>set ss. ws_step_order r = ws_step_order s - 1))"
  proof -
    assume "s \<in> set ss"
    then obtain n x where x: "s = instance_step q rq d1 (next_uuid d1) (n, x)"
      "(n, x) \<in> set (enumerate (Suc (next_uuid d1)) (steps_of_template d1 t))" by (auto simp: ss)
    then have xs: "x \<in> set (steps_of_template d1 t)" by (metis in_set_enumerate_eq list.set_map map_snd_enumerate rev_image_eqI snd_conv)
    then have xt: "x \<in> set (template_steps d1)" "ts_template_id x = tp_id t" by (auto simp: steps_of_template_def)
    have "\<exists>r\<in>set ss. ws_step_order r = ts_step_order x - 1" if gt: "ts_step_order x > 1"
    proof -
      from sh xt gt obtain y where y: "y \<in> set (template_steps d1)" "ts_template_id y = tp_id t"
        "ts_step_order y = ts_step_order x - 1" unfolding template_shape_def by metis
      then have "y \<in> set (steps_of_template d1 t)" by (simp add: steps_of_template_def)
      then obtain m where "(m, y) \<in> set (enumerate (Suc (next_uuid d1)) (steps_of_template d1 t))"
        using in_enumerate by metis
      then have "instance_step q rq d1 (next_uuid d1) (m, y) \<in> set ss" unfolding ss set_map by (rule imageI)
      then show ?thesis by (rule bexI [rotated]) (simp add: instance_step_def y(3))
    qed
    moreover have "ts_step_order x \<ge> 1" using sh xt(1) by (simp add: template_shape_def)
    ultimately show ?thesis by (simp add: x(1) instance_step_def inst new_instance_def)
  qed
qed

text \<open>What a submission does to the chains.\<close>

lemma chain_ok_started:
  assumes ok: "db_ok d'" and good: "chain_ok d" and own: "steps_owned d"
    and shape: "template_shape (template_steps d)" and sc: "started_chain q rq d = (inst, ss)"
    and ins: "instances d' = instances (supersede rq d) @ [inst]" and st: "steps d' = steps d @ ss"
  shows "chain_ok d'" "steps_owned d'"
proof -
  note s = started_chain_shape [OF shape sc]
  have new: "wi_id inst \<notin> wi_id ` set (instances d)"
    using db_ok_keys(4) [OF ok] instance_ids(1) [of rq d] by (simp add: ins)
  then have none: "ws_instance_id x \<noteq> wi_id inst" if "x \<in> set (steps d)" for x
    using own that new unfolding steps_owned_def by (metis image_eqI subsetD)
  have "gapless (steps d')"
    unfolding gapless_def
  proof
    fix x assume "x \<in> set (steps d')"
    then consider "x \<in> set (steps d)" | "x \<in> set ss" by (auto simp: st)
    then show "1 \<le> ws_step_order x \<and> (1 < ws_step_order x \<longrightarrow>
        (\<exists>r\<in>set (steps d'). ws_instance_id r = ws_instance_id x \<and> ws_step_order r = ws_step_order x - 1))"
    proof cases
      case 1
      with good show ?thesis unfolding chain_ok_def gapless_def st by auto
    next
      case 2
      with s(4) [OF 2] s(4) show ?thesis unfolding st by (metis Un_iff set_append)
    qed
  qed
  moreover have "in_order d' i" if i: "i \<in> set (instances d')" for i
  proof (cases "i = inst")
    case True
    have "chain_of d' inst = ss"
      using none s(4) by (auto simp: chain_of_def st filter_id_conv filter_empty_conv)
    with s(1,2) s(4) True show ?thesis by (fastforce simp: in_order_def)
  next
    case False
    with i have i': "i \<in> set (instances (supersede rq d))" by (simp add: ins)
    then have "wi_id i \<in> wi_id ` set (instances d)" using instance_ids(1) [of rq d] by blast
    with new have ne: "wi_id i \<noteq> wi_id inst" by auto
    have "chain_of d' i = chain_of d i"
      using ne s(4) by (auto simp: chain_of_def st filter_empty_conv)
    moreover have "in_order d i \<or> wi_status i = WI_SUPERSEDED"
      using halted_rows [of i WI_SUPERSEDED rq d] i' good by (auto simp: chain_ok_def halted_instances)
    ultimately show ?thesis by (auto simp: in_order_def)
  qed
  ultimately show "chain_ok d'" by (simp add: chain_ok_def)
  show "steps_owned d'"
    using own s(4) instance_ids(1) [of rq d] unfolding steps_owned_def st ins by auto
qed

lemma sanctioned_ok_request:
  assumes "sanctioned_ok d"
    and "\<And>r. r \<in> set (event_requests d') \<Longrightarrow> rq_status r = RQ_APPROVED \<Longrightarrow> r \<in> set (event_requests d)"
    and "\<And>i. i \<in> set (instances d) \<Longrightarrow> wi_status i = WI_COMPLETED \<Longrightarrow> i \<in> set (instances d')"
    and "ev_event_request_id ` set (events d) \<subseteq> ev_event_request_id ` set (events d')"
  shows "sanctioned_ok d'"
proof (rule sanctioned_ok_keep [OF assms(1)])
  fix e assume "e \<in> set (events d)"
  then have "ev_event_request_id e \<in> ev_event_request_id ` set (events d')" using assms(4) by blast
  then show "\<exists>e'\<in>set (events d'). ev_event_request_id e' = ev_event_request_id e" by auto
qed (use assms(2,3) in auto)

lemma request_put:
  assumes "db_ok d" and "rq \<in> set (event_requests d)" and "rq_status rq \<noteq> RQ_APPROVED" and "rq_status rq' \<noteq> RQ_APPROVED"
    and "rq_id rq' = rq_id rq" and "event_requests d' = put rq_id rq' (event_requests d)"
  shows "r \<in> set (event_requests d') \<Longrightarrow> rq_status r = RQ_APPROVED \<Longrightarrow> r \<in> set (event_requests d)"
    and "r \<in> set (event_requests d) \<Longrightarrow> rq_status r = RQ_APPROVED \<Longrightarrow> r \<in> set (event_requests d')"
  using assms approved_kept [OF assms(1,2,3,5), of r] by (auto simp: in_put)

lemma edited_row [simp]:
  "rq_workflow_instance_id (edited u rq) = rq_workflow_instance_id rq" "rq_status (new_proposal q p i) = RQ_DRAFT"
  "rq_workflow_instance_id (cancelled_row rq) = rq_workflow_instance_id rq"
  by (simp_all add: edited_def new_proposal_def cancelled_row_def)

lemma governed_submission:
  assumes ok: "db_ok d" and ok': "db_ok d'" and gov: "governed d"
    and rq: "rq \<in> set (event_requests d)" "editable rq"
    and d': "d' = snd (instantiate_workflow q (submitted_row k rq) (version_stored q rq (submitted_row k rq) c d))"
  shows "governed d'"
proof -
  note g = governedD [OF gov]
  let ?rq = "submitted_row k rq" and ?e = "version_stored q rq (submitted_row k rq) c d"
  obtain inst ss where sc: "started_chain q ?rq ?e = (inst, ss)" by (cases "started_chain q ?rq ?e")
  note f = instantiate_workflow_frame [of q ?rq ?e, folded d', unfolded sc fst_conv snd_conv]
  have sup: "instances (supersede ?rq ?e) = instances (supersede rq d)"
    by (simp add: supersede_def split: option.split)
  have shape: "template_shape (template_steps ?e)" using g(5) by simp
  note s = started_chain_shape [OF shape sc]
  let ?r = "?rq\<lparr>rq_workflow_instance_id := Some (wi_id inst)\<rparr>"
  have rqs: "event_requests d' = put rq_id ?r (event_requests d)" using f(2) by simp
  have na: "rq_status rq \<noteq> RQ_APPROVED" using rq(2) by (auto simp: editable_def)
  note rp = request_put [OF ok rq(1) na _ _ rqs]
  show ?thesis
  proof (rule governedI)
    have e: "chain_ok ?e" "steps_owned ?e"
      using g(1,4) chain_ok_cong [of ?e d] by (simp_all add: steps_owned_def)
    show "chain_ok d'" "steps_owned d'"
      by (rule chain_ok_started [OF ok' e shape sc f(3,4)])+
    show "running_ok d'"
    proof (rule running_ok_stopped [OF ok g(3) rq(1) _ rqs])
      fix i assume i: "i \<in> set (instances d')" "wi_status i = WI_IN_PROGRESS"
      with f(3) sup consider "i \<in> set (instances (supersede rq d))" | "i = inst" by auto
      then show "i \<in> set (instances d) \<and> rq_workflow_instance_id rq \<noteq> Some (wi_id i) \<or>
        wi_event_request_id i = rq_id ?r \<and> rq_workflow_instance_id ?r = Some (wi_id i) \<and> under_review ?r"
        by cases (use halted_running [OF _ i(2) _ ok, of WI_SUPERSEDED rq] s(3) in \<open>auto simp: under_review_def halted_instances\<close>)
    qed simp
    show "template_shape (template_steps d')"
      using ensure_shape [of "supersede ?rq ?e" q] shape f(5) by simp
    show "sanctioned_ok d'"
      by (rule sanctioned_ok_request [OF g(2)])
        (use rp(1) f(3,10) sup halted_keeps [OF _ _ ok] in \<open>auto simp: halted_instances\<close>)
    show "events_sanctioned d'"
      by (rule events_sanctioned_keep [OF g(6)]) (use rp(2) f(10) in auto)
    show "worked_through d'"
      by (rule worked_through_keep [OF g(7)])
        (use f(3,4) sup s(1) in \<open>auto simp: halted_instances dest: halted_completed\<close>)
  qed
qed

lemma event_requests_kept: "db_ok d \<Longrightarrow> ev \<in> set (events d) \<Longrightarrow> ev_id ev' = ev_id ev \<Longrightarrow>
    ev_event_request_id ev' = ev_event_request_id ev \<Longrightarrow>
    map ev_event_request_id (put ev_id ev' (events d)) = map ev_event_request_id (events d)"
  by (rule map_put [OF db_ok_keys(6)])

text \<open>Whatever leaves proposals and chains alone, and events with their proposals, keeps the state governed.\<close>

definition apart :: "db \<Rightarrow> db \<Rightarrow> bool" where
  "apart d d' \<longleftrightarrow>
     event_requests d' = event_requests d \<and> instances d' = instances d \<and> steps d' = steps d \<and>
     template_steps d' = template_steps d \<and> map ev_event_request_id (events d') = map ev_event_request_id (events d)"

lemma apartI:
  "event_requests d' = event_requests d \<Longrightarrow> instances d' = instances d \<Longrightarrow> steps d' = steps d \<Longrightarrow>
     template_steps d' = template_steps d \<Longrightarrow>
     map ev_event_request_id (events d') = map ev_event_request_id (events d) \<Longrightarrow> apart d d'"
  by (simp add: apart_def)

lemma governed_apart:
  assumes "apart d d'" and gov: "governed d"
  shows "governed d'"
proof -
  note g = governedD [OF gov]
  have a: "event_requests d' = event_requests d" "instances d' = instances d" "steps d' = steps d"
    "template_steps d' = template_steps d" and e: "map ev_event_request_id (events d') = map ev_event_request_id (events d)"
    using assms(1) by (simp_all add: apart_def)
  from arg_cong [OF e, of set] have e': "ev_event_request_id ` set (events d') = ev_event_request_id ` set (events d)" by simp
  show ?thesis
  proof (rule governedI)
    show "chain_ok d'" using g(1) chain_ok_cong [OF a(3,2)] by simp
    show "sanctioned_ok d'" by (rule sanctioned_ok_request [OF g(2)]) (simp_all add: a e')
    show "running_ok d'" using g(3) by (simp add: running_ok_def a)
    show "steps_owned d'" using g(4) by (simp add: steps_owned_def a)
    show "template_shape (template_steps d')" using g(5) by (simp add: a)
    show "worked_through d'" using g(7) by (simp add: worked_through_def a)
    show "events_sanctioned d'"
    proof (rule events_sanctioned_keep [OF g(6)])
      fix x assume "x \<in> set (events d')"
      then have "ev_event_request_id x \<in> ev_event_request_id ` set (events d)" using e' by blast
      then show "(\<exists>y\<in>set (events d). ev_event_request_id y = ev_event_request_id x) \<or>
          (\<exists>r\<in>set (event_requests d'). rq_id r = ev_event_request_id x \<and> rq_status r = RQ_APPROVED)" by auto
    qed (simp add: a)
  qed
qed

lemma governed_proposal:
  assumes eff: "proposal_effect q d d'" and ok: "db_ok d" and ok': "db_ok d'" and gov: "governed d"
  shows "governed d'"
proof -
  note g = governedD [OF gov]
  from eff show ?thesis
  proof cases
    case (drafted p)
    have fr: "event_requests d' = event_requests d @ [new_proposal q p (next_uuid d)]" "instances d' = instances d"
      "steps d' = steps d" "template_steps d' = template_steps d" "events d' = events d" by (simp_all add: drafted)
    show ?thesis
    proof (rule governedI)
      show "chain_ok d'" using g(1) chain_ok_cong [OF fr(3,2)] by simp
      show "sanctioned_ok d'" by (rule sanctioned_ok_request [OF g(2)]) (auto simp: fr)
      show "running_ok d'" using g(3) by (auto simp: running_ok_def fr)
      show "steps_owned d'" using g(4) by (simp add: steps_owned_def fr)
      show "worked_through d'" using g(7) by (simp add: worked_through_def fr)
      show "template_shape (template_steps d')" using g(5) by (simp add: fr)
      show "events_sanctioned d'" by (rule events_sanctioned_keep [OF g(6)]) (auto simp: fr)
    qed
  next
    case (edited rq u)
    have fr: "event_requests d' = put rq_id (Proposals.edited u rq) (event_requests d)" "instances d' = instances d"
      "steps d' = steps d" "template_steps d' = template_steps d" "events d' = events d" by (simp_all add: edited)
    have na: "rq_status rq \<noteq> RQ_APPROVED" using edited(3) by (auto simp: editable_def)
    note rp = request_put [OF ok edited(2) na _ _ fr(1)]
    show ?thesis
    proof (rule governedI)
      show "chain_ok d'" using g(1) chain_ok_cong [OF fr(3,2)] by simp
      show "sanctioned_ok d'" by (rule sanctioned_ok_request [OF g(2)]) (use na rp(1) in \<open>auto simp: fr(2,5)\<close>)
      show "running_ok d'"
        by (rule running_ok_edit [OF ok g(3) edited(2) fr(2,1)]) (simp_all add: under_review_def)
      show "steps_owned d'" using g(4) by (simp add: steps_owned_def fr)
      show "worked_through d'" using g(7) by (simp add: worked_through_def fr)
      show "template_shape (template_steps d')" using g(5) by (simp add: fr)
      show "events_sanctioned d'" by (rule events_sanctioned_keep [OF g(6)]) (use na rp(2) in \<open>auto simp: fr(5)\<close>)
    qed
  next
    case (submitted rq k c)
    show ?thesis by (rule governed_submission [OF ok ok' gov submitted(2,3,1)])
  next
    case repeated
    with gov show ?thesis by simp
  next
    case (withdrawn rq r)
    have fr: "event_requests d' = put rq_id (cancelled_row rq) (event_requests d)"
      "instances d' = instances (cancel_chain (chain_of_proposal d rq) d)"
      "steps d' = steps (cancel_chain (chain_of_proposal d rq) d)"
      "template_steps d' = template_steps d" "events d' = events d" by (simp_all add: withdrawn)
    have na: "rq_status rq \<noteq> RQ_APPROVED" using withdrawn(3) by (auto simp: cancellable_def)
    note rp = request_put [OF ok withdrawn(2) na _ _ fr(1)]
    show ?thesis
    proof (rule governedI)
      show "chain_ok d'" using chain_ok_cancelled [OF g(1)] chain_ok_cong [OF fr(3,2)] by simp
      show "sanctioned_ok d'"
        by (rule sanctioned_ok_request [OF g(2)])
          (use rp(1) halted_keeps [OF _ _ ok] in \<open>auto simp: fr(2,5) halted_instances\<close>)
      show "running_ok d'"
        by (rule running_ok_stopped [OF ok g(3) withdrawn(2) _ fr(1)]) (use halted_running [OF _ _ _ ok] in \<open>auto simp: fr(2) halted_instances\<close>)
      show "steps_owned d'"
        using g(4) by (auto simp: steps_owned_def fr(2,3) cancel_chain_def split: option.split)
      show "worked_through d'"
        by (rule worked_through_keep [OF g(7)])
          (auto simp: fr(2,3) halted_instances cancelled_step_ids dest: halted_completed)
      show "template_shape (template_steps d')" using g(5) by (simp add: fr)
      show "events_sanctioned d'" by (rule events_sanctioned_keep [OF g(6)]) (use rp(2) in \<open>auto simp: fr(5)\<close>)
    qed
  next
    case (called_off ev r)
    have "apart d d'"
      by (rule apartI) (simp_all add: called_off event_requests_kept [OF ok called_off(2)] event_cancelled_row_def)
    then show ?thesis by (rule governed_apart [OF _ gov])
  qed
qed

interpretation governed_proposals: state_invariant proposal_exec governed
  by unfold_locales (auto dest: proposal_exec_effect governed_proposal)

end
