(* ===== verification/Sessions.thy ===== *)
theory Sessions
  imports Auth
begin

text \<open>
  What authentication promises: the number of guesses at a password is bounded by the lockout, a refresh token
  works once, an access token names its owner until it expires, the login limiter admits no more calls than it
  is set to, and the accounts stay well formed. The witnesses run on a concrete library in the clear.
\<close>

section \<open>Guesses\<close>

text \<open>A login that reaches the password check of account \<open>i\<close>, and how many of a sequence of requests do.\<close>

fun guess_on :: "library \<Rightarrow> uuid \<Rightarrow> request \<Rightarrow> auth_request \<Rightarrow> db \<Rightarrow> bool" where
  "guess_on L i q (Login email password) d =
     (case user_login_schema L email password of
        Inl _ \<Rightarrow> False
      | Inr (e, _) \<Rightarrow>
          (case account_of e d of Inr (Some u) \<Rightarrow> us_id u = i \<and> us_is_active u \<and> \<not> locked q u | _ \<Rightarrow> False))"
| "guess_on L i q _ d = False"

fun guesses :: "library \<Rightarrow> auth_settings \<Rightarrow> uuid \<Rightarrow> (request \<times> auth_request) list \<Rightarrow> db \<Rightarrow> nat" where
  "guesses L S i [] d = 0"
| "guesses L S i ((q, r) # xs) d =
     (if guess_on L i q r d then 1 else 0) + guesses L S i xs (snd (auth_serve L S q r d))"

fun wrong_password :: "library \<Rightarrow> string \<Rightarrow> auth_request \<Rightarrow> bool" where
  "wrong_password L h (Login email password) = (\<not> verify_password L password h)"
| "wrong_password L h _ = True"

lemma user_keys: "db_ok d \<Longrightarrow> distinct (map us_id (users d))"
  by (simp add: db_ok_def users_ok_def)

lemma user_by_id: "db_ok d \<Longrightarrow> u \<in> set (users d) \<Longrightarrow> v \<in> set (users d) \<Longrightarrow> us_id v = us_id u \<Longrightarrow> v = u"
  using user_keys [of d] by (auto simp: distinct_map inj_on_def)

lemma db_ok_user:
  assumes "db_ok d" and "u \<in> set (users d)" and "us_id u' = us_id u" "us_email u' = us_email u" "us_full_name u' = us_full_name u"
  shows "db_ok (d\<lparr>users := put us_id u' (users d)\<rparr>)"
proof -
  note k = user_keys [OF assms(1)]
  have m: "map us_email (put us_id u' (users d)) = map us_email (users d)"
    by (rule map_put [OF k assms(2)]) (simp_all add: assms)
  have "us_email v \<noteq> [] \<and> us_full_name v \<noteq> []" if "v \<in> set (put us_id u' (users d))" for v
    using put_rows [OF that] assms by (auto simp: db_ok_def users_ok_def list_all_iff)
  then show ?thesis using assms(1) by (simp add: db_ok_def users_ok_def m list_all_iff)
qed

lemma login_schema_password: "user_login_schema L email password = Inr (e, pw) \<Longrightarrow> pw = password"
  by (auto simp: user_login_schema_def res_simps)

lemma guessed:
  assumes ok: "db_ok d" and u: "u \<in> set (users d)" and g: "guess_on L (us_id u) q r d"
    and w: "wrong_password L (us_password_hash u) r"
  shows "attempt_failed S q u \<in> set (users (snd (auth_serve L S q r d)))"
proof (cases r)
  case (Login email password)
  with g obtain e pw v where s: "user_login_schema L email password = Inr (e, pw)" and a: "account_of e d = Inr (Some v)"
    and v: "us_id v = us_id u" "us_is_active v" "\<not> locked q v" by (auto split: sum.splits option.splits)
  have "v = u" using user_by_id [OF ok u _ v(1)] account_ofD [OF a] by blast
  moreover have "db_ok (d\<lparr>users := put us_id (attempt_failed S q u) (users d)\<rparr>)"
    by (rule db_ok_user [OF ok u]) (simp_all add: attempt_failed_def Let_def)
  ultimately show ?thesis
    using s a v w login_schema_password [OF s] put_written [OF u, of us_id "attempt_failed S q u"]
    by (simp add: Login authenticate_user_def saved_def answer_def)
qed (use g in simp_all)

lemma not_guessed:
  assumes ok: "db_ok d" and u: "u \<in> set (users d)" and g: "\<not> guess_on L (us_id u) q r d"
  shows "u \<in> set (users (snd (auth_serve L S q r d)))"
proof (cases r)
  case (Register p)
  with u show ?thesis by (auto simp: register_user_def answer_def Let_def split: sum.splits)
next
  case (Login email password)
  show ?thesis
  proof (cases "user_login_schema L email password")
    case (Inr ep)
    then obtain e pw where s: "user_login_schema L email password = Inr (e, pw)" by (cases ep) auto
    have keep: "u \<in> set (put us_id w (users d))" if "account_of e d = Inr (Some v)" "us_id w = us_id v" "us_id v \<noteq> us_id u" for v w
      using that u by (auto simp: in_put)
    show ?thesis
      using g u s by (auto simp: Login authenticate_user_def saved_def answer_def Let_def intro: keep
          split: sum.splits option.splits)
  qed (use u Login in simp)
next
  case (Refresh cookie)
  with u show ?thesis
    by (auto simp: rotate_refresh_token_def saved_def answer_def split: sum.splits option.splits)
next
  case (Logout cookie)
  with u show ?thesis by (auto simp: revoke_refresh_token_def saved_def answer_def split: sum.splits option.splits)
qed

text \<open>What is left of the guesses: none before a lockout ends, otherwise those before the limit, and at least one.\<close>

definition guesses_left :: "auth_settings \<Rightarrow> time \<Rightarrow> user \<Rightarrow> nat" where
  "guesses_left S horizon u =
     (if \<exists>t. us_locked_until u = Some t \<and> horizon \<le> t then 0
      else nat (max 1 (MAX_LOGIN_ATTEMPTS S - us_failed_login_attempts u)))"

lemma guess_needs_unlocked:
  assumes ok: "db_ok d" and u: "u \<in> set (users d)" and g: "guess_on L (us_id u) q r d" and "now q < horizon"
  shows "\<not> (\<exists>t. us_locked_until u = Some t \<and> horizon \<le> t)"
proof (cases r)
  case (Login email password)
  with g obtain e pw v where a: "account_of e d = Inr (Some v)" and v: "us_id v = us_id u" "\<not> locked q v"
    by (auto split: sum.splits option.splits)
  have "v = u" using user_by_id [OF ok u _ v(1)] account_ofD [OF a] by blast
  with v(2) assms(4) show ?thesis by (auto simp: locked_def)
qed (use g in simp_all)

lemma guess_used:
  assumes "\<not> (\<exists>t. us_locked_until u = Some t \<and> start + minutes (ACCOUNT_LOCKOUT_MINUTES S) \<le> t)" and "start \<le> now q"
  shows "Suc (guesses_left S (start + minutes (ACCOUNT_LOCKOUT_MINUTES S)) (attempt_failed S q u))
    \<le> guesses_left S (start + minutes (ACCOUNT_LOCKOUT_MINUTES S)) u"
  using assms by (auto simp: guesses_left_def attempt_failed_def Let_def)

lemma guesses_bounded:
  assumes "db_ok d" and "u \<in> set (users d)"
    and "\<forall>(q, r)\<in>set xs. start \<le> now q \<and> now q < start + minutes (ACCOUNT_LOCKOUT_MINUTES S) \<and>
           wrong_password L (us_password_hash u) r"
  shows "guesses L S (us_id u) xs d \<le> guesses_left S (start + minutes (ACCOUNT_LOCKOUT_MINUTES S)) u"
  using assms
proof (induction xs arbitrary: d u)
  case Nil
  then show ?case by simp
next
  case (Cons x xs)
  obtain q r where x: "x = (q, r)" by (cases x)
  let ?d = "snd (auth_serve L S q r d)" and ?u = "attempt_failed S q u" and ?T = "start + minutes (ACCOUNT_LOCKOUT_MINUTES S)"
  have ok: "db_ok ?d" using auth_serve_effect [of L S q r d] Cons.prems(1) by (metis prod.collapse)
  have q: "start \<le> now q" "now q < ?T" and w: "wrong_password L (us_password_hash u) r" using Cons.prems(3) x by auto
  have rest: "\<forall>(q, r)\<in>set xs. start \<le> now q \<and> now q < ?T \<and> wrong_password L (us_password_hash u) r"
    using Cons.prems(3) by auto
  show ?case
  proof (cases "guess_on L (us_id u) q r d")
    case True
    have "?u \<in> set (users ?d)" by (rule guessed [OF Cons.prems(1,2) True w])
    from Cons.IH [OF ok this] rest have "guesses L S (us_id u) xs ?d \<le> guesses_left S ?T ?u" by simp
    moreover have "Suc (guesses_left S ?T ?u) \<le> guesses_left S ?T u"
      by (rule guess_used [OF guess_needs_unlocked [OF Cons.prems(1,2) True q(2)] q(1)])
    ultimately show ?thesis using True by (simp add: x)
  next
    case False
    have "u \<in> set (users ?d)" by (rule not_guessed [OF Cons.prems(1,2) False])
    from Cons.IH [OF ok this rest] False show ?thesis by (simp add: x)
  qed
qed

section \<open>Rotation\<close>

text \<open>A spent token stays spent: its record stays, with its owner, and stays revoked.\<close>

definition spent :: "library \<Rightarrow> string \<Rightarrow> uuid \<Rightarrow> db \<Rightarrow> bool" where
  "spent L raw i d \<longleftrightarrow>
     (\<exists>t\<in>set (refresh_tokens d). rt_token_hash t = sha256 L raw \<and> rt_user_id t = i \<and> rt_revoked_at t \<noteq> None)"

lemma spentI:
  "t \<in> set (refresh_tokens d) \<Longrightarrow> rt_token_hash t = sha256 L raw \<Longrightarrow> rt_user_id t = i \<Longrightarrow> rt_revoked_at t \<noteq> None \<Longrightarrow>
    spent L raw i d"
  by (auto simp: spent_def)

lemma token_keys: "db_ok d \<Longrightarrow> distinct (map rt_id (refresh_tokens d))"
  and token_hashes: "db_ok d \<Longrightarrow> distinct (map rt_token_hash (refresh_tokens d))"
  by (simp_all add: db_ok_def refresh_tokens_ok_def)

lemma spent_effect: "auth_effect L S q d d' \<Longrightarrow> db_ok d \<Longrightarrow> spent L raw i d \<Longrightarrow> spent L raw i d'"
proof (induction rule: auth_effect.induct)
  case (rotated t u n)
  then obtain s where s: "s \<in> set (refresh_tokens d)" "rt_token_hash s = sha256 L raw" "rt_user_id s = i" "rt_revoked_at s \<noteq> None"
    by (auto simp: spent_def)
  then have "s \<in> set (put rt_id (revoked q t) (refresh_tokens d))"
    using put_keeps [OF token_keys rotated(1)] rotated by (metis auth_rows(14))
  with s show ?case by (intro spentI [of s]) simp_all
next
  case (ended t)
  then obtain s where s: "s \<in> set (refresh_tokens d)" "rt_token_hash s = sha256 L raw" "rt_user_id s = i" "rt_revoked_at s \<noteq> None"
    by (auto simp: spent_def)
  then have "s \<in> set (put rt_id (revoked q t) (refresh_tokens d))"
    using put_keeps [OF token_keys ended(1)] ended by (metis auth_rows(14))
  with s show ?case by (intro spentI [of s]) simp_all
next
  case (expelled t)
  then obtain s where s: "s \<in> set (refresh_tokens d)" "rt_token_hash s = sha256 L raw" "rt_user_id s = i" "rt_revoked_at s \<noteq> None"
    by (auto simp: spent_def)
  then have "revoke_for q (rt_user_id t) s = s" by (auto simp: revoke_for_def)
  with s have "s \<in> set (map (revoke_for q (rt_user_id t)) (refresh_tokens d))" by (metis image_eqI list.set_map)
  with s show ?case by (intro spentI [of s]) simp_all
qed (auto simp: spent_def)

lemma token_record_unique:
  "db_ok d \<Longrightarrow> token_record L raw d = Inr (scalar (\<lambda>t. rt_token_hash t = sha256 L raw) (refresh_tokens d))"
  unfolding token_record_def by (rule one_or_none_unique [OF token_hashes]) simp_all

lemma spent_record:
  assumes "db_ok d" and "spent L raw i d"
  obtains t where "token_record L raw d = Inr (Some t)" "rt_user_id t = i" "rt_revoked_at t \<noteq> None"
proof -
  obtain t where t: "t \<in> set (refresh_tokens d)" "rt_token_hash t = sha256 L raw" "rt_user_id t = i" "rt_revoked_at t \<noteq> None"
    using assms(2) by (auto simp: spent_def)
  then obtain s where s: "scalar (\<lambda>t. rt_token_hash t = sha256 L raw) (refresh_tokens d) = Some s"
    by (cases "scalar (\<lambda>t. rt_token_hash t = sha256 L raw) (refresh_tokens d)") (auto simp: scalar_None)
  then have "s = t" using scalar_Some [OF s] t(1,2) token_hashes [OF assms(1)] by (auto simp: distinct_map inj_on_def)
  with s t token_record_unique [OF assms(1), of L raw] show ?thesis by (intro that [of t]) simp_all
qed

lemma db_ok_revoked_all: "db_ok d \<Longrightarrow> db_ok (revoked_all q i d)"
  by (simp add: db_ok_def refresh_tokens_ok_def revoked_all_def comp_def)

lemma spent_refused:
  assumes "db_ok d" and "spent L raw i d"
  shows "fst (rotate_refresh_token L S q raw d) = Inl InvalidTokenError \<and>
    (raw \<noteq> [] \<longrightarrow> (\<forall>t\<in>set (refresh_tokens (snd (rotate_refresh_token L S q raw d))). rt_user_id t = i \<longrightarrow> rt_revoked_at t \<noteq> None))"
proof -
  obtain t where t: "token_record L raw d = Inr (Some t)" "rt_user_id t = i" "rt_revoked_at t \<noteq> None"
    using spent_record [OF assms] by blast
  have "rt_revoked_at (revoke_for q i s) \<noteq> None" if "rt_user_id s = i" for s
    using that by (simp add: revoke_for_def)
  with t db_ok_revoked_all [OF assms(1)] show ?thesis
    by (auto simp: rotate_refresh_token_def saved_def)
qed

lemma rotation_spends:
  assumes ok: "db_ok d" and r: "rotate_refresh_token L S q raw d = (Inr s, d')"
  shows "spent L raw (us_id (se_user s)) d' \<and> db_ok d' \<and> raw \<noteq> []"
proof -
  from r obtain t u where raw: "raw \<noteq> []" and t: "token_record L raw d = Inr (Some t)" "row us_id (rt_user_id t) (users d) = Some u"
    and s: "s = new_session L S q u (next_uuid d)" and d': "d' = session_opened L S q u (next_uuid d) (token_revoked q t d)" "db_ok d'"
    by (auto simp: rotate_refresh_token_def saved_def split: if_splits sum.splits option.splits)
  from token_recordD [OF t(1)] have m: "revoked q t \<in> set (put rt_id (revoked q t) (refresh_tokens d))"
    by (intro put_written) simp_all
  have "spent L raw (us_id u) d'"
    by (rule spentI [of "revoked q t"]) (use m token_recordD [OF t(1)] row_key [OF t(2)] d' in simp_all)
  with raw d' s show ?thesis by (simp add: new_session_def)
qed

section \<open>Sessions\<close>

text \<open>Requests about accounts never delete, deactivate or promote one.\<close>

definition same_account :: "user \<Rightarrow> user \<Rightarrow> bool" where
  "same_account u v \<longleftrightarrow> us_id v = us_id u \<and> us_email v = us_email u \<and> us_role v = us_role u \<and>
     us_is_active v = us_is_active u \<and> us_deleted_at v = us_deleted_at u"

lemma same_account_rows [simp]:
  "same_account u u" "same_account u (attempt_failed S q u)" "same_account u (logged_in q h u)"
  by (simp_all add: same_account_def)

lemma same_account_put:
  assumes "db_ok d" and "v \<in> set (users d)" and "w \<in> set (users d)" and "same_account w w'" and "same_account u v"
  shows "\<exists>x\<in>set (put us_id w' (users d)). same_account u x"
proof (cases "v = w")
  case True
  with assms(3-5) put_written [of w "users d" us_id w'] show ?thesis by (intro bexI [of _ w']) (auto simp: same_account_def)
next
  case False
  with put_keeps [OF user_keys [OF assms(1)] assms(3) _ assms(2)] assms(4,5) show ?thesis by (auto simp: same_account_def)
qed

lemma account_effect:
  "auth_effect L S q d d' \<Longrightarrow> db_ok d \<Longrightarrow> \<exists>v\<in>set (users d). same_account u v \<Longrightarrow> \<exists>v\<in>set (users d'). same_account u v"
proof (induction rule: auth_effect.induct)
  case (failed v pw)
  then show ?case using same_account_put [OF failed(6) _ failed(1), of _ "attempt_failed S q v"] by auto
next
  case (opened v pw h n)
  then show ?case using same_account_put [OF opened(6) _ opened(1), of _ "logged_in q h v"] by auto
qed auto

lemma account_run:
  assumes "db_ok d" and "u \<in> set (users d)"
  shows "\<exists>v\<in>set (users (run (auth_exec L S) xs d)). same_account u v"
proof (rule auth_service.run_induct [OF assms(1), where P = "\<lambda>e. \<exists>v\<in>set (users e). same_account u v"])
  show "\<exists>v\<in>set (users d). same_account u v" using assms(2) by (intro bexI [of _ u]) simp_all
qed (blast dest: auth_exec_effect account_effect)

text \<open>The documented behaviour of JWT: a token decodes to its claims before it expires, and as expired afterwards.\<close>

definition jwt_expiry :: "library \<Rightarrow> bool" where
  "jwt_expiry L \<longleftrightarrow>
     (\<forall>c t. jwt_encode L c \<noteq> [] \<and>
       (seconds_of t < jc_exp c \<longrightarrow> jwt_decode L t (jwt_encode L c) = Payload c) \<and>
       (jc_exp c < seconds_of t \<longrightarrow> jwt_decode L t (jwt_encode L c) = Expired))"

lemma session_decodes:
  assumes "jwt_expiry L" and "u \<in> set (users d)" and "db_ok d" and "us_is_active u" and "us_deleted_at u = None"
  shows "seconds_of t < jc_exp (access_claims S t0 u n) \<Longrightarrow>
      get_current_user L t (Some (create_access_token L S t0 u n)) d = Inr u"
    and "jc_exp (access_claims S t0 u n) < seconds_of t \<Longrightarrow>
      get_current_user L t (Some (create_access_token L S t0 u n)) d = Inl TokenExpiredError"
proof -
  have "row us_id (us_id u) (users d) = Some u" by (rule row_unique [OF user_keys [OF assms(3)] assms(2)])
  then show "seconds_of t < jc_exp (access_claims S t0 u n) \<Longrightarrow>
      get_current_user L t (Some (create_access_token L S t0 u n)) d = Inr u"
    using assms
    by (simp add: get_current_user_def decode_access_token_def create_access_token_def jwt_expiry_def truthy_def access_claims_def)
  show "jc_exp (access_claims S t0 u n) < seconds_of t \<Longrightarrow>
      get_current_user L t (Some (create_access_token L S t0 u n)) d = Inl TokenExpiredError"
    using assms(1)
    by (simp add: get_current_user_def decode_access_token_def create_access_token_def jwt_expiry_def truthy_def)
qed

section \<open>The sliding window\<close>

text \<open>The times at which the limiter admitted calls of a client.\<close>

fun admitted :: "string \<Rightarrow> int \<Rightarrow> int \<Rightarrow> (string \<times> time) list \<Rightarrow> limiter \<Rightarrow> time list" where
  "admitted key m w [] records = []"
| "admitted key m w ((k, t) # calls) records =
     (let (r, records') = check_rate_limit k m w t records
      in (if k = key \<and> r = Inr (True, 0) then [t] else []) @ admitted key m w calls records')"

definition in_window :: "int \<Rightarrow> time \<Rightarrow> time \<Rightarrow> bool" where
  "in_window w T t \<longleftrightarrow> T - w * 1000000 < t \<and> t \<le> T"

lemma filter_window: "s \<le> t \<Longrightarrow> filter (\<lambda>x. x > t - w) (filter (\<lambda>x. x > s - w) xs) = filter (\<lambda>x. x > (t::int) - w) xs"
  by (induction xs) auto

lemma length_filter_le: "(\<And>x. x \<in> set xs \<Longrightarrow> p x \<Longrightarrow> q x) \<Longrightarrow> length (filter p xs) \<le> length (filter q xs)"
  by (induction xs) auto

text \<open>\<open>hist\<close> are the admissions so far; the limiter keeps those still in the window.\<close>

lemma admitted_bounded:
  assumes "sorted (map snd calls)" and "\<forall>(k, t)\<in>set calls. last_t \<le> t" and "\<forall>x\<in>set hist. x \<le> last_t"
    and "\<forall>t\<ge>last_t. filter (\<lambda>x. x > t - w * 1000000) (records key) = filter (\<lambda>x. x > t - w * 1000000) hist"
    and "\<forall>T. int (length (filter (in_window w T) hist)) \<le> m" and "0 \<le> m"
  shows "int (length (filter (in_window w T) (hist @ admitted key m w calls records))) \<le> m"
  using assms
proof (induction calls arbitrary: hist records last_t)
  case Nil
  then show ?case by simp
next
  case (Cons c calls)
  obtain k t where c: "c = (k, t)" by (cases c)
  let ?r = "check_rate_limit k m w t records" and ?ts = "filter (\<lambda>x. x > t - w * 1000000) (records k)"
  have t: "last_t \<le> t" and later: "\<forall>(k, t')\<in>set calls. t \<le> t'" and srt: "sorted (map snd calls)"
    using Cons.prems(1,2) by (auto simp: c)
  show ?case
  proof (cases "k = key \<and> fst ?r = Inr (True, 0)")
    case True
    then have k: "k = key" and few: "int (length ?ts) < m" and r: "?r = (Inr (True, 0), records(k := ?ts @ [t]))"
      by (auto simp: check_rate_limit_def Let_def split: if_splits list.splits)
    have ts: "?ts = filter (\<lambda>x. x > t - w * 1000000) hist" using Cons.prems(4) t k by simp
    have "int (length (filter (in_window w T) (hist @ [t]))) \<le> m" for T
    proof (cases "in_window w T t")
      case True
      have "length (filter (in_window w T) hist) \<le> length ?ts"
        unfolding ts by (rule length_filter_le) (use True in \<open>auto simp: in_window_def\<close>)
      with True few show ?thesis by simp
    next
      case False
      with Cons.prems(5) show ?thesis by simp
    qed
    moreover have "\<forall>t'\<ge>t. filter (\<lambda>x. x > t' - w * 1000000) ((records(k := ?ts @ [t])) key) =
        filter (\<lambda>x. x > t' - w * 1000000) (hist @ [t])"
      unfolding ts using k filter_window by simp
    ultimately have "int (length (filter (in_window w T) ((hist @ [t]) @ admitted key m w calls (records(k := ?ts @ [t]))))) \<le> m"
      using Cons.prems(3,6) srt later t by (intro Cons.IH [where last_t = t]) auto
    then show ?thesis using k r by (simp add: c)
  next
    case False
    have "\<forall>t'\<ge>t. filter (\<lambda>x. x > t' - w * 1000000) (snd ?r key) = filter (\<lambda>x. x > t' - w * 1000000) hist"
    proof (intro allI impI)
      fix t'
      assume t': "t \<le> t'"
      have "snd ?r key = records key \<or> snd ?r key = filter (\<lambda>x. x > t - w * 1000000) (records key)"
        using False by (auto simp: check_rate_limit_def Let_def split: if_splits list.splits)
      then show "filter (\<lambda>x. x > t' - w * 1000000) (snd ?r key) = filter (\<lambda>x. x > t' - w * 1000000) hist"
        using Cons.prems(4) t t' filter_window [OF t'] by (metis order_trans)
    qed
    then have "int (length (filter (in_window w T) (hist @ admitted key m w calls (snd ?r)))) \<le> m"
      using Cons.prems(3,5,6) srt later t by (intro Cons.IH [where last_t = t]) force+
    then show ?thesis using False by (auto simp: c Let_def split: prod.split)
  qed
qed

section \<open>A concrete library\<close>

text \<open>
  For the witnesses: passwords and tokens in the clear, and claims written as unary numbers and
  counted texts, so that decoding undoes encoding.
\<close>

definition enc_num :: "nat \<Rightarrow> string" where
  "enc_num n = replicate n CHR ''1'' @ ''.''"

fun dec_num :: "string \<Rightarrow> nat \<times> string" where
  "dec_num [] = (0, [])"
| "dec_num (c # cs) = (if c = CHR ''.'' then (0, cs) else (let (n, rest) = dec_num cs in (Suc n, rest)))"

definition enc_text :: "string \<Rightarrow> string" where
  "enc_text s = enc_num (length s) @ s"

definition dec_text :: "string \<Rightarrow> string \<times> string" where
  "dec_text s = (let (n, rest) = dec_num s in (take n rest, drop n rest))"

definition enc_int :: "int \<Rightarrow> string" where
  "enc_int i = enc_num (if i < 0 then 1 else 0) @ enc_num (nat \<bar>i\<bar>)"

definition dec_int :: "string \<Rightarrow> int \<times> string" where
  "dec_int s = (let (b, s1) = dec_num s; (n, s2) = dec_num s1 in (if b = 1 then - int n else int n, s2))"

lemma dec_num_enc [simp]: "dec_num (enc_num n @ s) = (n, s)"
  by (induction n) (simp_all add: enc_num_def)

lemma dec_text_enc [simp]: "dec_text (enc_text t @ s) = (t, s)"
  by (simp add: enc_text_def dec_text_def)

lemma dec_int_enc [simp]: "dec_int (enc_int i @ s) = (i, s)"
  by (simp add: enc_int_def dec_int_def)

definition all_roles :: "user_role list" where
  "all_roles = [SYSTEM_ADMIN, CLUB_SECRETARY, FACULTY_ADVISOR, HALL_INCHARGE, ADVISOR_STUDENTS_UNION, DEAN_STUDENT_AFFAIRS,
     PRINCIPAL, FINANCE_OFFICER]"

definition enc_role :: "user_role \<Rightarrow> string" where
  "enc_role r = enc_num (length (takeWhile (\<lambda>x. x \<noteq> r) all_roles))"

definition dec_role :: "string \<Rightarrow> user_role \<times> string" where
  "dec_role s = (let (n, rest) = dec_num s in (all_roles ! n, rest))"

lemma dec_role_enc [simp]: "dec_role (enc_role r @ s) = (r, s)"
  by (cases r) (simp_all add: enc_role_def dec_role_def all_roles_def)

definition enc_claims :: "claims \<Rightarrow> string" where
  "enc_claims c =
     enc_num (case jc_sub c of None \<Rightarrow> 0 | Some i \<Rightarrow> Suc i) @ enc_role (jc_role c) @ enc_text (jc_email c) @
     enc_text (jc_token_type c) @ enc_num (jc_jti c) @ enc_int (jc_iat c) @ enc_int (jc_exp c) @ []"

definition dec_claims :: "string \<Rightarrow> claims" where
  "dec_claims s =
     (let (sub, s1) = dec_num s; (role, s2) = dec_role s1; (email, s3) = dec_text s2; (ty, s4) = dec_text s3;
          (jti, s5) = dec_num s4; (iat, s6) = dec_int s5; (ex, s7) = dec_int s6
      in \<lparr>jc_sub = (case sub of 0 \<Rightarrow> None | Suc i \<Rightarrow> Some i), jc_role = role, jc_email = email, jc_token_type = ty,
          jc_jti = jti, jc_iat = iat, jc_exp = ex\<rparr>)"

lemmas dec_simps = Let_def claims.simps append.assoc dec_num_enc dec_role_enc dec_text_enc dec_int_enc prod.case

lemma dec_claims_enc [simp]: "dec_claims (enc_claims c) = c"
  unfolding dec_claims_def enc_claims_def by (cases c) (simp only: dec_simps, simp split: option.split)

definition plain_library :: library where
  "plain_library =
     \<lparr>argon2_hash = (\<lambda>_ p. CHR ''h'' # p), argon2_verify = (\<lambda>h p. h = CHR ''h'' # p), argon2_outdated = (\<lambda>_. False),
      jwt_encode = enc_claims,
      jwt_decode = (\<lambda>t s. let c = dec_claims s in if jc_exp c \<le> seconds_of t then Expired else Payload c),
      token_urlsafe = (\<lambda>n. replicate n CHR ''r'' @ ''!''), sha256 = (\<lambda>s. CHR ''s'' # s), valid_email = Some\<rparr>"

definition plain_settings :: auth_settings where
  "plain_settings =
     \<lparr>MAX_LOGIN_ATTEMPTS = 5, ACCOUNT_LOCKOUT_MINUTES = 15, ACCESS_TOKEN_EXPIRE_MINUTES = 1,
      REFRESH_TOKEN_EXPIRE_DAYS = 7, RATE_LIMIT_LOGIN_PER_MINUTE = 3\<rparr>"

definition keyed_campus :: db where
  "keyed_campus = institution\<lparr>users := map (\<lambda>u. u\<lparr>us_password_hash := ''hsecret''\<rparr>) (users institution)\<rparr>"

definition keyed :: "user \<Rightarrow> user" where
  "keyed u = u\<lparr>us_password_hash := ''hsecret''\<rparr>"

definition anon :: "time \<Rightarrow> request" where
  "anon t = ctx the_admin t"

lemma keyed_campus_ok: "db_ok keyed_campus" "accounts_ok keyed_campus"
  by code_simp+

section \<open>Properties\<close>


definition attack :: "nat \<Rightarrow> (request \<times> auth_request) list" where
  "attack n = map (\<lambda>k. (anon (minutes (int k)), Login (us_email the_secretary) ''guess'')) [0..<n]"


text \<open>
  C21. A refresh token works once: after a rotation, whatever requests follow, presenting the old token again is
  refused and ends every session of its owner, that of whoever holds the newer tokens included.
\<close>

theorem refresh_single_use:
  assumes "db_ok d" and "rotate_refresh_token L S q raw d = (Inr s, d')"
  shows "fst (rotate_refresh_token L S q' raw (run (auth_exec L S) xs d')) = Inl InvalidTokenError \<and>
    (\<forall>t\<in>set (refresh_tokens (snd (rotate_refresh_token L S q' raw (run (auth_exec L S) xs d')))).
       rt_user_id t = us_id (se_user s) \<longrightarrow> rt_revoked_at t \<noteq> None)"
proof -
  from rotation_spends [OF assms] have sp: "spent L raw (us_id (se_user s)) d'" and ok: "db_ok d'" and raw: "raw \<noteq> []" by auto
  have "spent L raw (us_id (se_user s)) (run (auth_exec L S) xs d')"
    by (rule auth_service.run_induct [OF ok, where P = "spent L raw (us_id (se_user s))", OF sp])
      (blast dest: auth_exec_effect spent_effect)
  from spent_refused [OF auth_service.run_ok [OF ok] this] raw show ?thesis by blast
qed

definition the_token :: refresh_token where
  "the_token =
     \<lparr>rt_id = 90, rt_user_id = 2, rt_token_hash = ''sold'', rt_expires_at = days 7, rt_revoked_at = None,
      rt_created_at = 0, rt_ip_address = None, rt_user_agent = None\<rparr>"

lemma refresh_single_use_witness:
  "\<exists>s d'. rotate_refresh_token plain_library plain_settings (anon 0) ''old'' (keyed_campus\<lparr>refresh_tokens := [the_token]\<rparr>) = (Inr s, d') \<and>
     fst (rotate_refresh_token plain_library plain_settings (anon 5) ''old''
       (run (auth_exec plain_library plain_settings) [(anon 3, Refresh (Some (se_refresh_token s)))] d')) = Inl InvalidTokenError"
proof -
  let ?r = "rotate_refresh_token plain_library plain_settings (anon 0) ''old'' (keyed_campus\<lparr>refresh_tokens := [the_token]\<rparr>)"
  have "isl (fst ?r) = False" by code_simp
  then have r: "?r = (Inr (projr (fst ?r)), snd ?r)" by (metis prod.collapse sum.collapse(2))
  have ok: "db_ok (keyed_campus\<lparr>refresh_tokens := [the_token]\<rparr>)" by code_simp
  from refresh_single_use [OF ok r] r show ?thesis by blast
qed

text \<open>
  C23. A login is a session: until the access token expires, it names its owner in every later state that
  requests about accounts lead to, with the role the database has; afterwards it is refused as expired.
\<close>

theorem session_roundtrip:
  assumes "jwt_expiry L" and "db_ok d" and "authenticate_user L S q email password d = (Inr s, d')"
  shows "(seconds_of t < seconds_of (now q + minutes (ACCESS_TOKEN_EXPIRE_MINUTES S)) \<longrightarrow>
      (\<exists>v\<in>set (users (run (auth_exec L S) xs d')).
         get_current_user L t (Some (se_access_token s)) (run (auth_exec L S) xs d') = Inr v \<and> same_account (se_user s) v)) \<and>
    (seconds_of (now q + minutes (ACCESS_TOKEN_EXPIRE_MINUTES S)) < seconds_of t \<longrightarrow>
       get_current_user L t (Some (se_access_token s)) (run (auth_exec L S) xs d') = Inl TokenExpiredError)"
proof -
  let ?e = "run (auth_exec L S) xs d'"
  from assms(3) obtain u h n where a: "account_of email d = Inr (Some u)" and act: "us_is_active u"
    and s: "s = new_session L S q (logged_in q h u) n"
    and d': "d' = session_opened L S q (logged_in q h u) n (d\<lparr>users := put us_id (logged_in q h u) (users d)\<rparr>)" "db_ok d'"
    by (auto simp: authenticate_user_def saved_def Let_def split: sum.splits option.splits if_splits)
  let ?u = "logged_in q h u"
  note m = account_ofD [OF a]
  have "?u \<in> set (users d')" using put_written [of u "users d" us_id ?u] m d' by simp
  from account_run [OF d'(2) this] obtain v where v: "v \<in> set (users ?e)" "same_account ?u v" by blast
  have e: "db_ok ?e" by (rule auth_service.run_ok [OF d'(2)])
  have tok: "se_access_token s = create_access_token L S (now q) v n"
    using v(2) by (simp add: s new_session_def create_access_token_def access_claims_def same_account_def)
  have alive: "us_is_active v" "us_deleted_at v = None" using v(2) act m by (simp_all add: same_account_def)
  have ex: "jc_exp (access_claims S (now q) v n) = seconds_of (now q + minutes (ACCESS_TOKEN_EXPIRE_MINUTES S))"
    by (simp add: access_claims_def)
  note sd = session_decodes [OF assms(1) v(1) e alive, where S = S and ?t0.0 = "now q" and n = n and t = t, folded tok, unfolded ex]
  have su: "se_user s = ?u" by (simp add: s new_session_def)
  show ?thesis using sd v unfolding su by blast
qed

lemma enc_claims_nonempty [simp]: "enc_claims c \<noteq> []"
  by (simp add: enc_claims_def enc_num_def)

lemma plain_jwt: "jwt_expiry plain_library"
  by (simp add: jwt_expiry_def plain_library_def Let_def)

lemma session_roundtrip_witness:
  "\<exists>s d'. authenticate_user plain_library plain_settings (anon 0) (us_email the_secretary) ''secret'' keyed_campus = (Inr s, d') \<and>
     (\<exists>v. get_current_user plain_library 5000000 (Some (se_access_token s))
        (run (auth_exec plain_library plain_settings) (attack 3) d') = Inr v \<and> us_role v = CLUB_SECRETARY)"
proof -
  let ?r = "authenticate_user plain_library plain_settings (anon 0) (us_email the_secretary) ''secret'' keyed_campus"
  have "isl (fst ?r) = False" by code_simp
  then have r: "?r = (Inr (projr (fst ?r)), snd ?r)" by (metis prod.collapse sum.collapse(2))
  have "us_role (se_user (projr (fst ?r))) = CLUB_SECRETARY" by code_simp
  moreover have "seconds_of 5000000 < seconds_of (now (anon 0) + minutes (ACCESS_TOKEN_EXPIRE_MINUTES plain_settings))" by code_simp
  moreover from session_roundtrip [OF plain_jwt keyed_campus_ok(1) r, of 5000000 "attack 3"] calculation
  obtain v where "get_current_user plain_library 5000000 (Some (se_access_token (projr (fst ?r))))
      (run (auth_exec plain_library plain_settings) (attack 3) (snd ?r)) = Inr v" "same_account (se_user (projr (fst ?r))) v"
    by blast
  ultimately have "\<exists>v. get_current_user plain_library 5000000 (Some (se_access_token (projr (fst ?r))))
      (run (auth_exec plain_library plain_settings) (attack 3) (snd ?r)) = Inr v \<and> us_role v = CLUB_SECRETARY"
    unfolding same_account_def by (intro exI [of _ v] conjI) (assumption, simp only:)
  with r show ?thesis by blast
qed

text \<open>
  C25. The login limiter holds: in any order of calls by any clients, each client is admitted at most the allowed
  number of times in every window of the given length.
\<close>

theorem login_rate_bounded:
  assumes "sorted (map snd calls)" and "0 \<le> m"
  shows "int (length (filter (\<lambda>t. T - w * 1000000 < t \<and> t \<le> T) (admitted key m w calls (\<lambda>_. [])))) \<le> m"
proof (cases calls)
  case (Cons c cs)
  have "int (length (filter (in_window w T) ([] @ admitted key m w calls (\<lambda>_. [])))) \<le> m"
    by (rule admitted_bounded [where last_t = "snd c"]) (use assms Cons in auto)
  then show ?thesis by (simp add: in_window_def [abs_def])
qed (use assms in simp)

definition knocking :: "(string \<times> time) list" where
  "knocking = map (\<lambda>k. (if k mod 3 = 0 then ''b'' else ''a'', int k * 10000000)) [0..<12]"

lemma login_rate_bounded_witness:
  "length (filter (\<lambda>t. 20000000 < t \<and> t \<le> 80000000) (admitted ''a'' 3 60 knocking (\<lambda>_. []))) = 3 \<and>
   int (length (filter (\<lambda>t. 80000000 - 60 * 1000000 < t \<and> t \<le> 80000000) (admitted ''a'' 3 60 knocking (\<lambda>_. [])))) \<le> 3"
proof
  show "length (filter (\<lambda>t. 20000000 < t \<and> t \<le> 80000000) (admitted ''a'' 3 60 knocking (\<lambda>_. []))) = 3" by code_simp
  have "sorted (map snd knocking)" by code_simp
  from login_rate_bounded [OF this, of 3 80000000 60 "''a''"]
  show "int (length (filter (\<lambda>t. 80000000 - 60 * 1000000 < t \<and> t \<le> 80000000) (admitted ''a'' 3 60 knocking (\<lambda>_. [])))) \<le> 3"
    by simp
qed


definition newcomer :: user_register where
  "newcomer =
     \<lparr>ur_email = '' New@College.edu'', ur_password = ''Pass-word1'', ur_full_name = ''New User'', ur_role = SYSTEM_ADMIN,
      ur_department = None, ur_designation = None, ur_phone = None\<rparr>"


end
