(* ===== verification/Frames.thy ===== *)
theory Frames
  imports Lifecycle Venues Budgets Clubs Execution Closeout Files Sessions
    Notifications Resources
begin

text \<open>
  What each service leaves alone: the proposals with their chains and events (\<open>apart\<close>), the money that moved
  (\<open>ledger\<close>) and the claims. With these frames an invariant of one service is one of the whole system.
\<close>

definition ledger ::
    "db \<Rightarrow> settlement_payment list \<times> financial_settlement list \<times> actual_income list \<times> (uuid \<times> money) list" where
  "ledger d =
     (payments d, settlements d, incomes d, map (\<lambda>a. (ca_id a, ca_amount_disbursed a)) (advances d))"

definition still :: "db \<Rightarrow> db \<Rightarrow> bool" where
  "still d d' \<longleftrightarrow> apart d d' \<and> ledger d' = ledger d \<and> expenses d' = expenses d"

lemma ledger_eq:
  "payments d' = payments d \<Longrightarrow> settlements d' = settlements d \<Longrightarrow> incomes d' = incomes d \<Longrightarrow>
     map (\<lambda>a. (ca_id a, ca_amount_disbursed a)) (advances d') = map (\<lambda>a. (ca_id a, ca_amount_disbursed a)) (advances d) \<Longrightarrow>
     ledger d' = ledger d"
  by (simp add: ledger_def)

lemmas still_defs = still_def apart_def ledger_def

lemma still_refl [simp]: "still d d"
  by (simp add: still_defs)

section \<open>Halls, budgets, clubs, resources, notifications, documents, accounts\<close>

lemma venue_still: "venue_effect q d d' \<Longrightarrow> still d d'"
  by (induction rule: venue_effect.induct)
    (simp_all add: still_defs venue_requested_def venue_changed_def venue_removed_def)

lemma budget_still: "budget_effect q d d' \<Longrightarrow> still d d'"
  by (induction rule: budget_effect.induct)
    (simp_all add: still_defs budget_stored_def header_stored_def budget_removed_def budget_audited_def item_added_def
      item_stored_def item_removed_def recalculated_def Let_def)

lemma club_still: "club_effect q d d' \<Longrightarrow> still d d'"
  by (induction rule: club_effect.induct)
    (simp_all add: still_defs club_founded_def club_stored_def advisor_entry_def member_added_def enrolled_def
      member_stored_def member_removed_def Let_def split: option.split)

lemma resource_still: "resource_effect q d d' \<Longrightarrow> still d d'"
  by (induction rule: resource_effect.induct) (simp_all add: still_defs)

lemma document_still: "document_effect C q d fs d' fs' \<Longrightarrow> still d d'"
  by (induction rule: document_effect.induct) (simp_all add: still_defs planned_def)

lemma auth_still: "auth_effect L S q d d' \<Longrightarrow> still d d'"
  by (induction rule: auth_effect.induct)
    (simp_all add: still_defs session_opened_def token_revoked_def revoked_all_def)

lemma inbox_rows_still: "d' = d\<lparr>notifications := ns\<rparr> \<Longrightarrow> still d d'"
  by (simp add: still_defs)

lemma inbox_still:
  assumes "inbox_exec q r d = Inr d'"
  shows "still d d'"
proof (cases r)
  case (MarkRead i)
  with assms obtain m where "mark_as_read q i d = Inr (m, d')" by (auto simp: db_of_Inr)
  from mark_as_read_ok [OF this] obtain n
    where "d' = d \<or> d' = d\<lparr>notifications := put nt_id (read_now q n) (notifications d)\<rparr>" by blast
  then show ?thesis
  proof
    assume "d' = d\<lparr>notifications := put nt_id (read_now q n) (notifications d)\<rparr>"
    then show ?thesis by (rule inbox_rows_still)
  qed simp
next
  case MarkAllRead
  with assms obtain k where "mark_all_as_read q d = Inr (k, d')" by (auto simp: db_of_Inr)
  from conjunct2 [OF mark_all_as_read_ok [OF this]] show ?thesis by (rule inbox_rows_still)
qed

section \<open>Events under way and closed\<close>

lemma notify_advisor_still [simp]:
  "event_requests (notify_advisor q ev d) = event_requests d" "instances (notify_advisor q ev d) = instances d"
  "steps (notify_advisor q ev d) = steps d" "template_steps (notify_advisor q ev d) = template_steps d"
  "ledger (notify_advisor q ev d) = ledger d" "expenses (notify_advisor q ev d) = expenses d"
  by (simp_all add: notify_advisor_def ledger_def split: option.split)

lemma event_set_still:
  "db_ok d \<Longrightarrow> ev \<in> set (events d) \<Longrightarrow> events d' = put ev_id (ev\<lparr>ev_status := st\<rparr>) (events d) \<Longrightarrow>
     event_requests d' = event_requests d \<Longrightarrow> instances d' = instances d \<Longrightarrow> steps d' = steps d \<Longrightarrow>
     template_steps d' = template_steps d \<Longrightarrow> ledger d' = ledger d \<Longrightarrow> expenses d' = expenses d \<Longrightarrow> still d d'"
  by (simp add: still_def apart_def event_requests_kept)

lemma execution_still:
  assumes "execution_effect q d d'" and ok: "db_ok d"
  shows "still d d'"
  using assms(1)
proof cases
  case (started ev)
  show ?thesis
    by (rule event_set_still [OF ok started(2), where st = EV_IN_PROGRESS])
      (simp_all add: started(1) event_started_def event_set_def ledger_def)
next
  case (admin_started ev m)
  show ?thesis
    by (rule event_set_still [OF ok admin_started(2), where st = EV_IN_PROGRESS])
      (simp_all add: admin_started(1) Execution.admin_started_def event_set_def ledger_def)
next
  case (completed ev r p)
  show ?thesis
    by (rule event_set_still [OF ok completed(2), where st = EV_COMPLETED])
      (simp_all add: completed(1) event_completed_def event_set_def Let_def, simp add: ledger_def)
next
  case (resubmitted ev r)
  then show ?thesis by (simp add: still_def apart_def report_resubmitted_def) (simp add: ledger_def)
qed (simp_all add: still_defs report_certified_def report_returned_def)

lemma closeout_apart:
  assumes "closeout_effect q d d'" and "db_ok d"
  shows "apart d d' \<and> expenses d' = expenses d \<and>
    (actor_role q \<notin> {DEAN_STUDENT_AFFAIRS, PRINCIPAL} \<longrightarrow> ledger d' = ledger d)"
  using assms(1)
proof cases
  case (reopened ev c s cr m x d1)
  have "event_requests d1 = event_requests d \<and> instances d1 = instances d \<and> steps d1 = steps d \<and>
      template_steps d1 = template_steps d"
    using reopened(8) by (auto simp: reopen_settlement_def Let_def res_simps store_closure_revision_def set_event_status_def)
  with reopened show ?thesis
    using reopen_settlement_frame(1,4) [OF reopened(8)] event_requests_kept [OF assms(2) reopened(3)]
    by (simp add: apart_def event_reopened_def notify_secretaries_def)
qed (simp_all add: apart_def ledger_def closure_requested_def event_closed_def closure_rejected_def reopen_petitioned_def
    event_archived_def store_closure_def notify_secretaries_def set_event_status_def Let_def
    event_requests_kept [OF assms(2)] split: option.split)

section \<open>Money\<close>

lemma submit_one_still: "apart d (submit_one q e d) \<and> ledger (submit_one q e d) = ledger d"
  by (simp add: apart_def ledger_def submit_one_def Let_def)

lemma fold_submit_still: "apart d (fold (submit_one q) es d) \<and> ledger (fold (submit_one q) es d) = ledger d"
proof (induction es arbitrary: d)
  case Nil
  show ?case by (simp add: apart_def)
next
  case (Cons e es)
  with submit_one_still [of d q e] Cons.IH [of "submit_one q e d"] show ?case by (auto simp: apart_def)
qed

lemma expense_apart:
  assumes "expense_exec q r d = Inr d'"
  shows "apart d d' \<and> ledger d' = ledger d"
proof (cases r)
  case (SubmitExpenses i xs)
  with assms obtain es ns where "d' = notify_all q ns N_EXPENSE_SUBMITTED es (fold (submit_one q) (filter (submittable (projr (exp_get_confirmed_event d i True)) xs) (expenses d)) d)"
    by (auto simp: submit_expenses_def res_simps Let_def)
  with fold_submit_still show ?thesis by (simp add: apart_def ledger_def)
qed (use assms in \<open>auto simp: res_simps expense_handler_defs Let_def apart_def ledger_def\<close>)

lemma advance_apart: "advance_exec q r d = Inr d' \<Longrightarrow> apart d d' \<and> expenses d' = expenses d"
  by (cases r) (auto simp: res_simps advance_handler_defs Let_def apart_def)

lemma income_apart: "income_exec q r d = Inr d' \<Longrightarrow> apart d d' \<and> expenses d' = expenses d"
  by (cases r) (auto simp: res_simps income_handler_defs Let_def apart_def)

lemma settlement_apart: "settlement_effect q d d' \<Longrightarrow> apart d d' \<and> expenses d' = expenses d"
  by (induction rule: settlement_effect.induct)
    (auto simp: apart_def prepared_entry_def store_settlement_def query_settlement_def approve_settlement_def
      store_payment_def settle_def Let_def split: option.splits)

section \<open>Proposals and their chains\<close>

lemma chain_still:
  "ledger (decision_entry q a s j d) = ledger d" "expenses (decision_entry q a s j d) = expenses d"
  "ledger (store_decision q st c inst s d) = ledger d" "expenses (store_decision q st c inst s d) = expenses d"
  "ledger (release_booking i d) = ledger d" "expenses (release_booking i d) = expenses d"
  "ledger (refuse_venue i m d) = ledger d" "expenses (refuse_venue i m d) = expenses d"
  "ledger (pass_budget q rq c d) = ledger d" "expenses (pass_budget q rq c d) = expenses d"
  "ledger (advance_chain q s inst rq nxt d) = ledger d" "expenses (advance_chain q s inst rq nxt d) = expenses d"
  "ledger (chain_rejected q s inst rq m d) = ledger d" "expenses (chain_rejected q s inst rq m d) = expenses d"
  "ledger (chain_returned q s inst rq m d) = ledger d" "expenses (chain_returned q s inst rq m d) = expenses d"
  by (simp_all add: ledger_def decision_entry_def store_decision_def release_booking_def refuse_venue_def pass_budget_def
      advance_chain_def chain_rejected_def chain_returned_def Let_def split: option.splits)

lemma interlocks_still: "interlocks q s rq c d = Inr d' \<Longrightarrow> ledger d' = ledger d \<and> expenses d' = expenses d"
  by (auto simp: interlocks_def confirm_venue_def res_simps Let_def ledger_def pass_budget_def split: option.splits if_splits)

lemma create_confirmed_event_still:
  "create_confirmed_event q rq bs d = Inr x \<Longrightarrow> ledger (snd x) = ledger d \<and> expenses (snd x) = expenses d"
  by (auto simp: create_confirmed_event_def res_simps Let_def ledger_def split: option.splits)

lemma complete_chain_still:
  assumes "complete_chain q s inst rq bs d = Inr d'"
  shows "ledger d' = ledger d \<and> expenses d' = expenses d"
proof -
  let ?d = "d\<lparr>instances := put wi_id (inst\<lparr>wi_status := WI_COMPLETED\<rparr>) (instances d),
         event_requests := put rq_id (rq\<lparr>rq_status := RQ_APPROVED\<rparr>) (event_requests d)\<rparr>"
  from assms obtain x j where y: "create_confirmed_event q (rq\<lparr>rq_status := RQ_APPROVED\<rparr>) bs ?d = Inr x"
    and d': "d' = decision_entry q A_PROPOSAL_APPROVED s j
        (create_notification q (rq_submitted_by rq) N_PROPOSAL_APPROVED (Some (rq_id rq)) (snd x))"
    unfolding complete_chain_def Let_def and_then_Inr by (auto simp: split_beta)
  from create_confirmed_event_still [OF y] show ?thesis by (simp add: d' chain_still) (simp add: ledger_def)
qed

lemma workflow_still:
  assumes "workflow_effect q d d'"
  shows "ledger d' = ledger d \<and> expenses d' = expenses d"
  using assms by cases (auto simp: chain_still dest!: interlocks_still complete_chain_still)

text \<open>The tables of the money, advances apart.\<close>

definition books :: "db \<Rightarrow> settlement_payment list \<times> financial_settlement list \<times> actual_income list \<times> actual_expense list" where
  "books d = (payments d, settlements d, incomes d, expenses d)"

lemma books_still:
  "books (cancel_chain c d) = books d" "books (release_hall q i w n d) = books d" "books (withdraw_venue rq d) = books d"
  "books (tell_withdrawal q rq inst d) = books d" "books (refuse_advance q ev r d) = books d"
  "books (tell_cancellation q ev d) = books d" "books (supersede rq d) = books d"
  "books (version_stored q rq rq' cs d) = books d" "books (draft_created q p d) = books d" "books (draft_edited q u rq d) = books d"
  by (simp_all add: books_def cancel_chain_def release_hall_def withdraw_venue_def tell_withdrawal_def refuse_advance_def
      tell_cancellation_def supersede_def version_stored_def draft_created_def draft_edited_def Let_def split: option.split)

lemma books_template: "books (snd (ensure_default_template q d)) = books d"
  by (simp add: books_def ensure_default_template_def Let_def split: option.split)

lemma books_started: "books (snd (instantiate_workflow q rq d)) = books d"
proof -
  obtain t d1 where "ensure_default_template q (supersede rq d) = (t, d1)"
    by (cases "ensure_default_template q (supersede rq d)")
  with books_template [of q "supersede rq d"] books_still(7) [of rq d] show ?thesis
    by (simp add: instantiate_workflow_def Let_def) (simp add: books_def split: option.split)
qed

lemma books_cancelled: "books (proposal_cancelled q rq r d) = books d" "books (event_cancelled q ev r d) = books d"
proof -
  have a: "books (add_audit q ac e i o' n m d) = books d" "books (d\<lparr>event_requests := rs\<rparr>) = books d"
    "books (d\<lparr>events := es\<rparr>) = books d" for q ac e i o' n m d rs es
    by (simp_all add: books_def)
  show "books (proposal_cancelled q rq r d) = books d" "books (event_cancelled q ev r d) = books d"
    by (simp_all add: proposal_cancelled_def event_cancelled_def Let_def a books_still)
qed

lemma ledger_books: "books d' = books d \<Longrightarrow>
    map (\<lambda>a. (ca_id a, ca_amount_disbursed a)) (advances d') = map (\<lambda>a. (ca_id a, ca_amount_disbursed a)) (advances d) \<Longrightarrow>
    ledger d' = ledger d \<and> expenses d' = expenses d"
  by (simp add: books_def ledger_def)

lemma proposal_still:
  assumes "proposal_effect q d d'" and "db_ok d"
  shows "ledger d' = ledger d \<and> expenses d' = expenses d"
  using assms(1)
proof cases
  case (called_off ev r)
  have "map (\<lambda>a. (ca_id a, ca_amount_disbursed a)) (advances (refuse_advance q ev r d)) =
      map (\<lambda>a. (ca_id a, ca_amount_disbursed a)) (advances d)"
    by (auto simp: refuse_advance_def advance_of_def split: option.split
        intro!: map_put [OF db_ok_keys(9) [OF assms(2)]] dest!: scalar_Some)
  then show ?thesis by (intro ledger_books) (simp_all add: called_off books_cancelled)
qed (auto intro!: ledger_books simp: books_cancelled books_started books_still instantiate_workflow_frame)

end
