(* ===== verification/System.thy ===== *)
theory System
  imports Campus_Api Finance_Api Document_Api Frames
begin

text \<open>
  The whole service: the calls a client can send to the routers of \<^verbatim>\<open>app/api/v1\<close>, each served by the endpoint the
  router names, on the database, the stored files and the counters of the rate limiter. What the components promise one
  by one is joined here: the audit log names the account behind the bearer token, events come out of approval
  chains only, and only some roles move money.
\<close>

section \<open>Calls\<close>

datatype api_call =
    Proposal_call proposal_request
  | Venue_call venue_service_request
  | Budget_call budget_request
  | Club_call club_request
  | Workflow_call workflow_request
  | Inbox_call inbox_request
  | Resource_call resource_op
  | Execution_call execution_request
  | Expense_call expense_request
  | Settlement_call settlement_call
  | Closeout_call closeout_request

fun api_exec :: "library \<Rightarrow> string option \<Rightarrow> request \<Rightarrow> api_call \<Rightarrow> db \<Rightarrow> db res" where
  "api_exec L t q (Proposal_call r) d = proposal_api L t q r d"
| "api_exec L t q (Venue_call r) d = venue_api L t q r d"
| "api_exec L t q (Budget_call r) d = budget_api L t q r d"
| "api_exec L t q (Club_call r) d = club_api L t q r d"
| "api_exec L t q (Workflow_call r) d = workflow_api L t q r d"
| "api_exec L t q (Inbox_call r) d = inbox_api L t q r d"
| "api_exec L t q (Resource_call r) d = resource_api L t q r d"
| "api_exec L t q (Execution_call r) d = execution_api L t q r d"
| "api_exec L t q (Expense_call r) d = expense_api L t q r d"
| "api_exec L t q (Settlement_call r) d = settlement_api L t q r d"
| "api_exec L t q (Closeout_call r) d = closeout_api L t q r d"

text \<open>
  A call comes with its bearer token; the routes of \<^verbatim>\<open>auth.py\<close> take none. \<open>forwarded\<close> is the header
  \<^verbatim>\<open>X-Forwarded-For\<close>, which only the limiter of the login reads.
\<close>

datatype call =
    Public "string option" auth_request
  | Signed "string option" api_call
  | Filed "string option" document_request

fun bearer :: "call \<Rightarrow> string option" where
  "bearer (Public _ _) = None"
| "bearer (Signed t _) = t"
| "bearer (Filed t _) = t"

type_synonym campus = "db \<times> store \<times> limiter"

fun serve :: "library \<Rightarrow> auth_settings \<Rightarrow> doc_settings \<Rightarrow> request \<Rightarrow> call \<Rightarrow> campus \<Rightarrow> campus" where
  "serve L S C q (Public forwarded r) (d, fs, records) =
     (case r of
        Login email password \<Rightarrow>
          (let (_, d', records') = login L S q forwarded email password (d, records) in (d', fs, records'))
      | _ \<Rightarrow> (snd (auth_serve L S q r d), fs, records))"
| "serve L S C q (Signed t r) (d, fs, records) = (after (api_exec L t q r d) d, fs, records)"
| "serve L S C q (Filed t r) (d, fs, records) =
     (let (a, fs') = document_api L C t q r (d, fs) in (after a d, fs', records))"

fun serve_list :: "library \<Rightarrow> auth_settings \<Rightarrow> doc_settings \<Rightarrow> (request \<times> call) list \<Rightarrow> campus \<Rightarrow> campus" where
  "serve_list L S C [] s = s"
| "serve_list L S C ((q, c) # cs) s = serve_list L S C cs (serve L S C q c s)"

section \<open>A call is a step of one service\<close>

text \<open>The steps of the services, for the user that is served.\<close>

inductive service_step :: "doc_settings \<Rightarrow> request \<Rightarrow> db \<Rightarrow> db \<Rightarrow> bool" for C q d where
  by_proposals: "proposal_exec q r d = Inr d' \<Longrightarrow> service_step C q d d'"
| by_venues: "venue_exec q r d = Inr d' \<Longrightarrow> service_step C q d d'"
| by_budgets: "budget_exec q r d = Inr d' \<Longrightarrow> service_step C q d d'"
| by_clubs: "club_exec q r d = Inr d' \<Longrightarrow> service_step C q d d'"
| by_workflow: "workflow_exec q r d = Inr d' \<Longrightarrow> service_step C q d d'"
| by_inbox: "inbox_exec q r d = Inr d' \<Longrightarrow> service_step C q d d'"
| by_resources: "resource_exec q r d = Inr d' \<Longrightarrow> service_step C q d d'"
| by_execution: "execution_exec q r d = Inr d' \<Longrightarrow> service_step C q d d'"
| by_expenses: "expense_exec q r d = Inr d' \<Longrightarrow> service_step C q d d'"
| by_finance: "finance_step q d d' \<Longrightarrow> actor_role q \<in> {CLUB_SECRETARY, FINANCE_OFFICER, PRINCIPAL} \<Longrightarrow> service_step C q d d'"
| by_closeout: "closeout_exec q r d = Inr d' \<Longrightarrow> service_step C q d d'"
| by_documents: "document_exec C q (r, fs) d = Inr d' \<Longrightarrow> service_step C q d d'"

lemma api_exec_step:
  assumes "api_exec L t q r d = Inr d'"
  shows "\<exists>u. sender L t q d u \<and> service_step C (q\<lparr>actor := u\<rparr>) d d'"
proof (cases r)
  case (Proposal_call x)
  with assms show ?thesis by (auto dest!: proposal_api_served intro: by_proposals)
next
  case (Venue_call x)
  with assms show ?thesis by (auto dest!: venue_api_served intro: by_venues)
next
  case (Budget_call x)
  with assms show ?thesis by (auto dest!: budget_api_served intro: by_budgets)
next
  case (Club_call x)
  with assms show ?thesis by (auto dest!: club_api_served intro: by_clubs)
next
  case (Workflow_call x)
  with assms show ?thesis by (auto dest!: workflow_api_served intro: by_workflow)
next
  case (Inbox_call x)
  with assms show ?thesis by (auto dest!: inbox_api_served intro: by_inbox)
next
  case (Resource_call x)
  with assms show ?thesis by (auto dest!: resource_api_served intro: by_resources)
next
  case (Execution_call x)
  with assms show ?thesis by (auto dest!: execution_api_served intro: by_execution)
next
  case (Expense_call x)
  with assms show ?thesis by (auto dest!: expense_api_served intro: by_expenses)
next
  case (Settlement_call x)
  with assms obtain u where u: "sender L t q d u" "us_role u \<in> set (finance_roles x)" "finance_step (q\<lparr>actor := u\<rparr>) d d'"
    by (auto dest!: settlement_api_served)
  from u(2) have "actor_role (q\<lparr>actor := u\<rparr>) \<in> {CLUB_SECRETARY, FINANCE_OFFICER, PRINCIPAL}" by (cases x) auto
  with u(1,3) show ?thesis by (blast intro: by_finance)
next
  case (Closeout_call x)
  with assms show ?thesis by (auto dest!: closeout_api_served intro: by_closeout)
qed

lemma after_cases: "after a d = d \<or> a = Inr (after a d)"
  by (cases a) (simp_all add: after_def)

text \<open>What a call does to the database: nothing, a step of the accounts, or a step of a service for the sender.\<close>

lemma serve_cases:
  obtains "fst (serve L S C q c s) = fst s"
  | r where "auth_exec L S q r (fst s) = Inr (fst (serve L S C q c s))"
  | u where "sender L (bearer c) q (fst s) u" "service_step C (q\<lparr>actor := u\<rparr>) (fst s) (fst (serve L S C q c s))"
proof -
  obtain d fs records where s: "s = (d, fs, records)" by (cases s)
  show ?thesis
  proof (cases c)
    case (Public forwarded r)
    show ?thesis
    proof (cases "\<exists>e p. r = Login e p")
      case True
      then obtain e p where r: "r = Login e p" by blast
      have "fst (serve L S C q c s) = d \<or> fst (serve L S C q c s) = snd (auth_serve L S q r d)"
        unfolding s Public r by (simp add: login_def split: prod.split sum.split)
      with that(1) that(2) [of r] show ?thesis by (auto simp: s auth_exec_def)
    next
      case False
      then have "fst (serve L S C q c s) = snd (auth_serve L S q r d)" by (cases r) (simp_all add: s Public)
      with that(2) [of r] show ?thesis by (simp add: s auth_exec_def)
    qed
  next
    case (Signed t r)
    then have e: "fst (serve L S C q c s) = after (api_exec L t q r d) d" by (simp add: s)
    from after_cases [of "api_exec L t q r d" d] show ?thesis
    proof
      assume "after (api_exec L t q r d) d = d"
      with that(1) e s show ?thesis by simp
    next
      assume "api_exec L t q r d = Inr (after (api_exec L t q r d) d)"
      from api_exec_step [OF this, of C] e s Signed show ?thesis by (auto intro: that(3))
    qed
  next
    case (Filed t r)
    then have e: "fst (serve L S C q c s) = after (fst (document_api L C t q r (d, fs))) d"
      by (simp add: s split: prod.split)
    from document_api_served [of L C t q r d fs] show ?thesis
    proof
      assume "\<exists>x. document_api L C t q r (d, fs) = (Inl x, fs)"
      with that(1) e s show ?thesis by (auto simp: after_def)
    next
      assume "\<exists>u. sender L t q d u \<and> document_api L C t q r (d, fs) = document_serve C (q\<lparr>actor := u\<rparr>) r (d, fs)"
      then obtain u where u: "sender L t q d u"
        and a: "document_api L C t q r (d, fs) = document_serve C (q\<lparr>actor := u\<rparr>) r (d, fs)" by blast
      let ?a = "document_exec C (q\<lparr>actor := u\<rparr>) (r, fs) d"
      have e': "fst (serve L S C q c s) = after ?a d" by (simp add: e a document_exec_def)
      from after_cases [of ?a d] show ?thesis
      proof
        assume "after ?a d = d"
        with that(1) e' s show ?thesis by simp
      next
        assume "?a = Inr (after ?a d)"
        with e' s Filed u show ?thesis by (auto intro!: that(3) [of u] by_documents)
      qed
    qed
  qed
qed

section \<open>What every step keeps\<close>

lemma service_step_signed: "service_step C q d d' \<Longrightarrow> signed q d d'"
proof (induction rule: service_step.induct)
  case (by_finance d')
  from by_finance(1) show ?case
    by cases (blast dest: advance_service.exec_audit income_service.exec_audit settlement_service.exec_audit)+
qed (blast dest: proposal_service.exec_audit venue_service.exec_audit budget_service.exec_audit club_service.exec_audit
    workflow_service.exec_audit inbox.exec_audit resource_service.exec_audit execution_service.exec_audit
    expense_service.exec_audit closeout_service.exec_audit document_service.exec_audit)+

lemma service_step_ok: "service_step C q d d' \<Longrightarrow> db_ok d \<Longrightarrow> db_ok d'"
proof (induction rule: service_step.induct)
  case (by_finance d')
  from by_finance(1,3) show ?case
    by cases (blast dest: advance_service.exec_ok income_service.exec_ok settlement_service.exec_ok)+
qed (blast dest: proposal_service.exec_ok venue_service.exec_ok budget_service.exec_ok club_service.exec_ok
    workflow_service.exec_ok inbox.exec_ok resource_service.exec_ok execution_service.exec_ok
    expense_service.exec_ok closeout_service.exec_ok document_service.exec_ok)+

lemma still_governed: "still d d' \<Longrightarrow> governed d \<Longrightarrow> governed d'"
  by (auto simp: still_def intro: governed_apart)

lemma service_step_governed:
  assumes "service_step C q d d'" and ok: "db_ok d" and g: "governed d"
  shows "governed d'"
  using assms(1)
proof cases
  case (by_proposals r)
  then show ?thesis by (rule governed_proposals.exec_good [OF ok g])
next
  case (by_venues r)
  from venue_still [OF conjunct1 [OF venue_exec_effect [OF this]]] g show ?thesis by (rule still_governed)
next
  case (by_budgets r)
  from budget_still [OF conjunct1 [OF budget_exec_effect [OF this]]] g show ?thesis by (rule still_governed)
next
  case (by_clubs r)
  from club_still [OF conjunct1 [OF club_exec_effect [OF this ok]]] g show ?thesis by (rule still_governed)
next
  case (by_workflow r)
  then show ?thesis by (rule governed_decisions.exec_good [OF ok g])
next
  case (by_inbox r)
  from inbox_still [OF this] g show ?thesis by (rule still_governed)
next
  case (by_resources r)
  then have "resource_effect q d d'" by (auto dest: resource_exec_effect)
  from resource_still [OF this] g show ?thesis by (rule still_governed)
next
  case (by_execution r)
  from execution_still [OF conjunct1 [OF execution_exec_effect [OF this]] ok] g show ?thesis by (rule still_governed)
next
  case (by_expenses r)
  from expense_apart [OF this] g show ?thesis by (auto intro: governed_apart)
next
  case by_finance
  from by_finance(1) g show ?thesis
    by cases (auto dest!: advance_apart income_apart settlement_exec_effect settlement_apart intro: governed_apart)
next
  case (by_closeout r)
  from closeout_apart [OF conjunct1 [OF closeout_exec_effect [OF this]] ok] g show ?thesis by (auto intro: governed_apart)
next
  case (by_documents r fs)
  then obtain fs fs' where "document_effect C q d fs d' fs'" by (auto dest: document_exec_effect)
  from document_still [OF this] g show ?thesis by (rule still_governed)
qed

lemma service_step_ledger:
  assumes "service_step C q d d'" and ok: "db_ok d"
    and role: "actor_role q \<notin> {CLUB_SECRETARY, FINANCE_OFFICER, PRINCIPAL, DEAN_STUDENT_AFFAIRS}"
  shows "ledger d' = ledger d"
  using assms(1)
proof cases
  case (by_proposals r)
  with proposal_still [OF conjunct1 [OF proposal_exec_effect [OF this ok]] ok] show ?thesis by simp
next
  case (by_venues r)
  from venue_still [OF conjunct1 [OF venue_exec_effect [OF this]]] show ?thesis by (simp add: still_def)
next
  case (by_budgets r)
  from budget_still [OF conjunct1 [OF budget_exec_effect [OF this]]] show ?thesis by (simp add: still_def)
next
  case (by_clubs r)
  from club_still [OF conjunct1 [OF club_exec_effect [OF this ok]]] show ?thesis by (simp add: still_def)
next
  case (by_workflow r)
  from workflow_still [OF conjunct1 [OF workflow_exec_effect [OF this]]] show ?thesis by simp
next
  case (by_inbox r)
  from inbox_still [OF this] show ?thesis by (simp add: still_def)
next
  case (by_resources r)
  then have "resource_effect q d d'" by (auto dest: resource_exec_effect)
  from resource_still [OF this] show ?thesis by (simp add: still_def)
next
  case (by_execution r)
  from execution_still [OF conjunct1 [OF execution_exec_effect [OF this]] ok] show ?thesis by (simp add: still_def)
next
  case (by_expenses r)
  from expense_apart [OF this] show ?thesis by simp
next
  case by_finance
  with role show ?thesis by auto
next
  case (by_closeout r)
  from closeout_apart [OF conjunct1 [OF closeout_exec_effect [OF this]] ok] role show ?thesis by auto
next
  case (by_documents r fs)
  then obtain fs fs' where "document_effect C q d fs d' fs'" by (auto dest: document_exec_effect)
  from document_still [OF this] show ?thesis by (simp add: still_def)
qed

lemma service_step_expenses:
  assumes "service_step C q d d'" and ok: "db_ok d" and ne: "\<And>r. expense_exec q r d \<noteq> Inr d'"
  shows "expenses d' = expenses d"
  using assms(1)
proof cases
  case (by_proposals r)
  with proposal_still [OF conjunct1 [OF proposal_exec_effect [OF this ok]] ok] show ?thesis by simp
next
  case (by_venues r)
  from venue_still [OF conjunct1 [OF venue_exec_effect [OF this]]] show ?thesis by (simp add: still_def)
next
  case (by_budgets r)
  from budget_still [OF conjunct1 [OF budget_exec_effect [OF this]]] show ?thesis by (simp add: still_def)
next
  case (by_clubs r)
  from club_still [OF conjunct1 [OF club_exec_effect [OF this ok]]] show ?thesis by (simp add: still_def)
next
  case (by_workflow r)
  from workflow_still [OF conjunct1 [OF workflow_exec_effect [OF this]]] show ?thesis by simp
next
  case (by_inbox r)
  from inbox_still [OF this] show ?thesis by (simp add: still_def)
next
  case (by_resources r)
  from resource_still [OF conjunct1 [OF resource_exec_effect [OF this]]] show ?thesis by (simp add: still_def)
next
  case (by_execution r)
  from execution_still [OF conjunct1 [OF execution_exec_effect [OF this]] ok] show ?thesis by (simp add: still_def)
next
  case (by_expenses r)
  with ne show ?thesis by blast
next
  case by_finance
  from by_finance(1) show ?thesis
    by cases (auto dest!: advance_apart income_apart settlement_exec_effect settlement_apart)
next
  case (by_closeout r)
  from closeout_apart [OF conjunct1 [OF closeout_exec_effect [OF this]] ok] show ?thesis by simp
next
  case (by_documents r fs)
  then obtain fs fs' where "document_effect C q d fs d' fs'" by (auto dest: document_exec_effect)
  from document_still [OF this] show ?thesis by (simp add: still_def)
qed

lemma service_step_invoices:
  "service_step C q d d' \<Longrightarrow> db_ok d \<Longrightarrow> invoices_ok (expenses d) \<Longrightarrow> invoices_ok (expenses d')"
  using service_step_expenses [of C q d d'] invoice_register.exec_good [of d q _ d'] by metis

lemma auth_step:
  assumes "auth_exec L S q r d = Inr d'"
  shows "audit_logs d' = audit_logs d" and "still d d'" and "db_ok d \<Longrightarrow> db_ok d'"
proof -
  from auth_serve_effect [of L S q r d] assms have "d' = d \<or> auth_effect L S q d d'" by (auto simp: auth_exec_def)
  then show "audit_logs d' = audit_logs d" "still d d'" by (auto dest: auth_effect_audit auth_still)
  show "db_ok d \<Longrightarrow> db_ok d'" using auth_exec_effect [OF assms] by simp
qed

text \<open>The whole service keeps the constraints of the database and \<open>governed\<close>.\<close>

definition campus_exec ::
    "library \<Rightarrow> auth_settings \<Rightarrow> doc_settings \<Rightarrow> request \<Rightarrow> call \<times> store \<times> limiter \<Rightarrow> db \<Rightarrow> db res" where
  "campus_exec L S C q = (\<lambda>(c, fs, records) d. Inr (fst (serve L S C q c (d, fs, records))))"

lemma campus_exec_cases:
  assumes "campus_exec L S C q r d = Inr d'"
  obtains "d' = d" | x where "auth_exec L S q x d = Inr d'" | u where "service_step C (q\<lparr>actor := u\<rparr>) d d'"
proof -
  obtain c fs records where r: "r = (c, fs, records)" by (cases r)
  from assms have d': "fst (serve L S C q c (d, fs, records)) = d'" by (simp add: campus_exec_def r)
  show ?thesis by (rule serve_cases [of L S C q c "(d, fs, records)"]) (use d' that in auto)
qed

interpretation campus: state_invariant "campus_exec L S C" governed for L S C
proof unfold_locales
  fix d q r d'
  assume ex: "campus_exec L S C q r d = Inr d'" and ok: "db_ok d"
  show "db_ok d'" by (rule campus_exec_cases [OF ex]) (use ok in \<open>auto dest: auth_step(3) service_step_ok\<close>)
  show "governed d'" if "governed d"
    by (rule campus_exec_cases [OF ex])
      (use ok that in \<open>auto dest: auth_step(2) still_governed service_step_governed\<close>)
qed

interpretation campus_claims: state_invariant "campus_exec L S C" "\<lambda>d. invoices_ok (expenses d)" for L S C
proof unfold_locales
  fix d q r d'
  assume ex: "campus_exec L S C q r d = Inr d'" and ok: "db_ok d" and inv: "invoices_ok (expenses d)"
  show "invoices_ok (expenses d')"
    by (rule campus_exec_cases [OF ex])
      (use ok inv in \<open>auto dest: auth_step(2) service_step_invoices simp: still_def\<close>)
qed

lemma serve_list_run: "\<exists>xs. fst (serve_list L S C cs s) = run (campus_exec L S C) xs (fst s)"
proof (induction cs arbitrary: s)
  case Nil
  show ?case by (intro exI [of _ "[]"]) simp
next
  case (Cons x cs)
  obtain q c where x: "x = (q, c)" by (cases x)
  from Cons.IH [of "serve L S C q c s"] obtain xs
    where "fst (serve_list L S C (x # cs) s) = run (campus_exec L S C) xs (fst (serve L S C q c s))" by (auto simp: x)
  then have "fst (serve_list L S C (x # cs) s) = run (campus_exec L S C) ((q, c, snd s) # xs) (fst s)"
    by (simp add: campus_exec_def split_beta)
  then show ?case ..
qed

lemma serve_list_good:
  "db_ok (fst s) \<Longrightarrow> governed (fst s) \<Longrightarrow> db_ok (fst (serve_list L S C cs s)) \<and> governed (fst (serve_list L S C cs s))"
  using serve_list_run [of L S C cs s] campus.run_good [of "fst s"] campus.run_ok [of "fst s"] by metis

section \<open>A concrete service\<close>

text \<open>A token of \<open>n\<close> characters is that of account \<open>n\<close>.\<close>

definition badge_library :: library where
  "badge_library = plain_library\<lparr>jwt_decode := (\<lambda>_ t. Payload
     \<lparr>jc_sub = Some (length t), jc_role = CLUB_SECRETARY, jc_email = [], jc_token_type = ''access'', jc_jti = 0,
      jc_iat = 0, jc_exp = 0\<rparr>)\<rparr>"

definition opened_with :: "db \<Rightarrow> campus" where
  "opened_with d = (d, no_files, \<lambda>_. [])"

definition last_calls :: "(request \<times> call) list" where
  "last_calls =
     [(ctx the_admin (days 6), Signed (Some ''dddddd'') (Workflow_call (ApproveStep 113 None))),
      (ctx the_admin (days 7), Signed (Some ''ppppppp'') (Workflow_call (ApproveStep 113 None)))]"

definition advance_call :: call where
  "advance_call = Signed (Some ''ss'') (Settlement_call (PostAdvance 25 200000 ''Prizes''))"

definition claim_calls :: "(request \<times> call) list" where
  "claim_calls =
     [(ctx the_admin (days 32), Signed (Some ''ss'') (Expense_call (CreateExpense 25 (a_claim ''INV-1'' 400000)))),
      (ctx the_admin (days 32), Signed (Some ''ss'') (Expense_call (CreateExpense 25 (a_claim ''inv-1 '' 100))))]"

lemma campus_governed: "governed last_approval_campus"
  by code_simp

section \<open>Properties of the service\<close>

text \<open>C4. The audit log is append-only under every call, and each entry a call adds names the account its bearer
  token belongs to, as the database knows it, and the time of the call; a call without a valid token adds none.\<close>

theorem audit_names_its_sender:
  "\<exists>es. audit_logs (fst (serve L S C q c s)) = audit_logs (fst s) @ es \<and>
     list_all (\<lambda>a. \<exists>u. sender L (bearer c) q (fst s) u \<and> by_actor (q\<lparr>actor := u\<rparr>) a) es"
proof (rule serve_cases [of L S C q c s])
  assume "fst (serve L S C q c s) = fst s"
  then show ?thesis by (intro exI [of _ "[]"]) simp
next
  fix r
  assume "auth_exec L S q r (fst s) = Inr (fst (serve L S C q c s))"
  from auth_step(1) [OF this] show ?thesis by (intro exI [of _ "[]"]) simp
next
  fix u
  assume u: "sender L (bearer c) q (fst s) u" and st: "service_step C (q\<lparr>actor := u\<rparr>) (fst s) (fst (serve L S C q c s))"
  from service_step_signed [OF st] u show ?thesis by (auto simp: list_all_iff)
qed

text \<open>C6. Money moves for a secretary, the finance officer, the principal or the dean only: unless the bearer token of a
  call belongs to one of them, it leaves the payments, the settlements, the incomes and what was disbursed as
  they were. In particular no administrator moves money.\<close>

theorem money_moves_by_role:
  assumes "db_ok (fst s)"
  shows "ledger (fst (serve L S C q c s)) = ledger (fst s) \<or>
    (\<exists>u. sender L (bearer c) q (fst s) u \<and> us_role u \<in> {CLUB_SECRETARY, FINANCE_OFFICER, PRINCIPAL, DEAN_STUDENT_AFFAIRS})"
  by (rule serve_cases [of L S C q c s])
    (use assms in \<open>auto dest: auth_step(2) service_step_ledger simp: still_def\<close>)

lemma money_moves_by_role_witness:
  "length (advances (fst (serve badge_library plain_settings doc_defaults (ctx the_admin (days 3)) advance_call
       (opened_with (campus_at EV_SCHEDULED))))) = 1 \<and>
   (\<exists>u. sender badge_library (bearer advance_call) (ctx the_admin (days 3)) (campus_at EV_SCHEDULED) u \<and>
      us_role u \<in> {CLUB_SECRETARY, FINANCE_OFFICER, PRINCIPAL, DEAN_STUDENT_AFFAIRS})"
proof -
  let ?s = "opened_with (campus_at EV_SCHEDULED)"
  let ?s' = "serve badge_library plain_settings doc_defaults (ctx the_admin (days 3)) advance_call ?s"
  have n: "length (advances (fst ?s')) = 1" "length (advances (fst ?s)) = 0" by code_simp+
  have ok: "db_ok (fst ?s)" by code_simp
  have "ledger (fst ?s') \<noteq> ledger (fst ?s)"
  proof
    assume "ledger (fst ?s') = ledger (fst ?s)"
    then have "length (map (\<lambda>a. (ca_id a, ca_amount_disbursed a)) (advances (fst ?s'))) =
        length (map (\<lambda>a. (ca_id a, ca_amount_disbursed a)) (advances (fst ?s)))" by (simp only: ledger_def prod.inject)
    with n show False by (simp only: length_map)
  qed
  moreover have "fst ?s = campus_at EV_SCHEDULED" by (simp add: opened_with_def)
  ultimately show ?thesis
    using money_moves_by_role [OF ok, of badge_library plain_settings doc_defaults "ctx the_admin (days 3)" advance_call] n(1)
    by (simp only:) blast
qed

text \<open>What stands behind an event: its approved proposal and the completed chain of that proposal, every step approved.\<close>

definition sanctioned :: "db \<Rightarrow> event \<Rightarrow> bool" where
  "sanctioned d e \<longleftrightarrow>
     list_ex (\<lambda>rq. rq_id rq = ev_event_request_id e \<and> rq_status rq = RQ_APPROVED \<and>
       list_ex (\<lambda>i. wi_event_request_id i = rq_id rq \<and> wi_status i = WI_COMPLETED \<and>
         chain_of d i \<noteq> [] \<and> list_all (\<lambda>s. ws_status s = WS_APPROVED) (chain_of d i)) (instances d))
       (event_requests d)"

lemma governed_sanctioned:
  assumes "governed d" and "e \<in> set (events d)"
  shows "sanctioned d e"
proof -
  note g = governedD [OF assms(1)]
  from g(6) assms(2) obtain rq where rq: "rq \<in> set (event_requests d)" "rq_id rq = ev_event_request_id e"
    "rq_status rq = RQ_APPROVED" by (auto simp: events_sanctioned_def)
  with g(2) obtain i where i: "i \<in> set (instances d)" "wi_event_request_id i = rq_id rq" "wi_status i = WI_COMPLETED"
    by (auto simp: sanctioned_ok_def)
  from g(1) i have "list_all (\<lambda>s. ws_status s = WS_APPROVED) (chain_of d i)"
    by (auto simp: chain_ok_def in_order_def list_all_iff)
  moreover from g(7) i have "wi_id i \<in> ws_instance_id ` set (steps d)" by (auto simp: worked_through_def)
  then have "chain_of d i \<noteq> []" by (auto simp: chain_of_def filter_empty_conv)
  ultimately show ?thesis using rq i unfolding sanctioned_def list_ex_iff by blast
qed

lemma governed_approved:
  assumes "governed d" and ok: "db_ok d" and rq: "rq \<in> set (event_requests d)"
  shows "(rq_status rq = RQ_APPROVED) = list_ex (\<lambda>e. ev_event_request_id e = rq_id rq) (events d)"
proof
  note g = governedD [OF assms(1)]
  show "list_ex (\<lambda>e. ev_event_request_id e = rq_id rq) (events d)" if "rq_status rq = RQ_APPROVED"
    using g(2) rq that by (auto simp: sanctioned_ok_def list_ex_iff)
  assume "list_ex (\<lambda>e. ev_event_request_id e = rq_id rq) (events d)"
  then obtain e where "e \<in> set (events d)" "ev_event_request_id e = rq_id rq" by (auto simp: list_ex_iff)
  with g(6) obtain r where r: "r \<in> set (event_requests d)" "rq_id r = rq_id rq" "rq_status r = RQ_APPROVED"
    by (auto simp: events_sanctioned_def)
  from request_unique [OF ok r(1) rq r(2)] r(3) show "rq_status rq = RQ_APPROVED" by simp
qed

text \<open>C1. Along any calls, from a database in order, a proposal is approved exactly if it has its event, and behind every
  event stands an approval chain that was completed with every one of its steps approved: no call creates an event
  past the chain, and no later call takes the approval from under an event.\<close>

theorem events_only_through_the_chain:
  assumes "db_ok (fst s)" and "governed (fst s)"
  shows "list_all (sanctioned (fst (serve_list L S C cs s))) (events (fst (serve_list L S C cs s))) \<and>
    list_all (\<lambda>rq. (rq_status rq = RQ_APPROVED) =
        list_ex (\<lambda>e. ev_event_request_id e = rq_id rq) (events (fst (serve_list L S C cs s))))
      (event_requests (fst (serve_list L S C cs s)))"
proof -
  let ?d = "fst (serve_list L S C cs s)"
  from serve_list_good [OF assms] have g: "db_ok ?d" "governed ?d" by simp_all
  show ?thesis
    unfolding list_all_iff using governed_sanctioned [OF g(2)] governed_approved [OF g(2,1)] by blast
qed

lemma events_only_through_the_chain_witness:
  "\<exists>e. events (fst (serve_list badge_library plain_settings doc_defaults last_calls (opened_with last_approval_campus))) = [e] \<and>
     ev_event_request_id e = 20 \<and>
     sanctioned (fst (serve_list badge_library plain_settings doc_defaults last_calls (opened_with last_approval_campus))) e"
proof -
  let ?s = "opened_with last_approval_campus"
  let ?d = "fst (serve_list badge_library plain_settings doc_defaults last_calls ?s)"
  have ok: "db_ok (fst ?s)" "governed (fst ?s)" by (simp_all add: opened_with_def last_approval_campus_ok(1) campus_governed)
  have "map ev_event_request_id (events ?d) = [20]" by code_simp
  then obtain e where e: "events ?d = [e]" "ev_event_request_id e = 20" unfolding map_eq_Cons_conv by blast
  from conjunct1 [OF events_only_through_the_chain [OF ok, of badge_library plain_settings doc_defaults last_calls]]
  have "sanctioned ?d e" by (simp only: e(1) list.pred_inject simp_thms)
  with e show ?thesis by blast
qed

text \<open>C5. Whatever calls the service serves, two live claims of one vendor, invoice number and date are for the same event
  and carry the same bill: no sequence of calls, of any kind and by any users, gets one invoice paid by two events.\<close>

theorem invoices_claimed_for_one_event:
  assumes "db_ok (fst s)" and "invoices_ok (expenses (fst s))"
    and a: "a \<in> set (expenses (fst (serve_list L S C cs s)))" and b: "b \<in> set (expenses (fst (serve_list L S C cs s)))"
    and "same_invoice a b"
  shows "ex_event_id a = ex_event_id b \<and> ex_bill_document_id a = ex_bill_document_id b"
proof -
  let ?d = "fst (serve_list L S C cs s)"
  obtain xs where xs: "?d = run (campus_exec L S C) xs (fst s)" using serve_list_run by blast
  have ok: "db_ok ?d" and inv: "invoices_ok (expenses ?d)"
    unfolding xs using assms(1,2) by (auto intro: campus.run_ok campus_claims.run_good)
  show ?thesis
  proof (cases "ex_id a = ex_id b")
    case True
    with db_ok_keys(8) [OF ok] a b have "a = b" by (meson distinct_map inj_on_def)
    then show ?thesis by simp
  next
    case False
    with inv a b assms(5) show ?thesis by (auto simp: invoices_ok_def invoices_agree_def)
  qed
qed

lemma invoices_claimed_for_one_event_witness:
  "\<exists>a b. expenses (fst (serve_list badge_library plain_settings doc_defaults claim_calls (opened_with campus))) = [a, b] \<and>
     ex_event_id a = ex_event_id b"
proof -
  let ?d = "fst (serve_list badge_library plain_settings doc_defaults claim_calls (opened_with campus))"
  have "length (expenses ?d) = 2" by code_simp
  then obtain a b where ab: "expenses ?d = [a, b]" by (auto simp: numeral_2_eq_2 length_Suc_conv)
  have ok: "db_ok (fst (opened_with campus))" "invoices_ok (expenses (fst (opened_with campus)))" by code_simp+
  have "(case expenses ?d of [a, b] \<Rightarrow> same_invoice a b | _ \<Rightarrow> False)" by code_simp
  then have s: "same_invoice a b" by (simp only: ab list.case)
  have "a \<in> set (expenses ?d)" "b \<in> set (expenses ?d)" by (simp_all only: ab list.set insert_iff simp_thms)
  from invoices_claimed_for_one_event [OF ok this s] ab show ?thesis by blast
qed

end
