(* ===== verification/Schema.thy ===== *)
theory Schema
  imports Prelude
begin

text \<open>
  The schema the migrations build, and what their operations do to it: the operations of \<^verbatim>\<open>alembic.op\<close> and the SQL
  statements the migrations of \<^verbatim>\<open>migrations/versions\<close> use, on a catalogue of tables, indexes, triggers and
  constraints. What PostgreSQL refuses is not part of the operations; \<open>resolves\<close> says that none of it comes up:
  no relation is created under a name in use, and every reference, index, trigger and constraint is on a table that is
  there.
\<close>

section \<open>Tables\<close>

datatype sql_type =
    UUID | VARCHAR nat | TEXT | BOOLEAN | INTEGER | NUMERIC nat nat | TIMESTAMPTZ | DATE | JSONB

datatype on_delete = NO_ACTION | CASCADE | RESTRICT | SET_NULL

datatype column_option =
    Primary_key
  | Not_null
  | Unique
  | Indexed
  | References string string on_delete
  | Server_default string

datatype item =
    Column string sql_type "column_option list"
  | Check string string
  | Unique_constraint string "string list"
  | Foreign_key string string string string
  | Index string "string list"

record index =
  ix_name :: string
  ix_table :: string
  ix_columns :: "string list"
  ix_unique :: bool

record schema =
  extensions :: "string list"
  procedures :: "string list"
  enum_types :: "(string \<times> string list) list"
  tables :: "(string \<times> item list) list"
  indexes :: "index list"
  triggers :: "(string \<times> string \<times> string) list"
  exclusions :: "(string \<times> string) list"

definition empty_schema :: schema where
  "empty_schema =
     \<lparr>extensions = [], procedures = [], enum_types = [], tables = [], indexes = [], triggers = [], exclusions = []\<rparr>"

text \<open>Reading a table.\<close>

fun column_name :: "item \<Rightarrow> string option" where
  "column_name (Column c _ _) = Some c"
| "column_name _ = None"

fun referred :: "column_option \<Rightarrow> (string \<times> string) option" where
  "referred (References t c _) = Some (t, c)"
| "referred _ = None"

fun references :: "item \<Rightarrow> (string \<times> string) list" where
  "references (Column _ _ os) = List.map_filter referred os"
| "references (Foreign_key _ _ t c) = [(t, c)]"
| "references _ = []"

section \<open>Operations\<close>

datatype ddl =
    Create_extension string
  | Drop_extension string
  | Create_function string
  | Drop_function_cascade string
  | Add_enum_values string "string list"
  | Create_table string "item list"
  | Drop_table string
  | Drop_table_cascade string
  | Create_index string string "string list" bool
  | Drop_index string
  | Add_exclusion string string
  | Create_foreign_key string string string string string
  | Create_trigger string string string
  | Add_column string item
  | Drop_column string string

text \<open>A table goes with its indexes, triggers and constraints.\<close>

definition without_table :: "string \<Rightarrow> schema \<Rightarrow> schema" where
  "without_table t s =
     s\<lparr>tables := filter (\<lambda>x. fst x \<noteq> t) (tables s), indexes := filter (\<lambda>i. ix_table i \<noteq> t) (indexes s),
       triggers := filter (\<lambda>x. fst (snd x) \<noteq> t) (triggers s), exclusions := filter (\<lambda>x. snd x \<noteq> t) (exclusions s)\<rparr>"

text \<open>Dropping a table with \<^verbatim>\<open>CASCADE\<close> also drops the references to it.\<close>

fun keeps_option :: "string \<Rightarrow> column_option \<Rightarrow> bool" where
  "keeps_option t (References r _ _) \<longleftrightarrow> r \<noteq> t"
| "keeps_option _ _ \<longleftrightarrow> True"

fun unreferred :: "string \<Rightarrow> item \<Rightarrow> item list" where
  "unreferred t (Column c ty os) = [Column c ty (filter (keeps_option t) os)]"
| "unreferred t (Foreign_key n c r d) = (if r = t then [] else [Foreign_key n c r d])"
| "unreferred t i = [i]"

fun keeps_item :: "string \<Rightarrow> item \<Rightarrow> bool" where
  "keeps_item c (Column n _ _) \<longleftrightarrow> n \<noteq> c"
| "keeps_item c (Unique_constraint _ us) \<longleftrightarrow> c \<notin> set us"
| "keeps_item c (Foreign_key _ n _ _) \<longleftrightarrow> n \<noteq> c"
| "keeps_item _ _ \<longleftrightarrow> True"

definition on_table :: "string \<Rightarrow> (item list \<Rightarrow> item list) \<Rightarrow> (string \<times> item list) list \<Rightarrow> (string \<times> item list) list" where
  "on_table t f = map (\<lambda>(n, is). (n, if n = t then f is else is))"

fun apply_ddl :: "ddl \<Rightarrow> schema \<Rightarrow> schema" where
  "apply_ddl (Create_extension e) s = (if e \<in> set (extensions s) then s else s\<lparr>extensions := extensions s @ [e]\<rparr>)"
| "apply_ddl (Drop_extension e) s = s\<lparr>extensions := filter (\<lambda>x. x \<noteq> e) (extensions s)\<rparr>"
| "apply_ddl (Create_function f) s = (if f \<in> set (procedures s) then s else s\<lparr>procedures := procedures s @ [f]\<rparr>)"
| "apply_ddl (Drop_function_cascade f) s =
     s\<lparr>procedures := filter (\<lambda>x. x \<noteq> f) (procedures s), triggers := filter (\<lambda>x. snd (snd x) \<noteq> f) (triggers s)\<rparr>"
| "apply_ddl (Add_enum_values e vs) s =
     s\<lparr>enum_types := map (\<lambda>(n, us). (n, if n = e then us @ filter (\<lambda>v. v \<notin> set us) vs else us)) (enum_types s)\<rparr>"
| "apply_ddl (Create_table t is) s = s\<lparr>tables := tables s @ [(t, is)]\<rparr>"
| "apply_ddl (Drop_table t) s = without_table t s"
| "apply_ddl (Drop_table_cascade t) s =
     (let s' = without_table t s in s'\<lparr>tables := map (\<lambda>(n, is). (n, concat (map (unreferred t) is))) (tables s')\<rparr>)"
| "apply_ddl (Create_index i t cs u) s =
     s\<lparr>indexes := indexes s @ [\<lparr>ix_name = i, ix_table = t, ix_columns = cs, ix_unique = u\<rparr>]\<rparr>"
| "apply_ddl (Drop_index i) s = s\<lparr>indexes := filter (\<lambda>x. ix_name x \<noteq> i) (indexes s)\<rparr>"
| "apply_ddl (Add_exclusion n t) s = s\<lparr>exclusions := exclusions s @ [(n, t)]\<rparr>"
| "apply_ddl (Create_foreign_key n t c r d) s = s\<lparr>tables := on_table t (\<lambda>is. is @ [Foreign_key n c r d]) (tables s)\<rparr>"
| "apply_ddl (Create_trigger n t f) s = s\<lparr>triggers := triggers s @ [(n, t, f)]\<rparr>"
| "apply_ddl (Add_column t i) s = s\<lparr>tables := on_table t (\<lambda>is. is @ [i]) (tables s)\<rparr>"
| "apply_ddl (Drop_column t c) s =
     s\<lparr>tables := on_table t (filter (keeps_item c)) (tables s),
       indexes := filter (\<lambda>i. ix_table i \<noteq> t \<or> c \<notin> set (ix_columns i)) (indexes s)\<rparr>"

definition run_ddl :: "ddl list \<Rightarrow> schema \<Rightarrow> schema" where
  "run_ddl = fold apply_ddl"

lemma run_ddl_simps [simp]:
  "run_ddl [] s = s" "run_ddl (x # xs) s = run_ddl xs (apply_ddl x s)"
  by (simp_all add: run_ddl_def)

lemma run_ddl_append [simp]: "run_ddl (xs @ ys) s = run_ddl ys (run_ddl xs s)"
  by (simp add: run_ddl_def)

section \<open>What a list of operations adds\<close>

fun additive :: "ddl \<Rightarrow> bool" where
  "additive (Drop_extension _) \<longleftrightarrow> False"
| "additive (Drop_function_cascade _) \<longleftrightarrow> False"
| "additive (Drop_table _) \<longleftrightarrow> False"
| "additive (Drop_table_cascade _) \<longleftrightarrow> False"
| "additive (Drop_index _) \<longleftrightarrow> False"
| "additive (Drop_column _ _) \<longleftrightarrow> False"
| "additive _ \<longleftrightarrow> True"

fun created_tables :: "ddl \<Rightarrow> string list" where
  "created_tables (Create_table t _) = [t]"
| "created_tables _ = []"

fun created_indexes :: "ddl \<Rightarrow> index list" where
  "created_indexes (Create_index i t cs u) = [\<lparr>ix_name = i, ix_table = t, ix_columns = cs, ix_unique = u\<rparr>]"
| "created_indexes _ = []"

fun created_triggers :: "ddl \<Rightarrow> (string \<times> string \<times> string) list" where
  "created_triggers (Create_trigger n t f) = [(n, t, f)]"
| "created_triggers _ = []"

fun created_exclusions :: "ddl \<Rightarrow> (string \<times> string) list" where
  "created_exclusions (Add_exclusion n t) = [(n, t)]"
| "created_exclusions _ = []"

fun create_in :: "ddl \<Rightarrow> (string \<times> item list) list \<Rightarrow> (string \<times> item list) list" where
  "create_in (Create_table t is) ts = ts @ [(t, is)]"
| "create_in (Create_foreign_key n t c r d) ts = on_table t (\<lambda>is. is @ [Foreign_key n c r d]) ts"
| "create_in (Add_column t i) ts = on_table t (\<lambda>is. is @ [i]) ts"
| "create_in _ ts = ts"

definition made :: "(ddl \<Rightarrow> 'a list) \<Rightarrow> ddl list \<Rightarrow> 'a list" where
  "made f os = concat (map f os)"

lemma made_simps [simp]: "made f [] = []" "made f (x # xs) = f x @ made f xs" "made f (xs @ ys) = made f xs @ made f ys"
  by (simp_all add: made_def)

lemma on_table_fst [simp]: "map fst (on_table t f ts) = map fst ts"
  by (simp add: on_table_def case_prod_unfold)

lemma additive_step:
  assumes "additive x"
  shows "tables (apply_ddl x s) = create_in x (tables s)"
    "map fst (tables (apply_ddl x s)) = map fst (tables s) @ created_tables x"
    "indexes (apply_ddl x s) = indexes s @ created_indexes x"
    "triggers (apply_ddl x s) = triggers s @ created_triggers x"
    "exclusions (apply_ddl x s) = exclusions s @ created_exclusions x"
  using assms by (cases x; simp)+

lemma additive_tables: "list_all additive os \<Longrightarrow> tables (run_ddl os s) = fold create_in os (tables s)"
  by (induction os arbitrary: s) (simp_all add: additive_step)

lemma additive_names: "list_all additive os \<Longrightarrow> map fst (tables (run_ddl os s)) = map fst (tables s) @ made created_tables os"
proof (induction os arbitrary: s)
  case (Cons x os)
  with additive_step(2) [of x s] show ?case by simp
qed simp

lemma additive_indexes: "list_all additive os \<Longrightarrow> indexes (run_ddl os s) = indexes s @ made created_indexes os"
  by (induction os arbitrary: s) (simp_all add: additive_step)

lemma additive_triggers: "list_all additive os \<Longrightarrow> triggers (run_ddl os s) = triggers s @ made created_triggers os"
  by (induction os arbitrary: s) (simp_all add: additive_step)

lemma additive_exclusions: "list_all additive os \<Longrightarrow> exclusions (run_ddl os s) = exclusions s @ made created_exclusions os"
  by (induction os arbitrary: s) (simp_all add: additive_step)

fun extend_in :: "ddl \<Rightarrow> string list \<Rightarrow> string list" where
  "extend_in (Create_extension e) es = (if e \<in> set es then es else es @ [e])"
| "extend_in _ es = es"

fun define_in :: "ddl \<Rightarrow> string list \<Rightarrow> string list" where
  "define_in (Create_function f) fs = (if f \<in> set fs then fs else fs @ [f])"
| "define_in _ fs = fs"

lemma additive_extensions: "list_all additive os \<Longrightarrow> extensions (run_ddl os s) = fold extend_in os (extensions s)"
proof (induction os arbitrary: s)
  case (Cons x os)
  then show ?case by (cases x) simp_all
qed simp

lemma additive_procedures: "list_all additive os \<Longrightarrow> procedures (run_ddl os s) = fold define_in os (procedures s)"
proof (induction os arbitrary: s)
  case (Cons x os)
  then show ?case by (cases x) simp_all
qed simp

text \<open>No enumeration is created, so none is extended.\<close>

lemma no_enum_types: "enum_types s = [] \<Longrightarrow> enum_types (run_ddl os s) = []"
proof (induction os arbitrary: s)
  case (Cons x os)
  then show ?case by (cases x) (simp_all add: without_table_def Let_def)
qed simp

section \<open>Dropping what was not there before\<close>

definition knows_none :: "string list \<Rightarrow> string list \<Rightarrow> schema \<Rightarrow> bool" where
  "knows_none ts is s \<longleftrightarrow>
     list_all (\<lambda>t. t \<notin> set (map fst (tables s)) \<and> t \<notin> set (map ix_table (indexes s)) \<and>
       t \<notin> set (map (fst \<circ> snd) (triggers s)) \<and> t \<notin> set (map snd (exclusions s))) ts \<and>
     list_all (\<lambda>i. i \<notin> set (map ix_name (indexes s))) is"

lemma filter_fresh: "t \<notin> set (map f xs) \<Longrightarrow> filter (\<lambda>x. f x \<noteq> t) xs = xs"
  by (induction xs) auto

lemma knows_none_table:
  assumes "knows_none ts is s" and "t \<in> set ts"
  shows "filter (\<lambda>x. fst x \<noteq> t) (tables s) = tables s" "filter (\<lambda>i. ix_table i \<noteq> t) (indexes s) = indexes s"
    "filter (\<lambda>x. fst (snd x) \<noteq> t) (triggers s) = triggers s" "filter (\<lambda>x. snd x \<noteq> t) (exclusions s) = exclusions s"
proof -
  have f: "t \<notin> set (map fst (tables s))" "t \<notin> set (map ix_table (indexes s))"
    "t \<notin> set (map (fst \<circ> snd) (triggers s))" "t \<notin> set (map snd (exclusions s))"
    using assms unfolding knows_none_def list_all_iff by blast+
  show "filter (\<lambda>x. fst x \<noteq> t) (tables s) = tables s" by (rule filter_fresh [OF f(1)])
  show "filter (\<lambda>i. ix_table i \<noteq> t) (indexes s) = indexes s" by (rule filter_fresh [OF f(2)])
  show "filter (\<lambda>x. fst (snd x) \<noteq> t) (triggers s) = triggers s" using filter_fresh [OF f(3)] by simp
  show "filter (\<lambda>x. snd x \<noteq> t) (exclusions s) = exclusions s" by (rule filter_fresh [OF f(4)])
qed

lemma knows_none_index: "knows_none ts is s \<Longrightarrow> i \<in> set is \<Longrightarrow> filter (\<lambda>x. ix_name x \<noteq> i) (indexes s) = indexes s"
  by (rule filter_fresh) (simp add: knows_none_def list_all_iff)

text \<open>A column that a table did not have goes as it came.\<close>

definition lacks :: "string \<Rightarrow> string \<Rightarrow> schema \<Rightarrow> bool" where
  "lacks t c s \<longleftrightarrow>
     list_all (\<lambda>(n, is). n = t \<longrightarrow> list_all (keeps_item c) is) (tables s) \<and>
     list_all (\<lambda>i. ix_table i = t \<longrightarrow> c \<notin> set (ix_columns i)) (indexes s)"

lemma on_table_append [simp]: "on_table t f (xs @ ys) = on_table t f xs @ on_table t f ys"
  by (simp add: on_table_def)

lemma on_table_twice [simp]: "on_table t f (on_table t g xs) = on_table t (f \<circ> g) xs"
  by (simp add: on_table_def case_prod_unfold)

lemma lacksD:
  assumes "lacks t c s"
  shows "(t, is) \<in> set (tables s) \<Longrightarrow> i \<in> set is \<Longrightarrow> keeps_item c i"
    "x \<in> set (indexes s) \<Longrightarrow> ix_table x = t \<Longrightarrow> c \<notin> set (ix_columns x)"
  using assms by (auto simp: lacks_def list_all_iff)

lemma filter_on_table: "filter (\<lambda>x. fst x \<noteq> u) (on_table t f ts) = on_table t f (filter (\<lambda>x. fst x \<noteq> u) ts)"
  by (induction ts) (auto simp: on_table_def)

lemma on_table_same: "(\<And>is. (t, is) \<in> set ts \<Longrightarrow> f is = is) \<Longrightarrow> on_table t f ts = ts"
  by (induction ts) (auto simp: on_table_def)

lemma schema_same: "ts = tables s \<Longrightarrow> is = indexes s \<Longrightarrow> s\<lparr>tables := ts, indexes := is\<rparr> = s"
  by simp

lemma knows_noneD: "knows_none ts is s \<Longrightarrow> x \<in> set (indexes s) \<Longrightarrow> ix_name x \<notin> set is"
  by (auto simp: knows_none_def list_all_iff)

text \<open>Dropping the tables of a list one after the other, references and all.\<close>

lemma cascade_run:
  "run_ddl (map Drop_table_cascade ts) s =
     s\<lparr>tables := tables (run_ddl (map Drop_table_cascade ts) s),
       indexes := filter (\<lambda>i. ix_table i \<notin> set ts) (indexes s), triggers := filter (\<lambda>x. fst (snd x) \<notin> set ts) (triggers s),
       exclusions := filter (\<lambda>x. snd x \<notin> set ts) (exclusions s)\<rparr>"
  "set (map fst (tables (run_ddl (map Drop_table_cascade ts) s))) \<subseteq> set (map fst (tables s)) - set ts"
proof (induction ts arbitrary: s)
  case Nil
  {
    case 1
    show ?case by simp
  next
    case 2
    show ?case by simp
  }
next
  case (Cons t ts)
  {
    case 1
    show ?case
      by (simp del: apply_ddl.simps, subst Cons.IH(1)) (simp add: without_table_def Let_def conj_commute)
  next
    case 2
    let ?s = "apply_ddl (Drop_table_cascade t) s"
    have "map fst (tables ?s) = filter (\<lambda>n. n \<noteq> t) (map fst (tables s))"
      by (simp add: without_table_def Let_def filter_map comp_def case_prod_unfold)
    then have "set (map fst (tables ?s)) \<subseteq> set (map fst (tables s)) - {t}" by auto
    with Cons.IH(2) [of ?s] show ?case by (simp del: apply_ddl.simps) blast
  }
qed

section \<open>What the database would refuse\<close>

text \<open>The names a list of operations works with: the tables that are there, and the relations (tables and indexes).\<close>

definition referred_tables :: "item list \<Rightarrow> string list" where
  "referred_tables is = map fst (concat (map references is))"

lemma referred_tables_simps [simp]:
  "referred_tables [Column c ty []] = []" "referred_tables [Column c ty [References t d a]] = [t]"
  by (simp_all add: referred_tables_def map_filter_def)

fun resolves :: "string list \<Rightarrow> string list \<Rightarrow> ddl list \<Rightarrow> bool" where
  "resolves ts ns [] \<longleftrightarrow> True"
| "resolves ts ns (Create_table t is # os) \<longleftrightarrow>
     t \<notin> set ns \<and> list_all (\<lambda>r. r = t \<or> r \<in> set ts) (referred_tables is) \<and> resolves (ts @ [t]) (ns @ [t]) os"
| "resolves ts ns (Create_index i t cs u # os) \<longleftrightarrow> i \<notin> set ns \<and> t \<in> set ts \<and> resolves ts (ns @ [i]) os"
| "resolves ts ns (Add_exclusion n t # os) \<longleftrightarrow> t \<in> set ts \<and> resolves ts ns os"
| "resolves ts ns (Create_foreign_key n t c r d # os) \<longleftrightarrow> t \<in> set ts \<and> r \<in> set ts \<and> resolves ts ns os"
| "resolves ts ns (Create_trigger n t f # os) \<longleftrightarrow> t \<in> set ts \<and> resolves ts ns os"
| "resolves ts ns (Add_column t i # os) \<longleftrightarrow> t \<in> set ts \<and> list_all (\<lambda>r. r \<in> set ts) (referred_tables [i]) \<and> resolves ts ns os"
| "resolves ts ns (_ # os) \<longleftrightarrow> resolves ts ns os"

section \<open>Reading a table\<close>

text \<open>The columns with their types, whether they may be null, and what they refer to; and the sets of columns that are unique.\<close>

fun is_not_null :: "column_option \<Rightarrow> bool" where
  "is_not_null Primary_key = True"
| "is_not_null Not_null = True"
| "is_not_null _ = False"

fun column_shape :: "item \<Rightarrow> (string \<times> sql_type \<times> bool) list" where
  "column_shape (Column c ty os) = [(c, ty, list_ex is_not_null os)]"
| "column_shape _ = []"

fun references_of :: "item \<Rightarrow> (string \<times> string \<times> string) list" where
  "references_of (Column c ty os) = map (\<lambda>(t, d). (c, t, d)) (List.map_filter referred os)"
| "references_of (Foreign_key _ c t d) = [(c, t, d)]"
| "references_of _ = []"

fun unique_sets :: "item \<Rightarrow> string list list" where
  "unique_sets (Column c ty os) = (if Unique \<in> set os \<or> Primary_key \<in> set os then [[c]] else [])"
| "unique_sets (Unique_constraint _ cs) = [cs]"
| "unique_sets _ = []"

definition same_elements :: "'a list \<Rightarrow> 'a list \<Rightarrow> bool" where
  "same_elements xs ys \<longleftrightarrow> list_all (\<lambda>x. x \<in> set ys) xs \<and> list_all (\<lambda>y. y \<in> set xs) ys"

definition every :: "(item \<Rightarrow> 'a list) \<Rightarrow> item list \<Rightarrow> 'a list" where
  "every f is = concat (map f is)"

definition unique_indexes :: "schema \<Rightarrow> (string \<times> string list) list" where
  "unique_indexes s = map (\<lambda>i. (ix_table i, ix_columns i)) (filter ix_unique (indexes s))"

text \<open>A table of the schema is the table of the ORM; \<open>us\<close> are the unique keys that are indexes of their own.\<close>

definition matches :: "item list \<Rightarrow> string list list \<Rightarrow> item list \<Rightarrow> bool" where
  "matches is us os \<longleftrightarrow>
     same_elements (every column_shape is) (every column_shape os) \<and>
     same_elements (every references_of is) (every references_of os) \<and>
     same_elements (every unique_sets is @ us) (every unique_sets os)"

definition agrees :: "schema \<Rightarrow> string \<Rightarrow> item list \<Rightarrow> bool" where
  "agrees s t os \<longleftrightarrow>
     (case map_of (tables s) t of None \<Rightarrow> False | Some is \<Rightarrow> matches is (map snd (filter (\<lambda>x. fst x = t) (unique_indexes s))) os)"

end
