(* ===== verification/Migrations.thy ===== *)
theory Migrations
  imports Schema
begin

text \<open>
  The six migrations of \<^verbatim>\<open>migrations/versions\<close>, operation by operation (their upgrades table by table), and the tables the ORM
  declares in \<^verbatim>\<open>models/domain.py\<close>. Nothing an upgrade asks for is refused, each downgrade undoes its upgrade, and the
  schema they arrive at has the tables, columns, types, references and unique keys the ORM works with.
\<close>

section \<open>\<^verbatim>\<open>0001_initial_schema.py\<close>\<close>

definition up1_extensions :: "ddl list" where
  "up1_extensions =
    [Create_extension ''btree_gist'',
     Create_extension ''pgcrypto'']"

definition tbl_users :: "item list" where
  "tbl_users =
    [Column ''id'' UUID [Primary_key],
     Column ''email'' (VARCHAR 255) [Not_null],
     Column ''email_verified'' BOOLEAN [Not_null, Server_default ''false''],
     Column ''password_hash'' (VARCHAR 512) [Not_null],
     Column ''full_name'' (VARCHAR 255) [Not_null],
     Column ''role'' (VARCHAR 50) [Not_null],
     Column ''is_active'' BOOLEAN [Not_null, Server_default ''true''],
     Column ''failed_login_attempts'' INTEGER [Not_null, Server_default ''0''],
     Column ''locked_until'' TIMESTAMPTZ [],
     Column ''last_login_at'' TIMESTAMPTZ [],
     Column ''department'' (VARCHAR 255) [],
     Column ''designation'' (VARCHAR 255) [],
     Column ''phone'' (VARCHAR 20) [],
     Column ''created_at'' TIMESTAMPTZ [Not_null, Server_default ''NOW()''],
     Column ''updated_at'' TIMESTAMPTZ [Not_null, Server_default ''NOW()''],
     Column ''deleted_at'' TIMESTAMPTZ [],
     Check ''ck_users_email_not_empty'' ''char_length(email) > 0'',
     Check ''ck_users_full_name_not_empty'' ''char_length(full_name) > 0'']"

definition up1_users :: "ddl list" where
  "up1_users =
    [Create_table ''users'' tbl_users,
     Create_index ''ix_users_email'' ''users'' [''email''] True,
     Create_index ''ix_users_role'' ''users'' [''role''] False]"

definition tbl_refresh_tokens :: "item list" where
  "tbl_refresh_tokens =
    [Column ''id'' UUID [Primary_key],
     Column ''user_id'' UUID [References ''users'' ''id'' CASCADE, Not_null],
     Column ''token_hash'' (VARCHAR 512) [Not_null],
     Column ''expires_at'' TIMESTAMPTZ [Not_null],
     Column ''revoked_at'' TIMESTAMPTZ [],
     Column ''created_at'' TIMESTAMPTZ [Not_null, Server_default ''NOW()''],
     Column ''ip_address'' (VARCHAR 45) [],
     Column ''user_agent'' (VARCHAR 512) []]"

definition up1_refresh_tokens :: "ddl list" where
  "up1_refresh_tokens =
    [Create_table ''refresh_tokens'' tbl_refresh_tokens,
     Create_index ''ix_refresh_tokens_user_id'' ''refresh_tokens'' [''user_id''] False,
     Create_index ''ix_refresh_tokens_token_hash'' ''refresh_tokens'' [''token_hash''] True]"

definition tbl_password_reset_tokens :: "item list" where
  "tbl_password_reset_tokens =
    [Column ''id'' UUID [Primary_key],
     Column ''user_id'' UUID [References ''users'' ''id'' CASCADE, Not_null],
     Column ''token_hash'' (VARCHAR 512) [Not_null, Unique],
     Column ''expires_at'' TIMESTAMPTZ [Not_null],
     Column ''used_at'' TIMESTAMPTZ [],
     Column ''created_at'' TIMESTAMPTZ [Not_null, Server_default ''NOW()'']]"

definition up1_password_reset_tokens :: "ddl list" where
  "up1_password_reset_tokens =
    [Create_table ''password_reset_tokens'' tbl_password_reset_tokens]"

definition tbl_email_verification_tokens :: "item list" where
  "tbl_email_verification_tokens =
    [Column ''id'' UUID [Primary_key],
     Column ''user_id'' UUID [References ''users'' ''id'' CASCADE, Not_null],
     Column ''token_hash'' (VARCHAR 512) [Not_null, Unique],
     Column ''expires_at'' TIMESTAMPTZ [Not_null],
     Column ''verified_at'' TIMESTAMPTZ [],
     Column ''created_at'' TIMESTAMPTZ [Not_null, Server_default ''NOW()'']]"

definition up1_email_verification_tokens :: "ddl list" where
  "up1_email_verification_tokens =
    [Create_table ''email_verification_tokens'' tbl_email_verification_tokens]"

definition tbl_clubs :: "item list" where
  "tbl_clubs =
    [Column ''id'' UUID [Primary_key],
     Column ''name'' (VARCHAR 255) [Not_null],
     Column ''slug'' (VARCHAR 100) [Not_null],
     Column ''description'' TEXT [],
     Column ''faculty_advisor_id'' UUID [References ''users'' ''id'' SET_NULL],
     Column ''academic_year'' (VARCHAR 10) [Not_null],
     Column ''is_active'' BOOLEAN [Not_null, Server_default ''true''],
     Column ''logo_url'' (VARCHAR 500) [],
     Column ''created_by'' UUID [References ''users'' ''id'' NO_ACTION, Not_null],
     Column ''created_at'' TIMESTAMPTZ [Not_null, Server_default ''NOW()''],
     Column ''updated_at'' TIMESTAMPTZ [Not_null, Server_default ''NOW()''],
     Column ''deleted_at'' TIMESTAMPTZ []]"

definition up1_clubs :: "ddl list" where
  "up1_clubs =
    [Create_table ''clubs'' tbl_clubs,
     Create_index ''ix_clubs_name'' ''clubs'' [''name''] True,
     Create_index ''ix_clubs_slug'' ''clubs'' [''slug''] True,
     Create_index ''ix_clubs_faculty_advisor_id'' ''clubs'' [''faculty_advisor_id''] False]"

definition tbl_club_members :: "item list" where
  "tbl_club_members =
    [Column ''id'' UUID [Primary_key],
     Column ''club_id'' UUID [References ''clubs'' ''id'' CASCADE, Not_null],
     Column ''user_id'' UUID [References ''users'' ''id'' CASCADE, Not_null],
     Column ''member_role'' (VARCHAR 20) [Not_null, Server_default ''MEMBER''],
     Column ''is_active'' BOOLEAN [Not_null, Server_default ''true''],
     Column ''joined_at'' TIMESTAMPTZ [Not_null, Server_default ''NOW()''],
     Column ''created_at'' TIMESTAMPTZ [Not_null, Server_default ''NOW()''],
     Column ''updated_at'' TIMESTAMPTZ [Not_null, Server_default ''NOW()''],
     Unique_constraint ''uq_club_members_club_user'' [''club_id'', ''user_id'']]"

definition up1_club_members :: "ddl list" where
  "up1_club_members =
    [Create_table ''club_members'' tbl_club_members,
     Create_index ''ix_club_members_club_id'' ''club_members'' [''club_id''] False,
     Create_index ''ix_club_members_user_id'' ''club_members'' [''user_id''] False]"

definition tbl_halls :: "item list" where
  "tbl_halls =
    [Column ''id'' UUID [Primary_key],
     Column ''name'' (VARCHAR 255) [Not_null],
     Column ''location'' (VARCHAR 500) [],
     Column ''capacity'' INTEGER [Not_null],
     Column ''available_facilities'' JSONB [Not_null, Server_default ''[]''],
     Column ''is_active'' BOOLEAN [Not_null, Server_default ''true''],
     Column ''notes'' TEXT [],
     Column ''created_at'' TIMESTAMPTZ [Not_null, Server_default ''NOW()''],
     Column ''updated_at'' TIMESTAMPTZ [Not_null, Server_default ''NOW()''],
     Check ''ck_halls_capacity_positive'' ''capacity > 0'']"

definition up1_halls :: "ddl list" where
  "up1_halls =
    [Create_table ''halls'' tbl_halls,
     Create_index ''ix_halls_name'' ''halls'' [''name''] True]"

definition tbl_workflow_templates :: "item list" where
  "tbl_workflow_templates =
    [Column ''id'' UUID [Primary_key],
     Column ''name'' (VARCHAR 255) [Not_null],
     Column ''description'' TEXT [],
     Column ''event_type'' (VARCHAR 30) [],
     Column ''is_active'' BOOLEAN [Not_null, Server_default ''true''],
     Column ''is_default'' BOOLEAN [Not_null, Server_default ''false''],
     Column ''created_by'' UUID [References ''users'' ''id'' NO_ACTION, Not_null],
     Column ''created_at'' TIMESTAMPTZ [Not_null, Server_default ''NOW()''],
     Column ''updated_at'' TIMESTAMPTZ [Not_null, Server_default ''NOW()''],
     Column ''deleted_at'' TIMESTAMPTZ []]"

definition up1_workflow_templates :: "ddl list" where
  "up1_workflow_templates =
    [Create_table ''workflow_templates'' tbl_workflow_templates]"

definition tbl_workflow_template_steps :: "item list" where
  "tbl_workflow_template_steps =
    [Column ''id'' UUID [Primary_key],
     Column ''template_id'' UUID [References ''workflow_templates'' ''id'' CASCADE, Not_null],
     Column ''step_order'' INTEGER [Not_null],
     Column ''step_name'' (VARCHAR 255) [Not_null],
     Column ''required_role'' (VARCHAR 50) [Not_null],
     Column ''assigned_user_id'' UUID [References ''users'' ''id'' NO_ACTION],
     Column ''is_optional'' BOOLEAN [Not_null, Server_default ''false''],
     Column ''description'' TEXT [],
     Column ''created_at'' TIMESTAMPTZ [Not_null, Server_default ''NOW()''],
     Column ''updated_at'' TIMESTAMPTZ [Not_null, Server_default ''NOW()''],
     Unique_constraint ''uq_workflow_template_steps_template_order'' [''template_id'', ''step_order''],
     Check ''ck_workflow_template_steps_order_positive'' ''step_order > 0'']"

definition up1_workflow_template_steps :: "ddl list" where
  "up1_workflow_template_steps =
    [Create_table ''workflow_template_steps'' tbl_workflow_template_steps,
     Create_index ''ix_workflow_template_steps_template_id'' ''workflow_template_steps'' [''template_id''] False]"

definition tbl_workflow_instances :: "item list" where
  "tbl_workflow_instances =
    [Column ''id'' UUID [Primary_key],
     Column ''template_id'' UUID [References ''workflow_templates'' ''id'' NO_ACTION, Not_null],
     Column ''event_request_id'' UUID [Not_null],
     Column ''current_step_order'' INTEGER [Not_null, Server_default ''1''],
     Column ''status'' (VARCHAR 20) [Not_null, Server_default ''IN_PROGRESS''],
     Column ''version_number'' INTEGER [Not_null],
     Column ''created_at'' TIMESTAMPTZ [Not_null, Server_default ''NOW()''],
     Column ''updated_at'' TIMESTAMPTZ [Not_null, Server_default ''NOW()'']]"

definition up1_workflow_instances :: "ddl list" where
  "up1_workflow_instances =
    [Create_table ''workflow_instances'' tbl_workflow_instances,
     Create_index ''ix_workflow_instances_event_request_id'' ''workflow_instances'' [''event_request_id''] False,
     Create_index ''ix_workflow_instances_status'' ''workflow_instances'' [''status''] False]"

definition tbl_event_requests :: "item list" where
  "tbl_event_requests =
    [Column ''id'' UUID [Primary_key],
     Column ''club_id'' UUID [References ''clubs'' ''id'' NO_ACTION, Not_null],
     Column ''submitted_by'' UUID [References ''users'' ''id'' NO_ACTION, Not_null],
     Column ''title'' (VARCHAR 500) [Not_null],
     Column ''description'' TEXT [],
     Column ''event_type'' (VARCHAR 30) [Not_null],
     Column ''expected_attendees'' INTEGER [],
     Column ''event_date'' TIMESTAMPTZ [],
     Column ''chief_guest_name'' (VARCHAR 255) [],
     Column ''chief_guest_designation'' (VARCHAR 255) [],
     Column ''chief_guest_institution'' (VARCHAR 255) [],
     Column ''status'' (VARCHAR 30) [Not_null, Server_default ''DRAFT''],
     Column ''current_version'' INTEGER [Not_null, Server_default ''0''],
     Column ''version_lock'' INTEGER [Not_null, Server_default ''0''],
     Column ''academic_year'' (VARCHAR 10) [Not_null],
     Column ''idempotency_key'' (VARCHAR 100) [],
     Column ''workflow_instance_id'' UUID [References ''workflow_instances'' ''id'' NO_ACTION],
     Column ''created_at'' TIMESTAMPTZ [Not_null, Server_default ''NOW()''],
     Column ''updated_at'' TIMESTAMPTZ [Not_null, Server_default ''NOW()''],
     Column ''deleted_at'' TIMESTAMPTZ [],
     Check ''ck_event_requests_attendees_positive'' ''expected_attendees IS NULL OR expected_attendees > 0'']"

definition up1_event_requests :: "ddl list" where
  "up1_event_requests =
    [Create_table ''event_requests'' tbl_event_requests,
     Create_index ''ix_event_requests_club_id'' ''event_requests'' [''club_id''] False,
     Create_index ''ix_event_requests_status'' ''event_requests'' [''status''] False,
     Create_index ''ix_event_requests_status_club'' ''event_requests'' [''status'', ''club_id''] False,
     Create_index ''ix_event_requests_academic_year_status'' ''event_requests'' [''academic_year'', ''status''] False,
     Create_index ''ix_event_requests_idempotency_key'' ''event_requests'' [''idempotency_key''] True]"

definition up1_foreign_key :: "ddl list" where
  "up1_foreign_key =
    [Create_foreign_key ''fk_workflow_instances_event_request_id'' ''workflow_instances'' ''event_request_id'' ''event_requests'' ''id'']"

definition tbl_event_request_versions :: "item list" where
  "tbl_event_request_versions =
    [Column ''id'' UUID [Primary_key],
     Column ''event_request_id'' UUID [References ''event_requests'' ''id'' CASCADE, Not_null],
     Column ''version_number'' INTEGER [Not_null],
     Column ''snapshot'' JSONB [Not_null],
     Column ''submitted_by'' UUID [References ''users'' ''id'' NO_ACTION, Not_null],
     Column ''submitted_at'' TIMESTAMPTZ [Not_null, Server_default ''NOW()''],
     Column ''change_summary'' TEXT [],
     Unique_constraint ''uq_event_request_versions_request_version'' [''event_request_id'', ''version_number'']]"

definition up1_event_request_versions :: "ddl list" where
  "up1_event_request_versions =
    [Create_table ''event_request_versions'' tbl_event_request_versions,
     Create_index ''ix_event_request_versions_request_id'' ''event_request_versions'' [''event_request_id''] False]"

definition tbl_venue_requests :: "item list" where
  "tbl_venue_requests =
    [Column ''id'' UUID [Primary_key],
     Column ''event_request_id'' UUID [References ''event_requests'' ''id'' CASCADE, Not_null, Unique],
     Column ''hall_id'' UUID [References ''halls'' ''id'' NO_ACTION, Not_null],
     Column ''requested_date'' TIMESTAMPTZ [Not_null],
     Column ''start_time'' TIMESTAMPTZ [Not_null],
     Column ''end_time'' TIMESTAMPTZ [Not_null],
     Column ''expected_audience'' INTEGER [],
     Column ''requires_stage'' BOOLEAN [Not_null, Server_default ''false''],
     Column ''requires_audio'' BOOLEAN [Not_null, Server_default ''false''],
     Column ''requires_lcd'' BOOLEAN [Not_null, Server_default ''false''],
     Column ''requires_ac'' BOOLEAN [Not_null, Server_default ''false''],
     Column ''requires_projector'' BOOLEAN [Not_null, Server_default ''false''],
     Column ''additional_requirements'' TEXT [],
     Column ''status'' (VARCHAR 20) [Not_null, Server_default ''PENDING''],
     Column ''reviewed_by'' UUID [References ''users'' ''id'' NO_ACTION],
     Column ''reviewed_at'' TIMESTAMPTZ [],
     Column ''rejection_reason'' TEXT [],
     Column ''created_at'' TIMESTAMPTZ [Not_null, Server_default ''NOW()''],
     Column ''updated_at'' TIMESTAMPTZ [Not_null, Server_default ''NOW()''],
     Check ''ck_venue_requests_end_after_start'' ''end_time > start_time'']"

definition up1_venue_requests :: "ddl list" where
  "up1_venue_requests =
    [Create_table ''venue_requests'' tbl_venue_requests,
     Create_index ''ix_venue_requests_hall_date'' ''venue_requests'' [''hall_id'', ''requested_date''] False]"

definition tbl_hall_bookings_confirmed :: "item list" where
  "tbl_hall_bookings_confirmed =
    [Column ''id'' UUID [Primary_key],
     Column ''hall_id'' UUID [References ''halls'' ''id'' NO_ACTION, Not_null],
     Column ''event_request_id'' UUID [References ''event_requests'' ''id'' CASCADE, Not_null, Unique],
     Column ''venue_request_id'' UUID [References ''venue_requests'' ''id'' NO_ACTION, Not_null],
     Column ''booking_date'' TIMESTAMPTZ [Not_null],
     Column ''start_time'' TIMESTAMPTZ [Not_null],
     Column ''end_time'' TIMESTAMPTZ [Not_null],
     Column ''is_active'' BOOLEAN [Not_null, Server_default ''true''],
     Column ''created_at'' TIMESTAMPTZ [Not_null, Server_default ''NOW()''],
     Column ''updated_at'' TIMESTAMPTZ [Not_null, Server_default ''NOW()''],
     Check ''ck_hall_bookings_end_after_start'' ''end_time > start_time'']"

definition up1_hall_bookings_confirmed :: "ddl list" where
  "up1_hall_bookings_confirmed =
    [Create_table ''hall_bookings_confirmed'' tbl_hall_bookings_confirmed,
     Create_index ''ix_hall_bookings_hall_date'' ''hall_bookings_confirmed'' [''hall_id'', ''booking_date''] False]"

definition up1_exclusion :: "ddl list" where
  "up1_exclusion =
    [Add_exclusion ''excl_hall_bookings_no_overlap'' ''hall_bookings_confirmed'']"

definition tbl_budget_proposals :: "item list" where
  "tbl_budget_proposals =
    [Column ''id'' UUID [Primary_key],
     Column ''event_request_id'' UUID [References ''event_requests'' ''id'' CASCADE, Not_null, Unique],
     Column ''expected_income'' (NUMERIC 12 2) [Not_null, Server_default ''0.00''],
     Column ''institute_contribution'' (NUMERIC 12 2) [Not_null, Server_default ''0.00''],
     Column ''total_expected_expenditure'' (NUMERIC 12 2) [Not_null, Server_default ''0.00''],
     Column ''notes'' TEXT [],
     Column ''finance_status'' (VARCHAR 20) [Not_null, Server_default ''PENDING''],
     Column ''finance_verified_by'' UUID [References ''users'' ''id'' NO_ACTION],
     Column ''finance_verified_at'' TIMESTAMPTZ [],
     Column ''finance_notes'' TEXT [],
     Column ''created_at'' TIMESTAMPTZ [Not_null, Server_default ''NOW()''],
     Column ''updated_at'' TIMESTAMPTZ [Not_null, Server_default ''NOW()''],
     Check ''ck_budget_proposals_income_non_negative'' ''expected_income >= 0'',
     Check ''ck_budget_proposals_contribution_non_negative'' ''institute_contribution >= 0'',
     Check ''ck_budget_proposals_expenditure_non_negative'' ''total_expected_expenditure >= 0'']"

definition up1_budget_proposals :: "ddl list" where
  "up1_budget_proposals =
    [Create_table ''budget_proposals'' tbl_budget_proposals]"

definition tbl_budget_line_items :: "item list" where
  "tbl_budget_line_items =
    [Column ''id'' UUID [Primary_key],
     Column ''budget_proposal_id'' UUID [References ''budget_proposals'' ''id'' CASCADE, Not_null],
     Column ''description'' (VARCHAR 500) [Not_null],
     Column ''category'' (VARCHAR 30) [Not_null],
     Column ''estimated_amount'' (NUMERIC 12 2) [Not_null],
     Column ''notes'' (VARCHAR 500) [],
     Column ''created_at'' TIMESTAMPTZ [Not_null, Server_default ''NOW()''],
     Column ''updated_at'' TIMESTAMPTZ [Not_null, Server_default ''NOW()''],
     Check ''ck_budget_line_items_amount_non_negative'' ''estimated_amount >= 0'']"

definition up1_budget_line_items :: "ddl list" where
  "up1_budget_line_items =
    [Create_table ''budget_line_items'' tbl_budget_line_items,
     Create_index ''ix_budget_line_items_proposal_id'' ''budget_line_items'' [''budget_proposal_id''] False]"

definition tbl_resource_requests :: "item list" where
  "tbl_resource_requests =
    [Column ''id'' UUID [Primary_key],
     Column ''event_request_id'' UUID [References ''event_requests'' ''id'' CASCADE, Not_null],
     Column ''resource_type'' (VARCHAR 30) [Not_null],
     Column ''quantity'' INTEGER [Not_null],
     Column ''notes'' TEXT [],
     Column ''status'' (VARCHAR 20) [Not_null, Server_default ''PENDING''],
     Column ''managed_by'' UUID [References ''users'' ''id'' NO_ACTION],
     Column ''created_at'' TIMESTAMPTZ [Not_null, Server_default ''NOW()''],
     Column ''updated_at'' TIMESTAMPTZ [Not_null, Server_default ''NOW()''],
     Check ''ck_resource_requests_quantity_positive'' ''quantity > 0'']"

definition up1_resource_requests :: "ddl list" where
  "up1_resource_requests =
    [Create_table ''resource_requests'' tbl_resource_requests,
     Create_index ''ix_resource_requests_event_request_id'' ''resource_requests'' [''event_request_id''] False]"

definition tbl_documents :: "item list" where
  "tbl_documents =
    [Column ''id'' UUID [Primary_key],
     Column ''event_request_id'' UUID [References ''event_requests'' ''id'' CASCADE, Not_null],
     Column ''uploaded_by'' UUID [References ''users'' ''id'' NO_ACTION, Not_null],
     Column ''document_type'' (VARCHAR 30) [Not_null],
     Column ''original_filename'' (VARCHAR 500) [Not_null],
     Column ''stored_filename'' (VARCHAR 100) [Not_null],
     Column ''file_size_bytes'' INTEGER [Not_null],
     Column ''mime_type'' (VARCHAR 100) [Not_null],
     Column ''storage_path'' (VARCHAR 500) [Not_null],
     Column ''is_active'' BOOLEAN [Not_null, Server_default ''true''],
     Column ''created_at'' TIMESTAMPTZ [Not_null, Server_default ''NOW()''],
     Column ''updated_at'' TIMESTAMPTZ [Not_null, Server_default ''NOW()''],
     Check ''ck_documents_file_size_positive'' ''file_size_bytes > 0'']"

definition up1_documents :: "ddl list" where
  "up1_documents =
    [Create_table ''documents'' tbl_documents,
     Create_index ''ix_documents_event_request_id'' ''documents'' [''event_request_id''] False,
     Create_index ''ix_documents_stored_filename'' ''documents'' [''stored_filename''] True]"

definition tbl_workflow_instance_steps :: "item list" where
  "tbl_workflow_instance_steps =
    [Column ''id'' UUID [Primary_key],
     Column ''instance_id'' UUID [References ''workflow_instances'' ''id'' CASCADE, Not_null],
     Column ''template_step_id'' UUID [References ''workflow_template_steps'' ''id'' NO_ACTION, Not_null],
     Column ''step_order'' INTEGER [Not_null],
     Column ''step_name'' (VARCHAR 255) [Not_null],
     Column ''assigned_to'' UUID [References ''users'' ''id'' NO_ACTION, Not_null],
     Column ''status'' (VARCHAR 30) [Not_null, Server_default ''PENDING''],
     Column ''action_taken_at'' TIMESTAMPTZ [],
     Column ''comments'' TEXT [],
     Column ''version_reviewed'' INTEGER [],
     Column ''step_version_lock'' INTEGER [Not_null, Server_default ''0''],
     Column ''created_at'' TIMESTAMPTZ [Not_null, Server_default ''NOW()''],
     Column ''updated_at'' TIMESTAMPTZ [Not_null, Server_default ''NOW()''],
     Unique_constraint ''uq_workflow_instance_steps_instance_order'' [''instance_id'', ''step_order'']]"

definition up1_workflow_instance_steps :: "ddl list" where
  "up1_workflow_instance_steps =
    [Create_table ''workflow_instance_steps'' tbl_workflow_instance_steps,
     Create_index ''ix_workflow_instance_steps_instance_id'' ''workflow_instance_steps'' [''instance_id''] False,
     Create_index ''ix_workflow_instance_steps_assigned_status'' ''workflow_instance_steps'' [''assigned_to'', ''status''] False]"

definition tbl_events :: "item list" where
  "tbl_events =
    [Column ''id'' UUID [Primary_key],
     Column ''event_request_id'' UUID [References ''event_requests'' ''id'' NO_ACTION, Not_null, Unique],
     Column ''approved_version_id'' UUID [References ''event_request_versions'' ''id'' NO_ACTION, Not_null],
     Column ''club_id'' UUID [References ''clubs'' ''id'' NO_ACTION, Not_null],
     Column ''hall_id'' UUID [References ''halls'' ''id'' NO_ACTION],
     Column ''title'' (VARCHAR 500) [Not_null],
     Column ''description'' TEXT [],
     Column ''event_type'' (VARCHAR 30) [Not_null],
     Column ''event_date'' TIMESTAMPTZ [Not_null],
     Column ''start_time'' TIMESTAMPTZ [Not_null],
     Column ''end_time'' TIMESTAMPTZ [Not_null],
     Column ''expected_attendees'' INTEGER [],
     Column ''status'' (VARCHAR 20) [Not_null, Server_default ''SCHEDULED''],
     Column ''academic_year'' (VARCHAR 10) [Not_null],
     Column ''cancelled_at'' TIMESTAMPTZ [],
     Column ''cancellation_reason'' TEXT [],
     Column ''cancelled_by'' UUID [References ''users'' ''id'' NO_ACTION],
     Column ''created_at'' TIMESTAMPTZ [Not_null, Server_default ''NOW()''],
     Column ''updated_at'' TIMESTAMPTZ [Not_null, Server_default ''NOW()''],
     Column ''deleted_at'' TIMESTAMPTZ []]"

definition up1_events :: "ddl list" where
  "up1_events =
    [Create_table ''events'' tbl_events,
     Create_index ''ix_events_club_id_status'' ''events'' [''club_id'', ''status''] False,
     Create_index ''ix_events_academic_year_status'' ''events'' [''academic_year'', ''status''] False,
     Create_index ''ix_events_event_date'' ''events'' [''event_date''] False]"

definition tbl_notifications :: "item list" where
  "tbl_notifications =
    [Column ''id'' UUID [Primary_key],
     Column ''recipient_id'' UUID [References ''users'' ''id'' CASCADE, Not_null],
     Column ''event_request_id'' UUID [References ''event_requests'' ''id'' SET_NULL],
     Column ''notification_type'' (VARCHAR 50) [Not_null],
     Column ''title'' (VARCHAR 500) [Not_null],
     Column ''message'' TEXT [Not_null],
     Column ''is_read'' BOOLEAN [Not_null, Server_default ''false''],
     Column ''read_at'' TIMESTAMPTZ [],
     Column ''created_at'' TIMESTAMPTZ [Not_null, Server_default ''NOW()'']]"

definition up1_notifications :: "ddl list" where
  "up1_notifications =
    [Create_table ''notifications'' tbl_notifications,
     Create_index ''ix_notifications_recipient_is_read'' ''notifications'' [''recipient_id'', ''is_read''] False,
     Create_index ''ix_notifications_created_at'' ''notifications'' [''created_at''] False]"

definition tbl_audit_logs :: "item list" where
  "tbl_audit_logs =
    [Column ''id'' UUID [Primary_key],
     Column ''actor_id'' UUID [References ''users'' ''id'' SET_NULL],
     Column ''actor_email'' (VARCHAR 255) [],
     Column ''actor_role'' (VARCHAR 50) [],
     Column ''action'' (VARCHAR 60) [Not_null],
     Column ''entity_type'' (VARCHAR 100) [Not_null],
     Column ''entity_id'' (VARCHAR 100) [],
     Column ''previous_state'' JSONB [],
     Column ''new_state'' JSONB [],
     Column ''reason'' TEXT [],
     Column ''ip_address'' (VARCHAR 45) [],
     Column ''user_agent'' (VARCHAR 512) [],
     Column ''created_at'' TIMESTAMPTZ [Not_null, Server_default ''NOW()'']]"

definition up1_audit_logs :: "ddl list" where
  "up1_audit_logs =
    [Create_table ''audit_logs'' tbl_audit_logs,
     Create_index ''ix_audit_logs_actor_id'' ''audit_logs'' [''actor_id''] False,
     Create_index ''ix_audit_logs_entity'' ''audit_logs'' [''entity_type'', ''entity_id''] False,
     Create_index ''ix_audit_logs_action'' ''audit_logs'' [''action''] False,
     Create_index ''ix_audit_logs_created_at'' ''audit_logs'' [''created_at''] False]"

definition tbl_idempotency_records :: "item list" where
  "tbl_idempotency_records =
    [Column ''id'' UUID [Primary_key],
     Column ''idempotency_key'' (VARCHAR 100) [Not_null],
     Column ''endpoint'' (VARCHAR 500) [Not_null],
     Column ''user_id'' UUID [References ''users'' ''id'' NO_ACTION, Not_null],
     Column ''response_status'' INTEGER [Not_null],
     Column ''response_body'' JSONB [Not_null],
     Column ''created_at'' TIMESTAMPTZ [Not_null, Server_default ''NOW()''],
     Column ''expires_at'' TIMESTAMPTZ [Not_null]]"

definition up1_idempotency_records :: "ddl list" where
  "up1_idempotency_records =
    [Create_table ''idempotency_records'' tbl_idempotency_records,
     Create_index ''ix_idempotency_records_key'' ''idempotency_records'' [''idempotency_key''] True,
     Create_index ''ix_idempotency_records_expires_at'' ''idempotency_records'' [''expires_at''] False]"

definition up1_function :: "ddl list" where
  "up1_function =
    [Create_function ''update_updated_at_column'']"

definition updated_at_triggers :: "ddl list" where
  "updated_at_triggers =
    map (\<lambda>t. Create_trigger (''trg_'' @ t @ ''_updated_at'') t ''update_updated_at_column'')
      [''users'',
       ''clubs'',
       ''club_members'',
       ''halls'',
       ''event_requests'',
       ''venue_requests'',
       ''budget_proposals'',
       ''budget_line_items'',
       ''resource_requests'',
       ''documents'',
       ''workflow_templates'',
       ''workflow_template_steps'',
       ''workflow_instances'',
       ''workflow_instance_steps'',
       ''events'',
       ''hall_bookings_confirmed'']"

definition upgrade_1 :: "ddl list" where
  "upgrade_1 =
     up1_extensions @
     up1_users @
     up1_refresh_tokens @
     up1_password_reset_tokens @
     up1_email_verification_tokens @
     up1_clubs @
     up1_club_members @
     up1_halls @
     up1_workflow_templates @
     up1_workflow_template_steps @
     up1_workflow_instances @
     up1_event_requests @
     up1_foreign_key @
     up1_event_request_versions @
     up1_venue_requests @
     up1_hall_bookings_confirmed @
     up1_exclusion @
     up1_budget_proposals @
     up1_budget_line_items @
     up1_resource_requests @
     up1_documents @
     up1_workflow_instance_steps @
     up1_events @
     up1_notifications @
     up1_audit_logs @
     up1_idempotency_records @
     up1_function @
     updated_at_triggers"

definition downgrade_1 :: "ddl list" where
  "downgrade_1 =
     map Drop_table_cascade
       [''idempotency_records'',
        ''audit_logs'',
        ''notifications'',
        ''events'',
        ''workflow_instance_steps'',
        ''workflow_instances'',
        ''documents'',
        ''resource_requests'',
        ''budget_line_items'',
        ''budget_proposals'',
        ''hall_bookings_confirmed'',
        ''venue_requests'',
        ''event_request_versions'',
        ''event_requests'',
        ''workflow_template_steps'',
        ''workflow_templates'',
        ''club_members'',
        ''clubs'',
        ''halls'',
        ''email_verification_tokens'',
        ''password_reset_tokens'',
        ''refresh_tokens'',
        ''users''] @
     [Drop_function_cascade ''update_updated_at_column'', Drop_extension ''btree_gist'', Drop_extension ''pgcrypto'']"

section \<open>\<^verbatim>\<open>0002_phase2_1_post_event_report.py\<close>\<close>

definition up2_documents :: "ddl list" where
  "up2_documents =
    [Add_column ''documents'' (Column ''event_id'' UUID [References ''events'' ''id'' CASCADE]),
     Create_index ''ix_documents_event_id'' ''documents'' [''event_id''] False,
     Add_column ''documents'' (Column ''geo_latitude'' (NUMERIC 9 6) []),
     Add_column ''documents'' (Column ''geo_longitude'' (NUMERIC 9 6) []),
     Add_column ''documents'' (Column ''geo_source'' (VARCHAR 50) [])]"

definition tbl_post_event_reports :: "item list" where
  "tbl_post_event_reports =
    [Column ''id'' UUID [Primary_key, Server_default ''gen_random_uuid()''],
     Column ''event_id'' UUID [References ''events'' ''id'' CASCADE, Not_null, Unique],
     Column ''revision_number'' INTEGER [Not_null, Server_default ''1''],
     Column ''actual_attendance'' INTEGER [Not_null],
     Column ''summary'' TEXT [Not_null],
     Column ''objectives_achieved'' TEXT [Not_null],
     Column ''outcomes'' TEXT [],
     Column ''challenges'' TEXT [],
     Column ''status'' (VARCHAR 30) [Not_null, Server_default ''SUBMITTED''],
     Column ''submitted_by'' UUID [References ''users'' ''id'' NO_ACTION, Not_null],
     Column ''submitted_at'' TIMESTAMPTZ [Not_null],
     Column ''certified_by'' UUID [References ''users'' ''id'' NO_ACTION],
     Column ''certified_at'' TIMESTAMPTZ [],
     Column ''certification_remarks'' TEXT [],
     Column ''created_at'' TIMESTAMPTZ [Not_null, Server_default ''now()''],
     Column ''updated_at'' TIMESTAMPTZ [Not_null, Server_default ''now()''],
     Check ''ck_post_event_reports_attendance_positive'' ''actual_attendance > 0'',
     Check ''ck_post_event_reports_revision_positive'' ''revision_number >= 1'']"

definition up2_post_event_reports :: "ddl list" where
  "up2_post_event_reports =
    [Create_table ''post_event_reports'' tbl_post_event_reports,
     Create_index ''ix_post_event_reports_event_id'' ''post_event_reports'' [''event_id''] True,
     Create_index ''ix_post_event_reports_status'' ''post_event_reports'' [''status''] False]"

definition upgrade_2 :: "ddl list" where
  "upgrade_2 =
     up2_documents @
     up2_post_event_reports"

definition downgrade_2 :: "ddl list" where
  "downgrade_2 =
     [Drop_index ''ix_post_event_reports_status'',
      Drop_index ''ix_post_event_reports_event_id'',
      Drop_table ''post_event_reports'',
      Drop_column ''documents'' ''geo_source'',
      Drop_column ''documents'' ''geo_longitude'',
      Drop_column ''documents'' ''geo_latitude'',
      Drop_index ''ix_documents_event_id'',
      Drop_column ''documents'' ''event_id'']"

section \<open>\<^verbatim>\<open>0003_phase2_2_actual_expenses.py\<close>\<close>

definition up3_documents :: "ddl list" where
  "up3_documents =
    [Add_column ''documents'' (Column ''file_hash'' (VARCHAR 64) []),
     Create_index ''ix_documents_file_hash'' ''documents'' [''file_hash''] False]"

definition tbl_actual_expenses :: "item list" where
  "tbl_actual_expenses =
    [Column ''id'' UUID [Primary_key, Server_default ''gen_random_uuid()''],
     Column ''event_id'' UUID [References ''events'' ''id'' CASCADE, Not_null],
     Column ''budget_line_item_id'' UUID [References ''budget_line_items'' ''id'' SET_NULL],
     Column ''category'' (VARCHAR 30) [Not_null],
     Column ''description'' (VARCHAR 500) [Not_null],
     Column ''vendor_name'' (VARCHAR 255) [Not_null],
     Column ''vendor_gstin'' (VARCHAR 20) [],
     Column ''invoice_number'' (VARCHAR 100) [],
     Column ''invoice_date'' DATE [Not_null],
     Column ''claimed_amount'' (NUMERIC 12 2) [Not_null],
     Column ''verified_amount'' (NUMERIC 12 2) [],
     Column ''status'' (VARCHAR 30) [Not_null, Server_default ''DRAFT''],
     Column ''bill_document_id'' UUID [References ''documents'' ''id'' RESTRICT, Not_null],
     Column ''submitted_by'' UUID [References ''users'' ''id'' NO_ACTION, Not_null],
     Column ''submitted_at'' TIMESTAMPTZ [],
     Column ''verified_by'' UUID [References ''users'' ''id'' NO_ACTION],
     Column ''verified_at'' TIMESTAMPTZ [],
     Column ''finance_remarks'' TEXT [],
     Column ''query_reason'' TEXT [],
     Column ''is_flagged_for_review'' BOOLEAN [Not_null, Server_default ''false''],
     Column ''review_notes'' (VARCHAR 255) [],
     Column ''created_at'' TIMESTAMPTZ [Not_null, Server_default ''now()''],
     Column ''updated_at'' TIMESTAMPTZ [Not_null, Server_default ''now()''],
     Check ''chk_actual_expenses_claimed_positive'' ''claimed_amount > 0.00'',
     Check ''chk_actual_expenses_verified_non_negative'' ''verified_amount IS NULL OR verified_amount >= 0.00'',
     Check ''chk_actual_expenses_verified_le_claimed'' ''verified_amount IS NULL OR verified_amount <= claimed_amount'']"

definition up3_actual_expenses :: "ddl list" where
  "up3_actual_expenses =
    [Create_table ''actual_expenses'' tbl_actual_expenses,
     Create_index ''ix_actual_expenses_event_id'' ''actual_expenses'' [''event_id''] False,
     Create_index ''ix_actual_expenses_status'' ''actual_expenses'' [''status''] False,
     Create_index ''ix_actual_expenses_bill_doc'' ''actual_expenses'' [''bill_document_id''] False,
     Create_index ''ix_actual_expenses_budget_line_item_id'' ''actual_expenses'' [''budget_line_item_id''] False]"

definition upgrade_3 :: "ddl list" where
  "upgrade_3 =
     up3_documents @
     up3_actual_expenses"

definition downgrade_3 :: "ddl list" where
  "downgrade_3 =
     [Drop_index ''ix_actual_expenses_budget_line_item_id'',
      Drop_index ''ix_actual_expenses_bill_doc'',
      Drop_index ''ix_actual_expenses_status'',
      Drop_index ''ix_actual_expenses_event_id'',
      Drop_table ''actual_expenses'',
      Drop_index ''ix_documents_file_hash'',
      Drop_column ''documents'' ''file_hash'']"

section \<open>\<^verbatim>\<open>0004_phase2_3_financial_settlement.py\<close>\<close>

definition tbl_cash_advances :: "item list" where
  "tbl_cash_advances =
    [Column ''id'' UUID [Primary_key, Server_default ''gen_random_uuid()''],
     Column ''event_id'' UUID [References ''events'' ''id'' RESTRICT, Not_null],
     Column ''amount_requested'' (NUMERIC 12 2) [Not_null],
     Column ''amount_approved'' (NUMERIC 12 2) [],
     Column ''amount_disbursed'' (NUMERIC 12 2) [Not_null, Server_default ''0.00''],
     Column ''status'' (VARCHAR 20) [Not_null, Server_default ''REQUESTED''],
     Column ''recipient_id'' UUID [References ''users'' ''id'' RESTRICT, Not_null],
     Column ''approved_by'' UUID [References ''users'' ''id'' RESTRICT],
     Column ''disbursed_by'' UUID [References ''users'' ''id'' RESTRICT],
     Column ''disbursement_date'' TIMESTAMPTZ [],
     Column ''payment_reference'' (VARCHAR 100) [],
     Column ''notes'' TEXT [],
     Column ''rejection_reason'' TEXT [],
     Column ''created_at'' TIMESTAMPTZ [Not_null, Server_default ''now()''],
     Column ''updated_at'' TIMESTAMPTZ [Not_null, Server_default ''now()''],
     Unique_constraint ''uq_cash_advances_event_id'' [''event_id''],
     Check ''chk_cash_advances_requested_positive'' ''amount_requested > 0.00'',
     Check ''chk_cash_advances_approved_non_negative'' ''amount_approved IS NULL OR amount_approved >= 0.00'',
     Check ''chk_cash_advances_disbursed_non_negative'' ''amount_disbursed >= 0.00'',
     Check ''chk_cash_advances_disbursed_le_approved'' ''amount_approved IS NULL OR amount_disbursed <= amount_approved'']"

definition up4_cash_advances :: "ddl list" where
  "up4_cash_advances =
    [Create_table ''cash_advances'' tbl_cash_advances,
     Create_index ''ix_cash_advances_status'' ''cash_advances'' [''status''] False]"

definition tbl_actual_incomes :: "item list" where
  "tbl_actual_incomes =
    [Column ''id'' UUID [Primary_key, Server_default ''gen_random_uuid()''],
     Column ''event_id'' UUID [References ''events'' ''id'' RESTRICT, Not_null],
     Column ''source_type'' (VARCHAR 30) [Not_null],
     Column ''description'' TEXT [Not_null],
     Column ''payer_name'' (VARCHAR 255) [Not_null],
     Column ''amount'' (NUMERIC 12 2) [Not_null],
     Column ''received_date'' DATE [Not_null],
     Column ''reference_number'' (VARCHAR 100) [],
     Column ''evidence_document_id'' UUID [References ''documents'' ''id'' RESTRICT, Not_null],
     Column ''status'' (VARCHAR 20) [Not_null, Server_default ''RECORDED''],
     Column ''recorded_by'' UUID [References ''users'' ''id'' RESTRICT, Not_null],
     Column ''verified_by'' UUID [References ''users'' ''id'' RESTRICT],
     Column ''verified_at'' TIMESTAMPTZ [],
     Column ''finance_remarks'' TEXT [],
     Column ''created_at'' TIMESTAMPTZ [Not_null, Server_default ''now()''],
     Column ''updated_at'' TIMESTAMPTZ [Not_null, Server_default ''now()''],
     Check ''chk_actual_incomes_amount_positive'' ''amount > 0.00'']"

definition up4_actual_incomes :: "ddl list" where
  "up4_actual_incomes =
    [Create_table ''actual_incomes'' tbl_actual_incomes,
     Create_index ''ix_actual_incomes_event_id'' ''actual_incomes'' [''event_id''] False,
     Create_index ''ix_actual_incomes_status'' ''actual_incomes'' [''status''] False,
     Create_index ''ix_actual_incomes_event_id_status'' ''actual_incomes'' [''event_id'', ''status''] False,
     Create_index ''ix_actual_incomes_evidence_doc'' ''actual_incomes'' [''evidence_document_id''] False]"

definition tbl_financial_settlements :: "item list" where
  "tbl_financial_settlements =
    [Column ''id'' UUID [Primary_key, Server_default ''gen_random_uuid()''],
     Column ''event_id'' UUID [References ''events'' ''id'' RESTRICT, Not_null],
     Column ''approved_version_id'' UUID [References ''event_request_versions'' ''id'' RESTRICT, Not_null],
     Column ''sanctioned_grant'' (NUMERIC 12 2) [Not_null],
     Column ''sanctioned_expenditure'' (NUMERIC 12 2) [Not_null],
     Column ''expected_income'' (NUMERIC 12 2) [Not_null, Server_default ''0.00''],
     Column ''total_claimed_expenditure'' (NUMERIC 12 2) [Not_null, Server_default ''0.00''],
     Column ''total_verified_expenditure'' (NUMERIC 12 2) [Not_null, Server_default ''0.00''],
     Column ''total_disallowed_expenditure'' (NUMERIC 12 2) [Not_null, Server_default ''0.00''],
     Column ''total_verified_income'' (NUMERIC 12 2) [Not_null, Server_default ''0.00''],
     Column ''net_deficit'' (NUMERIC 12 2) [Not_null, Server_default ''0.00''],
     Column ''institutional_payout'' (NUMERIC 12 2) [Not_null, Server_default ''0.00''],
     Column ''cash_advance_disbursed'' (NUMERIC 12 2) [Not_null, Server_default ''0.00''],
     Column ''settlement_balance'' (NUMERIC 12 2) [Not_null, Server_default ''0.00''],
     Column ''reimbursement_due'' (NUMERIC 12 2) [Not_null, Server_default ''0.00''],
     Column ''refund_due'' (NUMERIC 12 2) [Not_null, Server_default ''0.00''],
     Column ''settlement_type'' (VARCHAR 30) [Not_null],
     Column ''status'' (VARCHAR 30) [Not_null, Server_default ''DRAFT''],
     Column ''prepared_by'' UUID [References ''users'' ''id'' RESTRICT, Not_null],
     Column ''submitted_at'' TIMESTAMPTZ [],
     Column ''audited_by'' UUID [References ''users'' ''id'' RESTRICT],
     Column ''audited_at'' TIMESTAMPTZ [],
     Column ''finance_remarks'' TEXT [],
     Column ''query_reason'' TEXT [],
     Column ''created_at'' TIMESTAMPTZ [Not_null, Server_default ''now()''],
     Column ''updated_at'' TIMESTAMPTZ [Not_null, Server_default ''now()''],
     Unique_constraint ''uq_financial_settlements_event_id'' [''event_id''],
     Check ''chk_fin_settlements_grant_non_negative'' ''sanctioned_grant >= 0.00'',
     Check ''chk_fin_settlements_exp_non_negative'' ''sanctioned_expenditure >= 0.00'',
     Check ''chk_fin_settlements_c_exp_non_negative'' ''total_claimed_expenditure >= 0.00'',
     Check ''chk_fin_settlements_v_exp_non_negative'' ''total_verified_expenditure >= 0.00'',
     Check ''chk_fin_settlements_d_exp_non_negative'' ''total_disallowed_expenditure >= 0.00'',
     Check ''chk_fin_settlements_v_inc_non_negative'' ''total_verified_income >= 0.00'',
     Check ''chk_fin_settlements_net_deficit_non_negative'' ''net_deficit >= 0.00'',
     Check ''chk_fin_settlements_payout_non_negative'' ''institutional_payout >= 0.00'',
     Check ''chk_fin_settlements_advance_non_negative'' ''cash_advance_disbursed >= 0.00'',
     Check ''chk_fin_settlements_reimb_non_negative'' ''reimbursement_due >= 0.00'',
     Check ''chk_fin_settlements_refund_non_negative'' ''refund_due >= 0.00'']"

definition up4_financial_settlements :: "ddl list" where
  "up4_financial_settlements =
    [Create_table ''financial_settlements'' tbl_financial_settlements,
     Create_index ''ix_financial_settlements_status'' ''financial_settlements'' [''status''] False,
     Create_index ''ix_financial_settlements_approved_version'' ''financial_settlements'' [''approved_version_id''] False]"

definition tbl_settlement_payments :: "item list" where
  "tbl_settlement_payments =
    [Column ''id'' UUID [Primary_key, Server_default ''gen_random_uuid()''],
     Column ''settlement_id'' UUID [References ''financial_settlements'' ''id'' RESTRICT, Not_null],
     Column ''payment_type'' (VARCHAR 30) [Not_null],
     Column ''amount'' (NUMERIC 12 2) [Not_null],
     Column ''payment_method'' (VARCHAR 30) [Not_null],
     Column ''transaction_reference'' (VARCHAR 100) [Not_null],
     Column ''transaction_date'' TIMESTAMPTZ [Not_null],
     Column ''proof_document_id'' UUID [References ''documents'' ''id'' RESTRICT, Not_null],
     Column ''recorded_by'' UUID [References ''users'' ''id'' RESTRICT, Not_null],
     Column ''notes'' TEXT [],
     Column ''created_at'' TIMESTAMPTZ [Not_null, Server_default ''now()''],
     Column ''updated_at'' TIMESTAMPTZ [Not_null, Server_default ''now()''],
     Check ''chk_settlement_payments_amount_positive'' ''amount > 0.00'']"

definition up4_settlement_payments :: "ddl list" where
  "up4_settlement_payments =
    [Create_table ''settlement_payments'' tbl_settlement_payments,
     Create_index ''ix_settlement_payments_settlement_id'' ''settlement_payments'' [''settlement_id''] False,
     Create_index ''ix_settlement_payments_reference'' ''settlement_payments'' [''transaction_reference''] False,
     Create_index ''ix_settlement_payments_proof_doc'' ''settlement_payments'' [''proof_document_id''] False]"

definition tbl_settlement_revisions :: "item list" where
  "tbl_settlement_revisions =
    [Column ''id'' UUID [Primary_key, Server_default ''gen_random_uuid()''],
     Column ''settlement_id'' UUID [References ''financial_settlements'' ''id'' RESTRICT, Not_null],
     Column ''revision_number'' INTEGER [Not_null],
     Column ''snapshot_data'' JSONB [Not_null],
     Column ''reopened_by'' UUID [References ''users'' ''id'' RESTRICT, Not_null],
     Column ''reopening_reason'' TEXT [Not_null],
     Column ''created_at'' TIMESTAMPTZ [Not_null, Server_default ''now()''],
     Unique_constraint ''uq_settlement_revisions_number'' [''settlement_id'', ''revision_number''],
     Check ''chk_settlement_revisions_number_positive'' ''revision_number >= 1'']"

definition up4_settlement_revisions :: "ddl list" where
  "up4_settlement_revisions =
    [Create_table ''settlement_revisions'' tbl_settlement_revisions]"

definition upgrade_4 :: "ddl list" where
  "upgrade_4 =
     up4_cash_advances @
     up4_actual_incomes @
     up4_financial_settlements @
     up4_settlement_payments @
     up4_settlement_revisions"

definition downgrade_4 :: "ddl list" where
  "downgrade_4 =
     [Drop_table ''settlement_revisions'',
      Drop_table ''settlement_payments'',
      Drop_table ''financial_settlements'',
      Drop_table ''actual_incomes'',
      Drop_table ''cash_advances'']"

section \<open>\<^verbatim>\<open>0005_event_closeout_and_archival.py\<close>\<close>

definition enum_values :: "ddl list" where
  "enum_values =
    [Add_enum_values ''eventstatus'' [''CLOSURE_REQUESTED'', ''CLOSED''],
     Add_enum_values ''auditaction'' [''CLOSURE_REQUESTED'', ''CLOSURE_REJECTED'', ''EVENT_CLOSED'', ''EVENT_REOPEN_REQUESTED'', ''EVENT_REOPENED'', ''EVENT_ARCHIVED''],
     Add_enum_values ''notificationtype'' [''EVENT_CLOSURE_REQUESTED'', ''EVENT_CLOSED'', ''EVENT_CLOSURE_REJECTED'', ''EVENT_REOPENED'']]"

definition tbl_event_closures :: "item list" where
  "tbl_event_closures =
    [Column ''id'' UUID [Primary_key, Server_default ''gen_random_uuid()''],
     Column ''event_id'' UUID [References ''events'' ''id'' RESTRICT, Not_null],
     Column ''settlement_id'' UUID [References ''financial_settlements'' ''id'' RESTRICT, Not_null],
     Column ''post_event_report_id'' UUID [References ''post_event_reports'' ''id'' RESTRICT, Not_null],
     Column ''requested_by'' UUID [References ''users'' ''id'' RESTRICT],
     Column ''requested_at'' TIMESTAMPTZ [],
     Column ''certified_by'' UUID [References ''users'' ''id'' RESTRICT, Not_null],
     Column ''certified_at'' TIMESTAMPTZ [Not_null],
     Column ''closure_notes'' TEXT [],
     Column ''venue_cleared'' BOOLEAN [Not_null, Server_default ''false''],
     Column ''certificate_manifest_hash'' (VARCHAR 64) [Not_null],
     Column ''created_at'' TIMESTAMPTZ [Not_null, Server_default ''now()''],
     Column ''updated_at'' TIMESTAMPTZ [Not_null, Server_default ''now()''],
     Unique_constraint ''uq_event_closures_event_id'' [''event_id''],
     Unique_constraint ''uq_event_closures_settlement_id'' [''settlement_id'']]"

definition up5_event_closures :: "ddl list" where
  "up5_event_closures =
    [Create_table ''event_closures'' tbl_event_closures,
     Create_index ''ix_event_closures_certified_at'' ''event_closures'' [''certified_at''] False,
     Create_index ''ix_event_closures_post_event_report_id'' ''event_closures'' [''post_event_report_id''] False]"

definition tbl_event_closure_revisions :: "item list" where
  "tbl_event_closure_revisions =
    [Column ''id'' UUID [Primary_key, Server_default ''gen_random_uuid()''],
     Column ''event_id'' UUID [References ''events'' ''id'' RESTRICT, Not_null],
     Column ''closure_id'' UUID [References ''event_closures'' ''id'' RESTRICT, Not_null],
     Column ''revision_number'' INTEGER [Not_null],
     Column ''reopened_by'' UUID [References ''users'' ''id'' RESTRICT, Not_null],
     Column ''reopened_at'' TIMESTAMPTZ [Not_null],
     Column ''reopening_reason'' TEXT [Not_null],
     Column ''snapshot_data'' JSONB [Not_null],
     Column ''created_at'' TIMESTAMPTZ [Not_null, Server_default ''now()''],
     Unique_constraint ''uq_event_closure_revisions_number'' [''event_id'', ''revision_number''],
     Check ''chk_event_closure_revisions_number_positive'' ''revision_number >= 1'']"

definition up5_event_closure_revisions :: "ddl list" where
  "up5_event_closure_revisions =
    [Create_table ''event_closure_revisions'' tbl_event_closure_revisions,
     Create_index ''ix_event_closure_revisions_event_id'' ''event_closure_revisions'' [''event_id''] False,
     Create_index ''ix_event_closure_revisions_closure_id'' ''event_closure_revisions'' [''closure_id''] False]"

definition upgrade_5 :: "ddl list" where
  "upgrade_5 =
     enum_values @
     up5_event_closures @
     up5_event_closure_revisions"

definition downgrade_5 :: "ddl list" where
  "downgrade_5 =
     [Drop_table ''event_closure_revisions'',
      Drop_table ''event_closures'']"

section \<open>\<^verbatim>\<open>0006_foreign_key_indexes.py\<close>\<close>

definition INDEXES :: "(string \<times> string \<times> string list) list" where
  "INDEXES =
    [(''ix_events_hall_id'', ''events'', [''hall_id'']),
     (''ix_events_approved_version_id'', ''events'', [''approved_version_id'']),
     (''ix_event_requests_workflow_instance_id'', ''event_requests'', [''workflow_instance_id'']),
     (''ix_event_requests_submitted_by'', ''event_requests'', [''submitted_by'']),
     (''ix_notifications_event_request_id'', ''notifications'', [''event_request_id'']),
     (''ix_hall_bookings_confirmed_venue_request_id'', ''hall_bookings_confirmed'', [''venue_request_id'']),
     (''ix_workflow_instances_template_id'', ''workflow_instances'', [''template_id'']),
     (''ix_workflow_instance_steps_template_step_id'', ''workflow_instance_steps'', [''template_step_id''])]"

definition upgrade_6 :: "ddl list" where
  "upgrade_6 =
     map (\<lambda>(i, t, cs). Create_index i t cs False) INDEXES"

definition downgrade_6 :: "ddl list" where
  "downgrade_6 =
     map (\<lambda>(i, _, _). Drop_index i) (rev INDEXES)"

section \<open>The chain of revisions\<close>

definition revisions :: "(string \<times> string option \<times> ddl list \<times> ddl list) list" where
  "revisions =
    [(''0001_initial_schema'', None, upgrade_1, downgrade_1),
     (''0002_phase2_1_post_event_report'', Some ''0001_initial_schema'', upgrade_2, downgrade_2),
     (''0003_phase2_2_actual_expenses'', Some ''0002_phase2_1_post_event_report'', upgrade_3, downgrade_3),
     (''0004_phase2_3_settlement'', Some ''0003_phase2_2_actual_expenses'', upgrade_4, downgrade_4),
     (''0005_event_closeout_and_archival'', Some ''0004_phase2_3_settlement'', upgrade_5, downgrade_5),
     (''0006_foreign_key_indexes'', Some ''0005_event_closeout_and_archival'', upgrade_6, downgrade_6)]"

text \<open>The schema after the first \<open>n\<close> revisions, and the way back from \<open>n\<close> to \<open>m\<close>.\<close>

definition schema_at :: "nat \<Rightarrow> schema" where
  "schema_at n = run_ddl (concat (map (\<lambda>(_, _, up, _). up) (take n revisions))) empty_schema"

definition way_back :: "nat \<Rightarrow> nat \<Rightarrow> ddl list" where
  "way_back m n = concat (map (\<lambda>(_, _, _, down). down) (rev (drop m (take n revisions))))"

section \<open>The tables of the ORM\<close>

text \<open>The columns of the mixins come after those of the class.\<close>

definition orm_users :: "item list" where
  "orm_users =
    [Column ''email'' (VARCHAR 255) [Not_null, Unique, Indexed],
     Column ''email_verified'' BOOLEAN [Not_null],
     Column ''password_hash'' (VARCHAR 512) [Not_null],
     Column ''full_name'' (VARCHAR 255) [Not_null],
     Column ''role'' (VARCHAR 50) [Not_null],
     Column ''is_active'' BOOLEAN [Not_null],
     Column ''failed_login_attempts'' INTEGER [Not_null],
     Column ''locked_until'' TIMESTAMPTZ [],
     Column ''last_login_at'' TIMESTAMPTZ [],
     Column ''department'' (VARCHAR 255) [],
     Column ''designation'' (VARCHAR 255) [],
     Column ''phone'' (VARCHAR 20) [],
     Column ''id'' UUID [Primary_key],
     Column ''created_at'' TIMESTAMPTZ [Not_null, Server_default ''now()''],
     Column ''updated_at'' TIMESTAMPTZ [Not_null, Server_default ''now()''],
     Column ''deleted_at'' TIMESTAMPTZ [],
     Check ''ck_users_email_not_empty'' ''length(email) > 0'',
     Check ''ck_users_full_name_not_empty'' ''length(full_name) > 0'']"

definition orm_refresh_tokens :: "item list" where
  "orm_refresh_tokens =
    [Column ''user_id'' UUID [References ''users'' ''id'' CASCADE, Not_null, Indexed],
     Column ''token_hash'' (VARCHAR 512) [Not_null, Unique],
     Column ''expires_at'' TIMESTAMPTZ [Not_null],
     Column ''revoked_at'' TIMESTAMPTZ [],
     Column ''created_at'' TIMESTAMPTZ [Not_null, Server_default ''now()''],
     Column ''ip_address'' (VARCHAR 45) [],
     Column ''user_agent'' (VARCHAR 512) [],
     Column ''id'' UUID [Primary_key]]"

definition orm_password_reset_tokens :: "item list" where
  "orm_password_reset_tokens =
    [Column ''user_id'' UUID [References ''users'' ''id'' CASCADE, Not_null],
     Column ''token_hash'' (VARCHAR 512) [Not_null, Unique],
     Column ''expires_at'' TIMESTAMPTZ [Not_null],
     Column ''used_at'' TIMESTAMPTZ [],
     Column ''created_at'' TIMESTAMPTZ [Not_null, Server_default ''now()''],
     Column ''id'' UUID [Primary_key]]"

definition orm_email_verification_tokens :: "item list" where
  "orm_email_verification_tokens =
    [Column ''user_id'' UUID [References ''users'' ''id'' CASCADE, Not_null],
     Column ''token_hash'' (VARCHAR 512) [Not_null, Unique],
     Column ''expires_at'' TIMESTAMPTZ [Not_null],
     Column ''verified_at'' TIMESTAMPTZ [],
     Column ''created_at'' TIMESTAMPTZ [Not_null, Server_default ''now()''],
     Column ''id'' UUID [Primary_key]]"

definition orm_clubs :: "item list" where
  "orm_clubs =
    [Column ''name'' (VARCHAR 255) [Not_null, Unique],
     Column ''slug'' (VARCHAR 100) [Not_null, Unique],
     Column ''description'' TEXT [],
     Column ''faculty_advisor_id'' UUID [References ''users'' ''id'' SET_NULL, Indexed],
     Column ''academic_year'' (VARCHAR 10) [Not_null],
     Column ''is_active'' BOOLEAN [Not_null],
     Column ''logo_url'' (VARCHAR 500) [],
     Column ''created_by'' UUID [References ''users'' ''id'' NO_ACTION, Not_null],
     Column ''id'' UUID [Primary_key],
     Column ''created_at'' TIMESTAMPTZ [Not_null, Server_default ''now()''],
     Column ''updated_at'' TIMESTAMPTZ [Not_null, Server_default ''now()''],
     Column ''deleted_at'' TIMESTAMPTZ []]"

definition orm_club_members :: "item list" where
  "orm_club_members =
    [Column ''club_id'' UUID [References ''clubs'' ''id'' CASCADE, Not_null],
     Column ''user_id'' UUID [References ''users'' ''id'' CASCADE, Not_null],
     Column ''member_role'' (VARCHAR 20) [Not_null],
     Column ''is_active'' BOOLEAN [Not_null],
     Column ''joined_at'' TIMESTAMPTZ [Not_null, Server_default ''now()''],
     Column ''id'' UUID [Primary_key],
     Column ''created_at'' TIMESTAMPTZ [Not_null, Server_default ''now()''],
     Column ''updated_at'' TIMESTAMPTZ [Not_null, Server_default ''now()''],
     Unique_constraint ''uq_club_members_club_user'' [''club_id'', ''user_id''],
     Index ''ix_club_members_club_id'' [''club_id''],
     Index ''ix_club_members_user_id'' [''user_id'']]"

definition orm_halls :: "item list" where
  "orm_halls =
    [Column ''name'' (VARCHAR 255) [Not_null, Unique],
     Column ''location'' (VARCHAR 500) [],
     Column ''capacity'' INTEGER [Not_null],
     Column ''available_facilities'' JSONB [Not_null],
     Column ''is_active'' BOOLEAN [Not_null],
     Column ''notes'' TEXT [],
     Column ''id'' UUID [Primary_key],
     Column ''created_at'' TIMESTAMPTZ [Not_null, Server_default ''now()''],
     Column ''updated_at'' TIMESTAMPTZ [Not_null, Server_default ''now()''],
     Check ''ck_halls_capacity_positive'' ''capacity > 0'']"

definition orm_hall_bookings_confirmed :: "item list" where
  "orm_hall_bookings_confirmed =
    [Column ''hall_id'' UUID [References ''halls'' ''id'' NO_ACTION, Not_null, Indexed],
     Column ''event_request_id'' UUID [References ''event_requests'' ''id'' CASCADE, Not_null, Unique],
     Column ''venue_request_id'' UUID [References ''venue_requests'' ''id'' NO_ACTION, Not_null, Indexed],
     Column ''booking_date'' TIMESTAMPTZ [Not_null],
     Column ''start_time'' TIMESTAMPTZ [Not_null],
     Column ''end_time'' TIMESTAMPTZ [Not_null],
     Column ''is_active'' BOOLEAN [Not_null],
     Column ''id'' UUID [Primary_key],
     Column ''created_at'' TIMESTAMPTZ [Not_null, Server_default ''now()''],
     Column ''updated_at'' TIMESTAMPTZ [Not_null, Server_default ''now()''],
     Check ''ck_hall_bookings_end_after_start'' ''end_time > start_time'',
     Index ''ix_hall_bookings_hall_date'' [''hall_id'', ''booking_date'']]"

definition orm_event_requests :: "item list" where
  "orm_event_requests =
    [Column ''club_id'' UUID [References ''clubs'' ''id'' NO_ACTION, Not_null, Indexed],
     Column ''submitted_by'' UUID [References ''users'' ''id'' NO_ACTION, Not_null, Indexed],
     Column ''title'' (VARCHAR 500) [Not_null],
     Column ''description'' TEXT [],
     Column ''event_type'' (VARCHAR 30) [Not_null],
     Column ''expected_attendees'' INTEGER [],
     Column ''event_date'' TIMESTAMPTZ [],
     Column ''chief_guest_name'' (VARCHAR 255) [],
     Column ''chief_guest_designation'' (VARCHAR 255) [],
     Column ''chief_guest_institution'' (VARCHAR 255) [],
     Column ''status'' (VARCHAR 30) [Not_null, Indexed],
     Column ''current_version'' INTEGER [Not_null],
     Column ''version_lock'' INTEGER [Not_null],
     Column ''academic_year'' (VARCHAR 10) [Not_null],
     Column ''idempotency_key'' (VARCHAR 100) [Unique, Indexed],
     Column ''workflow_instance_id'' UUID [References ''workflow_instances'' ''id'' NO_ACTION, Indexed],
     Column ''id'' UUID [Primary_key],
     Column ''created_at'' TIMESTAMPTZ [Not_null, Server_default ''now()''],
     Column ''updated_at'' TIMESTAMPTZ [Not_null, Server_default ''now()''],
     Column ''deleted_at'' TIMESTAMPTZ [],
     Check ''ck_event_requests_attendees_positive'' ''expected_attendees IS NULL OR expected_attendees > 0'',
     Index ''ix_event_requests_status_club'' [''status'', ''club_id''],
     Index ''ix_event_requests_academic_year_status'' [''academic_year'', ''status'']]"

definition orm_event_request_versions :: "item list" where
  "orm_event_request_versions =
    [Column ''event_request_id'' UUID [References ''event_requests'' ''id'' CASCADE, Not_null],
     Column ''version_number'' INTEGER [Not_null],
     Column ''snapshot'' JSONB [Not_null],
     Column ''submitted_by'' UUID [References ''users'' ''id'' NO_ACTION, Not_null],
     Column ''submitted_at'' TIMESTAMPTZ [Not_null, Server_default ''now()''],
     Column ''change_summary'' TEXT [],
     Column ''id'' UUID [Primary_key],
     Unique_constraint ''uq_event_request_versions_request_version'' [''event_request_id'', ''version_number''],
     Index ''ix_event_request_versions_request_id'' [''event_request_id'']]"

definition orm_venue_requests :: "item list" where
  "orm_venue_requests =
    [Column ''event_request_id'' UUID [References ''event_requests'' ''id'' CASCADE, Not_null, Unique],
     Column ''hall_id'' UUID [References ''halls'' ''id'' NO_ACTION, Not_null, Indexed],
     Column ''requested_date'' TIMESTAMPTZ [Not_null],
     Column ''start_time'' TIMESTAMPTZ [Not_null],
     Column ''end_time'' TIMESTAMPTZ [Not_null],
     Column ''expected_audience'' INTEGER [],
     Column ''requires_stage'' BOOLEAN [Not_null],
     Column ''requires_audio'' BOOLEAN [Not_null],
     Column ''requires_lcd'' BOOLEAN [Not_null],
     Column ''requires_ac'' BOOLEAN [Not_null],
     Column ''requires_projector'' BOOLEAN [Not_null],
     Column ''additional_requirements'' TEXT [],
     Column ''status'' (VARCHAR 20) [Not_null],
     Column ''reviewed_by'' UUID [References ''users'' ''id'' NO_ACTION],
     Column ''reviewed_at'' TIMESTAMPTZ [],
     Column ''rejection_reason'' TEXT [],
     Column ''id'' UUID [Primary_key],
     Column ''created_at'' TIMESTAMPTZ [Not_null, Server_default ''now()''],
     Column ''updated_at'' TIMESTAMPTZ [Not_null, Server_default ''now()''],
     Check ''ck_venue_requests_end_after_start'' ''end_time > start_time'',
     Index ''ix_venue_requests_hall_date'' [''hall_id'', ''requested_date'']]"

definition orm_budget_proposals :: "item list" where
  "orm_budget_proposals =
    [Column ''event_request_id'' UUID [References ''event_requests'' ''id'' CASCADE, Not_null, Unique],
     Column ''expected_income'' (NUMERIC 12 2) [Not_null],
     Column ''institute_contribution'' (NUMERIC 12 2) [Not_null],
     Column ''total_expected_expenditure'' (NUMERIC 12 2) [Not_null],
     Column ''notes'' TEXT [],
     Column ''finance_status'' (VARCHAR 20) [Not_null],
     Column ''finance_verified_by'' UUID [References ''users'' ''id'' NO_ACTION],
     Column ''finance_verified_at'' TIMESTAMPTZ [],
     Column ''finance_notes'' TEXT [],
     Column ''id'' UUID [Primary_key],
     Column ''created_at'' TIMESTAMPTZ [Not_null, Server_default ''now()''],
     Column ''updated_at'' TIMESTAMPTZ [Not_null, Server_default ''now()''],
     Check ''ck_budget_proposals_income_non_negative'' ''expected_income >= 0'',
     Check ''ck_budget_proposals_contribution_non_negative'' ''institute_contribution >= 0'',
     Check ''ck_budget_proposals_expenditure_non_negative'' ''total_expected_expenditure >= 0'']"

definition orm_budget_line_items :: "item list" where
  "orm_budget_line_items =
    [Column ''budget_proposal_id'' UUID [References ''budget_proposals'' ''id'' CASCADE, Not_null, Indexed],
     Column ''description'' (VARCHAR 500) [Not_null],
     Column ''category'' (VARCHAR 30) [Not_null],
     Column ''estimated_amount'' (NUMERIC 12 2) [Not_null],
     Column ''notes'' (VARCHAR 500) [],
     Column ''id'' UUID [Primary_key],
     Column ''created_at'' TIMESTAMPTZ [Not_null, Server_default ''now()''],
     Column ''updated_at'' TIMESTAMPTZ [Not_null, Server_default ''now()''],
     Check ''ck_budget_line_items_amount_non_negative'' ''estimated_amount >= 0'']"

definition orm_resource_requests :: "item list" where
  "orm_resource_requests =
    [Column ''event_request_id'' UUID [References ''event_requests'' ''id'' CASCADE, Not_null, Indexed],
     Column ''resource_type'' (VARCHAR 30) [Not_null],
     Column ''quantity'' INTEGER [Not_null],
     Column ''notes'' TEXT [],
     Column ''status'' (VARCHAR 20) [Not_null],
     Column ''managed_by'' UUID [References ''users'' ''id'' NO_ACTION],
     Column ''id'' UUID [Primary_key],
     Column ''created_at'' TIMESTAMPTZ [Not_null, Server_default ''now()''],
     Column ''updated_at'' TIMESTAMPTZ [Not_null, Server_default ''now()''],
     Check ''ck_resource_requests_quantity_positive'' ''quantity > 0'']"

definition orm_documents :: "item list" where
  "orm_documents =
    [Column ''event_request_id'' UUID [References ''event_requests'' ''id'' CASCADE, Not_null, Indexed],
     Column ''uploaded_by'' UUID [References ''users'' ''id'' NO_ACTION, Not_null],
     Column ''document_type'' (VARCHAR 30) [Not_null],
     Column ''original_filename'' (VARCHAR 500) [Not_null],
     Column ''stored_filename'' (VARCHAR 100) [Not_null, Unique],
     Column ''file_size_bytes'' INTEGER [Not_null],
     Column ''mime_type'' (VARCHAR 100) [Not_null],
     Column ''storage_path'' (VARCHAR 500) [Not_null],
     Column ''is_active'' BOOLEAN [Not_null],
     Column ''event_id'' UUID [References ''events'' ''id'' CASCADE, Indexed],
     Column ''geo_latitude'' (NUMERIC 9 6) [],
     Column ''geo_longitude'' (NUMERIC 9 6) [],
     Column ''geo_source'' (VARCHAR 50) [],
     Column ''file_hash'' (VARCHAR 64) [Indexed],
     Column ''id'' UUID [Primary_key],
     Column ''created_at'' TIMESTAMPTZ [Not_null, Server_default ''now()''],
     Column ''updated_at'' TIMESTAMPTZ [Not_null, Server_default ''now()''],
     Check ''ck_documents_file_size_positive'' ''file_size_bytes > 0'']"

definition orm_workflow_templates :: "item list" where
  "orm_workflow_templates =
    [Column ''name'' (VARCHAR 255) [Not_null],
     Column ''description'' TEXT [],
     Column ''event_type'' (VARCHAR 30) [],
     Column ''is_active'' BOOLEAN [Not_null],
     Column ''is_default'' BOOLEAN [Not_null],
     Column ''created_by'' UUID [References ''users'' ''id'' NO_ACTION, Not_null],
     Column ''id'' UUID [Primary_key],
     Column ''created_at'' TIMESTAMPTZ [Not_null, Server_default ''now()''],
     Column ''updated_at'' TIMESTAMPTZ [Not_null, Server_default ''now()''],
     Column ''deleted_at'' TIMESTAMPTZ []]"

definition orm_workflow_template_steps :: "item list" where
  "orm_workflow_template_steps =
    [Column ''template_id'' UUID [References ''workflow_templates'' ''id'' CASCADE, Not_null, Indexed],
     Column ''step_order'' INTEGER [Not_null],
     Column ''step_name'' (VARCHAR 255) [Not_null],
     Column ''required_role'' (VARCHAR 50) [Not_null],
     Column ''assigned_user_id'' UUID [References ''users'' ''id'' NO_ACTION],
     Column ''is_optional'' BOOLEAN [Not_null],
     Column ''description'' TEXT [],
     Column ''id'' UUID [Primary_key],
     Column ''created_at'' TIMESTAMPTZ [Not_null, Server_default ''now()''],
     Column ''updated_at'' TIMESTAMPTZ [Not_null, Server_default ''now()''],
     Unique_constraint ''uq_workflow_template_steps_template_order'' [''template_id'', ''step_order''],
     Check ''ck_workflow_template_steps_order_positive'' ''step_order > 0'']"

definition orm_workflow_instances :: "item list" where
  "orm_workflow_instances =
    [Column ''template_id'' UUID [References ''workflow_templates'' ''id'' NO_ACTION, Not_null, Indexed],
     Column ''event_request_id'' UUID [References ''event_requests'' ''id'' NO_ACTION, Not_null],
     Column ''current_step_order'' INTEGER [Not_null],
     Column ''status'' (VARCHAR 20) [Not_null],
     Column ''version_number'' INTEGER [Not_null],
     Column ''id'' UUID [Primary_key],
     Column ''created_at'' TIMESTAMPTZ [Not_null, Server_default ''now()''],
     Column ''updated_at'' TIMESTAMPTZ [Not_null, Server_default ''now()''],
     Index ''ix_workflow_instances_event_request_id'' [''event_request_id''],
     Index ''ix_workflow_instances_status'' [''status'']]"

definition orm_workflow_instance_steps :: "item list" where
  "orm_workflow_instance_steps =
    [Column ''instance_id'' UUID [References ''workflow_instances'' ''id'' CASCADE, Not_null, Indexed],
     Column ''template_step_id'' UUID [References ''workflow_template_steps'' ''id'' NO_ACTION, Not_null, Indexed],
     Column ''step_order'' INTEGER [Not_null],
     Column ''step_name'' (VARCHAR 255) [Not_null],
     Column ''assigned_to'' UUID [References ''users'' ''id'' NO_ACTION, Not_null, Indexed],
     Column ''status'' (VARCHAR 30) [Not_null],
     Column ''action_taken_at'' TIMESTAMPTZ [],
     Column ''comments'' TEXT [],
     Column ''version_reviewed'' INTEGER [],
     Column ''step_version_lock'' INTEGER [Not_null],
     Column ''id'' UUID [Primary_key],
     Column ''created_at'' TIMESTAMPTZ [Not_null, Server_default ''now()''],
     Column ''updated_at'' TIMESTAMPTZ [Not_null, Server_default ''now()''],
     Unique_constraint ''uq_workflow_instance_steps_instance_order'' [''instance_id'', ''step_order''],
     Index ''ix_workflow_instance_steps_assigned_status'' [''assigned_to'', ''status'']]"

definition orm_events :: "item list" where
  "orm_events =
    [Column ''event_request_id'' UUID [References ''event_requests'' ''id'' NO_ACTION, Not_null, Unique],
     Column ''approved_version_id'' UUID [References ''event_request_versions'' ''id'' NO_ACTION, Not_null, Indexed],
     Column ''club_id'' UUID [References ''clubs'' ''id'' NO_ACTION, Not_null, Indexed],
     Column ''hall_id'' UUID [References ''halls'' ''id'' NO_ACTION, Indexed],
     Column ''title'' (VARCHAR 500) [Not_null],
     Column ''description'' TEXT [],
     Column ''event_type'' (VARCHAR 30) [Not_null],
     Column ''event_date'' TIMESTAMPTZ [Not_null],
     Column ''start_time'' TIMESTAMPTZ [Not_null],
     Column ''end_time'' TIMESTAMPTZ [Not_null],
     Column ''expected_attendees'' INTEGER [],
     Column ''status'' (VARCHAR 20) [Not_null, Indexed],
     Column ''academic_year'' (VARCHAR 10) [Not_null],
     Column ''cancelled_at'' TIMESTAMPTZ [],
     Column ''cancellation_reason'' TEXT [],
     Column ''cancelled_by'' UUID [References ''users'' ''id'' NO_ACTION],
     Column ''id'' UUID [Primary_key],
     Column ''created_at'' TIMESTAMPTZ [Not_null, Server_default ''now()''],
     Column ''updated_at'' TIMESTAMPTZ [Not_null, Server_default ''now()''],
     Column ''deleted_at'' TIMESTAMPTZ [],
     Index ''ix_events_club_id_status'' [''club_id'', ''status''],
     Index ''ix_events_academic_year_status'' [''academic_year'', ''status''],
     Index ''ix_events_event_date'' [''event_date'']]"

definition orm_notifications :: "item list" where
  "orm_notifications =
    [Column ''recipient_id'' UUID [References ''users'' ''id'' CASCADE, Not_null, Indexed],
     Column ''event_request_id'' UUID [References ''event_requests'' ''id'' SET_NULL, Indexed],
     Column ''notification_type'' (VARCHAR 50) [Not_null],
     Column ''title'' (VARCHAR 500) [Not_null],
     Column ''message'' TEXT [Not_null],
     Column ''is_read'' BOOLEAN [Not_null, Indexed],
     Column ''read_at'' TIMESTAMPTZ [],
     Column ''created_at'' TIMESTAMPTZ [Not_null, Server_default ''now()''],
     Column ''id'' UUID [Primary_key],
     Index ''ix_notifications_recipient_is_read'' [''recipient_id'', ''is_read''],
     Index ''ix_notifications_created_at'' [''created_at'']]"

definition orm_audit_logs :: "item list" where
  "orm_audit_logs =
    [Column ''actor_id'' UUID [References ''users'' ''id'' SET_NULL],
     Column ''actor_email'' (VARCHAR 255) [],
     Column ''actor_role'' (VARCHAR 50) [],
     Column ''action'' (VARCHAR 60) [Not_null],
     Column ''entity_type'' (VARCHAR 100) [Not_null],
     Column ''entity_id'' (VARCHAR 100) [],
     Column ''previous_state'' JSONB [],
     Column ''new_state'' JSONB [],
     Column ''reason'' TEXT [],
     Column ''ip_address'' (VARCHAR 45) [],
     Column ''user_agent'' (VARCHAR 512) [],
     Column ''created_at'' TIMESTAMPTZ [Not_null, Server_default ''now()''],
     Column ''id'' UUID [Primary_key],
     Index ''ix_audit_logs_actor_id'' [''actor_id''],
     Index ''ix_audit_logs_entity'' [''entity_type'', ''entity_id''],
     Index ''ix_audit_logs_action'' [''action''],
     Index ''ix_audit_logs_created_at'' [''created_at'']]"

definition orm_idempotency_records :: "item list" where
  "orm_idempotency_records =
    [Column ''idempotency_key'' (VARCHAR 100) [Not_null, Unique, Indexed],
     Column ''endpoint'' (VARCHAR 500) [Not_null],
     Column ''user_id'' UUID [References ''users'' ''id'' NO_ACTION, Not_null],
     Column ''response_status'' INTEGER [Not_null],
     Column ''response_body'' JSONB [Not_null],
     Column ''created_at'' TIMESTAMPTZ [Not_null, Server_default ''now()''],
     Column ''expires_at'' TIMESTAMPTZ [Not_null],
     Column ''id'' UUID [Primary_key],
     Index ''ix_idempotency_records_expires_at'' [''expires_at'']]"

definition orm_post_event_reports :: "item list" where
  "orm_post_event_reports =
    [Column ''event_id'' UUID [References ''events'' ''id'' CASCADE, Not_null, Unique, Indexed],
     Column ''revision_number'' INTEGER [Not_null],
     Column ''actual_attendance'' INTEGER [Not_null],
     Column ''summary'' TEXT [Not_null],
     Column ''objectives_achieved'' TEXT [Not_null],
     Column ''outcomes'' TEXT [],
     Column ''challenges'' TEXT [],
     Column ''status'' (VARCHAR 30) [Not_null, Indexed],
     Column ''submitted_by'' UUID [References ''users'' ''id'' NO_ACTION, Not_null],
     Column ''submitted_at'' TIMESTAMPTZ [Not_null],
     Column ''certified_by'' UUID [References ''users'' ''id'' NO_ACTION],
     Column ''certified_at'' TIMESTAMPTZ [],
     Column ''certification_remarks'' TEXT [],
     Column ''id'' UUID [Primary_key],
     Column ''created_at'' TIMESTAMPTZ [Not_null, Server_default ''now()''],
     Column ''updated_at'' TIMESTAMPTZ [Not_null, Server_default ''now()''],
     Check ''ck_post_event_reports_attendance_positive'' ''actual_attendance > 0'',
     Check ''ck_post_event_reports_revision_positive'' ''revision_number >= 1'']"

definition orm_actual_expenses :: "item list" where
  "orm_actual_expenses =
    [Column ''event_id'' UUID [References ''events'' ''id'' CASCADE, Not_null, Indexed],
     Column ''budget_line_item_id'' UUID [References ''budget_line_items'' ''id'' SET_NULL, Indexed],
     Column ''category'' (VARCHAR 30) [Not_null],
     Column ''description'' (VARCHAR 500) [Not_null],
     Column ''vendor_name'' (VARCHAR 255) [Not_null],
     Column ''vendor_gstin'' (VARCHAR 20) [],
     Column ''invoice_number'' (VARCHAR 100) [],
     Column ''invoice_date'' DATE [Not_null],
     Column ''claimed_amount'' (NUMERIC 12 2) [Not_null],
     Column ''verified_amount'' (NUMERIC 12 2) [],
     Column ''status'' (VARCHAR 30) [Not_null, Indexed],
     Column ''bill_document_id'' UUID [References ''documents'' ''id'' RESTRICT, Not_null, Indexed],
     Column ''submitted_by'' UUID [References ''users'' ''id'' NO_ACTION, Not_null],
     Column ''submitted_at'' TIMESTAMPTZ [],
     Column ''verified_by'' UUID [References ''users'' ''id'' NO_ACTION],
     Column ''verified_at'' TIMESTAMPTZ [],
     Column ''finance_remarks'' TEXT [],
     Column ''query_reason'' TEXT [],
     Column ''is_flagged_for_review'' BOOLEAN [Not_null],
     Column ''review_notes'' (VARCHAR 255) [],
     Column ''id'' UUID [Primary_key],
     Column ''created_at'' TIMESTAMPTZ [Not_null, Server_default ''now()''],
     Column ''updated_at'' TIMESTAMPTZ [Not_null, Server_default ''now()''],
     Check ''chk_actual_expenses_claimed_positive'' ''claimed_amount > 0.00'',
     Check ''chk_actual_expenses_verified_non_negative'' ''verified_amount IS NULL OR verified_amount >= 0.00'',
     Check ''chk_actual_expenses_verified_le_claimed'' ''verified_amount IS NULL OR verified_amount <= claimed_amount'']"

definition orm_cash_advances :: "item list" where
  "orm_cash_advances =
    [Column ''event_id'' UUID [References ''events'' ''id'' RESTRICT, Not_null, Unique, Indexed],
     Column ''amount_requested'' (NUMERIC 12 2) [Not_null],
     Column ''amount_approved'' (NUMERIC 12 2) [],
     Column ''amount_disbursed'' (NUMERIC 12 2) [Not_null],
     Column ''status'' (VARCHAR 20) [Not_null, Indexed],
     Column ''recipient_id'' UUID [References ''users'' ''id'' NO_ACTION, Not_null],
     Column ''approved_by'' UUID [References ''users'' ''id'' NO_ACTION],
     Column ''disbursed_by'' UUID [References ''users'' ''id'' NO_ACTION],
     Column ''disbursement_date'' TIMESTAMPTZ [],
     Column ''payment_reference'' (VARCHAR 100) [],
     Column ''notes'' TEXT [],
     Column ''rejection_reason'' TEXT [],
     Column ''id'' UUID [Primary_key],
     Column ''created_at'' TIMESTAMPTZ [Not_null, Server_default ''now()''],
     Column ''updated_at'' TIMESTAMPTZ [Not_null, Server_default ''now()''],
     Check ''chk_cash_advances_requested_positive'' ''amount_requested > 0.00'',
     Check ''chk_cash_advances_approved_non_negative'' ''amount_approved IS NULL OR amount_approved >= 0.00'',
     Check ''chk_cash_advances_disbursed_non_negative'' ''amount_disbursed >= 0.00'',
     Check ''chk_cash_advances_disbursed_le_approved'' ''amount_approved IS NULL OR amount_disbursed <= amount_approved'']"

definition orm_actual_incomes :: "item list" where
  "orm_actual_incomes =
    [Column ''event_id'' UUID [References ''events'' ''id'' RESTRICT, Not_null, Indexed],
     Column ''source_type'' (VARCHAR 30) [Not_null],
     Column ''description'' TEXT [Not_null],
     Column ''payer_name'' (VARCHAR 255) [Not_null],
     Column ''amount'' (NUMERIC 12 2) [Not_null],
     Column ''received_date'' DATE [Not_null],
     Column ''reference_number'' (VARCHAR 100) [],
     Column ''evidence_document_id'' UUID [References ''documents'' ''id'' RESTRICT, Not_null, Indexed],
     Column ''status'' (VARCHAR 20) [Not_null, Indexed],
     Column ''recorded_by'' UUID [References ''users'' ''id'' NO_ACTION, Not_null],
     Column ''verified_by'' UUID [References ''users'' ''id'' NO_ACTION],
     Column ''verified_at'' TIMESTAMPTZ [],
     Column ''finance_remarks'' TEXT [],
     Column ''id'' UUID [Primary_key],
     Column ''created_at'' TIMESTAMPTZ [Not_null, Server_default ''now()''],
     Column ''updated_at'' TIMESTAMPTZ [Not_null, Server_default ''now()''],
     Check ''chk_actual_incomes_amount_positive'' ''amount > 0.00'',
     Index ''ix_actual_incomes_event_id_status'' [''event_id'', ''status'']]"

definition orm_financial_settlements :: "item list" where
  "orm_financial_settlements =
    [Column ''event_id'' UUID [References ''events'' ''id'' RESTRICT, Not_null, Unique, Indexed],
     Column ''approved_version_id'' UUID [References ''event_request_versions'' ''id'' RESTRICT, Not_null],
     Column ''sanctioned_grant'' (NUMERIC 12 2) [Not_null],
     Column ''sanctioned_expenditure'' (NUMERIC 12 2) [Not_null],
     Column ''expected_income'' (NUMERIC 12 2) [Not_null],
     Column ''total_claimed_expenditure'' (NUMERIC 12 2) [Not_null],
     Column ''total_verified_expenditure'' (NUMERIC 12 2) [Not_null],
     Column ''total_disallowed_expenditure'' (NUMERIC 12 2) [Not_null],
     Column ''total_verified_income'' (NUMERIC 12 2) [Not_null],
     Column ''net_deficit'' (NUMERIC 12 2) [Not_null],
     Column ''institutional_payout'' (NUMERIC 12 2) [Not_null],
     Column ''cash_advance_disbursed'' (NUMERIC 12 2) [Not_null],
     Column ''settlement_balance'' (NUMERIC 12 2) [Not_null],
     Column ''reimbursement_due'' (NUMERIC 12 2) [Not_null],
     Column ''refund_due'' (NUMERIC 12 2) [Not_null],
     Column ''settlement_type'' (VARCHAR 30) [Not_null],
     Column ''status'' (VARCHAR 30) [Not_null, Indexed],
     Column ''prepared_by'' UUID [References ''users'' ''id'' NO_ACTION, Not_null],
     Column ''submitted_at'' TIMESTAMPTZ [],
     Column ''audited_by'' UUID [References ''users'' ''id'' NO_ACTION],
     Column ''audited_at'' TIMESTAMPTZ [],
     Column ''finance_remarks'' TEXT [],
     Column ''query_reason'' TEXT [],
     Column ''id'' UUID [Primary_key],
     Column ''created_at'' TIMESTAMPTZ [Not_null, Server_default ''now()''],
     Column ''updated_at'' TIMESTAMPTZ [Not_null, Server_default ''now()''],
     Check ''chk_fin_settlements_grant_non_negative'' ''sanctioned_grant >= 0.00'',
     Check ''chk_fin_settlements_exp_non_negative'' ''sanctioned_expenditure >= 0.00'',
     Check ''chk_fin_settlements_c_exp_non_negative'' ''total_claimed_expenditure >= 0.00'',
     Check ''chk_fin_settlements_v_exp_non_negative'' ''total_verified_expenditure >= 0.00'',
     Check ''chk_fin_settlements_d_exp_non_negative'' ''total_disallowed_expenditure >= 0.00'',
     Check ''chk_fin_settlements_v_inc_non_negative'' ''total_verified_income >= 0.00'',
     Check ''chk_fin_settlements_net_deficit_non_negative'' ''net_deficit >= 0.00'',
     Check ''chk_fin_settlements_payout_non_negative'' ''institutional_payout >= 0.00'',
     Check ''chk_fin_settlements_advance_non_negative'' ''cash_advance_disbursed >= 0.00'',
     Check ''chk_fin_settlements_reimb_non_negative'' ''reimbursement_due >= 0.00'',
     Check ''chk_fin_settlements_refund_non_negative'' ''refund_due >= 0.00'']"

definition orm_settlement_payments :: "item list" where
  "orm_settlement_payments =
    [Column ''settlement_id'' UUID [References ''financial_settlements'' ''id'' RESTRICT, Not_null, Indexed],
     Column ''payment_type'' (VARCHAR 30) [Not_null],
     Column ''amount'' (NUMERIC 12 2) [Not_null],
     Column ''payment_method'' (VARCHAR 30) [Not_null],
     Column ''transaction_reference'' (VARCHAR 100) [Not_null, Indexed],
     Column ''transaction_date'' TIMESTAMPTZ [Not_null],
     Column ''proof_document_id'' UUID [References ''documents'' ''id'' RESTRICT, Not_null, Indexed],
     Column ''recorded_by'' UUID [References ''users'' ''id'' NO_ACTION, Not_null],
     Column ''notes'' TEXT [],
     Column ''id'' UUID [Primary_key],
     Column ''created_at'' TIMESTAMPTZ [Not_null, Server_default ''now()''],
     Column ''updated_at'' TIMESTAMPTZ [Not_null, Server_default ''now()''],
     Check ''chk_settlement_payments_amount_positive'' ''amount > 0.00'']"

definition orm_settlement_revisions :: "item list" where
  "orm_settlement_revisions =
    [Column ''settlement_id'' UUID [References ''financial_settlements'' ''id'' RESTRICT, Not_null, Indexed],
     Column ''revision_number'' INTEGER [Not_null],
     Column ''snapshot_data'' JSONB [Not_null],
     Column ''reopened_by'' UUID [References ''users'' ''id'' NO_ACTION, Not_null],
     Column ''reopening_reason'' TEXT [Not_null],
     Column ''created_at'' TIMESTAMPTZ [Not_null],
     Column ''id'' UUID [Primary_key],
     Unique_constraint ''uq_settlement_revisions_number'' [''settlement_id'', ''revision_number''],
     Check ''chk_settlement_revisions_number_positive'' ''revision_number >= 1'']"

definition orm_event_closures :: "item list" where
  "orm_event_closures =
    [Column ''event_id'' UUID [References ''events'' ''id'' RESTRICT, Not_null, Unique],
     Column ''settlement_id'' UUID [References ''financial_settlements'' ''id'' RESTRICT, Not_null, Unique],
     Column ''post_event_report_id'' UUID [References ''post_event_reports'' ''id'' RESTRICT, Not_null, Indexed],
     Column ''requested_by'' UUID [References ''users'' ''id'' RESTRICT],
     Column ''requested_at'' TIMESTAMPTZ [],
     Column ''certified_by'' UUID [References ''users'' ''id'' RESTRICT, Not_null],
     Column ''certified_at'' TIMESTAMPTZ [Not_null],
     Column ''closure_notes'' TEXT [],
     Column ''venue_cleared'' BOOLEAN [Not_null],
     Column ''certificate_manifest_hash'' (VARCHAR 64) [Not_null],
     Column ''id'' UUID [Primary_key],
     Column ''created_at'' TIMESTAMPTZ [Not_null, Server_default ''now()''],
     Column ''updated_at'' TIMESTAMPTZ [Not_null, Server_default ''now()''],
     Unique_constraint ''uq_event_closures_event_id'' [''event_id''],
     Unique_constraint ''uq_event_closures_settlement_id'' [''settlement_id''],
     Index ''ix_event_closures_certified_at'' [''certified_at'']]"

definition orm_event_closure_revisions :: "item list" where
  "orm_event_closure_revisions =
    [Column ''event_id'' UUID [References ''events'' ''id'' RESTRICT, Not_null],
     Column ''closure_id'' UUID [References ''event_closures'' ''id'' RESTRICT, Not_null],
     Column ''revision_number'' INTEGER [Not_null],
     Column ''reopened_by'' UUID [References ''users'' ''id'' RESTRICT, Not_null],
     Column ''reopened_at'' TIMESTAMPTZ [Not_null],
     Column ''reopening_reason'' TEXT [Not_null],
     Column ''snapshot_data'' JSONB [Not_null],
     Column ''created_at'' TIMESTAMPTZ [Not_null, Server_default ''now()''],
     Column ''id'' UUID [Primary_key],
     Unique_constraint ''uq_event_closure_revisions_number'' [''event_id'', ''revision_number''],
     Check ''chk_event_closure_revisions_number_positive'' ''revision_number >= 1'',
     Index ''ix_event_closure_revisions_event_id'' [''event_id''],
     Index ''ix_event_closure_revisions_closure_id'' [''closure_id'']]"

definition orm_metadata :: "(string \<times> item list) list" where
  "orm_metadata =
    [(''users'', orm_users),
     (''refresh_tokens'', orm_refresh_tokens),
     (''password_reset_tokens'', orm_password_reset_tokens),
     (''email_verification_tokens'', orm_email_verification_tokens),
     (''clubs'', orm_clubs),
     (''club_members'', orm_club_members),
     (''halls'', orm_halls),
     (''hall_bookings_confirmed'', orm_hall_bookings_confirmed),
     (''event_requests'', orm_event_requests),
     (''event_request_versions'', orm_event_request_versions),
     (''venue_requests'', orm_venue_requests),
     (''budget_proposals'', orm_budget_proposals),
     (''budget_line_items'', orm_budget_line_items),
     (''resource_requests'', orm_resource_requests),
     (''documents'', orm_documents),
     (''workflow_templates'', orm_workflow_templates),
     (''workflow_template_steps'', orm_workflow_template_steps),
     (''workflow_instances'', orm_workflow_instances),
     (''workflow_instance_steps'', orm_workflow_instance_steps),
     (''events'', orm_events),
     (''notifications'', orm_notifications),
     (''audit_logs'', orm_audit_logs),
     (''idempotency_records'', orm_idempotency_records),
     (''post_event_reports'', orm_post_event_reports),
     (''actual_expenses'', orm_actual_expenses),
     (''cash_advances'', orm_cash_advances),
     (''actual_incomes'', orm_actual_incomes),
     (''financial_settlements'', orm_financial_settlements),
     (''settlement_payments'', orm_settlement_payments),
     (''settlement_revisions'', orm_settlement_revisions),
     (''event_closures'', orm_event_closures),
     (''event_closure_revisions'', orm_event_closure_revisions)]"


section \<open>What the upgrades add\<close>

lemmas upgrade_1_defs =
  upgrade_1_def up1_extensions_def up1_users_def up1_refresh_tokens_def up1_password_reset_tokens_def up1_email_verification_tokens_def up1_clubs_def up1_club_members_def up1_halls_def up1_workflow_templates_def up1_workflow_template_steps_def up1_workflow_instances_def up1_event_requests_def up1_foreign_key_def up1_event_request_versions_def up1_venue_requests_def up1_hall_bookings_confirmed_def up1_exclusion_def up1_budget_proposals_def up1_budget_line_items_def up1_resource_requests_def up1_documents_def up1_workflow_instance_steps_def up1_events_def up1_notifications_def up1_audit_logs_def up1_idempotency_records_def up1_function_def updated_at_triggers_def

lemmas upgrade_2_defs =
  upgrade_2_def up2_documents_def up2_post_event_reports_def

lemmas upgrade_3_defs =
  upgrade_3_def up3_documents_def up3_actual_expenses_def

lemmas upgrade_4_defs =
  upgrade_4_def up4_cash_advances_def up4_actual_incomes_def up4_financial_settlements_def up4_settlement_payments_def up4_settlement_revisions_def

lemmas upgrade_5_defs =
  upgrade_5_def up5_event_closures_def up5_event_closure_revisions_def enum_values_def

lemmas upgrade_6_defs =
  upgrade_6_def  INDEXES_def


lemmas upgrade_defs =
  upgrade_1_defs upgrade_2_defs upgrade_3_defs upgrade_4_defs upgrade_5_defs upgrade_6_defs

lemma referred_tables_of:
  "referred_tables tbl_users = []"
  "referred_tables tbl_refresh_tokens = [''users'']"
  "referred_tables tbl_password_reset_tokens = [''users'']"
  "referred_tables tbl_email_verification_tokens = [''users'']"
  "referred_tables tbl_clubs = [''users'', ''users'']"
  "referred_tables tbl_club_members = [''clubs'', ''users'']"
  "referred_tables tbl_halls = []"
  "referred_tables tbl_workflow_templates = [''users'']"
  "referred_tables tbl_workflow_template_steps = [''workflow_templates'', ''users'']"
  "referred_tables tbl_workflow_instances = [''workflow_templates'']"
  "referred_tables tbl_event_requests = [''clubs'', ''users'', ''workflow_instances'']"
  "referred_tables tbl_event_request_versions = [''event_requests'', ''users'']"
  "referred_tables tbl_venue_requests = [''event_requests'', ''halls'', ''users'']"
  "referred_tables tbl_hall_bookings_confirmed = [''halls'', ''event_requests'', ''venue_requests'']"
  "referred_tables tbl_budget_proposals = [''event_requests'', ''users'']"
  "referred_tables tbl_budget_line_items = [''budget_proposals'']"
  "referred_tables tbl_resource_requests = [''event_requests'', ''users'']"
  "referred_tables tbl_documents = [''event_requests'', ''users'']"
  "referred_tables tbl_workflow_instance_steps = [''workflow_instances'', ''workflow_template_steps'', ''users'']"
  "referred_tables tbl_events = [''event_requests'', ''event_request_versions'', ''clubs'', ''halls'', ''users'']"
  "referred_tables tbl_notifications = [''users'', ''event_requests'']"
  "referred_tables tbl_audit_logs = [''users'']"
  "referred_tables tbl_idempotency_records = [''users'']"
  "referred_tables tbl_post_event_reports = [''events'', ''users'', ''users'']"
  "referred_tables tbl_actual_expenses = [''events'', ''budget_line_items'', ''documents'', ''users'', ''users'']"
  "referred_tables tbl_cash_advances = [''events'', ''users'', ''users'', ''users'']"
  "referred_tables tbl_actual_incomes = [''events'', ''documents'', ''users'', ''users'']"
  "referred_tables tbl_financial_settlements = [''events'', ''event_request_versions'', ''users'', ''users'']"
  "referred_tables tbl_settlement_payments = [''financial_settlements'', ''documents'', ''users'']"
  "referred_tables tbl_settlement_revisions = [''financial_settlements'', ''users'']"
  "referred_tables tbl_event_closures = [''events'', ''financial_settlements'', ''post_event_reports'', ''users'', ''users'']"
  "referred_tables tbl_event_closure_revisions = [''events'', ''event_closures'', ''users'']"
  by code_simp+

lemma matches_users: "matches tbl_users [[''email'']] orm_users"
  by code_simp

lemma matches_refresh_tokens: "matches tbl_refresh_tokens [[''token_hash'']] orm_refresh_tokens"
  by code_simp

lemma matches_password_reset_tokens: "matches tbl_password_reset_tokens [] orm_password_reset_tokens"
  by code_simp

lemma matches_email_verification_tokens: "matches tbl_email_verification_tokens [] orm_email_verification_tokens"
  by code_simp

lemma matches_clubs: "matches tbl_clubs [[''name''], [''slug'']] orm_clubs"
  by code_simp

lemma matches_club_members: "matches tbl_club_members [] orm_club_members"
  by code_simp

lemma matches_halls: "matches tbl_halls [[''name'']] orm_halls"
  by code_simp

lemma matches_hall_bookings_confirmed: "matches tbl_hall_bookings_confirmed [] orm_hall_bookings_confirmed"
  by code_simp

lemma matches_event_requests: "matches tbl_event_requests [[''idempotency_key'']] orm_event_requests"
  by code_simp

lemma matches_event_request_versions: "matches tbl_event_request_versions [] orm_event_request_versions"
  by code_simp

lemma matches_venue_requests: "matches tbl_venue_requests [] orm_venue_requests"
  by code_simp

lemma matches_budget_proposals: "matches tbl_budget_proposals [] orm_budget_proposals"
  by code_simp

lemma matches_budget_line_items: "matches tbl_budget_line_items [] orm_budget_line_items"
  by code_simp

lemma matches_resource_requests: "matches tbl_resource_requests [] orm_resource_requests"
  by code_simp

lemma matches_documents: "matches (tbl_documents @ [Column ''event_id'' UUID [References ''events'' ''id'' CASCADE],
     Column ''geo_latitude'' (NUMERIC 9 6) [],
     Column ''geo_longitude'' (NUMERIC 9 6) [],
     Column ''geo_source'' (VARCHAR 50) [],
     Column ''file_hash'' (VARCHAR 64) []]) [[''stored_filename'']] orm_documents"
  by code_simp

lemma matches_workflow_templates: "matches tbl_workflow_templates [] orm_workflow_templates"
  by code_simp

lemma matches_workflow_template_steps: "matches tbl_workflow_template_steps [] orm_workflow_template_steps"
  by code_simp

lemma matches_workflow_instances: "matches (tbl_workflow_instances @ [Foreign_key ''fk_workflow_instances_event_request_id'' ''event_request_id'' ''event_requests'' ''id'']) [] orm_workflow_instances"
  by code_simp

lemma matches_workflow_instance_steps: "matches tbl_workflow_instance_steps [] orm_workflow_instance_steps"
  by code_simp

lemma matches_events: "matches tbl_events [] orm_events"
  by code_simp

lemma matches_notifications: "matches tbl_notifications [] orm_notifications"
  by code_simp

lemma matches_audit_logs: "matches tbl_audit_logs [] orm_audit_logs"
  by code_simp

lemma matches_idempotency_records: "matches tbl_idempotency_records [[''idempotency_key'']] orm_idempotency_records"
  by code_simp

lemma matches_post_event_reports: "matches tbl_post_event_reports [[''event_id'']] orm_post_event_reports"
  by code_simp

lemma matches_actual_expenses: "matches tbl_actual_expenses [] orm_actual_expenses"
  by code_simp

lemma matches_cash_advances: "matches tbl_cash_advances [] orm_cash_advances"
  by code_simp

lemma matches_actual_incomes: "matches tbl_actual_incomes [] orm_actual_incomes"
  by code_simp

lemma matches_financial_settlements: "matches tbl_financial_settlements [] orm_financial_settlements"
  by code_simp

lemma matches_settlement_payments: "matches tbl_settlement_payments [] orm_settlement_payments"
  by code_simp

lemma matches_settlement_revisions: "matches tbl_settlement_revisions [] orm_settlement_revisions"
  by code_simp

lemma matches_event_closures: "matches tbl_event_closures [] orm_event_closures"
  by code_simp

lemma matches_event_closure_revisions: "matches tbl_event_closure_revisions [] orm_event_closure_revisions"
  by code_simp

lemmas matches_all =
  matches_users
  matches_refresh_tokens
  matches_password_reset_tokens
  matches_email_verification_tokens
  matches_clubs
  matches_club_members
  matches_halls
  matches_hall_bookings_confirmed
  matches_event_requests
  matches_event_request_versions
  matches_venue_requests
  matches_budget_proposals
  matches_budget_line_items
  matches_resource_requests
  matches_documents
  matches_workflow_templates
  matches_workflow_template_steps
  matches_workflow_instances
  matches_workflow_instance_steps
  matches_events
  matches_notifications
  matches_audit_logs
  matches_idempotency_records
  matches_post_event_reports
  matches_actual_expenses
  matches_cash_advances
  matches_actual_incomes
  matches_financial_settlements
  matches_settlement_payments
  matches_settlement_revisions
  matches_event_closures
  matches_event_closure_revisions

lemma schema_steps:
  "schema_at 0 = empty_schema"
  "schema_at (Suc 0) = run_ddl upgrade_1 (schema_at 0)"
  "schema_at 2 = run_ddl upgrade_2 (schema_at (Suc 0))"
  "schema_at 3 = run_ddl upgrade_3 (schema_at 2)"
  "schema_at 4 = run_ddl upgrade_4 (schema_at 3)"
  "schema_at 5 = run_ddl upgrade_5 (schema_at 4)"
  "schema_at 6 = run_ddl upgrade_6 (schema_at 5)"
  by (simp_all add: schema_at_def revisions_def eval_nat_numeral)

lemma upgrades_additive:
  "list_all additive upgrade_1" "list_all additive upgrade_2" "list_all additive upgrade_3"
  "list_all additive upgrade_4" "list_all additive upgrade_5" "list_all additive upgrade_6"
  by (simp_all add: upgrade_defs)

lemmas upgrades_add =
  additive_names [OF upgrades_additive(1)] additive_names [OF upgrades_additive(2)] additive_names [OF upgrades_additive(3)]
  additive_names [OF upgrades_additive(4)] additive_names [OF upgrades_additive(5)] additive_names [OF upgrades_additive(6)]
  additive_indexes [OF upgrades_additive(1)] additive_indexes [OF upgrades_additive(2)] additive_indexes [OF upgrades_additive(3)]
  additive_indexes [OF upgrades_additive(4)] additive_indexes [OF upgrades_additive(5)] additive_indexes [OF upgrades_additive(6)]
  additive_triggers [OF upgrades_additive(1)] additive_triggers [OF upgrades_additive(2)] additive_triggers [OF upgrades_additive(3)]
  additive_triggers [OF upgrades_additive(4)] additive_triggers [OF upgrades_additive(5)] additive_triggers [OF upgrades_additive(6)]
  additive_exclusions [OF upgrades_additive(1)] additive_exclusions [OF upgrades_additive(2)] additive_exclusions [OF upgrades_additive(3)]
  additive_exclusions [OF upgrades_additive(4)] additive_exclusions [OF upgrades_additive(5)] additive_exclusions [OF upgrades_additive(6)]

lemma tables_6:
  "tables (schema_at 6) =
    [(''users'', tbl_users),
     (''refresh_tokens'', tbl_refresh_tokens),
     (''password_reset_tokens'', tbl_password_reset_tokens),
     (''email_verification_tokens'', tbl_email_verification_tokens),
     (''clubs'', tbl_clubs),
     (''club_members'', tbl_club_members),
     (''halls'', tbl_halls),
     (''workflow_templates'', tbl_workflow_templates),
     (''workflow_template_steps'', tbl_workflow_template_steps),
     (''workflow_instances'', tbl_workflow_instances @ [Foreign_key ''fk_workflow_instances_event_request_id'' ''event_request_id'' ''event_requests'' ''id'']),
     (''event_requests'', tbl_event_requests),
     (''event_request_versions'', tbl_event_request_versions),
     (''venue_requests'', tbl_venue_requests),
     (''hall_bookings_confirmed'', tbl_hall_bookings_confirmed),
     (''budget_proposals'', tbl_budget_proposals),
     (''budget_line_items'', tbl_budget_line_items),
     (''resource_requests'', tbl_resource_requests),
     (''documents'', tbl_documents @ [Column ''event_id'' UUID [References ''events'' ''id'' CASCADE],
       Column ''geo_latitude'' (NUMERIC 9 6) [],
       Column ''geo_longitude'' (NUMERIC 9 6) [],
       Column ''geo_source'' (VARCHAR 50) [],
       Column ''file_hash'' (VARCHAR 64) []]),
     (''workflow_instance_steps'', tbl_workflow_instance_steps),
     (''events'', tbl_events),
     (''notifications'', tbl_notifications),
     (''audit_logs'', tbl_audit_logs),
     (''idempotency_records'', tbl_idempotency_records),
     (''post_event_reports'', tbl_post_event_reports),
     (''actual_expenses'', tbl_actual_expenses),
     (''cash_advances'', tbl_cash_advances),
     (''actual_incomes'', tbl_actual_incomes),
     (''financial_settlements'', tbl_financial_settlements),
     (''settlement_payments'', tbl_settlement_payments),
     (''settlement_revisions'', tbl_settlement_revisions),
     (''event_closures'', tbl_event_closures),
     (''event_closure_revisions'', tbl_event_closure_revisions)]"
  by (simp add: schema_steps additive_tables upgrades_additive)
    (simp add: upgrade_defs empty_schema_def on_table_def)

lemma unique_indexes_6:
  "unique_indexes (schema_at 6) =
    [(''users'', [''email'']),
     (''refresh_tokens'', [''token_hash'']),
     (''clubs'', [''name'']),
     (''clubs'', [''slug'']),
     (''halls'', [''name'']),
     (''event_requests'', [''idempotency_key'']),
     (''documents'', [''stored_filename'']),
     (''idempotency_records'', [''idempotency_key'']),
     (''post_event_reports'', [''event_id''])]"
  by (simp add: unique_indexes_def schema_steps upgrades_add) (simp add: upgrade_defs empty_schema_def)

lemma upgrades_resolve: "resolves [] [] (upgrade_1 @ upgrade_2 @ upgrade_3 @ upgrade_4 @ upgrade_5 @ upgrade_6)"
  by (simp add: upgrade_defs referred_tables_of)

lemma orm_agrees: "list_all (\<lambda>(t, os). agrees (schema_at 6) t os) orm_metadata"
  by (simp add: orm_metadata_def agrees_def tables_6 unique_indexes_6 matches_all)

lemma exclusions_6: "exclusions (schema_at 6) = [(''excl_hall_bookings_no_overlap'', ''hall_bookings_confirmed'')]"
  by (simp add: schema_steps upgrades_add) (simp add: upgrade_defs empty_schema_def)

section \<open>The way back\<close>

lemma undo_6:
  "knows_none [] (map fst INDEXES) s \<Longrightarrow> run_ddl downgrade_6 (run_ddl upgrade_6 s) = s"
  by (simp add: upgrade_6_defs downgrade_6_def knows_none_index)

lemma undo_5:
  "knows_none [''event_closures'', ''event_closure_revisions''] [] s \<Longrightarrow> enum_types s = [] \<Longrightarrow>
     run_ddl downgrade_5 (run_ddl upgrade_5 s) = s"
  by (simp add: upgrade_5_defs downgrade_5_def without_table_def knows_none_table)

lemma undo_4:
  "knows_none [''settlement_revisions'', ''settlement_payments'', ''financial_settlements'', ''actual_incomes'', ''cash_advances''] [] s \<Longrightarrow>
     run_ddl downgrade_4 (run_ddl upgrade_4 s) = s"
  by (simp add: upgrade_4_defs downgrade_4_def without_table_def knows_none_table)

lemma undo_3:
  "knows_none [''actual_expenses''] [''ix_actual_expenses_budget_line_item_id'', ''ix_actual_expenses_bill_doc'',
       ''ix_actual_expenses_status'', ''ix_actual_expenses_event_id'', ''ix_documents_file_hash''] s \<Longrightarrow>
     lacks ''documents'' ''file_hash'' s \<Longrightarrow> run_ddl downgrade_3 (run_ddl upgrade_3 s) = s"
  by (simp add: upgrade_3_defs downgrade_3_def without_table_def knows_none_table knows_none_index filter_on_table)
    (rule schema_same; auto intro!: on_table_same simp: filter_id_conv dest: lacksD)

lemma undo_2:
  "knows_none [''post_event_reports''] [''ix_post_event_reports_status'', ''ix_post_event_reports_event_id'', ''ix_documents_event_id''] s \<Longrightarrow>
     lacks ''documents'' ''event_id'' s \<Longrightarrow> lacks ''documents'' ''geo_source'' s \<Longrightarrow>
     lacks ''documents'' ''geo_longitude'' s \<Longrightarrow> lacks ''documents'' ''geo_latitude'' s \<Longrightarrow>
     run_ddl downgrade_2 (run_ddl upgrade_2 s) = s"
  by (simp add: upgrade_2_defs downgrade_2_def without_table_def knows_none_table knows_none_index filter_on_table)
    (rule schema_same; auto intro!: on_table_same simp: filter_id_conv dest: lacksD dest!: knows_noneD)

lemma undo_1: "run_ddl downgrade_1 (run_ddl upgrade_1 empty_schema) = empty_schema"
proof -
  let ?s = "run_ddl upgrade_1 empty_schema"
  obtain ts where d: "downgrade_1 = map Drop_table_cascade ts @
      [Drop_function_cascade ''update_updated_at_column'', Drop_extension ''btree_gist'', Drop_extension ''pgcrypto'']"
    and t: "list_all (\<lambda>t. t \<in> set ts) (made created_tables upgrade_1)"
      "list_all (\<lambda>i. ix_table i \<in> set ts) (made created_indexes upgrade_1)"
      "list_all (\<lambda>x. fst (snd x) \<in> set ts) (made created_triggers upgrade_1)"
      "list_all (\<lambda>x. snd x \<in> set ts) (made created_exclusions upgrade_1)"
    by (rule that [OF downgrade_1_def]) (simp_all add: upgrade_1_defs)
  let ?c = "run_ddl (map Drop_table_cascade ts) ?s"
  have n: "map fst (tables ?s) = made created_tables upgrade_1" by (simp add: upgrades_add(1)) (simp add: empty_schema_def)
  have "set (made created_tables upgrade_1) - set ts = {}" using t(1) by (auto simp: list_all_iff)
  then have "set (map fst (tables ?c)) \<subseteq> {}" using cascade_run(2) [of ts ?s] unfolding n by (rule subst)
  then have "tables ?c = []" by simp
  moreover have "indexes ?s = made created_indexes upgrade_1" "triggers ?s = made created_triggers upgrade_1"
    "exclusions ?s = made created_exclusions upgrade_1" by (simp_all add: upgrades_add empty_schema_def)
  ultimately have c: "?c = ?s\<lparr>tables := [], indexes := [], triggers := [], exclusions := []\<rparr>"
    using t(2-4) by (subst cascade_run(1)) (simp add: filter_empty_conv list_all_iff)
  have "extensions ?s = [''btree_gist'', ''pgcrypto'']"
    by (simp add: additive_extensions upgrades_additive(1)) (simp add: upgrade_1_defs empty_schema_def)
  moreover have "procedures ?s = [''update_updated_at_column'']"
    by (simp add: additive_procedures upgrades_additive(1)) (simp add: upgrade_1_defs empty_schema_def)
  moreover have "enum_types ?s = []" by (rule no_enum_types) (simp add: empty_schema_def)
  ultimately show ?thesis by (simp add: d c) (simp add: empty_schema_def)
qed

lemma enum_types_at: "enum_types (schema_at n) = []"
  unfolding schema_at_def by (rule no_enum_types) (simp add: empty_schema_def)

text \<open>What each upgrade adds was not there before.\<close>

lemmas names_added = knows_none_def schema_steps upgrades_add

lemma back_6: "run_ddl downgrade_6 (schema_at 6) = schema_at 5"
  unfolding schema_steps(7)
  by (rule undo_6) (simp add: names_added, simp add: upgrade_defs empty_schema_def)

lemma back_5: "run_ddl downgrade_5 (schema_at 5) = schema_at 4"
  unfolding schema_steps(6)
  by (rule undo_5 [OF _ enum_types_at]) (simp add: names_added, simp add: upgrade_defs empty_schema_def)

lemma back_4: "run_ddl downgrade_4 (schema_at 4) = schema_at 3"
  unfolding schema_steps(5)
  by (rule undo_4) (simp add: names_added, simp add: upgrade_defs empty_schema_def)

lemma lacks_documents:
  "lacks ''documents'' ''event_id'' (schema_at (Suc 0))" "lacks ''documents'' ''geo_source'' (schema_at (Suc 0))"
  "lacks ''documents'' ''geo_longitude'' (schema_at (Suc 0))" "lacks ''documents'' ''geo_latitude'' (schema_at (Suc 0))"
  "lacks ''documents'' ''file_hash'' (schema_at 2)"
  by (simp_all add: lacks_def schema_steps upgrades_add additive_tables upgrades_additive)
    (simp_all add: upgrade_defs empty_schema_def on_table_def tbl_documents_def)

lemma back_3: "run_ddl downgrade_3 (schema_at 3) = schema_at 2"
  unfolding schema_steps(4)
  by (rule undo_3 [OF _ lacks_documents(5)]) (simp add: names_added, simp add: upgrade_defs empty_schema_def)

lemma back_2: "run_ddl downgrade_2 (schema_at 2) = schema_at (Suc 0)"
  unfolding schema_steps(3)
  by (rule undo_2 [OF _ lacks_documents(1-4)]) (simp add: names_added, simp add: upgrade_defs empty_schema_def)

lemma back_1: "run_ddl downgrade_1 (schema_at (Suc 0)) = schema_at 0"
  by (simp add: schema_steps undo_1)

lemma length_revisions: "length revisions = 6"
  by (simp add: revisions_def)

lemma step_back:
  assumes "n < 6"
  shows "run_ddl (snd (snd (snd (revisions ! n)))) (schema_at (Suc n)) = schema_at n"
proof -
  from assms consider "n = 0" | "n = 1" | "n = 2" | "n = 3" | "n = 4" | "n = 5" by linarith
  then show ?thesis
    by cases (simp_all add: revisions_def back_1 back_2 [unfolded numeral_2_eq_2] back_3 back_4 back_5 back_6)
qed

lemma way_back_Suc:
  assumes "m \<le> n" and "n < 6"
  shows "way_back m (Suc n) = snd (snd (snd (revisions ! n))) @ way_back m n"
proof -
  have "take (Suc n) revisions = take n revisions @ [revisions ! n]"
    using assms(2) by (simp add: take_Suc_conv_app_nth length_revisions)
  then have "drop m (take (Suc n) revisions) = drop m (take n revisions) @ [revisions ! n]"
    using assms by (simp add: length_revisions)
  then show ?thesis by (simp add: way_back_def split_beta)
qed

section \<open>Properties\<close>




end
