(* ===== verification/Spec2Isabelle.thy ===== *)
theory Spec2Isabelle
  imports System Sessions Lifecycle Migrations
begin

text \<open>
  CampusConnect is the back office of a college's clubs (FastAPI over PostgreSQL, \<^verbatim>\<open>src/backend/app\<close>). A
  club proposes an event, the proposal is approved step by step, the event takes place and is reported on,
  its spending is claimed and audited, the institution settles with the club, and the event is closed and
  archived. The services of \<^verbatim>\<open>app/services\<close> hold the rules; an endpoint resolves the user of the call, checks
  role and payload, calls a service method and serialises.

  How the program is modelled.

  \<^item> The database is one record \<open>db\<close> (theory Models): a list of rows for each table of
    \<^verbatim>\<open>models/domain.py\<close>, with its check, unique and exclusion constraints as \<open>db_ok\<close>.
  \<^item> A service method is a function of the request (the user, one reading of the clock, the settings), its
    arguments and the database, returning an exception class or its result with the new database. An exception
    rolls the transaction back, as \<open>get_db\<close> does; \<open>commit\<close> checks the constraints.
  \<^item> The texts of messages and notifications are left out. Identifiers (\<open>uuid4\<close>) come from a counter; SHA-256
    of canonical JSON is a parameter of the request.

  The theories, in the order they build on one another.

  \<^item> Prelude: errors with their HTTP status, the result combinators, tables, strings. Enums and Models: the data.
  \<^item> Interfaces: the contracts a service can have (it keeps the constraints, it only appends to the audit log,
    it keeps an invariant, it moves rows along a step relation, it never changes final rows), with the induction
    over a sequence of requests done once; every service below interprets them on its own dispatcher.
  \<^item> Access: ownership and role checks shared by the services. Scenario: a small institution for the witnesses.
  \<^item> Expenses: \<^verbatim>\<open>expense_service.py\<close> with the schemas of \<^verbatim>\<open>actual_expense.py\<close>.
  \<^item> FinanceBase, Advances, Incomes, Settlement: \<^verbatim>\<open>settlement_service.py\<close>.
  \<^item> Closeout: \<^verbatim>\<open>closeout_service.py\<close>.
  \<^item> Texts: the text rules of the payload schemas. Execution: \<^verbatim>\<open>event_execution_service.py\<close>.
  \<^item> Workflow: \<^verbatim>\<open>workflow_service.py\<close> with the confirmed event of \<^verbatim>\<open>event_service.py\<close>. Chain: what the approval
    chain keeps and promises, with an abstract chain it refines.
  \<^item> Proposals: the rest of \<^verbatim>\<open>event_service.py\<close>: drafts, submission (which starts the chain of Workflow and
    freezes the figures Settlement resolves), cancellation.
  \<^item> Venues and Budgets: \<^verbatim>\<open>venue_service.py\<close> and \<^verbatim>\<open>budget_service.py\<close>, which hang requirements on a draft.
  \<^item> Auth and Sessions: \<^verbatim>\<open>core/security.py\<close>, \<^verbatim>\<open>auth_service.py\<close>, \<^verbatim>\<open>rate_limiter.py\<close>, \<^verbatim>\<open>schemas/auth.py\<close>,
    \<^verbatim>\<open>api/deps.py\<close>. The password hash, the token signature and the mail-address check are libraries: they are the
    fields of a record \<open>library\<close>, and the theorems name what they rely on (a signed token decodes to its claims until
    it expires). A failed login is committed, so these operations return their answer beside the database.
  \<^item> Documents and Files: \<^verbatim>\<open>document_service.py\<close> on a store of files, which no rollback undoes.
  \<^item> Notifications, Dashboard, Resources: the services of those names.
  \<^item> Clubs: \<^verbatim>\<open>club_service.py\<close>. The slug search is a partial function; it needs no fuel, since it is shown
    to return after at most one attempt more than there are clubs.

  \<^item> Guards: \<^verbatim>\<open>core/permissions.py\<close> and the dependencies of \<^verbatim>\<open>api/deps.py\<close>: an endpoint acts for the account its
    bearer token names, as the database knows it, whatever the caller says. Campus_Api, Finance_Api, Document_Api:
    one definition per endpoint of \<^verbatim>\<open>app/api/v1/endpoints\<close>, with the payload schemas not met before; a lemma
    \<open>..._served\<close> each says that a change an endpoint makes is one its service makes for that account.
  \<^item> Lifecycle and Frames: what joins the components. \<open>governed\<close> is an invariant over proposals, chains and events
    (an event stands on an approved proposal, an approved proposal on a completed chain, no chain runs without a
    proposal under review), kept by the services that touch them; the frame lemmas say that the others leave them alone.
  \<^item> System: a call to any router as one function \<open>serve\<close> on the database, the files and the limiter, and the
    properties of the service as a whole, along any list of calls by any users.
  \<^item> Schema and Migrations: the operations of alembic on a catalogue, every operation of the six migrations, the
    tables of the ORM, and their agreement.

  Each theory ends with its properties, one theorem each, with a witness on the institution of Scenario. The
  lemmas before them come in three groups: what a handler's success implies and changes (an inductive
  \<open>..._effect\<close> relation with one rule per outcome), what those effects keep (the invariants), and
  interpretations of the contracts of Interfaces, which carry both over sequences of requests.

  Calls are served one after the other: the row locks and the version check of the services make a concurrent pair
  of calls on the same rows act as one of its two orders, and the model starts from there.

  Not modelled: response schemas (the row a service returns stands for its serialisation), request ids, client
  addresses and other headers but the one the login limiter reads, configuration parsing, logging, the health
  probes, \<^verbatim>\<open>migrations/env.py\<close>, the scripts, and the front end.
\<close>

end
